(* ===== verification/Prelude.thy ===== *)
theory Prelude
  imports Main "HOL-Library.Word"
begin

text \<open>
  Shared vocabulary of the development: the types every component uses (identifiers,
  instants, durations), the environment a Go function runs in (the external calls that
  may fail, the clock, the identifier source, the request context), the combinators for
  functions that return an error next to a state they have changed, the frame rules for
  such functions (locale \<open>frame\<close>), and the database tables of the repositories.
\<close>

unbundle bit_operations_syntax

section \<open>Automation\<close>

named_theorems prog_defs \<open>unfolding rules of the state-passing combinators\<close>
named_theorems row_simps \<open>lookup and update of table rows\<close>

section \<open>Identifiers, instants and durations\<close>

text \<open>
  A \<open>uuid.UUID\<close> is 16 bytes, most significant first. \<open>time.Time\<close> is an instant in
  nanoseconds, \<open>time.Duration\<close> a signed number of nanoseconds; neither overflows in the
  ranges the code uses, so both are integers.
\<close>

type_synonym uuid = "128 word"
type_synonym time = int
type_synonym duration = int

abbreviation uuid_nil :: uuid where "uuid_nil \<equiv> 0"

abbreviation seconds :: "int \<Rightarrow> duration" where "seconds n \<equiv> n * 1000000000"
abbreviation minutes :: "int \<Rightarrow> duration" where "minutes n \<equiv> n * 60000000000"
abbreviation milliseconds :: "int \<Rightarrow> duration" where "milliseconds n \<equiv> n * 1000000"

text \<open>Go's integer division and conversion truncate towards zero.\<close>

definition go_div :: "int \<Rightarrow> int \<Rightarrow> int" where
  "go_div a b = sgn a * sgn b * (\<bar>a\<bar> div \<bar>b\<bar>)"

lemma go_div_nonneg [simp]: "0 \<le> a \<Longrightarrow> 0 < b \<Longrightarrow> go_div a b = a div b"
  by (cases "a = 0") (auto simp: go_div_def)

text \<open>\<open>int(d.Seconds())\<close> of a duration.\<close>

definition whole_seconds :: "duration \<Rightarrow> int" where
  "whole_seconds d = go_div d (seconds 1)"

section \<open>The environment of a call\<close>

text \<open>
  Everything a Go function reads from outside its arguments: \<open>fault n\<close> says whether the
  \<open>n\<close>-th external call (SQL statement, message publication) fails, \<open>clock n\<close> is the
  \<open>n\<close>-th reading of \<open>time.Now()\<close>, \<open>fresh n\<close> the \<open>n\<close>-th \<open>uuid.New()\<close> and \<open>ctxdone n\<close>
  whether the context is found done at the \<open>n\<close>-th \<open>select\<close>. The counters move with the
  reads, so a theorem quantified over the environment covers every outside behaviour.
\<close>

record env =
  fault :: "nat \<Rightarrow> bool"
  calls :: nat
  clock :: "nat \<Rightarrow> time"
  reads :: nat
  fresh :: "nat \<Rightarrow> uuid"
  minted :: nat
  ctxdone :: "nat \<Rightarrow> bool"
  polls :: nat

text \<open>A call: the error or value returned, and the state it leaves behind in either case.\<close>

type_synonym ('s, 'e, 'a) prog = "'s \<Rightarrow> ('e + 'a) \<times> 's"

definition ret :: "'a \<Rightarrow> ('s, 'e, 'a) prog" where
  "ret x = (\<lambda>s. (Inr x, s))"

definition fail :: "'e \<Rightarrow> ('s, 'e, 'a) prog" where
  "fail e = (\<lambda>s. (Inl e, s))"

definition andThen :: "('s, 'e, 'a) prog \<Rightarrow> ('a \<Rightarrow> ('s, 'e, 'b) prog) \<Rightarrow> ('s, 'e, 'b) prog" where
  "andThen m f = (\<lambda>s. case m s of (Inl e, s') \<Rightarrow> (Inl e, s') | (Inr x, s') \<Rightarrow> f x s')"

text \<open>\<open>fmt.Errorf("...: %w", err)\<close> on the error path.\<close>

definition wrapped :: "('e \<Rightarrow> 'f) \<Rightarrow> ('s, 'e, 'a) prog \<Rightarrow> ('s, 'f, 'a) prog" where
  "wrapped w m = (\<lambda>s. case m s of (Inl e, s') \<Rightarrow> (Inl (w e), s') | (Inr x, s') \<Rightarrow> (Inr x, s'))"

text \<open>A call whose error the code inspects or drops: it always returns, with the error as a value.\<close>

definition attempt :: "('s, 'e, 'a) prog \<Rightarrow> ('s, 'f, 'e + 'a) prog" where
  "attempt m = (\<lambda>s. case m s of (r, s') \<Rightarrow> (Inr r, s'))"

definition lift_err :: "'e + 'a \<Rightarrow> ('s, 'e, 'a) prog" where
  "lift_err r = (\<lambda>s. (r, s))"

definition get_state :: "('s, 'e, 's) prog" where
  "get_state = (\<lambda>s. (Inr s, s))"

definition modify :: "('s \<Rightarrow> 's) \<Rightarrow> ('s, 'e, unit) prog" where
  "modify f = (\<lambda>s. (Inr (), f s))"

declare ret_def [prog_defs] fail_def [prog_defs] andThen_def [prog_defs] wrapped_def [prog_defs]
  attempt_def [prog_defs] lift_err_def [prog_defs] get_state_def [prog_defs] modify_def [prog_defs]

definition ext_call :: "'e \<Rightarrow> ('x env_scheme, 'e, unit) prog" where
  "ext_call e = (\<lambda>s. (if fault s (calls s) then Inl e else Inr (), s\<lparr>calls := Suc (calls s)\<rparr>))"

definition time_now :: "('x env_scheme, 'e, time) prog" where
  "time_now = (\<lambda>s. (Inr (clock s (reads s)), s\<lparr>reads := Suc (reads s)\<rparr>))"

definition uuid_new :: "('x env_scheme, 'e, uuid) prog" where
  "uuid_new = (\<lambda>s. (Inr (fresh s (minted s)), s\<lparr>minted := Suc (minted s)\<rparr>))"

definition ctx_done :: "('x env_scheme, 'e, bool) prog" where
  "ctx_done = (\<lambda>s. (Inr (ctxdone s (polls s)), s\<lparr>polls := Suc (polls s)\<rparr>))"

declare ext_call_def [prog_defs] time_now_def [prog_defs] uuid_new_def [prog_defs] ctx_done_def [prog_defs]

lemma andThen_ret [simp]: "andThen (ret x) f = f x"
  by (simp add: prog_defs fun_eq_iff)

lemma andThen_fail [simp]: "andThen (fail e) f = fail e"
  by (simp add: prog_defs fun_eq_iff)

lemma andThen_assoc: "andThen (andThen m f) g = andThen m (\<lambda>x. andThen (f x) g)"
  by (auto simp: prog_defs fun_eq_iff split: prod.splits sum.splits)

lemma andThen_Inr:
  "andThen m f s = (Inr y, t) \<longleftrightarrow> (\<exists>x s'. m s = (Inr x, s') \<and> f x s' = (Inr y, t))"
  by (auto simp: andThen_def split: prod.splits sum.splits)

lemma andThen_Inl:
  "andThen m f s = (Inl e, t) \<longleftrightarrow>
     m s = (Inl e, t) \<or> (\<exists>x s'. m s = (Inr x, s') \<and> f x s' = (Inl e, t))"
  by (auto simp: andThen_def split: prod.splits sum.splits)

lemma attempt_value: obtains r t where "attempt m s = (Inr r, t)"
  by (cases "m s") (simp add: attempt_def)

lemma andThen_run:
  "m s = (Inr x, s') \<Longrightarrow> andThen m f s = f x s'" "m s = (Inl e, s') \<Longrightarrow> andThen m f s = (Inl e, s')"
  by (simp_all add: andThen_def)

lemma wrapped_Inr [simp]: "wrapped w m s = (Inr y, t) \<longleftrightarrow> m s = (Inr y, t)"
  by (auto simp: wrapped_def split: prod.splits sum.splits)

lemma wrapped_Inl: "wrapped w m s = (Inl e, t) \<longleftrightarrow> (\<exists>e'. e = w e' \<and> m s = (Inl e', t))"
  by (auto simp: wrapped_def split: prod.splits sum.splits)

text \<open>No external call fails and the context is never done: the run without outside trouble.\<close>

definition calm :: "'x env_scheme \<Rightarrow> bool" where
  "calm s \<longleftrightarrow> (\<forall>n. \<not> fault s n) \<and> (\<forall>n. \<not> ctxdone s n)"

lemma calm_simps [simp]:
  "calm s \<Longrightarrow> \<not> fault s n" "calm s \<Longrightarrow> \<not> ctxdone s n"
  "calm (s\<lparr>calls := n\<rparr>) = calm s" "calm (s\<lparr>reads := n\<rparr>) = calm s"
  "calm (s\<lparr>minted := n\<rparr>) = calm s" "calm (s\<lparr>polls := n\<rparr>) = calm s"
  by (auto simp: calm_def)

lemma not_calm: "ctxdone s n \<Longrightarrow> \<not> calm s" "fault s n \<Longrightarrow> \<not> calm s"
  by auto

lemma calm_cong: "fault t = fault s \<Longrightarrow> ctxdone t = ctxdone s \<Longrightarrow> calm t \<longleftrightarrow> calm s"
  by (simp only: calm_def)

section \<open>Frame rules\<close>

text \<open>
  \<open>keeps R m\<close>: whatever \<open>m\<close> returns, the state it leaves is related by \<open>R\<close> to the
  state it started from. An invariant is the relation "if it held before, it holds
  after"; "rows of this kind never change" is another. Every such relation that is
  reflexive and transitive is carried through the combinators by the rules of the
  locale, so a component proves it for its primitive operations only.
\<close>

definition keeps :: "('s \<Rightarrow> 's \<Rightarrow> bool) \<Rightarrow> ('s, 'e, 'a) prog \<Rightarrow> bool" where
  "keeps R m \<longleftrightarrow> (\<forall>s. R s (snd (m s)))"

lemma keepsD: "keeps R m \<Longrightarrow> m s = (r, t) \<Longrightarrow> R s t"
  by (metis keeps_def snd_conv)

locale frame =
  fixes R :: "'s \<Rightarrow> 's \<Rightarrow> bool"
  assumes R_refl: "R s s"
    and R_trans: "R s t \<Longrightarrow> R t u \<Longrightarrow> R s u"
begin

lemma keeps_ret [intro]: "keeps R (ret x)"
  by (simp add: keeps_def ret_def R_refl)

lemma keeps_fail [intro]: "keeps R (fail e)"
  by (simp add: keeps_def fail_def R_refl)

lemma keeps_lift [intro]: "keeps R (lift_err r)"
  by (simp add: keeps_def lift_err_def R_refl)

lemma keeps_get [intro]: "keeps R get_state"
  by (simp add: keeps_def get_state_def R_refl)

lemma keeps_andThen [intro]:
  assumes "keeps R m" and "\<And>x. keeps R (f x)"
  shows "keeps R (andThen m f)"
  unfolding keeps_def
proof
  fix s
  obtain r s' where m: "m s = (r, s')" by (cases "m s")
  with assms(1) have 1: "R s s'" by (rule keepsD)
  show "R s (snd (andThen m f s))"
  proof (cases r)
    case (Inl e)
    with m 1 show ?thesis by (simp add: andThen_def)
  next
    case (Inr x)
    have "R s' (snd (f x s'))" using assms(2) by (simp add: keeps_def)
    with m 1 Inr show ?thesis by (auto simp: andThen_def intro: R_trans)
  qed
qed

lemma keeps_wrapped [intro]: "keeps R m \<Longrightarrow> keeps R (wrapped w m)"
  by (auto simp: keeps_def wrapped_def split: prod.splits sum.splits) (metis snd_conv)+

lemma keeps_attempt [intro]: "keeps R m \<Longrightarrow> keeps R (attempt m)"
  by (auto simp: keeps_def attempt_def split: prod.splits) (metis snd_conv)

lemma keeps_if [intro]:
  "(b \<Longrightarrow> keeps R m) \<Longrightarrow> (\<not> b \<Longrightarrow> keeps R n) \<Longrightarrow> keeps R (if b then m else n)"
  by simp

lemma keeps_option [intro]:
  "(x = None \<Longrightarrow> keeps R m) \<Longrightarrow> (\<And>y. x = Some y \<Longrightarrow> keeps R (f y)) \<Longrightarrow>
   keeps R (case x of None \<Rightarrow> m | Some y \<Rightarrow> f y)"
  by (cases x) auto

lemma keeps_sum [intro]:
  "(\<And>y. x = Inl y \<Longrightarrow> keeps R (f y)) \<Longrightarrow> (\<And>y. x = Inr y \<Longrightarrow> keeps R (g y)) \<Longrightarrow>
   keeps R (case x of Inl y \<Rightarrow> f y | Inr y \<Rightarrow> g y)"
  by (cases x) auto

lemma keeps_let [intro]: "(\<And>x. keeps R (f x)) \<Longrightarrow> keeps R (let x = e in f x)"
  by simp

lemma keeps_modify: "(\<And>s. R s (f s)) \<Longrightarrow> keeps R (modify f)"
  by (simp add: keeps_def modify_def)

lemmas keeps_rules = keeps_ret keeps_fail keeps_lift keeps_get keeps_andThen
  keeps_wrapped keeps_attempt keeps_if keeps_option keeps_sum keeps_let

end

section \<open>Pre- and postconditions\<close>

text \<open>
  \<open>spec P m Q E\<close>: started in a state with \<open>P\<close>, the call ends either with a value and \<open>Q\<close>,
  or with an error and \<open>E\<close>. The rules follow the combinators; the intermediate assertion of
  \<open>andThen\<close> is given where the rule is used.
\<close>

definition spec :: "('s \<Rightarrow> bool) \<Rightarrow> ('s, 'e, 'a) prog \<Rightarrow> ('a \<Rightarrow> 's \<Rightarrow> bool) \<Rightarrow> ('s \<Rightarrow> bool) \<Rightarrow> bool" where
  "spec P m Q E \<longleftrightarrow> (\<forall>s. P s \<longrightarrow> (case m s of (Inr x, t) \<Rightarrow> Q x t | (Inl e, t) \<Rightarrow> E t))"

lemma specI:
  "(\<And>s x t. P s \<Longrightarrow> m s = (Inr x, t) \<Longrightarrow> Q x t) \<Longrightarrow> (\<And>s e t. P s \<Longrightarrow> m s = (Inl e, t) \<Longrightarrow> E t) \<Longrightarrow>
   spec P m Q E"
  by (auto simp: spec_def split: prod.splits sum.splits)

lemma spec_Inr: "spec P m Q E \<Longrightarrow> P s \<Longrightarrow> m s = (Inr x, t) \<Longrightarrow> Q x t"
  by (auto simp: spec_def)

lemma spec_Inl: "spec P m Q E \<Longrightarrow> P s \<Longrightarrow> m s = (Inl e, t) \<Longrightarrow> E t"
  by (auto simp: spec_def)

lemma spec_ret: "(\<And>s. P s \<Longrightarrow> Q x s) \<Longrightarrow> spec P (ret x) Q E"
  by (simp add: spec_def ret_def)

lemma spec_fail: "(\<And>s. P s \<Longrightarrow> E s) \<Longrightarrow> spec P (fail e) Q E"
  by (simp add: spec_def fail_def)

lemma spec_andThen:
  "spec P m R E \<Longrightarrow> (\<And>x. spec (R x) (f x) Q E) \<Longrightarrow> spec P (andThen m f) Q E"
  by (fastforce simp: spec_def andThen_def split: prod.splits sum.splits)

lemma spec_wrapped: "spec P m Q E \<Longrightarrow> spec P (wrapped w m) Q E"
  by (fastforce simp: spec_def wrapped_def split: prod.splits sum.splits)

lemma spec_attempt: "spec P m (\<lambda>x. Q (Inr x)) (\<lambda>t. \<forall>e. Q (Inl e) t) \<Longrightarrow> spec P (attempt m) Q E"
  unfolding spec_def attempt_def
proof (intro allI impI)
  fix s
  assume m: "\<forall>s. P s \<longrightarrow> (case m s of (Inl e, t) \<Rightarrow> \<forall>e. Q (Inl e) t | (Inr x, t) \<Rightarrow> Q (Inr x) t)" and "P s"
  obtain r t where "m s = (r, t)" by (cases "m s")
  with m \<open>P s\<close> have "Q r t" by (cases r) force+
  with \<open>m s = (r, t)\<close> show "case (case m s of (r, s') \<Rightarrow> (Inr r, s')) of (Inl e, t) \<Rightarrow> E t | (Inr x, t) \<Rightarrow> Q x t"
    by simp
qed

lemma spec_get: "(\<And>s. P s \<Longrightarrow> Q s s) \<Longrightarrow> spec P get_state Q E"
  by (simp add: spec_def get_state_def)

lemma spec_modify: "(\<And>s. P s \<Longrightarrow> Q () (f s)) \<Longrightarrow> spec P (modify f) Q E"
  by (simp add: spec_def modify_def)

lemma spec_pre: "spec P m Q E \<Longrightarrow> (\<And>s. P' s \<Longrightarrow> P s) \<Longrightarrow> spec P' m Q E"
  by (simp add: spec_def)

lemma spec_post:
  "spec P m Q E \<Longrightarrow> (\<And>x s. Q x s \<Longrightarrow> Q' x s) \<Longrightarrow> (\<And>s. E s \<Longrightarrow> E' s) \<Longrightarrow> spec P m Q' E'"
  by (fastforce simp: spec_def split: prod.splits sum.splits)

lemma spec_if: "(b \<Longrightarrow> spec P m Q E) \<Longrightarrow> (\<not> b \<Longrightarrow> spec P n Q E) \<Longrightarrow> spec P (if b then m else n) Q E"
  by simp

lemma spec_option:
  "(x = None \<Longrightarrow> spec P m Q E) \<Longrightarrow> (\<And>y. x = Some y \<Longrightarrow> spec P (f y) Q E) \<Longrightarrow>
   spec P (case x of None \<Rightarrow> m | Some y \<Rightarrow> f y) Q E"
  by (cases x) auto

lemma spec_sum:
  "(\<And>y. x = Inl y \<Longrightarrow> spec P (f y) Q E) \<Longrightarrow> (\<And>y. x = Inr y \<Longrightarrow> spec P (g y) Q E) \<Longrightarrow>
   spec P (case x of Inl y \<Rightarrow> f y | Inr y \<Rightarrow> g y) Q E"
  by (cases x) auto

text \<open>A pure fact may be moved between the precondition and the context.\<close>

lemma spec_assume: "(b \<Longrightarrow> spec P m Q E) \<Longrightarrow> spec (\<lambda>s. b \<and> P s) m Q E"
  by (auto simp: spec_def)

lemma spec_conj:
  "spec P m Q E \<Longrightarrow> spec P m R F \<Longrightarrow> spec P m (\<lambda>x s. Q x s \<and> R x s) E"
  by (fastforce simp: spec_def split: prod.splits sum.splits)

lemma spec_ex:
  assumes "\<And>x. spec (P x) m Q E"
  shows "spec (\<lambda>s. \<exists>x. P x s) m Q E"
proof (rule specI; elim exE)
  show "Q y t" if "m s = (Inr y, t)" "P x s" for s y t x
    using spec_Inr[OF assms that(2,1)] .
  show "E t" if "m s = (Inl e, t)" "P x s" for s e t x
    using spec_Inl[OF assms that(2,1)] .
qed

lemmas spec_rules = spec_ret spec_fail spec_wrapped spec_attempt spec_get spec_modify spec_if
  spec_option spec_sum

text \<open>Reading the clock, the identifier source and the context, and calling out.\<close>

lemma spec_uuid_new:
  "(\<And>s i. P s \<Longrightarrow> Q i (s\<lparr>minted := Suc (minted s)\<rparr>)) \<Longrightarrow> spec P uuid_new Q E"
  by (simp add: spec_def uuid_new_def)

lemma spec_time_now:
  "(\<And>s now. P s \<Longrightarrow> Q now (s\<lparr>reads := Suc (reads s)\<rparr>)) \<Longrightarrow> spec P time_now Q E"
  by (simp add: spec_def time_now_def)

lemma spec_ctx_done:
  "(\<And>s b. P s \<Longrightarrow> Q b (s\<lparr>polls := Suc (polls s)\<rparr>)) \<Longrightarrow> spec P ctx_done Q E"
  by (simp add: spec_def ctx_done_def)

lemma spec_ext_call:
  "(\<And>s. P s \<Longrightarrow> Q () (s\<lparr>calls := Suc (calls s)\<rparr>)) \<Longrightarrow> (\<And>s. P s \<Longrightarrow> E (s\<lparr>calls := Suc (calls s)\<rparr>)) \<Longrightarrow>
   spec P (ext_call e) Q E"
  by (simp add: spec_def ext_call_def)

lemmas spec_reads = spec_uuid_new spec_time_now spec_ctx_done spec_ext_call

section \<open>Tables\<close>

text \<open>
  A table is the list of its rows in insertion order; \<open>key\<close> reads the primary key.
  \<open>row_of\<close> is \<open>SELECT ... WHERE id = $1\<close>, \<open>update_row\<close> is \<open>UPDATE ... WHERE id = $1\<close>.
\<close>

definition row_of :: "('r \<Rightarrow> 'k) \<Rightarrow> 'k \<Rightarrow> 'r list \<Rightarrow> 'r option" where
  "row_of key k rs = find (\<lambda>r. key r = k) rs"

definition update_row :: "('r \<Rightarrow> 'k) \<Rightarrow> 'k \<Rightarrow> ('r \<Rightarrow> 'r) \<Rightarrow> 'r list \<Rightarrow> 'r list" where
  "update_row key k f rs = map (\<lambda>r. if key r = k then f r else r) rs"

lemma row_of_simps [row_simps]:
  "row_of key k [] = None"
  "row_of key k (r # rs) = (if key r = k then Some r else row_of key k rs)"
  by (simp_all add: row_of_def)

lemma row_of_Some: "row_of key k rs = Some r \<Longrightarrow> r \<in> set rs \<and> key r = k"
  by (induction rs) (auto simp: row_simps split: if_splits)

lemma row_of_None: "row_of key k rs = None \<longleftrightarrow> k \<notin> key ` set rs"
  by (induction rs) (auto simp: row_simps)

lemma row_of_distinct:
  "distinct (map key rs) \<Longrightarrow> r \<in> set rs \<Longrightarrow> row_of key (key r) rs = Some r"
  by (induction rs) (auto simp: row_simps rev_image_eqI)

lemma row_of_append [row_simps]:
  "row_of key k (rs @ [r]) =
     (case row_of key k rs of Some x \<Rightarrow> Some x | None \<Rightarrow> if key r = k then Some r else None)"
  by (induction rs) (auto simp: row_simps)

lemma row_of_update [row_simps]:
  assumes "\<And>r. key (f r) = key r"
  shows "row_of key j (update_row key k f rs) =
    (if j = k then map_option f (row_of key k rs) else row_of key j rs)"
  by (induction rs) (auto simp: row_simps update_row_def assms)

lemma keys_update [row_simps]:
  assumes "\<And>r. key (f r) = key r"
  shows "map key (update_row key k f rs) = map key rs"
  by (simp add: update_row_def assms)

lemma length_update [row_simps]: "length (update_row key k f rs) = length rs"
  by (simp add: update_row_def)

lemma set_update: "r \<in> set (update_row key k f rs) \<Longrightarrow> r \<in> set rs \<or> (\<exists>q \<in> set rs. key q = k \<and> r = f q)"
  by (auto simp: update_row_def split: if_splits)

section \<open>Lists\<close>

text \<open>The first element of a list that satisfies a predicate, with its position.\<close>

fun index_where :: "('a \<Rightarrow> bool) \<Rightarrow> 'a list \<Rightarrow> nat" where
  "index_where P [] = 0"
| "index_where P (x # xs) = (if P x then 0 else Suc (index_where P xs))"

lemma index_where_le: "index_where P xs \<le> length xs"
  by (induction xs) auto

lemma index_where_before: "i < index_where P xs \<Longrightarrow> \<not> P (xs ! i)"
  by (induction xs arbitrary: i) (auto simp: nth_Cons' split: if_splits)

lemma index_where_at: "index_where P xs < length xs \<Longrightarrow> P (xs ! index_where P xs)"
  by (induction xs) auto

lemma drop_index_where: "drop (index_where P xs) xs = dropWhile (\<lambda>x. \<not> P x) xs"
  by (induction xs) auto

end
