(* ===== verification/Deployment.thy ===== *)
theory Deployment
  imports Prelude
begin

text \<open>
  The deployment model of \<open>internal/models/deployment.go\<close>: statuses and the transition
  table, the deployment, phase and rollback rows, validation and the one operation that
  moves a deployment through its life cycle. The life cycle is also given as a step
  relation (\<open>lifecycle\<close>), which \<open>transition_to\<close> refines.
\<close>

section \<open>Data\<close>

text \<open>The Go types are strings; a value outside the constants is kept as \<open>Other...\<close>.\<close>

datatype deploy_status =
    DeployStatusPending | DeployStatusRunning | DeployStatusPaused | DeployStatusPromoting
  | DeployStatusCompleted | DeployStatusFailed | DeployStatusRolledBack | DeployStatusCancelled
  | OtherDeployStatus string

datatype deploy_strategy =
    DeployStrategyCanary | DeployStrategyBlueGreen | DeployStrategyRolling
  | OtherDeployStrategy string

text \<open>\<open>DeployModeUnset\<close> is the empty string, which the service replaces by orchestrate.\<close>

datatype deploy_mode =
    DeployModeUnset | DeployModeOrchestrate | DeployModeRecord | OtherDeployMode string

datatype phase_status =
    DeploymentPhaseStatusPending | DeploymentPhaseStatusActive | DeploymentPhaseStatusPassed
  | DeploymentPhaseStatusFailed | DeploymentPhaseStatusSkipped

record deployment =
  dep_id :: uuid
  dep_application_id :: uuid
  dep_environment_id :: uuid
  dep_strategy :: deploy_strategy
  dep_status :: deploy_status
  dep_artifact :: string
  dep_version :: string
  dep_commit_sha :: string
  dep_traffic_percent :: int
  dep_previous :: "uuid option"
  dep_flag_test_key :: "string option"
  dep_created_by :: uuid
  dep_mode :: deploy_mode
  dep_source :: "string option"
  dep_started_at :: "time option"
  dep_completed_at :: "time option"
  dep_created_at :: time
  dep_updated_at :: time

record deployment_phase =
  ph_id :: uuid
  ph_deployment_id :: uuid
  ph_name :: string
  ph_status :: phase_status
  ph_traffic_percent :: int
  ph_duration :: int
  ph_sort_order :: int
  ph_auto_promote :: bool
  ph_started_at :: "time option"
  ph_completed_at :: "time option"

section \<open>The transition table\<close>

text \<open>\<open>validTransitions[s]\<close>: \<open>None\<close> when the map has no such key.\<close>

fun valid_transitions :: "deploy_status \<Rightarrow> deploy_status list option" where
  "valid_transitions DeployStatusPending = Some [DeployStatusRunning, DeployStatusCancelled]"
| "valid_transitions DeployStatusRunning = Some [DeployStatusPaused, DeployStatusPromoting,
     DeployStatusCompleted, DeployStatusFailed, DeployStatusRolledBack, DeployStatusCancelled]"
| "valid_transitions DeployStatusPaused = Some [DeployStatusRunning, DeployStatusRolledBack,
     DeployStatusCancelled]"
| "valid_transitions DeployStatusPromoting = Some [DeployStatusCompleted, DeployStatusFailed,
     DeployStatusRolledBack]"
| "valid_transitions DeployStatusCompleted = Some []"
| "valid_transitions DeployStatusFailed = Some []"
| "valid_transitions DeployStatusRolledBack = Some []"
| "valid_transitions DeployStatusCancelled = Some []"
| "valid_transitions (OtherDeployStatus x) = None"

datatype transition_error =
    UnknownCurrentStatus deploy_status
  | InvalidStatusTransition deploy_status deploy_status

definition validate_transition :: "deployment \<Rightarrow> deploy_status \<Rightarrow> transition_error + unit" where
  "validate_transition d target =
     (case valid_transitions (dep_status d) of
        None \<Rightarrow> Inl (UnknownCurrentStatus (dep_status d))
      | Some allowed \<Rightarrow>
          if List.member allowed target then Inr ()
          else Inl (InvalidStatusTransition (dep_status d) target))"

text \<open>
  \<open>TransitionTo\<close> writes through the pointer; here it returns the new deployment, and no
  deployment at all where the code returns before its first write. \<open>now\<close> is the reading
  of the clock.
\<close>

definition transition_to :: "time \<Rightarrow> deploy_status \<Rightarrow> deployment \<Rightarrow> transition_error + deployment" where
  "transition_to now target d =
     (case validate_transition d target of
        Inl e \<Rightarrow> Inl e
      | Inr _ \<Rightarrow>
          let d' = d\<lparr>dep_status := target, dep_updated_at := now\<rparr>
          in Inr (case target of
               DeployStatusRunning \<Rightarrow>
                 if dep_started_at d' = None then d'\<lparr>dep_started_at := Some now\<rparr> else d'
             | DeployStatusCompleted \<Rightarrow> d'\<lparr>dep_completed_at := Some now\<rparr>
             | DeployStatusFailed \<Rightarrow> d'\<lparr>dep_completed_at := Some now\<rparr>
             | DeployStatusRolledBack \<Rightarrow> d'\<lparr>dep_completed_at := Some now\<rparr>
             | DeployStatusCancelled \<Rightarrow> d'\<lparr>dep_completed_at := Some now\<rparr>
             | _ \<Rightarrow> d'))"

fun terminal_status :: "deploy_status \<Rightarrow> bool" where
  "terminal_status DeployStatusCompleted = True"
| "terminal_status DeployStatusFailed = True"
| "terminal_status DeployStatusRolledBack = True"
| "terminal_status DeployStatusCancelled = True"
| "terminal_status _ = False"

definition is_terminal :: "deployment \<Rightarrow> bool" where
  "is_terminal d = terminal_status (dep_status d)"

section \<open>Validation\<close>

datatype deployment_invalid =
    ApplicationIDRequired | EnvironmentIDRequired | ArtifactRequired | VersionRequired
  | CreatedByRequired | UnsupportedStrategy | UnsupportedMode deploy_mode

definition validate_deployment :: "deployment \<Rightarrow> deployment_invalid + unit" where
  "validate_deployment d =
     (if dep_application_id d = uuid_nil then Inl ApplicationIDRequired
      else if dep_environment_id d = uuid_nil then Inl EnvironmentIDRequired
      else if dep_artifact d = '''' then Inl ArtifactRequired
      else if dep_version d = '''' then Inl VersionRequired
      else if dep_created_by d = uuid_nil then Inl CreatedByRequired
      else case dep_mode d of
          OtherDeployMode m \<Rightarrow> Inl (UnsupportedMode (OtherDeployMode m))
        | DeployModeRecord \<Rightarrow> Inr ()
        | _ \<Rightarrow> (case dep_strategy d of
                  OtherDeployStrategy s \<Rightarrow> Inl UnsupportedStrategy
                | _ \<Rightarrow> Inr ()))"

section \<open>The life cycle as a step relation\<close>

inductive lifecycle :: "deploy_status \<Rightarrow> deploy_status \<Rightarrow> bool" where
  start: "lifecycle DeployStatusPending DeployStatusRunning"
| drop: "lifecycle DeployStatusPending DeployStatusCancelled"
| pause: "lifecycle DeployStatusRunning DeployStatusPaused"
| resume: "lifecycle DeployStatusPaused DeployStatusRunning"
| promote: "lifecycle DeployStatusRunning DeployStatusPromoting"
| complete: "s \<in> {DeployStatusRunning, DeployStatusPromoting} \<Longrightarrow> lifecycle s DeployStatusCompleted"
| break: "s \<in> {DeployStatusRunning, DeployStatusPromoting} \<Longrightarrow> lifecycle s DeployStatusFailed"
| roll_back: "s \<in> {DeployStatusRunning, DeployStatusPaused, DeployStatusPromoting} \<Longrightarrow>
    lifecycle s DeployStatusRolledBack"
| cancel: "s \<in> {DeployStatusRunning, DeployStatusPaused} \<Longrightarrow> lifecycle s DeployStatusCancelled"

inductive_simps lifecycle_iff: "lifecycle s t"

lemma table_lifecycle:
  "lifecycle s t \<longleftrightarrow> (\<exists>ts. valid_transitions s = Some ts \<and> t \<in> set ts)"
  by (cases s) (auto simp: lifecycle_iff)

lemma validate_transition_ok [simp]:
  "validate_transition d t = Inr u \<longleftrightarrow> lifecycle (dep_status d) t"
  by (auto simp: validate_transition_def table_lifecycle split: option.splits)

lemma terminal_stuck: "terminal_status s \<Longrightarrow> \<not> lifecycle s t"
  by (cases s) (auto simp: lifecycle_iff)

lemma lifecycle_known: "lifecycle s t \<Longrightarrow> valid_transitions t \<noteq> None"
  by (auto simp: lifecycle_iff)

lemma transition_to_Inr:
  assumes "transition_to now t d = Inr d'"
  shows "lifecycle (dep_status d) t" and "dep_status d' = t" and "dep_updated_at d' = now"
    and "dep_id d' = dep_id d" and "dep_traffic_percent d' = dep_traffic_percent d"
    and "dep_started_at d' =
           (if t = DeployStatusRunning \<and> dep_started_at d = None then Some now else dep_started_at d)"
    and "dep_completed_at d' = (if terminal_status t then Some now else dep_completed_at d)"
proof -
  from assms obtain u where v: "validate_transition d t = Inr u"
    by (auto simp: transition_to_def split: sum.splits)
  then show "lifecycle (dep_status d) t" by simp
  from assms v show "dep_status d' = t" "dep_updated_at d' = now" "dep_id d' = dep_id d"
    "dep_traffic_percent d' = dep_traffic_percent d"
    "dep_started_at d' =
       (if t = DeployStatusRunning \<and> dep_started_at d = None then Some now else dep_started_at d)"
    "dep_completed_at d' = (if terminal_status t then Some now else dep_completed_at d)"
    by (auto simp: transition_to_def Let_def split: deploy_status.splits if_splits)
qed

lemma transition_to_Inl_iff: "(\<exists>e. transition_to now t d = Inl e) \<longleftrightarrow> \<not> lifecycle (dep_status d) t"
  using validate_transition_ok[of d t]
  by (auto simp: transition_to_def Let_def simp del: validate_transition_ok split: sum.splits)

lemma transition_to_ok: "lifecycle (dep_status d) t \<Longrightarrow> \<exists>d'. transition_to now t d = Inr d'"
  using transition_to_Inl_iff[of now t d] by (cases "transition_to now t d") auto

text \<open>The immutable part of a row: every column that no transition writes.\<close>

lemma transition_to_rest:
  "transition_to now t d = Inr d' \<Longrightarrow>
   d' = d\<lparr>dep_status := dep_status d', dep_started_at := dep_started_at d',
          dep_completed_at := dep_completed_at d', dep_updated_at := dep_updated_at d'\<rparr>"
  by (auto simp: transition_to_def Let_def split: sum.splits deploy_status.splits if_splits)

section \<open>Well-formed deployments\<close>

text \<open>
  What the timestamps say about the status: a deployment that ever ran has a start, a
  finished one has an end, a deployment in flight has none.
\<close>

fun started_status :: "deploy_status \<Rightarrow> bool" where
  "started_status DeployStatusRunning = True"
| "started_status DeployStatusPaused = True"
| "started_status DeployStatusPromoting = True"
| "started_status _ = False"

definition wf_deployment :: "deployment \<Rightarrow> bool" where
  "wf_deployment d \<longleftrightarrow>
     (started_status (dep_status d) \<longrightarrow> dep_started_at d \<noteq> None) \<and>
     (terminal_status (dep_status d) \<longleftrightarrow> dep_completed_at d \<noteq> None)"

lemma transition_to_wf:
  assumes "wf_deployment d" and "transition_to now t d = Inr d'"
  shows "wf_deployment d'"
proof -
  note facts = transition_to_Inr[OF assms(2)]
  from facts(1) have "terminal_status (dep_status d) = False" using terminal_stuck by blast
  with assms(1) have "dep_completed_at d = None" by (simp add: wf_deployment_def)
  moreover have "started_status t \<Longrightarrow> t \<noteq> DeployStatusRunning \<Longrightarrow> started_status (dep_status d)"
    using facts(1) by (auto simp: lifecycle_iff)
  ultimately show ?thesis using assms(1) facts
    by (auto simp: wf_deployment_def)
qed

text \<open>
  The life cycle of a deployment. \<open>TransitionTo\<close> succeeds exactly on the edges of the
  life cycle; it then sets the status, stamps the update, stamps the start the first time
  the deployment runs and the end when it finishes, keeps a deployment's timestamps
  consistent with its status, and from a finished deployment it never succeeds.
\<close>

theorem transition_to_correct:
  assumes "wf_deployment d"
  shows "case transition_to now t d of
      Inr d' \<Rightarrow> lifecycle (dep_status d) t \<and> wf_deployment d' \<and> dep_status d' = t \<and>
        dep_updated_at d' = now \<and>
        dep_started_at d' = (if t = DeployStatusRunning \<and> dep_started_at d = None then Some now
                             else dep_started_at d) \<and>
        dep_completed_at d' = (if terminal_status t then Some now else None)
    | Inl e \<Rightarrow> \<not> lifecycle (dep_status d) t \<and>
        (is_terminal d \<longrightarrow> e = InvalidStatusTransition (dep_status d) t)"
proof (cases "transition_to now t d")
  case (Inl e)
  then have "\<not> lifecycle (dep_status d) t" using transition_to_ok[of d t now] by auto
  with Inl show ?thesis
    by (cases "dep_status d")
      (auto simp: is_terminal_def transition_to_def validate_transition_def split: if_splits)
next
  case (Inr d')
  note facts = transition_to_Inr[OF Inr]
  then have "dep_completed_at d = None"
    using assms terminal_stuck by (auto simp: wf_deployment_def)
  with Inr facts transition_to_wf[OF assms Inr] show ?thesis by simp
qed

text \<open>A deployment to run the model on.\<close>

definition sample_deployment :: "deploy_status \<Rightarrow> deployment" where
  "sample_deployment s = \<lparr> dep_id = 7, dep_application_id = 1, dep_environment_id = 2,
     dep_strategy = DeployStrategyCanary, dep_status = s, dep_artifact = ''app'',
     dep_version = ''1.2'', dep_commit_sha = '''', dep_traffic_percent = 10, dep_previous = None,
     dep_flag_test_key = None, dep_created_by = 3, dep_mode = DeployModeOrchestrate,
     dep_source = None, dep_started_at = (if started_status s then Some 5 else None),
     dep_completed_at = (if terminal_status s then Some 6 else None),
     dep_created_at = 4, dep_updated_at = 4 \<rparr>"

lemma sample_deployment_wf: "wf_deployment (sample_deployment s)"
  by (cases s) (simp_all add: wf_deployment_def sample_deployment_def)

lemma transition_to_correct_witness:
  "case transition_to 9 DeployStatusRunning (sample_deployment DeployStatusPending) of
     Inr d' \<Rightarrow> wf_deployment d' \<and> dep_started_at d' = Some 9 | Inl e \<Rightarrow> False"
  using transition_to_correct[OF sample_deployment_wf[of DeployStatusPending],
      where now = 9 and t = DeployStatusRunning]
    transition_to_ok[of "sample_deployment DeployStatusPending" DeployStatusRunning 9]
  by (auto simp: sample_deployment_def lifecycle_iff split: sum.splits)

end
