(* ===== verification/Float64.thy ===== *)
theory Float64
  imports Complex_Main Prelude
begin

text \<open>
  Go's \<open>float64\<close>. A finite double is a rational number, so comparisons of finite doubles are
  exact comparisons of rationals; NaN and the infinities compare as IEEE 754 says (every
  comparison with NaN but \<open>!=\<close> is false). Sums, products and quotients are the exact
  result rounded to nearest-even at 53 bits (\<open>round64\<close>). The two zeros are identified: the
  code never divides by a zero it has not excluded, the only place they differ.
\<close>

datatype f64 = Fin rat | PosInf | NegInf | NaN

abbreviation f64_zero :: f64 where "f64_zero \<equiv> Fin 0"
abbreviation f64_one :: f64 where "f64_one \<equiv> Fin 1"

section \<open>Comparisons\<close>

fun flt :: "f64 \<Rightarrow> f64 \<Rightarrow> bool" where
  "flt (Fin a) (Fin b) = (a < b)"
| "flt NaN _ = False"
| "flt _ NaN = False"
| "flt NegInf NegInf = False"
| "flt NegInf _ = True"
| "flt PosInf _ = False"
| "flt (Fin _) PosInf = True"
| "flt (Fin _) NegInf = False"

fun feq :: "f64 \<Rightarrow> f64 \<Rightarrow> bool" where
  "feq NaN _ = False"
| "feq _ NaN = False"
| "feq a b = (a = b)"

definition fle :: "f64 \<Rightarrow> f64 \<Rightarrow> bool" where
  "fle a b = (flt a b \<or> feq a b)"

abbreviation fgt :: "f64 \<Rightarrow> f64 \<Rightarrow> bool" where "fgt a b \<equiv> flt b a"
abbreviation fge :: "f64 \<Rightarrow> f64 \<Rightarrow> bool" where "fge a b \<equiv> fle b a"
abbreviation fne :: "f64 \<Rightarrow> f64 \<Rightarrow> bool" where "fne a b \<equiv> \<not> feq a b"

lemma fle_Fin [simp]: "fle (Fin a) (Fin b) \<longleftrightarrow> a \<le> b"
  by (auto simp: fle_def)

lemma fcmp_NaN [simp]: "\<not> flt NaN x" "\<not> flt x NaN" "\<not> feq NaN x" "\<not> feq x NaN"
  "\<not> fle NaN x" "\<not> fle x NaN"
  by (cases x; simp add: fle_def)+

lemma flt_irrefl [simp]: "\<not> flt x x"
  by (cases x) auto

lemma feq_refl: "feq x x \<longleftrightarrow> x \<noteq> NaN"
  by (cases x) auto

lemma feq_eq: "feq x y \<Longrightarrow> x = y"
  by (cases x; cases y) auto

lemma flt_trans: "flt x y \<Longrightarrow> flt y z \<Longrightarrow> flt x z"
  by (cases x; cases y; cases z) auto

lemma fle_trans: "fle x y \<Longrightarrow> fle y z \<Longrightarrow> fle x z"
  unfolding fle_def by (auto dest: flt_trans feq_eq)

lemma not_flt: "x \<noteq> NaN \<Longrightarrow> y \<noteq> NaN \<Longrightarrow> \<not> flt x y \<longleftrightarrow> fle y x"
  by (cases x; cases y) (auto simp: fle_def)

lemma fle_not_flt: "fle x y \<Longrightarrow> \<not> flt y x"
  by (cases x; cases y) (auto simp: fle_def)

text \<open>Both bounds finite: so is the value.\<close>

lemma between_finite:
  "\<not> flt x (Fin a) \<Longrightarrow> \<not> flt (Fin b) x \<Longrightarrow> x = NaN \<or> (\<exists>r. x = Fin r \<and> a \<le> r \<and> r \<le> b)"
  by (cases x) auto

section \<open>Arithmetic\<close>

definition pow2 :: "int \<Rightarrow> rat" where
  "pow2 e = (if 0 \<le> e then 2 ^ nat e else 1 / 2 ^ nat (- e))"

function log2i :: "int \<Rightarrow> int" where
  "log2i n = (if n < 2 then 0 else 1 + log2i (n div 2))"
  by pat_completeness auto
termination
  by (relation "measure nat") auto

declare log2i.simps [simp del]

definition floor_log2 :: "rat \<Rightarrow> int" where
  "floor_log2 r = (case quotient_of r of (p, q) \<Rightarrow>
     let k = log2i p - log2i q
     in if pow2 k \<le> r then k else k - 1)"

definition round_half_even :: "rat \<Rightarrow> int" where
  "round_half_even x =
     (let f = \<lfloor>x\<rfloor>; d = x - of_int f
      in if d < 1 / 2 then f else if d > 1 / 2 then f + 1 else if even f then f else f + 1)"

definition round64 :: "rat \<Rightarrow> f64" where
  "round64 r =
     (if r = 0 then Fin 0
      else let e = max (floor_log2 \<bar>r\<bar> - 52) (- 1074);
               v = of_int (round_half_even (\<bar>r\<bar> / pow2 e)) * pow2 e
           in if v \<ge> pow2 1024 then (if 0 < r then PosInf else NegInf) else Fin (sgn r * v))"

fun fneg :: "f64 \<Rightarrow> f64" where
  "fneg (Fin a) = Fin (- a)"
| "fneg PosInf = NegInf"
| "fneg NegInf = PosInf"
| "fneg NaN = NaN"

fun fadd :: "f64 \<Rightarrow> f64 \<Rightarrow> f64" where
  "fadd (Fin a) (Fin b) = round64 (a + b)"
| "fadd NaN _ = NaN"
| "fadd _ NaN = NaN"
| "fadd PosInf NegInf = NaN"
| "fadd NegInf PosInf = NaN"
| "fadd PosInf _ = PosInf"
| "fadd NegInf _ = NegInf"
| "fadd (Fin _) x = x"

definition fsub :: "f64 \<Rightarrow> f64 \<Rightarrow> f64" where
  "fsub a b = fadd a (fneg b)"

definition signed_inf :: "rat \<Rightarrow> f64" where
  "signed_inf s = (if s = 0 then NaN else if 0 < s then PosInf else NegInf)"

fun fmul :: "f64 \<Rightarrow> f64 \<Rightarrow> f64" where
  "fmul (Fin a) (Fin b) = round64 (a * b)"
| "fmul NaN _ = NaN"
| "fmul _ NaN = NaN"
| "fmul (Fin a) PosInf = signed_inf a"
| "fmul (Fin a) NegInf = signed_inf (- a)"
| "fmul PosInf (Fin b) = signed_inf b"
| "fmul NegInf (Fin b) = signed_inf (- b)"
| "fmul PosInf x = x"
| "fmul NegInf x = fneg x"

fun fdiv :: "f64 \<Rightarrow> f64 \<Rightarrow> f64" where
  "fdiv (Fin a) (Fin b) = (if b = 0 then signed_inf a else round64 (a / b))"
| "fdiv NaN _ = NaN"
| "fdiv _ NaN = NaN"
| "fdiv (Fin _) _ = Fin 0"
| "fdiv PosInf (Fin b) = (if b < 0 then NegInf else PosInf)"
| "fdiv NegInf (Fin b) = (if b < 0 then PosInf else NegInf)"
| "fdiv _ _ = NaN"

text \<open>\<open>math.Max\<close>: NaN if either argument is, infinity first.\<close>

definition fmax :: "f64 \<Rightarrow> f64 \<Rightarrow> f64" where
  "fmax a b = (if a = PosInf \<or> b = PosInf then PosInf
               else if a = NaN \<or> b = NaN then NaN
               else if flt a b then b else a)"

text \<open>
  \<open>int(math.Round(x))\<close>: half away from zero; a value no \<open>int\<close> holds converts to the
  minimum, as the amd64 instruction does (the language leaves it open).
\<close>

definition round_away :: "rat \<Rightarrow> int" where
  "round_away r = (if 0 \<le> r then \<lfloor>r + 1 / 2\<rfloor> else - \<lfloor>1 / 2 - r\<rfloor>)"

fun int_of_round :: "f64 \<Rightarrow> int" where
  "int_of_round (Fin r) =
     (let n = round_away r in if - (2 ^ 63) \<le> n \<and> n < 2 ^ 63 then n else - (2 ^ 63))"
| "int_of_round _ = - (2 ^ 63)"

definition f64_of_int :: "int \<Rightarrow> f64" where
  "f64_of_int n = round64 (of_int n)"

lemma round_away_mono: "a \<le> b \<Longrightarrow> round_away a \<le> round_away b"
proof (cases "0 \<le> a")
  case True
  assume "a \<le> b"
  with True show ?thesis by (auto simp: round_away_def intro: floor_mono)
next
  case False
  assume ab: "a \<le> b"
  show ?thesis
  proof (cases "0 \<le> b")
    case True
    then have "0 \<le> \<lfloor>b + 1 / 2\<rfloor>" by simp
    moreover from False have "0 \<le> \<lfloor>1 / 2 - a\<rfloor>" by simp
    ultimately have "- \<lfloor>1 / 2 - a\<rfloor> \<le> \<lfloor>b + 1 / 2\<rfloor>" by linarith
    with False True show ?thesis by (simp add: round_away_def)
  next
    case b: False
    from ab have "\<lfloor>1 / 2 - b\<rfloor> \<le> \<lfloor>1 / 2 - a\<rfloor>" by (intro floor_mono) simp
    with False b show ?thesis by (simp add: round_away_def)
  qed
qed

lemma round_away_of_int [simp]: "round_away (of_int n) = n"
proof -
  have "\<lfloor>of_int n + 1 / 2 :: rat\<rfloor> = n" by (simp add: floor_eq_iff)
  moreover have "\<lfloor>1 / 2 - of_int n :: rat\<rfloor> = - n" by (simp add: floor_eq_iff)
  ultimately show ?thesis by (simp add: round_away_def)
qed

lemma round_away_0 [simp]: "round_away 0 = 0" and round_away_100 [simp]: "round_away 100 = 100"
  using round_away_of_int[of 0] round_away_of_int[of 100] by simp_all

lemma round_away_bounds: "0 \<le> r \<Longrightarrow> r \<le> 100 \<Longrightarrow> 0 \<le> round_away r \<and> round_away r \<le> 100"
  using round_away_mono[of 0 r] round_away_mono[of r 100] by simp

lemma int_of_round_percent:
  assumes "0 \<le> r" and "r \<le> 100"
  shows "int_of_round (Fin r) = round_away r" and "0 \<le> int_of_round (Fin r)"
    and "int_of_round (Fin r) \<le> 100"
proof -
  note b = round_away_bounds[OF assms]
  then show "int_of_round (Fin r) = round_away r" by (simp add: Let_def)
  with b show "0 \<le> int_of_round (Fin r)" and "int_of_round (Fin r) \<le> 100" by simp_all
qed

end
