(* ===== verification/DeployRepo.thy ===== *)
theory DeployRepo
  imports Deployment Float64
begin

text \<open>
  The deployment repository of \<open>internal/platform/database/postgres/deploy.go\<close>: the three
  tables, one operation per method, each an SQL statement that may fail. What the service
  and the phase engine need from a repository is stated as the locale
  \<open>deployment_repo\<close>, which the operations of the model interpret.
\<close>

section \<open>Errors and the store\<close>

datatype deploy_error =
    ErrNotFound
  | ErrDriver string
  | ErrTransition transition_error
  | ErrInvalid deployment_invalid
  | ErrOnlyRunningPaused
  | ErrOnlyPausedResumed
  | ErrNotPaused deploy_status
  | ErrContextDone
  | ErrWrap string deploy_error

record rollback_record =
  rb_id :: uuid
  rb_deployment_id :: uuid
  rb_target_deployment_id :: "uuid option"
  rb_reason :: string
  rb_health_score :: "f64 option"
  rb_automatic :: bool
  rb_strategy :: deploy_strategy
  rb_started_at :: time
  rb_completed_at :: "time option"
  rb_created_at :: time

text \<open>What is published on the message bus: the service's events and the engine's payloads.\<close>

datatype deploy_message =
    ServiceEvent string uuid
  | PhaseChangedEvent deployment "deployment_phase option" "deployment option" time
  | CompletedEvent deployment time
  | RolledBackEvent deployment time

record deploy_world = env +
  deployments :: "deployment list"
  deployment_phases :: "deployment_phase list"
  rollback_history :: "rollback_record list"
  outbox :: "deploy_message list"

type_synonym 'a deploy_prog = "(deploy_world, deploy_error, 'a) prog"

definition find_deployment :: "deploy_world \<Rightarrow> uuid \<Rightarrow> deployment option" where
  "find_deployment w i = row_of dep_id i (deployments w)"

section \<open>Deployments\<close>

text \<open>
  \<open>CreateDeployment\<close> stamps the row the caller holds and inserts it; a second row with the
  same primary key is refused by the database.
\<close>

definition create_deployment :: "deployment \<Rightarrow> deployment deploy_prog" where
  "create_deployment d =
     andThen (if dep_id d = uuid_nil then uuid_new else ret (dep_id d)) (\<lambda>i.
     andThen time_now (\<lambda>now.
       let d' = d\<lparr>dep_id := i, dep_created_at := now, dep_updated_at := now,
                  dep_mode := (if dep_mode d = DeployModeUnset then DeployModeOrchestrate
                               else dep_mode d)\<rparr>
       in andThen (ext_call (ErrDriver ''postgres.CreateDeployment'')) (\<lambda>_.
          andThen get_state (\<lambda>w.
            if find_deployment w i \<noteq> None then fail (ErrDriver ''postgres.CreateDeployment'')
            else andThen (modify (\<lambda>w. w\<lparr>deployments := deployments w @ [d']\<rparr>)) (\<lambda>_.
                 ret d')))))"

definition get_deployment :: "uuid \<Rightarrow> deployment deploy_prog" where
  "get_deployment i =
     andThen (ext_call (ErrDriver ''postgres.GetDeployment'')) (\<lambda>_.
     andThen get_state (\<lambda>w.
       case find_deployment w i of None \<Rightarrow> fail ErrNotFound | Some d \<Rightarrow> ret d))"

text \<open>
  \<open>UpdateDeployment\<close> writes status, traffic and the three timestamps, nothing else, and
  stamps \<open>UpdatedAt\<close> of the value the caller holds, which is returned.
\<close>

definition write_deployment :: "deployment \<Rightarrow> deployment \<Rightarrow> deployment" where
  "write_deployment d row = row\<lparr>dep_status := dep_status d,
     dep_traffic_percent := dep_traffic_percent d, dep_started_at := dep_started_at d,
     dep_completed_at := dep_completed_at d, dep_updated_at := dep_updated_at d\<rparr>"

definition update_deployment :: "deployment \<Rightarrow> deployment deploy_prog" where
  "update_deployment d =
     andThen time_now (\<lambda>now.
       let d' = d\<lparr>dep_updated_at := now\<rparr>
       in andThen (ext_call (ErrDriver ''postgres.UpdateDeployment'')) (\<lambda>_.
          andThen get_state (\<lambda>w.
            if find_deployment w (dep_id d) = None then fail ErrNotFound
            else andThen (modify (\<lambda>w. w\<lparr>deployments :=
                   update_row dep_id (dep_id d) (write_deployment d') (deployments w)\<rparr>)) (\<lambda>_.
                 ret d'))))"

text \<open>\<open>ORDER BY k DESC LIMIT 1\<close> over the matching rows: the latest, the earlier row on a tie.\<close>

fun latest_by :: "('r \<Rightarrow> time) \<Rightarrow> 'r list \<Rightarrow> 'r option" where
  "latest_by k [] = None"
| "latest_by k (r # rs) =
     (case latest_by k rs of None \<Rightarrow> Some r | Some q \<Rightarrow> Some (if k q > k r then q else r))"

text \<open>
  A completed row without \<open>completed_at\<close> sorts first in a descending order (PostgreSQL puts
  NULLs first), so such rows come before every dated one.
\<close>

definition get_latest_completed :: "uuid \<Rightarrow> uuid \<Rightarrow> deployment deploy_prog" where
  "get_latest_completed app envi =
     andThen (ext_call (ErrDriver ''postgres.GetLatestCompletedDeployment'')) (\<lambda>_.
     andThen get_state (\<lambda>w.
       let rows = filter (\<lambda>d. dep_application_id d = app \<and> dep_environment_id d = envi \<and>
                              dep_status d = DeployStatusCompleted) (deployments w)
       in case filter (\<lambda>d. dep_completed_at d = None) rows of
            d # _ \<Rightarrow> ret d
          | [] \<Rightarrow> (case latest_by (the \<circ> dep_completed_at) rows of
                     None \<Rightarrow> fail ErrNotFound
                   | Some d \<Rightarrow> ret d)))"

section \<open>Builds recorded for GitHub\<close>

text \<open>
  \<open>UpsertBuildDeployment\<close> keeps one recorded deployment per application, environment, commit and
  workflow. A row that is found gets the status and times of the build, whatever its status
  was; \<open>LIMIT 1\<close> has no order, the first row stands for it. References to rows outside this
  store that do not exist are among the failures of the call.
\<close>

record build_upsert =
  bu_application_id :: uuid
  bu_environment_id :: uuid
  bu_commit_sha :: string
  bu_workflow_name :: string
  bu_version :: string
  bu_artifact :: string
  bu_status :: deploy_status
  bu_html_url :: string
  bu_created_by :: uuid
  bu_started_at :: "time option"
  bu_completed_at :: "time option"

definition build_source :: "build_upsert \<Rightarrow> string" where
  "build_source b = (if bu_workflow_name b \<noteq> [] then ''github-actions:'' @ bu_workflow_name b
                     else ''github-actions'')"

definition build_row :: "build_upsert \<Rightarrow> deployment \<Rightarrow> bool" where
  "build_row b d \<longleftrightarrow> dep_application_id d = bu_application_id b \<and>
     dep_environment_id d = bu_environment_id b \<and> dep_commit_sha d = bu_commit_sha b \<and>
     dep_source d = Some (build_source b)"

definition write_build :: "time \<Rightarrow> build_upsert \<Rightarrow> deployment \<Rightarrow> deployment" where
  "write_build now b row = row\<lparr>dep_status := bu_status b,
     dep_started_at := (if dep_started_at row \<noteq> None then dep_started_at row else bu_started_at b),
     dep_completed_at := bu_completed_at b, dep_updated_at := now\<rparr>"

definition new_build :: "uuid \<Rightarrow> time \<Rightarrow> build_upsert \<Rightarrow> deployment" where
  "new_build i now b = \<lparr> dep_id = i, dep_application_id = bu_application_id b,
     dep_environment_id = bu_environment_id b, dep_strategy = DeployStrategyRolling,
     dep_status = bu_status b, dep_artifact = bu_artifact b, dep_version = bu_version b,
     dep_commit_sha = bu_commit_sha b, dep_traffic_percent = 0, dep_previous = None,
     dep_flag_test_key = (if bu_html_url b \<noteq> [] then Some (bu_html_url b) else None),
     dep_created_by = bu_created_by b, dep_mode = DeployModeRecord,
     dep_source = Some (build_source b), dep_started_at = bu_started_at b,
     dep_completed_at = bu_completed_at b, dep_created_at = now, dep_updated_at = now \<rparr>"

definition upsert_build_deployment :: "build_upsert \<Rightarrow> (uuid \<times> bool) deploy_prog" where
  "upsert_build_deployment b =
     andThen time_now (\<lambda>now.
     andThen (ext_call (ErrDriver ''postgres.UpsertBuildDeployment select'')) (\<lambda>_.
     andThen get_state (\<lambda>w.
       case find (build_row b) (deployments w) of
         Some row \<Rightarrow>
           andThen (ext_call (ErrDriver ''postgres.UpsertBuildDeployment update'')) (\<lambda>_.
           andThen (modify (\<lambda>w. w\<lparr>deployments :=
             update_row dep_id (dep_id row) (write_build now b) (deployments w)\<rparr>)) (\<lambda>_.
             ret (dep_id row, False)))
       | None \<Rightarrow>
           andThen uuid_new (\<lambda>i.
           andThen (ext_call (ErrDriver ''postgres.UpsertBuildDeployment insert'')) (\<lambda>_.
             if find_deployment w i \<noteq> None
             then fail (ErrDriver ''postgres.UpsertBuildDeployment insert'')
             else andThen (modify (\<lambda>w. w\<lparr>deployments := deployments w @ [new_build i now b]\<rparr>)) (\<lambda>_.
                  ret (i, True)))))))"

section \<open>Phases and rollback records\<close>

text \<open>
  Migration 059 keys the phases by id, refers to the deployment and checks that the traffic is
  a percentage; a row that violates one of the three is refused.
\<close>

definition create_phase :: "deployment_phase \<Rightarrow> deployment_phase deploy_prog" where
  "create_phase p =
     andThen (if ph_id p = uuid_nil then uuid_new else ret (ph_id p)) (\<lambda>i.
     andThen (ext_call (ErrDriver ''postgres.CreatePhase'')) (\<lambda>_.
     andThen get_state (\<lambda>w.
       if row_of ph_id i (deployment_phases w) \<noteq> None \<or>
          find_deployment w (ph_deployment_id p) = None \<or>
          \<not> (0 \<le> ph_traffic_percent p \<and> ph_traffic_percent p \<le> 100)
       then fail (ErrDriver ''postgres.CreatePhase'')
       else andThen (modify (\<lambda>w. w\<lparr>deployment_phases :=
              deployment_phases w @ [p\<lparr>ph_id := i\<rparr>]\<rparr>)) (\<lambda>_. ret (p\<lparr>ph_id := i\<rparr>)))))"

definition phases_of :: "deploy_world \<Rightarrow> uuid \<Rightarrow> deployment_phase list" where
  "phases_of w i =
     sort_key ph_sort_order (filter (\<lambda>p. ph_deployment_id p = i) (deployment_phases w))"

definition list_phases :: "uuid \<Rightarrow> deployment_phase list deploy_prog" where
  "list_phases i =
     andThen (ext_call (ErrDriver ''postgres.ListPhases'')) (\<lambda>_.
     andThen get_state (\<lambda>w. ret (phases_of w i)))"

text \<open>\<open>UpdatePhase\<close> writes the status and the two timestamps of a phase.\<close>

definition write_phase :: "deployment_phase \<Rightarrow> deployment_phase \<Rightarrow> deployment_phase" where
  "write_phase p row = row\<lparr>ph_status := ph_status p, ph_started_at := ph_started_at p,
     ph_completed_at := ph_completed_at p\<rparr>"

definition update_phase :: "deployment_phase \<Rightarrow> unit deploy_prog" where
  "update_phase p =
     andThen (ext_call (ErrDriver ''postgres.UpdatePhase'')) (\<lambda>_.
     andThen get_state (\<lambda>w.
       if row_of ph_id (ph_id p) (deployment_phases w) = None then fail ErrNotFound
       else modify (\<lambda>w. w\<lparr>deployment_phases :=
              update_row ph_id (ph_id p) (write_phase p) (deployment_phases w)\<rparr>)))"

definition get_active_phase :: "uuid \<Rightarrow> deployment_phase deploy_prog" where
  "get_active_phase i =
     andThen (ext_call (ErrDriver ''postgres.GetActivePhase'')) (\<lambda>_.
     andThen get_state (\<lambda>w.
       case find (\<lambda>p. ph_deployment_id p = i \<and> ph_status p = DeploymentPhaseStatusActive)
              (deployment_phases w) of
         None \<Rightarrow> fail ErrNotFound
       | Some p \<Rightarrow> ret p))"

definition create_rollback_record :: "rollback_record \<Rightarrow> unit deploy_prog" where
  "create_rollback_record r =
     andThen (if rb_id r = uuid_nil then uuid_new else ret (rb_id r)) (\<lambda>i.
     andThen time_now (\<lambda>now.
     andThen (ext_call (ErrDriver ''postgres.CreateRollbackRecord'')) (\<lambda>_.
       modify (\<lambda>w. w\<lparr>rollback_history :=
         rollback_history w @ [r\<lparr>rb_id := i, rb_created_at := now\<rparr>]\<rparr>))))"

definition list_rollback_records :: "uuid \<Rightarrow> rollback_record list deploy_prog" where
  "list_rollback_records i =
     andThen (ext_call (ErrDriver ''postgres.ListRollbackRecords'')) (\<lambda>_.
     andThen get_state (\<lambda>w.
       ret (rev (sort_key rb_created_at
         (filter (\<lambda>r. rb_deployment_id r = i) (rollback_history w))))))"

text \<open>\<open>publisher.Publish\<close>: the message is on the bus unless the call fails.\<close>

definition publish_msg :: "deploy_message \<Rightarrow> unit deploy_prog" where
  "publish_msg m =
     andThen (ext_call (ErrDriver ''publish'')) (\<lambda>_. modify (\<lambda>w. w\<lparr>outbox := outbox w @ [m]\<rparr>))"

section \<open>The repository contract\<close>

text \<open>
  What the service and the engine rely on: a read returns the stored row and changes no
  row; a write changes no row when it fails, and otherwise only the row it names, to the
  stored row overwritten by the stamped value, which it also returns.
\<close>

locale deployment_repo =
  fixes get :: "'k \<Rightarrow> ('s, 'e, 'd) prog"
    and upd :: "'d \<Rightarrow> ('s, 'e, 'd) prog"
    and row_at :: "'s \<Rightarrow> 'k \<Rightarrow> 'd option"
    and key :: "'d \<Rightarrow> 'k"
    and stamp :: "time \<Rightarrow> 'd \<Rightarrow> 'd"
    and overwrite :: "'d \<Rightarrow> 'd \<Rightarrow> 'd"
  assumes get_rows: "get i s = (r, t) \<Longrightarrow> row_at t = row_at s"
    and get_value: "get i s = (Inr d, t) \<Longrightarrow> row_at s i = Some d \<and> key d = i"
    and upd_error: "upd d s = (Inl e, t) \<Longrightarrow> row_at t = row_at s"
    and upd_value: "upd d s = (Inr d', t) \<Longrightarrow>
      \<exists>now row. d' = stamp now d \<and> row_at s (key d) = Some row \<and>
        row_at t = (row_at s)(key d \<mapsto> overwrite d' row)"
begin

text \<open>A body between the read and the write that touches no row.\<close>

definition pure_body :: "('d \<Rightarrow> ('s, 'e, 'd) prog) \<Rightarrow> bool" where
  "pure_body f \<longleftrightarrow> (\<forall>d s r t. f d s = (r, t) \<longrightarrow> row_at t = row_at s)"

lemma read_modify_write:
  assumes body: "pure_body f"
    and run: "andThen (get i) (\<lambda>d. andThen (f d) upd) s = (r, t)"
  shows "row_at t = row_at s \<or>
    (\<exists>d d' now u v. row_at s i = Some d \<and> key d = i \<and> f d u = (Inr d', v) \<and>
       row_at u = row_at s \<and> key d' \<in> dom (row_at s) \<and>
       row_at t = (row_at s)(key d' \<mapsto> overwrite (stamp now d') (the (row_at s (key d')))))"
proof -
  obtain r1 s1 where g: "get i s = (r1, s1)" by (cases "get i s")
  then have rows1: "row_at s1 = row_at s" by (rule get_rows)
  show ?thesis
  proof (cases r1)
    case (Inl e)
    with g run rows1 show ?thesis by (simp add: andThen_def)
  next
    case (Inr d)
    with g have d: "row_at s i = Some d" "key d = i" using get_value by auto
    obtain r2 s2 where b: "f d s1 = (r2, s2)" by (cases "f d s1")
    with body rows1 have rows2: "row_at s2 = row_at s" unfolding pure_body_def by metis
    show ?thesis
    proof (cases r2)
      case (Inl e)
      with g b Inr run rows2 show ?thesis by (simp add: andThen_def)
    next
      case d': (Inr d')
      obtain r3 s3 where u: "upd d' s2 = (r3, s3)" by (cases "upd d' s2")
      with g b Inr d' run have t: "t = s3" by (simp add: andThen_def)
      show ?thesis
      proof (cases r3)
        case (Inl e)
        with u t rows2 show ?thesis using upd_error by metis
      next
        case (Inr d'')
        with u upd_value[of d' s2 d'' s3] obtain now row where
          "d'' = stamp now d'" "row_at s2 (key d') = Some row"
          "row_at s3 = (row_at s2)(key d' \<mapsto> overwrite d'' row)" by auto
        with rows1 rows2 t have "key d' \<in> dom (row_at s)"
          "row_at t = (row_at s)(key d' \<mapsto> overwrite (stamp now d') (the (row_at s (key d'))))"
          by auto
        moreover from b d' have "f d s1 = (Inr d', s2)" by simp
        ultimately show ?thesis using d rows1 by blast
      qed
    qed
  qed
qed

end

section \<open>The tables meet the contract\<close>

lemma find_deployment_key: "find_deployment w i = Some d \<Longrightarrow> dep_id d = i"
  by (auto simp: find_deployment_def dest: row_of_Some)

lemma find_deployment_cong [simp]:
  "find_deployment (w\<lparr>calls := n\<rparr>) = find_deployment w"
  "find_deployment (w\<lparr>reads := n\<rparr>) = find_deployment w"
  "find_deployment (w\<lparr>minted := n\<rparr>) = find_deployment w"
  "find_deployment (w\<lparr>polls := n\<rparr>) = find_deployment w"
  "find_deployment (w\<lparr>outbox := ms\<rparr>) = find_deployment w"
  "find_deployment (w\<lparr>deployment_phases := ps\<rparr>) = find_deployment w"
  "find_deployment (w\<lparr>rollback_history := rs\<rparr>) = find_deployment w"
  by (simp_all add: find_deployment_def fun_eq_iff)

lemma write_deployment_id [simp]: "dep_id (write_deployment d row) = dep_id row"
  by (simp add: write_deployment_def)

lemma find_write_deployment:
  "find_deployment (w\<lparr>deployments := update_row dep_id i (write_deployment d) (deployments v)\<rparr>) =
   (find_deployment v)(i := map_option (write_deployment d) (find_deployment v i))"
  by (auto simp: find_deployment_def row_simps fun_eq_iff)

lemma get_deployment_rows: "get_deployment i s = (r, t) \<Longrightarrow> find_deployment t = find_deployment s"
  by (auto simp: get_deployment_def prog_defs split: option.splits if_splits)

lemma get_deployment_Inr: "get_deployment i s = (Inr d, t) \<Longrightarrow> find_deployment s i = Some d"
  by (auto simp: get_deployment_def prog_defs split: option.splits if_splits)

lemma update_deployment_Inl:
  "update_deployment d s = (Inl e, t) \<Longrightarrow> find_deployment t = find_deployment s"
  by (auto simp: update_deployment_def prog_defs Let_def split: option.splits if_splits)

lemma update_deployment_Inr:
  assumes "update_deployment d s = (Inr d', t)"
  shows "\<exists>now row. d' = d\<lparr>dep_updated_at := now\<rparr> \<and> find_deployment s (dep_id d) = Some row \<and>
    find_deployment t = (find_deployment s)(dep_id d \<mapsto> write_deployment d' row)"
  using assms
  by (auto simp: update_deployment_def prog_defs Let_def find_deployment_def row_simps fun_eq_iff
      split: option.splits if_splits)

interpretation pg: deployment_repo
  "\<lambda>i. wrapped (ErrWrap g) (get_deployment i)" "\<lambda>d. wrapped (ErrWrap u) (update_deployment d)"
  find_deployment dep_id "\<lambda>now d. d\<lparr>dep_updated_at := now\<rparr>" write_deployment for g u
proof (unfold_locales, goal_cases)
  case (1 i s r t)
  then show ?case
    by (auto simp: wrapped_def dest: get_deployment_rows split: prod.splits sum.splits)
next
  case (2 i s d t)
  then show ?case by (auto dest: get_deployment_Inr find_deployment_key)
next
  case (3 d s e t)
  then show ?case by (auto simp: wrapped_Inl dest: update_deployment_Inl)
next
  case (4 d s d' t)
  then show ?case using update_deployment_Inr by simp
qed

end
