(* ===== verification/DeployService.thy ===== *)
theory DeployService
  imports DeployRepo
begin

text \<open>
  The deployment service of \<open>internal/deploy/service.go\<close>: creation (including deployments
  an external platform already completed), the five life-cycle controls, and the direct
  traffic update. Every control reads the row, checks and changes it, writes it back and
  publishes an event; the lemmas are about all of them, under every pattern of failing
  database and bus calls.
\<close>

section \<open>Operations\<close>

definition publish_event :: "string \<Rightarrow> uuid \<Rightarrow> unit deploy_prog" where
  "publish_event subject i =
     andThen (attempt (publish_msg (ServiceEvent (''deployments.'' @ subject) i)) ::
              (deploy_error + unit) deploy_prog) (\<lambda>_. ret ())"

text \<open>\<open>d.TransitionTo(target)\<close> on the deployment in hand; the clock is read once the edge is valid.\<close>

definition transition :: "deploy_status \<Rightarrow> deployment \<Rightarrow> deployment deploy_prog" where
  "transition target d =
     (case validate_transition d target of
        Inl e \<Rightarrow> fail (ErrTransition e)
      | Inr _ \<Rightarrow> andThen time_now (\<lambda>now.
          case transition_to now target d of
            Inl e \<Rightarrow> fail (ErrTransition e)
          | Inr d' \<Rightarrow> ret d'))"

text \<open>The fields \<open>CreateDeployment\<close> fills in before validation.\<close>

definition prepare_deployment :: "time \<Rightarrow> deployment \<Rightarrow> deployment" where
  "prepare_deployment now d =
     (let d1 = d\<lparr>dep_mode := (if dep_mode d = DeployModeUnset then DeployModeOrchestrate else dep_mode d),
                 dep_created_at := now, dep_updated_at := now\<rparr>
      in if dep_mode d1 = DeployModeRecord
         then d1\<lparr>dep_status := DeployStatusCompleted, dep_traffic_percent := 100,
                 dep_started_at := (if dep_started_at d1 = None then Some now else dep_started_at d1),
                 dep_completed_at := (if dep_completed_at d1 = None then Some now else dep_completed_at d1)\<rparr>
         else d1\<lparr>dep_status := DeployStatusPending\<rparr>)"

definition svc_create_deployment :: "deployment \<Rightarrow> deployment deploy_prog" where
  "svc_create_deployment d =
     andThen (if dep_id d = uuid_nil then uuid_new else ret (dep_id d)) (\<lambda>i.
     andThen time_now (\<lambda>now.
       let d1 = prepare_deployment now (d\<lparr>dep_id := i\<rparr>)
       in case validate_deployment d1 of
            Inl e \<Rightarrow> fail (ErrWrap ''validation failed'' (ErrInvalid e))
          | Inr _ \<Rightarrow>
              andThen (attempt (get_latest_completed (dep_application_id d1) (dep_environment_id d1)) ::
                       (deploy_error + deployment) deploy_prog) (\<lambda>prev.
              let d2 = (case prev of Inl _ \<Rightarrow> d1 | Inr p \<Rightarrow> d1\<lparr>dep_previous := Some (dep_id p)\<rparr>)
              in andThen (wrapped (ErrWrap ''creating deployment'') (create_deployment d2)) (\<lambda>d3.
                 andThen (publish_event
                   (if dep_mode d3 = DeployModeRecord then ''deployment.recorded''
                    else ''deployment.created'') (dep_id d3)) (\<lambda>_.
                 ret d3)))))"

definition svc_get_deployment :: "uuid \<Rightarrow> deployment deploy_prog" where
  "svc_get_deployment i = wrapped (ErrWrap ''getting deployment'') (get_deployment i)"

definition svc_list_phases :: "uuid \<Rightarrow> deployment_phase list deploy_prog" where
  "svc_list_phases i = wrapped (ErrWrap ''listing phases'') (list_phases i)"

definition svc_list_rollback_records :: "uuid \<Rightarrow> rollback_record list deploy_prog" where
  "svc_list_rollback_records i =
     wrapped (ErrWrap ''listing rollback records'') (list_rollback_records i)"

definition promote_deployment :: "uuid \<Rightarrow> unit deploy_prog" where
  "promote_deployment i =
     andThen (wrapped (ErrWrap ''getting deployment for promotion'') (get_deployment i)) (\<lambda>d.
     andThen (case validate_transition d DeployStatusPromoting of
                Inl e \<Rightarrow> fail (ErrTransition e)
              | Inr _ \<Rightarrow> andThen time_now (\<lambda>now.
                  ret (d\<lparr>dep_status := DeployStatusPromoting, dep_traffic_percent := 100,
                         dep_updated_at := now\<rparr>))) (\<lambda>d'.
     andThen (wrapped (ErrWrap ''updating deployment for promotion'') (update_deployment d')) (\<lambda>d''.
       publish_event ''deployment.promoted'' (dep_id d''))))"

definition rollback_deployment :: "uuid \<Rightarrow> unit deploy_prog" where
  "rollback_deployment i =
     andThen (wrapped (ErrWrap ''getting deployment for rollback'') (get_deployment i)) (\<lambda>d.
     andThen (transition DeployStatusRolledBack d) (\<lambda>d'.
     andThen (wrapped (ErrWrap ''updating deployment for rollback'') (update_deployment d')) (\<lambda>d''.
       publish_event ''deployment.rolled_back'' (dep_id d''))))"

definition pause_deployment :: "uuid \<Rightarrow> unit deploy_prog" where
  "pause_deployment i =
     andThen (wrapped (ErrWrap ''getting deployment for pause'') (get_deployment i)) (\<lambda>d.
     andThen (if dep_status d \<noteq> DeployStatusRunning then fail ErrOnlyRunningPaused
              else transition DeployStatusPaused d) (\<lambda>d'.
     andThen (wrapped (ErrWrap ''updating deployment for pause'') (update_deployment d')) (\<lambda>d''.
       publish_event ''deployment.paused'' (dep_id d''))))"

definition resume_deployment :: "uuid \<Rightarrow> unit deploy_prog" where
  "resume_deployment i =
     andThen (wrapped (ErrWrap ''getting deployment for resume'') (get_deployment i)) (\<lambda>d.
     andThen (if dep_status d \<noteq> DeployStatusPaused then fail ErrOnlyPausedResumed
              else transition DeployStatusRunning d) (\<lambda>d'.
     andThen (wrapped (ErrWrap ''updating deployment for resume'') (update_deployment d')) (\<lambda>d''.
       publish_event ''deployment.resumed'' (dep_id d''))))"

definition cancel_deployment :: "uuid \<Rightarrow> unit deploy_prog" where
  "cancel_deployment i =
     andThen (wrapped (ErrWrap ''getting deployment for cancel'') (get_deployment i)) (\<lambda>d.
     andThen (transition DeployStatusCancelled d) (\<lambda>d'.
     andThen (wrapped (ErrWrap ''updating deployment for cancel'') (update_deployment d')) (\<lambda>d''.
       publish_event ''deployment.cancelled'' (dep_id d''))))"

definition set_traffic_percent :: "uuid \<Rightarrow> int \<Rightarrow> unit deploy_prog" where
  "set_traffic_percent i pct =
     andThen (wrapped (ErrWrap ''getting deployment for traffic update'') (get_deployment i)) (\<lambda>d.
     andThen (andThen time_now (\<lambda>now.
       ret (d\<lparr>dep_traffic_percent := pct, dep_updated_at := now\<rparr>))) (\<lambda>d'.
     andThen (wrapped (ErrWrap ''updating deployment traffic'') (update_deployment d')) (\<lambda>_.
       ret ())))"

text \<open>A client session: the calls of the API in the order they arrive.\<close>

datatype service_op =
    Create deployment | Promote uuid | Rollback uuid | Pause uuid | Resume uuid | Cancel uuid
  | SetTraffic uuid int

fun exec_op :: "service_op \<Rightarrow> unit deploy_prog" where
  "exec_op (Create d) = andThen (svc_create_deployment d) (\<lambda>_. ret ())"
| "exec_op (Promote i) = promote_deployment i"
| "exec_op (Rollback i) = rollback_deployment i"
| "exec_op (Pause i) = pause_deployment i"
| "exec_op (Resume i) = resume_deployment i"
| "exec_op (Cancel i) = cancel_deployment i"
| "exec_op (SetTraffic i p) = set_traffic_percent i p"

definition run_op :: "service_op \<Rightarrow> deploy_world \<Rightarrow> deploy_world" where
  "run_op x w = snd (exec_op x w)"

abbreviation run_ops :: "service_op list \<Rightarrow> deploy_world \<Rightarrow> deploy_world" where
  "run_ops ops w \<equiv> fold run_op ops w"

section \<open>How rows evolve\<close>

text \<open>
  The writers of the table that may be interleaved: the service's calls and the builds that
  the GitHub hook records directly in the repository.
\<close>

datatype deploy_write = Call service_op | Build build_upsert

fun run_write :: "deploy_write \<Rightarrow> deploy_world \<Rightarrow> deploy_world" where
  "run_write (Call x) w = run_op x w"
| "run_write (Build b) w = snd (upsert_build_deployment b w)"

abbreviation run_writes :: "deploy_write list \<Rightarrow> deploy_world \<Rightarrow> deploy_world" where
  "run_writes xs w \<equiv> fold run_write xs w"

text \<open>
  \<open>evolves d d'\<close>: \<open>d'\<close> is a later version of \<open>d\<close>. Only the columns an update writes differ,
  the status has moved along the life cycle, a finished deployment has kept its status and
  timestamps, and consistent timestamps have stayed consistent. \<open>rows_step\<close> lifts a
  relation on versions to the table: no row is ever lost.
\<close>

definition evolves :: "deployment \<Rightarrow> deployment \<Rightarrow> bool" where
  "evolves d d' \<longleftrightarrow> write_deployment d' d = d' \<and> lifecycle\<^sup>*\<^sup>* (dep_status d) (dep_status d') \<and>
     (is_terminal d \<longrightarrow> dep_started_at d' = dep_started_at d \<and> dep_completed_at d' = dep_completed_at d) \<and>
     (wf_deployment d \<longrightarrow> wf_deployment d')"

definition rows_step :: "(deployment \<Rightarrow> deployment \<Rightarrow> bool) \<Rightarrow> deploy_world \<Rightarrow> deploy_world \<Rightarrow> bool" where
  "rows_step P w w' \<longleftrightarrow>
     (\<forall>i d. find_deployment w i = Some d \<longrightarrow> (\<exists>d'. find_deployment w' i = Some d' \<and> P d d'))"

lemma write_deployment_self [simp]: "write_deployment d d = d"
  by (simp add: write_deployment_def)

lemma write_deployment_twice [simp]: "write_deployment a (write_deployment b c) = write_deployment a c"
  by (simp add: write_deployment_def)

lemma write_deployment_keeps:
  "dep_application_id (write_deployment d' d) = dep_application_id d"
  "dep_artifact (write_deployment d' d) = dep_artifact d"
  "dep_version (write_deployment d' d) = dep_version d"
  "dep_created_at (write_deployment d' d) = dep_created_at d"
  "dep_environment_id (write_deployment d' d) = dep_environment_id d"
  "dep_commit_sha (write_deployment d' d) = dep_commit_sha d"
  "dep_source (write_deployment d' d) = dep_source d"
  by (simp_all add: write_deployment_def)

lemma lifecycle_star_terminal: "lifecycle\<^sup>*\<^sup>* s t \<Longrightarrow> terminal_status s \<Longrightarrow> t = s"
  by (induction rule: converse_rtranclp_induct) (auto dest: terminal_stuck)

lemma evolves_refl: "evolves d d"
  by (simp add: evolves_def)

lemma evolves_trans:
  assumes "evolves a b" and "evolves b c"
  shows "evolves a c"
proof -
  from assms have "write_deployment c a = c"
    unfolding evolves_def by (metis write_deployment_twice)
  moreover have "is_terminal a \<Longrightarrow> is_terminal b"
    using assms(1) by (auto simp: evolves_def is_terminal_def dest: lifecycle_star_terminal)
  ultimately show ?thesis using assms
    unfolding evolves_def by (auto intro: rtranclp_trans)
qed

interpretation evolution: frame "rows_step evolves"
proof
  show "rows_step evolves s s" for s
    by (auto simp: rows_step_def intro: evolves_refl)
  show "rows_step evolves s t \<Longrightarrow> rows_step evolves t u \<Longrightarrow> rows_step evolves s u" for s t u
    unfolding rows_step_def by (meson evolves_trans)
qed

lemma rows_step_same: "find_deployment w' = find_deployment w \<Longrightarrow> rows_step evolves w w'"
  by (auto simp: rows_step_def intro: evolves_refl)

lemma publish_event_rows [simp]: "find_deployment (snd (publish_event m i w)) = find_deployment w"
  by (simp add: publish_event_def publish_msg_def prog_defs)

lemma publish_event_ok [simp]: "fst (publish_event m i w) = Inr ()"
  by (auto simp: publish_event_def publish_msg_def prog_defs)

lemma transition_to_write:
  "transition_to now t d = Inr d' \<Longrightarrow>
   write_deployment (d'\<lparr>dep_updated_at := u\<rparr>) d = d'\<lparr>dep_updated_at := u\<rparr>"
  by (auto simp: transition_to_def write_deployment_def Let_def
      split: sum.splits deploy_status.splits if_splits)

lemma evolves_transition:
  assumes "transition_to now t d = Inr d'"
  shows "evolves d (d'\<lparr>dep_updated_at := u\<rparr>)"
proof -
  note facts = transition_to_Inr[OF assms]
  have "write_deployment (d'\<lparr>dep_updated_at := u\<rparr>) d = d'\<lparr>dep_updated_at := u\<rparr>"
    using assms by (rule transition_to_write)
  moreover have "\<not> is_terminal d" using facts(1) terminal_stuck by (auto simp: is_terminal_def)
  moreover have "wf_deployment d \<Longrightarrow> wf_deployment (d'\<lparr>dep_updated_at := u\<rparr>)"
    using transition_to_wf[OF _ assms] by (simp add: wf_deployment_def)
  ultimately show ?thesis using facts by (auto simp: evolves_def)
qed

text \<open>
  The shape every write has, and what it does to the rows: nothing, or the body's change
  to the one row it names. A control publishes its event after that.
\<close>

lemma rmw_rows:
  assumes "pg.pure_body f"
    and "\<And>d d' u v now. find_deployment w i = Some d \<Longrightarrow> f d u = (Inr d', v) \<Longrightarrow>
           dep_id d' = dep_id d \<and> evolves d (write_deployment (d'\<lparr>dep_updated_at := now\<rparr>) d)"
  shows "rows_step evolves w (snd (andThen (wrapped (ErrWrap g) (get_deployment i))
    (\<lambda>d. andThen (f d) (\<lambda>d'. wrapped (ErrWrap u) (update_deployment d'))) w))"
proof -
  obtain r t where run: "andThen (wrapped (ErrWrap g) (get_deployment i))
    (\<lambda>d. andThen (f d) (\<lambda>d'. wrapped (ErrWrap u) (update_deployment d'))) w = (r, t)"
    by (cases "andThen (wrapped (ErrWrap g) (get_deployment i))
      (\<lambda>d. andThen (f d) (\<lambda>d'. wrapped (ErrWrap u) (update_deployment d'))) w")
  have "rows_step evolves w t"
    using pg.read_modify_write[OF assms(1) run]
  proof (elim disjE exE conjE)
    assume "find_deployment t = find_deployment w"
    then show ?thesis by (rule rows_step_same)
  next
    fix d d' now u1 v1
    assume d: "find_deployment w i = Some d" and b: "f d u1 = (Inr d', v1)"
      and t: "find_deployment t = (find_deployment w)(dep_id d' \<mapsto>
        write_deployment (d'\<lparr>dep_updated_at := now\<rparr>) (the (find_deployment w (dep_id d'))))"
    from assms(2)[OF d b] have "dep_id d' = i"
      and ev: "evolves d (write_deployment (d'\<lparr>dep_updated_at := now\<rparr>) d)"
      using find_deployment_key[OF d] by auto
    then show ?thesis using d t by (auto simp: rows_step_def intro: evolves_refl)
  qed
  then show ?thesis using run by simp
qed

lemma rows_step_then:
  assumes "rows_step P w (snd (m w))"
    and "\<And>x s. find_deployment (snd (f x s)) = find_deployment s"
  shows "rows_step P w (snd (andThen m f w))"
  using assms by (auto simp: andThen_def rows_step_def split: prod.splits sum.splits)

lemma control_rows:
  assumes "pg.pure_body f"
    and "\<And>d d' u v now. find_deployment w i = Some d \<Longrightarrow> f d u = (Inr d', v) \<Longrightarrow>
           dep_id d' = dep_id d \<and> evolves d (write_deployment (d'\<lparr>dep_updated_at := now\<rparr>) d)"
  shows "rows_step evolves w (snd
    (andThen (wrapped (ErrWrap g) (get_deployment i)) (\<lambda>d. andThen (f d) (\<lambda>d'.
      andThen (wrapped (ErrWrap u) (update_deployment d')) (\<lambda>x. publish_event m (dep_id x)))) w))"
proof -
  let ?m = "andThen (wrapped (ErrWrap g) (get_deployment i))
    (\<lambda>d. andThen (f d) (\<lambda>d'. wrapped (ErrWrap u) (update_deployment d')))"
  have "rows_step evolves w (snd (?m w))"
    using assms by (rule rmw_rows)
  then have "rows_step evolves w (snd (andThen ?m (\<lambda>x. publish_event m (dep_id x)) w))"
    by (rule rows_step_then) simp
  then show ?thesis by (simp add: andThen_assoc)
qed

section \<open>Every operation keeps the rows evolving\<close>

lemma transition_pure: "pg.pure_body (transition t)"
  by (auto simp: pg.pure_body_def transition_def prog_defs split: sum.splits)

lemma transition_Inr:
  "transition t d u = (Inr d', v) \<Longrightarrow> \<exists>now. transition_to now t d = Inr d'"
  by (auto simp: transition_def prog_defs split: sum.splits)

lemma transition_evolves:
  assumes "transition t d u = (Inr d', v)"
  shows "dep_id d' = dep_id d \<and> evolves d (write_deployment (d'\<lparr>dep_updated_at := n\<rparr>) d)"
proof -
  obtain now where t: "transition_to now t d = Inr d'" using transition_Inr[OF assms] by blast
  then show ?thesis
    using evolves_transition[OF t, of n] transition_to_write[OF t, of n] transition_to_Inr(4)[OF t]
    by simp
qed

lemmas control_defs = rollback_deployment_def pause_deployment_def resume_deployment_def
  cancel_deployment_def promote_deployment_def

lemma promote_body_evolves:
  assumes "lifecycle (dep_status d) DeployStatusPromoting"
  shows "evolves d (d\<lparr>dep_status := DeployStatusPromoting, dep_traffic_percent := 100,
    dep_updated_at := n\<rparr>)"
proof -
  from assms have "dep_status d = DeployStatusRunning" by (auto simp: lifecycle_iff)
  then show ?thesis
    using assms by (auto simp: evolves_def write_deployment_def is_terminal_def wf_deployment_def)
qed

lemma promote_evolves: "rows_step evolves w (snd (promote_deployment i w))"
  unfolding promote_deployment_def
proof (rule control_rows, goal_cases)
  case 1
  then show ?case by (auto simp: pg.pure_body_def prog_defs split: sum.splits)
next
  case (2 d d' u v now)
  then show ?case
    using promote_body_evolves[of d now]
    by (auto simp: prog_defs write_deployment_def split: sum.splits)
qed

lemma rollback_evolves: "rows_step evolves w (snd (rollback_deployment i w))"
  unfolding rollback_deployment_def
  by (rule control_rows) (auto simp: transition_pure transition_evolves)

lemma cancel_evolves: "rows_step evolves w (snd (cancel_deployment i w))"
  unfolding cancel_deployment_def
  by (rule control_rows) (auto simp: transition_pure transition_evolves)

lemma guarded_pure: "pg.pure_body (\<lambda>d. if P d then fail e else transition t d)"
  using transition_pure by (auto simp: pg.pure_body_def prog_defs)

lemma pause_evolves: "rows_step evolves w (snd (pause_deployment i w))"
  unfolding pause_deployment_def
  by (rule control_rows[OF guarded_pure]) (auto simp: transition_evolves fail_def split: if_splits)

lemma resume_evolves: "rows_step evolves w (snd (resume_deployment i w))"
  unfolding resume_deployment_def
  by (rule control_rows[OF guarded_pure]) (auto simp: transition_evolves fail_def split: if_splits)

lemma traffic_evolves_row:
  "evolves d (d\<lparr>dep_traffic_percent := p, dep_updated_at := n\<rparr>)"
  by (auto simp: evolves_def write_deployment_def wf_deployment_def)

lemma set_traffic_evolves: "rows_step evolves w (snd (set_traffic_percent i p w))"
proof -
  let ?f = "\<lambda>d. andThen time_now (\<lambda>now. ret (d\<lparr>dep_traffic_percent := p, dep_updated_at := now\<rparr>))"
  have pure: "pg.pure_body ?f"
    by (auto simp: pg.pure_body_def prog_defs)
  have upd: "dep_id d' = dep_id d \<and> evolves d (write_deployment (d'\<lparr>dep_updated_at := now\<rparr>) d)"
    if "?f d u = (Inr d', v)" for d d' u v now
    using that traffic_evolves_row by (auto simp: prog_defs write_deployment_def)
  let ?m = "andThen (wrapped (ErrWrap ''getting deployment for traffic update'') (get_deployment i))
    (\<lambda>d. andThen (?f d) (\<lambda>d'. wrapped (ErrWrap ''updating deployment traffic'') (update_deployment d')))"
  have "set_traffic_percent i p = andThen ?m (\<lambda>_. ret ())"
    by (simp add: set_traffic_percent_def andThen_assoc)
  moreover have "rows_step evolves w (snd (?m w))"
    using pure upd by (rule rmw_rows)
  ultimately show ?thesis
    by (simp add: rows_step_then ret_def)
qed

text \<open>The primitive calls leave the rows alone.\<close>

lemma prim_evolves:
  "keeps (rows_step evolves) (ext_call e)" "keeps (rows_step evolves) time_now"
  "keeps (rows_step evolves) uuid_new" "keeps (rows_step evolves) (publish_event m i)"
  by (auto simp: keeps_def prog_defs intro: rows_step_same)

lemma create_evolves: "rows_step evolves w (snd (svc_create_deployment d w))"
proof -
  have app: "rows_step evolves w (w\<lparr>deployments := deployments w @ [x]\<rparr>)" for w x
    by (auto simp: rows_step_def find_deployment_def row_simps intro: evolves_refl)
  have c: "keeps (rows_step evolves) (create_deployment d)" for d
    unfolding create_deployment_def Let_def
    by (intro evolution.keeps_rules evolution.keeps_modify app prim_evolves)
  have l: "keeps (rows_step evolves) (get_latest_completed a e)" for a e
    unfolding get_latest_completed_def Let_def
    by (auto intro!: evolution.keeps_rules prim_evolves split: list.splits)
  have "keeps (rows_step evolves) (svc_create_deployment d)"
    unfolding svc_create_deployment_def Let_def
    by (intro evolution.keeps_rules prim_evolves c l)
  then show ?thesis by (simp add: keeps_def)
qed

lemma run_op_evolves: "rows_step evolves w (run_op x w)"
  by (cases x)
    (simp_all add: run_op_def promote_evolves rollback_evolves pause_evolves resume_evolves
      cancel_evolves set_traffic_evolves create_evolves rows_step_then ret_def)

text \<open>The primary key: no write makes two rows with one id.\<close>

definition keyed :: "deploy_world \<Rightarrow> bool" where
  "keyed w \<longleftrightarrow> distinct (map dep_id (deployments w))"

definition keys_kept :: "deploy_world \<Rightarrow> deploy_world \<Rightarrow> bool" where
  "keys_kept w w' \<longleftrightarrow> (keyed w \<longrightarrow> keyed w')"

interpretation keys: frame keys_kept
  by unfold_locales (auto simp: keys_kept_def)

lemma prim_keys [intro]:
  "keeps keys_kept (ext_call e)" "keeps keys_kept time_now" "keeps keys_kept uuid_new"
  "keeps keys_kept (publish_event m i)" "keeps keys_kept (transition t d)"
  "keeps keys_kept (get_deployment i)" "keeps keys_kept (get_latest_completed a v)"
  by (auto simp: keeps_def prog_defs keys_kept_def keyed_def publish_event_def publish_msg_def
      transition_def get_deployment_def get_latest_completed_def Let_def
      split: sum.splits option.splits list.splits)

lemma update_keys [intro]: "keeps keys_kept (update_deployment d)"
  by (auto simp: keeps_def prog_defs keys_kept_def keyed_def update_deployment_def Let_def row_simps)

lemma create_keys [intro]: "keeps keys_kept (create_deployment d)"
  by (auto simp: keeps_def prog_defs keys_kept_def keyed_def create_deployment_def Let_def
      find_deployment_def row_of_None)

lemma run_op_keys: "keyed w \<Longrightarrow> keyed (run_op x w)"
proof -
  have "keeps keys_kept (exec_op x)"
    by (cases x)
      (auto simp: control_defs set_traffic_percent_def svc_create_deployment_def Let_def
        intro!: keys.keeps_rules prim_keys update_keys create_keys split: sum.splits)
  then show "keyed w \<Longrightarrow> keyed (run_op x w)"
    by (auto simp: keeps_def keys_kept_def run_op_def)
qed

lemma new_build_id [simp]: "dep_id (new_build i now b) = i"
  by (simp add: new_build_def)

lemma build_keys: "keyed w \<Longrightarrow> keyed (run_write (Build b) w)"
  by (auto simp: upsert_build_deployment_def prog_defs keyed_def row_simps write_build_def
      find_deployment_def row_of_None image_iff split: option.splits)

text \<open>A build changes the row it finds and no other.\<close>

lemma build_other:
  assumes "keyed w" and "find_deployment w i = Some d" and "\<not> build_row b d"
  shows "find_deployment (run_write (Build b) w) i = Some d"
proof -
  have "dep_id r \<noteq> i" if "find (build_row b) (deployments w) = Some r" for r
  proof
    assume "dep_id r = i"
    moreover have "r \<in> set (deployments w)" "build_row b r" using that by (auto simp: find_Some_iff)
    ultimately have "find_deployment w i = Some r"
      using assms(1) by (auto simp: find_deployment_def keyed_def row_of_distinct)
    then show False using assms(2,3) \<open>build_row b r\<close> by simp
  qed
  then show ?thesis
    using assms(2)
    by (auto simp: upsert_build_deployment_def prog_defs find_deployment_def row_simps write_build_def
        split: option.splits)
qed

lemma run_write_evolves:
  assumes "keyed w" and "find_deployment w i = Some d" and "\<forall>b. x = Build b \<longrightarrow> \<not> build_row b d"
  shows "\<exists>d'. find_deployment (run_write x w) i = Some d' \<and> evolves d d'"
proof (cases x)
  case (Call c)
  then show ?thesis using run_op_evolves[of w c] assms(2) by (auto simp: rows_step_def)
next
  case (Build b)
  then show ?thesis using build_other[OF assms(1,2)] assms(3) evolves_refl by auto
qed

lemma run_write_keys: "keyed w \<Longrightarrow> keyed (run_write x w)"
  using run_op_keys build_keys by (cases x) auto

lemma evolves_keeps:
  assumes "evolves d d'"
  shows "dep_application_id d' = dep_application_id d" "dep_environment_id d' = dep_environment_id d"
    "dep_artifact d' = dep_artifact d" "dep_version d' = dep_version d"
    "dep_commit_sha d' = dep_commit_sha d" "dep_source d' = dep_source d"
    "dep_created_at d' = dep_created_at d"
  using assms by (simp_all add: evolves_def) (metis write_deployment_keeps)+

lemma run_writes_evolves:
  assumes "keyed w" and "find_deployment w i = Some d" and "\<forall>b. Build b \<in> set xs \<longrightarrow> \<not> build_row b d"
  shows "\<exists>d'. find_deployment (run_writes xs w) i = Some d' \<and> evolves d d'"
  using assms
proof (induction xs arbitrary: w d)
  case Nil
  then show ?case by (auto intro: evolves_refl)
next
  case (Cons x xs)
  then obtain e where e: "find_deployment (run_write x w) i = Some e" "evolves d e"
    using run_write_evolves[of w i d x] by auto
  moreover have "\<forall>b. Build b \<in> set xs \<longrightarrow> \<not> build_row b e"
    using Cons.prems(3) evolves_keeps[OF e(2)] by (auto simp: build_row_def)
  ultimately show ?case
    using Cons.IH[OF run_write_keys[OF Cons.prems(1)] e(1)] evolves_trans by auto
qed

text \<open>
  C2. Deployments are never lost and never leave the life cycle through the service. After any
  sequence of calls of its seven writing methods (create, promote, roll back, pause, resume,
  cancel, set traffic), mixed with builds that the GitHub hook records for other deployments,
  and whatever calls to the database and the bus fail, a stored deployment is still there
  with its identity columns unchanged, its status is reachable along the life cycle from what
  it was, consistent timestamps are still consistent, and one that had finished still has the
  status and the completion time it finished with. Excluded are the builds recorded for this
  very deployment, which overwrite its status unchecked, the phase engine, which writes back
  stale copies, and the deletion of its application, which takes the row along.
\<close>

theorem service_history:
  assumes "keyed w" and "find_deployment w i = Some d"
    and "\<forall>b. Build b \<in> set xs \<longrightarrow> \<not> build_row b d"
  shows "\<exists>d'. find_deployment (run_writes xs w) i = Some d' \<and>
    lifecycle\<^sup>*\<^sup>* (dep_status d) (dep_status d') \<and>
    dep_application_id d' = dep_application_id d \<and> dep_artifact d' = dep_artifact d \<and>
    dep_version d' = dep_version d \<and> dep_created_at d' = dep_created_at d \<and>
    (wf_deployment d \<longrightarrow> wf_deployment d') \<and>
    (is_terminal d \<longrightarrow> dep_status d' = dep_status d \<and> dep_completed_at d' = dep_completed_at d)"
proof -
  obtain d' where d': "find_deployment (run_writes xs w) i = Some d'" "evolves d d'"
    using run_writes_evolves[OF assms] by blast
  with evolves_keeps[OF d'(2)] show ?thesis
    by (auto simp: evolves_def is_terminal_def dest: lifecycle_star_terminal)
qed

section \<open>What each control does when nothing outside fails\<close>

text \<open>
  The contract of the controls as a table: the deployment named, the statuses the control
  is allowed in, the status it leads to, and the event it announces.
\<close>

fun control_of :: "service_op \<Rightarrow> (uuid \<times> deploy_status list \<times> deploy_status \<times> string) option" where
  "control_of (Promote i) = Some (i, [DeployStatusRunning], DeployStatusPromoting, ''deployment.promoted'')"
| "control_of (Rollback i) = Some (i, [DeployStatusRunning, DeployStatusPaused, DeployStatusPromoting],
     DeployStatusRolledBack, ''deployment.rolled_back'')"
| "control_of (Pause i) = Some (i, [DeployStatusRunning], DeployStatusPaused, ''deployment.paused'')"
| "control_of (Resume i) = Some (i, [DeployStatusPaused], DeployStatusRunning, ''deployment.resumed'')"
| "control_of (Cancel i) = Some (i, [DeployStatusPending, DeployStatusRunning, DeployStatusPaused],
     DeployStatusCancelled, ''deployment.cancelled'')"
| "control_of _ = None"

text \<open>
  \<open>meets_contract\<close>: what a control's run does to the store and the bus. \<open>control_body\<close>:
  what lies between its read and its write.
\<close>

definition meets_contract ::
  "uuid \<Rightarrow> deploy_status list \<Rightarrow> deploy_status \<Rightarrow> (int \<Rightarrow> int) \<Rightarrow> string \<Rightarrow> unit deploy_prog \<Rightarrow>
   deploy_world \<Rightarrow> bool" where
  "meets_contract i froms target traffic subject m w \<longleftrightarrow>
     (\<exists>r w'. m w = (r, w') \<and>
       (if \<exists>d. find_deployment w i = Some d \<and> dep_status d \<in> set froms
        then r = Inr () \<and> outbox w' = outbox w @ [ServiceEvent (''deployments.'' @ subject) i] \<and>
          (\<exists>d'. find_deployment w' = (find_deployment w)(i \<mapsto> d') \<and> dep_status d' = target \<and>
             dep_traffic_percent d' = traffic (dep_traffic_percent (the (find_deployment w i))))
        else r \<noteq> Inr () \<and> find_deployment w' = find_deployment w \<and> outbox w' = outbox w))"

definition control_body ::
  "deploy_status list \<Rightarrow> deploy_status \<Rightarrow> (int \<Rightarrow> int) \<Rightarrow> (deployment \<Rightarrow> deployment deploy_prog) \<Rightarrow> bool" where
  "control_body froms target traffic f \<longleftrightarrow>
     (\<forall>d u. \<exists>n r. f d u = (r, u\<lparr>reads := n\<rparr>) \<and>
       (if dep_status d \<in> set froms
        then \<exists>d'. r = Inr d' \<and> dep_status d' = target \<and> dep_id d' = dep_id d \<and>
          dep_traffic_percent d' = traffic (dep_traffic_percent d)
        else \<exists>e. r = Inl e))"

lemma control_run:
  assumes "calm w" and "control_body froms target traffic f"
  shows "meets_contract i froms target traffic m
    (andThen (wrapped g (get_deployment i)) (\<lambda>d. andThen (f d) (\<lambda>d'.
      andThen (wrapped h (update_deployment d')) (\<lambda>x. publish_event m (dep_id x))))) w"
proof (cases "find_deployment w i")
  case None
  with assms(1) show ?thesis by (simp add: meets_contract_def get_deployment_def prog_defs)
next
  case (Some d)
  let ?u = "w\<lparr>calls := Suc (calls w)\<rparr>"
  from assms(2) obtain n r where f: "f d ?u = (r, ?u\<lparr>reads := n\<rparr>)" and
    r: "if dep_status d \<in> set froms
        then \<exists>d'. r = Inr d' \<and> dep_status d' = target \<and> dep_id d' = dep_id d \<and>
          dep_traffic_percent d' = traffic (dep_traffic_percent d)
        else \<exists>e. r = Inl e" unfolding control_body_def by blast
  have id: "dep_id d = i" using Some by (rule find_deployment_key)
  show ?thesis
  proof (cases "dep_status d \<in> set froms")
    case False
    with r f Some assms(1) show ?thesis by (auto simp: meets_contract_def get_deployment_def prog_defs)
  next
    case True
    with r obtain d' where d': "r = Inr d'" "dep_status d' = target" "dep_id d' = i"
      "dep_traffic_percent d' = traffic (dep_traffic_percent d)" using id by auto
    show ?thesis
      using f Some assms(1) d' True
      by (auto simp: meets_contract_def get_deployment_def update_deployment_def publish_event_def
          publish_msg_def find_write_deployment prog_defs Let_def write_deployment_def)
  qed
qed

lemma validate_transition_cases:
  "(case validate_transition d t of Inl e \<Rightarrow> A e | Inr _ \<Rightarrow> B) =
   (if lifecycle (dep_status d) t then B else A (projl (validate_transition d t)))"
  using validate_transition_ok[of d t "()"] by (cases "validate_transition d t") (simp_all del: validate_transition_ok)

lemma transition_run:
  "\<exists>n r. transition t d u = (r, u\<lparr>reads := n\<rparr>) \<and>
     (if lifecycle (dep_status d) t
      then \<exists>d'. r = Inr d' \<and> dep_status d' = t \<and> dep_traffic_percent d' = dep_traffic_percent d \<and>
                dep_id d' = dep_id d
      else \<exists>e. r = Inl e)"
proof (cases "lifecycle (dep_status d) t")
  case True
  then obtain d' where "transition_to (clock u (reads u)) t d = Inr d'"
    using transition_to_ok by blast
  with True show ?thesis
    by (auto simp: transition_def validate_transition_cases prog_defs transition_to_Inr
        intro: exI[of _ "Suc (reads u)"])
next
  case False
  then show ?thesis
    by (auto simp: transition_def validate_transition_cases fail_def intro: exI[of _ "reads u"])
qed

lemma transition_body:
  assumes "\<And>s. lifecycle s t \<longleftrightarrow> s \<in> set froms"
  shows "control_body froms t (\<lambda>p. p) (transition t)"
  unfolding control_body_def
proof (intro allI)
  fix d u
  show "\<exists>n r. transition t d u = (r, u\<lparr>reads := n\<rparr>) \<and>
    (if dep_status d \<in> set froms
     then \<exists>d'. r = Inr d' \<and> dep_status d' = t \<and> dep_id d' = dep_id d \<and>
       dep_traffic_percent d' = dep_traffic_percent d
     else \<exists>e. r = Inl e)"
    using transition_run[of t d u] assms[of "dep_status d"]
    by (cases "dep_status d \<in> set froms") auto
qed

lemma guarded_body:
  assumes "lifecycle s t"
  shows "control_body [s] t (\<lambda>p. p) (\<lambda>d. if dep_status d \<noteq> s then fail e else transition t d)"
  unfolding control_body_def
proof (intro allI)
  fix d u
  show "\<exists>n r. (if dep_status d \<noteq> s then fail e else transition t d) u = (r, u\<lparr>reads := n\<rparr>) \<and>
    (if dep_status d \<in> set [s]
     then \<exists>d'. r = Inr d' \<and> dep_status d' = t \<and> dep_id d' = dep_id d \<and>
       dep_traffic_percent d' = dep_traffic_percent d
     else \<exists>e. r = Inl e)"
    using transition_run[of t d u] assms
    by (cases "dep_status d = s") (auto simp: fail_def intro: exI[of _ "reads u"])
qed

lemma promote_body:
  "control_body [DeployStatusRunning] DeployStatusPromoting (\<lambda>_. 100)
     (\<lambda>d. case validate_transition d DeployStatusPromoting of
            Inl e \<Rightarrow> fail (ErrTransition e)
          | Inr _ \<Rightarrow> andThen time_now (\<lambda>now.
              ret (d\<lparr>dep_status := DeployStatusPromoting, dep_traffic_percent := 100,
                     dep_updated_at := now\<rparr>)))"
  unfolding control_body_def validate_transition_cases
proof (intro allI)
  fix d and u :: deploy_world
  show "\<exists>n r. (if lifecycle (dep_status d) DeployStatusPromoting
       then andThen time_now (\<lambda>now. ret (d\<lparr>dep_status := DeployStatusPromoting,
         dep_traffic_percent := 100, dep_updated_at := now\<rparr>))
       else fail (ErrTransition (projl (validate_transition d DeployStatusPromoting)))) u =
      (r, u\<lparr>reads := n\<rparr>) \<and>
    (if dep_status d \<in> set [DeployStatusRunning]
     then \<exists>d'. r = Inr d' \<and> dep_status d' = DeployStatusPromoting \<and> dep_id d' = dep_id d \<and>
       dep_traffic_percent d' = 100
     else \<exists>e. r = Inl e)"
    by (cases "dep_status d = DeployStatusRunning")
      (auto simp: lifecycle_iff prog_defs intro: exI[of _ "reads u"])
qed

text \<open>
  C3. The controls implement their contract. When no outside call fails, a control names a
  deployment: it succeeds exactly when the deployment exists in one of the allowed statuses;
  it then moves that one row to the target status (promotion alone also sends it all the
  traffic, the others leave its traffic as it was) and announces one event; otherwise it
  returns an error and neither a row nor the bus has changed.
\<close>

theorem controls_refine_contract:
  assumes "calm w" and "control_of x = Some (i, froms, target, event)"
  shows "\<exists>r w'. exec_op x w = (r, w') \<and>
    (if \<exists>d. find_deployment w i = Some d \<and> dep_status d \<in> set froms
     then r = Inr () \<and> outbox w' = outbox w @ [ServiceEvent (''deployments.'' @ event) i] \<and>
       (\<exists>d'. find_deployment w' = (find_deployment w)(i \<mapsto> d') \<and> dep_status d' = target \<and>
          dep_traffic_percent d' =
            (if x = Promote i then 100 else dep_traffic_percent (the (find_deployment w i))))
     else r \<noteq> Inr () \<and> find_deployment w' = find_deployment w \<and> outbox w' = outbox w)"
proof -
  have "meets_contract i froms target (if x = Promote i then (\<lambda>_. 100) else (\<lambda>p. p)) event
    (exec_op x) w"
    using assms(2)
    by (cases x)
      (auto simp: control_defs lifecycle_iff
        intro!: control_run[OF assms(1)] promote_body transition_body guarded_body)
  then show ?thesis by (simp only: meets_contract_def if_distribR)
qed

section \<open>Concrete runs\<close>

text \<open>A store to run the model on: no call fails, and identifiers are handed out from 100.\<close>

definition sample_world :: "deployment list \<Rightarrow> deployment_phase list \<Rightarrow> deploy_world" where
  "sample_world ds ps = \<lparr> fault = (\<lambda>_. False), calls = 0, clock = int, reads = 0,
     fresh = (\<lambda>n. 100 + of_nat n), minted = 0, ctxdone = (\<lambda>_. False), polls = 0,
     deployments = ds, deployment_phases = ps, rollback_history = [], outbox = [] \<rparr>"

lemma sample_world_calm [simp]: "calm (sample_world ds ps)"
  by (simp add: sample_world_def calm_def)

lemma find_sample:
  "find_deployment (sample_world [sample_deployment s] ps) 7 = Some (sample_deployment s)"
  by (simp add: find_deployment_def sample_world_def sample_deployment_def row_simps)

definition sample_build :: "deploy_status \<Rightarrow> string \<Rightarrow> build_upsert" where
  "sample_build st sha = \<lparr> bu_application_id = 1, bu_environment_id = 2, bu_commit_sha = sha,
     bu_workflow_name = ''build'', bu_version = ''main@0123456'', bu_artifact = ''org/app'',
     bu_status = st, bu_html_url = [], bu_created_by = 3, bu_started_at = Some 8,
     bu_completed_at = None \<rparr>"

lemma service_history_witness:
  "\<exists>d'. find_deployment (run_writes [Call (Pause 7), Build (sample_build DeployStatusRunning ''abc''),
      Call (SetTraffic 7 50), Call (Cancel 7), Call (Resume 7)]
      (sample_world [sample_deployment DeployStatusCompleted] [])) 7 = Some d' \<and>
    dep_status d' = DeployStatusCompleted"
proof -
  have "keyed (sample_world [sample_deployment DeployStatusCompleted] [])"
    by (simp add: keyed_def sample_world_def)
  then show ?thesis
    using service_history[OF _ find_sample[of DeployStatusCompleted "[]"],
        of "[Call (Pause 7), Build (sample_build DeployStatusRunning ''abc''),
          Call (SetTraffic 7 50), Call (Cancel 7), Call (Resume 7)]"]
    by (auto simp: sample_deployment_def is_terminal_def build_row_def)
qed

lemma controls_refine_contract_witness:
  "\<exists>w'. exec_op (Promote 7) (sample_world [sample_deployment DeployStatusRunning] []) = (Inr (), w') \<and>
    (\<exists>d'. find_deployment w' 7 = Some d' \<and> dep_traffic_percent d' = 100)"
  using controls_refine_contract[OF sample_world_calm, of "Promote 7" 7 "[DeployStatusRunning]"
      DeployStatusPromoting "''deployment.promoted''" "[sample_deployment DeployStatusRunning]" "[]"]
    find_sample[of DeployStatusRunning "[]"]
  by (auto simp: sample_deployment_def)

end
