(* ===== verification/SqlBuilder.thy ===== *)
theory SqlBuilder
  imports DeployService "HOL-Library.Sublist"
begin

text \<open>
  The dynamic \<open>WHERE\<close> clauses of \<open>internal/platform/database/postgres/helpers.go\<close> and the
  deployment listing built with them (\<open>deploy.go\<close>). A condition is a format string whose
  verb \<open>%d\<close> is replaced by the position of its argument; the lemmas show what text results,
  for the builder in general and for the listing behind the active-deployments query.
\<close>

section \<open>fmt.Sprintf on integer arguments\<close>

text \<open>
  The verbs the builder uses: \<open>%d\<close> takes the next argument, \<open>%%\<close> is a percent sign (no other
  verb occurs in a condition; the model treats any as \<open>%d\<close>). A verb
  without an argument prints \<open>%!d(MISSING)\<close>, arguments without a verb are appended as
  \<open>%!(EXTRA int=..., ...)\<close>.
\<close>

fun decimal :: "nat \<Rightarrow> string" where
  "decimal n = (if n < 10 then [''0123456789'' ! n] else decimal (n div 10) @ [''0123456789'' ! (n mod 10)])"

declare decimal.simps [simp del]

fun extra_args :: "nat list \<Rightarrow> string" where
  "extra_args [] = ''''"
| "extra_args [n] = ''int='' @ decimal n"
| "extra_args (n # ns) = ''int='' @ decimal n @ '', '' @ extra_args ns"

fun sprintf_d :: "string \<Rightarrow> nat list \<Rightarrow> string" where
  "sprintf_d [] ns = (if ns = [] then '''' else ''%!(EXTRA '' @ extra_args ns @ '')'')"
| "sprintf_d (c # cs) ns =
     (if c = CHR ''%'' then
        (case cs of
           [] \<Rightarrow> ''%!(NOVERB)'' @ sprintf_d [] ns
         | v # cs' \<Rightarrow>
             if v = CHR ''%'' then CHR ''%'' # sprintf_d cs' ns
             else (case ns of
                     [] \<Rightarrow> ''%!'' @ [v] @ ''(MISSING)'' @ sprintf_d cs' []
                   | n # ns' \<Rightarrow> decimal n @ sprintf_d cs' ns'))
      else c # sprintf_d cs ns)"

section \<open>The builder\<close>

datatype sql_arg = ArgUuid uuid | ArgText string | ArgInt int | ArgNil

record where_builder =
  conditions :: "string list"
  wb_args :: "sql_arg list"

definition empty_builder :: where_builder where
  "empty_builder = \<lparr> conditions = [], wb_args = [] \<rparr>"

definition wb_add :: "string \<Rightarrow> sql_arg \<Rightarrow> where_builder \<Rightarrow> where_builder" where
  "wb_add condition arg w =
     w\<lparr>conditions := conditions w @ [sprintf_d condition [length (wb_args w) + 1]],
       wb_args := wb_args w @ [arg]\<rparr>"

fun join :: "string \<Rightarrow> string list \<Rightarrow> string" where
  "join sep [] = ''''"
| "join sep [s] = s"
| "join sep (s # ss) = s @ sep @ join sep ss"

definition wb_build :: "where_builder \<Rightarrow> string \<times> sql_arg list" where
  "wb_build w = (if conditions w = [] then ('''', [])
                 else ('' WHERE '' @ join '' AND '' (conditions w), wb_args w))"

definition pagination_clause :: "int \<Rightarrow> int \<Rightarrow> sql_arg list \<Rightarrow> string \<times> sql_arg list" where
  "pagination_clause lmt offset args =
     (let lmt' = (if lmt \<le> 0 then 20 else lmt); start = length args + 1
      in (sprintf_d '' LIMIT $%d OFFSET $%d'' [start, start + 1],
          args @ [ArgInt lmt', ArgInt offset]))"

section \<open>Listing deployments\<close>

record list_options =
  lo_limit :: int
  lo_offset :: int
  lo_environment_id :: "uuid option"
  lo_status :: "string option"
  lo_exclude_terminal :: bool

definition list_deployments_where :: "uuid \<Rightarrow> list_options \<Rightarrow> where_builder" where
  "list_deployments_where app opts =
     (let w1 = wb_add ''application_id = $%d'' (ArgUuid app) empty_builder;
          w2 = (case lo_environment_id opts of None \<Rightarrow> w1
                | Some e \<Rightarrow> wb_add ''environment_id = $%d'' (ArgUuid e) w1);
          w3 = (case lo_status opts of None \<Rightarrow> w2
                | Some s \<Rightarrow> wb_add ''status = $%d'' (ArgText s) w2)
      in if lo_exclude_terminal opts
         then wb_add ''status NOT IN ('completed', 'failed', 'rolled_back', 'cancelled')'' ArgNil w3
         else w3)"

text \<open>The statement handed to the driver, after the column list and the table name.\<close>

definition list_deployments_query :: "uuid \<Rightarrow> list_options \<Rightarrow> string \<times> sql_arg list" where
  "list_deployments_query app opts =
     (let (clause, args) = wb_build (list_deployments_where app opts);
          (pag, args') = pagination_clause (lo_limit opts) (lo_offset opts) args
      in (clause @ '' ORDER BY created_at DESC'' @ pag, args'))"

text \<open>The service's listing clamps the page size, its active listing asks for non-terminal rows.\<close>

definition svc_list_query :: "uuid \<Rightarrow> list_options \<Rightarrow> string \<times> sql_arg list" where
  "svc_list_query app opts =
     (let o1 = (if lo_limit opts \<le> 0 then opts\<lparr>lo_limit := 20\<rparr> else opts);
          o2 = (if lo_limit o1 > 100 then o1\<lparr>lo_limit := 100\<rparr> else o1)
      in list_deployments_query app o2)"

definition active_deployments_query :: "uuid \<Rightarrow> string \<times> sql_arg list" where
  "active_deployments_query app = list_deployments_query app
     \<lparr> lo_limit = 100, lo_offset = 0, lo_environment_id = None, lo_status = None,
       lo_exclude_terminal = True \<rparr>"

section \<open>What the builder produces\<close>

lemma sprintf_plain: "CHR ''%'' \<notin> set s \<Longrightarrow> sprintf_d (s @ t) ns = s @ sprintf_d t ns"
  by (induction s) auto

text \<open>A condition in the form the comment of \<open>Add\<close> asks for: text, one \<open>%d\<close>, text.\<close>

datatype condition = Condition (before: string) (after: string)

fun plain :: "condition \<Rightarrow> bool" where
  "plain (Condition a b) \<longleftrightarrow> CHR ''%'' \<notin> set a \<and> CHR ''%'' \<notin> set b"

fun format_of :: "condition \<Rightarrow> string" where
  "format_of (Condition a b) = a @ ''%d'' @ b"

fun numbered :: "condition \<Rightarrow> nat \<Rightarrow> string" where
  "numbered (Condition a b) n = a @ decimal n @ b"

fun add_all :: "(condition \<times> sql_arg) list \<Rightarrow> where_builder \<Rightarrow> where_builder" where
  "add_all [] w = w"
| "add_all ((c, x) # cs) w = add_all cs (wb_add (format_of c) x w)"

lemma sprintf_condition: "plain c \<Longrightarrow> sprintf_d (format_of c) [n] = numbered c n"
  using sprintf_plain[of "after c" "[]" "[]"]
  by (cases c) (simp add: sprintf_plain)

lemma add_all_spec:
  "\<forall>(c, x) \<in> set cs. plain c \<Longrightarrow> length (conditions w) = length (wb_args w) \<Longrightarrow>
   conditions (add_all cs w) = conditions w @
     map2 (\<lambda>c n. numbered c n) (map fst cs) [Suc (length (wb_args w)) ..< Suc (length (wb_args w) + length cs)] \<and>
   wb_args (add_all cs w) = wb_args w @ map snd cs"
proof (induction cs arbitrary: w)
  case Nil
  show ?case by simp
next
  case (Cons c cs)
  obtain k x where c: "c = (k, x)" by (cases c)
  let ?n = "length (wb_args w)"
  have "[Suc ?n ..< Suc (?n + length (c # cs))] = Suc ?n # [Suc (Suc ?n) ..< Suc (Suc ?n + length cs)]"
    by (simp add: upt_rec)
  with Cons c show ?case by (auto simp: wb_add_def sprintf_condition)
qed

text \<open>
  Numbering of SQL placeholders. Conditions of the documented form, added in any number,
  give the clause in which the \<open>n\<close>-th condition carries the number \<open>n\<close> and the argument list
  has its argument at position \<open>n\<close>; the pagination clause takes the next two numbers.
\<close>

theorem where_builder_numbered:
  assumes "\<forall>(c, x) \<in> set cs. plain c" and "cs \<noteq> []"
  shows "wb_build (add_all cs empty_builder) =
      ('' WHERE '' @ join '' AND '' (map2 numbered (map fst cs) [1 ..< Suc (length cs)]), map snd cs) \<and>
    fst (pagination_clause lmt offset (map snd cs)) =
      '' LIMIT $'' @ decimal (length cs + 1) @ '' OFFSET $'' @ decimal (length cs + 2)"
proof -
  have spec: "conditions (add_all cs empty_builder) = map2 numbered (map fst cs) [1 ..< Suc (length cs)]"
    "wb_args (add_all cs empty_builder) = map snd cs"
    using add_all_spec[OF assms(1), of empty_builder] by (simp_all add: empty_builder_def)
  moreover have "map2 numbered (map fst cs) [1 ..< Suc (length cs)] \<noteq> []"
    using assms(2) by (cases cs) (auto simp: upt_rec)
  ultimately show ?thesis
    using sprintf_plain[of "''''" "[]" "[]"]
    by (simp add: wb_build_def pagination_clause_def Let_def)
qed

lemma where_builder_numbered_witness:
  "fst (wb_build (add_all [(Condition ''a = $'' '''', ArgInt 5), (Condition ''$'' '' = ANY(tags)'', ArgText ''x'')]
     empty_builder)) = '' WHERE a = $1 AND $2 = ANY(tags)''"
  using where_builder_numbered[of "[(Condition ''a = $'' '''', ArgInt 5),
      (Condition ''$'' '' = ANY(tags)'', ArgText ''x'')]"]
  by (simp add: decimal.simps upt_rec)

lemma decimal_small: "n < 10 \<Longrightarrow> decimal n = [''0123456789'' ! n]"
  by (simp add: decimal.simps)

text \<open>
  The deployment listing. Without the terminal filter the query is the numbered
  conjunction of the filters asked for, one placeholder per argument. With the filter the
  text always carries a formatting artefact, \<open>%!(EXTRA int=\<close>, because that condition has no
  verb for the position it is given: no query for the active deployments is valid SQL.
\<close>

theorem list_deployments_query_text:
  "(lo_exclude_terminal opts \<longrightarrow>
      sublist ''%!(EXTRA int='' (fst (list_deployments_query app opts))) \<and>
   (\<not> lo_exclude_terminal opts \<longrightarrow>
      fst (list_deployments_query app opts) = '' WHERE application_id = $1'' @
        (case (lo_environment_id opts, lo_status opts) of
           (None, None) \<Rightarrow> '' ORDER BY created_at DESC LIMIT $2 OFFSET $3''
         | (Some _, None) \<Rightarrow> '' AND environment_id = $2 ORDER BY created_at DESC LIMIT $3 OFFSET $4''
         | (None, Some _) \<Rightarrow> '' AND status = $2 ORDER BY created_at DESC LIMIT $3 OFFSET $4''
         | (Some _, Some _) \<Rightarrow>
             '' AND environment_id = $2 AND status = $3 ORDER BY created_at DESC LIMIT $4 OFFSET $5'')) \<and>
   sublist ''%!(EXTRA int=2)'' (fst (active_deployments_query app))"
proof -
  have artefact: "sprintf_d ''status NOT IN ('completed', 'failed', 'rolled_back', 'cancelled')'' [n] =
    ''status NOT IN ('completed', 'failed', 'rolled_back', 'cancelled')%!(EXTRA int='' @ decimal n @ '')''" for n
    by simp
  note unfolds = list_deployments_query_def list_deployments_where_def wb_build_def
    empty_builder_def pagination_clause_def Let_def decimal_small
  have "sublist ''%!(EXTRA int='' (fst (list_deployments_query app opts))" if "lo_exclude_terminal opts"
    using that
    by (cases "lo_environment_id opts"; cases "lo_status opts")
      (simp_all add: unfolds wb_add_def sublist_Cons_right del: sublist_append)
  moreover have "sublist ''%!(EXTRA int=2)'' (fst (active_deployments_query app))"
    by (simp add: active_deployments_query_def unfolds wb_add_def sublist_Cons_right)
  moreover have "fst (list_deployments_query app opts) = '' WHERE application_id = $1'' @
        (case (lo_environment_id opts, lo_status opts) of
           (None, None) \<Rightarrow> '' ORDER BY created_at DESC LIMIT $2 OFFSET $3''
         | (Some _, None) \<Rightarrow> '' AND environment_id = $2 ORDER BY created_at DESC LIMIT $3 OFFSET $4''
         | (None, Some _) \<Rightarrow> '' AND status = $2 ORDER BY created_at DESC LIMIT $3 OFFSET $4''
         | (Some _, Some _) \<Rightarrow>
             '' AND environment_id = $2 AND status = $3 ORDER BY created_at DESC LIMIT $4 OFFSET $5'')"
    if "\<not> lo_exclude_terminal opts"
    using that
    by (cases "lo_environment_id opts"; cases "lo_status opts") (simp_all add: unfolds wb_add_def)
  ultimately show ?thesis by blast
qed

lemma list_deployments_query_text_witness:
  "fst (list_deployments_query 3 \<lparr> lo_limit = 5, lo_offset = 0, lo_environment_id = None,
      lo_status = Some ''running'', lo_exclude_terminal = False \<rparr>) =
    '' WHERE application_id = $1 AND status = $2 ORDER BY created_at DESC LIMIT $3 OFFSET $4'' \<and>
   sublist ''%!(EXTRA int=2)'' (fst (active_deployments_query 3))"
  using list_deployments_query_text[of "\<lparr> lo_limit = 5, lo_offset = 0, lo_environment_id = None,
      lo_status = Some ''running'', lo_exclude_terminal = False \<rparr>" 3]
  by simp

end
