(* ===== verification/DeployStrategies.thy ===== *)
theory DeployStrategies
  imports DeployService
begin

text \<open>
  The rollout strategies of \<open>internal/deploy/strategies\<close>: canary, blue-green and rolling. A
  strategy holds the deployment it was given and rewrites its traffic; \<open>built\<close> collects the
  phase records it makes on the way. Waiting for a duration is a \<open>select\<close> between the timer
  and the context, so it either passes or ends the run with the context's error.
\<close>

section \<open>Configurations\<close>

record health_check_criteria =
  hc_max_error_rate :: f64
  hc_latency_p99_ms :: int
  hc_custom_metrics :: "string \<rightharpoonup> f64"

record canary_step =
  cs_traffic_percent :: int
  cs_duration :: duration
  cs_health_criteria :: "health_check_criteria option"
  cs_auto_promote :: "bool option"

record canary_config =
  cc_steps :: "canary_step list"
  cc_health_check_url :: string
  cc_health_threshold :: f64
  cc_auto_promote :: bool
  cc_rollback_on_failure :: bool

definition canary_step_of :: "int \<Rightarrow> duration \<Rightarrow> canary_step" where
  "canary_step_of p t = \<lparr> cs_traffic_percent = p, cs_duration = t, cs_health_criteria = None,
     cs_auto_promote = None \<rparr>"

definition default_canary_config :: canary_config where
  "default_canary_config = \<lparr>
     cc_steps = [canary_step_of 1 (minutes 5), canary_step_of 5 (minutes 5),
                 canary_step_of 25 (minutes 10), canary_step_of 50 (minutes 10),
                 canary_step_of 100 0],
     cc_health_check_url = '''', cc_health_threshold = round64 (95 / 100), cc_auto_promote = True,
     cc_rollback_on_failure = True \<rparr>"

definition is_auto_promote :: "bool \<Rightarrow> canary_step \<Rightarrow> bool" where
  "is_auto_promote strategy_default st =
     (case cs_auto_promote st of Some b \<Rightarrow> b | None \<Rightarrow> strategy_default)"

record blue_green_config =
  bg_warmup_duration :: duration
  bg_health_check_url :: string
  bg_health_threshold :: f64
  bg_rollback_on_failure :: bool

definition default_blue_green_config :: blue_green_config where
  "default_blue_green_config = \<lparr> bg_warmup_duration = minutes 2, bg_health_check_url = '''',
     bg_health_threshold = round64 (95 / 100), bg_rollback_on_failure = True \<rparr>"

record rolling_config =
  rc_batch_size :: int
  rc_batch_delay :: duration
  rc_max_unavailable :: int
  rc_max_surge :: int
  rc_health_check_url :: string
  rc_health_threshold :: f64
  rc_rollback_on_failure :: bool
  rc_total_instances :: int

definition default_rolling_config :: rolling_config where
  "default_rolling_config = \<lparr> rc_batch_size = 1, rc_batch_delay = seconds 30,
     rc_max_unavailable = 1, rc_max_surge = 1, rc_health_check_url = '''',
     rc_health_threshold = round64 (95 / 100), rc_rollback_on_failure = True,
     rc_total_instances = 3 \<rparr>"

section \<open>The run of a strategy\<close>

datatype strategy_error =
    NoCanarySteps | TotalInstancesNotPositive | BatchSizeNotPositive | StrategyContextDone

record strategy_run = env +
  held :: deployment
  built :: "deployment_phase list"

type_synonym 'a strategy_prog = "(strategy_run, strategy_error, 'a) prog"

definition check_ctx :: "unit strategy_prog" where
  "check_ctx = andThen ctx_done (\<lambda>stop. if stop then fail StrategyContextDone else ret ())"

definition wait_for :: "duration \<Rightarrow> unit strategy_prog" where
  "wait_for t = (if t > 0 then check_ctx else ret ())"

definition hold_traffic :: "int \<Rightarrow> unit strategy_prog" where
  "hold_traffic p = andThen time_now (\<lambda>now.
     modify (\<lambda>s. s\<lparr>held := (held s)\<lparr>dep_traffic_percent := p, dep_updated_at := now\<rparr>\<rparr>))"

definition build_phase :: "string \<Rightarrow> int \<Rightarrow> duration \<Rightarrow> int \<Rightarrow> unit strategy_prog" where
  "build_phase name p t order =
     andThen uuid_new (\<lambda>i. andThen time_now (\<lambda>now.
       modify (\<lambda>s. s\<lparr>built := built s @ [\<lparr> ph_id = i, ph_deployment_id = dep_id (held s),
         ph_name = name, ph_status = DeploymentPhaseStatusActive, ph_traffic_percent = p,
         ph_duration = whole_seconds t, ph_sort_order = order, ph_auto_promote = False,
         ph_started_at = Some now, ph_completed_at = None \<rparr>]\<rparr>)))"

definition strategy_rollback :: "unit strategy_prog" where
  "strategy_rollback = hold_traffic 0"

text \<open>Canary: one iteration per step. \<open>phase_name\<close> stands for \<open>fmt.Sprintf("canary-step-%d", i+1)\<close>.\<close>

primrec canary_steps :: "(nat \<Rightarrow> string) \<Rightarrow> nat \<Rightarrow> canary_step list \<Rightarrow> unit strategy_prog" where
  "canary_steps phase_name i [] = ret ()"
| "canary_steps phase_name i (st # sts) =
     andThen check_ctx (\<lambda>_.
     andThen (hold_traffic (cs_traffic_percent st)) (\<lambda>_.
     andThen (build_phase (phase_name (Suc i)) (cs_traffic_percent st) (cs_duration st) (int i)) (\<lambda>_.
     andThen (wait_for (cs_duration st)) (\<lambda>_.
       canary_steps phase_name (Suc i) sts))))"

definition canary_execute :: "(nat \<Rightarrow> string) \<Rightarrow> canary_config \<Rightarrow> unit strategy_prog" where
  "canary_execute phase_name cfg =
     (if cc_steps cfg = [] then fail NoCanarySteps else canary_steps phase_name 0 (cc_steps cfg))"

definition blue_green_execute :: "blue_green_config \<Rightarrow> unit strategy_prog" where
  "blue_green_execute cfg =
     andThen (hold_traffic 0) (\<lambda>_.
     andThen (wait_for (bg_warmup_duration cfg)) (\<lambda>_.
       hold_traffic 100))"

text \<open>
  Rolling: one batch, which returns the number of updated instances, and the loop around
  it. Nothing in the loop itself bounds the iterations, so it is a partial function whose
  value \<open>None\<close> would mean that the call does not return. Go's \<open>int\<close> has 64 bits: the product
  in the percentage wraps around, which \<open>int64\<close> writes out; the sums and differences of
  instance counts stay between 0 and the configured total and cannot.
\<close>

definition int64 :: "int \<Rightarrow> int" where
  "int64 x = signed_take_bit 63 x"

definition effective_batch :: "rolling_config \<Rightarrow> int" where
  "effective_batch cfg =
     (if rc_max_surge cfg > 0 \<and> rc_batch_size cfg > rc_max_surge cfg then rc_max_surge cfg
      else rc_batch_size cfg)"

definition rolling_batch ::
  "(nat \<Rightarrow> string) \<Rightarrow> rolling_config \<Rightarrow> int \<Rightarrow> int \<Rightarrow> nat \<Rightarrow> int strategy_prog" where
  "rolling_batch phase_name cfg eff updated batch_num =
     andThen check_ctx (\<lambda>_.
     let remaining = rc_total_instances cfg - updated;
         current = (if eff > remaining then remaining else eff);
         percent = go_div (int64 ((updated + current) * 100)) (rc_total_instances cfg)
     in andThen (build_phase (phase_name (Suc batch_num)) percent (rc_batch_delay cfg) (int batch_num)) (\<lambda>_.
        andThen (hold_traffic percent) (\<lambda>_.
        andThen (if updated + current < rc_total_instances cfg
                 then wait_for (rc_batch_delay cfg) else ret ()) (\<lambda>_.
          ret (updated + current)))))"

partial_function (option) rolling_loop ::
  "(nat \<Rightarrow> string) \<Rightarrow> rolling_config \<Rightarrow> int \<Rightarrow> int \<Rightarrow> nat \<Rightarrow> strategy_run \<Rightarrow>
   ((strategy_error + unit) \<times> strategy_run) option" where
  "rolling_loop phase_name cfg eff updated batch_num s =
     (if updated < rc_total_instances cfg then
        (let r = rolling_batch phase_name cfg eff updated batch_num s
         in if isl (fst r) then Some (Inl (projl (fst r)), snd r)
            else rolling_loop phase_name cfg eff (projr (fst r)) (Suc batch_num) (snd r))
      else Some (Inr (), s))"

definition rolling_execute ::
  "(nat \<Rightarrow> string) \<Rightarrow> rolling_config \<Rightarrow> strategy_run \<Rightarrow>
   ((strategy_error + unit) \<times> strategy_run) option" where
  "rolling_execute phase_name cfg s =
     (if rc_total_instances cfg \<le> 0 then Some (Inl TotalInstancesNotPositive, s)
      else if rc_batch_size cfg \<le> 0 then Some (Inl BatchSizeNotPositive, s)
      else rolling_loop phase_name cfg (effective_batch cfg) 0 0 s)"

section \<open>Traces of traffic\<close>

text \<open>
  \<open>shifts ps s t\<close>: from \<open>s\<close> to \<open>t\<close> the run built phases with the percentages \<open>ps\<close>, in
  order, and holds the traffic of the last of them.
\<close>

definition shifts :: "int list \<Rightarrow> strategy_run \<Rightarrow> strategy_run \<Rightarrow> bool" where
  "shifts ps s t \<longleftrightarrow>
     map ph_traffic_percent (built t) = map ph_traffic_percent (built s) @ ps \<and>
     dep_traffic_percent (held t) = (if ps = [] then dep_traffic_percent (held s) else last ps)"

lemma shifts_refl: "shifts [] s s"
  by (simp add: shifts_def)

lemma shifts_trans: "shifts ps s t \<Longrightarrow> shifts qs t u \<Longrightarrow> shifts (ps @ qs) s u"
  by (auto simp: shifts_def)

lemma check_ctx_run:
  "check_ctx s = (if ctxdone s (polls s) then Inl StrategyContextDone else Inr (),
                  s\<lparr>polls := Suc (polls s)\<rparr>)"
  by (simp add: check_ctx_def prog_defs)

lemma shifts_polls [simp]: "shifts ps (s\<lparr>polls := n\<rparr>) t = shifts ps s t"
  "shifts ps s (t\<lparr>polls := n\<rparr>) = shifts ps s t"
  by (simp_all add: shifts_def)

lemma wait_for_run:
  "\<exists>r n. wait_for d s = (r, s\<lparr>polls := n\<rparr>) \<and>
     (r = Inr () \<or> r = Inl StrategyContextDone \<and> \<not> calm s)"
proof (cases "d > 0")
  case True
  then show ?thesis by (auto simp: wait_for_def check_ctx_run dest: not_calm)
next
  case False
  then show ?thesis by (auto simp: wait_for_def ret_def intro: exI[of _ "polls s"])
qed

text \<open>Shifting the traffic and recording the phase, in either order.\<close>

lemma shift_run:
  "\<exists>t. hold_traffic p s = (Inr (), t) \<and> (\<exists>u. build_phase n p d i t = (Inr (), u) \<and>
     shifts [p] s u \<and> (calm u \<longleftrightarrow> calm s))"
  "\<exists>t. build_phase n p d i s = (Inr (), t) \<and> (\<exists>u. hold_traffic p t = (Inr (), u) \<and>
     shifts [p] s u \<and> (calm u \<longleftrightarrow> calm s))"
  by (auto simp: hold_traffic_def build_phase_def prog_defs shifts_def intro!: calm_cong)

section \<open>Canary\<close>

lemma canary_steps_run:
  "\<exists>r t m. canary_steps nm i sts s = (r, t) \<and> m \<le> length sts \<and>
     shifts (map cs_traffic_percent (take m sts)) s t \<and>
     (r = Inr () \<and> m = length sts \<or> r = Inl StrategyContextDone \<and> \<not> calm s)"
proof (induction sts arbitrary: i s)
  case Nil
  show ?case by (simp add: ret_def shifts_refl)
next
  case (Cons st sts)
  let ?p = "cs_traffic_percent st" and ?s = "s\<lparr>polls := Suc (polls s)\<rparr>"
  show ?case
  proof (cases "ctxdone s (polls s)")
    case True
    then have "canary_steps nm i (st # sts) s = (Inl StrategyContextDone, ?s)"
      by (simp add: andThen_def check_ctx_run)
    moreover from True have "\<not> calm s" by (rule not_calm)
    ultimately show ?thesis by (auto simp: shifts_refl intro: exI[of _ 0])
  next
    case False
    obtain t u where t: "hold_traffic ?p ?s = (Inr (), t)"
      and u: "build_phase (nm (Suc i)) ?p (cs_duration st) (int i) t = (Inr (), u)" "shifts [?p] s u"
        "calm u \<longleftrightarrow> calm s"
      using shift_run(1)[where p = ?p and s = ?s and n = "nm (Suc i)" and d = "cs_duration st" and i = "int i"]
      by auto
    obtain r n where w: "wait_for (cs_duration st) u = (r, u\<lparr>polls := n\<rparr>)"
      "r = Inr () \<or> r = Inl StrategyContextDone \<and> \<not> calm u"
      using wait_for_run by blast
    show ?thesis
    proof (cases r)
      case (Inl e)
      then have "canary_steps nm i (st # sts) s = (Inl e, u\<lparr>polls := n\<rparr>)"
        using False t u w by (simp add: andThen_def check_ctx_run)
      with Inl w u show ?thesis by (auto intro!: exI[of _ 1])
    next
      case (Inr x)
      then have "canary_steps nm i (st # sts) s = canary_steps nm (Suc i) sts (u\<lparr>polls := n\<rparr>)"
        using False t u w by (simp add: andThen_def check_ctx_run)
      moreover obtain r' t' m where "canary_steps nm (Suc i) sts (u\<lparr>polls := n\<rparr>) = (r', t')"
        "m \<le> length sts" "shifts (map cs_traffic_percent (take m sts)) u t'"
        "r' = Inr () \<and> m = length sts \<or> r' = Inl StrategyContextDone \<and> \<not> calm u"
        using Cons.IH[of "Suc i" "u\<lparr>polls := n\<rparr>"] by auto
      ultimately show ?thesis
        using shifts_trans[OF u(2)] u(3) by (auto intro!: exI[of _ "Suc m"])
    qed
  qed
qed

text \<open>
  Canary execution. A configuration without steps is refused; otherwise the run shifts
  traffic through a prefix of the configured percentages, in order, one active phase per
  step, and holds the traffic of the last one it reached. It reaches them all unless the
  context ends first, and with the default configuration it then ends at full traffic.
\<close>

theorem canary_execute_traffic:
  "(cc_steps cfg = [] \<longrightarrow> canary_execute nm cfg s = (Inl NoCanarySteps, s)) \<and>
   (cc_steps cfg \<noteq> [] \<longrightarrow>
     (\<exists>r t m. canary_execute nm cfg s = (r, t) \<and> m \<le> length (cc_steps cfg) \<and>
        map ph_traffic_percent (built t) = map ph_traffic_percent (built s) @
          map cs_traffic_percent (take m (cc_steps cfg)) \<and>
        dep_traffic_percent (held t) =
          (if m = 0 then dep_traffic_percent (held s) else cs_traffic_percent (cc_steps cfg ! (m - 1))) \<and>
        (r = Inr () \<and> m = length (cc_steps cfg) \<or> r = Inl StrategyContextDone \<and> \<not> calm s))) \<and>
   (calm s \<longrightarrow> (\<exists>t. canary_execute nm default_canary_config s = (Inr (), t) \<and>
      dep_traffic_percent (held t) = 100))"
proof (intro conjI impI)
  show "cc_steps cfg = [] \<Longrightarrow> canary_execute nm cfg s = (Inl NoCanarySteps, s)"
    by (simp add: canary_execute_def fail_def)
next
  assume steps: "cc_steps cfg \<noteq> []"
  from canary_steps_run[of nm 0 "cc_steps cfg" s]
  obtain r t m where run: "canary_steps nm 0 (cc_steps cfg) s = (r, t)" "m \<le> length (cc_steps cfg)"
    "shifts (map cs_traffic_percent (take m (cc_steps cfg))) s t"
    "r = Inr () \<and> m = length (cc_steps cfg) \<or> r = Inl StrategyContextDone \<and> \<not> calm s" by blast
  have "last (map cs_traffic_percent (take m (cc_steps cfg))) = cs_traffic_percent (cc_steps cfg ! (m - 1))"
    if "m \<noteq> 0" using that run(2) steps
    by (subst last_map) (auto simp: last_conv_nth)
  with run steps show "\<exists>r t m. canary_execute nm cfg s = (r, t) \<and> m \<le> length (cc_steps cfg) \<and>
        map ph_traffic_percent (built t) = map ph_traffic_percent (built s) @
          map cs_traffic_percent (take m (cc_steps cfg)) \<and>
        dep_traffic_percent (held t) =
          (if m = 0 then dep_traffic_percent (held s) else cs_traffic_percent (cc_steps cfg ! (m - 1))) \<and>
        (r = Inr () \<and> m = length (cc_steps cfg) \<or> r = Inl StrategyContextDone \<and> \<not> calm s)"
    by (intro exI[of _ r] exI[of _ t] exI[of _ m]) (auto simp: canary_execute_def shifts_def)
next
  assume "calm s"
  then show "\<exists>t. canary_execute nm default_canary_config s = (Inr (), t) \<and> dep_traffic_percent (held t) = 100"
    using canary_steps_run[of nm 0 "cc_steps default_canary_config" s]
    by (auto simp: canary_execute_def default_canary_config_def canary_step_of_def shifts_def
        simp del: canary_steps.simps)
qed

section \<open>Rolling\<close>

text \<open>The traffic after \<open>k\<close> batches of size \<open>e\<close> out of \<open>n\<close> instances.\<close>

definition rolling_percent :: "int \<Rightarrow> int \<Rightarrow> nat \<Rightarrow> int" where
  "rolling_percent n e k = go_div (int64 (min n (int k * e) * 100)) n"

text \<open>Up to this many instances a hundred times the count fits a 64-bit integer.\<close>

definition safe_instances :: int where
  "safe_instances = 92233720368547758"

lemma int64_id: "- (2 ^ 63) \<le> x \<Longrightarrow> x < 2 ^ 63 \<Longrightarrow> int64 x = x"
  unfolding int64_def by (rule signed_take_bit_int_eq_self) simp_all

lemma int64_share:
  assumes "0 \<le> v" and "v \<le> n" and "n \<le> safe_instances"
  shows "int64 (v * 100) = v * 100"
  by (rule int64_id) (use assms in \<open>simp_all add: safe_instances_def\<close>)

lemma rolling_percent_share:
  assumes "0 < n" and "0 \<le> e" and "n \<le> safe_instances"
  shows "rolling_percent n e k = min n (int k * e) * 100 div n"
proof -
  have "0 \<le> min n (int k * e)" using assms by simp
  moreover have "min n (int k * e) \<le> n" by simp
  ultimately have "int64 (min n (int k * e) * 100) = min n (int k * e) * 100"
    using int64_share assms(3) by blast
  then show ?thesis using assms by (simp add: rolling_percent_def)
qed

lemma effective_batch_bounds:
  assumes "rc_batch_size cfg > 0"
  shows "0 < effective_batch cfg" "effective_batch cfg \<le> rc_batch_size cfg"
    "rc_max_surge cfg > 0 \<Longrightarrow> effective_batch cfg \<le> rc_max_surge cfg"
  using assms by (auto simp: effective_batch_def)

lemma rolling_batch_run:
  assumes "0 < e" and "int k * e < rc_total_instances cfg"
  shows "\<exists>r t ps. rolling_batch nm cfg e (min (rc_total_instances cfg) (int k * e)) k s = (r, t) \<and>
    shifts ps s t \<and> (calm t \<longleftrightarrow> calm s) \<and>
    (r = Inr (min (rc_total_instances cfg) (int (Suc k) * e)) \<and>
       ps = [rolling_percent (rc_total_instances cfg) e (Suc k)] \<or>
     r = Inl StrategyContextDone \<and> \<not> calm s \<and>
       (ps = [] \<or> ps = [rolling_percent (rc_total_instances cfg) e (Suc k)]))"
proof -
  let ?n = "rc_total_instances cfg" and ?s = "s\<lparr>polls := Suc (polls s)\<rparr>"
  let ?u = "min ?n (int k * e)"
  let ?v = "?u + (if e > ?n - ?u then ?n - ?u else e)"
  let ?p = "go_div (int64 (?v * 100)) ?n"
  have "0 \<le> int k * e" using assms(1) by simp
  with assms have n: "0 < ?n" by linarith
  have v: "?v = min ?n (int (Suc k) * e)" using assms by (auto simp: algebra_simps)
  then have p: "?p = rolling_percent ?n e (Suc k)"
    by (simp only: rolling_percent_def)
  show ?thesis
  proof (cases "ctxdone s (polls s)")
    case True
    then have "rolling_batch nm cfg e ?u k s = (Inl StrategyContextDone, ?s)"
      by (simp add: rolling_batch_def andThen_def check_ctx_run)
    moreover from True have "\<not> calm s" by (rule not_calm)
    ultimately show ?thesis by (auto simp: shifts_refl intro!: exI[of _ "[]"])
  next
    case False
    obtain t u where t: "build_phase (nm (Suc k)) ?p (rc_batch_delay cfg) (int k) ?s = (Inr (), t)"
      and u: "hold_traffic ?p t = (Inr (), u)" "shifts [?p] s u" "calm u \<longleftrightarrow> calm s"
      using shift_run(2)[where p = ?p and s = ?s and n = "nm (Suc k)" and d = "rc_batch_delay cfg"
          and i = "int k"] by auto
    obtain r c where w: "(if ?v < ?n then wait_for (rc_batch_delay cfg) else ret ()) u = (r, u\<lparr>polls := c\<rparr>)"
      "r = Inr () \<or> r = Inl StrategyContextDone \<and> \<not> calm u"
    proof (cases "?v < ?n")
      case True
      then show ?thesis using wait_for_run[of "rc_batch_delay cfg" u] that by auto
    next
      case F: False
      then show ?thesis using that[of "Inr ()" "polls u"] by (simp add: ret_def)
    qed
    have "rolling_batch nm cfg e ?u k s =
        (case r of Inl e \<Rightarrow> Inl e | Inr _ \<Rightarrow> Inr ?v, u\<lparr>polls := c\<rparr>)"
      using False t u(1) w(1) by (auto simp: rolling_batch_def andThen_def check_ctx_run ret_def Let_def split: sum.splits)
    moreover have "shifts [rolling_percent ?n e (Suc k)] s u" using u(2) by (simp only: p)
    ultimately show ?thesis using u(3) w(2) unfolding v by (auto intro!: exI[of _ "[rolling_percent ?n e (Suc k)]"])
  qed
qed

lemma rolling_loop_run:
  assumes "0 < e" and "u = min (rc_total_instances cfg) (int k * e)"
  shows "\<exists>r t m. rolling_loop nm cfg e u k s = Some (r, t) \<and> k \<le> m \<and>
    shifts (map (rolling_percent (rc_total_instances cfg) e) [Suc k ..< Suc m]) s t \<and>
    (k < m \<longrightarrow> int (m - 1) * e < rc_total_instances cfg) \<and>
    (r = Inr () \<and> rc_total_instances cfg \<le> int m * e \<or> r = Inl StrategyContextDone \<and> \<not> calm s)"
  using assms(2)
proof (induction "nat (rc_total_instances cfg - u)" arbitrary: u k s rule: less_induct)
  case less
  let ?n = "rc_total_instances cfg" and ?pct = "rolling_percent (rc_total_instances cfg) e"
  show ?case
  proof (cases "u < ?n")
    case False
    then have "rolling_loop nm cfg e u k s = Some (Inr (), s)"
      by (simp add: rolling_loop.simps)
    with False less.prems show ?thesis by (auto simp: shifts_refl intro!: exI[of _ k])
  next
    case True
    then have k: "int k * e < ?n" using less.prems by auto
    obtain r t ps where b: "rolling_batch nm cfg e u k s = (r, t)" "shifts ps s t" "calm t \<longleftrightarrow> calm s"
      and r: "r = Inr (min ?n (int (Suc k) * e)) \<and> ps = [?pct (Suc k)] \<or>
        r = Inl StrategyContextDone \<and> \<not> calm s \<and> (ps = [] \<or> ps = [?pct (Suc k)])"
      using rolling_batch_run[OF assms(1) k, of nm s] less.prems by metis
    show ?thesis
    proof (cases r)
      case (Inl x)
      then have run: "rolling_loop nm cfg e u k s = Some (Inl StrategyContextDone, t)"
        using True b(1) r by (simp add: rolling_loop.simps)
      from Inl r have "\<not> calm s" "ps = [] \<or> ps = [?pct (Suc k)]" by auto
      then show ?thesis using run b(2) k
        by (elim disjE) (auto intro!: exI[of _ "k + length ps"])
    next
      case (Inr v)
      then have v: "v = min ?n (int (Suc k) * e)" "ps = [?pct (Suc k)]" using r by auto
      have run: "rolling_loop nm cfg e u k s = rolling_loop nm cfg e v (Suc k) t"
        using True b(1) Inr by (subst rolling_loop.simps) simp
      have "u < v" using v(1) less.prems True assms(1) by (auto simp: algebra_simps)
      then have "nat (?n - v) < nat (?n - u)" using True by linarith
      from less.hyps[OF this v(1), of t] obtain r' t' m where m:
        "rolling_loop nm cfg e v (Suc k) t = Some (r', t')" "Suc k \<le> m"
        "shifts (map ?pct [Suc (Suc k) ..< Suc m]) t t'"
        "Suc k < m \<longrightarrow> int (m - 1) * e < ?n"
        "r' = Inr () \<and> ?n \<le> int m * e \<or> r' = Inl StrategyContextDone \<and> \<not> calm t" by metis
      have less_Suc: "Suc k < Suc m" using m(2) by simp
      have "shifts (map ?pct [Suc k ..< Suc m]) s t'"
        using shifts_trans[OF b(2) m(3)] v(2) unfolding upt_conv_Cons[OF less_Suc] by simp
      moreover have "int (m - 1) * e < ?n" using m(2,4) k by (cases "m = Suc k") auto
      ultimately show ?thesis using m run b(3) by (auto intro!: exI[of _ m])
    qed
  qed
qed

text \<open>
  C40. Rolling execution. The call always returns. A non-positive instance count or batch
  size is refused before anything happens; otherwise the batches never exceed the
  configured batch size nor the surge limit, one phase is built per batch with the traffic
  computed after it, and the run ends after the least number of batches that covers all
  instances, or earlier because the context ended. The traffic is computed in 64-bit
  integers: up to \<open>safe_instances\<close> instances it is the updated share after each batch and 100 at
  the end; beyond, it is whatever the wrapped product gives.
\<close>

theorem rolling_execute_traffic:
  "(rc_total_instances cfg \<le> 0 \<or> rc_batch_size cfg \<le> 0 \<longrightarrow>
      (\<exists>e. rolling_execute nm cfg s = Some (Inl e, s) \<and> e \<noteq> StrategyContextDone)) \<and>
   (rc_total_instances cfg > 0 \<and> rc_batch_size cfg > 0 \<longrightarrow>
      0 < effective_batch cfg \<and> effective_batch cfg \<le> rc_batch_size cfg \<and>
      (rc_max_surge cfg > 0 \<longrightarrow> effective_batch cfg \<le> rc_max_surge cfg) \<and>
      (\<exists>r t m ps. rolling_execute nm cfg s = Some (r, t) \<and> length ps = m \<and>
        map ph_traffic_percent (built t) = map ph_traffic_percent (built s) @ ps \<and>
        (rc_total_instances cfg \<le> safe_instances \<longrightarrow>
           ps = map (\<lambda>k. min (rc_total_instances cfg) (int k * effective_batch cfg) * 100
                          div rc_total_instances cfg) [1 ..< Suc m]) \<and>
        (m > 0 \<longrightarrow> int (m - 1) * effective_batch cfg < rc_total_instances cfg) \<and>
        (r = Inr () \<and> rc_total_instances cfg \<le> int m * effective_batch cfg \<and>
           dep_traffic_percent (held t) =
             (if rc_total_instances cfg \<le> safe_instances then 100
              else go_div (int64 (rc_total_instances cfg * 100)) (rc_total_instances cfg)) \<or>
         r = Inl StrategyContextDone \<and> \<not> calm s)))"
proof (intro conjI impI)
  show "\<exists>e. rolling_execute nm cfg s = Some (Inl e, s) \<and> e \<noteq> StrategyContextDone"
    if "rc_total_instances cfg \<le> 0 \<or> rc_batch_size cfg \<le> 0"
    using that by (auto simp: rolling_execute_def)
next
  let ?n = "rc_total_instances cfg" and ?e = "effective_batch cfg"
  assume pos: "?n > 0 \<and> rc_batch_size cfg > 0"
  then show e: "0 < ?e" "?e \<le> rc_batch_size cfg" using effective_batch_bounds by auto
  obtain r t m where run: "rolling_loop nm cfg ?e 0 0 s = Some (r, t)"
    "shifts (map (rolling_percent ?n ?e) [1 ..< Suc m]) s t"
    "m > 0 \<longrightarrow> int (m - 1) * ?e < ?n"
    "r = Inr () \<and> ?n \<le> int m * ?e \<or> r = Inl StrategyContextDone \<and> \<not> calm s"
    using rolling_loop_run[OF e(1), of 0 cfg 0 nm s] pos by auto
  have share: "rolling_percent ?n ?e k = min ?n (int k * ?e) * 100 div ?n" if "?n \<le> safe_instances" for k
    using rolling_percent_share[OF _ _ that, of ?e k] pos e(1) by simp
  have final: "dep_traffic_percent (held t) =
      (if ?n \<le> safe_instances then 100 else go_div (int64 (?n * 100)) ?n)" if "?n \<le> int m * ?e"
  proof -
    have "m \<noteq> 0" using that pos by (cases m) auto
    then have "dep_traffic_percent (held t) = rolling_percent ?n ?e m"
      using run(2) by (cases m) (auto simp: shifts_def)
    moreover have "rolling_percent ?n ?e m = go_div (int64 (?n * 100)) ?n"
      using that by (simp add: rolling_percent_def)
    ultimately show ?thesis using share[of m] that pos by simp
  qed
  show "\<exists>r t m ps. rolling_execute nm cfg s = Some (r, t) \<and> length ps = m \<and>
        map ph_traffic_percent (built t) = map ph_traffic_percent (built s) @ ps \<and>
        (?n \<le> safe_instances \<longrightarrow>
           ps = map (\<lambda>k. min ?n (int k * ?e) * 100 div ?n) [1 ..< Suc m]) \<and>
        (m > 0 \<longrightarrow> int (m - 1) * ?e < ?n) \<and>
        (r = Inr () \<and> ?n \<le> int m * ?e \<and> dep_traffic_percent (held t) =
           (if ?n \<le> safe_instances then 100 else go_div (int64 (?n * 100)) ?n) \<or>
         r = Inl StrategyContextDone \<and> \<not> calm s)"
    using pos run share final
    by (intro exI[of _ r] exI[of _ t] exI[of _ m]
        exI[of _ "map (rolling_percent ?n ?e) [1 ..< Suc m]"])
      (auto simp: rolling_execute_def shifts_def)
qed (simp add: effective_batch_def)

text \<open>
  Beyond the bound the product wraps around: with 2 to the power 62 instances in one batch the
  rollout succeeds with all instances updated and no traffic sent to them.
\<close>

lemma rolling_share_wraps: "rolling_percent (2 ^ 62) (2 ^ 62) 1 = 0"
  by (simp add: rolling_percent_def int64_def signed_take_bit_eq_take_bit_shift take_bit_eq_mod
      go_div_def)

theorem rolling_overflow_no_traffic:
  assumes "rc_total_instances cfg = 2 ^ 62" and "rc_batch_size cfg = 2 ^ 62"
    and "rc_max_surge cfg = 0" and "calm s"
  shows "\<exists>t. rolling_execute nm cfg s = Some (Inr (), t) \<and> dep_traffic_percent (held t) = 0"
proof -
  have e: "effective_batch cfg = 2 ^ 62" using assms by (simp add: effective_batch_def)
  from assms obtain t m where run: "rolling_loop nm cfg (2 ^ 62) 0 0 s = Some (Inr (), t)"
    "shifts (map (rolling_percent (2 ^ 62) (2 ^ 62)) [1 ..< Suc m]) s t"
    "m > 0 \<longrightarrow> int (m - 1) * 2 ^ 62 < 2 ^ 62" "2 ^ 62 \<le> int m * 2 ^ 62"
    using rolling_loop_run[of "2 ^ 62" 0 cfg 0 nm s] by auto
  from run(3,4) have "m = 1" by auto
  with run(2) have "dep_traffic_percent (held t) = 0"
    using rolling_share_wraps by (simp add: shifts_def)
  with run(1) show ?thesis using assms(1,2) e by (auto simp: rolling_execute_def)
qed

definition sample_run :: strategy_run where
  "sample_run = \<lparr> fault = (\<lambda>_. False), calls = 0, clock = int, reads = 0, fresh = of_nat, minted = 0,
     ctxdone = (\<lambda>_. False), polls = 0, held = sample_deployment DeployStatusRunning, built = [] \<rparr>"

lemma canary_execute_traffic_witness:
  "\<exists>t. canary_execute (\<lambda>_. '''') default_canary_config sample_run = (Inr (), t) \<and>
     dep_traffic_percent (held t) = 100"
proof -
  have "calm sample_run" by (simp add: sample_run_def calm_def)
  then show ?thesis
    using canary_execute_traffic[of default_canary_config "\<lambda>_. ''''" sample_run] by blast
qed

lemma rolling_execute_traffic_witness:
  "\<exists>r t. rolling_execute (\<lambda>_. '''') default_rolling_config sample_run = Some (r, t) \<and>
     (r = Inr () \<longrightarrow> dep_traffic_percent (held t) = 100)"
  using rolling_execute_traffic[of default_rolling_config "\<lambda>_. ''''" sample_run]
  by (auto simp: default_rolling_config_def safe_instances_def)

lemma rolling_overflow_no_traffic_witness:
  "\<exists>t. rolling_execute (\<lambda>_. '''') (default_rolling_config\<lparr>rc_total_instances := 2 ^ 62,
     rc_batch_size := 2 ^ 62, rc_max_surge := 0\<rparr>) sample_run = Some (Inr (), t) \<and>
     dep_traffic_percent (held t) = 0"
proof -
  have "calm sample_run" by (simp add: sample_run_def calm_def)
  then show ?thesis by (intro rolling_overflow_no_traffic) simp_all
qed

end
