(* ===== verification/Health.thy ===== *)
theory Health
  imports Float64 "HOL-Library.Sublist"
begin

text \<open>
  Health scoring and monitoring (\<open>internal/health/scorer.go\<close>, \<open>monitor.go\<close>): the weighted
  score, the bounded score history, and one evaluation round of the monitor. The probes
  (\<open>HealthCheck\<close> implementations) are a parameter: what the \<open>n\<close>-th probe call returns.
\<close>

section \<open>Scores\<close>

record check_result =
  cr_name :: string
  cr_healthy :: bool
  cr_score :: f64
  cr_message :: string
  cr_checked_at :: time
  cr_metrics :: "string \<rightharpoonup> f64"

record deployment_health =
  dh_deployment_id :: uuid
  dh_overall :: f64
  dh_healthy :: bool
  dh_checks :: "check_result list"
  dh_metrics :: "string \<rightharpoonup> f64"
  dh_evaluated_at :: time

definition default_weights :: "(string \<times> f64) list" where
  "default_weights = [(''error_rate_5xx'', round64 (30 / 100)), (''latency_p99'', round64 (20 / 100)),
     (''error_tracking'', round64 (20 / 100)), (''custom_metrics'', round64 (15 / 100)),
     (''synthetic_checks'', round64 (15 / 100))]"

record health_scorer =
  hs_weights :: "string \<rightharpoonup> f64"
  hs_default_weight :: f64

definition new_health_scorer :: "(string \<times> f64) list \<Rightarrow> f64 \<Rightarrow> health_scorer" where
  "new_health_scorer ws dw = \<lparr> hs_weights = fold (\<lambda>(k, v) m. m(k \<mapsto> v)) ws Map.empty,
     hs_default_weight = (if fle dw f64_zero then f64_one else dw) \<rparr>"

definition weight_for :: "health_scorer \<Rightarrow> string \<Rightarrow> f64" where
  "weight_for s name = (case hs_weights s name of Some w \<Rightarrow> w | None \<Rightarrow> hs_default_weight s)"

definition clamp :: "f64 \<Rightarrow> f64 \<Rightarrow> f64 \<Rightarrow> f64" where
  "clamp x lo hi = (if flt x lo then lo else if fgt x hi then hi else x)"

fun sum_weights :: "health_scorer \<Rightarrow> check_result list \<Rightarrow> f64 \<times> f64 \<Rightarrow> f64 \<times> f64" where
  "sum_weights s [] acc = acc"
| "sum_weights s (r # rs) (tw, ws) =
     (let w = weight_for s (cr_name r)
      in sum_weights s rs (fadd tw w, fadd ws (fmul (cr_score r) w)))"

definition compute_score :: "health_scorer \<Rightarrow> check_result list \<Rightarrow> f64" where
  "compute_score s rs =
     (if rs = [] then f64_one
      else let (tw, ws) = sum_weights s rs (f64_zero, f64_zero)
           in if feq tw f64_zero then f64_one else clamp (fdiv ws tw) f64_zero f64_one)"

definition compute_signal_score :: "f64 \<Rightarrow> f64 \<Rightarrow> f64" where
  "compute_signal_score current thr =
     (if fle thr f64_zero then Fin 100
      else fmul (Fin 100) (fmax f64_zero (fsub f64_one (fdiv current thr))))"

lemma clamp_range: "clamp x (Fin a) (Fin b) = NaN \<or> (a \<le> b \<longrightarrow> (\<exists>r. clamp x (Fin a) (Fin b) = Fin r \<and> a \<le> r \<and> r \<le> b))"
  by (cases x) (auto simp: clamp_def)

section \<open>History\<close>

record history_entry =
  he_deployment_id :: uuid
  he_score :: f64
  he_healthy :: bool
  he_recorded_at :: time

record health_history =
  hh_entries :: "uuid \<Rightarrow> history_entry list"
  hh_max_size :: int

definition new_health_history :: "int \<Rightarrow> health_history" where
  "new_health_history n = \<lparr> hh_entries = (\<lambda>_. []), hh_max_size = (if n \<le> 0 then 1000 else n) \<rparr>"

definition record_score :: "history_entry \<Rightarrow> health_history \<Rightarrow> health_history" where
  "record_score e h =
     (let i = he_deployment_id e; es = hh_entries h i @ [e];
          es' = (if int (length es) > hh_max_size h
                 then drop (nat (int (length es) - hh_max_size h)) es else es)
      in h\<lparr>hh_entries := (hh_entries h)(i := es')\<rparr>)"

definition get_history :: "uuid \<Rightarrow> health_history \<Rightarrow> history_entry list" where
  "get_history i h = hh_entries h i"

definition get_history_since :: "uuid \<Rightarrow> time \<Rightarrow> health_history \<Rightarrow> history_entry list" where
  "get_history_since i since h = filter (\<lambda>e. \<not> he_recorded_at e < since) (hh_entries h i)"

text \<open>The last \<open>n\<close> elements of a list: what a history may keep.\<close>

definition last_n :: "nat \<Rightarrow> 'a list \<Rightarrow> 'a list" where
  "last_n n xs = drop (length xs - n) xs"

lemma last_n_snoc:
  assumes "0 < n"
  shows "last_n n (last_n n xs @ [x]) = last_n n (xs @ [x])"
proof (cases "length xs \<le> n")
  case True
  then show ?thesis by (simp add: last_n_def)
next
  case False
  then have "length xs - (length xs - n) = n" by simp
  moreover have "Suc (length xs - n) = Suc (length xs) - n" using False by simp
  ultimately show ?thesis using False assms by (simp add: last_n_def Suc_diff_le)
qed

lemma record_score_entries:
  assumes "0 < hh_max_size h"
  shows "hh_entries (record_score e h) i =
    (if i = he_deployment_id e then last_n (nat (hh_max_size h)) (hh_entries h i @ [e])
     else hh_entries h i)"
  using assms
  by (auto simp: record_score_def Let_def last_n_def nat_diff_distrib nat_add_distrib)

text \<open>
  The score history is the recent past. After any sequence of recordings the history of
  a deployment is exactly its own recordings, oldest first, cut to the last \<open>maxSize\<close> (1000
  when the configured size is not positive), and a query since an instant filters that.
\<close>

theorem history_keeps_recent:
  "get_history i (fold record_score es (new_health_history n)) =
     last_n (nat (if n \<le> 0 then 1000 else n)) (filter (\<lambda>e. he_deployment_id e = i) es) \<and>
   get_history_since i t (fold record_score es (new_health_history n)) =
     filter (\<lambda>e. t \<le> he_recorded_at e)
       (last_n (nat (if n \<le> 0 then 1000 else n)) (filter (\<lambda>e. he_deployment_id e = i) es))"
proof -
  let ?n = "if n \<le> 0 then 1000 else n"
  have size: "hh_max_size (fold record_score es (new_health_history n)) = ?n" for es
    by (induction es rule: rev_induct) (auto simp: new_health_history_def record_score_def Let_def)
  have "hh_entries (fold record_score es (new_health_history n)) i =
      last_n (nat ?n) (filter (\<lambda>e. he_deployment_id e = i) es)"
  proof (induction es rule: rev_induct)
    case Nil
    show ?case by (simp add: new_health_history_def last_n_def)
  next
    case (snoc e es)
    let ?h = "fold record_score es (new_health_history n)"
    have "0 < hh_max_size ?h" by (simp add: size)
    then have "hh_entries (record_score e ?h) i =
        (if i = he_deployment_id e then last_n (nat ?n) (hh_entries ?h i @ [e]) else hh_entries ?h i)"
      by (simp only: record_score_entries size)
    moreover have "last_n (nat ?n) (last_n (nat ?n) xs @ [x]) = last_n (nat ?n) (xs @ [x])" for xs x
      by (rule last_n_snoc) simp
    ultimately show ?case using snoc by (cases "i = he_deployment_id e") auto
  qed
  then show ?thesis by (simp add: get_history_def get_history_since_def not_less)
qed

section \<open>The monitor\<close>

text \<open>A probe: its name, and the answer of the \<open>n\<close>-th external call when it is this probe's.\<close>

record health_check =
  hck_name :: string
  hck_check :: "nat \<Rightarrow> uuid \<Rightarrow> string + check_result"

record health_monitor = env +
  hm_checks :: "health_check list"
  hm_scorer :: health_scorer
  hm_threshold :: f64
  hm_listeners :: nat
  hm_deployments :: "uuid \<rightharpoonup> deployment_health"
  hm_notified :: "(nat \<times> deployment_health) list"

type_synonym 'a monitor_prog = "(health_monitor, string, 'a) prog"

definition watch :: "uuid \<Rightarrow> health_monitor \<Rightarrow> health_monitor" where
  "watch i m = m\<lparr>hm_deployments := (hm_deployments m)(i \<mapsto>
     \<lparr> dh_deployment_id = i, dh_overall = f64_one, dh_healthy = True, dh_checks = [],
       dh_metrics = Map.empty, dh_evaluated_at = 0 \<rparr>)\<rparr>"

definition unwatch :: "uuid \<Rightarrow> health_monitor \<Rightarrow> health_monitor" where
  "unwatch i m = m\<lparr>hm_deployments := (hm_deployments m)(i := None)\<rparr>"

definition get_health :: "health_monitor \<Rightarrow> uuid \<Rightarrow> deployment_health option" where
  "get_health m i = hm_deployments m i"

definition probe :: "uuid \<Rightarrow> health_check \<Rightarrow> check_result monitor_prog" where
  "probe i c = andThen get_state (\<lambda>m.
     andThen (modify (\<lambda>m. m\<lparr>calls := Suc (calls m)\<rparr>)) (\<lambda>_.
       case hck_check c (calls m) i of
         Inl msg \<Rightarrow> andThen time_now (\<lambda>now. ret \<lparr> cr_name = hck_name c, cr_healthy = False,
           cr_score = f64_zero, cr_message = msg, cr_checked_at = now, cr_metrics = Map.empty \<rparr>)
       | Inr r \<Rightarrow> ret r))"

primrec probe_all :: "uuid \<Rightarrow> health_check list \<Rightarrow> check_result list monitor_prog" where
  "probe_all i [] = ret []"
| "probe_all i (c # cs) = andThen (probe i c) (\<lambda>r. andThen (probe_all i cs) (\<lambda>rs. ret (r # rs)))"

text \<open>
  Merging the metrics: a later probe overwrites an earlier one, within one probe the keys
  are distinct and the order of the inner loop does not matter.
\<close>

definition merge_metrics :: "check_result list \<Rightarrow> string \<rightharpoonup> f64" where
  "merge_metrics rs = fold (\<lambda>r m. m ++ cr_metrics r) rs Map.empty"

definition evaluate_one :: "health_check list \<Rightarrow> uuid \<Rightarrow> unit monitor_prog" where
  "evaluate_one checks i =
     andThen (probe_all i checks) (\<lambda>results.
     andThen get_state (\<lambda>m.
     let overall = compute_score (hm_scorer m) results
     in andThen time_now (\<lambda>now.
        let h = \<lparr> dh_deployment_id = i, dh_overall = overall,
                  dh_healthy = fge overall (hm_threshold m), dh_checks = results,
                  dh_metrics = merge_metrics results, dh_evaluated_at = now \<rparr>
        in modify (\<lambda>m. m\<lparr>hm_deployments := (hm_deployments m)(i \<mapsto> h),
             hm_notified := hm_notified m @ map (\<lambda>l. (l, h)) [0 ..< hm_listeners m]\<rparr>))))"

text \<open>The ids are snapshotted first, in the unspecified order of a map's iteration.\<close>

primrec evaluate_all :: "health_check list \<Rightarrow> uuid list \<Rightarrow> unit monitor_prog" where
  "evaluate_all checks [] = ret ()"
| "evaluate_all checks (i # is) = andThen (evaluate_one checks i) (\<lambda>_. evaluate_all checks is)"

definition evaluate :: "uuid list \<Rightarrow> unit monitor_prog" where
  "evaluate ids = andThen get_state (\<lambda>m. evaluate_all (hm_checks m) ids)"

section \<open>What an evaluation yields\<close>

lemma compute_score_range:
  "compute_score s rs = NaN \<or> (\<exists>r. compute_score s rs = Fin r \<and> 0 \<le> r \<and> r \<le> 1)"
proof -
  obtain tw ws where "sum_weights s rs (f64_zero, f64_zero) = (tw, ws)" by fastforce
  then show ?thesis
    using clamp_range[of "fdiv ws tw" 0 1] by (auto simp: compute_score_def)
qed

text \<open>An entry the monitor may hold: scored in range, healthy exactly at the threshold.\<close>

definition sound_health :: "f64 \<Rightarrow> uuid \<Rightarrow> deployment_health \<Rightarrow> bool" where
  "sound_health thr i h \<longleftrightarrow> dh_deployment_id h = i \<and>
     (dh_overall h = NaN \<or> (\<exists>r. dh_overall h = Fin r \<and> 0 \<le> r \<and> r \<le> 1)) \<and>
     (dh_healthy h \<longleftrightarrow> fge (dh_overall h) thr)"

text \<open>The configuration never changes; \<open>same_config\<close> relates the states of one monitor.\<close>

definition same_config :: "health_monitor \<Rightarrow> health_monitor \<Rightarrow> bool" where
  "same_config m m' \<longleftrightarrow> hm_checks m' = hm_checks m \<and> hm_scorer m' = hm_scorer m \<and>
     hm_threshold m' = hm_threshold m \<and> hm_listeners m' = hm_listeners m"

lemma same_config_refl [simp]: "same_config m m"
  by (simp add: same_config_def)

lemma same_config_trans: "same_config a b \<Longrightarrow> same_config b c \<Longrightarrow> same_config a c"
  by (simp add: same_config_def)

lemma probe_run:
  "\<exists>r m'. probe i c m = (Inr r, m') \<and> same_config m m' \<and> hm_deployments m' = hm_deployments m \<and>
     hm_notified m' = hm_notified m \<and>
     (case hck_check c (calls m) i of Inr q \<Rightarrow> r = q
      | Inl _ \<Rightarrow> cr_name r = hck_name c \<and> cr_score r = f64_zero \<and> \<not> cr_healthy r)"
  by (auto simp: probe_def prog_defs same_config_def split: sum.splits)

lemma probe_all_run:
  "\<exists>rs m'. probe_all i cs m = (Inr rs, m') \<and> same_config m m' \<and> length rs = length cs \<and>
     hm_deployments m' = hm_deployments m \<and> hm_notified m' = hm_notified m"
proof (induction cs arbitrary: m)
  case Nil
  show ?case by (simp add: ret_def)
next
  case (Cons c cs)
  obtain r m1 where 1: "probe i c m = (Inr r, m1)" "same_config m m1"
    "hm_deployments m1 = hm_deployments m" "hm_notified m1 = hm_notified m"
    using probe_run[of i c m] by blast
  from Cons.IH[of m1] obtain rs m2 where 2: "probe_all i cs m1 = (Inr rs, m2)" "same_config m1 m2"
    "length rs = length cs" "hm_deployments m2 = hm_deployments m1" "hm_notified m2 = hm_notified m1"
    by blast
  with 1 show ?case by (auto simp: andThen_def ret_def intro: same_config_trans)
qed

lemma evaluate_one_run:
  "\<exists>m' h. evaluate_one cs i m = (Inr (), m') \<and> same_config m m' \<and>
     hm_deployments m' = (hm_deployments m)(i \<mapsto> h) \<and> sound_health (hm_threshold m) i h \<and>
     length (dh_checks h) = length cs \<and> dh_metrics h = merge_metrics (dh_checks h) \<and>
     hm_notified m' = hm_notified m @ map (\<lambda>l. (l, h)) [0 ..< hm_listeners m]"
proof -
  obtain rs m1 where 1: "probe_all i cs m = (Inr rs, m1)" "same_config m m1" "length rs = length cs"
    "hm_deployments m1 = hm_deployments m" "hm_notified m1 = hm_notified m"
    using probe_all_run[of i cs m] by blast
  have range: "compute_score (hm_scorer m) rs = NaN \<or>
      (\<exists>r. compute_score (hm_scorer m) rs = Fin r \<and> 0 \<le> r \<and> r \<le> 1)"
    by (rule compute_score_range)
  from 1 range show ?thesis
    by (auto simp: evaluate_one_def prog_defs Let_def same_config_def sound_health_def)
qed

lemma merge_metrics_last: "r = last rs \<Longrightarrow> rs \<noteq> [] \<Longrightarrow> cr_metrics r k = Some v \<Longrightarrow> merge_metrics rs k = Some v"
  by (induction rs rule: rev_induct) (auto simp: merge_metrics_def)

text \<open>
  A monitoring round. It always returns. Afterwards every deployment of the round has a
  fresh entry and no other entry changed; each entry's score is NaN or within 0 and 1, the
  deployment counts as healthy exactly when the score reaches the threshold (so never on
  NaN), every probe contributed one result, and all listeners were told, once per entry.
\<close>

theorem evaluate_round:
  assumes "distinct ids"
  shows "\<exists>m'. evaluate ids m = (Inr (), m') \<and> same_config m m' \<and>
    (\<forall>i. i \<notin> set ids \<longrightarrow> get_health m' i = get_health m i) \<and>
    (\<forall>i \<in> set ids. \<exists>h. get_health m' i = Some h \<and> sound_health (hm_threshold m) i h \<and>
       (dh_overall h = NaN \<longrightarrow> \<not> dh_healthy h) \<and>
       length (dh_checks h) = length (hm_checks m) \<and> dh_metrics h = merge_metrics (dh_checks h)) \<and>
    length (hm_notified m') = length (hm_notified m) + length ids * hm_listeners m"
proof -
  have "\<exists>m'. evaluate_all cs ids m = (Inr (), m') \<and> same_config m m' \<and>
    (\<forall>i. i \<notin> set ids \<longrightarrow> get_health m' i = get_health m i) \<and>
    (\<forall>i \<in> set ids. \<exists>h. get_health m' i = Some h \<and> sound_health (hm_threshold m) i h \<and>
       length (dh_checks h) = length cs \<and> dh_metrics h = merge_metrics (dh_checks h)) \<and>
    length (hm_notified m') = length (hm_notified m) + length ids * hm_listeners m" for cs
    using assms
  proof (induction ids arbitrary: m)
    case Nil
    show ?case by (simp add: ret_def)
  next
    case (Cons i ids)
    obtain m1 h where 1: "evaluate_one cs i m = (Inr (), m1)" "same_config m m1"
      "hm_deployments m1 = (hm_deployments m)(i \<mapsto> h)" "sound_health (hm_threshold m) i h"
      "length (dh_checks h) = length cs" "dh_metrics h = merge_metrics (dh_checks h)"
      "hm_notified m1 = hm_notified m @ map (\<lambda>l. (l, h)) [0 ..< hm_listeners m]"
      using evaluate_one_run[of cs i m] by blast
    from Cons.IH[of m1] Cons.prems obtain m2 where 2: "evaluate_all cs ids m1 = (Inr (), m2)"
      "same_config m1 m2" "\<forall>i. i \<notin> set ids \<longrightarrow> get_health m2 i = get_health m1 i"
      "\<forall>i \<in> set ids. \<exists>h. get_health m2 i = Some h \<and> sound_health (hm_threshold m1) i h \<and>
         length (dh_checks h) = length cs \<and> dh_metrics h = merge_metrics (dh_checks h)"
      "length (hm_notified m2) = length (hm_notified m1) + length ids * hm_listeners m1" by auto
    have "hm_threshold m1 = hm_threshold m" "hm_listeners m1 = hm_listeners m"
      using 1(2) by (simp_all add: same_config_def)
    then show ?case
      using 1 2 Cons.prems same_config_trans[OF 1(2) 2(2)]
      by (auto simp: andThen_def get_health_def)
  qed
  then show ?thesis
    by (fastforce simp: evaluate_def andThen_def get_state_def sound_health_def)
qed

lemma evaluate_round_witness:
  "\<exists>m'. evaluate [4, 9] (watch 4 (watch 9 \<lparr> fault = (\<lambda>_. False), calls = 0, clock = int, reads = 0,
      fresh = of_nat, minted = 0, ctxdone = (\<lambda>_. False), polls = 0, hm_checks = [],
      hm_scorer = new_health_scorer [] NaN, hm_threshold = f64_one, hm_listeners = 2,
      hm_deployments = Map.empty, hm_notified = [] \<rparr>)) = (Inr (), m') \<and> length (hm_notified m') = 4"
  using evaluate_round[of "[4, 9]"] by (fastforce simp: watch_def)

end
