(* ===== verification/DeployEngine.thy ===== *)
theory DeployEngine
  imports DeployStrategies Health
begin

text \<open>
  The phase engine of \<open>internal/deploy/engine/engine.go\<close>: it drives a canary deployment
  through its phases, checks the health after each, pauses at manual gates and rolls back on
  bad health. The health monitor and the rollout lookup are shared with other goroutines, so
  their answers are parameters that may differ from call to call.
\<close>

section \<open>Operations\<close>

text \<open>
  \<open>ep_monitor\<close> is \<open>None\<close> for a nil monitor; the answer at the \<open>n\<close>-th reading of the clock is
  \<open>None\<close> when the deployment is not watched. \<open>ep_lookup\<close> is likewise the optional guard.
\<close>

record engine_params =
  ep_monitor :: "(nat \<Rightarrow> uuid \<Rightarrow> deployment_health option) option"
  ep_lookup :: "(nat \<Rightarrow> uuid \<Rightarrow> string + bool) option"
  ep_percent_name :: "int \<Rightarrow> string"

definition built_phase :: "(int \<Rightarrow> string) \<Rightarrow> uuid \<Rightarrow> uuid \<Rightarrow> bool \<Rightarrow> int \<Rightarrow> canary_step \<Rightarrow> deployment_phase" where
  "built_phase name i dep auto order st = \<lparr> ph_id = i, ph_deployment_id = dep,
     ph_name = name (cs_traffic_percent st), ph_status = DeploymentPhaseStatusPending,
     ph_traffic_percent = cs_traffic_percent st, ph_duration = whole_seconds (cs_duration st),
     ph_sort_order = order, ph_auto_promote = is_auto_promote auto st,
     ph_started_at = None, ph_completed_at = None \<rparr>"

primrec build_phases_from ::
  "(int \<Rightarrow> string) \<Rightarrow> uuid \<Rightarrow> bool \<Rightarrow> int \<Rightarrow> canary_step list \<Rightarrow> deployment_phase list deploy_prog" where
  "build_phases_from name dep auto k [] = ret []"
| "build_phases_from name dep auto k (st # sts) =
     andThen uuid_new (\<lambda>i.
     andThen (build_phases_from name dep auto (k + 1) sts) (\<lambda>phs.
       ret (built_phase name i dep auto k st # phs)))"

definition build_phases :: "(int \<Rightarrow> string) \<Rightarrow> uuid \<Rightarrow> canary_config \<Rightarrow> deployment_phase list deploy_prog" where
  "build_phases name dep cfg = build_phases_from name dep (cc_auto_promote cfg) 0 (cc_steps cfg)"

text \<open>\<open>CreatePhase\<close> fills in a missing id through the pointer, so the stored values come back.\<close>

primrec persist_phases :: "deployment_phase list \<Rightarrow> deployment_phase list deploy_prog" where
  "persist_phases [] = ret []"
| "persist_phases (ph # phs) =
     andThen (wrapped (ErrWrap ''driveDeployment: create phase'') (create_phase ph)) (\<lambda>ph'.
     andThen (persist_phases phs) (\<lambda>phs'. ret (ph' # phs')))"

definition load_phases :: "engine_params \<Rightarrow> uuid \<Rightarrow> deployment_phase list deploy_prog" where
  "load_phases p i =
     andThen (wrapped (ErrWrap ''driveDeployment: list phases'') (list_phases i)) (\<lambda>phs.
       if phs \<noteq> [] then ret phs
       else andThen (build_phases (ep_percent_name p) i default_canary_config) (\<lambda>phs.
            persist_phases phs))"

definition publish_phase_changed ::
  "deployment \<Rightarrow> deployment_phase option \<Rightarrow> deployment option \<Rightarrow> unit deploy_prog" where
  "publish_phase_changed d ph prev =
     andThen time_now (\<lambda>now. publish_msg (PhaseChangedEvent d ph prev now))"

text \<open>A publication whose error is only logged.\<close>

definition logged :: "unit deploy_prog \<Rightarrow> unit deploy_prog" where
  "logged m = andThen (attempt m :: (deploy_error + unit) deploy_prog) (\<lambda>_. ret ())"

definition trigger_rollback :: "deployment \<Rightarrow> deployment_health \<Rightarrow> unit deploy_prog" where
  "trigger_rollback d h =
     andThen (wrapped (ErrWrap ''triggerRollback: transition'') (transition DeployStatusRolledBack d)) (\<lambda>d1.
     andThen (wrapped (ErrWrap ''triggerRollback: update deployment'')
                (update_deployment (d1\<lparr>dep_traffic_percent := 0\<rparr>))) (\<lambda>d2.
     andThen uuid_new (\<lambda>rid.
     andThen time_now (\<lambda>started.
     andThen time_now (\<lambda>created.
     andThen (logged (create_rollback_record
        \<lparr> rb_id = rid, rb_deployment_id = dep_id d2, rb_target_deployment_id = dep_previous d2,
          rb_reason = ''health check failure'', rb_health_score = Some (dh_overall h),
          rb_automatic = True, rb_strategy = dep_strategy d2, rb_started_at = started,
          rb_completed_at = None, rb_created_at = created \<rparr>)) (\<lambda>_.
     andThen (logged (publish_phase_changed d2 None None)) (\<lambda>_.
     andThen time_now (\<lambda>now.
       logged (publish_msg (RolledBackEvent d2 now))))))))))"

text \<open>One iteration, up to the wait (\<open>phase_enter\<close>) and after it (\<open>phase_exit\<close>).\<close>

definition phase_enter ::
  "deployment option \<Rightarrow> deployment \<Rightarrow> deployment_phase \<Rightarrow> (deployment \<times> deployment_phase) deploy_prog" where
  "phase_enter prev d ph =
     andThen time_now (\<lambda>now.
     let ph1 = ph\<lparr>ph_status := DeploymentPhaseStatusActive, ph_started_at := Some now\<rparr>
     in andThen (wrapped (ErrWrap ''driveDeployment: update phase active'') (update_phase ph1)) (\<lambda>_.
        andThen time_now (\<lambda>now2.
        andThen (wrapped (ErrWrap ''driveDeployment: update deployment traffic'')
                   (update_deployment (d\<lparr>dep_traffic_percent := ph_traffic_percent ph1,
                                         dep_updated_at := now2\<rparr>))) (\<lambda>d1.
        andThen (logged (publish_phase_changed d1 (Some ph1) prev)) (\<lambda>_.
          ret (d1, ph1))))))"

definition phase_wait :: "deployment_phase \<Rightarrow> unit deploy_prog" where
  "phase_wait ph =
     (if ph_duration ph > 0
      then andThen ctx_done (\<lambda>stop. if stop then fail ErrContextDone else ret ())
      else ret ())"

definition read_health :: "engine_params \<Rightarrow> uuid \<Rightarrow> deployment_health option deploy_prog" where
  "read_health p i =
     andThen get_state (\<lambda>w.
       ret (case ep_monitor p of None \<Rightarrow> None | Some mon \<Rightarrow> mon (reads w) i))"

definition unhealthy :: "deployment_health option \<Rightarrow> bool" where
  "unhealthy h = (case h of None \<Rightarrow> False | Some h \<Rightarrow> \<not> dh_healthy h)"

text \<open>The three ways a phase ends: bad health, a manual gate, passed.\<close>

definition fail_phase :: "deployment \<Rightarrow> deployment_phase \<Rightarrow> deployment_health \<Rightarrow> unit deploy_prog" where
  "fail_phase d ph h =
     andThen time_now (\<lambda>now.
     andThen (attempt (update_phase (ph\<lparr>ph_status := DeploymentPhaseStatusFailed,
                ph_completed_at := Some now\<rparr>)) :: (deploy_error + unit) deploy_prog) (\<lambda>_.
       trigger_rollback d h))"

definition hold_phase :: "deployment \<Rightarrow> deployment deploy_prog" where
  "hold_phase d =
     andThen (wrapped (ErrWrap ''driveDeployment: transition to paused'')
                (transition DeployStatusPaused d)) (\<lambda>d1.
       wrapped (ErrWrap ''driveDeployment: update deployment paused'') (update_deployment d1))"

definition pass_phase :: "deployment_phase \<Rightarrow> unit deploy_prog" where
  "pass_phase ph =
     andThen time_now (\<lambda>now.
       wrapped (ErrWrap ''driveDeployment: update phase passed'')
         (update_phase (ph\<lparr>ph_status := DeploymentPhaseStatusPassed, ph_completed_at := Some now\<rparr>)))"

text \<open>\<open>None\<close>: the drive ends here, rolled back or paused; \<open>Some d\<close>: on to the next phase.\<close>

definition phase_exit ::
  "engine_params \<Rightarrow> deployment \<Rightarrow> deployment_phase \<Rightarrow> deployment option deploy_prog" where
  "phase_exit p d ph =
     andThen (read_health p (dep_id d)) (\<lambda>h.
     if unhealthy h \<and> cc_rollback_on_failure default_canary_config
     then andThen (fail_phase d ph (the h)) (\<lambda>_. ret None)
     else if \<not> ph_auto_promote ph then andThen (hold_phase d) (\<lambda>_. ret None)
     else andThen (pass_phase ph) (\<lambda>_. ret (Some d)))"

primrec run_phases ::
  "engine_params \<Rightarrow> deployment option \<Rightarrow> deployment \<Rightarrow> deployment_phase list \<Rightarrow>
   deployment option deploy_prog" where
  "run_phases p prev d [] = ret (Some d)"
| "run_phases p prev d (ph # phs) =
     andThen (phase_enter prev d ph) (\<lambda>(d1, ph1).
     andThen (phase_wait ph1) (\<lambda>_.
     andThen (phase_exit p d1 ph1) (\<lambda>next.
       case next of None \<Rightarrow> ret None | Some d2 \<Rightarrow> run_phases p prev d2 phs)))"

definition complete_deployment :: "deployment \<Rightarrow> unit deploy_prog" where
  "complete_deployment d =
     andThen (wrapped (ErrWrap ''driveDeployment: transition to completed'')
                (transition DeployStatusCompleted (d\<lparr>dep_traffic_percent := 100\<rparr>))) (\<lambda>d1.
     andThen (wrapped (ErrWrap ''driveDeployment: update deployment completed'')
                (update_deployment d1)) (\<lambda>d2.
     andThen time_now (\<lambda>now.
       logged (publish_msg (CompletedEvent d2 now)))))"

definition rollout_owns :: "engine_params \<Rightarrow> uuid \<Rightarrow> bool deploy_prog" where
  "rollout_owns p i =
     andThen get_state (\<lambda>w.
       ret (case ep_lookup p of None \<Rightarrow> False
            | Some look \<Rightarrow> (case look (calls w) i of Inl _ \<Rightarrow> False | Inr has \<Rightarrow> has)))"

definition start_deployment :: "deployment \<Rightarrow> deployment deploy_prog" where
  "start_deployment d =
     (if dep_status d = DeployStatusPending then
        andThen (wrapped (ErrWrap ''driveDeployment: transition pending->running'')
                   (transition DeployStatusRunning d)) (\<lambda>d1.
          wrapped (ErrWrap ''driveDeployment: update deployment to running'') (update_deployment d1))
      else ret d)"

definition previous_deployment :: "deployment \<Rightarrow> deployment option deploy_prog" where
  "previous_deployment d =
     (case dep_previous d of
        None \<Rightarrow> ret None
      | Some j \<Rightarrow> andThen (attempt (get_deployment j) :: (deploy_error + deployment) deploy_prog) (\<lambda>r.
          ret (case r of Inl _ \<Rightarrow> None | Inr pd \<Rightarrow> Some pd)))"

text \<open>Phases before the first one that has not passed are skipped.\<close>

definition start_index :: "deployment_phase list \<Rightarrow> nat" where
  "start_index phs = index_where (\<lambda>ph. ph_status ph \<noteq> DeploymentPhaseStatusPassed) phs"

definition drive_deployment :: "engine_params \<Rightarrow> uuid \<Rightarrow> unit deploy_prog" where
  "drive_deployment p i =
     andThen (wrapped (ErrWrap ''driveDeployment: get deployment'') (get_deployment i)) (\<lambda>d.
     andThen (rollout_owns p i) (\<lambda>owned.
     if owned \<or> dep_strategy d \<noteq> DeployStrategyCanary then ret ()
     else andThen (start_deployment d) (\<lambda>d1.
       if dep_status d1 \<noteq> DeployStatusRunning then ret ()
       else andThen (load_phases p i) (\<lambda>phs.
            andThen (previous_deployment d1) (\<lambda>prev.
            andThen (run_phases p prev d1 (drop (start_index phs) phs)) (\<lambda>done.
              case done of None \<Rightarrow> ret () | Some d2 \<Rightarrow> complete_deployment d2))))))"

text \<open>
  \<open>Advance\<close> up to the point where it starts the driver in a goroutine; \<open>advance_and_drive\<close>
  is the whole of it when nothing else runs in between.
\<close>

definition advance :: "uuid \<Rightarrow> unit deploy_prog" where
  "advance i =
     andThen (wrapped (ErrWrap ''engine.Advance: get deployment'') (get_deployment i)) (\<lambda>d.
     if dep_status d \<noteq> DeployStatusPaused then fail (ErrNotPaused (dep_status d))
     else andThen (wrapped (ErrWrap ''engine.Advance: get active phase'') (get_active_phase i)) (\<lambda>ph.
       andThen time_now (\<lambda>now.
       andThen (wrapped (ErrWrap ''engine.Advance: mark phase passed'')
                  (update_phase (ph\<lparr>ph_status := DeploymentPhaseStatusPassed,
                                    ph_completed_at := Some now\<rparr>))) (\<lambda>_.
       andThen (wrapped (ErrWrap ''engine.Advance: transition to running'')
                  (transition DeployStatusRunning d)) (\<lambda>d1.
       andThen (wrapped (ErrWrap ''engine.Advance: update deployment'')
                  (update_deployment d1)) (\<lambda>_. ret ()))))))"

definition advance_and_drive :: "engine_params \<Rightarrow> uuid \<Rightarrow> unit deploy_prog" where
  "advance_and_drive p i = andThen (advance i) (\<lambda>_. drive_deployment p i)"

section \<open>Calls that leave the tables alone\<close>

text \<open>
  \<open>same_tables\<close>: neither table changed, nor which outside calls fail. A \<open>quiet\<close> call keeps
  both and ends with an error only because of the outside.
\<close>

definition same_tables :: "deploy_world \<Rightarrow> deploy_world \<Rightarrow> bool" where
  "same_tables w w' \<longleftrightarrow> deployments w' = deployments w \<and> deployment_phases w' = deployment_phases w \<and>
     fault w' = fault w \<and> ctxdone w' = ctxdone w"

interpretation tables: frame same_tables
  by unfold_locales (auto simp: same_tables_def)

lemma same_tables_calm: "same_tables w w' \<Longrightarrow> calm w' \<longleftrightarrow> calm w"
  by (intro calm_cong) (simp_all add: same_tables_def)

definition quiet :: "'a deploy_prog \<Rightarrow> bool" where
  "quiet m \<longleftrightarrow> keeps same_tables m \<and> (\<forall>s e t. m s = (Inl e, t) \<longrightarrow> \<not> calm s)"

lemma quiet_ret [intro]: "quiet (ret x)"
  by (simp add: quiet_def tables.keeps_ret) (simp add: ret_def)

lemma quiet_andThen [intro]:
  assumes "quiet m" and "\<And>x. quiet (f x)"
  shows "quiet (andThen m f)"
  unfolding quiet_def
proof (intro conjI allI impI)
  show "keeps same_tables (andThen m f)" using assms by (auto simp: quiet_def)
  fix s e t
  assume "andThen m f s = (Inl e, t)"
  then consider "m s = (Inl e, t)" | x s' where "m s = (Inr x, s')" "f x s' = (Inl e, t)"
    by (auto simp: andThen_Inl)
  then show "\<not> calm s"
  proof cases
    case 1
    then show ?thesis using assms(1) by (simp add: quiet_def)
  next
    case 2
    then have "same_tables s s'" using assms(1) keepsD unfolding quiet_def by metis
    then show ?thesis using 2(2) assms(2) same_tables_calm unfolding quiet_def by metis
  qed
qed

lemma quiet_wrapped [intro]: "quiet m \<Longrightarrow> quiet (wrapped w m)"
  by (auto simp: quiet_def wrapped_Inl)

lemma quiet_attempt [intro]: "keeps same_tables m \<Longrightarrow> quiet (attempt m)"
  by (auto simp: quiet_def) (auto simp: attempt_def split: prod.splits)

lemma quiet_if [intro]: "quiet m \<Longrightarrow> quiet n \<Longrightarrow> quiet (if b then m else n)"
  by simp

lemma same_tables_prims [intro]:
  "keeps same_tables (ext_call e)" "keeps same_tables (publish_msg m)"
  "keeps same_tables (create_rollback_record r)" "keeps same_tables (get_deployment i)"
  by (auto simp: keeps_def same_tables_def prog_defs publish_msg_def create_rollback_record_def
      get_deployment_def split: option.splits)

lemma quiet_prims [intro]:
  "quiet time_now" "quiet uuid_new" "quiet get_state" "quiet (list_phases i)"
  by (auto simp: quiet_def keeps_def same_tables_def prog_defs list_phases_def dest: not_calm)

lemma quiet_publish [intro]:
  "keeps same_tables (publish_phase_changed d ph prev)"
  unfolding publish_phase_changed_def using quiet_prims(1) by (auto simp: quiet_def intro!: tables.keeps_rules)

lemma quiet_ops [intro]:
  "keeps same_tables m \<Longrightarrow> quiet (logged m)" "quiet (read_health p i)" "quiet (rollout_owns p i)"
  "quiet (previous_deployment d)"
  unfolding logged_def read_health_def rollout_owns_def previous_deployment_def
  by (auto split: option.splits)

lemma quiet_wait [intro]: "quiet (phase_wait ph)"
  unfolding phase_wait_def
  by (auto simp: quiet_def keeps_def same_tables_def prog_defs dest: not_calm split: if_splits)

section \<open>The invariant of a drive\<close>

text \<open>
  \<open>driving w0 d0 d phs w\<close>: the row of the driven deployment equals the engine's copy \<open>d\<close>,
  which has evolved from \<open>d0\<close>; every other deployment is as it was; the stored phases of the
  deployment are exactly the engine's copies.
\<close>

definition driving ::
  "deploy_world \<Rightarrow> deployment \<Rightarrow> deployment \<Rightarrow> deployment_phase list \<Rightarrow> deploy_world \<Rightarrow> bool" where
  "driving w0 d0 d phs w \<longleftrightarrow>
     find_deployment w (dep_id d0) = Some d \<and> evolves d0 d \<and>
     (\<forall>j. j \<noteq> dep_id d0 \<longrightarrow> find_deployment w j = find_deployment w0 j) \<and>
     distinct (map ph_id (deployment_phases w)) \<and> distinct (map ph_id phs) \<and>
     set (phases_of w (dep_id d0)) = set phs \<and> (calm w \<longleftrightarrow> calm w0)"

text \<open>
  The ids the default phases get: one per step of the default configuration. They are usable
  when they are no nil, differ from each other and from the ids of the stored phases, which is
  what random UUIDs are relied on for.
\<close>

definition next_ids :: "nat \<Rightarrow> deploy_world \<Rightarrow> uuid list" where
  "next_ids n w = map (fresh w) [minted w ..< minted w + n]"

definition storable_ids :: "uuid list \<Rightarrow> deploy_world \<Rightarrow> bool" where
  "storable_ids is w \<longleftrightarrow> distinct is \<and> uuid_nil \<notin> set is \<and>
     (\<forall>i \<in> set is. row_of ph_id i (deployment_phases w) = None)"

definition fresh_phase_ids :: "deploy_world \<Rightarrow> bool" where
  "fresh_phase_ids w \<longleftrightarrow> storable_ids (next_ids (length (cc_steps default_canary_config)) w) w"

text \<open>
  What an error leaves: the same without the phases, and the error came from the outside, or
  from storing default phases under unusable ids.
\<close>

definition touched :: "deploy_world \<Rightarrow> deployment \<Rightarrow> deploy_world \<Rightarrow> bool" where
  "touched w0 d0 w \<longleftrightarrow>
     (\<exists>d. find_deployment w (dep_id d0) = Some d \<and> evolves d0 d) \<and>
     (\<forall>j. j \<noteq> dep_id d0 \<longrightarrow> find_deployment w j = find_deployment w0 j) \<and>
     (\<not> calm w0 \<or> phases_of w0 (dep_id d0) = [] \<and> \<not> fresh_phase_ids w0)"

lemma driving_touched:
  "driving w0 d0 d phs w \<Longrightarrow>
   \<not> calm w \<or> phases_of w0 (dep_id d0) = [] \<and> \<not> fresh_phase_ids w0 \<Longrightarrow> touched w0 d0 w"
  by (auto simp: driving_def touched_def)

lemma driving_id: "driving w0 d0 d phs w \<Longrightarrow> dep_id d = dep_id d0"
  by (auto simp: driving_def dest: find_deployment_key)

lemma driving_same:
  assumes "driving w0 d0 d phs s" and same: "same_tables s t"
  shows "driving w0 d0 d phs t"
proof -
  have "calm t \<longleftrightarrow> calm s" using same by (rule same_tables_calm)
  with assms show ?thesis
    by (simp add: same_tables_def driving_def find_deployment_def phases_of_def)
qed

lemma spec_same:
  assumes "quiet m"
  shows "spec (driving w0 d0 d phs) m (\<lambda>_. driving w0 d0 d phs) (touched w0 d0)"
proof (rule specI)
  fix s x t
  assume "driving w0 d0 d phs s" and "m s = (Inr x, t)"
  then show "driving w0 d0 d phs t" using assms keepsD driving_same unfolding quiet_def by metis
next
  fix s e t
  assume inv: "driving w0 d0 d phs s" and m: "m s = (Inl e, t)"
  then have "same_tables s t" using assms keepsD unfolding quiet_def by metis
  moreover have "\<not> calm s" using assms m by (simp add: quiet_def)
  ultimately show "touched w0 d0 t"
    using driving_touched driving_same[OF inv] same_tables_calm by metis
qed

lemma transition_result:
  assumes "lifecycle (dep_status d) t"
  shows "\<exists>d'. transition t d s = (Inr d', s\<lparr>reads := Suc (reads s)\<rparr>) \<and>
    transition_to (clock s (reads s)) t d = Inr d'"
  using transition_to_ok[OF assms, of "clock s (reads s)"] assms
  by (auto simp: transition_def validate_transition_cases prog_defs)

lemma spec_transition:
  assumes "lifecycle (dep_status d') t"
  shows "spec (driving w0 d0 d phs) (wrapped e (transition t d'))
     (\<lambda>r w. (\<exists>now. transition_to now t d' = Inr r) \<and> driving w0 d0 d phs w) (touched w0 d0)"
proof -
  have "quiet (transition t d')"
    unfolding quiet_def keeps_def
  proof (intro conjI allI impI)
    show "same_tables s (snd (transition t d' s))" for s
      using transition_result[OF assms, of s] by (auto simp: same_tables_def)
    show "\<not> calm s" if "transition t d' s = (Inl e, u)" for s e u
      using transition_result[OF assms, of s] that by auto
  qed
  then have same: "spec (driving w0 d0 d phs) (transition t d') (\<lambda>_. driving w0 d0 d phs) (touched w0 d0)"
    by (rule spec_same)
  have target: "spec (driving w0 d0 d phs) (transition t d')
      (\<lambda>r _. \<exists>now. transition_to now t d' = Inr r) (\<lambda>_. True)"
    by (rule specI) (blast dest: transition_Inr, simp)
  show ?thesis
    by (rule spec_wrapped, rule spec_post[OF spec_conj[OF same target]]) auto
qed

lemma spec_update:
  assumes "\<And>n. evolves d (d'\<lparr>dep_updated_at := n\<rparr>)"
  shows "spec (driving w0 d0 d phs) (wrapped e (update_deployment d'))
     (\<lambda>r w. (\<exists>n. r = d'\<lparr>dep_updated_at := n\<rparr>) \<and> driving w0 d0 r phs w) (touched w0 d0)"
proof (rule spec_wrapped, rule specI)
  fix s r t
  assume inv: "driving w0 d0 d phs s" and run: "update_deployment d' s = (Inr r, t)"
  from run obtain now row where r: "r = d'\<lparr>dep_updated_at := now\<rparr>"
    and row: "find_deployment s (dep_id d') = Some row"
    and t: "find_deployment t = (find_deployment s)(dep_id d' \<mapsto> write_deployment r row)"
    by (blast dest: update_deployment_Inr)
  have ph: "deployment_phases t = deployment_phases s" and "fault t = fault s" "ctxdone t = ctxdone s"
    using run by (auto simp: update_deployment_def prog_defs Let_def split: if_splits)
  then have calm_t: "calm t \<longleftrightarrow> calm s" by (intro calm_cong)
  have ev: "evolves d r" using assms r by simp
  then have w: "write_deployment r d = r" by (simp add: evolves_def)
  then have "dep_id r = dep_id d" by (metis write_deployment_id)
  then have id: "dep_id d' = dep_id d0" using r driving_id[OF inv] by simp
  then have "row = d" using row inv by (simp add: driving_def)
  then show "(\<exists>n. r = d'\<lparr>dep_updated_at := n\<rparr>) \<and> driving w0 d0 r phs t"
    using inv t w ph r id calm_t evolves_trans[OF _ ev] by (auto simp: driving_def phases_of_def)
next
  fix s x t
  assume inv: "driving w0 d0 d phs s" and run: "update_deployment d' s = (Inl x, t)"
  have "write_deployment (d'\<lparr>dep_updated_at := 0\<rparr>) d = d'\<lparr>dep_updated_at := 0\<rparr>"
    using assms by (simp add: evolves_def)
  then have "dep_id (d'\<lparr>dep_updated_at := 0\<rparr>) = dep_id d" by (metis write_deployment_id)
  then have "find_deployment s (dep_id d') = Some d"
    using inv driving_id[OF inv] by (simp add: driving_def)
  then have "\<not> calm s \<and> same_tables s t"
    using run by (auto simp: update_deployment_def prog_defs Let_def same_tables_def split: if_splits dest: not_calm)
  then show "touched w0 d0 t"
    using driving_touched driving_same[OF inv] same_tables_calm by metis
qed

lemma update_phase_Inr:
  "update_phase p w = (Inr u, w') \<Longrightarrow>
   deployments w' = deployments w \<and>
   deployment_phases w' = update_row ph_id (ph_id p) (write_phase p) (deployment_phases w) \<and>
   fault w' = fault w \<and> ctxdone w' = ctxdone w"
  by (auto simp: update_phase_def prog_defs split: if_splits)

lemma update_phase_Inl: "update_phase p w = (Inl e, w') \<Longrightarrow> same_tables w w'"
  by (auto simp: update_phase_def prog_defs same_tables_def split: if_splits)

lemma set_phases_of: "set (phases_of w i) = {q \<in> set (deployment_phases w). ph_deployment_id q = i}"
  by (auto simp: phases_of_def)

lemma phases_after_update:
  assumes "distinct (map ph_id rows)" and "p \<in> set rows" and "ph_id p' = ph_id p"
    and "write_phase p' p = p'"
  shows "set (update_row ph_id (ph_id p') (write_phase p') rows) = insert p' (set rows - {p})"
  using assms
proof (induction rows)
  case Nil
  then show ?case by simp
next
  case (Cons r rows)
  show ?case
  proof (cases "r = p")
    case True
    then have "ph_id p' \<notin> ph_id ` set rows" using Cons.prems by simp
    then have "\<forall>x \<in> set rows. ph_id x \<noteq> ph_id p'" by (metis imageI)
    then have "update_row ph_id (ph_id p') (write_phase p') rows = rows" and "p \<notin> set rows"
      using Cons.prems(3) by (auto simp: update_row_def intro!: map_idI)
    with True Cons.prems show ?thesis by (auto simp: update_row_def)
  next
    case False
    then have "ph_id r \<noteq> ph_id p'" "p \<in> set rows" using Cons.prems by auto
    with Cons False show ?thesis by (auto simp: update_row_def)
  qed
qed

lemma spec_update_phase:
  assumes "ph_id p' = ph_id p" and "write_phase p' p = p'"
  shows "spec (driving w0 d0 d (pre @ p # post)) (update_phase p')
     (\<lambda>_. driving w0 d0 d (pre @ p' # post)) (\<lambda>w. driving w0 d0 d (pre @ p # post) w \<and> \<not> calm w)"
proof (rule specI)
  fix s u t
  assume inv: "driving w0 d0 d (pre @ p # post) s" and run: "update_phase p' s = (Inr u, t)"
  let ?rows = "deployment_phases s"
  have p: "p \<in> set ?rows" "ph_deployment_id p = dep_id d0"
    and rest: "set (phases_of s (dep_id d0)) = set (pre @ p # post)"
    and ids: "distinct (map ph_id ?rows)" "distinct (map ph_id (pre @ p # post))"
    using inv by (auto simp: driving_def set_phases_of)
  have "ph_deployment_id p' = dep_id d0"
    using assms(2) p(2) by (metis write_phase_def deployment_phase.select_convs(2)
      deployment_phase.surjective deployment_phase.update_convs(4,9,10))
  moreover have rows: "set (deployment_phases t) = insert p' (set ?rows - {p})"
    using update_phase_Inr[OF run] phases_after_update[OF ids(1) p(1) assms] by simp
  moreover have "p \<notin> set pre \<union> set post" using ids(2) by auto
  ultimately have "set (phases_of t (dep_id d0)) = set (pre @ p' # post)"
    using rest by (auto simp: set_phases_of)
  moreover have "distinct (map ph_id (deployment_phases t))"
    using update_phase_Inr[OF run] ids(1) by (simp add: keys_update write_phase_def)
  moreover have "distinct (map ph_id (pre @ p' # post))" using ids(2) assms(1) by simp
  ultimately show "driving w0 d0 d (pre @ p' # post) t"
    using inv update_phase_Inr[OF run] calm_cong[of t s] by (simp add: driving_def find_deployment_def)
next
  fix s e t
  assume inv: "driving w0 d0 d (pre @ p # post) s" and run: "update_phase p' s = (Inl e, t)"
  have "p \<in> set (deployment_phases s)" using inv by (auto simp: driving_def set_phases_of)
  then have "row_of ph_id (ph_id p') (deployment_phases s) \<noteq> None"
    using assms(1) by (simp add: row_of_None)
  then have "\<not> calm s" using run by (auto simp: update_phase_def prog_defs dest: not_calm split: if_splits)
  then show "driving w0 d0 d (pre @ p # post) t \<and> \<not> calm t"
    using update_phase_Inl[OF run] driving_same[OF inv] same_tables_calm by metis
qed

section \<open>The steps of the loop\<close>

lemma spec_then_same:
  assumes "quiet m" and "\<And>x. spec (driving w0 d0 d phs) (f x) Q (touched w0 d0)"
  shows "spec (driving w0 d0 d phs) (andThen m f) Q (touched w0 d0)"
  using spec_same[OF assms(1)] assms(2) by (rule spec_andThen)

lemma spec_update_phase_wrapped:
  assumes "ph_id p' = ph_id p" and "write_phase p' p = p'"
  shows "spec (driving w0 d0 d (pre @ p # post)) (wrapped e (update_phase p'))
     (\<lambda>_. driving w0 d0 d (pre @ p' # post)) (touched w0 d0)"
  by (rule spec_wrapped, rule spec_post[OF spec_update_phase[OF assms]]) (auto intro: driving_touched)

lemma phase_enter_spec:
  "spec (driving w0 d0 d (pre @ ph # post)) (phase_enter prev d ph)
     (\<lambda>(d1, ph1) w. (dep_status d1 = dep_status d \<and> dep_traffic_percent d1 = ph_traffic_percent ph1 \<and>
        ph_status ph1 = DeploymentPhaseStatusActive \<and> ph_auto_promote ph1 = ph_auto_promote ph \<and>
        ph_traffic_percent ph1 = ph_traffic_percent ph) \<and>
        driving w0 d0 d1 (pre @ ph1 # post) w)
     (touched w0 d0)"
  unfolding phase_enter_def Let_def
  apply (rule spec_then_same, blast)
  apply (rule spec_andThen, rule spec_update_phase_wrapped, simp, simp add: write_phase_def)
  apply (rule spec_then_same, blast)
  apply (rule spec_andThen, rule spec_update)
   apply (use traffic_evolves_row in simp)
  apply (rule spec_assume)
  apply (rule spec_then_same, blast)
  apply (rule spec_ret)
  apply auto
  done

text \<open>What a drive that stops early leaves: rolled back on bad health, or paused at a gate.\<close>

definition rolled_back :: "engine_params \<Rightarrow> deployment \<Rightarrow> deployment_phase list \<Rightarrow> bool" where
  "rolled_back p d phs \<longleftrightarrow> dep_status d = DeployStatusRolledBack \<and> dep_traffic_percent d = 0 \<and>
     (\<exists>mon n h. ep_monitor p = Some mon \<and> mon n (dep_id d) = Some h \<and> \<not> dh_healthy h)"

definition gated :: "deployment \<Rightarrow> deployment_phase list \<Rightarrow> bool" where
  "gated d phs \<longleftrightarrow> dep_status d = DeployStatusPaused \<and>
     (\<exists>ph \<in> set phs. ph_status ph = DeploymentPhaseStatusActive \<and> \<not> ph_auto_promote ph \<and>
        dep_traffic_percent d = ph_traffic_percent ph)"

definition stopped :: "engine_params \<Rightarrow> deploy_world \<Rightarrow> deployment \<Rightarrow> deploy_world \<Rightarrow> bool" where
  "stopped p w0 d0 w \<longleftrightarrow> (\<exists>d phs. driving w0 d0 d phs w \<and> (rolled_back p d phs \<or> gated d phs))"

lemma stoppedI: "driving w0 d0 d phs w \<Longrightarrow> rolled_back p d phs \<or> gated d phs \<Longrightarrow> stopped p w0 d0 w"
  by (auto simp: stopped_def)

text \<open>The announcements at the end of a rollback.\<close>

definition announce_rollback :: "deployment \<Rightarrow> deployment_health \<Rightarrow> unit deploy_prog" where
  "announce_rollback d h =
     andThen uuid_new (\<lambda>rid.
     andThen time_now (\<lambda>started.
     andThen time_now (\<lambda>created.
     andThen (logged (create_rollback_record
        \<lparr> rb_id = rid, rb_deployment_id = dep_id d, rb_target_deployment_id = dep_previous d,
          rb_reason = ''health check failure'', rb_health_score = Some (dh_overall h),
          rb_automatic = True, rb_strategy = dep_strategy d, rb_started_at = started,
          rb_completed_at = None, rb_created_at = created \<rparr>)) (\<lambda>_.
     andThen (logged (publish_phase_changed d None None)) (\<lambda>_.
     andThen time_now (\<lambda>now.
       logged (publish_msg (RolledBackEvent d now))))))))"

lemma trigger_rollback_alt:
  "trigger_rollback d h =
     andThen (wrapped (ErrWrap ''triggerRollback: transition'') (transition DeployStatusRolledBack d)) (\<lambda>d1.
     andThen (wrapped (ErrWrap ''triggerRollback: update deployment'')
                (update_deployment (d1\<lparr>dep_traffic_percent := 0\<rparr>))) (\<lambda>d2. announce_rollback d2 h))"
  by (simp add: trigger_rollback_def announce_rollback_def)

lemma trigger_rollback_spec:
  assumes running: "dep_status d = DeployStatusRunning"
    and mon: "ep_monitor p = Some mon" "mon n (dep_id d) = Some h" "\<not> dh_healthy h"
  shows "spec (driving w0 d0 d phs) (trigger_rollback d h) (\<lambda>_. stopped p w0 d0) (touched w0 d0)"
  unfolding trigger_rollback_alt
proof (rule spec_andThen, rule spec_transition, goal_cases)
  case 1
  show ?case using running by (simp add: lifecycle_iff)
next
  case (2 d1)
  show ?case
  proof (rule spec_assume, rule spec_andThen, rule spec_update, goal_cases)
  case (1 m)
  then obtain now where t: "transition_to now DeployStatusRolledBack d = Inr d1" by blast
  show ?case
    using evolves_trans[OF evolves_transition[OF t, of m] traffic_evolves_row[of _ m 0]] by simp
next
  case (2 d2)
  then have d1: "dep_status d1 = DeployStatusRolledBack" "dep_id d1 = dep_id d"
    by (auto dest: transition_to_Inr)
  have keep: "quiet (announce_rollback d2 h)"
    unfolding announce_rollback_def
    by (intro quiet_andThen quiet_prims quiet_ops quiet_publish same_tables_prims)
  show ?case
  proof (rule spec_assume)
    assume "\<exists>n. d2 = d1\<lparr>dep_traffic_percent := 0, dep_updated_at := n\<rparr>"
    then have "dep_status d2 = DeployStatusRolledBack" "dep_traffic_percent d2 = 0" "dep_id d2 = dep_id d"
      using d1 by auto
    then have "rolled_back p d2 phs"
      using mon by (auto simp: rolled_back_def)
    then show "spec (driving w0 d0 d2 phs) (announce_rollback d2 h) (\<lambda>_. stopped p w0 d0) (touched w0 d0)"
      by (intro spec_post[OF spec_same[OF keep]]) (auto intro: stoppedI)
  qed
  qed
qed

lemma fail_phase_spec:
  assumes "dep_status d = DeployStatusRunning"
    and "ep_monitor p = Some mon" and "mon n (dep_id d) = Some h" and "\<not> dh_healthy h"
  shows "spec (driving w0 d0 d (pre @ ph # post)) (fail_phase d ph h) (\<lambda>_. stopped p w0 d0) (touched w0 d0)"
  unfolding fail_phase_def
proof (rule spec_then_same, blast)
  fix now
  let ?ph = "ph\<lparr>ph_status := DeploymentPhaseStatusFailed, ph_completed_at := Some now\<rparr>"
  show "spec (driving w0 d0 d (pre @ ph # post))
    (andThen (attempt (update_phase ?ph) :: (deploy_error + unit) deploy_prog) (\<lambda>_. trigger_rollback d h))
    (\<lambda>_. stopped p w0 d0) (touched w0 d0)"
  proof (rule spec_andThen, rule spec_attempt)
    show "spec (driving w0 d0 d (pre @ ph # post)) (update_phase ?ph)
      (\<lambda>x. (\<lambda>r. driving w0 d0 d (case r of Inl _ \<Rightarrow> pre @ ph # post | Inr _ \<Rightarrow> pre @ ?ph # post)) (Inr x :: deploy_error + unit))
      (\<lambda>t. \<forall>e. (\<lambda>r. driving w0 d0 d (case r of Inl _ \<Rightarrow> pre @ ph # post | Inr _ \<Rightarrow> pre @ ?ph # post)) (Inl e :: deploy_error + unit) t)"
      by (rule spec_post[OF spec_update_phase[of ?ph ph]]) (simp_all add: write_phase_def)
    show "spec (driving w0 d0 d (case r of Inl _ \<Rightarrow> pre @ ph # post | Inr _ \<Rightarrow> pre @ ?ph # post))
      (trigger_rollback d h) (\<lambda>_. stopped p w0 d0) (touched w0 d0)" for r :: "deploy_error + unit"
      using assms by (rule trigger_rollback_spec)
  qed
qed

lemma hold_phase_spec:
  assumes running: "dep_status d = DeployStatusRunning"
    and "ph \<in> set phs" and "ph_status ph = DeploymentPhaseStatusActive" and "\<not> ph_auto_promote ph"
    and "dep_traffic_percent d = ph_traffic_percent ph"
  shows "spec (driving w0 d0 d phs) (hold_phase d) (\<lambda>_. stopped p w0 d0) (touched w0 d0)"
  unfolding hold_phase_def
proof (rule spec_andThen, rule spec_transition)
  show "lifecycle (dep_status d) DeployStatusPaused" using running by (simp add: lifecycle_iff)
next
  fix d1
  show "spec (\<lambda>w. (\<exists>now. transition_to now DeployStatusPaused d = Inr d1) \<and> driving w0 d0 d phs w)
    (wrapped (ErrWrap ''driveDeployment: update deployment paused'') (update_deployment d1))
    (\<lambda>_. stopped p w0 d0) (touched w0 d0)"
  proof (rule spec_assume)
  assume "\<exists>now. transition_to now DeployStatusPaused d = Inr d1"
  then obtain now where t: "transition_to now DeployStatusPaused d = Inr d1" by blast
  have "gated (d1\<lparr>dep_updated_at := n\<rparr>) phs" for n
    using transition_to_Inr[OF t] assms by (auto simp: gated_def)
  then show "spec (driving w0 d0 d phs)
    (wrapped (ErrWrap ''driveDeployment: update deployment paused'') (update_deployment d1))
    (\<lambda>_. stopped p w0 d0) (touched w0 d0)"
    using evolves_transition[OF t]
    by (intro spec_post[OF spec_update]) (auto intro: stoppedI)
  qed
qed

lemma pass_phase_spec:
  "spec (driving w0 d0 d (pre @ ph # post)) (pass_phase ph)
     (\<lambda>_ w. \<exists>ph1. ph_status ph1 = DeploymentPhaseStatusPassed \<and> driving w0 d0 d (pre @ ph1 # post) w)
     (touched w0 d0)"
  unfolding pass_phase_def
proof (rule spec_then_same, blast)
  fix now
  let ?ph = "ph\<lparr>ph_status := DeploymentPhaseStatusPassed, ph_completed_at := Some now\<rparr>"
  show "spec (driving w0 d0 d (pre @ ph # post))
    (wrapped (ErrWrap ''driveDeployment: update phase passed'') (update_phase ?ph))
    (\<lambda>_ w. \<exists>ph1. ph_status ph1 = DeploymentPhaseStatusPassed \<and> driving w0 d0 d (pre @ ph1 # post) w)
    (touched w0 d0)"
    by (rule spec_post[OF spec_update_phase_wrapped[of ?ph ph]]) (auto simp: write_phase_def intro!: exI[of _ ?ph])
qed

lemma read_health_value:
  "spec P (read_health p i) (\<lambda>h _. \<forall>x. h = Some x \<longrightarrow>
     (\<exists>mon n. ep_monitor p = Some mon \<and> mon n i = Some x)) E"
  by (auto simp: spec_def read_health_def prog_defs split: option.splits)

lemma phase_exit_spec:
  assumes running: "dep_status d = DeployStatusRunning"
    and active: "ph_status ph = DeploymentPhaseStatusActive"
    and traffic: "dep_traffic_percent d = ph_traffic_percent ph"
  shows "spec (driving w0 d0 d (pre @ ph # post)) (phase_exit p d ph)
     (\<lambda>r w. case r of None \<Rightarrow> stopped p w0 d0 w
       | Some d1 \<Rightarrow> d1 = d \<and> (\<exists>ph1. ph_status ph1 = DeploymentPhaseStatusPassed \<and>
           driving w0 d0 d (pre @ ph1 # post) w))
     (touched w0 d0)"
  unfolding phase_exit_def
proof (rule spec_andThen)
  show "spec (driving w0 d0 d (pre @ ph # post)) (read_health p (dep_id d))
    (\<lambda>h w. (\<forall>x. h = Some x \<longrightarrow> (\<exists>mon n. ep_monitor p = Some mon \<and> mon n (dep_id d) = Some x)) \<and>
       driving w0 d0 d (pre @ ph # post) w) (touched w0 d0)"
    by (rule spec_post[OF spec_conj[OF spec_same read_health_value]]) auto
  fix h
  show "spec (\<lambda>w. (\<forall>x. h = Some x \<longrightarrow> (\<exists>mon n. ep_monitor p = Some mon \<and> mon n (dep_id d) = Some x)) \<and>
       driving w0 d0 d (pre @ ph # post) w)
    (if unhealthy h \<and> cc_rollback_on_failure default_canary_config
     then andThen (fail_phase d ph (the h)) (\<lambda>_. ret None)
     else if \<not> ph_auto_promote ph then andThen (hold_phase d) (\<lambda>_. ret None)
     else andThen (pass_phase ph) (\<lambda>_. ret (Some d)))
     (\<lambda>r w. case r of None \<Rightarrow> stopped p w0 d0 w
       | Some d1 \<Rightarrow> d1 = d \<and> (\<exists>ph1. ph_status ph1 = DeploymentPhaseStatusPassed \<and>
           driving w0 d0 d (pre @ ph1 # post) w))
     (touched w0 d0)"
  proof (rule spec_assume, intro spec_if, goal_cases)
    case 1
    then obtain x mn n where x: "h = Some x" "\<not> dh_healthy x" "ep_monitor p = Some mn"
      "mn n (dep_id d) = Some x"
      by (auto simp: unhealthy_def split: option.splits)
    then show ?case using fail_phase_spec[of d p mn n x] running
      by (auto intro!: spec_andThen[OF _ spec_ret])
  next
    case 2
    then show ?case using hold_phase_spec[of d ph "pre @ ph # post"] active traffic running
      by (auto intro!: spec_andThen[OF _ spec_ret])
  next
    case 3
    show ?case by (rule spec_andThen[OF pass_phase_spec spec_ret]) auto
  qed
qed

section \<open>A whole drive\<close>

lemma run_phases_spec:
  assumes "dep_status d = DeployStatusRunning"
    and "\<forall>q \<in> set pre. ph_status q = DeploymentPhaseStatusPassed"
  shows "spec (driving w0 d0 d (pre @ phs)) (run_phases p prev d phs)
    (\<lambda>r w. case r of None \<Rightarrow> stopped p w0 d0 w
      | Some d1 \<Rightarrow> dep_status d1 = DeployStatusRunning \<and>
          (\<exists>qs. (\<forall>q \<in> set qs. ph_status q = DeploymentPhaseStatusPassed) \<and> driving w0 d0 d1 qs w))
    (touched w0 d0)"
  using assms
proof (induction phs arbitrary: d pre)
  case Nil
  then show ?case by (auto intro!: spec_ret exI[of _ pre])
next
  case (Cons ph phs)
  show ?case unfolding run_phases.simps
  proof (rule spec_andThen, rule phase_enter_spec, unfold split_def, rule spec_assume, goal_cases)
    case (1 r)
    let ?d = "fst r" and ?ph = "snd r"
    from 1 have ph: "dep_status ?d = DeployStatusRunning" "dep_traffic_percent ?d = ph_traffic_percent ?ph"
      "ph_status ?ph = DeploymentPhaseStatusActive" using Cons.prems by auto
    show ?case
    proof (rule spec_then_same, blast, rule spec_andThen, rule phase_exit_spec[OF ph(1,3,2)], goal_cases)
      case (1 wt r)
      show ?case
      proof (cases r)
        case None
        then show ?thesis by (auto intro!: spec_ret)
      next
        case (Some d2)
        show ?thesis unfolding Some option.case
        proof (rule spec_assume, rule spec_ex, rule spec_assume)
          fix ph1 :: deployment_phase
          assume "d2 = ?d" and "ph_status ph1 = DeploymentPhaseStatusPassed"
          then show "spec (driving w0 d0 ?d (pre @ ph1 # phs)) (run_phases p prev d2 phs)
            (\<lambda>r w. case r of None \<Rightarrow> stopped p w0 d0 w
              | Some d1 \<Rightarrow> dep_status d1 = DeployStatusRunning \<and>
                (\<exists>qs. (\<forall>q \<in> set qs. ph_status q = DeploymentPhaseStatusPassed) \<and> driving w0 d0 d1 qs w))
            (touched w0 d0)"
            using Cons.IH[of ?d "pre @ [ph1]"] ph(1) Cons.prems(2) by auto
        qed
      qed
    qed
  qed
qed

lemma complete_deployment_spec:
  assumes "dep_status d = DeployStatusRunning"
  shows "spec (driving w0 d0 d phs) (complete_deployment d)
    (\<lambda>_ w. \<exists>d1. dep_status d1 = DeployStatusCompleted \<and> dep_traffic_percent d1 = 100 \<and>
       driving w0 d0 d1 phs w) (touched w0 d0)"
  unfolding complete_deployment_def
proof (rule spec_andThen, rule spec_transition)
  show "lifecycle (dep_status (d\<lparr>dep_traffic_percent := 100\<rparr>)) DeployStatusCompleted"
    using assms by (simp add: lifecycle_iff)
next
  fix d1
  show "spec (\<lambda>w. (\<exists>now. transition_to now DeployStatusCompleted (d\<lparr>dep_traffic_percent := 100\<rparr>) = Inr d1) \<and>
      driving w0 d0 d phs w)
    (andThen (wrapped (ErrWrap ''driveDeployment: update deployment completed'') (update_deployment d1))
      (\<lambda>d2. andThen time_now (\<lambda>now. logged (publish_msg (CompletedEvent d2 now)))))
    (\<lambda>_ w. \<exists>d1. dep_status d1 = DeployStatusCompleted \<and> dep_traffic_percent d1 = 100 \<and>
       driving w0 d0 d1 phs w) (touched w0 d0)"
  proof (rule spec_assume, rule spec_andThen, rule spec_update)
    fix n
    assume "\<exists>now. transition_to now DeployStatusCompleted (d\<lparr>dep_traffic_percent := 100\<rparr>) = Inr d1"
    then obtain now where t: "transition_to now DeployStatusCompleted (d\<lparr>dep_traffic_percent := 100\<rparr>) = Inr d1"
      by blast
    have "evolves d (d\<lparr>dep_traffic_percent := 100\<rparr>)"
      using traffic_evolves_row[of d "dep_updated_at d" 100] by simp
    then show "evolves d (d1\<lparr>dep_updated_at := n\<rparr>)" using evolves_transition[OF t] by (rule evolves_trans)
  next
    fix d2
    assume "\<exists>now. transition_to now DeployStatusCompleted (d\<lparr>dep_traffic_percent := 100\<rparr>) = Inr d1"
    then have d1: "dep_status d1 = DeployStatusCompleted" "dep_traffic_percent d1 = 100"
      by (auto dest: transition_to_Inr)
    have "quiet (andThen time_now (\<lambda>now. logged (publish_msg (CompletedEvent d2 now))))"
      by (intro quiet_andThen quiet_prims quiet_ops same_tables_prims)
    note same = spec_same[OF this]
    show "spec (\<lambda>w. (\<exists>n. d2 = d1\<lparr>dep_updated_at := n\<rparr>) \<and> driving w0 d0 d2 phs w)
      (andThen time_now (\<lambda>now. logged (publish_msg (CompletedEvent d2 now))))
      (\<lambda>_ w. \<exists>d1. dep_status d1 = DeployStatusCompleted \<and> dep_traffic_percent d1 = 100 \<and>
         driving w0 d0 d1 phs w) (touched w0 d0)"
      by (rule spec_assume, rule spec_post[OF same]) (use d1 in \<open>auto intro!: exI[of _ d2]\<close>)
  qed
qed

text \<open>
  Up to the loading of the phases nothing draws an id or touches the phases: the calls before
  it keep \<open>same_ids\<close>.
\<close>

definition same_ids :: "deploy_world \<Rightarrow> deploy_world \<Rightarrow> bool" where
  "same_ids w w' \<longleftrightarrow> deployment_phases w' = deployment_phases w \<and> fresh w' = fresh w \<and>
     minted w' = minted w"

interpretation ids: frame same_ids
  by unfold_locales (auto simp: same_ids_def)

lemma same_ids_prims [intro]:
  "keeps same_ids (ext_call e)" "keeps same_ids time_now" "keeps same_ids (list_phases i)"
  "keeps same_ids (get_deployment i)" "keeps same_ids (transition t d)"
  "keeps same_ids (update_deployment d)"
  by (auto simp: keeps_def same_ids_def prog_defs list_phases_def get_deployment_def
      transition_def update_deployment_def Let_def split: option.splits sum.splits)

lemma same_ids_start [intro]: "keeps same_ids (start_deployment d)"
  unfolding start_deployment_def by auto

lemma spec_keeps:
  assumes "spec P m Q E" and "keeps R m" and "frame R"
  shows "spec (\<lambda>s. P s \<and> R w s) m (\<lambda>x s. Q x s \<and> R w s) E"
proof (rule specI)
  fix s x t
  assume s: "P s \<and> R w s" and run: "m s = (Inr x, t)"
  then have "R s t" using assms(2) keepsD by metis
  then show "Q x t \<and> R w t"
    using spec_Inr[OF assms(1) _ run] s frame.R_trans[OF assms(3)] by blast
next
  fix s e t
  assume "P s \<and> R w s" and "m s = (Inl e, t)"
  then show "E t" using spec_Inl[OF assms(1)] by blast
qed

text \<open>Loading: the stored phases, or the default ones once they are all stored.\<close>

definition proper_phase :: "uuid \<Rightarrow> deployment_phase \<Rightarrow> bool" where
  "proper_phase i q \<longleftrightarrow> ph_deployment_id q = i \<and> 0 \<le> ph_traffic_percent q \<and> ph_traffic_percent q \<le> 100"

definition storing ::
  "deploy_world \<Rightarrow> deployment \<Rightarrow> deployment \<Rightarrow> deployment_phase list \<Rightarrow> deployment_phase list \<Rightarrow>
   deploy_world \<Rightarrow> bool" where
  "storing w0 d0 d phs qs w \<longleftrightarrow> driving w0 d0 d phs w \<and>
     (fresh_phase_ids w0 \<longrightarrow> storable_ids (map ph_id qs) w)"

lemma create_phase_spec:
  assumes "phases_of w0 (dep_id d0) = []" and q: "proper_phase (dep_id d0) q"
  shows "spec (storing w0 d0 d phs (q # qs)) (create_phase q)
    (\<lambda>r. storing w0 d0 d (phs @ [r]) qs) (touched w0 d0)"
proof (rule specI)
  fix s r t
  assume st: "storing w0 d0 d phs (q # qs) s" and run: "create_phase q s = (Inr r, t)"
  then have inv: "driving w0 d0 d phs s" by (simp add: storing_def)
  from run have t: "deployments t = deployments s" "deployment_phases t = deployment_phases s @ [r]"
    "fault t = fault s" "ctxdone t = ctxdone s" "ph_deployment_id r = ph_deployment_id q"
    "row_of ph_id (ph_id r) (deployment_phases s) = None"
    "ph_id q \<noteq> uuid_nil \<Longrightarrow> ph_id r = ph_id q"
    by (auto simp: create_phase_def prog_defs split: if_splits)
  have "calm t \<longleftrightarrow> calm s" using t by (intro calm_cong)
  moreover have "ph_id r \<notin> ph_id ` set (deployment_phases s)" using t(6) by (simp add: row_of_None)
  moreover have "set phs \<subseteq> set (deployment_phases s)" using inv by (auto simp: driving_def set_phases_of)
  ultimately have "driving w0 d0 d (phs @ [r]) t"
    using inv t(1,2,5) q by (auto simp: driving_def set_phases_of find_deployment_def proper_phase_def)
  moreover have "storable_ids (map ph_id qs) t" if "fresh_phase_ids w0"
    using st that t(2,7) by (auto simp: storing_def storable_ids_def row_of_None) (metis imageI)
  ultimately show "storing w0 d0 d (phs @ [r]) qs t" by (simp add: storing_def)
next
  fix s e t
  assume st: "storing w0 d0 d phs (q # qs) s" and run: "create_phase q s = (Inl e, t)"
  then have inv: "driving w0 d0 d phs s" by (simp add: storing_def)
  from run have same: "same_tables s t"
    by (auto simp: create_phase_def prog_defs same_tables_def split: if_splits)
  moreover have "\<not> calm s" if "fresh_phase_ids w0"
    using run st that q
    by (auto simp: create_phase_def prog_defs storing_def storable_ids_def proper_phase_def
        driving_def dest: not_calm split: if_splits)
  ultimately show "touched w0 d0 t"
    using driving_touched[OF driving_same[OF inv]] assms(1) same_tables_calm by blast
qed

lemma persist_phases_spec:
  assumes "phases_of w0 (dep_id d0) = []" and "\<forall>q \<in> set qs. proper_phase (dep_id d0) q"
  shows "spec (storing w0 d0 d phs qs) (persist_phases qs) (\<lambda>rs. driving w0 d0 d (phs @ rs)) (touched w0 d0)"
  using assms(2)
proof (induction qs arbitrary: phs)
  case Nil
  then show ?case by (auto intro!: spec_ret simp: storing_def)
next
  case (Cons q qs)
  show ?case unfolding persist_phases.simps
  proof (rule spec_andThen, rule spec_wrapped, rule create_phase_spec[OF assms(1)], goal_cases)
    case 1
    then show ?case using Cons.prems by simp
  next
    case (2 r)
    show ?case using Cons.IH[of "phs @ [r]"] Cons.prems
      by (auto intro!: spec_andThen[OF _ spec_ret])
  qed
qed

lemma build_phases_from_run:
  "\<exists>qs. build_phases_from nm i a k sts s = (Inr qs, s\<lparr>minted := minted s + length sts\<rparr>) \<and>
     map ph_id qs = next_ids (length sts) s \<and> (\<forall>q \<in> set qs. ph_deployment_id q = i) \<and>
     map ph_traffic_percent qs = map cs_traffic_percent sts"
proof (induction sts arbitrary: k s)
  case Nil
  show ?case by (simp add: ret_def next_ids_def)
next
  case (Cons st sts)
  let ?s = "s\<lparr>minted := Suc (minted s)\<rparr>"
  obtain qs where "build_phases_from nm i a (k + 1) sts ?s = (Inr qs, ?s\<lparr>minted := minted ?s + length sts\<rparr>)"
    "map ph_id qs = next_ids (length sts) ?s" "\<forall>q \<in> set qs. ph_deployment_id q = i"
    "map ph_traffic_percent qs = map cs_traffic_percent sts"
    using Cons.IH[of "k + 1" ?s] by blast
  moreover have "next_ids (length (st # sts)) s = fresh s (minted s) # next_ids (length sts) ?s"
    by (simp add: next_ids_def upt_conv_Cons del: upt_Suc)
  ultimately show ?case
    by (simp add: andThen_def uuid_new_def ret_def built_phase_def)
qed

lemma default_steps_percent:
  "\<forall>st \<in> set (cc_steps default_canary_config). 0 \<le> cs_traffic_percent st \<and> cs_traffic_percent st \<le> 100"
  by (simp add: default_canary_config_def canary_step_of_def)

lemma build_phases_spec:
  "spec (\<lambda>w. driving w0 d0 d [] w \<and> same_ids w0 w) (build_phases nm (dep_id d0) default_canary_config)
     (\<lambda>qs w. (\<forall>q \<in> set qs. proper_phase (dep_id d0) q) \<and> storing w0 d0 d [] qs w) (touched w0 d0)"
  (is "spec ?P ?m ?Q ?E")
proof -
  let ?steps = "cc_steps default_canary_config"
  have "case ?m s of (Inr qs, t) \<Rightarrow> ?Q qs t | (Inl e, t) \<Rightarrow> ?E t" if s: "?P s" for s
  proof -
    obtain qs where run: "?m s = (Inr qs, s\<lparr>minted := minted s + length ?steps\<rparr>)"
      and qs: "map ph_id qs = next_ids (length ?steps) s" "\<forall>q \<in> set qs. ph_deployment_id q = dep_id d0"
      "map ph_traffic_percent qs = map cs_traffic_percent ?steps"
      using build_phases_from_run[of nm "dep_id d0" "cc_auto_promote default_canary_config" 0 ?steps s]
      unfolding build_phases_def by blast
    let ?t = "s\<lparr>minted := minted s + length ?steps\<rparr>"
    have "\<forall>q \<in> set qs. 0 \<le> ph_traffic_percent q \<and> ph_traffic_percent q \<le> 100"
    proof
      fix q assume "q \<in> set qs"
      then have "ph_traffic_percent q \<in> set (map cs_traffic_percent ?steps)"
        using qs(3) by (metis image_eqI list.set_map)
      then show "0 \<le> ph_traffic_percent q \<and> ph_traffic_percent q \<le> 100"
        using default_steps_percent by auto
    qed
    moreover have "driving w0 d0 d [] ?t"
      by (rule driving_same[of _ _ _ _ s]) (use s in \<open>simp_all add: same_tables_def\<close>)
    moreover have "storable_ids (map ph_id qs) ?t" if "fresh_phase_ids w0"
      using that s unfolding qs(1) fresh_phase_ids_def
      by (simp add: storable_ids_def next_ids_def same_ids_def)
    ultimately show ?thesis using run qs(2) by (simp add: storing_def proper_phase_def)
  qed
  then show ?thesis by (simp add: spec_def)
qed

lemma load_phases_spec:
  "spec (\<lambda>w. driving w0 d0 d (phases_of w0 (dep_id d0)) w \<and> same_ids w0 w) (load_phases p (dep_id d0))
     (\<lambda>phs. driving w0 d0 d phs) (touched w0 d0)"
  unfolding load_phases_def
proof (rule spec_andThen)
  let ?i = "dep_id d0"
  have target: "spec (driving w0 d0 d (phases_of w0 ?i)) (wrapped (ErrWrap ''driveDeployment: list phases'') (list_phases ?i))
    (\<lambda>phs w. phs = phases_of w ?i) (\<lambda>_. True)"
    by (auto intro!: specI simp: list_phases_def prog_defs phases_of_def split: if_splits)
  have "quiet (wrapped (ErrWrap ''driveDeployment: list phases'') (list_phases ?i))" by blast
  from spec_conj[OF spec_same[OF this] target]
  have "spec (driving w0 d0 d (phases_of w0 ?i)) (wrapped (ErrWrap ''driveDeployment: list phases'') (list_phases ?i))
    (\<lambda>phs w. (set phs = set (phases_of w0 ?i)) \<and> driving w0 d0 d phs w) (touched w0 d0)"
  proof (rule spec_post)
    fix phs w
    assume *: "driving w0 d0 d (phases_of w0 ?i) w \<and> phs = phases_of w ?i"
    then have "distinct (map ph_id phs)"
      by (auto simp: driving_def phases_of_def distinct_map intro: inj_on_subset)
    with * show "(set phs = set (phases_of w0 ?i)) \<and> driving w0 d0 d phs w"
      by (auto simp: driving_def)
  qed
  note keep = spec_keeps[OF this ids.keeps_wrapped[OF same_ids_prims(3)] ids.frame_axioms]
  show "spec (\<lambda>w. driving w0 d0 d (phases_of w0 ?i) w \<and> same_ids w0 w)
    (wrapped (ErrWrap ''driveDeployment: list phases'') (list_phases ?i))
    (\<lambda>phs w. (set phs = set (phases_of w0 ?i)) \<and> driving w0 d0 d phs w \<and> same_ids w0 w) (touched w0 d0)"
    by (rule spec_post[OF keep]) auto
  fix phs
  show "spec (\<lambda>w. (set phs = set (phases_of w0 ?i)) \<and> driving w0 d0 d phs w \<and> same_ids w0 w)
    (if phs \<noteq> [] then ret phs
     else andThen (build_phases (ep_percent_name p) ?i default_canary_config) (\<lambda>phs. persist_phases phs))
    (\<lambda>phs. driving w0 d0 d phs) (touched w0 d0)"
  proof (rule spec_assume, rule spec_if)
    assume "set phs = set (phases_of w0 ?i)" and "\<not> phs \<noteq> []"
    then have none: "phases_of w0 ?i = []" "phs = []" by auto
    show "spec (\<lambda>w. driving w0 d0 d phs w \<and> same_ids w0 w)
        (andThen (build_phases (ep_percent_name p) ?i default_canary_config) (\<lambda>phs. persist_phases phs))
        (\<lambda>phs. driving w0 d0 d phs) (touched w0 d0)"
      unfolding none(2)
    proof (rule spec_andThen[OF build_phases_spec], rule spec_assume)
      fix qs
      assume "\<forall>q \<in> set qs. proper_phase ?i q"
      then show "spec (storing w0 d0 d [] qs) (persist_phases qs) (\<lambda>phs. driving w0 d0 d phs) (touched w0 d0)"
        using persist_phases_spec[OF none(1), of qs d "[]"] by simp
    qed
  qed (auto intro!: spec_ret)
qed

lemma start_deployment_spec:
  assumes "dep_status d0 \<in> {DeployStatusPending, DeployStatusRunning}"
  shows "spec (driving w0 d0 d0 phs) (start_deployment d0)
    (\<lambda>d w. dep_status d = DeployStatusRunning \<and> driving w0 d0 d phs w) (touched w0 d0)"
proof (cases "dep_status d0 = DeployStatusPending")
  case True
  then have "lifecycle (dep_status d0) DeployStatusRunning" by (simp add: lifecycle_iff)
  note trans = spec_transition[OF this]
  show ?thesis unfolding start_deployment_def if_P[OF True]
  proof (rule spec_andThen[OF trans], rule spec_assume)
    fix d1
    assume "\<exists>now. transition_to now DeployStatusRunning d0 = Inr d1"
    then obtain now where t: "transition_to now DeployStatusRunning d0 = Inr d1" by blast
    then have "dep_status d1 = DeployStatusRunning" by (rule transition_to_Inr)
    then show "spec (driving w0 d0 d0 phs)
      (wrapped (ErrWrap ''driveDeployment: update deployment to running'') (update_deployment d1))
      (\<lambda>d w. dep_status d = DeployStatusRunning \<and> driving w0 d0 d phs w) (touched w0 d0)"
      using evolves_transition[OF t] by (intro spec_post[OF spec_update]) auto
  qed
next
  case False
  then have "dep_status d0 = DeployStatusRunning" using assms by simp
  then show ?thesis unfolding start_deployment_def if_not_P[OF False] by (auto intro: spec_ret)
qed

text \<open>
  The result of a drive: completed, rolled back or waiting at a gate; the first only if the
  run got to the end of the phases.
\<close>

definition drive_result :: "engine_params \<Rightarrow> deploy_world \<Rightarrow> deployment \<Rightarrow> deploy_world \<Rightarrow> bool" where
  "drive_result p w0 d0 w \<longleftrightarrow> stopped p w0 d0 w \<or>
     (\<exists>d phs. driving w0 d0 d phs w \<and> dep_status d = DeployStatusCompleted \<and>
        dep_traffic_percent d = 100 \<and> (\<forall>q \<in> set phs. ph_status q = DeploymentPhaseStatusPassed))"

lemma drive_from_start:
  assumes "dep_status d1 = DeployStatusRunning"
  shows "spec (\<lambda>w. driving w0 d0 d1 (phases_of w0 (dep_id d0)) w \<and> same_ids w0 w)
    (andThen (load_phases p (dep_id d0)) (\<lambda>phs.
     andThen (previous_deployment d1) (\<lambda>prev.
     andThen (run_phases p prev d1 (drop (start_index phs) phs)) (\<lambda>done.
       case done of None \<Rightarrow> ret () | Some d2 \<Rightarrow> complete_deployment d2))))
    (\<lambda>_. drive_result p w0 d0) (touched w0 d0)"
proof (rule spec_andThen[OF load_phases_spec], rule spec_then_same, blast)
  fix phs prev
  let ?pre = "take (start_index phs) phs" and ?rest = "drop (start_index phs) phs"
  have "\<forall>q \<in> set ?pre. ph_status q = DeploymentPhaseStatusPassed"
    using index_where_before[of _ "\<lambda>ph. ph_status ph \<noteq> DeploymentPhaseStatusPassed" phs]
    by (auto simp: start_index_def in_set_conv_nth)
  from run_phases_spec[OF assms this, of w0 d0 ?rest p prev]
  have run: "spec (driving w0 d0 d1 phs) (run_phases p prev d1 ?rest)
    (\<lambda>r w. case r of None \<Rightarrow> stopped p w0 d0 w
      | Some d1 \<Rightarrow> dep_status d1 = DeployStatusRunning \<and>
          (\<exists>qs. (\<forall>q \<in> set qs. ph_status q = DeploymentPhaseStatusPassed) \<and> driving w0 d0 d1 qs w))
    (touched w0 d0)" by simp
  show "spec (driving w0 d0 d1 phs) (andThen (run_phases p prev d1 ?rest) (\<lambda>done.
       case done of None \<Rightarrow> ret () | Some d2 \<Rightarrow> complete_deployment d2))
    (\<lambda>_. drive_result p w0 d0) (touched w0 d0)"
  proof (rule spec_andThen[OF run])
    fix r
    show "spec (\<lambda>w. case r of None \<Rightarrow> stopped p w0 d0 w
      | Some d1 \<Rightarrow> dep_status d1 = DeployStatusRunning \<and>
          (\<exists>qs. (\<forall>q \<in> set qs. ph_status q = DeploymentPhaseStatusPassed) \<and> driving w0 d0 d1 qs w))
      (case r of None \<Rightarrow> ret () | Some d2 \<Rightarrow> complete_deployment d2)
      (\<lambda>_. drive_result p w0 d0) (touched w0 d0)"
    proof (cases r)
      case None
      then show ?thesis by (auto intro!: spec_ret simp: drive_result_def)
    next
      case (Some d2)
      show ?thesis unfolding Some option.case
        by (rule spec_assume, rule spec_ex, rule spec_assume, rule spec_post[OF complete_deployment_spec])
          (auto simp: drive_result_def)
    qed
  qed
qed

text \<open>
  Whether a rollout owns the deployment is looked up once, right after the deployment was
  read; an error of the lookup counts as no.
\<close>

definition owned :: "engine_params \<Rightarrow> deploy_world \<Rightarrow> uuid \<Rightarrow> bool" where
  "owned p w i \<longleftrightarrow> (\<exists>look. ep_lookup p = Some look \<and> look (Suc (calls w)) i = Inr True)"

definition opened :: "deploy_world \<Rightarrow> deployment \<Rightarrow> deploy_world \<Rightarrow> bool" where
  "opened w0 d0 w \<longleftrightarrow> driving w0 d0 d0 (phases_of w0 (dep_id d0)) w \<and> same_tables w0 w \<and>
     same_ids w0 w \<and> calls w = Suc (calls w0)"

lemma rollout_owns_spec:
  "spec (opened w0 d0) (rollout_owns p i) (\<lambda>b w. b = owned p w0 i \<and> opened w0 d0 w) E"
  by (rule specI)
    (auto simp: rollout_owns_def prog_defs owned_def opened_def split: option.splits sum.splits)

lemma open_deployment_spec:
  assumes row: "find_deployment w0 (dep_id d0) = Some d0"
    and keys: "distinct (map ph_id (deployment_phases w0))"
  shows "spec (\<lambda>w. w = w0) (wrapped e (get_deployment (dep_id d0)))
      (\<lambda>d w. d = d0 \<and> opened w0 d0 w) (touched w0 d0)"
proof (rule spec_wrapped, rule specI)
  let ?phs = "phases_of w0 (dep_id d0)"
  have "distinct (map ph_id ?phs)"
    using keys by (auto simp: phases_of_def distinct_map intro: inj_on_subset)
  then have init: "driving w0 d0 d0 ?phs w0"
    using row keys by (auto simp: driving_def intro: evolves_refl)
  {
    fix s d t assume s: "s = w0" and run: "get_deployment (dep_id d0) s = (Inr d, t)"
    then have same: "same_tables s t" "same_ids s t"
      using same_tables_prims(4) same_ids_prims(4) keepsD by metis+
    moreover have "calls t = Suc (calls s)"
      using run by (auto simp: get_deployment_def prog_defs split: if_splits option.splits)
    ultimately show "d = d0 \<and> opened w0 d0 t"
      using s run row init driving_same[OF init] by (auto simp: opened_def dest: get_deployment_Inr)
  next
    fix s e t assume s: "s = w0" and run: "get_deployment (dep_id d0) s = (Inl e, t)"
    then have "same_tables s t" using same_tables_prims(4) keepsD by metis
    moreover have "\<not> calm s" using s run row
      by (auto simp: get_deployment_def prog_defs dest: not_calm split: if_splits)
    ultimately show "touched w0 d0 t"
      using s init driving_same driving_touched same_tables_calm by metis
  }
qed

lemma spec_vacuous [simp]: "spec (\<lambda>_. False) m Q E"
  by (simp add: spec_def)

lemma drive_deployment_spec:
  assumes row: "find_deployment w0 (dep_id d0) = Some d0"
    and keys: "distinct (map ph_id (deployment_phases w0))"
    and canary: "dep_strategy d0 = DeployStrategyCanary"
    and status: "dep_status d0 \<in> {DeployStatusPending, DeployStatusRunning}"
  shows "spec (\<lambda>w. w = w0) (drive_deployment p (dep_id d0))
    (\<lambda>_ w. if owned p w0 (dep_id d0) then same_tables w0 w else drive_result p w0 d0 w) (touched w0 d0)"
  unfolding drive_deployment_def
proof (rule spec_andThen[OF open_deployment_spec[OF row keys]], rule spec_assume,
    rule spec_andThen[OF rollout_owns_spec], rule spec_assume)
  fix d b
  assume d: "d = d0" and b: "b = owned p w0 (dep_id d0)"
  let ?Q = "\<lambda>_ w. if owned p w0 (dep_id d0) then same_tables w0 w else drive_result p w0 d0 w"
  let ?drive = "andThen (start_deployment d) (\<lambda>d1.
           if dep_status d1 \<noteq> DeployStatusRunning then ret ()
           else andThen (load_phases p (dep_id d0)) (\<lambda>phs.
                andThen (previous_deployment d1) (\<lambda>prev.
                andThen (run_phases p prev d1 (drop (start_index phs) phs)) (\<lambda>done.
                  case done of None \<Rightarrow> ret () | Some d2 \<Rightarrow> complete_deployment d2))))"
  show "spec (opened w0 d0) (if b \<or> dep_strategy d \<noteq> DeployStrategyCanary then ret () else ?drive)
      ?Q (touched w0 d0)"
  proof (cases b)
    case True
    then show ?thesis using b by (auto intro!: spec_ret simp: opened_def)
  next
    case False
    have start: "spec (\<lambda>w. driving w0 d0 d0 (phases_of w0 (dep_id d0)) w \<and> same_ids w0 w) (start_deployment d0)
      (\<lambda>d w. dep_status d = DeployStatusRunning \<and> driving w0 d0 d (phases_of w0 (dep_id d0)) w \<and>
         same_ids w0 w) (touched w0 d0)"
      by (rule spec_post[OF spec_keeps[OF start_deployment_spec[OF status] same_ids_start ids.frame_axioms]])
        auto
    have "spec (opened w0 d0) ?drive (\<lambda>_. drive_result p w0 d0) (touched w0 d0)"
      unfolding d
      by (rule spec_pre[OF spec_andThen[OF start]])
        (auto simp: opened_def intro!: spec_assume drive_from_start)
    then show ?thesis using False b d canary by simp
  qed
qed

text \<open>
  C1. What a drive achieves. Driving a pending or running canary deployment touches no other
  deployment and moves its own row along the life cycle. When the drive returns without an
  error and a rollout owns the deployment, no table has changed; when none does, the
  deployment is completed at full traffic with every phase passed, or rolled back at no
  traffic because the monitor reported it unhealthy, or paused at the traffic of an active
  phase that waits for a manual gate. It returns an error only when a call to the outside
  fails or the context ends, or when the deployment has no phases yet and the ids drawn for
  the default ones are not usable as keys.
\<close>

theorem drive_outcome:
  assumes "find_deployment w i = Some d0" and "distinct (map ph_id (deployment_phases w))"
    and "dep_strategy d0 = DeployStrategyCanary"
    and "dep_status d0 \<in> {DeployStatusPending, DeployStatusRunning}"
  shows "\<exists>r w' d. drive_deployment p i w = (r, w') \<and>
    (\<forall>j. j \<noteq> i \<longrightarrow> find_deployment w' j = find_deployment w j) \<and>
    find_deployment w' i = Some d \<and> evolves d0 d \<and>
    (case r of Inl e \<Rightarrow> \<not> calm w \<or> phases_of w i = [] \<and> \<not> fresh_phase_ids w
     | Inr _ \<Rightarrow>
        if owned p w i then same_tables w w' else
        (dep_status d = DeployStatusCompleted \<and> dep_traffic_percent d = 100 \<and>
           (\<forall>q \<in> set (phases_of w' i). ph_status q = DeploymentPhaseStatusPassed)) \<or>
        (dep_status d = DeployStatusRolledBack \<and> dep_traffic_percent d = 0 \<and>
           (\<exists>mon n h. ep_monitor p = Some mon \<and> mon n i = Some h \<and> \<not> dh_healthy h)) \<or>
        (dep_status d = DeployStatusPaused \<and>
           (\<exists>ph \<in> set (phases_of w' i). ph_status ph = DeploymentPhaseStatusActive \<and>
              \<not> ph_auto_promote ph \<and> dep_traffic_percent d = ph_traffic_percent ph)))"
proof -
  have i: "i = dep_id d0" using find_deployment_key[OF assms(1)] by simp
  obtain r w' where run: "drive_deployment p i w = (r, w')" by (cases "drive_deployment p i w")
  have sp: "spec (\<lambda>s. s = w) (drive_deployment p i)
      (\<lambda>_ t. if owned p w i then same_tables w t else drive_result p w d0 t) (touched w d0)"
    using drive_deployment_spec[of w d0 p] assms i by simp
  show ?thesis
  proof (cases r)
    case (Inl e)
    then have "touched w d0 w'" using spec_Inl[OF sp] run by blast
    then show ?thesis using run Inl i by (auto simp: touched_def)
  next
    case (Inr u)
    then have res: "if owned p w i then same_tables w w' else drive_result p w d0 w'"
      using spec_Inr[OF sp] run by blast
    show ?thesis
    proof (cases "owned p w i")
      case True
      then have "same_tables w w'" using res by simp
      then have "find_deployment w' = find_deployment w"
        by (simp add: same_tables_def find_deployment_def fun_eq_iff)
      with run Inr True res assms(1) show ?thesis by (auto intro: evolves_refl)
    next
      case False
      then obtain d phs where d: "driving w d0 d phs w'" and
        cases: "rolled_back p d phs \<or> gated d phs \<or> dep_status d = DeployStatusCompleted \<and>
          dep_traffic_percent d = 100 \<and> (\<forall>q \<in> set phs. ph_status q = DeploymentPhaseStatusPassed)"
        using res by (auto simp: drive_result_def stopped_def)
      have "find_deployment w' i = Some d" "evolves d0 d" "set (phases_of w' i) = set phs"
        "\<forall>j. j \<noteq> i \<longrightarrow> find_deployment w' j = find_deployment w j" "dep_id d = i"
        using d i driving_id[OF d] by (auto simp: driving_def)
      with cases run Inr False show ?thesis
        unfolding rolled_back_def gated_def by auto
    qed
  qed
qed

section \<open>Advancing past a gate\<close>

lemma get_active_run:
  "calm w \<Longrightarrow> get_active_phase i w =
     (case find (\<lambda>p. ph_deployment_id p = i \<and> ph_status p = DeploymentPhaseStatusActive) (deployment_phases w) of
        None \<Rightarrow> Inl ErrNotFound | Some p \<Rightarrow> Inr p, w\<lparr>calls := Suc (calls w)\<rparr>)"
  by (simp add: get_active_phase_def prog_defs split: option.splits)

lemma deployment_phases_cong [simp]:
  "find_deployment (w\<lparr>deployment_phases := ps, calls := n\<rparr>) = find_deployment w"
  by (simp add: find_deployment_def fun_eq_iff)

text \<open>
  C38. Advancing. When no outside call fails, \<open>Advance\<close> refuses an unknown deployment, one
  that is not paused, and a paused one without an active phase, and changes no table then;
  otherwise it returns, the first active phase is passed and the deployment runs again.
\<close>

theorem advance_passes_gate:
  assumes "calm w"
  shows "\<exists>r w'. advance i w = (r, w') \<and>
    (case (find_deployment w i,
           find (\<lambda>p. ph_deployment_id p = i \<and> ph_status p = DeploymentPhaseStatusActive) (deployment_phases w)) of
       (Some d, Some ph) \<Rightarrow>
         if dep_status d = DeployStatusPaused then
           r = Inr () \<and> (\<exists>q. row_of ph_id (ph_id ph) (deployment_phases w') = Some q \<and>
             ph_status q = DeploymentPhaseStatusPassed) \<and>
           (\<exists>d'. find_deployment w' = (find_deployment w)(i \<mapsto> d') \<and> dep_status d' = DeployStatusRunning)
         else (\<exists>e. r = Inl e) \<and> same_tables w w'
     | _ \<Rightarrow> (\<exists>e. r = Inl e) \<and> same_tables w w')"
proof -
  let ?act = "find (\<lambda>p. ph_deployment_id p = i \<and> ph_status p = DeploymentPhaseStatusActive) (deployment_phases w)"
  have get: "get_deployment i w = (case find_deployment w i of None \<Rightarrow> Inl ErrNotFound | Some d \<Rightarrow> Inr d,
      w\<lparr>calls := Suc (calls w)\<rparr>)"
    using assms by (simp add: get_deployment_def prog_defs split: option.splits)
  show ?thesis
  proof (cases "\<exists>d ph. find_deployment w i = Some d \<and> dep_status d = DeployStatusPaused \<and> ?act = Some ph")
    case False
    then show ?thesis
      using assms get get_active_run[of "w\<lparr>calls := Suc (calls w)\<rparr>" i]
      by (cases "find_deployment w i"; cases ?act)
        (auto simp: advance_def andThen_def wrapped_def fail_def same_tables_def)
  next
    case True
    then obtain d ph where d: "find_deployment w i = Some d" "dep_status d = DeployStatusPaused"
      and ph: "?act = Some ph" by blast
    let ?w2 = "w\<lparr>calls := Suc (Suc (calls w)), reads := Suc (reads w)\<rparr>"
    let ?ph = "ph\<lparr>ph_status := DeploymentPhaseStatusPassed, ph_completed_at := Some (clock w (reads w))\<rparr>"
    have "ph \<in> set (deployment_phases w)" using ph by (auto simp: find_Some_iff)
    then obtain q where q: "row_of ph_id (ph_id ph) (deployment_phases w) = Some q"
      by (metis imageI not_Some_eq row_of_None)
    let ?w3 = "?w2\<lparr>calls := Suc (calls ?w2), deployment_phases :=
      update_row ph_id (ph_id ph) (write_phase ?ph) (deployment_phases w)\<rparr>"
    have upd: "update_phase ?ph ?w2 = (Inr (), ?w3)"
      using assms q by (simp add: update_phase_def prog_defs)
    have id: "dep_id d = i" using d(1) by (rule find_deployment_key)
    have "lifecycle (dep_status d) DeployStatusRunning" using d(2) by (simp add: lifecycle_iff)
    from transition_result[OF this, of ?w3] obtain d1 where
      d1: "transition DeployStatusRunning d ?w3 = (Inr d1, ?w3\<lparr>reads := Suc (reads ?w3)\<rparr>)"
      and t: "transition_to (clock ?w3 (reads ?w3)) DeployStatusRunning d = Inr d1" by blast
    from t have "dep_id d1 = i" "dep_status d1 = DeployStatusRunning" using transition_to_Inr[OF t] id by auto
    then show ?thesis
      using d ph assms get get_active_run[of "w\<lparr>calls := Suc (calls w)\<rparr>" i] upd d1 q
      by (simp add: advance_def andThen_def wrapped_def time_now_def ret_def update_deployment_def
          ext_call_def get_state_def modify_def Let_def find_write_deployment row_of_update
          write_phase_def write_deployment_def)
        (rule exI, rule conjI, rule refl, simp)
  qed
qed

section \<open>The engine against the controls\<close>

text \<open>
  C37. A lost update. The engine keeps its copy of the deployment while it waits and writes
  the whole copy back when it enters the next phase. Whatever a user has done to the row in
  the meantime, a cancellation included, is overwritten: the deployment is running again,
  with the traffic of the phase, and the row has left the life cycle.
\<close>

theorem engine_overwrites_controls:
  assumes "calm w" and "dep_status d = DeployStatusRunning"
    and "find_deployment w (dep_id d) = Some row" and "is_terminal row"
    and "row_of ph_id (ph_id ph) (deployment_phases w) \<noteq> None"
  shows "\<exists>r w' row'. phase_enter prev d ph w = (Inr r, w') \<and>
    find_deployment w' (dep_id d) = Some row' \<and> dep_status row' = DeployStatusRunning \<and>
    dep_traffic_percent row' = ph_traffic_percent ph \<and> \<not> evolves row row'"
proof -
  obtain q where q: "row_of ph_id (ph_id ph) (deployment_phases w) = Some q" using assms(5) by blast
  have "\<not> evolves row row'" if "dep_status row' = DeployStatusRunning" for row'
    using that assms(4) lifecycle_star_terminal[of "dep_status row" "dep_status row'"]
    by (auto simp: evolves_def is_terminal_def)
  moreover have "find_deployment (w\<lparr>calls := n, reads := m, deployment_phases := ps\<rparr>) = find_deployment w" for n m ps
    by (simp add: find_deployment_def fun_eq_iff)
  ultimately show ?thesis
    using assms(1-3) q
    by (simp add: phase_enter_def update_phase_def update_deployment_def logged_def
        publish_phase_changed_def publish_msg_def prog_defs Let_def find_write_deployment
        write_deployment_def)
qed

section \<open>Concrete runs\<close>

definition sample_phase :: "phase_status \<Rightarrow> bool \<Rightarrow> deployment_phase" where
  "sample_phase s auto = \<lparr> ph_id = 21, ph_deployment_id = 7, ph_name = ''canary-5%'', ph_status = s,
     ph_traffic_percent = 5, ph_duration = 60, ph_sort_order = 0, ph_auto_promote = auto,
     ph_started_at = None, ph_completed_at = None \<rparr>"

text \<open>The lookup of the rollouts as the server wires it, answering that none is live.\<close>

definition sample_params :: engine_params where
  "sample_params = \<lparr> ep_monitor = None, ep_lookup = Some (\<lambda>_ _. Inr False),
     ep_percent_name = (\<lambda>_. '''') \<rparr>"

lemma drive_outcome_witness:
  "\<exists>w' d. drive_deployment sample_params 7 (sample_world [sample_deployment DeployStatusPending]
      [sample_phase DeploymentPhaseStatusPending True]) = (Inr (), w') \<and>
    find_deployment w' 7 = Some d \<and> dep_status d \<in> {DeployStatusCompleted, DeployStatusPaused}"
proof -
  let ?w = "sample_world [sample_deployment DeployStatusPending] [sample_phase DeploymentPhaseStatusPending True]"
  have facts: "\<not> owned sample_params ?w 7" "phases_of ?w 7 \<noteq> []" "ep_monitor sample_params = None"
    "distinct (map ph_id (deployment_phases ?w))"
    by (simp_all add: owned_def sample_params_def phases_of_def sample_world_def sample_phase_def)
  have d0: "dep_strategy (sample_deployment DeployStatusPending) = DeployStrategyCanary"
    "dep_status (sample_deployment DeployStatusPending) \<in> {DeployStatusPending, DeployStatusRunning}"
    by (simp_all add: sample_deployment_def)
  obtain r w' where run: "drive_deployment sample_params 7 ?w = (r, w')"
    by (cases "drive_deployment sample_params 7 ?w")
  from drive_outcome[OF find_sample facts(4) d0, of sample_params] run facts(1-3)
  show ?thesis by (cases r) auto
qed

lemma advance_passes_gate_witness:
  "\<exists>w'. advance 7 (sample_world [sample_deployment DeployStatusPaused]
      [sample_phase DeploymentPhaseStatusActive False]) = (Inr (), w') \<and>
    (\<exists>d'. find_deployment w' 7 = Some d' \<and> dep_status d' = DeployStatusRunning)"
  using advance_passes_gate[OF sample_world_calm, of 7 "[sample_deployment DeployStatusPaused]"
      "[sample_phase DeploymentPhaseStatusActive False]"]
    find_sample[of DeployStatusPaused "[sample_phase DeploymentPhaseStatusActive False]"]
  by (auto simp: sample_phase_def sample_world_def sample_deployment_def)

lemma engine_overwrites_controls_witness:
  "\<exists>r w' row'. phase_enter None (sample_deployment DeployStatusRunning)
      (sample_phase DeploymentPhaseStatusPending True)
      (sample_world [sample_deployment DeployStatusCancelled] [sample_phase DeploymentPhaseStatusPending True]) =
      (Inr r, w') \<and> find_deployment w' 7 = Some row' \<and> dep_status row' = DeployStatusRunning"
proof -
  let ?w = "sample_world [sample_deployment DeployStatusCancelled] [sample_phase DeploymentPhaseStatusPending True]"
  have id: "dep_id (sample_deployment s) = 7" for s by (simp add: sample_deployment_def)
  have ph: "row_of ph_id (ph_id (sample_phase DeploymentPhaseStatusPending True)) (deployment_phases ?w) \<noteq> None"
    by (simp add: sample_world_def row_simps)
  have status: "dep_status (sample_deployment s) = s" for s by (simp add: sample_deployment_def)
  have "is_terminal (sample_deployment DeployStatusCancelled)"
    by (simp add: is_terminal_def status)
  then show ?thesis
    using engine_overwrites_controls[of ?w "sample_deployment DeployStatusRunning"
        "sample_deployment DeployStatusCancelled" "sample_phase DeploymentPhaseStatusPending True" None]
      ph find_sample[of DeployStatusCancelled "[sample_phase DeploymentPhaseStatusPending True]"]
    by (fastforce simp: id status)
qed

end
