(* ===== verification/RollbackController.thy ===== *)
theory RollbackController
  imports Health
begin

text \<open>
  The rollback controller of \<open>internal/rollback/controller.go\<close>: a state machine per watched
  deployment that listens to health updates, starts a rollback once the deployment has been
  unhealthy for the evaluation window, accepts manual rollbacks, and keeps a cooldown. The
  executor and the listeners are outside: executing is a call that may fail, and what the
  listeners are told is kept in a log.
\<close>

section \<open>State\<close>

datatype rollback_state =
    RollbackStateHealthy | RollbackStateEvaluating | RollbackStateRollingBack | RollbackStateRolledBack

record trigger_config =
  tc_error_rate :: f64
  tc_latency :: f64
  tc_duration :: duration

definition default_trigger_config :: trigger_config where
  "default_trigger_config = \<lparr> tc_error_rate = round64 (5 / 100), tc_latency = Fin 2,
     tc_duration = minutes 2 \<rparr>"

text \<open>The reasons the controller gives, before they are formatted.\<close>

datatype rollback_reason =
    ManualReason string | BelowThreshold f64 | BelowThresholdFor f64 duration | HealthRecovered

record rollback_decision =
  rd_deployment_id :: uuid
  rd_state :: rollback_state
  rd_reason :: rollback_reason
  rd_score :: f64
  rd_automatic :: bool
  rd_decided_at :: time

record rollback_event =
  rv_id :: uuid
  rv_deployment_id :: uuid
  rv_reason :: rollback_reason
  rv_score :: f64
  rv_automatic :: bool
  rv_at :: time

record rollback_ctx =
  rx_state :: rollback_state
  rx_unhealthy_since :: "time option"
  rx_last_score :: f64
  rx_error_since :: "time option"
  rx_latency_since :: "time option"

record controller = env +
  ct_threshold :: f64
  ct_window :: duration
  ct_triggers :: trigger_config
  ct_cooldown :: duration
  ct_states :: "uuid \<rightharpoonup> rollback_ctx"
  ct_last :: "uuid \<rightharpoonup> time"
  ct_history :: "rollback_event list"
  ct_told :: "rollback_decision list"
  ct_executed :: "uuid list"

datatype controller_error =
    NotMonitored uuid | AlreadyInState rollback_state | InCooldown uuid | ExecuteFailed

type_synonym 'a controller_prog = "(controller, controller_error, 'a) prog"

section \<open>Operations\<close>

definition rc_watch :: "uuid \<Rightarrow> controller \<Rightarrow> controller" where
  "rc_watch i c = c\<lparr>ct_states := (ct_states c)(i \<mapsto>
     \<lparr> rx_state = RollbackStateHealthy, rx_unhealthy_since = None, rx_last_score = f64_zero,
       rx_error_since = None, rx_latency_since = None \<rparr>)\<rparr>"

definition rc_unwatch :: "uuid \<Rightarrow> controller \<Rightarrow> controller" where
  "rc_unwatch i c = c\<lparr>ct_states := (ct_states c)(i := None)\<rparr>"

definition get_rollback_state :: "uuid \<Rightarrow> controller \<Rightarrow> controller_error + rollback_state" where
  "get_rollback_state i c =
     (case ct_states c i of None \<Rightarrow> Inl (NotMonitored i) | Some x \<Rightarrow> Inr (rx_state x))"

definition set_ctx :: "uuid \<Rightarrow> (rollback_ctx \<Rightarrow> rollback_ctx) \<Rightarrow> unit controller_prog" where
  "set_ctx i f = modify (\<lambda>c. c\<lparr>ct_states := (ct_states c)(i := map_option f (ct_states c i))\<rparr>)"

definition is_in_cooldown :: "uuid \<Rightarrow> bool controller_prog" where
  "is_in_cooldown i =
     andThen get_state (\<lambda>c. case ct_last c i of
       None \<Rightarrow> ret False
     | Some t \<Rightarrow> andThen time_now (\<lambda>now. ret (now - t < ct_cooldown c)))"

definition record_rollback :: "uuid \<Rightarrow> rollback_reason \<Rightarrow> bool \<Rightarrow> f64 \<Rightarrow> unit controller_prog" where
  "record_rollback i reason auto score =
     andThen time_now (\<lambda>now. andThen uuid_new (\<lambda>rid.
       modify (\<lambda>c. c\<lparr>ct_last := (ct_last c)(i \<mapsto> now),
         ct_history := ct_history c @ [\<lparr> rv_id = rid, rv_deployment_id = i, rv_reason = reason,
           rv_score = score, rv_automatic = auto, rv_at = now \<rparr>]\<rparr>)))"

definition notify :: "uuid \<Rightarrow> rollback_state \<Rightarrow> rollback_reason \<Rightarrow> f64 \<Rightarrow> bool \<Rightarrow> unit controller_prog" where
  "notify i st reason score auto =
     andThen time_now (\<lambda>now. modify (\<lambda>c. c\<lparr>ct_told := ct_told c @
       [\<lparr> rd_deployment_id = i, rd_state = st, rd_reason = reason, rd_score = score,
          rd_automatic = auto, rd_decided_at = now \<rparr>]\<rparr>))"

definition rc_transition_to :: "uuid \<Rightarrow> rollback_state \<Rightarrow> rollback_reason \<Rightarrow> bool \<Rightarrow> unit controller_prog" where
  "rc_transition_to i st reason auto =
     andThen (set_ctx i (\<lambda>x. x\<lparr>rx_state := st\<rparr>)) (\<lambda>_. andThen get_state (\<lambda>c.
       notify i st reason (case ct_states c i of None \<Rightarrow> f64_zero | Some x \<Rightarrow> rx_last_score x) auto))"

text \<open>\<open>executor.Execute\<close>: attempted once, and it may fail.\<close>

definition execute :: "uuid \<Rightarrow> unit controller_prog" where
  "execute i = andThen (modify (\<lambda>c. c\<lparr>ct_executed := ct_executed c @ [i]\<rparr>)) (\<lambda>_. ext_call ExecuteFailed)"

definition handle_unhealthy :: "uuid \<Rightarrow> f64 \<Rightarrow> unit controller_prog" where
  "handle_unhealthy i score =
     andThen get_state (\<lambda>c. case ct_states c i of None \<Rightarrow> ret () | Some x \<Rightarrow>
     andThen (is_in_cooldown i) (\<lambda>cool. if cool then ret () else
     case rx_state x of
       RollbackStateHealthy \<Rightarrow>
         andThen time_now (\<lambda>now.
         andThen (set_ctx i (\<lambda>x. x\<lparr>rx_state := RollbackStateEvaluating, rx_unhealthy_since := Some now\<rparr>)) (\<lambda>_.
         modify (\<lambda>c. c\<lparr>ct_told := ct_told c @ [\<lparr> rd_deployment_id = i,
           rd_state = RollbackStateEvaluating, rd_reason = BelowThreshold score, rd_score = score,
           rd_automatic = True, rd_decided_at = now \<rparr>]\<rparr>)))
     | RollbackStateEvaluating \<Rightarrow>
         (case rx_unhealthy_since x of None \<Rightarrow> ret () | Some since \<Rightarrow>
          andThen time_now (\<lambda>now.
          if now - since \<ge> ct_window c then
            (let reason = BelowThresholdFor score (ct_window c) in
             andThen (set_ctx i (\<lambda>x. x\<lparr>rx_state := RollbackStateRollingBack\<rparr>)) (\<lambda>_.
             andThen (notify i RollbackStateRollingBack reason score True) (\<lambda>_.
             andThen (attempt (execute i) :: (controller_error + unit) controller_prog) (\<lambda>_.
             andThen (record_rollback i reason True score) (\<lambda>_.
               rc_transition_to i RollbackStateRolledBack reason True)))))
          else ret ()))
     | _ \<Rightarrow> ret ()))"

definition handle_healthy :: "uuid \<Rightarrow> unit controller_prog" where
  "handle_healthy i =
     andThen get_state (\<lambda>c. case ct_states c i of None \<Rightarrow> ret () | Some x \<Rightarrow>
     if rx_state x = RollbackStateEvaluating then
       andThen (set_ctx i (\<lambda>x. x\<lparr>rx_state := RollbackStateHealthy, rx_unhealthy_since := None,
                               rx_error_since := None, rx_latency_since := None\<rparr>)) (\<lambda>_.
       notify i RollbackStateHealthy HealthRecovered (rx_last_score x) True)
     else ret ())"

definition on_health_update :: "deployment_health \<Rightarrow> unit controller_prog" where
  "on_health_update h =
     andThen get_state (\<lambda>c. case ct_states c (dh_deployment_id h) of None \<Rightarrow> ret () | Some _ \<Rightarrow>
     andThen (set_ctx (dh_deployment_id h) (\<lambda>x. x\<lparr>rx_last_score := dh_overall h\<rparr>)) (\<lambda>_.
     if flt (dh_overall h) (ct_threshold c) then handle_unhealthy (dh_deployment_id h) (dh_overall h)
     else handle_healthy (dh_deployment_id h)))"

definition trigger_manual_rollback :: "uuid \<Rightarrow> string \<Rightarrow> unit controller_prog" where
  "trigger_manual_rollback i reason =
     andThen get_state (\<lambda>c. case ct_states c i of None \<Rightarrow> fail (NotMonitored i) | Some x \<Rightarrow>
     if rx_state x \<in> {RollbackStateRollingBack, RollbackStateRolledBack} then fail (AlreadyInState (rx_state x))
     else andThen (is_in_cooldown i) (\<lambda>cool. if cool then fail (InCooldown i) else
       andThen (set_ctx i (\<lambda>x. x\<lparr>rx_state := RollbackStateRollingBack\<rparr>)) (\<lambda>_.
       andThen (notify i RollbackStateRollingBack (ManualReason reason) (rx_last_score x) False) (\<lambda>_.
       andThen (execute i) (\<lambda>_.
       andThen (record_rollback i (ManualReason reason) False (rx_last_score x)) (\<lambda>_.
         rc_transition_to i RollbackStateRolledBack (ManualReason reason) False))))))"

section \<open>Metric triggers\<close>

text \<open>One threshold: since when it has been exceeded, and whether that is long enough.\<close>

definition eval_threshold :: "time \<Rightarrow> duration \<Rightarrow> f64 \<Rightarrow> f64 \<Rightarrow> time option \<Rightarrow> time option \<times> bool" where
  "eval_threshold now dur x limit since =
     (if fgt x limit then
        (case since of None \<Rightarrow> (Some now, False) | Some t \<Rightarrow> (since, now - t \<ge> dur))
      else (None, False))"

datatype trigger = ErrorRateTrigger | LatencyTrigger

definition evaluate_triggers :: "uuid \<Rightarrow> f64 \<Rightarrow> f64 \<Rightarrow> trigger option controller_prog" where
  "evaluate_triggers i error_rate latency =
     andThen get_state (\<lambda>c. case ct_states c i of None \<Rightarrow> ret None | Some x \<Rightarrow>
     andThen time_now (\<lambda>now.
     let tc = ct_triggers c;
         (e, fire) = eval_threshold now (tc_duration tc) error_rate (tc_error_rate tc) (rx_error_since x)
     in andThen (set_ctx i (\<lambda>x. x\<lparr>rx_error_since := e\<rparr>)) (\<lambda>_.
        if fire then ret (Some ErrorRateTrigger)
        else (let (l, fire) = eval_threshold now (tc_duration tc) latency (tc_latency tc) (rx_latency_since x)
              in andThen (set_ctx i (\<lambda>x. x\<lparr>rx_latency_since := l\<rparr>)) (\<lambda>_.
                 ret (if fire then Some LatencyTrigger else None))))))"

section \<open>The machine as a step relation\<close>

inductive rollback_edge :: "rollback_state \<Rightarrow> rollback_state \<Rightarrow> bool" where
  suspect: "rollback_edge RollbackStateHealthy RollbackStateEvaluating"
| recover: "rollback_edge RollbackStateEvaluating RollbackStateHealthy"
| start: "s \<in> {RollbackStateHealthy, RollbackStateEvaluating} \<Longrightarrow> rollback_edge s RollbackStateRollingBack"
| finish: "rollback_edge RollbackStateRollingBack RollbackStateRolledBack"

inductive_cases rollback_edge_cases: "rollback_edge s t"

text \<open>
  The paths one call may take: each state a call passes through is an edge of the machine,
  and only one deployment moves.
\<close>

definition moves :: "controller \<Rightarrow> controller \<Rightarrow> bool" where
  "moves c c' \<longleftrightarrow> (\<forall>i. (case (ct_states c i, ct_states c' i) of
       (None, None) \<Rightarrow> True
     | (Some x, Some y) \<Rightarrow> rollback_edge\<^sup>*\<^sup>* (rx_state x) (rx_state y)
     | _ \<Rightarrow> False))"

section \<open>Automatic rollback\<close>

text \<open>The conditions under which a health update starts a rollback, over the clock it reads.\<close>

definition cooling :: "controller \<Rightarrow> uuid \<Rightarrow> bool" where
  "cooling c i = (case ct_last c i of None \<Rightarrow> False | Some t \<Rightarrow> clock c (reads c) - t < ct_cooldown c)"

definition auto_due :: "controller \<Rightarrow> deployment_health \<Rightarrow> bool" where
  "auto_due c h =
     (case ct_states c (dh_deployment_id h) of None \<Rightarrow> False
      | Some x \<Rightarrow> flt (dh_overall h) (ct_threshold c) \<and> \<not> cooling c (dh_deployment_id h) \<and>
          rx_state x = RollbackStateEvaluating \<and>
          (case rx_unhealthy_since x of None \<Rightarrow> False
           | Some since \<Rightarrow>
               clock c (if ct_last c (dh_deployment_id h) = None then reads c else Suc (reads c)) - since
                 \<ge> ct_window c))"

lemma is_in_cooldown_run:
  "is_in_cooldown i c = (Inr (cooling c i),
     c\<lparr>reads := if ct_last c i = None then reads c else Suc (reads c)\<rparr>)"
  by (auto simp: is_in_cooldown_def cooling_def prog_defs split: option.splits)

lemma edge_star:
  "rollback_edge\<^sup>*\<^sup>* RollbackStateHealthy RollbackStateEvaluating"
  "rollback_edge\<^sup>*\<^sup>* RollbackStateEvaluating RollbackStateHealthy"
  "rollback_edge\<^sup>*\<^sup>* RollbackStateEvaluating RollbackStateRolledBack"
  "rollback_edge\<^sup>*\<^sup>* RollbackStateHealthy RollbackStateRolledBack"
  "rollback_edge\<^sup>*\<^sup>* RollbackStateEvaluating RollbackStateRollingBack"
  "rollback_edge\<^sup>*\<^sup>* RollbackStateHealthy RollbackStateRollingBack"
  by (auto intro: rollback_edge.intros converse_rtranclp_into_rtranclp)

lemma moves_one:
  assumes "\<forall>j. j \<noteq> i \<longrightarrow> ct_states c' j = ct_states c j" and "ct_states c i = Some x"
    and "ct_states c' i = Some y" and "rollback_edge\<^sup>*\<^sup>* (rx_state x) (rx_state y)"
  shows "moves c c'"
  unfolding moves_def
proof
  fix j
  show "case (ct_states c j, ct_states c' j) of (None, None) \<Rightarrow> True
    | (Some x, Some y) \<Rightarrow> rollback_edge\<^sup>*\<^sup>* (rx_state x) (rx_state y) | _ \<Rightarrow> False"
    using assms by (cases "j = i") (auto split: option.splits)
qed

lemma moves_same: "ct_states c' = ct_states c \<Longrightarrow> moves c c'"
  by (auto simp: moves_def split: option.splits)

lemma handle_unhealthy_run:
  assumes "ct_states c i = Some x"
  shows "\<exists>c' y. handle_unhealthy i score c = (Inr (), c') \<and> ct_states c' = (ct_states c)(i \<mapsto> y) \<and>
    (if \<not> cooling c i \<and> rx_state x = RollbackStateEvaluating \<and>
        (case rx_unhealthy_since x of None \<Rightarrow> False
         | Some since \<Rightarrow> clock c (if ct_last c i = None then reads c else Suc (reads c)) - since \<ge> ct_window c)
     then ct_executed c' = ct_executed c @ [i] \<and> rx_state y = RollbackStateRolledBack \<and>
       length (ct_history c') = Suc (length (ct_history c)) \<and> ct_last c' i \<noteq> None
     else ct_executed c' = ct_executed c \<and> ct_history c' = ct_history c \<and> ct_last c' = ct_last c \<and>
       (rx_state y = rx_state x \<or> rx_state x = RollbackStateHealthy \<and> rx_state y = RollbackStateEvaluating))"
proof -
  let ?c = "c\<lparr>reads := if ct_last c i = None then reads c else Suc (reads c)\<rparr>"
  have cool: "is_in_cooldown i c = (Inr (cooling c i), ?c)" by (rule is_in_cooldown_run)
  have same: "ct_states c = (ct_states c)(i \<mapsto> x)" using assms by (simp add: map_upd_triv)
  consider (cooling) "cooling c i"
    | (healthy) "\<not> cooling c i" "rx_state x = RollbackStateHealthy"
    | (wait) "\<not> cooling c i" "rx_state x = RollbackStateEvaluating"
    | (other) "\<not> cooling c i" "rx_state x \<in> {RollbackStateRollingBack, RollbackStateRolledBack}"
    by (cases "rx_state x") auto
  then show ?thesis
  proof cases
    case cooling
    then show ?thesis using assms cool same
      by (auto simp: handle_unhealthy_def andThen_def get_state_def ret_def intro!: exI[of _ x])
  next
    case healthy
    then show ?thesis using assms cool
      by (auto simp: handle_unhealthy_def set_ctx_def prog_defs)
  next
    case wait
    show ?thesis
    proof (cases "rx_unhealthy_since x")
      case None
      then show ?thesis using wait assms cool same
        by (auto simp: handle_unhealthy_def andThen_def get_state_def ret_def intro!: exI[of _ x])
    next
      case (Some since)
      show ?thesis
      proof (cases "clock ?c (reads ?c) - since \<ge> ct_window c")
        case False
        then show ?thesis using wait Some assms cool same
          by (auto simp: handle_unhealthy_def prog_defs intro!: exI[of _ x] split: if_splits)
      next
        case True
        then show ?thesis using wait Some assms cool
          by (auto simp: handle_unhealthy_def set_ctx_def notify_def execute_def record_rollback_def
              rc_transition_to_def prog_defs Let_def split: if_splits)
      qed
    qed
  next
    case other
    then show ?thesis using assms cool same
      by (auto simp: handle_unhealthy_def andThen_def get_state_def ret_def intro!: exI[of _ x])
  qed
qed

lemma handle_healthy_run:
  assumes "ct_states c i = Some x"
  shows "\<exists>c' y. handle_healthy i c = (Inr (), c') \<and> ct_states c' = (ct_states c)(i \<mapsto> y) \<and>
    ct_executed c' = ct_executed c \<and> ct_history c' = ct_history c \<and> ct_last c' = ct_last c \<and>
    rx_state y = (if rx_state x = RollbackStateEvaluating then RollbackStateHealthy else rx_state x)"
proof (cases "rx_state x = RollbackStateEvaluating")
  case True
  with assms show ?thesis by (auto simp: handle_healthy_def set_ctx_def notify_def prog_defs)
next
  case False
  have "ct_states c = (ct_states c)(i \<mapsto> x)" using assms by (simp add: map_upd_triv)
  with False assms show ?thesis
    by (auto simp: handle_healthy_def prog_defs intro!: exI[of _ x])
qed

text \<open>A health update on a watched deployment: the new context, and what the update did.\<close>

lemma on_health_update_run:
  assumes "ct_states c (dh_deployment_id h) = Some x"
  shows "\<exists>c' y. on_health_update h c = (Inr (), c') \<and>
    ct_states c' = (ct_states c)(dh_deployment_id h \<mapsto> y) \<and>
    (if auto_due c h
     then ct_executed c' = ct_executed c @ [dh_deployment_id h] \<and> rx_state y = RollbackStateRolledBack \<and>
       length (ct_history c') = Suc (length (ct_history c)) \<and> ct_last c' (dh_deployment_id h) \<noteq> None
     else ct_executed c' = ct_executed c \<and> ct_history c' = ct_history c \<and> ct_last c' = ct_last c \<and>
       (rx_state y = rx_state x \<or>
        (rx_state x, rx_state y) \<in> {(RollbackStateHealthy, RollbackStateEvaluating),
          (RollbackStateEvaluating, RollbackStateHealthy)})) \<and>
    (auto_due c h \<longrightarrow> rx_state x = RollbackStateEvaluating) \<and>
    (dh_overall h = NaN \<longrightarrow> \<not> auto_due c h \<and> rx_state y \<noteq> RollbackStateEvaluating)"
proof -
  let ?i = "dh_deployment_id h" and ?x = "x\<lparr>rx_last_score := dh_overall h\<rparr>"
  let ?c = "c\<lparr>ct_states := (ct_states c)(?i \<mapsto> ?x)\<rparr>"
  have x: "ct_states ?c ?i = Some ?x" by simp
  have run: "on_health_update h c =
      (if flt (dh_overall h) (ct_threshold c) then handle_unhealthy ?i (dh_overall h) else handle_healthy ?i) ?c"
    using assms by (simp add: on_health_update_def set_ctx_def prog_defs)
  show ?thesis
  proof (cases "flt (dh_overall h) (ct_threshold c)")
    case True
    then have nan: "dh_overall h \<noteq> NaN" by auto
    have due: "auto_due c h \<longleftrightarrow> (\<not> cooling ?c ?i \<and> rx_state ?x = RollbackStateEvaluating \<and>
        (case rx_unhealthy_since ?x of None \<Rightarrow> False
         | Some since \<Rightarrow> clock ?c (if ct_last ?c ?i = None then reads ?c else Suc (reads ?c)) - since \<ge> ct_window ?c))"
      using True assms by (auto simp: auto_due_def cooling_def split: option.splits)
    have unhealthy: "\<exists>c' y. handle_unhealthy ?i (dh_overall h) ?c = (Inr (), c') \<and>
      ct_states c' = (ct_states ?c)(?i \<mapsto> y) \<and>
      (if auto_due c h
       then ct_executed c' = ct_executed ?c @ [?i] \<and> rx_state y = RollbackStateRolledBack \<and>
         length (ct_history c') = Suc (length (ct_history ?c)) \<and> ct_last c' ?i \<noteq> None
       else ct_executed c' = ct_executed ?c \<and> ct_history c' = ct_history ?c \<and> ct_last c' = ct_last ?c \<and>
         (rx_state y = rx_state ?x \<or> rx_state ?x = RollbackStateHealthy \<and> rx_state y = RollbackStateEvaluating))"
      unfolding due using handle_unhealthy_run[OF x, of "dh_overall h"] by simp
    have "auto_due c h \<Longrightarrow> rx_state x = RollbackStateEvaluating" using due by simp
    then show ?thesis using run True unhealthy nan by (fastforce split: if_splits)
  next
    case False
    then have "\<not> auto_due c h" using assms by (simp add: auto_due_def)
    moreover obtain c' y where "handle_healthy ?i ?c = (Inr (), c')" "ct_states c' = (ct_states ?c)(?i \<mapsto> y)"
      "ct_executed c' = ct_executed ?c" "ct_history c' = ct_history ?c" "ct_last c' = ct_last ?c"
      "rx_state y = (if rx_state ?x = RollbackStateEvaluating then RollbackStateHealthy else rx_state ?x)"
      using handle_healthy_run[OF x] by blast
    ultimately show ?thesis using run False
      by (intro exI[of _ c'] exI[of _ y]) (auto split: if_splits)
  qed
qed

text \<open>
  C39. Automatic rollback. A health update always returns, moves no other deployment, and
  moves the deployment it is about along the state machine. It executes a rollback, once,
  exactly when the deployment was under evaluation, its score is below the threshold, no
  cooldown runs and it has been unhealthy for the whole window; the rollback is then recorded
  and starts the cooldown, whether the executor succeeded or not. An update whose score is
  NaN never does, and ends the evaluation like a recovery.
\<close>

theorem automatic_rollback:
  "\<exists>c'. on_health_update h c = (Inr (), c') \<and> moves c c' \<and>
    (\<forall>j. j \<noteq> dh_deployment_id h \<longrightarrow> ct_states c' j = ct_states c j) \<and>
    (if auto_due c h
     then ct_executed c' = ct_executed c @ [dh_deployment_id h] \<and>
       get_rollback_state (dh_deployment_id h) c' = Inr RollbackStateRolledBack \<and>
       length (ct_history c') = Suc (length (ct_history c)) \<and> ct_last c' (dh_deployment_id h) \<noteq> None
     else ct_executed c' = ct_executed c \<and> ct_history c' = ct_history c \<and> ct_last c' = ct_last c) \<and>
    (dh_overall h = NaN \<longrightarrow> \<not> auto_due c h \<and>
       get_rollback_state (dh_deployment_id h) c' \<noteq> Inr RollbackStateEvaluating)"
proof (cases "ct_states c (dh_deployment_id h)")
  case None
  then show ?thesis
    by (auto simp: on_health_update_def prog_defs auto_due_def get_rollback_state_def moves_same)
next
  case (Some x)
  let ?i = "dh_deployment_id h"
  obtain c' y where c': "on_health_update h c = (Inr (), c')" "ct_states c' = (ct_states c)(?i \<mapsto> y)"
    and res: "if auto_due c h
     then ct_executed c' = ct_executed c @ [?i] \<and> rx_state y = RollbackStateRolledBack \<and>
       length (ct_history c') = Suc (length (ct_history c)) \<and> ct_last c' ?i \<noteq> None
     else ct_executed c' = ct_executed c \<and> ct_history c' = ct_history c \<and> ct_last c' = ct_last c \<and>
       (rx_state y = rx_state x \<or>
        (rx_state x, rx_state y) \<in> {(RollbackStateHealthy, RollbackStateEvaluating),
          (RollbackStateEvaluating, RollbackStateHealthy)})"
    and due: "auto_due c h \<Longrightarrow> rx_state x = RollbackStateEvaluating"
    and nan: "dh_overall h = NaN \<Longrightarrow> \<not> auto_due c h \<and> rx_state y \<noteq> RollbackStateEvaluating"
    using on_health_update_run[OF Some] by blast
  have "rollback_edge\<^sup>*\<^sup>* (rx_state x) (rx_state y)"
    using res due edge_star by (auto split: if_splits)
  then have "moves c c'" using c'(2) Some by (intro moves_one[of ?i]) auto
  then show ?thesis using c' res nan by (auto simp: get_rollback_state_def split: if_splits)
qed

section \<open>A manual rollback whose execution fails\<close>

datatype controller_op = HealthUpdate deployment_health | Manual uuid string | Evaluate uuid f64 f64

fun run_controller_op :: "controller_op \<Rightarrow> controller \<Rightarrow> controller" where
  "run_controller_op (HealthUpdate h) c = snd (on_health_update h c)"
| "run_controller_op (Manual i s) c = snd (trigger_manual_rollback i s c)"
| "run_controller_op (Evaluate i e l) c = snd (evaluate_triggers i e l c)"

text \<open>Rolling back, with a count of the executions for the deployment.\<close>

definition rolling :: "uuid \<Rightarrow> nat \<Rightarrow> controller \<Rightarrow> bool" where
  "rolling i n c \<longleftrightarrow> (\<exists>x. ct_states c i = Some x \<and> rx_state x = RollbackStateRollingBack) \<and>
     count_list (ct_executed c) i = n"

lemma rolling_health:
  assumes "rolling i n c"
  shows "rolling i n (snd (on_health_update h c))"
proof (cases "ct_states c (dh_deployment_id h)")
  case None
  with assms show ?thesis by (simp add: on_health_update_def prog_defs)
next
  case (Some x)
  from on_health_update_run[OF Some] assms Some show ?thesis
    by (cases "dh_deployment_id h = i") (fastforce simp: rolling_def split: if_splits)+
qed

lemma manual_other:
  "j \<noteq> i \<Longrightarrow> rolling i n c \<Longrightarrow> rolling i n (snd (trigger_manual_rollback j s c))"
  by (auto simp: trigger_manual_rollback_def is_in_cooldown_run andThen_def get_state_def fail_def
      set_ctx_def notify_def execute_def record_rollback_def rc_transition_to_def modify_def time_now_def
      uuid_new_def ext_call_def rolling_def split: option.splits)

lemma rolling_op: "rolling i n c \<Longrightarrow> rolling i n (run_controller_op x c)"
proof (cases x)
  case (Manual j s)
  assume r: "rolling i n c"
  show ?thesis
  proof (cases "j = i")
    case True
    with r Manual show ?thesis
      by (auto simp: trigger_manual_rollback_def rolling_def prog_defs)
  qed (use r Manual manual_other in auto)
next
  case (Evaluate j e l)
  assume "rolling i n c"
  with Evaluate show ?thesis
    by (auto simp: evaluate_triggers_def rolling_def set_ctx_def prog_defs Let_def split: option.splits prod.splits)
qed (simp add: rolling_health)

lemma rolling_ops: "rolling i n c \<Longrightarrow> rolling i n (fold run_controller_op ops c)"
  by (induction ops arbitrary: c) (auto simp: rolling_op)

text \<open>
  A failed manual rollback is final. When a manual rollback is accepted but its executor
  fails, the caller gets the error, nothing is recorded, and the deployment stays in the
  rolling-back state: no later health update, manual rollback or trigger evaluation, in any
  number and order, moves it or executes another rollback for it.
\<close>

theorem manual_rollback_failure_sticks:
  assumes "ct_states c i = Some x" and "rx_state x \<in> {RollbackStateHealthy, RollbackStateEvaluating}"
    and "\<not> cooling c i" and "fault c (calls c)"
  shows "\<exists>c'. trigger_manual_rollback i reason c = (Inl ExecuteFailed, c') \<and>
    ct_history c' = ct_history c \<and> ct_executed c' = ct_executed c @ [i] \<and>
    get_rollback_state i (fold run_controller_op ops c') = Inr RollbackStateRollingBack \<and>
    count_list (ct_executed (fold run_controller_op ops c')) i = count_list (ct_executed c') i"
proof -
  have "\<exists>c'. trigger_manual_rollback i reason c = (Inl ExecuteFailed, c') \<and> ct_history c' = ct_history c \<and>
      ct_executed c' = ct_executed c @ [i] \<and> (\<exists>y. ct_states c' i = Some y \<and> rx_state y = RollbackStateRollingBack)"
    using assms
    by (auto simp: trigger_manual_rollback_def is_in_cooldown_run andThen_def get_state_def
        set_ctx_def notify_def execute_def modify_def time_now_def ext_call_def)
  then obtain c' where c': "trigger_manual_rollback i reason c = (Inl ExecuteFailed, c')"
    "ct_history c' = ct_history c" "ct_executed c' = ct_executed c @ [i]"
    "\<exists>y. ct_states c' i = Some y \<and> rx_state y = RollbackStateRollingBack" by blast
  then have "rolling i (count_list (ct_executed c') i) c'" by (simp add: rolling_def)
  then have "rolling i (count_list (ct_executed c') i) (fold run_controller_op ops c')"
    by (rule rolling_ops)
  with c' show ?thesis by (auto simp: rolling_def get_rollback_state_def)
qed

definition sample_controller :: "rollback_state \<Rightarrow> controller" where
  "sample_controller s = \<lparr> fault = (\<lambda>_. True), calls = 0, clock = int, reads = 0, fresh = of_nat,
     minted = 0, ctxdone = (\<lambda>_. False), polls = 0, ct_threshold = Fin (1 / 2), ct_window = seconds 30,
     ct_triggers = default_trigger_config, ct_cooldown = minutes 5,
     ct_states = [5 \<mapsto> \<lparr> rx_state = s, rx_unhealthy_since = None, rx_last_score = f64_one,
       rx_error_since = None, rx_latency_since = None \<rparr>],
     ct_last = Map.empty, ct_history = [], ct_told = [], ct_executed = [] \<rparr>"

lemma manual_rollback_failure_sticks_witness:
  "\<exists>c'. trigger_manual_rollback 5 ''bad'' (sample_controller RollbackStateHealthy) = (Inl ExecuteFailed, c') \<and>
     get_rollback_state 5 (fold run_controller_op [Manual 5 ''again'', Evaluate 5 f64_one f64_one] c') =
       Inr RollbackStateRollingBack"
  using manual_rollback_failure_sticks[of "sample_controller RollbackStateHealthy" 5
      "the (ct_states (sample_controller RollbackStateHealthy) 5)" "''bad''"
      "[Manual 5 ''again'', Evaluate 5 f64_one f64_one]"]
  by (auto simp: sample_controller_def cooling_def)

section \<open>Sustained excess\<close>

text \<open>A series of samples of one metric, each with its instant, evaluated in order.\<close>

fun eval_series :: "duration \<Rightarrow> f64 \<Rightarrow> (time \<times> f64) list \<Rightarrow> time option \<Rightarrow> time option \<times> bool" where
  "eval_series dur limit [] since = (since, False)"
| "eval_series dur limit ((now, x) # xs) since =
     (let (since', fire) = eval_threshold now dur x limit since
      in if xs = [] then (since', fire) else eval_series dur limit xs since')"

text \<open>The first instant of the run of excessive samples at the end of a series.\<close>

definition exceeding_run :: "f64 \<Rightarrow> (time \<times> f64) list \<Rightarrow> (time \<times> f64) list" where
  "exceeding_run limit xs = rev (takeWhile (\<lambda>(_, x). fgt x limit) (rev xs))"

lemma exceeding_run_snoc:
  "exceeding_run limit (xs @ [(t, x)]) = (if fgt x limit then exceeding_run limit xs @ [(t, x)] else [])"
  by (simp add: exceeding_run_def)

lemma eval_series_snoc:
  "xs \<noteq> [] \<Longrightarrow> eval_series dur limit (xs @ [(t, x)]) since =
     eval_threshold t dur x limit (fst (eval_series dur limit xs since))"
proof (induction xs arbitrary: since)
  case (Cons y ys)
  then show ?case by (cases y; cases "ys = []") (auto split: prod.splits)
qed simp

lemma eval_series_since:
  "fst (eval_series dur limit xs None) =
     (case exceeding_run limit xs of [] \<Rightarrow> None | (t, _) # _ \<Rightarrow> Some t)"
proof (induction xs rule: rev_induct)
  case Nil
  show ?case by (simp add: exceeding_run_def)
next
  case (snoc z xs)
  obtain t x where z: "z = (t, x)" by (cases z)
  show ?case
  proof (cases "xs = []")
    case True
    then show ?thesis by (auto simp: z exceeding_run_def eval_threshold_def)
  next
    case False
    with snoc show ?thesis
      by (auto simp: z eval_series_snoc exceeding_run_snoc eval_threshold_def split: list.splits option.splits)
  qed
qed

text \<open>The same on the controller: successive evaluations, of which the last answer counts.\<close>

fun evaluate_series :: "uuid \<Rightarrow> (f64 \<times> f64) list \<Rightarrow> controller \<Rightarrow> trigger option" where
  "evaluate_series i [] c = None"
| "evaluate_series i ((e, l) # xs) c =
     (case evaluate_triggers i e l c of (r, c') \<Rightarrow>
        if xs = [] then (case r of Inr t \<Rightarrow> t | Inl _ \<Rightarrow> None) else evaluate_series i xs c')"

fun stamped :: "(nat \<Rightarrow> time) \<Rightarrow> nat \<Rightarrow> f64 list \<Rightarrow> (time \<times> f64) list" where
  "stamped ck n [] = []"
| "stamped ck n (e # es) = (ck n, e) # stamped ck (Suc n) es"

lemma stamped_Nil [simp]: "stamped ck n es = [] \<longleftrightarrow> es = []"
  by (cases es) auto

lemma stamped_snoc: "stamped ck n (es @ [e]) = stamped ck n es @ [(ck (n + length es), e)]"
  by (induction es arbitrary: n) auto

lemma evaluate_triggers_run:
  assumes "ct_states c i = Some x"
  shows "\<exists>r y c'. evaluate_triggers i e l c = (Inr r, c') \<and> ct_states c' i = Some y \<and>
    (rx_error_since y, r = Some ErrorRateTrigger) =
      eval_threshold (clock c (reads c)) (tc_duration (ct_triggers c)) e (tc_error_rate (ct_triggers c))
        (rx_error_since x) \<and>
    ct_triggers c' = ct_triggers c \<and> clock c' = clock c \<and> reads c' = Suc (reads c)"
proof -
  obtain s f where thr: "eval_threshold (clock c (reads c)) (tc_duration (ct_triggers c)) e
    (tc_error_rate (ct_triggers c)) (rx_error_since x) = (s, f)" by fastforce
  then show ?thesis
    using assms
    by (cases f) (auto simp: evaluate_triggers_def set_ctx_def prog_defs Let_def split: prod.splits)
qed

lemma evaluate_series_eval:
  assumes "ct_states c i = Some x"
  shows "(evaluate_series i xs c = Some ErrorRateTrigger) =
    snd (eval_series (tc_duration (ct_triggers c)) (tc_error_rate (ct_triggers c))
      (stamped (clock c) (reads c) (map fst xs)) (rx_error_since x))"
  using assms
proof (induction xs arbitrary: c x)
  case Nil
  then show ?case by simp
next
  case (Cons z xs)
  obtain e l where z: "z = (e, l)" by (cases z)
  obtain r y c' where run: "evaluate_triggers i e l c = (Inr r, c')" "ct_states c' i = Some y"
    "(rx_error_since y, r = Some ErrorRateTrigger) =
      eval_threshold (clock c (reads c)) (tc_duration (ct_triggers c)) e (tc_error_rate (ct_triggers c))
        (rx_error_since x)"
    "ct_triggers c' = ct_triggers c" "clock c' = clock c" "reads c' = Suc (reads c)"
    using evaluate_triggers_run[OF Cons.prems] by blast
  show ?case
    using run Cons.IH[OF run(2)] z by (cases "xs = []") (auto simp flip: run(3))
qed

text \<open>
  Metric triggers fire on sustained excess only. Over any series of evaluations of a
  watched deployment whose error rate was not in excess before, the last one fires for the
  error rate exactly when it and an unbroken run of samples before it are above the
  threshold and the run has lasted at least the evaluation duration; a sample at or below
  the threshold, or not a number, starts the clock anew.
\<close>

theorem trigger_fires_on_sustained_excess:
  assumes "ct_states c i = Some x" and "rx_error_since x = None"
  shows "evaluate_series i (xs @ [(e, l)]) c = Some ErrorRateTrigger \<longleftrightarrow>
    fgt e (tc_error_rate (ct_triggers c)) \<and>
    (case exceeding_run (tc_error_rate (ct_triggers c)) (stamped (clock c) (reads c) (map fst xs)) of
       [] \<Rightarrow> False
     | (t0, _) # _ \<Rightarrow> clock c (reads c + length xs) - t0 \<ge> tc_duration (ct_triggers c))"
proof -
  let ?s = "stamped (clock c) (reads c) (map fst xs)" and ?lim = "tc_error_rate (ct_triggers c)"
  have "snd (eval_series d ?lim (?s @ [(t, e)]) None) \<longleftrightarrow>
      fgt e ?lim \<and> (case exceeding_run ?lim ?s of [] \<Rightarrow> False | (t0, _) # _ \<Rightarrow> t - t0 \<ge> d)" for t d
    by (cases "?s = []")
      (auto simp: eval_series_snoc eval_series_since eval_threshold_def exceeding_run_def split: list.splits)
  then show ?thesis
    using evaluate_series_eval[OF assms(1), of "xs @ [(e, l)]"] assms(2) by (simp add: stamped_snoc)
qed

lemma trigger_fires_on_sustained_excess_witness:
  "evaluate_series 5 ([] @ [(f64_one, f64_zero)]) (sample_controller RollbackStateHealthy) \<noteq> Some ErrorRateTrigger"
  using trigger_fires_on_sustained_excess[of "sample_controller RollbackStateHealthy" 5
      "the (ct_states (sample_controller RollbackStateHealthy) 5)" "[]" f64_one f64_zero]
  by (simp add: sample_controller_def exceeding_run_def)

lemma automatic_rollback_witness:
  "\<exists>c'. on_health_update \<lparr> dh_deployment_id = 5, dh_overall = NaN, dh_healthy = False, dh_checks = [],
      dh_metrics = Map.empty, dh_evaluated_at = 0 \<rparr> (sample_controller RollbackStateEvaluating) = (Inr (), c') \<and>
    ct_executed c' = [] \<and> get_rollback_state 5 c' \<noteq> Inr RollbackStateEvaluating"
  using automatic_rollback[of "\<lparr> dh_deployment_id = 5, dh_overall = NaN, dh_healthy = False, dh_checks = [],
      dh_metrics = Map.empty, dh_evaluated_at = 0 \<rparr>" "sample_controller RollbackStateEvaluating"]
  by (auto simp: sample_controller_def)

end
