(* ===== verification/RollbackStrategies.thy ===== *)
theory RollbackStrategies
  imports Deployment Health
begin

text \<open>
  The rollback strategies and the verification loop of \<open>internal/rollback/strategies.go\<close>.
  The traffic shifter, the flag toggler and the health checker are outside: the first two
  are calls that may fail, whose effects are logged; the third answers each query.
\<close>

section \<open>Strategies\<close>

record gradual_config =
  gc_steps :: "int list"
  gc_step_delay :: duration

definition default_gradual_config :: gradual_config where
  "default_gradual_config = \<lparr> gc_steps = [50, 25, 10, 0], gc_step_delay = seconds 30 \<rparr>"

text \<open>The booleans say whether a shifter, a toggler, is configured (non-nil).\<close>

datatype rollback_strategy =
    ImmediateRollbackStrategy
  | GradualRollbackStrategy gradual_config
  | CanaryRollbackStrategy
  | BlueGreenRollbackStrategy bool
  | FlagKillSwitchStrategy bool uuid

fun strategy_name :: "rollback_strategy \<Rightarrow> string" where
  "strategy_name ImmediateRollbackStrategy = ''immediate''"
| "strategy_name (GradualRollbackStrategy _) = ''gradual''"
| "strategy_name CanaryRollbackStrategy = ''canary_rollback''"
| "strategy_name (BlueGreenRollbackStrategy _) = ''blue_green''"
| "strategy_name (FlagKillSwitchStrategy _ _) = ''flag_kill_switch''"

record strategy_options =
  so_shifter :: bool
  so_gradual :: "gradual_config option"

definition select_strategy :: "deploy_strategy \<Rightarrow> strategy_options \<Rightarrow> rollback_strategy" where
  "select_strategy ty opts =
     (case ty of
        DeployStrategyCanary \<Rightarrow> CanaryRollbackStrategy
      | DeployStrategyBlueGreen \<Rightarrow> BlueGreenRollbackStrategy (so_shifter opts)
      | DeployStrategyRolling \<Rightarrow>
          (case so_gradual opts of
             Some g \<Rightarrow> GradualRollbackStrategy g
           | None \<Rightarrow> GradualRollbackStrategy default_gradual_config)
      | OtherDeployStrategy _ \<Rightarrow> ImmediateRollbackStrategy)"

datatype rollback_error =
    RollbackContextDone | ShiftToBlueFailed | RemoveFromGreenFailed | TogglerNotConfigured
  | DisableFlagFailed | NoHealthAfter int | UnhealthyAfter f64 int | AttemptsExhausted

record infra = env +
  shifts_made :: "(string \<times> int) list"
  flags_disabled :: "uuid list"
  checker :: "nat \<Rightarrow> uuid \<Rightarrow> deployment_health option"

type_synonym 'a infra_prog = "(infra, rollback_error, 'a) prog"

definition poll_ctx :: "unit infra_prog" where
  "poll_ctx = andThen ctx_done (\<lambda>stop. if stop then fail RollbackContextDone else ret ())"

primrec gradual_steps :: "duration \<Rightarrow> int list \<Rightarrow> unit infra_prog" where
  "gradual_steps delay [] = ret ()"
| "gradual_steps delay (p # ps) =
     andThen poll_ctx (\<lambda>_.
     andThen (if ps \<noteq> [] \<and> delay > 0 then poll_ctx else ret ()) (\<lambda>_. gradual_steps delay ps))"

definition shift_traffic :: "string \<Rightarrow> int \<Rightarrow> rollback_error \<Rightarrow> unit infra_prog" where
  "shift_traffic target pct e =
     andThen (ext_call e) (\<lambda>_. modify (\<lambda>s. s\<lparr>shifts_made := shifts_made s @ [(target, pct)]\<rparr>))"

fun execute_strategy :: "rollback_strategy \<Rightarrow> unit infra_prog" where
  "execute_strategy ImmediateRollbackStrategy = poll_ctx"
| "execute_strategy (GradualRollbackStrategy g) = gradual_steps (gc_step_delay g) (gc_steps g)"
| "execute_strategy CanaryRollbackStrategy = poll_ctx"
| "execute_strategy (BlueGreenRollbackStrategy shifter) =
     andThen poll_ctx (\<lambda>_.
     if shifter then
       andThen (shift_traffic ''blue'' 100 ShiftToBlueFailed) (\<lambda>_.
         shift_traffic ''green'' 0 RemoveFromGreenFailed)
     else ret ())"
| "execute_strategy (FlagKillSwitchStrategy toggler flag) =
     andThen poll_ctx (\<lambda>_.
     if \<not> toggler then fail TogglerNotConfigured
     else andThen (ext_call DisableFlagFailed) (\<lambda>_.
          modify (\<lambda>s. s\<lparr>flags_disabled := flags_disabled s @ [flag]\<rparr>)))"

section \<open>Verification\<close>

text \<open>Each query is the next outside call; the checker answers \<open>None\<close> for an error.\<close>

definition query_health :: "uuid \<Rightarrow> deployment_health option infra_prog" where
  "query_health i = andThen get_state (\<lambda>s.
     andThen (modify (\<lambda>s. s\<lparr>calls := Suc (calls s)\<rparr>)) (\<lambda>_. ret (checker s (calls s) i)))"

definition verified :: "f64 \<Rightarrow> deployment_health \<Rightarrow> bool" where
  "verified threshold h \<longleftrightarrow> fge (dh_overall h) threshold \<and> dh_healthy h"

text \<open>\<open>n\<close> is the number of attempts left, the loop's \<open>attempt == maxAttempts\<close> is \<open>n = 1\<close>.\<close>

primrec verify_attempts :: "uuid \<Rightarrow> f64 \<Rightarrow> int \<Rightarrow> nat \<Rightarrow> unit infra_prog" where
  "verify_attempts i threshold m 0 = fail AttemptsExhausted"
| "verify_attempts i threshold m (Suc n) =
     andThen poll_ctx (\<lambda>_. andThen (query_health i) (\<lambda>h.
       case h of
         None \<Rightarrow> if n = 0 then fail (NoHealthAfter m)
                 else andThen poll_ctx (\<lambda>_. verify_attempts i threshold m n)
       | Some dh \<Rightarrow>
           if verified threshold dh then ret ()
           else if n = 0 then fail (UnhealthyAfter (dh_overall dh) m)
           else andThen poll_ctx (\<lambda>_. verify_attempts i threshold m n)))"

definition verify_rollback :: "uuid \<Rightarrow> f64 \<Rightarrow> int \<Rightarrow> unit infra_prog" where
  "verify_rollback i threshold max_attempts =
     (let m = (if max_attempts \<le> 0 then 3 else max_attempts)
      in verify_attempts i threshold m (nat m))"

section \<open>Properties\<close>

lemma poll_ctx_run:
  "poll_ctx s = (if ctxdone s (polls s) then Inl RollbackContextDone else Inr (), s\<lparr>polls := Suc (polls s)\<rparr>)"
  by (simp add: poll_ctx_def prog_defs)

lemma gradual_steps_effect:
  "gradual_steps d ps s = (r, t) \<Longrightarrow> shifts_made t = shifts_made s \<and> flags_disabled t = flags_disabled s"
  by (induction ps arbitrary: s)
    (auto simp: ret_def andThen_def poll_ctx_run split: if_splits)

text \<open>
  Rolling back by strategy. The strategy chosen for a blue-green deployment gives all
  traffic to blue before it takes any from green: after success both shifts happened in that
  order, after an error at most the first did, and with no shifter configured nothing
  happens. No other choice shifts traffic at all, and none disables a flag.
\<close>

theorem strategy_effects:
  "\<exists>r t sh. execute_strategy (select_strategy ty opts) s = (r, t) \<and>
    shifts_made t = shifts_made s @ sh \<and> flags_disabled t = flags_disabled s \<and>
    (sh \<noteq> [] \<longrightarrow> ty = DeployStrategyBlueGreen \<and> so_shifter opts) \<and>
    (ty = DeployStrategyBlueGreen \<and> so_shifter opts \<longrightarrow>
       (if r = Inr () then sh = [(''blue'', 100), (''green'', 0)]
        else sh = [] \<or> sh = [(''blue'', 100)] \<and> r = Inl RemoveFromGreenFailed))"
proof -
  obtain r t where run: "execute_strategy (select_strategy ty opts) s = (r, t)" by fastforce
  show ?thesis
  proof (cases "ty = DeployStrategyBlueGreen")
    case True
    with run show ?thesis
      by (auto simp: select_strategy_def andThen_def poll_ctx_run shift_traffic_def ext_call_def
          modify_def ret_def split: if_splits)
  next
    case False
    with run have "shifts_made t = shifts_made s \<and> flags_disabled t = flags_disabled s"
      by (auto simp: select_strategy_def poll_ctx_run dest: gradual_steps_effect
          split: deploy_strategy.splits option.splits if_splits)
    with run False show ?thesis by auto
  qed
qed

lemma query_health_run:
  "query_health i s = (Inr (checker s (calls s) i), s\<lparr>calls := Suc (calls s)\<rparr>)"
  by (simp add: query_health_def prog_defs)

lemma verify_attempts_run:
  "\<exists>r t. verify_attempts i thr k n s = (r, t) \<and> calls s \<le> calls t \<and> calls t \<le> calls s + n \<and>
    (calm s \<longrightarrow>
      (r = Inr () \<longleftrightarrow> (\<exists>j < n. \<exists>h. checker s (calls s + j) i = Some h \<and> verified thr h)) \<and>
      (r \<noteq> Inr () \<longrightarrow> calls t = calls s + n) \<and> (r = Inl AttemptsExhausted \<longrightarrow> n = 0))"
proof (induction n arbitrary: s)
  case 0
  show ?case by (simp add: fail_def)
next
  case (Suc n)
  let ?ok = "\<lambda>j. \<exists>h. checker s (calls s + j) i = Some h \<and> verified thr h"
  let ?u = "s\<lparr>polls := Suc (polls s), calls := Suc (calls s)\<rparr>"
  let ?v = "?u\<lparr>polls := Suc (polls ?u)\<rparr>"
  have split: "(\<exists>j < Suc n. ?ok j) \<longleftrightarrow> ?ok 0 \<or> (\<exists>j < n. ?ok (Suc j))" by (simp add: Ex_less_Suc2)
  consider (stop) "ctxdone s (polls s)"
    | (ok) "\<not> ctxdone s (polls s)" "?ok 0"
    | (bad) "\<not> ctxdone s (polls s)" "\<not> ?ok 0" by blast
  then show ?case
  proof cases
    case stop
    then have "\<not> calm s" by (rule not_calm)
    with stop show ?thesis by (simp add: andThen_def poll_ctx_run)
  next
    case ok
    then show ?thesis unfolding split
      by (auto simp: andThen_def poll_ctx_run query_health_run ret_def)
  next
    case bad
    obtain e where e: "e \<noteq> AttemptsExhausted" and step: "verify_attempts i thr k (Suc n) s =
        (if n = 0 then (Inl e, ?u) else andThen poll_ctx (\<lambda>_. verify_attempts i thr k n) ?u)"
      using bad that[of "NoHealthAfter k"]
        that[of "UnhealthyAfter (dh_overall (the (checker s (calls s) i))) k"]
      by (cases "checker s (calls s) i")
        (auto simp: andThen_def poll_ctx_run query_health_run fail_def)
    show ?thesis
    proof (cases "n = 0 \<or> ctxdone ?u (polls ?u)")
      case True
      then show ?thesis using step e bad(2) not_calm(1)[of s "Suc (polls s)"] unfolding split
        by (cases "n = 0") (auto simp: andThen_def poll_ctx_run)
    next
      case False
      then have "verify_attempts i thr k (Suc n) s = verify_attempts i thr k n ?v"
        using step by (simp add: andThen_def poll_ctx_run)
      note step' = this
      obtain r t where v: "verify_attempts i thr k n ?v = (r, t)" "calls ?v \<le> calls t"
        "calls t \<le> calls ?v + n" and calm: "calm ?v \<Longrightarrow>
          (r = Inr () \<longleftrightarrow> (\<exists>j < n. \<exists>h. checker ?v (calls ?v + j) i = Some h \<and> verified thr h)) \<and>
          (r \<noteq> Inr () \<longrightarrow> calls t = calls ?v + n) \<and> (r = Inl AttemptsExhausted \<longrightarrow> n = 0)"
        using Suc.IH[of ?v] by blast
      have "(r = Inr () \<longleftrightarrow> (\<exists>j < Suc n. ?ok j)) \<and> (r \<noteq> Inr () \<longrightarrow> calls t = calls s + Suc n) \<and>
        r \<noteq> Inl AttemptsExhausted" if "calm s"
        using calm that bad(2) False unfolding split by auto
      then show ?thesis using v step' by (intro exI[of _ r] exI[of _ t]) simp
    qed
  qed
qed

text \<open>
  Verifying a rollback. The loop makes at least one and at most the configured number of
  queries (three when that is not positive) unless the context ends first; with a context
  that stays open it succeeds exactly when one of the answers it could get within that
  number verifies the deployment, and otherwise reports failure after the last of them.
\<close>

theorem verify_rollback_attempts:
  "\<exists>r t. verify_rollback i thr m s = (r, t) \<and>
    calls s \<le> calls t \<and> calls t \<le> calls s + nat (if m \<le> 0 then 3 else m) \<and>
    (calm s \<longrightarrow>
      (r = Inr () \<longleftrightarrow> (\<exists>k < nat (if m \<le> 0 then 3 else m).
         \<exists>h. checker s (calls s + k) i = Some h \<and> verified thr h)) \<and>
      (r \<noteq> Inr () \<longrightarrow> calls t = calls s + nat (if m \<le> 0 then 3 else m)) \<and>
      r \<noteq> Inl AttemptsExhausted)"
proof -
  have "\<exists>r t. verify_attempts i thr k n s = (r, t) \<and> calls s \<le> calls t \<and> calls t \<le> calls s + n \<and>
    (calm s \<longrightarrow>
      (r = Inr () \<longleftrightarrow> (\<exists>j < n. \<exists>h. checker s (calls s + j) i = Some h \<and> verified thr h)) \<and>
      (r \<noteq> Inr () \<longrightarrow> calls t = calls s + n) \<and> r \<noteq> Inl AttemptsExhausted)" if "n \<noteq> 0" for k n
    using verify_attempts_run[of i thr k n s] that by metis
  then show ?thesis unfolding verify_rollback_def Let_def by simp
qed

section \<open>Concrete runs\<close>

definition sample_infra :: infra where
  "sample_infra = \<lparr> fault = (\<lambda>_. False), calls = 0, clock = int, reads = 0, fresh = of_nat, minted = 0,
     ctxdone = (\<lambda>_. False), polls = 0, shifts_made = [], flags_disabled = [],
     checker = (\<lambda>n i. if n = 2 then Some \<lparr> dh_deployment_id = i, dh_overall = f64_one, dh_healthy = True,
       dh_checks = [], dh_metrics = Map.empty, dh_evaluated_at = 0 \<rparr> else None) \<rparr>"

lemma sample_infra_calm: "calm sample_infra"
  by (simp add: sample_infra_def calm_def)

lemma strategy_effects_witness:
  "\<exists>t. execute_strategy (select_strategy DeployStrategyCanary \<lparr> so_shifter = True, so_gradual = None \<rparr>)
      sample_infra = (Inr (), t) \<and> shifts_made t = []"
  using strategy_effects[of DeployStrategyCanary "\<lparr> so_shifter = True, so_gradual = None \<rparr>" sample_infra]
  by (auto simp: select_strategy_def poll_ctx_run sample_infra_def)

lemma verify_rollback_attempts_witness:
  "\<exists>t. verify_rollback 4 (Fin (1 / 2)) 3 sample_infra = (Inr (), t)"
proof -
  have "\<exists>k < nat (if (3::int) \<le> 0 then 3 else 3). \<exists>h. checker sample_infra (calls sample_infra + k) 4 = Some h \<and>
      verified (Fin (1 / 2)) h"
    by (intro exI[of _ 2]) (simp add: sample_infra_def verified_def)
  then show ?thesis
    using verify_rollback_attempts[of 4 "Fin (1 / 2)" 3 sample_infra] sample_infra_calm by blast
qed

end
