(* ===== verification/RolloutModel.thy ===== *)
theory RolloutModel
  imports Float64
begin

text \<open>
  The data of progressive rollouts: strategies and their steps, rollouts, phases, audit
  events, groups, scope defaults and policies (\<open>internal/models/strategy.go\<close>,
  \<open>rollout.go\<close>, \<open>rollout_phase.go\<close>, \<open>rollout_event.go\<close>, \<open>rollout_group.go\<close>,
  \<open>strategy_default.go\<close>, \<open>rollout_policy.go\<close>), the validation of a strategy
  (\<open>internal/rollout/validation.go\<close>) and the snapshot taken of it when it is attached
  (\<open>internal/rollout/snapshot.go\<close>).
\<close>

section \<open>Strategies\<close>

datatype target_type = TargetTypeDeploy | TargetTypeConfig | TargetTypeAny | TargetTypeText string

datatype scope_type = ScopeOrg | ScopeProject | ScopeApp | ScopeText string

record step_approval =
  ap_required_role :: string
  ap_timeout :: duration

record step_notify =
  nt_on_entry :: "string list"
  nt_on_exit :: "string list"

record step_abort_condition =
  ac_metric :: string
  ac_operator :: string
  ac_threshold :: f64
  ac_window :: duration

record signal_source =
  ss_kind :: string

record step =
  st_percent :: f64
  st_min_duration :: duration
  st_max_duration :: duration
  st_bake_time_healthy :: duration
  st_health_threshold :: "f64 option"
  st_approval :: "step_approval option"
  st_notify :: "step_notify option"
  st_abort_conditions :: "step_abort_condition list"
  st_signal_override :: "signal_source option"

record strategy =
  sg_id :: uuid
  sg_scope_type :: scope_type
  sg_scope_id :: uuid
  sg_name :: string
  sg_description :: string
  sg_target_type :: target_type
  sg_steps :: "step list"
  sg_default_health_threshold :: f64
  sg_default_rollback_on_failure :: bool
  sg_version :: int
  sg_is_system :: bool
  sg_created_by :: "uuid option"
  sg_updated_by :: "uuid option"
  sg_created_at :: time
  sg_updated_at :: time

section \<open>Rollouts, phases and events\<close>

datatype rollout_status = RolloutPending | RolloutActive | RolloutPaused | RolloutAwaitingApproval
  | RolloutSucceeded | RolloutRolledBack | RolloutAborted | RolloutSuperseded

text \<open>
  The target of a rollout. The code keeps the two identifiers as the text \<open>uuid.String()\<close>
  wrote and reads them with \<open>uuid.Parse\<close>; no other text is ever stored, so the reference
  holds the identifier itself.
\<close>

record rollout_target_ref =
  tr_deployment_id :: "uuid option"
  tr_flag_key :: "string option"
  tr_env :: "string option"
  tr_rule_id :: "uuid option"
  tr_previous_percentage :: "int option"

record rollout =
  ro_id :: uuid
  ro_release_id :: "uuid option"
  ro_target_type :: target_type
  ro_target_ref :: rollout_target_ref
  ro_strategy_snapshot :: strategy
  ro_signal_source :: signal_source
  ro_status :: rollout_status
  ro_current_phase_index :: int
  ro_current_phase_started_at :: "time option"
  ro_last_healthy_since :: "time option"
  ro_rollback_reason :: "string option"
  ro_created_by :: "uuid option"
  ro_created_at :: time
  ro_completed_at :: "time option"

definition rollout_is_terminal :: "rollout \<Rightarrow> bool" where
  "rollout_is_terminal r =
     (case ro_status r of
        RolloutSucceeded \<Rightarrow> True | RolloutRolledBack \<Rightarrow> True
      | RolloutAborted \<Rightarrow> True | RolloutSuperseded \<Rightarrow> True
      | _ \<Rightarrow> False)"

datatype rollout_phase_status = PhasePending | PhaseActive | PhaseAwaitingApproval | PhasePassed
  | PhaseFailed | PhaseRolledBack

record rollout_phase =
  rp_id :: uuid
  rp_rollout_id :: uuid
  rp_phase_index :: int
  rp_step_snapshot :: step
  rp_status :: rollout_phase_status
  rp_entered_at :: "time option"
  rp_exited_at :: "time option"
  rp_applied_percent :: "f64 option"
  rp_health_score_at_exit :: "f64 option"
  rp_notes :: string

datatype event_type = EventAttached | EventPhaseEntered | EventPhaseExited | EventPaused
  | EventResumed | EventPromoted | EventForcePromoted | EventApproved
  | EventAbortConditionTripped | EventRollbackTriggered | EventCompleted | EventSuperseded

text \<open>The payload values the code writes: a phase index, a percentage or score, a metric name.\<close>

datatype payload_value = PayloadInt int | PayloadFloat f64 | PayloadText string

record rollout_event =
  re_id :: uuid
  re_rollout_id :: uuid
  re_event_type :: event_type
  re_actor_type :: string
  re_actor_id :: "uuid option"
  re_reason :: "string option"
  re_payload :: "(string \<times> payload_value) list"
  re_occurred_at :: time

datatype coordination_policy = CoordinationUnset | CoordinationIndependent
  | CoordinationPauseOnSiblingAbort | CoordinationCascadeAbort

record rollout_group =
  rg_id :: uuid
  rg_scope_type :: scope_type
  rg_scope_id :: uuid
  rg_name :: string
  rg_description :: string
  rg_coordination_policy :: coordination_policy
  rg_created_by :: "uuid option"
  rg_created_at :: time
  rg_updated_at :: time

section \<open>Scope defaults and policies\<close>

record strategy_default =
  sd_id :: uuid
  sd_scope_type :: scope_type
  sd_scope_id :: uuid
  sd_environment :: "string option"
  sd_target_type :: "target_type option"
  sd_strategy_id :: uuid
  sd_created_by :: "uuid option"
  sd_updated_by :: "uuid option"
  sd_created_at :: time
  sd_updated_at :: time

datatype policy_kind = PolicyOff | PolicyPrompt | PolicyMandate

record rollout_policy =
  po_id :: uuid
  po_scope_type :: scope_type
  po_scope_id :: uuid
  po_environment :: "string option"
  po_target_type :: "target_type option"
  po_enabled :: bool
  po_policy :: policy_kind
  po_created_by :: "uuid option"
  po_updated_by :: "uuid option"
  po_created_at :: time
  po_updated_at :: time

section \<open>Validation\<close>

definition valid_abort_operators :: "string list" where
  "valid_abort_operators = [''>'', ''>='', ''<'', ''<='', ''=='', ''!='']"

definition valid_abort_metrics :: "string list" where
  "valid_abort_metrics =
     [''score'', ''error_rate'', ''latency_p99_ms'', ''latency_p50_ms'', ''request_rate'']"

definition is_valid_abort_metric :: "string \<Rightarrow> bool" where
  "is_valid_abort_metric name =
     (name \<in> set valid_abort_metrics \<or>
      (take 7 name = ''custom:'' \<and> length name > length ''custom:''))"

text \<open>One constructor per rejection, with the positions and values its message shows.\<close>

datatype strategy_invalid =
    NameRequired
  | InvalidTargetType target_type
  | DefaultThresholdRange f64
  | NoSteps
  | PercentRange nat f64
  | PercentDecreasing nat f64 f64
  | NegativeDuration nat
  | MinOverMax nat duration duration
  | BakeOverMax nat duration duration
  | ThresholdRange nat
  | ApprovalTimeoutNegative nat
  | MetricRequired nat nat
  | UnknownMetric nat nat string
  | InvalidOperator nat nat string
  | WindowNotPositive nat nat
  | FinalStepNot100

fun validate_aborts :: "nat \<Rightarrow> nat \<Rightarrow> step_abort_condition list \<Rightarrow> strategy_invalid option" where
  "validate_aborts i j [] = None"
| "validate_aborts i j (ac # acs) =
     (if ac_metric ac = '''' then Some (MetricRequired i j)
      else if \<not> is_valid_abort_metric (ac_metric ac) then Some (UnknownMetric i j (ac_metric ac))
      else if ac_operator ac \<notin> set valid_abort_operators then Some (InvalidOperator i j (ac_operator ac))
      else if ac_window ac \<le> 0 then Some (WindowNotPositive i j)
      else validate_aborts i (Suc j) acs)"

definition out_of_unit :: "f64 \<Rightarrow> bool" where
  "out_of_unit x = (flt x (Fin 0) \<or> fgt x (Fin 1))"

definition validate_step :: "nat \<Rightarrow> f64 \<Rightarrow> step \<Rightarrow> strategy_invalid option" where
  "validate_step i prev st =
     (if flt (st_percent st) (Fin 0) \<or> fgt (st_percent st) (Fin 100) then Some (PercentRange i (st_percent st))
      else if flt (st_percent st) prev then Some (PercentDecreasing i (st_percent st) prev)
      else if st_min_duration st < 0 \<or> st_max_duration st < 0 \<or> st_bake_time_healthy st < 0
        then Some (NegativeDuration i)
      else if st_min_duration st > st_max_duration st
        then Some (MinOverMax i (st_min_duration st) (st_max_duration st))
      else if st_bake_time_healthy st > st_max_duration st \<and> st_max_duration st > 0
        then Some (BakeOverMax i (st_bake_time_healthy st) (st_max_duration st))
      else if (case st_health_threshold st of None \<Rightarrow> False | Some th \<Rightarrow> out_of_unit th)
        then Some (ThresholdRange i)
      else if (case st_approval st of None \<Rightarrow> False | Some a \<Rightarrow> ap_timeout a < 0)
        then Some (ApprovalTimeoutNegative i)
      else validate_aborts i 0 (st_abort_conditions st))"

fun validate_steps :: "nat \<Rightarrow> f64 \<Rightarrow> step list \<Rightarrow> strategy_invalid option" where
  "validate_steps i prev [] = None"
| "validate_steps i prev (st # sts) =
     (case validate_step i prev st of
        Some e \<Rightarrow> Some e
      | None \<Rightarrow> validate_steps (Suc i) (st_percent st) sts)"

definition validate_strategy :: "strategy \<Rightarrow> strategy_invalid option" where
  "validate_strategy s =
     (if sg_name s = '''' then Some NameRequired
      else if sg_target_type s \<notin> {TargetTypeDeploy, TargetTypeConfig, TargetTypeAny}
        then Some (InvalidTargetType (sg_target_type s))
      else if out_of_unit (sg_default_health_threshold s)
        then Some (DefaultThresholdRange (sg_default_health_threshold s))
      else if sg_steps s = [] then Some NoSteps
      else case validate_steps 0 (Fin (- 1)) (sg_steps s) of
        Some e \<Rightarrow> Some e
      | None \<Rightarrow> if fne (st_percent (last (sg_steps s))) (Fin 100) then Some FinalStepNot100 else None)"

section \<open>Snapshots\<close>

abbreviation time_zero :: time where "time_zero \<equiv> 0"

record step_override =
  ov_percent :: "f64 option"
  ov_min_duration_ms :: "int option"
  ov_max_duration_ms :: "int option"
  ov_bake_time_ms :: "int option"
  ov_health_threshold :: "f64 option"

text \<open>The map of step overrides, as the sequence of entries in the order a run visits them.\<close>

record strategy_overrides =
  so_default_health_threshold :: "f64 option"
  so_default_rollback_on_failure :: "bool option"
  so_steps :: "(int \<times> step_override) list"

text \<open>\<open>time.Duration(ms) * time.Millisecond\<close> on 64 bits.\<close>

definition duration_of_ms :: "int \<Rightarrow> duration" where
  "duration_of_ms ms = sint (word_of_int ms * 1000000 :: 64 word)"

definition override_step :: "step_override \<Rightarrow> step \<Rightarrow> step" where
  "override_step so st = st\<lparr>
     st_percent := (case ov_percent so of None \<Rightarrow> st_percent st | Some p \<Rightarrow> p),
     st_min_duration := (case ov_min_duration_ms so of None \<Rightarrow> st_min_duration st
                         | Some ms \<Rightarrow> duration_of_ms ms),
     st_max_duration := (case ov_max_duration_ms so of None \<Rightarrow> st_max_duration st
                         | Some ms \<Rightarrow> duration_of_ms ms),
     st_bake_time_healthy := (case ov_bake_time_ms so of None \<Rightarrow> st_bake_time_healthy st
                         | Some ms \<Rightarrow> duration_of_ms ms),
     st_health_threshold := (case ov_health_threshold so of None \<Rightarrow> st_health_threshold st
                         | Some th \<Rightarrow> Some th)\<rparr>"

definition apply_override :: "int \<times> step_override \<Rightarrow> step list \<Rightarrow> step list" where
  "apply_override e sts =
     (case e of (idx, so) \<Rightarrow>
        if idx < 0 \<or> idx \<ge> int (length sts) then sts
        else sts[nat idx := override_step so (sts ! nat idx)])"

text \<open>
  The copy leaves the creator, the updater and the two timestamps at their zero values;
  instants are counted from the zero \<open>time.Time\<close>.
\<close>

definition build_snapshot :: "strategy \<Rightarrow> strategy_overrides option \<Rightarrow> strategy" where
  "build_snapshot tmpl ovr =
     (let snap = tmpl\<lparr>sg_created_by := None, sg_updated_by := None,
                       sg_created_at := time_zero, sg_updated_at := time_zero\<rparr>
      in case ovr of
           None \<Rightarrow> snap
         | Some o' \<Rightarrow> snap\<lparr>
             sg_default_health_threshold := (case so_default_health_threshold o' of
                 None \<Rightarrow> sg_default_health_threshold tmpl | Some x \<Rightarrow> x),
             sg_default_rollback_on_failure := (case so_default_rollback_on_failure o' of
                 None \<Rightarrow> sg_default_rollback_on_failure tmpl | Some b \<Rightarrow> b),
             sg_steps := fold apply_override (so_steps o') (sg_steps tmpl)\<rparr>)"

section \<open>What validation accepts\<close>

text \<open>
  The conditions of the package documentation: required fields, ranges, percentages that
  never decrease and end at 100, and consistent durations.
\<close>

definition sound_abort :: "step_abort_condition \<Rightarrow> bool" where
  "sound_abort ac \<longleftrightarrow> ac_metric ac \<noteq> '''' \<and> is_valid_abort_metric (ac_metric ac) \<and>
     ac_operator ac \<in> set valid_abort_operators \<and> 0 < ac_window ac"

definition sound_step :: "step \<Rightarrow> bool" where
  "sound_step st \<longleftrightarrow> fle (Fin 0) (st_percent st) \<and> fle (st_percent st) (Fin 100) \<and>
     0 \<le> st_min_duration st \<and> st_min_duration st \<le> st_max_duration st \<and>
     0 \<le> st_bake_time_healthy st \<and>
     (st_bake_time_healthy st \<le> st_max_duration st \<or> st_max_duration st = 0) \<and>
     (\<forall>th. st_health_threshold st = Some th \<longrightarrow> \<not> out_of_unit th) \<and>
     (\<forall>a. st_approval st = Some a \<longrightarrow> 0 \<le> ap_timeout a) \<and>
     (\<forall>ac \<in> set (st_abort_conditions st). sound_abort ac)"

definition sound_strategy :: "strategy \<Rightarrow> bool" where
  "sound_strategy s \<longleftrightarrow> sg_name s \<noteq> '''' \<and>
     sg_target_type s \<in> {TargetTypeDeploy, TargetTypeConfig, TargetTypeAny} \<and>
     \<not> out_of_unit (sg_default_health_threshold s) \<and> sg_steps s \<noteq> [] \<and>
     (\<forall>st \<in> set (sg_steps s). sound_step st) \<and>
     sorted_wrt fle (map st_percent (sg_steps s)) \<and>
     st_percent (last (sg_steps s)) = Fin 100"

definition percents_numeric :: "step list \<Rightarrow> bool" where
  "percents_numeric sts \<longleftrightarrow> NaN \<notin> st_percent ` set sts"

lemma validate_aborts_None: "validate_aborts i j acs = None \<longleftrightarrow> (\<forall>ac \<in> set acs. sound_abort ac)"
  by (induction i j acs rule: validate_aborts.induct) (auto simp: sound_abort_def)

lemma validate_step_None:
  assumes "st_percent st \<noteq> NaN" and "prev \<noteq> NaN"
  shows "validate_step i prev st = None \<longleftrightarrow> sound_step st \<and> fle prev (st_percent st)"
  using assms not_flt[of "st_percent st" "Fin 0"] not_flt[of "Fin 100" "st_percent st"]
    not_flt[of "st_percent st" prev]
  by (auto simp: validate_step_def sound_step_def validate_aborts_None not_less
      split: option.splits)

lemma validate_steps_None:
  assumes "percents_numeric sts" and "prev \<noteq> NaN"
  shows "validate_steps i prev sts = None \<longleftrightarrow>
    (\<forall>st \<in> set sts. sound_step st) \<and> sorted_wrt fle (prev # map st_percent sts)"
  using assms
proof (induction i prev sts rule: validate_steps.induct)
  case (2 i prev st sts)
  then have num: "st_percent st \<noteq> NaN" "percents_numeric sts" by (auto simp: percents_numeric_def)
  show ?case
  proof (cases "validate_step i prev st")
    case (Some e)
    moreover from this have "\<not> (sound_step st \<and> fle prev (st_percent st))"
      using validate_step_None[OF num(1) 2(3)] by (metis option.distinct(1))
    ultimately show ?thesis by auto
  next
    case None
    then have "sound_step st" "fle prev (st_percent st)"
      using validate_step_None[OF num(1) 2(3)] by auto
    with None 2(1)[OF None num(2,1)] show ?thesis by (auto intro: fle_trans)
  qed
qed simp

lemma sorted_from_minus_one:
  assumes "\<forall>st \<in> set sts. sound_step st"
  shows "sorted_wrt fle (Fin (- 1) # map st_percent sts) \<longleftrightarrow> sorted_wrt fle (map st_percent sts)"
proof -
  have "fle (Fin (- 1)) (st_percent st)" if "st \<in> set sts" for st
  proof -
    from assms that have "fle (Fin 0) (st_percent st)" by (simp add: sound_step_def)
    then show ?thesis using fle_trans[of "Fin (- 1)" "Fin 0"] by simp
  qed
  then show ?thesis by auto
qed

lemma feq_hundred: "feq x (Fin 100) \<longleftrightarrow> x = Fin 100"
  by (cases x) auto

text \<open>
  Validation accepts exactly the sound strategies: named, with a known target type and
  thresholds in the unit interval, at least one step, every step in range with consistent
  durations and known abort conditions, percentages that never decrease and a last step
  at 100. (A percentage that is not a number compares as neither too small nor too large,
  so it is excluded; a strategy decoded from JSON has none.)
\<close>

theorem validation_complete:
  assumes "percents_numeric (sg_steps s)"
  shows "validate_strategy s = None \<longleftrightarrow> sound_strategy s"
proof (cases "sg_steps s = []")
  case False
  have "validate_steps 0 (Fin (- 1)) (sg_steps s) = None \<longleftrightarrow>
      (\<forall>st \<in> set (sg_steps s). sound_step st) \<and> sorted_wrt fle (map st_percent (sg_steps s))"
    using validate_steps_None[OF assms, of "Fin (- 1)" 0] sorted_from_minus_one[of "sg_steps s"]
    by auto
  with False show ?thesis
    by (cases "validate_steps 0 (Fin (- 1)) (sg_steps s)")
      (auto simp: validate_strategy_def sound_strategy_def feq_hundred)
qed (auto simp: validate_strategy_def sound_strategy_def)

definition sample_step :: "f64 \<Rightarrow> step" where
  "sample_step p = \<lparr>st_percent = p, st_min_duration = 0, st_max_duration = minutes 5,
     st_bake_time_healthy = minutes 1, st_health_threshold = None, st_approval = None,
     st_notify = None, st_abort_conditions = [], st_signal_override = None\<rparr>"

definition sample_strategy :: "step list \<Rightarrow> strategy" where
  "sample_strategy sts = \<lparr>sg_id = 3, sg_scope_type = ScopeApp, sg_scope_id = 5, sg_name = ''canary'',
     sg_description = '''', sg_target_type = TargetTypeAny, sg_steps = sts,
     sg_default_health_threshold = Fin (9 / 10), sg_default_rollback_on_failure = True,
     sg_version = 1, sg_is_system = False, sg_created_by = None, sg_updated_by = None,
     sg_created_at = time_zero, sg_updated_at = time_zero\<rparr>"

theorem validation_complete_witness:
  "validate_strategy (sample_strategy [sample_step (Fin 10), sample_step (Fin 100)]) = None \<and>
   validate_strategy (sample_strategy [sample_step (Fin 10), sample_step (Fin 50)]) \<noteq> None"
  using validation_complete[of "sample_strategy [sample_step (Fin 10), sample_step (Fin 100)]"]
    validation_complete[of "sample_strategy [sample_step (Fin 10), sample_step (Fin 50)]"]
  by (simp add: sample_strategy_def sample_step_def percents_numeric_def sound_strategy_def
      sound_step_def out_of_unit_def)

section \<open>What a snapshot contains\<close>

definition overridden :: "(int \<times> step_override) list \<Rightarrow> nat \<Rightarrow> step \<Rightarrow> step" where
  "overridden es i st = (case map_of es (int i) of None \<Rightarrow> st | Some so \<Rightarrow> override_step so st)"

lemma length_apply_override [simp]: "length (apply_override e sts) = length sts"
  by (auto simp: apply_override_def split: prod.splits)

lemma length_fold_override [simp]: "length (fold apply_override es sts) = length sts"
  by (induction es arbitrary: sts) auto

lemma nth_apply_override:
  assumes "i < length sts"
  shows "apply_override (idx, so) sts ! i =
    (if idx = int i then override_step so (sts ! i) else sts ! i)"
  using assms by (auto simp: apply_override_def nth_list_update)

lemma nth_fold_override:
  assumes "distinct (map fst es)" and "i < length sts"
  shows "fold apply_override es sts ! i = overridden es i (sts ! i)"
  using assms
proof (induction es arbitrary: sts)
  case Nil
  then show ?case by (simp add: overridden_def)
next
  case (Cons e es)
  obtain idx so where e: "e = (idx, so)" by (cases e)
  with Cons have "fold apply_override (e # es) sts ! i = overridden es i (apply_override e sts ! i)"
    by simp
  moreover from Cons.prems(1) e have "map_of es idx = None" by (simp add: map_of_eq_None_iff)
  ultimately show ?case using Cons.prems(2) e by (auto simp: nth_apply_override overridden_def)
qed

text \<open>
  A snapshot keeps the identity, the name, the scope and the number of steps of its
  template; step \<open>i\<close> is the template's step with exactly the overrides given for index \<open>i\<close>,
  whatever the order in which the map of overrides is visited; overrides of indices the
  template does not have change nothing.
\<close>

theorem snapshot_steps:
  assumes "distinct (map fst (so_steps ov))"
  shows "sg_steps (build_snapshot tmpl (Some ov)) =
      map (\<lambda>i. overridden (so_steps ov) i (sg_steps tmpl ! i)) [0..<length (sg_steps tmpl)] \<and>
    (\<forall>es. set es = set (so_steps ov) \<longrightarrow> distinct (map fst es) \<longrightarrow>
       build_snapshot tmpl (Some (ov\<lparr>so_steps := es\<rparr>)) = build_snapshot tmpl (Some ov)) \<and>
    sg_steps (build_snapshot tmpl None) = sg_steps tmpl \<and>
    (sg_id (build_snapshot tmpl (Some ov)), sg_name (build_snapshot tmpl (Some ov)),
     sg_target_type (build_snapshot tmpl (Some ov))) = (sg_id tmpl, sg_name tmpl, sg_target_type tmpl)"
proof -
  have steps: "fold apply_override es sts = map (\<lambda>i. overridden es i (sts ! i)) [0..<length sts]"
    if "distinct (map fst es)" for es sts
    by (rule nth_equalityI) (simp_all add: nth_fold_override that)
  have "fold apply_override es sts = fold apply_override (so_steps ov) sts"
    if "set es = set (so_steps ov)" "distinct (map fst es)" for es sts
  proof -
    have "map_of es = map_of (so_steps ov)" using that assms by (simp only: map_of_inject_set)
    then show ?thesis by (simp add: steps that assms overridden_def)
  qed
  with steps[OF assms] show ?thesis by (auto simp: build_snapshot_def Let_def)
qed

theorem snapshot_steps_witness:
  "map st_percent (sg_steps (build_snapshot (sample_strategy [sample_step (Fin 10), sample_step (Fin 100)])
     (Some \<lparr>so_default_health_threshold = None, so_default_rollback_on_failure = None,
            so_steps = [(7, \<lparr>ov_percent = Some (Fin 1), ov_min_duration_ms = None, ov_max_duration_ms = None,
                          ov_bake_time_ms = None, ov_health_threshold = None\<rparr>),
                        (0, \<lparr>ov_percent = Some (Fin 25), ov_min_duration_ms = None, ov_max_duration_ms = None,
                          ov_bake_time_ms = None, ov_health_threshold = None\<rparr>)]\<rparr>))) = [Fin 25, Fin 100]"
  by (subst snapshot_steps[THEN conjunct1])
    (simp_all add: sample_strategy_def sample_step_def overridden_def override_step_def upt_rec)

end
