(* ===== verification/RolloutResolver.thy ===== *)
theory RolloutResolver
  imports RolloutModel
begin

text \<open>
  Scope inheritance (\<open>internal/rollout/resolver.go\<close>, and the shadowing of
  \<open>EffectiveList\<close> in \<open>internal/rollout/service.go\<close>): the ancestry of a scope, the default
  strategy and the policy that apply to it, and the strategies visible from it.
\<close>

section \<open>Scopes\<close>

record scope_ref =
  sc_type :: scope_type
  sc_id :: uuid

definition ancestor_scopes :: "scope_ref \<Rightarrow> uuid option \<Rightarrow> uuid option \<Rightarrow> scope_ref list" where
  "ancestor_scopes leaf project org =
     (case sc_type leaf of
        ScopeApp \<Rightarrow> leaf #
          (case project of None \<Rightarrow> [] | Some p \<Rightarrow> [\<lparr>sc_type = ScopeProject, sc_id = p\<rparr>]) @
          (case org of None \<Rightarrow> [] | Some i \<Rightarrow> [\<lparr>sc_type = ScopeOrg, sc_id = i\<rparr>])
      | ScopeProject \<Rightarrow> leaf #
          (case org of None \<Rightarrow> [] | Some i \<Rightarrow> [\<lparr>sc_type = ScopeOrg, sc_id = i\<rparr>])
      | ScopeOrg \<Rightarrow> [leaf]
      | ScopeText _ \<Rightarrow> [])"

lemma ancestor_scopes_distinct: "distinct (ancestor_scopes leaf project org)"
  by (cases leaf) (auto simp: ancestor_scopes_def split: scope_type.splits option.splits)

section \<open>The two resolvers\<close>

text \<open>
  \<open>ResolveDefault\<close> and \<open>ResolvePolicy\<close> are the same loops over rows of two types: \<open>ref\<close>,
  \<open>renv\<close> and \<open>rtt\<close> read the scope, the environment and the target type of a row. The loops
  return the first row they accept.
\<close>

definition pattern_accepts ::
  "bool \<times> bool \<Rightarrow> string option \<Rightarrow> target_type option \<Rightarrow> string option \<Rightarrow> target_type option \<Rightarrow> bool" where
  "pattern_accepts pat e target row_env row_tt =
     (case pat of (match_env, match_target) \<Rightarrow>
        (if match_env then row_env \<noteq> None \<and> e \<noteq> None \<and> row_env = e else row_env = None) \<and>
        (if match_target then row_tt \<noteq> None \<and> target \<noteq> None \<and> row_tt = target else row_tt = None))"

definition patterns :: "(bool \<times> bool) list" where
  "patterns = [(True, True), (True, False), (False, True), (False, False)]"

fun first_some :: "('a \<Rightarrow> 'b option) \<Rightarrow> 'a list \<Rightarrow> 'b option" where
  "first_some f [] = None"
| "first_some f (x # xs) = (case f x of Some y \<Rightarrow> Some y | None \<Rightarrow> first_some f xs)"

definition resolve_rows ::
  "('r \<Rightarrow> scope_ref) \<Rightarrow> ('r \<Rightarrow> string option) \<Rightarrow> ('r \<Rightarrow> target_type option) \<Rightarrow>
   'r list \<Rightarrow> scope_ref list \<Rightarrow> string option \<Rightarrow> target_type option \<Rightarrow> 'r option" where
  "resolve_rows ref renv rtt rows ancestors e target =
     first_some (\<lambda>anc.
       let bucket = filter (\<lambda>r. ref r = anc) rows
       in first_some (\<lambda>pat. find (\<lambda>r. pattern_accepts pat e target (renv r) (rtt r)) bucket) patterns)
     ancestors"

definition default_scope :: "strategy_default \<Rightarrow> scope_ref" where
  "default_scope d = \<lparr>sc_type = sd_scope_type d, sc_id = sd_scope_id d\<rparr>"

definition policy_scope :: "rollout_policy \<Rightarrow> scope_ref" where
  "policy_scope p = \<lparr>sc_type = po_scope_type p, sc_id = po_scope_id p\<rparr>"

definition resolve_default ::
  "strategy_default list \<Rightarrow> scope_ref list \<Rightarrow> string option \<Rightarrow> target_type option \<Rightarrow> strategy_default option" where
  "resolve_default = resolve_rows default_scope sd_environment sd_target_type"

definition resolve_policy ::
  "rollout_policy list \<Rightarrow> scope_ref list \<Rightarrow> string option \<Rightarrow> target_type option \<Rightarrow> rollout_policy option" where
  "resolve_policy = resolve_rows policy_scope po_environment po_target_type"

section \<open>The most specific row wins\<close>

text \<open>
  A row applies when its scope is an ancestor and its environment and target type are
  wildcards or the ones asked for. The specificity of a row is the distance of its scope,
  then whether its environment is a wildcard, then whether its target type is.
\<close>

definition applies ::
  "('r \<Rightarrow> scope_ref) \<Rightarrow> ('r \<Rightarrow> string option) \<Rightarrow> ('r \<Rightarrow> target_type option) \<Rightarrow>
   scope_ref list \<Rightarrow> string option \<Rightarrow> target_type option \<Rightarrow> 'r \<Rightarrow> bool" where
  "applies ref renv rtt ancestors e target r \<longleftrightarrow>
     ref r \<in> set ancestors \<and> (renv r = None \<or> renv r = e) \<and> (rtt r = None \<or> rtt r = target)"

definition distance ::
  "('r \<Rightarrow> scope_ref) \<Rightarrow> ('r \<Rightarrow> string option) \<Rightarrow> ('r \<Rightarrow> target_type option) \<Rightarrow> scope_ref list \<Rightarrow> 'r \<Rightarrow> nat" where
  "distance ref renv rtt ancestors r =
     4 * index_where (\<lambda>a. a = ref r) ancestors +
     (if renv r = None then 2 else 0) + (if rtt r = None then 1 else 0)"

lemma first_some_None: "first_some f xs = None \<longleftrightarrow> (\<forall>x \<in> set xs. f x = None)"
  by (induction xs) (auto split: option.splits)

lemma first_some_Some:
  "first_some f xs = Some y \<Longrightarrow> \<exists>ys x zs. xs = ys @ x # zs \<and> f x = Some y \<and> (\<forall>z \<in> set ys. f z = None)"
proof (induction xs)
  case (Cons a xs)
  show ?case
  proof (cases "f a")
    case None
    with Cons obtain ys x zs where "xs = ys @ x # zs" "f x = Some y" "\<forall>z \<in> set ys. f z = None" by auto
    with None show ?thesis by (intro exI[of _ "a # ys"] exI[of _ x] exI[of _ zs]) simp
  next
    case (Some b)
    with Cons(2) show ?thesis by (intro exI[of _ "[]"] exI[of _ a] exI[of _ xs]) simp
  qed
qed simp

definition pattern_of :: "('r \<Rightarrow> string option) \<Rightarrow> ('r \<Rightarrow> target_type option) \<Rightarrow> 'r \<Rightarrow> bool \<times> bool" where
  "pattern_of renv rtt r = (renv r \<noteq> None, rtt r \<noteq> None)"

lemma pattern_accepts_iff:
  "pattern_accepts pat e target (renv r) (rtt r) \<longleftrightarrow>
    pat = pattern_of renv rtt r \<and> (renv r = None \<or> renv r = e) \<and> (rtt r = None \<or> rtt r = target)"
  by (auto simp: pattern_accepts_def pattern_of_def split: prod.splits)

lemma index_where_split:
  "a \<notin> set ys \<Longrightarrow> index_where (\<lambda>x. x = a) (ys @ a # zs) = length ys"
  by (induction ys) auto

lemma index_where_later:
  "b \<notin> set ys \<Longrightarrow> length ys \<le> index_where (\<lambda>x. x = b) (ys @ zs)"
  by (induction ys) auto

text \<open>Within one scope: the patterns are tried from the most to the least specific.\<close>

definition wildcards :: "('r \<Rightarrow> string option) \<Rightarrow> ('r \<Rightarrow> target_type option) \<Rightarrow> 'r \<Rightarrow> nat" where
  "wildcards renv rtt r = (if renv r = None then 2 else 0) + (if rtt r = None then 1 else 0)"

lemma find_accepts:
  "find (\<lambda>r. pattern_accepts pat e target (renv r) (rtt r)) rows = Some r \<Longrightarrow>
   r \<in> set rows \<and> pattern_of renv rtt r = pat \<and> (renv r = None \<or> renv r = e) \<and> (rtt r = None \<or> rtt r = target)"
  by (auto simp: find_Some_iff pattern_accepts_iff)

lemma scope_patterns:
  assumes "first_some (\<lambda>pat. find (\<lambda>r. pattern_accepts pat e target (renv r) (rtt r)) rows) patterns = res"
  shows "(res = None \<longrightarrow> (\<forall>r \<in> set rows. \<not> ((renv r = None \<or> renv r = e) \<and> (rtt r = None \<or> rtt r = target)))) \<and>
    (\<forall>r. res = Some r \<longrightarrow> r \<in> set rows \<and> (renv r = None \<or> renv r = e) \<and> (rtt r = None \<or> rtt r = target) \<and>
      (\<forall>q \<in> set rows. (renv q = None \<or> renv q = e) \<and> (rtt q = None \<or> rtt q = target) \<longrightarrow>
         wildcards renv rtt r \<le> wildcards renv rtt q))"
proof -
  let ?f = "\<lambda>pat. find (\<lambda>r. pattern_accepts pat e target (renv r) (rtt r)) rows"
  let ?ok = "\<lambda>r. (renv r = None \<or> renv r = e) \<and> (rtt r = None \<or> rtt r = target)"
  have none: "pattern_of renv rtt q \<noteq> pat" if "?f pat = None" "q \<in> set rows" "?ok q" for pat q
    using that by (auto simp: find_None_iff pattern_accepts_iff)
  have all: "pattern_of renv rtt q \<in> set patterns" for q by (auto simp: patterns_def pattern_of_def)
  have wild: "wildcards renv rtt q = index_where (\<lambda>p. p = pattern_of renv rtt q) patterns" for q
    by (auto simp: wildcards_def patterns_def pattern_of_def)
  show ?thesis
  proof (cases res)
    case None
    with assms have "?f pat = None" if "pat \<in> set patterns" for pat using that by (simp add: first_some_None)
    with all none have "\<not> ?ok q" if "q \<in> set rows" for q using that by blast
    with None show ?thesis by simp
  next
    case (Some r)
    with assms obtain ps pat qs where ps: "patterns = ps @ pat # qs" "?f pat = Some r"
      "\<forall>p \<in> set ps. ?f p = None" using first_some_Some[of ?f patterns r] by auto
    have r: "r \<in> set rows" "pattern_of renv rtt r = pat" "?ok r" using find_accepts[OF ps(2)] by auto
    have "distinct (ps @ pat # qs)" unfolding ps(1)[symmetric] by (simp add: patterns_def)
    then have "pat \<notin> set ps" by simp
    then have "wildcards renv rtt r = length ps" by (simp add: wild r(2) ps(1) index_where_split)
    moreover have "length ps \<le> wildcards renv rtt q" if "q \<in> set rows" "?ok q" for q
    proof -
      have "pattern_of renv rtt q \<notin> set ps" using none ps(3) that by blast
      then show ?thesis by (simp add: wild ps(1) index_where_later)
    qed
    ultimately show ?thesis using Some r by auto
  qed
qed

lemma resolve_rows_correct:
  "case resolve_rows ref renv rtt rows ancestors e target of
     None \<Rightarrow> (\<forall>r \<in> set rows. \<not> applies ref renv rtt ancestors e target r)
   | Some r \<Rightarrow> r \<in> set rows \<and> applies ref renv rtt ancestors e target r \<and>
       (\<forall>q \<in> set rows. applies ref renv rtt ancestors e target q \<longrightarrow>
          distance ref renv rtt ancestors r \<le> distance ref renv rtt ancestors q)"
proof -
  let ?bucket = "\<lambda>anc. filter (\<lambda>r. ref r = anc) rows"
  let ?g = "\<lambda>anc. first_some (\<lambda>pat. find (\<lambda>r. pattern_accepts pat e target (renv r) (rtt r)) (?bucket anc)) patterns"
  let ?ok = "\<lambda>r. (renv r = None \<or> renv r = e) \<and> (rtt r = None \<or> rtt r = target)"
  have none: "\<not> ?ok q" if "?g anc = None" "q \<in> set rows" "ref q = anc" for anc q
    using scope_patterns[OF that(1)] that(2,3) by auto
  have eq: "resolve_rows ref renv rtt rows ancestors e target = first_some ?g ancestors"
    by (simp add: resolve_rows_def Let_def)
  show ?thesis
  proof (cases "first_some ?g ancestors")
    case None
    then have "?g anc = None" if "anc \<in> set ancestors" for anc
      using that first_some_None[of ?g ancestors] by blast
    with none have "\<not> applies ref renv rtt ancestors e target q" if "q \<in> set rows" for q
      using that unfolding applies_def by blast
    with None show ?thesis by (simp add: eq)
  next
    case (Some r)
    then obtain as anc bs where split: "ancestors = as @ anc # bs" "?g anc = Some r"
      "\<forall>a \<in> set as. ?g a = None" using first_some_Some[of ?g ancestors r] by auto
    have r: "r \<in> set rows" "ref r = anc" "?ok r" using scope_patterns[OF split(2)] by auto
    have least: "wildcards renv rtt r \<le> wildcards renv rtt q"
      if "q \<in> set rows" "ref q = anc" "?ok q" for q
      using scope_patterns[OF split(2)] that by auto
    have "ref r \<notin> set as" using none[OF _ r(1)] split(3) r(2,3) by blast
    then have ri: "index_where (\<lambda>a. a = ref r) ancestors = length as"
      by (simp add: split(1) r(2) index_where_split)
    have "distance ref renv rtt ancestors r \<le> distance ref renv rtt ancestors q"
      if q: "q \<in> set rows" "applies ref renv rtt ancestors e target q" for q
    proof (cases "ref q = anc")
      case True
      with q least[of q] r(2) show ?thesis by (auto simp: distance_def wildcards_def applies_def)
    next
      case False
      have "ref q \<notin> set as" using none[OF _ q(1)] split(3) q(2) unfolding applies_def by blast
      with False split(1) index_where_later[of "ref q" "as @ [anc]" bs]
      have "Suc (length as) \<le> index_where (\<lambda>a. a = ref q) ancestors" by simp
      then show ?thesis by (auto simp: distance_def ri)
    qed
    moreover have "applies ref renv rtt ancestors e target r" using r split(1) by (simp add: applies_def)
    moreover have "resolve_rows ref renv rtt rows ancestors e target = Some r" using eq Some by (simp only:)
    ultimately show ?thesis using r(1) by simp
  qed
qed

text \<open>
  \<open>ResolveDefault\<close> finds nothing exactly when no row applies; otherwise it returns an
  applicable row to which no applicable row is preferred: the nearest scope decides first,
  then a row for the environment, then a row for the target type.
\<close>

theorem resolve_default_most_specific:
  "case resolve_default rows ancestors e target of
     None \<Rightarrow> (\<forall>r \<in> set rows. \<not> applies default_scope sd_environment sd_target_type ancestors e target r)
   | Some r \<Rightarrow> r \<in> set rows \<and> applies default_scope sd_environment sd_target_type ancestors e target r \<and>
       (\<forall>q \<in> set rows. applies default_scope sd_environment sd_target_type ancestors e target q \<longrightarrow>
          distance default_scope sd_environment sd_target_type ancestors r
            \<le> distance default_scope sd_environment sd_target_type ancestors q)"
  unfolding resolve_default_def by (rule resolve_rows_correct)

definition sample_default :: "scope_ref \<Rightarrow> string option \<Rightarrow> uuid \<Rightarrow> strategy_default" where
  "sample_default sc e st = \<lparr>sd_id = st, sd_scope_type = sc_type sc, sd_scope_id = sc_id sc, sd_environment = e,
     sd_target_type = None, sd_strategy_id = st, sd_created_by = None, sd_updated_by = None,
     sd_created_at = 0, sd_updated_at = 0\<rparr>"

theorem resolve_default_most_specific_witness:
  "let app = \<lparr>sc_type = ScopeApp, sc_id = 5\<rparr>; org = \<lparr>sc_type = ScopeOrg, sc_id = 9\<rparr>;
       rows = [sample_default org (Some ''prod'') 1, sample_default app None 2, sample_default app (Some ''prod'') 3]
   in resolve_default rows [app, org] (Some ''prod'') None = Some (sample_default app (Some ''prod'') 3) \<and>
      (\<forall>q \<in> set rows. distance default_scope sd_environment sd_target_type [app, org] (sample_default app (Some ''prod'') 3)
         \<le> distance default_scope sd_environment sd_target_type [app, org] q)"
proof -
  let ?app = "\<lparr>sc_type = ScopeApp, sc_id = 5\<rparr>" and ?org = "\<lparr>sc_type = ScopeOrg, sc_id = 9\<rparr>"
  let ?rows = "[sample_default ?org (Some ''prod'') 1, sample_default ?app None 2, sample_default ?app (Some ''prod'') 3]"
  have run: "resolve_default ?rows [?app, ?org] (Some ''prod'') None = Some (sample_default ?app (Some ''prod'') 3)"
    by (simp add: resolve_default_def resolve_rows_def patterns_def pattern_accepts_def sample_default_def
        default_scope_def Let_def)
  moreover have "applies default_scope sd_environment sd_target_type [?app, ?org] (Some ''prod'') None q"
    if "q \<in> set ?rows" for q
    using that by (auto simp: applies_def sample_default_def default_scope_def)
  ultimately show ?thesis
    using resolve_default_most_specific[of ?rows "[?app, ?org]" "Some ''prod''" None] by (simp only: Let_def) simp
qed

text \<open>
  \<open>ResolvePolicy\<close> decides by the same order. No answer means that no policy row applies, in
  which case the caller proceeds as if the policy were off.
\<close>

lemma resolve_policy_most_specific:
  "case resolve_policy rows ancestors e target of
     None \<Rightarrow> (\<forall>r \<in> set rows. \<not> applies policy_scope po_environment po_target_type ancestors e target r)
   | Some r \<Rightarrow> r \<in> set rows \<and> applies policy_scope po_environment po_target_type ancestors e target r \<and>
       (\<forall>q \<in> set rows. applies policy_scope po_environment po_target_type ancestors e target q \<longrightarrow>
          distance policy_scope po_environment po_target_type ancestors r
            \<le> distance policy_scope po_environment po_target_type ancestors q)"
  unfolding resolve_policy_def by (rule resolve_rows_correct)

section \<open>Shadowing\<close>

record effective_strategy =
  es_strategy :: strategy
  es_origin_scope :: scope_ref
  es_is_inherited :: bool

definition strategy_scope :: "strategy \<Rightarrow> scope_ref" where
  "strategy_scope s = \<lparr>sc_type = sg_scope_type s, sc_id = sg_scope_id s\<rparr>"

text \<open>The body of the inner loop of \<open>EffectiveList\<close>: the first strategy of a name is kept.\<close>

definition keep_unseen ::
  "scope_ref \<Rightarrow> scope_ref \<Rightarrow> strategy \<Rightarrow> string set \<times> effective_strategy list \<Rightarrow>
   string set \<times> effective_strategy list" where
  "keep_unseen leaf anc r acc =
     (case acc of (seen, out) \<Rightarrow>
        if sg_name r \<in> seen then (seen, out)
        else (insert (sg_name r) seen,
              out @ [\<lparr>es_strategy = r, es_origin_scope = anc, es_is_inherited = (anc \<noteq> leaf)\<rparr>]))"

definition effective_strategies :: "scope_ref \<Rightarrow> scope_ref list \<Rightarrow> strategy list \<Rightarrow> effective_strategy list" where
  "effective_strategies leaf ancestors rows =
     snd (fold (\<lambda>anc. fold (keep_unseen leaf anc) (filter (\<lambda>r. strategy_scope r = anc) rows))
            ancestors ({}, []))"

text \<open>The two nested loops visit the rows as one loop over the rows in order of their scopes.\<close>

definition by_ancestor :: "scope_ref list \<Rightarrow> strategy list \<Rightarrow> strategy list" where
  "by_ancestor ancestors rows = concat (map (\<lambda>anc. filter (\<lambda>r. strategy_scope r = anc) rows) ancestors)"

definition effective_of :: "scope_ref \<Rightarrow> strategy \<Rightarrow> effective_strategy" where
  "effective_of leaf r = \<lparr>es_strategy = r, es_origin_scope = strategy_scope r,
                           es_is_inherited = (strategy_scope r \<noteq> leaf)\<rparr>"

fun first_of_name :: "string set \<Rightarrow> strategy list \<Rightarrow> strategy list" where
  "first_of_name seen [] = []"
| "first_of_name seen (r # rs) =
     (if sg_name r \<in> seen then first_of_name seen rs
      else r # first_of_name (insert (sg_name r) seen) rs)"

lemma fold_keep_unseen:
  assumes "\<forall>r \<in> set rs. strategy_scope r = anc"
  shows "fold (keep_unseen leaf anc) rs (seen, out) =
    (seen \<union> sg_name ` set rs, out @ map (effective_of leaf) (first_of_name seen rs))"
  using assms by (induction rs arbitrary: seen out) (auto simp: keep_unseen_def effective_of_def)

lemma first_of_name_append:
  "first_of_name seen (rs @ qs) = first_of_name seen rs @ first_of_name (seen \<union> sg_name ` set rs) qs"
  by (induction rs arbitrary: seen) (auto simp: insert_absorb)

lemma effective_flat:
  "effective_strategies leaf ancestors rows =
     map (effective_of leaf) (first_of_name {} (by_ancestor ancestors rows))"
proof -
  have "fold (\<lambda>anc. fold (keep_unseen leaf anc) (filter (\<lambda>r. strategy_scope r = anc) rows)) ancestors (seen, out) =
    (seen \<union> sg_name ` set (by_ancestor ancestors rows),
     out @ map (effective_of leaf) (first_of_name seen (by_ancestor ancestors rows)))" for seen out
  proof (induction ancestors arbitrary: seen out)
    case (Cons anc ancestors)
    have "\<forall>r \<in> set (filter (\<lambda>r. strategy_scope r = anc) rows). strategy_scope r = anc" by simp
    from fold_keep_unseen[OF this] Cons show ?case
      by (simp add: by_ancestor_def first_of_name_append Un_assoc image_Un)
  qed (simp add: by_ancestor_def)
  then show ?thesis by (simp add: effective_strategies_def)
qed

lemma first_of_name_names:
  "distinct (map sg_name (first_of_name seen rs)) \<and>
   sg_name ` set (first_of_name seen rs) = sg_name ` set rs - seen"
  by (induction seen rs rule: first_of_name.induct) auto

lemma first_of_name_first:
  "r \<in> set (first_of_name seen rs) \<Longrightarrow>
   \<exists>ps qs. rs = ps @ r # qs \<and> sg_name r \<notin> sg_name ` set ps \<union> seen"
proof (induction seen rs rule: first_of_name.induct)
  case (2 seen q rs)
  show ?case
  proof (cases "sg_name q \<in> seen")
    case True
    with 2 obtain ps qs where "rs = ps @ r # qs" "sg_name r \<notin> sg_name ` set ps \<union> seen" by auto
    with True show ?thesis by (intro exI[of _ "q # ps"] exI[of _ qs]) auto
  next
    case False
    show ?thesis
    proof (cases "r = q")
      case True
      with False show ?thesis by (intro exI[of _ "[]"] exI[of _ rs]) auto
    next
      case neq: False
      with 2 False obtain ps qs where "rs = ps @ r # qs"
        "sg_name r \<notin> sg_name ` set ps \<union> insert (sg_name q) seen" by auto
      then show ?thesis by (intro exI[of _ "q # ps"] exI[of _ qs]) auto
    qed
  qed
qed simp

lemma append_split:
  assumes "bs @ rest = ps @ r # qs" and "r \<notin> set bs"
  obtains us where "ps = bs @ us" "rest = us @ r # qs"
proof -
  from assms(1) obtain us where "bs = ps @ us \<and> us @ rest = r # qs \<or> bs @ us = ps \<and> rest = us @ r # qs"
    by (auto simp: append_eq_append_conv2)
  then show thesis
  proof
    assume "bs = ps @ us \<and> us @ rest = r # qs"
    with assms(2) show thesis by (cases us) (auto intro: that[of "[]"])
  qed (auto intro: that)
qed

lemma by_ancestor_order:
  assumes "by_ancestor ancestors rows = ps @ r # qs" and "q \<in> set rows"
    and "sg_name q \<notin> sg_name ` set ps" and "strategy_scope q \<in> set ancestors"
  shows "index_where (\<lambda>a. a = strategy_scope r) ancestors \<le> index_where (\<lambda>a. a = strategy_scope q) ancestors"
  using assms
proof (induction ancestors arbitrary: ps)
  case (Cons anc ancestors)
  let ?b = "filter (\<lambda>r. strategy_scope r = anc) rows"
  show ?case
  proof (cases "strategy_scope r = anc")
    case False
    from Cons.prems(1) have app: "?b @ by_ancestor ancestors rows = ps @ r # qs" by (simp add: by_ancestor_def)
    with False have "r \<notin> set ?b" by simp
    with app obtain us where us: "ps = ?b @ us" "by_ancestor ancestors rows = us @ r # qs"
      by (rule append_split)
    from us(1) Cons.prems(2,3) have "strategy_scope q \<noteq> anc" by auto
    with False Cons.IH[OF us(2)] Cons.prems us(1) show ?thesis by auto
  qed simp
qed simp

text \<open>
  \<open>EffectiveList\<close> shows every name that some ancestor scope defines exactly once; the
  strategy shown is one of the scope nearest to the leaf among those that define the name,
  reported with that scope and marked as inherited unless the scope is the leaf itself.
\<close>

theorem effective_list_shadows:
  assumes "e \<in> set (effective_strategies leaf ancestors rows)"
  shows "distinct (map (sg_name \<circ> es_strategy) (effective_strategies leaf ancestors rows)) \<and>
    (sg_name \<circ> es_strategy) ` set (effective_strategies leaf ancestors rows) =
      sg_name ` {r \<in> set rows. strategy_scope r \<in> set ancestors} \<and>
    es_strategy e \<in> set rows \<and> es_origin_scope e = strategy_scope (es_strategy e) \<and>
    es_origin_scope e \<in> set ancestors \<and> es_is_inherited e = (es_origin_scope e \<noteq> leaf) \<and>
    (\<forall>q \<in> set rows. sg_name q = sg_name (es_strategy e) \<and> strategy_scope q \<in> set ancestors \<longrightarrow>
       index_where (\<lambda>a. a = es_origin_scope e) ancestors
         \<le> index_where (\<lambda>a. a = strategy_scope q) ancestors)"
proof -
  let ?rs = "by_ancestor ancestors rows"
  have set_rs: "set ?rs = {r \<in> set rows. strategy_scope r \<in> set ancestors}" by (auto simp: by_ancestor_def)
  have comp: "sg_name (es_strategy (effective_of leaf r)) = sg_name r" for r by (simp add: effective_of_def)
  have "distinct (map (sg_name \<circ> es_strategy) (effective_strategies leaf ancestors rows))"
    using first_of_name_names[of "{}" ?rs] by (simp add: effective_flat comp comp_def)
  moreover have "(sg_name \<circ> es_strategy) ` set (effective_strategies leaf ancestors rows) = sg_name ` set ?rs"
    using first_of_name_names[of "{}" ?rs] by (simp add: effective_flat image_image comp)
  moreover from assms obtain r where e: "e = effective_of leaf r" and r: "r \<in> set (first_of_name {} ?rs)"
    by (auto simp: effective_flat)
  from first_of_name_first[OF r] obtain ps qs where
    ps: "?rs = ps @ r # qs" "sg_name r \<notin> sg_name ` set ps" by auto
  then have "r \<in> set ?rs" by simp
  moreover have "index_where (\<lambda>a. a = strategy_scope r) ancestors \<le> index_where (\<lambda>a. a = strategy_scope q) ancestors"
    if "q \<in> set rows" "sg_name q = sg_name r" "strategy_scope q \<in> set ancestors" for q
    using by_ancestor_order[OF ps(1) that(1) _ that(3)] ps(2) that(2) by simp
  ultimately show ?thesis by (simp add: set_rs e effective_of_def)
qed

theorem effective_list_shadows_witness:
  "let app = \<lparr>sc_type = ScopeApp, sc_id = 5\<rparr>; org = \<lparr>sc_type = ScopeOrg, sc_id = 9\<rparr>;
       near = sample_strategy [sample_step (Fin 100)];
       far = near\<lparr>sg_scope_type := ScopeOrg, sg_scope_id := 9\<rparr>;
       e = \<lparr>es_strategy = near, es_origin_scope = app, es_is_inherited = False\<rparr>
   in distinct (map (sg_name \<circ> es_strategy) (effective_strategies app [app, org] [far, near])) \<and>
      es_origin_scope e = app"
proof -
  let ?app = "\<lparr>sc_type = ScopeApp, sc_id = 5\<rparr>" and ?org = "\<lparr>sc_type = ScopeOrg, sc_id = 9\<rparr>"
  let ?near = "sample_strategy [sample_step (Fin 100)]"
  let ?far = "?near\<lparr>sg_scope_type := ScopeOrg, sg_scope_id := 9\<rparr>"
  let ?e = "\<lparr>es_strategy = ?near, es_origin_scope = ?app, es_is_inherited = False\<rparr>"
  have "?e \<in> set (effective_strategies ?app [?app, ?org] [?far, ?near])"
    by (simp add: effective_strategies_def keep_unseen_def strategy_scope_def sample_strategy_def)
  from effective_list_shadows[OF this, THEN conjunct1] show ?thesis
    by (simp only: Let_def effective_strategy.simps simp_thms)
qed

end
