(* ===== verification/FlagModel.thy ===== *)
theory FlagModel
  imports Prelude
begin

text \<open>
  Feature flags, targeting rules, segments and the states per environment
  (\<open>internal/models/flag.go\<close>, \<open>segment.go\<close>, \<open>flag_environment_state.go\<close>), with their
  validation.
\<close>

section \<open>Data\<close>

datatype flag_type = FlagTypeBoolean | FlagTypeString | FlagTypeInteger | FlagTypeJSON | FlagTypeText string

datatype flag_category = FlagCategoryUnset | FlagCategoryRelease | FlagCategoryFeature
  | FlagCategoryExperiment | FlagCategoryOps | FlagCategoryPermission | FlagCategoryText string

datatype rule_type = RuleTypePercentage | RuleTypeUserTarget | RuleTypeAttribute | RuleTypeSegment
  | RuleTypeSchedule | RuleTypeCompound | RuleTypeText string

datatype lifecycle_test_status = LifecycleTestPending | LifecycleTestPass | LifecycleTestFail
  | LifecycleTestText string

record feature_flag =
  ff_id :: uuid
  ff_project_id :: uuid
  ff_application_id :: "uuid option"
  ff_environment_id :: "uuid option"
  ff_key :: string
  ff_name :: string
  ff_description :: string
  ff_flag_type :: flag_type
  ff_category :: flag_category
  ff_purpose :: string
  ff_owners :: "string list"
  ff_is_permanent :: bool
  ff_expires_at :: "time option"
  ff_enabled :: bool
  ff_default_value :: string
  ff_archived :: bool
  ff_archived_at :: "time option"
  ff_tags :: "string list"
  ff_created_by :: uuid
  ff_created_at :: time
  ff_updated_at :: time
  ff_delete_after :: "time option"
  ff_smoke_test_status :: "lifecycle_test_status option"
  ff_user_test_status :: "lifecycle_test_status option"
  ff_scheduled_removal_at :: "time option"
  ff_iteration_count :: int
  ff_iteration_exhausted :: bool
  ff_last_smoke_test_notes :: "string option"
  ff_last_user_test_notes :: "string option"

record compound_condition =
  cc_attribute :: string
  cc_operator :: string
  cc_value :: string

record targeting_rule =
  tg_id :: uuid
  tg_flag_id :: uuid
  tg_rule_type :: rule_type
  tg_priority :: int
  tg_value :: string
  tg_percentage :: "int option"
  tg_attribute :: string
  tg_operator :: string
  tg_target_values :: "string list"
  tg_segment_id :: "uuid option"
  tg_conditions :: "compound_condition list"
  tg_combine_op :: string
  tg_start_time :: "time option"
  tg_end_time :: "time option"
  tg_enabled :: bool
  tg_created_at :: time
  tg_updated_at :: time

record rule_environment_state =
  rs_id :: uuid
  rs_rule_id :: uuid
  rs_environment_id :: uuid
  rs_enabled :: bool
  rs_created_at :: time
  rs_updated_at :: time

record flag_environment_state =
  fs_id :: uuid
  fs_flag_id :: uuid
  fs_environment_id :: uuid
  fs_enabled :: bool
  fs_value :: "string option"
  fs_updated_by :: "uuid option"
  fs_updated_at :: time

record segment_condition =
  sq_id :: uuid
  sq_segment_id :: uuid
  sq_attribute :: string
  sq_operator :: string
  sq_value :: string
  sq_priority :: int
  sq_created_at :: time

record segment =
  sm_id :: uuid
  sm_project_id :: uuid
  sm_key :: string
  sm_name :: string
  sm_description :: string
  sm_combine_op :: string
  sm_conditions :: "segment_condition list"
  sm_created_at :: time
  sm_updated_at :: time

text \<open>What a caller tells about the user; the attribute map may be nil.\<close>

record evaluation_context =
  ec_user_id :: string
  ec_org_id :: string
  ec_attributes :: "(string \<rightharpoonup> string) option"

record evaluation_result =
  er_flag_key :: string
  er_enabled :: bool
  er_value :: string
  er_reason :: string
  er_rule_id :: "uuid option"

section \<open>Validation\<close>

datatype flag_invalid =
    FlagProjectRequired | FlagKeyRequired | FlagKeyTooLong | FlagNameRequired | FlagTypeUnsupported
  | FlagCategoryUnsupported | FlagApplicationRequired | FlagExpirationRequired

definition validate_flag :: "feature_flag \<Rightarrow> flag_invalid option" where
  "validate_flag f =
     (if ff_project_id f = uuid_nil then Some FlagProjectRequired
      else if ff_key f = '''' then Some FlagKeyRequired
      else if length (ff_key f) > 200 then Some FlagKeyTooLong
      else if ff_name f = '''' then Some FlagNameRequired
      else if ff_flag_type f \<notin> {FlagTypeBoolean, FlagTypeString, FlagTypeInteger, FlagTypeJSON}
        then Some FlagTypeUnsupported
      else if ff_category f \<notin> {FlagCategoryRelease, FlagCategoryFeature, FlagCategoryExperiment,
                 FlagCategoryOps, FlagCategoryPermission, FlagCategoryUnset}
        then Some FlagCategoryUnsupported
      else if ff_category f = FlagCategoryRelease \<and> ff_application_id f = None
        then Some FlagApplicationRequired
      else if \<not> ff_is_permanent f \<and> ff_expires_at f = None \<and> ff_category f = FlagCategoryRelease
        then Some FlagExpirationRequired
      else None)"

datatype rule_invalid =
    RuleFlagRequired | RulePercentageRequired | RulePercentageRange | RuleTargetsRequired
  | RuleAttributeRequired | RuleOperatorRequired | RuleSegmentRequired | RuleWindowRequired
  | RuleTypeUnsupported

definition validate_rule :: "targeting_rule \<Rightarrow> rule_invalid option" where
  "validate_rule r =
     (if tg_flag_id r = uuid_nil then Some RuleFlagRequired
      else case tg_rule_type r of
        RuleTypePercentage \<Rightarrow>
          (case tg_percentage r of
             None \<Rightarrow> Some RulePercentageRequired
           | Some p \<Rightarrow> if p < 0 \<or> p > 100 then Some RulePercentageRange else None)
      | RuleTypeUserTarget \<Rightarrow> if tg_target_values r = [] then Some RuleTargetsRequired else None
      | RuleTypeAttribute \<Rightarrow>
          if tg_attribute r = '''' then Some RuleAttributeRequired
          else if tg_operator r = '''' then Some RuleOperatorRequired else None
      | RuleTypeSegment \<Rightarrow> if tg_segment_id r = None then Some RuleSegmentRequired else None
      | RuleTypeSchedule \<Rightarrow>
          if tg_start_time r = None \<or> tg_end_time r = None then Some RuleWindowRequired else None
      | RuleTypeCompound \<Rightarrow> Some RuleTypeUnsupported
      | RuleTypeText _ \<Rightarrow> Some RuleTypeUnsupported)"

datatype env_state_invalid = StateFlagRequired | StateEnvironmentRequired

definition validate_env_state :: "flag_environment_state \<Rightarrow> env_state_invalid option" where
  "validate_env_state s =
     (if fs_flag_id s = uuid_nil then Some StateFlagRequired
      else if fs_environment_id s = uuid_nil then Some StateEnvironmentRequired
      else None)"

end
