(* ===== verification/FlagTargeting.thy ===== *)
theory FlagTargeting
  imports FlagModel Float64 "HOL-Library.Sublist"
begin

text \<open>
  The targeting rules as functions of the evaluation context
  (\<open>internal/flags/targeting.go\<close>, and \<open>HashPercentage\<close> of \<open>evaluator.go\<close>). A Go string is its
  list of bytes. What the code takes from the standard library is defined first: SHA-256,
  \<open>strings.Split\<close>, \<open>TrimSpace\<close> and \<open>Contains\<close>, and \<open>strconv.ParseFloat\<close>.
\<close>

section \<open>SHA-256\<close>

type_synonym word32 = "32 word"

fun root_bits :: "nat \<Rightarrow> int \<Rightarrow> int \<Rightarrow> nat \<Rightarrow> int" where
  "root_bits k n r 0 = r"
| "root_bits k n r (Suc b) = root_bits k n (if (r + 2 ^ b) ^ k \<le> n then r + 2 ^ b else r) b"

definition first_primes :: "nat \<Rightarrow> int list" where
  "first_primes m = take m (filter (\<lambda>n. list_all (\<lambda>d. n mod d \<noteq> 0) [2 .. n - 1]) [2 .. 320])"

text \<open>The first 32 fractional bits of the k-th root of a small number.\<close>

definition root_fraction :: "nat \<Rightarrow> int \<Rightarrow> word32" where
  "root_fraction k p = word_of_int (root_bits k (p * 2 ^ (32 * k)) 0 37)"

definition sha_k :: "word32 list" where
  "sha_k = map (root_fraction 3) (first_primes 64)"

definition sha_init :: "word32 list" where
  "sha_init = map (root_fraction 2) (first_primes 8)"

definition rotr :: "nat \<Rightarrow> word32 \<Rightarrow> word32" where
  "rotr n x = drop_bit n x OR push_bit (32 - n) x"

text \<open>The message schedule, kept with its latest word first.\<close>

fun sha_extend :: "nat \<Rightarrow> word32 list \<Rightarrow> word32 list" where
  "sha_extend 0 ws = rev ws"
| "sha_extend (Suc n) ws =
     (let x = ws ! 1; y = ws ! 14;
          s1 = rotr 17 x XOR rotr 19 x XOR drop_bit 10 x;
          s0 = rotr 7 y XOR rotr 18 y XOR drop_bit 3 y
      in sha_extend n ((s1 + ws ! 6 + s0 + ws ! 15) # ws))"

fun sha_round :: "word32 \<times> word32 \<Rightarrow> word32 list \<Rightarrow> word32 list" where
  "sha_round (k, w) [a, b, c, d, e, f, g, h] =
     (let t1 = h + (rotr 6 e XOR rotr 11 e XOR rotr 25 e) + ((e AND f) XOR (NOT e AND g)) + k + w;
          t2 = (rotr 2 a XOR rotr 13 a XOR rotr 22 a) + ((a AND b) XOR (a AND c) XOR (b AND c))
      in [t1 + t2, a, b, c, d + t1, e, f, g])"
| "sha_round _ st = st"

definition sha_block :: "word32 list \<Rightarrow> word32 list \<Rightarrow> word32 list" where
  "sha_block ws st = map2 (+) st (fold sha_round (zip sha_k (sha_extend 48 (rev ws))) st)"

fun words_of_bytes :: "8 word list \<Rightarrow> word32 list" where
  "words_of_bytes (a # b # c # d # bs) =
     (push_bit 24 (ucast a) OR push_bit 16 (ucast b) OR push_bit 8 (ucast c) OR ucast d) # words_of_bytes bs"
| "words_of_bytes _ = []"

definition sha_pad :: "8 word list \<Rightarrow> 8 word list" where
  "sha_pad bs =
     (let n = length bs; zeros = (119 - n mod 64) mod 64
      in bs @ [0x80] @ replicate zeros 0 @
         map (\<lambda>i. word_of_int (8 * int n div 256 ^ i)) [7, 6, 5, 4, 3, 2, 1, 0])"

fun sha_blocks :: "nat \<Rightarrow> word32 list \<Rightarrow> word32 list \<Rightarrow> word32 list" where
  "sha_blocks 0 ws st = st"
| "sha_blocks (Suc n) ws st = sha_blocks n (drop 16 ws) (sha_block (take 16 ws) st)"

definition bytes_of_string :: "string \<Rightarrow> 8 word list" where
  "bytes_of_string s = map (\<lambda>c. word_of_int (of_char c)) s"

text \<open>The digest as eight words, most significant first.\<close>

definition sha256 :: "string \<Rightarrow> word32 list" where
  "sha256 s = (let ws = words_of_bytes (sha_pad (bytes_of_string s))
               in sha_blocks (length ws div 16) ws sha_init)"

section \<open>Strings\<close>

abbreviation code_of :: "char \<Rightarrow> nat" where "code_of c \<equiv> of_char c"

text \<open>\<open>strings.Split(s, ",")\<close>: one more piece than there are separators.\<close>

fun split_on :: "char \<Rightarrow> string \<Rightarrow> string list" where
  "split_on sep [] = [[]]"
| "split_on sep (c # cs) =
     (if c = sep then [] # split_on sep cs
      else case split_on sep cs of [] \<Rightarrow> [[c]] | p # ps \<Rightarrow> (c # p) # ps)"

text \<open>The UTF-8 encodings of the characters \<open>unicode.IsSpace\<close> accepts.\<close>

definition space_codes :: "nat list list" where
  "space_codes = map (\<lambda>b. [b]) [9, 10, 11, 12, 13, 32] @
     [[0xC2, 0x85], [0xC2, 0xA0], [0xE1, 0x9A, 0x80], [0xE2, 0x80, 0xA8], [0xE2, 0x80, 0xA9],
      [0xE2, 0x80, 0xAF], [0xE2, 0x81, 0x9F], [0xE3, 0x80, 0x80]] @
     map (\<lambda>b. [0xE2, 0x80, b]) [0x80 ..< 0x8B]"

function trim_left :: "nat list list \<Rightarrow> string \<Rightarrow> string" where
  "trim_left codes s =
     (case find (\<lambda>code. code \<noteq> [] \<and> prefix code (map code_of s)) codes of
        None \<Rightarrow> s
      | Some code \<Rightarrow> trim_left codes (drop (length code) s))"
  by pat_completeness auto

termination
proof (relation "measure (length \<circ> snd)")
  fix codes s code assume "find (\<lambda>code. code \<noteq> [] \<and> prefix code (map code_of s)) codes = Some code"
  then have "code \<noteq> []" "prefix code (map code_of s)" by (auto simp: find_Some_iff)
  then show "((codes, drop (length code) s), (codes, s)) \<in> measure (length \<circ> snd)"
    using prefix_length_le[of code "map code_of s"] by (cases s) auto
qed simp

declare trim_left.simps [simp del]

definition trim_space :: "string \<Rightarrow> string" where
  "trim_space s = rev (trim_left (map rev space_codes) (rev (trim_left space_codes s)))"

definition contains :: "string \<Rightarrow> string \<Rightarrow> bool" where
  "contains s t = list_ex (prefix t) (suffixes s)"

section \<open>Numbers\<close>

definition lower_code :: "char \<Rightarrow> nat" where
  "lower_code c = (let n = code_of c in if 65 \<le> n \<and> n \<le> 90 then n + 32 else n)"

definition equal_ignoring_case :: "string \<Rightarrow> string \<Rightarrow> bool" where
  "equal_ignoring_case s t = (map lower_code s = map lower_code t)"

definition digit_value :: "int \<Rightarrow> char \<Rightarrow> int option" where
  "digit_value base c =
     (let n = lower_code c
      in if 48 \<le> n \<and> n \<le> 57 then Some (int n - 48)
         else if base = 16 \<and> 97 \<le> n \<and> n \<le> 102 then Some (int n - 87) else None)"

text \<open>
  The mantissa: whether a digit was seen, the digits as a number, how many came after the
  point, and the rest of the text.
\<close>

fun scan_mantissa :: "int \<Rightarrow> bool \<Rightarrow> bool \<Rightarrow> int \<Rightarrow> nat \<Rightarrow> string \<Rightarrow> bool \<times> int \<times> nat \<times> string" where
  "scan_mantissa base dot seen m fr [] = (seen, m, fr, [])"
| "scan_mantissa base dot seen m fr (c # cs) =
     (if c = CHR ''_'' then scan_mantissa base dot seen m fr cs
      else if c = CHR ''.'' then
        (if dot then (seen, m, fr, c # cs) else scan_mantissa base True seen m fr cs)
      else case digit_value base c of
        Some d \<Rightarrow> scan_mantissa base dot True (m * base + d) (if dot then fr + 1 else fr) cs
      | None \<Rightarrow> (seen, m, fr, c # cs))"

fun scan_exponent :: "int \<Rightarrow> string \<Rightarrow> int \<times> string" where
  "scan_exponent e [] = (e, [])"
| "scan_exponent e (c # cs) =
     (if c = CHR ''_'' then scan_exponent e cs
      else case digit_value 10 c of
        Some d \<Rightarrow> scan_exponent (if e < 10000 then e * 10 + d else e) cs
      | None \<Rightarrow> (e, c # cs))"

text \<open>\<open>underscoreOK\<close>: an underscore stands between digits, or after the base prefix.\<close>

datatype last_seen = SawStart | SawDigit | SawUnderscore | SawOther

fun underscores_ok_from :: "bool \<Rightarrow> last_seen \<Rightarrow> string \<Rightarrow> bool" where
  "underscores_ok_from hex saw [] = (saw \<noteq> SawUnderscore)"
| "underscores_ok_from hex saw (c # cs) =
     (if digit_value (if hex then 16 else 10) c \<noteq> None then underscores_ok_from hex SawDigit cs
      else if c = CHR ''_'' then saw = SawDigit \<and> underscores_ok_from hex SawUnderscore cs
      else saw \<noteq> SawUnderscore \<and> underscores_ok_from hex SawOther cs)"

definition drop_sign :: "string \<Rightarrow> string" where
  "drop_sign s = (case s of c # cs \<Rightarrow> if c = CHR ''+'' \<or> c = CHR ''-'' then cs else s | [] \<Rightarrow> [])"

definition base_prefix :: "nat set \<Rightarrow> string \<Rightarrow> bool" where
  "base_prefix letters s = (case s of z # b # _ \<Rightarrow> z = CHR ''0'' \<and> lower_code b \<in> letters | _ \<Rightarrow> False)"

definition underscores_ok :: "string \<Rightarrow> bool" where
  "underscores_ok s =
     (let t = drop_sign s
      in if base_prefix {98, 111, 120} t
         then underscores_ok_from (base_prefix {120} t) SawDigit (drop 2 t)
         else underscores_ok_from False SawStart t)"

definition scale_by :: "int \<Rightarrow> int \<Rightarrow> rat" where
  "scale_by base e = (if 0 \<le> e then of_int (base ^ nat e) else 1 / of_int (base ^ nat (- e)))"

text \<open>The number a text denotes, if it is one: the mantissa scaled, rounded at the end.\<close>

definition read_number :: "string \<Rightarrow> f64 option" where
  "read_number s =
     (let t = drop_sign s;
          hex = base_prefix {120} t \<and> length t > 2;
          base = (if hex then 16 else 10)
      in case scan_mantissa base False False 0 0 (if hex then drop 2 t else t) of
           (seen, m, fr, rest) \<Rightarrow>
             let value = (\<lambda>e. round64 (of_int (if take 1 s = ''-'' then - m else m) *
                   (if hex then pow2 (e - 4 * int fr) else scale_by 10 (e - int fr))))
             in if \<not> seen then None
                else case rest of
                  [] \<Rightarrow> if hex \<or> \<not> underscores_ok s then None else Some (value 0)
                | c # cs \<Rightarrow>
                    if lower_code c \<noteq> (if hex then 112 else 101) then None
                    else let ds = drop_sign cs
                         in if ds = [] \<or> digit_value 10 (hd ds) = None then None
                            else (case scan_exponent 0 ds of
                              (e, rest') \<Rightarrow>
                                if rest' \<noteq> [] \<or> \<not> underscores_ok s then None
                                else Some (value (if take 1 cs = ''-'' then - e else e))))"

text \<open>\<open>strconv.ParseFloat(s, 64)\<close>; a number out of range is an error like malformed text.\<close>

definition parse_float :: "string \<Rightarrow> f64 option" where
  "parse_float s =
     (if equal_ignoring_case s ''nan'' then Some NaN
      else if list_ex (\<lambda>t. equal_ignoring_case s t \<or> equal_ignoring_case s (CHR ''+'' # t)) [''inf'', ''infinity'']
        then Some PosInf
      else if list_ex (\<lambda>t. equal_ignoring_case s (CHR ''-'' # t)) [''inf'', ''infinity''] then Some NegInf
      else case read_number s of Some (Fin x) \<Rightarrow> Some (Fin x) | _ \<Rightarrow> None)"

definition compare_numeric :: "string \<Rightarrow> string \<Rightarrow> int" where
  "compare_numeric a b =
     (case (parse_float a, parse_float b) of
        (Some av, Some bv) \<Rightarrow> if flt av bv then -1 else if fgt av bv then 1 else 0
      | _ \<Rightarrow> 0)"

section \<open>The rules\<close>

text \<open>\<open>HashPercentage\<close>: the first 32 bits of the digest modulo 100.\<close>

definition hash_percentage :: "string \<Rightarrow> string \<Rightarrow> int" where
  "hash_percentage flag_key user_id = uint (hd (sha256 (flag_key @ '':'' @ user_id)) mod 100)"

definition evaluate_percentage_rule :: "targeting_rule \<Rightarrow> evaluation_context \<Rightarrow> string \<Rightarrow> bool" where
  "evaluate_percentage_rule r ctx flag_key =
     (case tg_percentage r of
        None \<Rightarrow> False
      | Some p \<Rightarrow> if ec_user_id ctx = '''' then False
                  else hash_percentage flag_key (ec_user_id ctx) < p)"

definition evaluate_user_target_rule :: "targeting_rule \<Rightarrow> evaluation_context \<Rightarrow> bool" where
  "evaluate_user_target_rule r ctx =
     (if ec_user_id ctx = '''' then False
      else list_ex (\<lambda>target. ec_user_id ctx = target) (tg_target_values r))"

definition attribute_operator :: "string \<Rightarrow> string \<Rightarrow> string \<Rightarrow> bool" where
  "attribute_operator opr attr_value rule_value =
     (if opr = ''eq'' then attr_value = rule_value
      else if opr = ''neq'' then attr_value \<noteq> rule_value
      else if opr = ''contains'' then contains attr_value rule_value
      else if opr = ''starts_with'' then prefix rule_value attr_value
      else if opr = ''ends_with'' then suffix rule_value attr_value
      else if opr = ''in'' then list_ex (\<lambda>v. trim_space v = attr_value) (split_on (CHR '','') rule_value)
      else if opr = ''not_in'' then \<not> list_ex (\<lambda>v. trim_space v = attr_value) (split_on (CHR '','') rule_value)
      else if opr = ''gt'' then compare_numeric attr_value rule_value > 0
      else if opr = ''gte'' then compare_numeric attr_value rule_value \<ge> 0
      else if opr = ''lt'' then compare_numeric attr_value rule_value < 0
      else if opr = ''lte'' then compare_numeric attr_value rule_value \<le> 0
      else False)"

definition attribute_matches :: "string \<Rightarrow> string \<Rightarrow> string \<Rightarrow> evaluation_context \<Rightarrow> bool" where
  "attribute_matches attribute opr rule_value ctx =
     (case ec_attributes ctx of
        None \<Rightarrow> False
      | Some attrs \<Rightarrow>
          (case attrs attribute of
             None \<Rightarrow> False
           | Some attr_value \<Rightarrow> attribute_operator opr attr_value rule_value))"

definition evaluate_attribute_rule :: "targeting_rule \<Rightarrow> evaluation_context \<Rightarrow> bool" where
  "evaluate_attribute_rule r ctx = attribute_matches (tg_attribute r) (tg_operator r) (tg_value r) ctx"

definition evaluate_schedule_rule :: "targeting_rule \<Rightarrow> time \<Rightarrow> bool" where
  "evaluate_schedule_rule r now =
     (if (case tg_start_time r of None \<Rightarrow> False | Some st \<Rightarrow> now < st) then False
      else if (case tg_end_time r of None \<Rightarrow> False | Some en \<Rightarrow> now > en) then False
      else True)"

text \<open>A combination is text: anything but the two operators combines nothing.\<close>

fun evaluate_conditions_from :: "string \<Rightarrow> evaluation_context \<Rightarrow> compound_condition list \<Rightarrow> bool" where
  "evaluate_conditions_from opr ctx [] = (opr = ''AND'')"
| "evaluate_conditions_from opr ctx (c # cs) =
     (let matched = attribute_matches (cc_attribute c) (cc_operator c) (cc_value c) ctx
      in if opr = ''AND'' \<and> \<not> matched then False
         else if opr = ''OR'' \<and> matched then True
         else evaluate_conditions_from opr ctx cs)"

definition evaluate_conditions :: "compound_condition list \<Rightarrow> string \<Rightarrow> evaluation_context \<Rightarrow> bool" where
  "evaluate_conditions conditions opr ctx =
     (if conditions = [] then opr = ''AND'' else evaluate_conditions_from opr ctx conditions)"

section \<open>Audiences and comparisons\<close>

text \<open>The users a percentage rule serves at a percentage.\<close>

definition audience :: "targeting_rule \<Rightarrow> evaluation_context \<Rightarrow> string \<Rightarrow> int \<Rightarrow> string set" where
  "audience r ctx key p =
     {u. evaluate_percentage_rule (r\<lparr>tg_percentage := Some p\<rparr>) (ctx\<lparr>ec_user_id := u\<rparr>) key}"

lemma hash_percentage_range: "0 \<le> hash_percentage key u \<and> hash_percentage key u < 100"
proof -
  have "hash_percentage key u = uint (hd (sha256 (key @ '':'' @ u))) mod 100"
    by (simp add: hash_percentage_def uint_mod_distrib)
  then show ?thesis by simp
qed

lemma audience_eq: "audience r ctx key p = {u. u \<noteq> '''' \<and> hash_percentage key u < p}"
  by (auto simp: audience_def evaluate_percentage_rule_def split: if_splits)

definition sample_percentage :: "int \<Rightarrow> targeting_rule" where
  "sample_percentage p = \<lparr>tg_id = 21, tg_flag_id = 11, tg_rule_type = RuleTypePercentage, tg_priority = 1,
     tg_value = ''on'', tg_percentage = Some p, tg_attribute = '''', tg_operator = '''', tg_target_values = [],
     tg_segment_id = None, tg_conditions = [], tg_combine_op = '''', tg_start_time = None, tg_end_time = None,
     tg_enabled = True, tg_created_at = 0, tg_updated_at = 0\<rparr>"

definition sample_visitor :: "string \<Rightarrow> evaluation_context" where
  "sample_visitor u = \<lparr>ec_user_id = u, ec_org_id = '''', ec_attributes = None\<rparr>"

text \<open>
  C6. Every bucket lies between 0 and 99, so that a percentage rule serves nobody at 0 and
  every identified user at 100, and raising the percentage never takes the flag away from a
  user who had it.
\<close>

theorem percentage_audiences:
  "hash_percentage key u \<in> {0..99} \<and> audience r ctx key 0 = {} \<and> audience r ctx key 100 = {u. u \<noteq> ''''} \<and>
   (p \<le> q \<longrightarrow> audience r ctx key p \<subseteq> audience r ctx key q)"
proof (intro conjI impI)
  show "hash_percentage key u \<in> {0..99}" using hash_percentage_range[of key u] by simp
  show "audience r ctx key 0 = {}" "audience r ctx key 100 = {u. u \<noteq> ''''}"
    using hash_percentage_range[of key] by (simp_all add: audience_eq not_less)
  show "audience r ctx key p \<subseteq> audience r ctx key q" if "p \<le> q" using that by (auto simp: audience_eq)
qed

theorem percentage_audiences_witness:
  "audience (sample_percentage 10) (sample_visitor ''ann'') ''beta'' 10 \<subseteq>
   audience (sample_percentage 10) (sample_visitor ''ann'') ''beta'' 20"
  using percentage_audiences[of "''beta''" "''ann''" "sample_percentage 10" "sample_visitor ''ann''" 10 20] by simp

text \<open>
  The four numeric operators compare what the two texts denote; \<open>gte\<close> and \<open>lte\<close> are the
  negations of \<open>lt\<close> and \<open>gt\<close>, so they also match every text that is no number, and NaN.
\<close>

theorem numeric_operators:
  "attribute_operator ''gt'' a b = (\<exists>x y. parse_float a = Some x \<and> parse_float b = Some y \<and> fgt x y) \<and>
   attribute_operator ''lt'' a b = (\<exists>x y. parse_float a = Some x \<and> parse_float b = Some y \<and> flt x y) \<and>
   attribute_operator ''gte'' a b = (\<not> attribute_operator ''lt'' a b) \<and>
   attribute_operator ''lte'' a b = (\<not> attribute_operator ''gt'' a b)"
  by (auto simp: attribute_operator_def compare_numeric_def dest: flt_trans split: option.splits if_splits)

end
