(* ===== verification/Json.thy ===== *)
theory Json
  imports FlagTargeting
begin

text \<open>
  JSON documents and the parts of \<open>encoding/json\<close> the staging layer uses: decoding into
  \<open>any\<close> and encoding again (where every number passes through a \<open>float64\<close>), and decoding the
  members of an object into the fields of a struct. A column of type \<open>jsonb\<close> holds only
  well-formed documents, so a document is its tree; a number keeps the text it is written as.
  Identifiers are parsed by the package \<open>google/uuid\<close>, which is a parameter.
\<close>

datatype json = JNull | JBool bool | JNum string | JStr string | JArr "json list"
  | JObj "(string \<times> json) list"

section \<open>Numbers\<close>

text \<open>
  The shortest decimal that reads back as the number: its digits as an integer and the power
  of ten they are scaled by. With \<open>n\<close> digits there are two candidates, the number cut off and
  the one above.
\<close>

function count_digits :: "int \<Rightarrow> nat" where
  "count_digits n = (if n < 10 then 1 else Suc (count_digits (n div 10)))"
  by pat_completeness auto
termination
  by (relation "measure nat") auto

declare count_digits.simps [simp del]

text \<open>The place of the decimal point: the number is \<open>0.d1d2... * 10 ^ e\<close> with \<open>d1\<close> not zero.\<close>

definition decimal_point :: "rat \<Rightarrow> int" where
  "decimal_point x =
     (case quotient_of x of (p, q) \<Rightarrow>
        let e = int (count_digits p) - int (count_digits q)
        in if scale_by 10 e \<le> x then e + 1 else e)"

fun shortest_from :: "nat \<Rightarrow> nat \<Rightarrow> rat \<Rightarrow> int \<Rightarrow> int \<times> int" where
  "shortest_from 0 n x e = (\<lfloor>x * scale_by 10 (int n - e)\<rfloor>, e - int n)"
| "shortest_from (Suc k) n x e =
     (let y = x * scale_by 10 (int n - e); lo = \<lfloor>y\<rfloor>; hi = lo + 1;
          down = (round64 (of_int lo * scale_by 10 (e - int n)) = Fin x);
          up = (round64 (of_int hi * scale_by 10 (e - int n)) = Fin x)
      in if down \<and> up then (round_half_even y, e - int n)
         else if down then (lo, e - int n)
         else if up then (hi, e - int n)
         else shortest_from k (Suc n) x e)"

function decimal_digits :: "int \<Rightarrow> string" where
  "decimal_digits n =
     (if n < 10 then [char_of (48 + nat n)] else decimal_digits (n div 10) @ [char_of (48 + nat (n mod 10))])"
  by pat_completeness auto
termination
  by (relation "measure nat") auto

declare decimal_digits.simps [simp del]

definition strip_zeros :: "string \<Rightarrow> string" where
  "strip_zeros s = rev (dropWhile (\<lambda>c. c = CHR ''0'') (rev s))"

text \<open>
  The encoder of a \<open>float64\<close>: plain notation between \<open>1e-6\<close> and \<open>1e21\<close>, else scientific with
  an exponent of at least two digits, of which a leading zero is dropped.
\<close>

definition plain_number :: "string \<Rightarrow> int \<Rightarrow> string" where
  "plain_number ds dp =
     (if dp > 0 then take (nat dp) ds @ replicate (nat dp - length ds) CHR ''0'' else ''0'') @
     (if int (length ds) > dp
      then CHR ''.'' # replicate (nat (- dp)) CHR ''0'' @ drop (nat dp) ds else [])"

definition scientific_number :: "string \<Rightarrow> int \<Rightarrow> string" where
  "scientific_number ds dp =
     take 1 ds @ (if length ds > 1 then CHR ''.'' # drop 1 ds else []) @
     ''e'' @ (if dp - 1 < 0 then ''-'' else ''+'') @ decimal_digits \<bar>dp - 1\<bar>"

definition shortest_decimal :: "rat \<Rightarrow> rat" where
  "shortest_decimal x =
     (if x = 0 then 0
      else case shortest_from 17 1 \<bar>x\<bar> (decimal_point \<bar>x\<bar>) of (m, k) \<Rightarrow> sgn x * of_int m * scale_by 10 k)"

definition format_float :: "rat \<Rightarrow> string" where
  "format_float x =
     (if x = 0 then ''0''
      else let a = \<bar>x\<bar>
           in case shortest_from 17 1 a (decimal_point a) of (m, k) \<Rightarrow>
                let all = decimal_digits m; ds = strip_zeros all; dp = int (length all) + k
                in (if x < 0 then ''-'' else '''') @
                   (if flt (Fin a) (round64 (scale_by 10 (-6))) \<or> a \<ge> scale_by 10 21
                    then scientific_number ds dp else plain_number ds dp))"

text \<open>Decoding into \<open>any\<close>: a number out of the range of \<open>float64\<close> is an error.\<close>

definition any_number :: "string \<Rightarrow> string option" where
  "any_number t = (case parse_float t of Some (Fin x) \<Rightarrow> Some (format_float x) | _ \<Rightarrow> None)"

section \<open>Through \<open>any\<close>\<close>

fun those_members :: "(string \<times> json option) list \<Rightarrow> (string \<times> json) list option" where
  "those_members [] = Some []"
| "those_members ((k, v) # ms) =
     (case v of None \<Rightarrow> None | Some x \<Rightarrow> map_option ((#) (k, x)) (those_members ms))"

text \<open>
  What \<open>json.Unmarshal\<close> into \<open>any\<close> followed by \<open>json.Marshal\<close> makes of a document whose strings
  are rewritten on the way.
\<close>

fun through_any :: "(string \<Rightarrow> string) \<Rightarrow> json \<Rightarrow> json option" where
  "through_any f JNull = Some JNull"
| "through_any f (JBool b) = Some (JBool b)"
| "through_any f (JNum t) = map_option JNum (any_number t)"
| "through_any f (JStr s) = Some (JStr (f s))"
| "through_any f (JArr xs) = map_option JArr (those (map (through_any f) xs))"
| "through_any f (JObj ms) =
     map_option JObj (those_members (map (\<lambda>m. (fst m, through_any f (snd m))) ms))"

text \<open>The string leaves of a document; the keys of an object are none.\<close>

fun leaves :: "json \<Rightarrow> string list" where
  "leaves (JStr s) = [s]"
| "leaves (JArr xs) = concat (map leaves xs)"
| "leaves (JObj ms) = concat (map (\<lambda>m. leaves (snd m)) ms)"
| "leaves _ = []"

lemma those_leaves:
  "those (map (through_any f) xs) = Some ys \<Longrightarrow>
   (\<And>x y. x \<in> set xs \<Longrightarrow> through_any f x = Some y \<Longrightarrow> leaves y = map f (leaves x)) \<Longrightarrow>
   concat (map leaves ys) = map f (concat (map leaves xs))"
  by (induction xs arbitrary: ys) (auto split: option.splits)

lemma those_members_leaves:
  "those_members (map (\<lambda>m. (fst m, through_any f (snd m))) ms) = Some ns \<Longrightarrow>
   (\<And>m y. m \<in> set ms \<Longrightarrow> through_any f (snd m) = Some y \<Longrightarrow> leaves y = map f (leaves (snd m))) \<Longrightarrow>
   concat (map (\<lambda>m. leaves (snd m)) ns) = map f (concat (map (\<lambda>m. leaves (snd m)) ms))"
  by (induction ms arbitrary: ns) (auto split: option.splits, blast)

text \<open>Rewriting touches the string leaves and nothing else of the strings.\<close>

lemma leaves_through_any: "through_any f v = Some w \<Longrightarrow> leaves w = map f (leaves v)"
proof (induction f v arbitrary: w rule: through_any.induct)
  case (5 f xs)
  then obtain ys where ys: "those (map (through_any f) xs) = Some ys" "w = JArr ys" by auto
  with those_leaves[OF ys(1)] 5 show ?case by simp
next
  case (6 f ms)
  then obtain ns where ns: "those_members (map (\<lambda>m. (fst m, through_any f (snd m))) ms) = Some ns"
    "w = JObj ns" by auto
  with those_members_leaves[OF ns(1)] 6 show ?case by simp
qed auto

section \<open>Into a struct\<close>

text \<open>
  The name of a member is compared with the name of a field up to the case of letters, where
  the long s and the Kelvin sign count as their letters.
\<close>

fun fold_name :: "nat list \<Rightarrow> nat list" where
  "fold_name (a # b # c # cs) =
     (if a = 0xC5 \<and> b = 0xBF then 115 # fold_name (c # cs)
      else if a = 0xE2 \<and> b = 0x84 \<and> c = 0xAA then 107 # fold_name cs
      else a # fold_name (b # c # cs))"
| "fold_name [a, b] = (if a = 0xC5 \<and> b = 0xBF then [115] else [a, b])"
| "fold_name cs = cs"

definition names_field :: "string \<Rightarrow> string \<Rightarrow> bool" where
  "names_field field k = (fold_name (map lower_code k) = map lower_code field)"

definition field_values :: "string \<Rightarrow> (string \<times> json) list \<Rightarrow> json list" where
  "field_values field ms = map snd (filter (\<lambda>m. names_field field (fst m)) ms)"

text \<open>
  Members are decoded in their order, so the last one stands; \<open>null\<close> leaves a field as it is
  and resets a pointer or a slice. A value of the wrong kind makes the whole decoding fail.
\<close>

definition decode_field :: "(json \<Rightarrow> 'a option) \<Rightarrow> string \<Rightarrow> 'a \<Rightarrow> (string \<times> json) list \<Rightarrow> 'a option" where
  "decode_field dec field zero ms =
     foldl (\<lambda>acc v. if v = JNull then acc else Option.bind acc (\<lambda>_. dec v)) (Some zero) (field_values field ms)"

definition decode_ptr :: "(json \<Rightarrow> 'a option) \<Rightarrow> string \<Rightarrow> (string \<times> json) list \<Rightarrow> 'a option option" where
  "decode_ptr dec field ms =
     foldl (\<lambda>acc v. Option.bind acc (\<lambda>_. if v = JNull then Some None else map_option Some (dec v)))
       (Some None) (field_values field ms)"

definition decode_slice :: "(json \<Rightarrow> 'a option) \<Rightarrow> string \<Rightarrow> (string \<times> json) list \<Rightarrow> 'a list option" where
  "decode_slice dec field ms =
     foldl (\<lambda>acc v. Option.bind acc (\<lambda>_.
         case v of JNull \<Rightarrow> Some [] | JArr xs \<Rightarrow> those (map dec xs) | _ \<Rightarrow> None))
       (Some []) (field_values field ms)"

text \<open>An element that is \<open>null\<close> is the zero value.\<close>

fun as_bool :: "json \<Rightarrow> bool option" where
  "as_bool (JBool b) = Some b"
| "as_bool _ = None"

fun as_string :: "json \<Rightarrow> string option" where
  "as_string (JStr s) = Some s"
| "as_string _ = None"

fun as_string_item :: "json \<Rightarrow> string option" where
  "as_string_item JNull = Some ''''"
| "as_string_item v = as_string v"

fun digits_value :: "int \<Rightarrow> string \<Rightarrow> int option" where
  "digits_value n [] = Some n"
| "digits_value n (c # cs) =
     (case digit_value 10 c of None \<Rightarrow> None | Some d \<Rightarrow> digits_value (n * 10 + d) cs)"

text \<open>\<open>strconv.ParseInt(s, 10, 64)\<close> on a JSON number: no fraction and no exponent.\<close>

definition parse_int64 :: "string \<Rightarrow> int option" where
  "parse_int64 s =
     (let ds = drop_sign s
      in if ds = [] then None
         else case digits_value 0 ds of
           None \<Rightarrow> None
         | Some n \<Rightarrow> let m = (if take 1 s = ''-'' then - n else n)
                     in if m < - (2 ^ 63) \<or> m \<ge> 2 ^ 63 then None else Some m)"

fun as_int :: "json \<Rightarrow> int option" where
  "as_int (JNum t) = parse_int64 t"
| "as_int _ = None"

definition as_uuid :: "(string \<Rightarrow> uuid option) \<Rightarrow> json \<Rightarrow> uuid option" where
  "as_uuid parse v = Option.bind (as_string v) parse"

section \<open>Timestamps\<close>

text \<open>\<open>parseRFC3339\<close>: a field of digits within its bounds.\<close>

definition digits_in :: "int \<Rightarrow> int \<Rightarrow> string \<Rightarrow> int option" where
  "digits_in lo hi s =
     (case digits_value 0 s of None \<Rightarrow> None | Some n \<Rightarrow> if lo \<le> n \<and> n \<le> hi then Some n else None)"

definition leap_year :: "int \<Rightarrow> bool" where
  "leap_year y = (y mod 4 = 0 \<and> (y mod 100 \<noteq> 0 \<or> y mod 400 = 0))"

definition month_days :: "int \<Rightarrow> int list" where
  "month_days y = [31, if leap_year y then 29 else 28, 31, 30, 31, 30, 31, 31, 30, 31, 30, 31]"

text \<open>Days since 0001-01-01; an instant counts from the zero \<open>time.Time\<close>, the start of that day.\<close>

definition days_of_date :: "int \<Rightarrow> int \<Rightarrow> int \<Rightarrow> int" where
  "days_of_date y m d =
     365 * (y - 1) + ((y - 1) div 4 - (y - 1) div 100 + (y - 1) div 400) +
     sum_list (take (nat (m - 1)) (month_days y)) + d - 1"

definition zone_offset :: "string \<Rightarrow> int option" where
  "zone_offset s =
     (if s = ''Z'' then Some 0
      else if length s = 6 \<and> (s ! 0 = CHR ''+'' \<or> s ! 0 = CHR ''-'') \<and> s ! 3 = CHR '':''
      then case (digits_in 0 23 (take 2 (drop 1 s)), digits_in 0 59 (drop 4 s)) of
             (Some h, Some m) \<Rightarrow> Some ((if s ! 0 = CHR ''-'' then -1 else 1) * (h * 3600 + m * 60))
           | _ \<Rightarrow> None
      else None)"

text \<open>A fraction is a point and at least one digit; nine digits count.\<close>

definition fraction_split :: "string \<Rightarrow> string \<times> string" where
  "fraction_split s =
     (if take 1 s = ''.'' \<and> length s \<ge> 2 \<and> digit_value 10 (s ! 1) \<noteq> None
      then (takeWhile (\<lambda>c. digit_value 10 c \<noteq> None) (drop 1 s),
            dropWhile (\<lambda>c. digit_value 10 c \<noteq> None) (drop 1 s))
      else ('''', s))"

definition nanoseconds :: "string \<Rightarrow> int" where
  "nanoseconds ds = (case digits_value 0 (take 9 (ds @ replicate 9 CHR ''0'')) of None \<Rightarrow> 0 | Some n \<Rightarrow> n)"

definition parse_rfc3339 :: "string \<Rightarrow> time option" where
  "parse_rfc3339 s =
     (if length s < 19 \<or> s ! 4 \<noteq> CHR ''-'' \<or> s ! 7 \<noteq> CHR ''-'' \<or> s ! 10 \<noteq> CHR ''T'' \<or>
         s ! 13 \<noteq> CHR '':'' \<or> s ! 16 \<noteq> CHR '':'' then None
      else case (digits_in 0 9999 (take 4 s), digits_in 1 12 (take 2 (drop 5 s))) of
        (Some y, Some mo) \<Rightarrow>
          (case (digits_in 1 (month_days y ! nat (mo - 1)) (take 2 (drop 8 s)),
                 digits_in 0 23 (take 2 (drop 11 s)), digits_in 0 59 (take 2 (drop 14 s)),
                 digits_in 0 59 (take 2 (drop 17 s))) of
             (Some d, Some h, Some mi, Some se) \<Rightarrow>
               (case fraction_split (drop 19 s) of (fr, zone) \<Rightarrow>
                  map_option (\<lambda>off. seconds (days_of_date y mo d * 86400 + h * 3600 + mi * 60 + se - off)
                                     + nanoseconds fr) (zone_offset zone))
           | _ \<Rightarrow> None)
      | _ \<Rightarrow> None)"

definition as_time :: "json \<Rightarrow> time option" where
  "as_time v = Option.bind (as_string v) parse_rfc3339"

lemma decode_field_missing [simp]: "field_values field ms = [] \<Longrightarrow> decode_field dec field zero ms = Some zero"
  by (simp add: decode_field_def)

lemma decode_field_single [simp]:
  "field_values field ms = [v] \<Longrightarrow> v \<noteq> JNull \<Longrightarrow> decode_field dec field zero ms = dec v"
  by (simp add: decode_field_def)

section \<open>Writing timestamps\<close>

text \<open>The date of a day, by cycles of 400, 100, 4 and 1 years.\<close>

fun month_of :: "int \<Rightarrow> int list \<Rightarrow> int \<Rightarrow> int \<times> int" where
  "month_of k [] n = (k, n + 1)"
| "month_of k (d # ds) n = (if n < d then (k, n + 1) else month_of (k + 1) ds (n - d))"

definition date_of_days :: "int \<Rightarrow> int \<times> int \<times> int" where
  "date_of_days n =
     (let r = n mod 146097; c100 = min 3 (r div 36524); r2 = r - c100 * 36524;
          r3 = r2 mod 1461; c1 = min 3 (r3 div 365);
          y = 400 * (n div 146097) + 100 * c100 + 4 * (r2 div 1461) + c1 + 1
      in (y, month_of 1 (month_days y) (r3 - c1 * 365)))"

definition padded :: "nat \<Rightarrow> int \<Rightarrow> string" where
  "padded k n = (let ds = decimal_digits n in replicate (k - length ds) CHR ''0'' @ ds)"

text \<open>\<open>t.UTC().Format(time.RFC3339Nano)\<close>, which drops the trailing zeros of the fraction.\<close>

definition format_rfc3339 :: "time \<Rightarrow> string" where
  "format_rfc3339 t =
     (let secs = t div seconds 1; ns = t mod seconds 1; sod = secs mod 86400
      in case date_of_days (secs div 86400) of (y, m, d) \<Rightarrow>
           padded 4 y @ ''-'' @ padded 2 m @ ''-'' @ padded 2 d @ ''T'' @
           padded 2 (sod div 3600) @ '':'' @ padded 2 (sod div 60 mod 60) @ '':'' @ padded 2 (sod mod 60) @
           (if ns = 0 then '''' else CHR ''.'' # strip_zeros (padded 9 ns)) @ ''Z'')"

end
