(* ===== verification/AuditLog.thy ===== *)
theory AuditLog
  imports Json
begin

text \<open>
  A row of the audit log (\<open>internal/models/audit.go\<close>) with the columns that decide something,
  and the foreign keys of the table (\<open>migrations/008_create_audit_log.up.sql\<close>). A value is
  absent when its text is empty; the writers of the development write well-formed documents.
\<close>

record audit_entry =
  ae_id :: uuid
  ae_org_id :: uuid
  ae_project_id :: uuid
  ae_actor_id :: uuid
  ae_action :: string
  ae_entity_type :: string
  ae_entity_id :: uuid
  ae_old_value :: "json option"
  ae_new_value :: "json option"
  ae_created_at :: time

text \<open>The rows the foreign keys can refer to.\<close>

record audit_refs =
  known_org :: "uuid \<Rightarrow> bool"
  known_project :: "uuid \<Rightarrow> bool"
  known_user :: "uuid \<Rightarrow> bool"

text \<open>
  \<open>WriteAuditLog\<close> passes the three identifiers as they are: a nil one is a value like any
  other, not SQL's NULL, and has to refer to a row.
\<close>

definition audit_row_ok :: "audit_refs \<Rightarrow> audit_entry \<Rightarrow> bool" where
  "audit_row_ok refs e \<longleftrightarrow>
     known_org refs (ae_org_id e) \<and> known_project refs (ae_project_id e) \<and> known_user refs (ae_actor_id e)"

text \<open>Tables whose keys are never the nil identifier.\<close>

definition no_nil_rows :: "audit_refs \<Rightarrow> bool" where
  "no_nil_rows refs \<longleftrightarrow> \<not> known_org refs uuid_nil \<and> \<not> known_project refs uuid_nil \<and> \<not> known_user refs uuid_nil"

definition sample_refs :: audit_refs where
  "sample_refs = \<lparr>known_org = (\<lambda>i. i \<noteq> uuid_nil), known_project = (\<lambda>i. i \<noteq> uuid_nil), known_user = (\<lambda>i. i \<noteq> uuid_nil)\<rparr>"

lemma no_nil_rows_sample [simp]: "no_nil_rows sample_refs"
  by (simp add: no_nil_rows_def sample_refs_def)

end
