(* ===== verification/FlagStore.thy ===== *)
theory FlagStore
  imports DeployRepo AuditLog
begin

text \<open>
  The flag repository (\<open>internal/platform/database/postgres/flags.go\<close>) and the cache in
  front of it (\<open>internal/platform/cache/flagcache/flagcache.go\<close>): the tables the evaluator
  and the rule service read and write, and the three kinds of cache entries. The store
  extends the deployment store, so that the rollout components can drive both.
\<close>

section \<open>Errors and the store\<close>

datatype flag_error =
    FlagNotFound
  | FlagConflict
  | FlagDriver string
  | FlagInvalid flag_invalid
  | RuleInvalid rule_invalid
  | StateInvalid env_state_invalid
  | FlagArchived
  | UnknownRuleType rule_type
  | SegmentIdMissing
  | FlagWrap string flag_error

text \<open>
  A cache entry is keyed by the text the code builds from the identifiers; the identifiers
  determine it, so the maps are keyed by them. An entry may be gone at any read, because
  it expired or because Redis failed: that read is an external call that may fail. The column
  \<open>scheduled_removal_fired_at\<close> is not part of the struct: \<open>removal_fired\<close> holds it for the
  flags that have it.
\<close>

record flag_world = deploy_world +
  feature_flags :: "feature_flag list"
  targeting_rules :: "targeting_rule list"
  rule_states :: "rule_environment_state list"
  flag_states :: "flag_environment_state list"
  segments :: "segment list"
  cached_flags :: "(uuid \<times> uuid \<times> string) \<rightharpoonup> feature_flag"
  cached_flag_keys :: "uuid \<rightharpoonup> uuid \<times> uuid \<times> string"
  cached_rules :: "uuid \<rightharpoonup> targeting_rule list"
  cached_segments :: "uuid \<rightharpoonup> segment"
  removal_fired :: "uuid \<rightharpoonup> time"
  audit_refs :: audit_refs
  audit_log :: "audit_entry list"

type_synonym ('x, 'a) flag_prog = "('x flag_world_scheme, flag_error, 'a) prog"

section \<open>Flags\<close>

text \<open>
  \<open>createFlagOn\<close> lists the columns it inserts and \<open>flagSelectCols\<close> the columns a read
  selects; \<open>application_id\<close> is in neither, so a stored flag has none. A flag that is
  archived when it is created is not stored as archived either.
\<close>

definition stored_flag :: "feature_flag \<Rightarrow> feature_flag" where
  "stored_flag f = f\<lparr>ff_application_id := None,
     ff_default_value := (if ff_default_value f = '''' then ''null'' else ff_default_value f),
     ff_archived := False, ff_archived_at := None, ff_delete_after := None,
     ff_smoke_test_status := None, ff_user_test_status := None, ff_scheduled_removal_at := None,
     ff_iteration_count := 0, ff_iteration_exhausted := False,
     ff_last_smoke_test_notes := None, ff_last_user_test_notes := None\<rparr>"

text \<open>
  What the table refuses: a second row with the same id, or (as no row has an application) with
  the same project and key, which is reported as a conflict, and a category that is not one of
  the five. That the default value is a document, and that the project, the environment and the
  user exist, cannot be seen in this store: a refusal of the database on these grounds is among
  the failures of the call.
\<close>

definition flag_taken :: "uuid \<Rightarrow> feature_flag \<Rightarrow> feature_flag list \<Rightarrow> bool" where
  "flag_taken i f rows \<longleftrightarrow> row_of ff_id i rows \<noteq> None \<or>
     list_ex (\<lambda>g. ff_application_id g = None \<and> ff_project_id g = ff_project_id f \<and> ff_key g = ff_key f) rows"

definition category_storable :: "flag_category \<Rightarrow> bool" where
  "category_storable c \<longleftrightarrow> c \<in> {FlagCategoryRelease, FlagCategoryFeature, FlagCategoryExperiment,
     FlagCategoryOps, FlagCategoryPermission}"

definition create_flag :: "feature_flag \<Rightarrow> ('x, feature_flag) flag_prog" where
  "create_flag f =
     andThen (if ff_id f = uuid_nil then uuid_new else ret (ff_id f)) (\<lambda>i.
     andThen time_now (\<lambda>now.
       let f' = f\<lparr>ff_id := i, ff_created_at := now, ff_updated_at := now\<rparr>
       in andThen (ext_call (FlagDriver ''postgres.CreateFlag'')) (\<lambda>_.
          andThen get_state (\<lambda>w.
            if \<not> category_storable (ff_category f) then fail (FlagDriver ''postgres.CreateFlag'')
            else if flag_taken i f (feature_flags w) then fail FlagConflict
            else andThen (modify (\<lambda>w. w\<lparr>feature_flags := feature_flags w @ [stored_flag f']\<rparr>)) (\<lambda>_.
                 ret f')))))"

definition get_flag :: "uuid \<Rightarrow> ('x, feature_flag) flag_prog" where
  "get_flag i =
     andThen (ext_call (FlagDriver ''postgres.GetFlag'')) (\<lambda>_.
     andThen get_state (\<lambda>w.
       case row_of ff_id i (feature_flags w) of None \<Rightarrow> fail FlagNotFound | Some f \<Rightarrow> ret f))"

text \<open>
  The flag of the environment if there is one, else the flag of no environment
  (\<open>ORDER BY environment_id ASC NULLS LAST LIMIT 1\<close>).
\<close>

definition get_flag_by_key :: "uuid \<Rightarrow> uuid \<Rightarrow> string \<Rightarrow> ('x, feature_flag) flag_prog" where
  "get_flag_by_key project envi key =
     andThen (ext_call (FlagDriver ''postgres.GetFlagByKey'')) (\<lambda>_.
     andThen get_state (\<lambda>w.
       let rows = filter (\<lambda>f. ff_project_id f = project \<and> ff_key f = key) (feature_flags w)
       in case find (\<lambda>f. ff_environment_id f = Some envi) rows of
            Some f \<Rightarrow> ret f
          | None \<Rightarrow> (case find (\<lambda>f. ff_environment_id f = None) rows of
                      Some f \<Rightarrow> ret f
                    | None \<Rightarrow> fail FlagNotFound)))"

text \<open>\<open>UpdateFlag\<close> leaves the identity, the environment, the key and the lifecycle columns alone.\<close>

definition write_flag :: "feature_flag \<Rightarrow> feature_flag \<Rightarrow> feature_flag" where
  "write_flag f row = row\<lparr>ff_name := ff_name f, ff_description := ff_description f,
     ff_flag_type := ff_flag_type f,
     ff_default_value := (if ff_default_value f = '''' then ''null'' else ff_default_value f),
     ff_enabled := ff_enabled f, ff_tags := ff_tags f, ff_category := ff_category f,
     ff_purpose := ff_purpose f, ff_owners := ff_owners f, ff_is_permanent := ff_is_permanent f,
     ff_expires_at := ff_expires_at f, ff_updated_at := ff_updated_at f\<rparr>"

definition update_flag :: "feature_flag \<Rightarrow> ('x, feature_flag) flag_prog" where
  "update_flag f =
     andThen time_now (\<lambda>now.
       let f' = f\<lparr>ff_updated_at := now\<rparr>
       in andThen (ext_call (FlagDriver ''postgres.UpdateFlag'')) (\<lambda>_.
          andThen get_state (\<lambda>w.
            if row_of ff_id (ff_id f) (feature_flags w) = None then fail FlagNotFound
            else andThen (modify (\<lambda>w. w\<lparr>feature_flags :=
                   update_row ff_id (ff_id f) (write_flag f') (feature_flags w)\<rparr>)) (\<lambda>_. ret f'))))"

definition archive_flag :: "uuid \<Rightarrow> ('x, unit) flag_prog" where
  "archive_flag i =
     andThen (ext_call (FlagDriver ''postgres.ArchiveFlag'')) (\<lambda>_.
     andThen time_now (\<lambda>now.
     andThen get_state (\<lambda>w.
       case row_of ff_id i (feature_flags w) of
         None \<Rightarrow> fail FlagNotFound
       | Some f \<Rightarrow>
           if ff_archived f then fail FlagNotFound
           else modify (\<lambda>w. w\<lparr>feature_flags := update_row ff_id i
                  (\<lambda>f. f\<lparr>ff_archived := True, ff_archived_at := Some now\<rparr>) (feature_flags w)\<rparr>))))"

definition unarchive_flag :: "uuid \<Rightarrow> ('x, unit) flag_prog" where
  "unarchive_flag i =
     andThen (ext_call (FlagDriver ''postgres.UnarchiveFlag'')) (\<lambda>_.
     andThen time_now (\<lambda>now.
     andThen get_state (\<lambda>w.
       if row_of ff_id i (feature_flags w) = None then fail FlagNotFound
       else modify (\<lambda>w. w\<lparr>feature_flags := update_row ff_id i
              (\<lambda>f. f\<lparr>ff_archived := False, ff_archived_at := None, ff_updated_at := now\<rparr>)
              (feature_flags w)\<rparr>))))"

section \<open>Rules\<close>

text \<open>Only compound rules keep their conditions and their operator.\<close>

definition stored_rule :: "targeting_rule \<Rightarrow> targeting_rule" where
  "stored_rule r = (if tg_rule_type r = RuleTypeCompound then r
                    else r\<lparr>tg_conditions := [], tg_combine_op := ''''\<rparr>)"

text \<open>The id is the primary key, and the flag has to exist (migration 013).\<close>

definition create_rule :: "targeting_rule \<Rightarrow> ('x, targeting_rule) flag_prog" where
  "create_rule r =
     andThen (if tg_id r = uuid_nil then uuid_new else ret (tg_id r)) (\<lambda>i.
     andThen time_now (\<lambda>now.
       let r' = r\<lparr>tg_id := i, tg_created_at := now, tg_updated_at := now\<rparr>
       in andThen (ext_call (FlagDriver ''postgres.CreateRule'')) (\<lambda>_.
          andThen get_state (\<lambda>w.
            if row_of tg_id i (targeting_rules w) \<noteq> None \<or>
               row_of ff_id (tg_flag_id r) (feature_flags w) = None
            then fail (FlagDriver ''postgres.CreateRule'')
            else andThen (modify (\<lambda>w. w\<lparr>targeting_rules := targeting_rules w @ [stored_rule r']\<rparr>)) (\<lambda>_.
                 ret r')))))"

definition get_rule :: "uuid \<Rightarrow> ('x, targeting_rule) flag_prog" where
  "get_rule i =
     andThen (ext_call (FlagDriver ''postgres.GetRule'')) (\<lambda>_.
     andThen get_state (\<lambda>w.
       case row_of tg_id i (targeting_rules w) of None \<Rightarrow> fail FlagNotFound | Some r \<Rightarrow> ret r))"

text \<open>
  The rules in the order of their priority. Among rules of equal priority the query leaves the
  order open; the order of insertion stands for it.
\<close>

definition rules_of :: "'x flag_world_scheme \<Rightarrow> uuid \<Rightarrow> targeting_rule list" where
  "rules_of w flag_id = sort_key tg_priority (filter (\<lambda>r. tg_flag_id r = flag_id) (targeting_rules w))"

definition list_rules :: "uuid \<Rightarrow> ('x, targeting_rule list) flag_prog" where
  "list_rules flag_id =
     andThen (ext_call (FlagDriver ''postgres.ListRules'')) (\<lambda>_.
     andThen get_state (\<lambda>w. ret (rules_of w flag_id)))"

text \<open>\<open>UpdateRule\<close> keeps the flag and the creation time of the stored row.\<close>

definition write_rule :: "targeting_rule \<Rightarrow> targeting_rule \<Rightarrow> targeting_rule" where
  "write_rule r row =
     (stored_rule r)\<lparr>tg_id := tg_id row, tg_flag_id := tg_flag_id row, tg_created_at := tg_created_at row\<rparr>"

definition update_rule :: "targeting_rule \<Rightarrow> ('x, unit) flag_prog" where
  "update_rule r =
     andThen time_now (\<lambda>now.
     andThen (ext_call (FlagDriver ''postgres.UpdateRule'')) (\<lambda>_.
     andThen get_state (\<lambda>w.
       if row_of tg_id (tg_id r) (targeting_rules w) = None then fail FlagNotFound
       else modify (\<lambda>w. w\<lparr>targeting_rules :=
              update_row tg_id (tg_id r) (write_rule (r\<lparr>tg_updated_at := now\<rparr>)) (targeting_rules w)\<rparr>))))"

definition delete_rule :: "uuid \<Rightarrow> ('x, unit) flag_prog" where
  "delete_rule i =
     andThen (ext_call (FlagDriver ''postgres.DeleteRule'')) (\<lambda>_.
     andThen get_state (\<lambda>w.
       if row_of tg_id i (targeting_rules w) = None then fail FlagNotFound
       else modify (\<lambda>w. w\<lparr>targeting_rules := filter (\<lambda>r. tg_id r \<noteq> i) (targeting_rules w)\<rparr>)))"

section \<open>States per environment, and segments\<close>

definition get_flag_env_state :: "uuid \<Rightarrow> uuid \<Rightarrow> ('x, flag_environment_state option) flag_prog" where
  "get_flag_env_state flag_id envi =
     andThen (ext_call (FlagDriver ''postgres.GetFlagEnvState'')) (\<lambda>_.
     andThen get_state (\<lambda>w.
       ret (find (\<lambda>s. fs_flag_id s = flag_id \<and> fs_environment_id s = envi) (flag_states w))))"

text \<open>One row per flag and environment: an insert that finds one overwrites it and keeps its id.\<close>

definition upsert_flag_env_state :: "flag_environment_state \<Rightarrow> ('x, unit) flag_prog" where
  "upsert_flag_env_state st =
     andThen (if fs_id st = uuid_nil then uuid_new else ret (fs_id st)) (\<lambda>i.
     andThen time_now (\<lambda>now.
     andThen (ext_call (FlagDriver ''postgres.UpsertFlagEnvState'')) (\<lambda>_.
       let same = (\<lambda>s. fs_flag_id s = fs_flag_id st \<and> fs_environment_id s = fs_environment_id st)
       in modify (\<lambda>w. w\<lparr>flag_states :=
            (if find same (flag_states w) = None
             then flag_states w @ [st\<lparr>fs_id := i, fs_updated_at := now\<rparr>]
             else map (\<lambda>s. if same s then s\<lparr>fs_enabled := fs_enabled st, fs_value := fs_value st,
                          fs_updated_by := fs_updated_by st, fs_updated_at := now\<rparr> else s)
                    (flag_states w))\<rparr>))))"

definition set_rule_environment_state :: "uuid \<Rightarrow> uuid \<Rightarrow> bool \<Rightarrow> ('x, rule_environment_state) flag_prog" where
  "set_rule_environment_state rule_id envi en =
     andThen (ext_call (FlagDriver ''postgres.SetRuleEnvironmentState'')) (\<lambda>_.
     andThen uuid_new (\<lambda>i.
     andThen time_now (\<lambda>now.
     andThen get_state (\<lambda>w.
       case find (\<lambda>s. rs_rule_id s = rule_id \<and> rs_environment_id s = envi) (rule_states w) of
         None \<Rightarrow>
           let st = \<lparr>rs_id = i, rs_rule_id = rule_id, rs_environment_id = envi, rs_enabled = en,
                      rs_created_at = now, rs_updated_at = now\<rparr>
           in andThen (modify (\<lambda>w. w\<lparr>rule_states := rule_states w @ [st]\<rparr>)) (\<lambda>_. ret st)
       | Some s \<Rightarrow>
           let st = s\<lparr>rs_enabled := en, rs_updated_at := now\<rparr>
           in andThen (modify (\<lambda>w. w\<lparr>rule_states :=
                update_row rs_id (rs_id s) (\<lambda>_. st) (rule_states w)\<rparr>)) (\<lambda>_. ret st)))))"

text \<open>The map from rule to state, restricted to the rules of the flag.\<close>

definition rule_states_by_env :: "uuid \<Rightarrow> uuid \<Rightarrow> ('x, uuid \<rightharpoonup> bool) flag_prog" where
  "rule_states_by_env flag_id envi =
     andThen (ext_call (FlagDriver ''postgres.ListRuleEnvironmentStatesByEnv'')) (\<lambda>_.
     andThen get_state (\<lambda>w.
       ret (map_of (rev (map (\<lambda>s. (rs_rule_id s, rs_enabled s))
         (filter (\<lambda>s. rs_environment_id s = envi \<and>
            (\<exists>r \<in> set (targeting_rules w). tg_id r = rs_rule_id s \<and> tg_flag_id r = flag_id))
           (rule_states w)))))))"

definition get_segment :: "uuid \<Rightarrow> ('x, segment) flag_prog" where
  "get_segment i =
     andThen (ext_call (FlagDriver ''postgres.GetSegment'')) (\<lambda>_.
     andThen get_state (\<lambda>w.
       case row_of sm_id i (segments w) of
         None \<Rightarrow> fail FlagNotFound
       | Some s \<Rightarrow> andThen (ext_call (FlagDriver ''postgres.GetSegment'')) (\<lambda>_.
           ret (s\<lparr>sm_conditions := sort_key sq_priority (sm_conditions s)\<rparr>))))"

section \<open>The cache\<close>

definition cache_get_flag :: "uuid \<Rightarrow> uuid \<Rightarrow> string \<Rightarrow> ('x, feature_flag option) flag_prog" where
  "cache_get_flag project envi key =
     andThen (attempt (ext_call (FlagDriver ''redis'')) :: ('x, flag_error + unit) flag_prog) (\<lambda>r.
     andThen get_state (\<lambda>w.
       ret (case r of Inl _ \<Rightarrow> None | Inr _ \<Rightarrow> cached_flags w (project, envi, key))))"

text \<open>The entry is filed under the environment of the flag itself, the nil one if it has none.\<close>

definition cache_set_flag :: "feature_flag \<Rightarrow> ('x, unit) flag_prog" where
  "cache_set_flag f =
     (let k = (ff_project_id f, case ff_environment_id f of None \<Rightarrow> uuid_nil | Some e \<Rightarrow> e, ff_key f)
      in andThen (ext_call (FlagDriver ''flagcache.SetFlag'')) (\<lambda>_.
         andThen (modify (\<lambda>w. w\<lparr>cached_flags := (cached_flags w)(k \<mapsto> f)\<rparr>)) (\<lambda>_.
         andThen (ext_call (FlagDriver ''flagcache.SetFlag id mapping'')) (\<lambda>_.
           modify (\<lambda>w. w\<lparr>cached_flag_keys := (cached_flag_keys w)(ff_id f \<mapsto> k)\<rparr>)))))"

text \<open>An empty rule list is cached as JSON null, which reads back as a miss.\<close>

definition cache_get_rules :: "uuid \<Rightarrow> ('x, targeting_rule list option) flag_prog" where
  "cache_get_rules flag_id =
     andThen (attempt (ext_call (FlagDriver ''redis'')) :: ('x, flag_error + unit) flag_prog) (\<lambda>r.
     andThen get_state (\<lambda>w.
       ret (case r of Inl _ \<Rightarrow> None
            | Inr _ \<Rightarrow> (case cached_rules w flag_id of None \<Rightarrow> None
                        | Some rs \<Rightarrow> if rs = [] then None else Some rs))))"

definition cache_set_rules :: "uuid \<Rightarrow> targeting_rule list \<Rightarrow> ('x, unit) flag_prog" where
  "cache_set_rules flag_id rs =
     andThen (ext_call (FlagDriver ''flagcache.SetRules'')) (\<lambda>_.
       modify (\<lambda>w. w\<lparr>cached_rules := (cached_rules w)(flag_id \<mapsto> rs)\<rparr>))"

definition cache_get_segment :: "uuid \<Rightarrow> ('x, segment option) flag_prog" where
  "cache_get_segment i =
     andThen (attempt (ext_call (FlagDriver ''redis'')) :: ('x, flag_error + unit) flag_prog) (\<lambda>r.
     andThen get_state (\<lambda>w. ret (case r of Inl _ \<Rightarrow> None | Inr _ \<Rightarrow> cached_segments w i)))"

definition cache_set_segment :: "segment \<Rightarrow> ('x, unit) flag_prog" where
  "cache_set_segment s =
     andThen (ext_call (FlagDriver ''redis'')) (\<lambda>_.
       modify (\<lambda>w. w\<lparr>cached_segments := (cached_segments w)(sm_id s \<mapsto> s)\<rparr>))"

text \<open>
  \<open>Invalidate\<close> finds the entry of the flag through the id mapping; each of its three Redis
  calls may fail unnoticed.
\<close>

definition invalidate :: "uuid \<Rightarrow> ('x, unit) flag_prog" where
  "invalidate flag_id =
     andThen (attempt (ext_call (FlagDriver ''redis'')) :: ('x, flag_error + unit) flag_prog) (\<lambda>r.
     andThen get_state (\<lambda>w.
     andThen (case (r, cached_flag_keys w flag_id) of
         (Inr _, Some k) \<Rightarrow> andThen (attempt (andThen (ext_call (FlagDriver ''redis'')) (\<lambda>_.
             modify (\<lambda>w. w\<lparr>cached_flags := (cached_flags w)(k := None)\<rparr>)))
               :: ('x, flag_error + unit) flag_prog) (\<lambda>_. ret ())
       | _ \<Rightarrow> ret ()) (\<lambda>_.
     andThen (attempt (andThen (ext_call (FlagDriver ''redis'')) (\<lambda>_.
             modify (\<lambda>w. w\<lparr>cached_flag_keys := (cached_flag_keys w)(flag_id := None),
                            cached_rules := (cached_rules w)(flag_id := None)\<rparr>)))
               :: ('x, flag_error + unit) flag_prog) (\<lambda>_. ret ()))))"

section \<open>The audit log\<close>

definition write_audit_log :: "'e \<Rightarrow> audit_entry \<Rightarrow> ('x flag_world_scheme, 'e, unit) prog" where
  "write_audit_log err e =
     andThen (if ae_id e = uuid_nil then uuid_new else ret (ae_id e)) (\<lambda>i.
     andThen (ext_call err) (\<lambda>_.
     andThen get_state (\<lambda>w.
       if audit_row_ok (audit_refs w) e \<and> row_of ae_id i (audit_log w) = None
       then modify (\<lambda>w. w\<lparr>audit_log := audit_log w @ [e\<lparr>ae_id := i\<rparr>]\<rparr>)
       else fail err)))"

end
