(* ===== verification/FlagService.thy ===== *)
theory FlagService
  imports FlagStore
begin

text \<open>
  The flag service (\<open>internal/flags/service.go\<close>): creation, update, archiving and toggling of
  flags, the targeting rules and the states per environment, each write followed by the
  invalidation of the cache entries of the flag it touches.
\<close>

text \<open>\<open>publishEvent\<close> stamps the event and drops the error of its publication.\<close>

definition flag_event :: "string \<Rightarrow> feature_flag \<Rightarrow> ('x, unit) flag_prog" where
  "flag_event event f =
     andThen time_now (\<lambda>_.
     andThen (attempt (andThen (ext_call (FlagDriver ''publish'')) (\<lambda>_.
         modify (\<lambda>w. w\<lparr>outbox := outbox w @ [ServiceEvent (''flags.'' @ event) (ff_id f)]\<rparr>)))
       :: ('x, flag_error + unit) flag_prog) (\<lambda>_. ret ()))"

definition quietly :: "('x, unit) flag_prog \<Rightarrow> ('x, unit) flag_prog" where
  "quietly m = andThen (attempt m :: ('x, flag_error + unit) flag_prog) (\<lambda>_. ret ())"

text \<open>
  \<open>CreateFlag\<close> runs \<open>CreateFlagTx\<close> in a transaction of its own: when the commit fails the
  row is gone.
\<close>

definition create_flag_tx :: "feature_flag \<Rightarrow> ('x, feature_flag) flag_prog" where
  "create_flag_tx f =
     andThen (if ff_id f = uuid_nil then uuid_new else ret (ff_id f)) (\<lambda>i.
     andThen time_now (\<lambda>now.
       let f' = f\<lparr>ff_id := i, ff_created_at := now, ff_updated_at := now\<rparr>
       in case validate_flag f' of
            Some e \<Rightarrow> fail (FlagWrap ''validation failed'' (FlagInvalid e))
          | None \<Rightarrow> wrapped (FlagWrap ''creating flag'') (create_flag f')))"

definition svc_create_flag :: "feature_flag \<Rightarrow> ('x, unit) flag_prog" where
  "svc_create_flag f =
     andThen (ext_call (FlagWrap ''CreateFlag begin tx'' (FlagDriver ''begin''))) (\<lambda>_.
     andThen get_state (\<lambda>before.
     andThen (create_flag_tx f) (\<lambda>f'.
     andThen (attempt (ext_call (FlagWrap ''CreateFlag commit tx'' (FlagDriver ''commit'')))
         :: ('x, flag_error + unit) flag_prog) (\<lambda>c.
       case c of
         Inl e \<Rightarrow> andThen (modify (\<lambda>w. w\<lparr>feature_flags := feature_flags before\<rparr>)) (\<lambda>_. fail e)
       | Inr _ \<Rightarrow> flag_event ''created'' f'))))"

definition svc_get_flag :: "uuid \<Rightarrow> ('x, feature_flag) flag_prog" where
  "svc_get_flag i = wrapped (FlagWrap ''getting flag'') (get_flag i)"

definition svc_update_flag :: "feature_flag \<Rightarrow> ('x, unit) flag_prog" where
  "svc_update_flag f =
     andThen time_now (\<lambda>now.
       let f' = f\<lparr>ff_updated_at := now\<rparr>
       in case validate_flag f' of
            Some e \<Rightarrow> fail (FlagWrap ''validation failed'' (FlagInvalid e))
          | None \<Rightarrow>
              andThen (wrapped (FlagWrap ''updating flag'') (update_flag f')) (\<lambda>f''.
              andThen (quietly (invalidate (ff_id f))) (\<lambda>_. flag_event ''updated'' f'')))"

text \<open>\<open>strings.Contains(err.Error(), "not found")\<close> recognises the sentinel of the repository only.\<close>

definition svc_archive_flag :: "uuid \<Rightarrow> ('x, unit) flag_prog" where
  "svc_archive_flag i =
     andThen (attempt (archive_flag i) :: ('x, flag_error + unit) flag_prog) (\<lambda>r.
       case r of
         Inl e \<Rightarrow> if e = FlagNotFound then ret () else fail (FlagWrap ''archiving flag'' e)
       | Inr _ \<Rightarrow>
           andThen (attempt (get_flag i) :: ('x, flag_error + feature_flag) flag_prog) (\<lambda>g.
             case g of
               Inl _ \<Rightarrow> quietly (invalidate i)
             | Inr f \<Rightarrow> andThen (quietly (invalidate (ff_id f))) (\<lambda>_. flag_event ''archived'' f)))"

definition svc_unarchive_flag :: "uuid \<Rightarrow> ('x, unit) flag_prog" where
  "svc_unarchive_flag i =
     andThen (wrapped (FlagWrap ''unarchiving flag'') (unarchive_flag i)) (\<lambda>_.
     andThen (wrapped (FlagWrap ''getting flag after unarchive'') (get_flag i)) (\<lambda>f.
     andThen (quietly (invalidate i)) (\<lambda>_. flag_event ''unarchived'' f)))"

definition toggle_flag :: "uuid \<Rightarrow> bool \<Rightarrow> ('x, unit) flag_prog" where
  "toggle_flag i en =
     andThen (wrapped (FlagWrap ''getting flag for toggle'') (get_flag i)) (\<lambda>f.
       if ff_archived f then fail FlagArchived
       else andThen time_now (\<lambda>now.
            andThen (wrapped (FlagWrap ''toggling flag'')
              (update_flag (f\<lparr>ff_enabled := en, ff_updated_at := now\<rparr>))) (\<lambda>f'.
            andThen (quietly (invalidate (ff_id f))) (\<lambda>_. flag_event ''toggled'' f'))))"

text \<open>\<open>BulkToggle\<close> tries every flag and reports the first error.\<close>

primrec bulk_toggle_from :: "flag_error option \<Rightarrow> uuid list \<Rightarrow> bool \<Rightarrow> ('x, flag_error option) flag_prog" where
  "bulk_toggle_from e [] en = ret e"
| "bulk_toggle_from e (i # is) en =
     andThen (attempt (toggle_flag i en) :: ('x, flag_error + unit) flag_prog) (\<lambda>r.
       bulk_toggle_from (case (e, r) of (None, Inl e') \<Rightarrow> Some (FlagWrap ''bulk toggle flag'' e') | _ \<Rightarrow> e) is en)"

definition bulk_toggle :: "uuid list \<Rightarrow> bool \<Rightarrow> ('x, unit) flag_prog" where
  "bulk_toggle is en =
     andThen (bulk_toggle_from None is en) (\<lambda>e. case e of None \<Rightarrow> ret () | Some e' \<Rightarrow> fail e')"

section \<open>Rules\<close>

definition add_rule_tx :: "targeting_rule \<Rightarrow> ('x, targeting_rule) flag_prog" where
  "add_rule_tx r =
     andThen (if tg_id r = uuid_nil then uuid_new else ret (tg_id r)) (\<lambda>i.
     andThen time_now (\<lambda>now.
       let r' = r\<lparr>tg_id := i, tg_created_at := now, tg_updated_at := now\<rparr>
       in case validate_rule r' of
            Some e \<Rightarrow> fail (FlagWrap ''validation failed'' (RuleInvalid e))
          | None \<Rightarrow> wrapped (FlagWrap ''creating rule'') (create_rule r')))"

definition add_rule :: "targeting_rule \<Rightarrow> ('x, unit) flag_prog" where
  "add_rule r =
     andThen (ext_call (FlagWrap ''AddRule begin tx'' (FlagDriver ''begin''))) (\<lambda>_.
     andThen get_state (\<lambda>before.
     andThen (add_rule_tx r) (\<lambda>r'.
     andThen (attempt (ext_call (FlagWrap ''AddRule commit tx'' (FlagDriver ''commit'')))
         :: ('x, flag_error + unit) flag_prog) (\<lambda>c.
       case c of
         Inl e \<Rightarrow> andThen (modify (\<lambda>w. w\<lparr>targeting_rules := targeting_rules before\<rparr>)) (\<lambda>_. fail e)
       | Inr _ \<Rightarrow> quietly (invalidate (tg_flag_id r'))))))"

definition svc_update_rule :: "targeting_rule \<Rightarrow> ('x, unit) flag_prog" where
  "svc_update_rule r =
     andThen time_now (\<lambda>now.
       let r' = r\<lparr>tg_updated_at := now\<rparr>
       in case validate_rule r' of
            Some e \<Rightarrow> fail (FlagWrap ''validation failed'' (RuleInvalid e))
          | None \<Rightarrow>
              andThen (wrapped (FlagWrap ''updating rule'') (update_rule r')) (\<lambda>_.
                quietly (invalidate (tg_flag_id r))))"

definition svc_get_rule :: "uuid \<Rightarrow> ('x, targeting_rule) flag_prog" where
  "svc_get_rule i = wrapped (FlagWrap ''getting rule'') (get_rule i)"

definition svc_delete_rule :: "uuid \<Rightarrow> ('x, unit) flag_prog" where
  "svc_delete_rule i =
     andThen (attempt (get_rule i) :: ('x, flag_error + targeting_rule) flag_prog) (\<lambda>g.
       let flag_id = (case g of Inl _ \<Rightarrow> uuid_nil | Inr r \<Rightarrow> tg_flag_id r)
       in andThen (wrapped (FlagWrap ''deleting rule'') (delete_rule i)) (\<lambda>_.
            if flag_id \<noteq> uuid_nil then quietly (invalidate flag_id) else ret ()))"

section \<open>States per environment\<close>

definition set_flag_env_state :: "flag_environment_state \<Rightarrow> ('x, unit) flag_prog" where
  "set_flag_env_state st =
     (case validate_env_state st of
        Some e \<Rightarrow> fail (FlagWrap ''validation failed'' (StateInvalid e))
      | None \<Rightarrow>
          andThen (wrapped (FlagWrap ''setting flag env state'') (upsert_flag_env_state st)) (\<lambda>_.
            quietly (invalidate (fs_flag_id st))))"

definition svc_set_rule_state :: "uuid \<Rightarrow> uuid \<Rightarrow> bool \<Rightarrow> ('x, rule_environment_state) flag_prog" where
  "svc_set_rule_state rule_id envi en =
     andThen (wrapped (FlagWrap ''setting rule environment state'')
       (set_rule_environment_state rule_id envi en)) (\<lambda>st.
     andThen (attempt (get_rule rule_id) :: ('x, flag_error + targeting_rule) flag_prog) (\<lambda>g.
     andThen (case g of Inl _ \<Rightarrow> ret () | Inr r \<Rightarrow> quietly (invalidate (tg_flag_id r))) (\<lambda>_.
       ret st)))"

end
