(* ===== verification/RolloutRepo.thy ===== *)
theory RolloutRepo
  imports RolloutResolver FlagService DeployService Health
begin

text \<open>
  The tables of the rollout subsystem (\<open>internal/platform/database/postgres/rollouts.go\<close>,
  \<open>rollout.go\<close>, \<open>rollout_groups.go\<close>): one operation per method of the repositories, each an
  SQL statement that may fail. The store extends the flag store, hence the deployment
  store, because a rollout drives a deployment or a targeting rule.
\<close>

section \<open>Errors and the store\<close>

datatype rollout_error =
    RolloutDriver string
  | ErrMarshal
  | ErrRolloutNotFound
  | ErrRolloutGroupNotFound
  | ErrStrategyNotFound
  | ErrVersionConflict
  | ErrReasonRequired
  | ErrInvalidStateForOp rollout_status
  | ErrAlreadyActiveOnTarget
  | ErrStrategyMovesBackward
  | ErrStrategyInvalid strategy_invalid
  | ErrSystemStrategyImmutable
  | ErrStrategyInUse
  | ErrStrategyNameNotFound string
  | ErrMandateWithoutStrategy
  | ErrOverridesInvalid
  | ErrNoApplicator target_type
  | ErrMissingDeploymentID
  | ErrMissingRuleID
  | ErrNoHealth
  | ErrDeploy deploy_error
  | ErrFlag flag_error
  | ErrRollbackTriggered
  | ErrPhaseRolledBack
  | ErrAwaitingApproval
  | ErrContext
  | RolloutWrap string rollout_error

text \<open>
  A strategy row and its \<open>deleted_at\<close>. \<open>health_at n i\<close> is what the health monitor
  answers for deployment \<open>i\<close> at its \<open>n\<close>-th reading by this process: the monitor runs
  concurrently, so its answers belong to the environment.
\<close>

record rollout_world = flag_world +
  rollouts :: "rollout list"
  rollout_phases :: "rollout_phase list"
  rollout_events :: "rollout_event list"
  rollout_groups :: "rollout_group list"
  strategies :: "(strategy \<times> time option) list"
  strategy_defaults :: "strategy_default list"
  rollout_policies :: "rollout_policy list"
  bus :: "(string \<times> uuid) list"
  health_at :: "nat \<Rightarrow> uuid \<Rightarrow> deployment_health option"
  health_reads :: nat

type_synonym 'a rollout_prog = "(rollout_world, rollout_error, 'a) prog"

text \<open>A call of the deployment or flag service, on its part of the store.\<close>

definition on_deploy :: "'a deploy_prog \<Rightarrow> 'a rollout_prog" where
  "on_deploy m = (\<lambda>s. case m (deploy_world.truncate s) of
     (r, d) \<Rightarrow> (map_sum ErrDeploy id r, deploy_world.extend d (deploy_world.more s)))"

definition on_flags :: "(rollout_world, flag_error, 'a) prog \<Rightarrow> 'a rollout_prog" where
  "on_flags m = wrapped ErrFlag m"

text \<open>A call whose error the caller drops (\<open>_ = ...\<close>).\<close>

definition ignored :: "'a rollout_prog \<Rightarrow> unit rollout_prog" where
  "ignored m = andThen (attempt m :: (rollout_error + 'a) rollout_prog) (\<lambda>_. ret ())"

section \<open>What JSON can hold\<close>

text \<open>\<open>json.Marshal\<close> refuses NaN and the infinities; every other value comes back as it was.\<close>

definition finite_f64 :: "f64 \<Rightarrow> bool" where
  "finite_f64 x = (case x of Fin _ \<Rightarrow> True | _ \<Rightarrow> False)"

definition step_encodes :: "step \<Rightarrow> bool" where
  "step_encodes st = (finite_f64 (st_percent st) \<and>
     (case st_health_threshold st of None \<Rightarrow> True | Some x \<Rightarrow> finite_f64 x) \<and>
     list_all (\<lambda>ac. finite_f64 (ac_threshold ac)) (st_abort_conditions st))"

definition strategy_encodes :: "strategy \<Rightarrow> bool" where
  "strategy_encodes s = (list_all step_encodes (sg_steps s) \<and> finite_f64 (sg_default_health_threshold s))"

section \<open>Rollouts\<close>

definition rollout_create :: "rollout \<Rightarrow> rollout rollout_prog" where
  "rollout_create r =
     andThen (if ro_id r = uuid_nil then uuid_new else ret (ro_id r)) (\<lambda>i.
     andThen time_now (\<lambda>now.
       let r' = r\<lparr>ro_id := i, ro_created_at := now\<rparr>
       in if \<not> strategy_encodes (ro_strategy_snapshot r) then fail ErrMarshal
          else andThen (ext_call (RolloutDriver ''insert rollouts'')) (\<lambda>_.
               andThen get_state (\<lambda>w.
                 if row_of ro_id i (rollouts w) \<noteq> None then fail (RolloutDriver ''insert rollouts'')
                 else andThen (modify (\<lambda>w. w\<lparr>rollouts := rollouts w @ [r']\<rparr>)) (\<lambda>_. ret r')))))"

definition rollout_get :: "uuid \<Rightarrow> rollout rollout_prog" where
  "rollout_get i =
     andThen (ext_call (RolloutDriver ''select rollouts'')) (\<lambda>_.
     andThen get_state (\<lambda>w.
       case row_of ro_id i (rollouts w) of None \<Rightarrow> fail ErrRolloutNotFound | Some r \<Rightarrow> ret r))"

definition live_status :: "rollout_status \<Rightarrow> bool" where
  "live_status st = (st \<in> {RolloutPending, RolloutActive, RolloutPaused, RolloutAwaitingApproval})"

definition active_on :: "(rollout \<Rightarrow> bool) \<Rightarrow> rollout rollout_prog" where
  "active_on target =
     andThen (ext_call (RolloutDriver ''select rollouts'')) (\<lambda>_.
     andThen get_state (\<lambda>w.
       case find (\<lambda>r. target r \<and> live_status (ro_status r)) (rollouts w) of
         None \<Rightarrow> fail ErrRolloutNotFound
       | Some r \<Rightarrow> ret r))"

definition drives_deployment :: "uuid \<Rightarrow> rollout \<Rightarrow> bool" where
  "drives_deployment i r = (ro_target_type r = TargetTypeDeploy \<and> tr_deployment_id (ro_target_ref r) = Some i)"

definition drives_rule :: "uuid \<Rightarrow> rollout \<Rightarrow> bool" where
  "drives_rule i r = (ro_target_type r = TargetTypeConfig \<and> tr_rule_id (ro_target_ref r) = Some i)"

definition get_active_by_deployment :: "uuid \<Rightarrow> rollout rollout_prog" where
  "get_active_by_deployment i = active_on (drives_deployment i)"

definition get_active_by_rule :: "uuid \<Rightarrow> rollout rollout_prog" where
  "get_active_by_rule i = active_on (drives_rule i)"

definition get_active_by_config :: "string \<Rightarrow> string \<Rightarrow> rollout rollout_prog" where
  "get_active_by_config key e = active_on (\<lambda>r. ro_target_type r = TargetTypeConfig \<and>
     tr_flag_key (ro_target_ref r) = Some key \<and> tr_env (ro_target_ref r) = Some e)"

text \<open>\<open>COALESCE($n, column)\<close>: a nil argument leaves the column as it is.\<close>

definition coalesce :: "'a option \<Rightarrow> 'a option \<Rightarrow> 'a option" where
  "coalesce x y = (case x of None \<Rightarrow> y | Some _ \<Rightarrow> x)"

definition write_rollout :: "uuid \<Rightarrow> (rollout \<Rightarrow> rollout) \<Rightarrow> unit rollout_prog" where
  "write_rollout i f =
     andThen (ext_call (RolloutDriver ''update rollouts'')) (\<lambda>_.
       modify (\<lambda>w. w\<lparr>rollouts := update_row ro_id i f (rollouts w)\<rparr>))"

definition rollout_update_status :: "uuid \<Rightarrow> rollout_status \<Rightarrow> string option \<Rightarrow> unit rollout_prog" where
  "rollout_update_status i st reason = write_rollout i (\<lambda>r. r\<lparr>ro_status := st,
     ro_rollback_reason := coalesce reason (ro_rollback_reason r)\<rparr>)"

definition update_phase_pointer :: "uuid \<Rightarrow> int \<Rightarrow> time option \<Rightarrow> time option \<Rightarrow> unit rollout_prog" where
  "update_phase_pointer i idx started healthy = write_rollout i (\<lambda>r. r\<lparr>ro_current_phase_index := idx,
     ro_current_phase_started_at := started,
     ro_last_healthy_since := coalesce healthy (ro_last_healthy_since r)\<rparr>)"

definition mark_completed :: "uuid \<Rightarrow> unit rollout_prog" where
  "mark_completed i =
     andThen time_now (\<lambda>now. write_rollout i (\<lambda>r. r\<lparr>ro_status := RolloutSucceeded,
       ro_completed_at := Some now\<rparr>))"

definition list_by_release :: "uuid \<Rightarrow> rollout list rollout_prog" where
  "list_by_release g =
     andThen (ext_call (RolloutDriver ''select rollouts'')) (\<lambda>_.
     andThen get_state (\<lambda>w.
       ret (sort_key ro_created_at (filter (\<lambda>r. ro_release_id r = Some g) (rollouts w)))))"

definition set_release_id :: "uuid \<Rightarrow> uuid option \<Rightarrow> unit rollout_prog" where
  "set_release_id i g =
     andThen (ext_call (RolloutDriver ''update rollouts'')) (\<lambda>_.
     andThen get_state (\<lambda>w.
       if row_of ro_id i (rollouts w) = None then fail ErrRolloutNotFound
       else modify (\<lambda>w. w\<lparr>rollouts := update_row ro_id i (\<lambda>r. r\<lparr>ro_release_id := g\<rparr>) (rollouts w)\<rparr>)))"

section \<open>Phases\<close>

text \<open>
  \<open>BulkInsert\<close> writes all phases in one transaction, so the table changes only when every
  statement and the commit succeed.
\<close>

definition same_place :: "rollout_phase \<Rightarrow> rollout_phase \<Rightarrow> bool" where
  "same_place p q \<longleftrightarrow> rp_rollout_id p = rp_rollout_id q \<and> rp_phase_index p = rp_phase_index q"

primrec mint_phases :: "rollout_phase list \<Rightarrow> rollout_phase list \<Rightarrow> rollout_phase list rollout_prog" where
  "mint_phases seen [] = ret []"
| "mint_phases seen (p # ps) =
     andThen (if rp_id p = uuid_nil then uuid_new else ret (rp_id p)) (\<lambda>i.
       if \<not> step_encodes (rp_step_snapshot p) then fail ErrMarshal
       else andThen (ext_call (RolloutDriver ''insert rollout_phases'')) (\<lambda>_.
            andThen get_state (\<lambda>w.
              if list_ex (same_place p) (rollout_phases w @ seen) then fail (RolloutDriver ''insert rollout_phases'')
              else andThen (mint_phases (seen @ [p]) ps) (\<lambda>qs. ret (p\<lparr>rp_id := i\<rparr> # qs)))))"

definition bulk_insert_phases :: "rollout_phase list \<Rightarrow> unit rollout_prog" where
  "bulk_insert_phases ps =
     (if ps = [] then ret ()
      else andThen (ext_call (RolloutDriver ''begin'')) (\<lambda>_.
           andThen (mint_phases [] ps) (\<lambda>qs.
           andThen (ext_call (RolloutDriver ''commit'')) (\<lambda>_.
             modify (\<lambda>w. w\<lparr>rollout_phases := rollout_phases w @ qs\<rparr>)))))"

definition rollout_phases_of :: "rollout_world \<Rightarrow> uuid \<Rightarrow> rollout_phase list" where
  "rollout_phases_of w i =
     sort_key rp_phase_index (filter (\<lambda>p. rp_rollout_id p = i) (rollout_phases w))"

definition list_rollout_phases :: "uuid \<Rightarrow> rollout_phase list rollout_prog" where
  "list_rollout_phases i =
     andThen (ext_call (RolloutDriver ''select rollout_phases'')) (\<lambda>_.
     andThen get_state (\<lambda>w. ret (rollout_phases_of w i)))"

definition update_phase_status ::
  "uuid \<Rightarrow> rollout_phase_status \<Rightarrow> time option \<Rightarrow> time option \<Rightarrow> f64 option \<Rightarrow> f64 option \<Rightarrow> string \<Rightarrow>
   unit rollout_prog" where
  "update_phase_status i st entered exited pct score notes =
     andThen (ext_call (RolloutDriver ''update rollout_phases'')) (\<lambda>_.
       modify (\<lambda>w. w\<lparr>rollout_phases := update_row rp_id i (\<lambda>p. p\<lparr>rp_status := st,
         rp_entered_at := coalesce entered (rp_entered_at p),
         rp_exited_at := coalesce exited (rp_exited_at p),
         rp_applied_percent := coalesce pct (rp_applied_percent p),
         rp_health_score_at_exit := coalesce score (rp_health_score_at_exit p),
         rp_notes := (if notes = '''' then rp_notes p else notes)\<rparr>) (rollout_phases w)\<rparr>))"

section \<open>Events\<close>

definition insert_event :: "rollout_event \<Rightarrow> unit rollout_prog" where
  "insert_event e =
     andThen (if re_id e = uuid_nil then uuid_new else ret (re_id e)) (\<lambda>i.
     andThen (if re_occurred_at e = time_zero then time_now else ret (re_occurred_at e)) (\<lambda>now.
       if list_ex (\<lambda>(_, v). case v of PayloadFloat x \<Rightarrow> \<not> finite_f64 x | _ \<Rightarrow> False) (re_payload e)
       then fail ErrMarshal
       else andThen (ext_call (RolloutDriver ''insert rollout_events'')) (\<lambda>_.
              modify (\<lambda>w. w\<lparr>rollout_events := rollout_events w @ [e\<lparr>re_id := i, re_occurred_at := now\<rparr>]\<rparr>))))"

definition list_events :: "uuid \<Rightarrow> int \<Rightarrow> rollout_event list rollout_prog" where
  "list_events i lmt =
     andThen (ext_call (RolloutDriver ''select rollout_events'')) (\<lambda>_.
     andThen get_state (\<lambda>w.
       ret (take (nat (if lmt \<le> 0 then 50 else lmt))
         (rev (sort_key re_occurred_at (filter (\<lambda>e. re_rollout_id e = i) (rollout_events w)))))))"

text \<open>\<open>pub.Publish\<close> with the rollout as payload; every caller drops the error.\<close>

definition publish_rollout :: "string \<Rightarrow> uuid \<Rightarrow> unit rollout_prog" where
  "publish_rollout subject i = ignored (andThen (ext_call (RolloutDriver ''publish'')) (\<lambda>_.
     modify (\<lambda>w. w\<lparr>bus := bus w @ [(subject, i)]\<rparr>)))"

end
