(* ===== verification/Applicators.thy ===== *)
theory Applicators
  imports RolloutRepo
begin

text \<open>
  How a rollout reaches its target: the deploy applicator
  (\<open>internal/rollout/applicator/deploy/deploy.go\<close>), which sets the traffic of a deployment,
  the config applicator (\<open>internal/rollout/applicator/config/config.go\<close>), which sets the
  percentage of a targeting rule, and the router between them
  (\<open>internal/rollout/applicator/router.go\<close>), wired as in \<open>cmd/api/main.go\<close>.
\<close>

record health_score =
  hs_score :: f64
  hs_error_rate :: f64
  hs_latency_p99_ms :: f64
  hs_latency_p50_ms :: f64
  hs_request_rate :: f64

definition constant_health :: health_score where
  "constant_health = \<lparr>hs_score = Fin 1, hs_error_rate = Fin 0, hs_latency_p99_ms = Fin 0,
     hs_latency_p50_ms = Fin 0, hs_request_rate = Fin 0\<rparr>"

text \<open>A metric the monitor did not report reads as the zero value.\<close>

definition metric_or_zero :: "deployment_health \<Rightarrow> string \<Rightarrow> f64" where
  "metric_or_zero h name = (case dh_metrics h name of None \<Rightarrow> Fin 0 | Some x \<Rightarrow> x)"

definition score_of_health :: "deployment_health \<Rightarrow> health_score" where
  "score_of_health h = \<lparr>hs_score = dh_overall h,
     hs_error_rate = metric_or_zero h ''error_rate'',
     hs_latency_p99_ms = metric_or_zero h ''latency_p99_ms'',
     hs_latency_p50_ms = metric_or_zero h ''latency_p50_ms'',
     hs_request_rate = metric_or_zero h ''request_rate''\<rparr>"

definition read_monitor :: "uuid \<Rightarrow> deployment_health rollout_prog" where
  "read_monitor i =
     andThen get_state (\<lambda>w.
     andThen (modify (\<lambda>w. w\<lparr>health_reads := Suc (health_reads w)\<rparr>)) (\<lambda>_.
       case health_at w (health_reads w) i of None \<Rightarrow> fail ErrNoHealth | Some h \<Rightarrow> ret h))"

section \<open>Deployments\<close>

definition target_deployment :: "rollout \<Rightarrow> uuid rollout_prog" where
  "target_deployment r =
     (case tr_deployment_id (ro_target_ref r) of None \<Rightarrow> fail ErrMissingDeploymentID | Some i \<Rightarrow> ret i)"

definition deploy_apply :: "rollout \<Rightarrow> step \<Rightarrow> unit rollout_prog" where
  "deploy_apply r st =
     andThen (target_deployment r) (\<lambda>i. on_deploy (set_traffic_percent i (int_of_round (st_percent st))))"

definition deploy_revert :: "rollout \<Rightarrow> unit rollout_prog" where
  "deploy_revert r = andThen (target_deployment r) (\<lambda>i. on_deploy (set_traffic_percent i 0))"

definition deploy_signal :: "rollout \<Rightarrow> health_score rollout_prog" where
  "deploy_signal r =
     andThen (target_deployment r) (\<lambda>i. andThen (read_monitor i) (\<lambda>h. ret (score_of_health h)))"

section \<open>Targeting rules\<close>

definition target_rule :: "rollout \<Rightarrow> uuid rollout_prog" where
  "target_rule r =
     (case tr_rule_id (ro_target_ref r) of None \<Rightarrow> fail ErrMissingRuleID | Some i \<Rightarrow> ret i)"

text \<open>\<open>flagRuleUpdater\<close> of the wiring: read the rule, set its percentage, write it back.\<close>

definition update_rule_percentage :: "uuid \<Rightarrow> int \<Rightarrow> unit rollout_prog" where
  "update_rule_percentage i pct =
     andThen (on_flags (svc_get_rule i)) (\<lambda>rule.
       on_flags (svc_update_rule (rule\<lparr>tg_percentage := Some pct\<rparr>)))"

definition clamp_percent :: "int \<Rightarrow> int" where
  "clamp_percent p = (let p' = (if p < 0 then 0 else p) in if p' > 100 then 100 else p')"

definition config_apply :: "rollout \<Rightarrow> step \<Rightarrow> unit rollout_prog" where
  "config_apply r st =
     andThen (target_rule r) (\<lambda>i.
       update_rule_percentage i (clamp_percent (int_of_round (st_percent st))))"

definition config_revert :: "rollout \<Rightarrow> unit rollout_prog" where
  "config_revert r =
     andThen (target_rule r) (\<lambda>i.
       update_rule_percentage i
         (case tr_previous_percentage (ro_target_ref r) of None \<Rightarrow> 0 | Some p \<Rightarrow> p))"

text \<open>
  \<open>deploymentFinder\<close> of the wiring asks the deployment service for the active deployments.
  Its query is the malformed one (see \<open>list_deployments_query_text\<close>), but what the database
  answers is a matter of the environment; the rows are those the query means.
\<close>

definition current_deployment_for :: "uuid \<Rightarrow> uuid \<Rightarrow> deployment option rollout_prog" where
  "current_deployment_for app envi =
     andThen (ext_call (RolloutDriver ''list deployments'')) (\<lambda>_.
     andThen get_state (\<lambda>w.
       ret (find (\<lambda>d. dep_environment_id d = envi)
         (take 100 (rev (sort_key dep_created_at (filter (\<lambda>d. dep_application_id d = app \<and>
            \<not> terminal_status (dep_status d)) (deployments w))))))))"

text \<open>Every lookup that fails falls back to the constant healthy score.\<close>

definition config_signal :: "rollout \<Rightarrow> health_score rollout_prog" where
  "config_signal r =
     (case tr_rule_id (ro_target_ref r) of
        None \<Rightarrow> ret constant_health
      | Some i \<Rightarrow>
          andThen (attempt (on_flags (svc_get_rule i)) :: (rollout_error + targeting_rule) rollout_prog) (\<lambda>g.
          case g of
            Inl _ \<Rightarrow> ret constant_health
          | Inr rule \<Rightarrow>
              andThen (attempt (on_flags (svc_get_flag (tg_flag_id rule)))
                  :: (rollout_error + feature_flag) rollout_prog) (\<lambda>f.
              case f of
                Inl _ \<Rightarrow> ret constant_health
              | Inr flag \<Rightarrow>
                  (case (ff_application_id flag, ff_environment_id flag) of
                     (Some app, Some envi) \<Rightarrow>
                       andThen (attempt (current_deployment_for app envi)
                           :: (rollout_error + deployment option) rollout_prog) (\<lambda>d.
                       case d of
                         Inr (Some dep) \<Rightarrow>
                           andThen (attempt (read_monitor (dep_id dep))
                               :: (rollout_error + deployment_health) rollout_prog) (\<lambda>h.
                             ret (case h of Inl _ \<Rightarrow> constant_health | Inr h' \<Rightarrow> score_of_health h'))
                       | _ \<Rightarrow> ret constant_health)
                   | _ \<Rightarrow> ret constant_health))))"

section \<open>The router\<close>

text \<open>Both applicators are wired; any other target type has none.\<close>

definition app_apply :: "rollout \<Rightarrow> step \<Rightarrow> unit rollout_prog" where
  "app_apply r st =
     (case ro_target_type r of
        TargetTypeDeploy \<Rightarrow> deploy_apply r st
      | TargetTypeConfig \<Rightarrow> config_apply r st
      | t \<Rightarrow> fail (ErrNoApplicator t))"

definition app_revert :: "rollout \<Rightarrow> unit rollout_prog" where
  "app_revert r =
     (case ro_target_type r of
        TargetTypeDeploy \<Rightarrow> deploy_revert r
      | TargetTypeConfig \<Rightarrow> config_revert r
      | t \<Rightarrow> fail (ErrNoApplicator t))"

definition app_signal :: "rollout \<Rightarrow> health_score rollout_prog" where
  "app_signal r =
     (case ro_target_type r of
        TargetTypeDeploy \<Rightarrow> deploy_signal r
      | TargetTypeConfig \<Rightarrow> config_signal r
      | t \<Rightarrow> fail (ErrNoApplicator t))"

end
