(* ===== verification/RolloutService.thy ===== *)
theory RolloutService
  imports Applicators
begin

text \<open>
  The rollout service (\<open>internal/rollout/rollout_service.go\<close>): attaching a rollout to a
  deployment or a targeting rule, and the six runtime controls, all of which go through one
  guarded transition. The applicator is wired, as in \<open>cmd/api/main.go\<close>.
\<close>

section \<open>Audit events and subjects\<close>

fun event_name :: "event_type \<Rightarrow> string" where
  "event_name EventAttached = ''attached''"
| "event_name EventPhaseEntered = ''phase_entered''"
| "event_name EventPhaseExited = ''phase_exited''"
| "event_name EventPaused = ''paused''"
| "event_name EventResumed = ''resumed''"
| "event_name EventPromoted = ''promoted''"
| "event_name EventForcePromoted = ''force_promoted''"
| "event_name EventApproved = ''approved''"
| "event_name EventAbortConditionTripped = ''abort_condition_tripped''"
| "event_name EventRollbackTriggered = ''rollback_triggered''"
| "event_name EventCompleted = ''completed''"
| "event_name EventSuperseded = ''superseded''"

definition emit_event :: "uuid \<Rightarrow> event_type \<Rightarrow> uuid option \<Rightarrow> string option \<Rightarrow> unit rollout_prog" where
  "emit_event i evt actor reason = ignored (insert_event
     \<lparr>re_id = uuid_nil, re_rollout_id = i, re_event_type = evt,
      re_actor_type = (case actor of None \<Rightarrow> ''system'' | Some _ \<Rightarrow> ''user''),
      re_actor_id = actor, re_reason = reason, re_payload = [], re_occurred_at = time_zero\<rparr>)"

definition publish_event_subject :: "event_type \<Rightarrow> uuid \<Rightarrow> unit rollout_prog" where
  "publish_event_subject evt i = publish_rollout (''rollouts.rollout.'' @ event_name evt) i"

section \<open>Attaching\<close>

definition pending_rollout ::
  "target_type \<Rightarrow> rollout_target_ref \<Rightarrow> strategy \<Rightarrow> uuid option \<Rightarrow> uuid option \<Rightarrow> rollout" where
  "pending_rollout tt ref snapshot release creator =
     \<lparr>ro_id = uuid_nil, ro_release_id = release, ro_target_type = tt, ro_target_ref = ref,
      ro_strategy_snapshot = snapshot, ro_signal_source = \<lparr>ss_kind = ''app_env''\<rparr>,
      ro_status = RolloutPending, ro_current_phase_index = 0, ro_current_phase_started_at = None,
      ro_last_healthy_since = None, ro_rollback_reason = None, ro_created_by = creator,
      ro_created_at = time_zero, ro_completed_at = None\<rparr>"

definition deployment_ref :: "uuid \<Rightarrow> rollout_target_ref" where
  "deployment_ref i = \<lparr>tr_deployment_id = Some i, tr_flag_key = None, tr_env = None,
     tr_rule_id = None, tr_previous_percentage = None\<rparr>"

definition rule_ref :: "uuid \<Rightarrow> int \<Rightarrow> rollout_target_ref" where
  "rule_ref i prev = \<lparr>tr_deployment_id = None, tr_flag_key = None, tr_env = None,
     tr_rule_id = Some i, tr_previous_percentage = Some prev\<rparr>"

definition create_and_announce :: "rollout \<Rightarrow> uuid option \<Rightarrow> rollout rollout_prog" where
  "create_and_announce r creator =
     andThen (wrapped (RolloutWrap ''create rollout'') (rollout_create r)) (\<lambda>r'.
     andThen (emit_event (ro_id r') EventAttached creator None) (\<lambda>_.
     andThen (publish_rollout ''rollouts.rollout.created'' (ro_id r')) (\<lambda>_. ret r')))"

text \<open>The error of the lookup is dropped: only a row that is found blocks the attachment.\<close>

definition svc_attach_deploy ::
  "uuid \<Rightarrow> strategy \<Rightarrow> uuid option \<Rightarrow> uuid option \<Rightarrow> rollout rollout_prog" where
  "svc_attach_deploy dep snapshot release creator =
     andThen (attempt (get_active_by_deployment dep) :: (rollout_error + rollout) rollout_prog) (\<lambda>g.
       case g of
         Inr _ \<Rightarrow> fail ErrAlreadyActiveOnTarget
       | Inl _ \<Rightarrow> create_and_announce
           (pending_rollout TargetTypeDeploy (deployment_ref dep) snapshot release creator) creator)"

definition svc_attach_config ::
  "uuid \<Rightarrow> int \<Rightarrow> strategy \<Rightarrow> uuid option \<Rightarrow> uuid option \<Rightarrow> rollout rollout_prog" where
  "svc_attach_config rule prev snapshot release creator =
     andThen (attempt (get_active_by_rule rule) :: (rollout_error + rollout) rollout_prog) (\<lambda>g.
       case g of
         Inr _ \<Rightarrow> fail ErrAlreadyActiveOnTarget
       | Inl _ \<Rightarrow>
           if (case sg_steps snapshot of [] \<Rightarrow> False | st # _ \<Rightarrow> flt (st_percent st) (f64_of_int prev))
           then fail ErrStrategyMovesBackward
           else create_and_announce
             (pending_rollout TargetTypeConfig (rule_ref rule prev) snapshot release creator) creator)"

section \<open>Controls\<close>

definition ro_transition ::
  "uuid \<Rightarrow> uuid \<Rightarrow> string \<Rightarrow> event_type \<Rightarrow> rollout_status \<Rightarrow> (rollout_status \<Rightarrow> bool) \<Rightarrow> bool \<Rightarrow>
   unit rollout_prog" where
  "ro_transition i actor reason evt target allow with_reason =
     andThen (rollout_get i) (\<lambda>r.
       if \<not> allow (ro_status r) then fail (ErrInvalidStateForOp (ro_status r))
       else let reason_ptr = (if with_reason \<or> reason \<noteq> '''' then Some reason else None)
            in andThen (rollout_update_status i target reason_ptr) (\<lambda>_.
               andThen (emit_event i evt (Some actor) reason_ptr) (\<lambda>_.
                 publish_event_subject evt i)))"

definition rollout_pause :: "uuid \<Rightarrow> uuid \<Rightarrow> string \<Rightarrow> unit rollout_prog" where
  "rollout_pause i actor reason =
     ro_transition i actor reason EventPaused RolloutPaused (\<lambda>c. c = RolloutActive) False"

definition rollout_resume :: "uuid \<Rightarrow> uuid \<Rightarrow> string \<Rightarrow> unit rollout_prog" where
  "rollout_resume i actor reason =
     ro_transition i actor reason EventResumed RolloutActive (\<lambda>c. c = RolloutPaused) False"

definition rollout_promote :: "uuid \<Rightarrow> uuid \<Rightarrow> string \<Rightarrow> unit rollout_prog" where
  "rollout_promote i actor reason =
     ro_transition i actor reason EventPromoted RolloutActive
       (\<lambda>c. c = RolloutActive \<or> c = RolloutPaused) False"

definition rollout_force_promote :: "uuid \<Rightarrow> uuid \<Rightarrow> string \<Rightarrow> unit rollout_prog" where
  "rollout_force_promote i actor reason =
     (if reason = '''' then fail ErrReasonRequired
      else ro_transition i actor reason EventForcePromoted RolloutActive
        (\<lambda>c. c = RolloutActive \<or> c = RolloutPaused \<or> c = RolloutAwaitingApproval) False)"

definition rollout_approve :: "uuid \<Rightarrow> uuid \<Rightarrow> string \<Rightarrow> unit rollout_prog" where
  "rollout_approve i actor reason =
     ro_transition i actor reason EventApproved RolloutActive (\<lambda>c. c = RolloutAwaitingApproval) False"

definition rollout_rollback :: "uuid \<Rightarrow> uuid \<Rightarrow> string \<Rightarrow> unit rollout_prog" where
  "rollout_rollback i actor reason =
     (if reason = '''' then fail ErrReasonRequired
      else andThen (rollout_get i) (\<lambda>r.
           andThen (ro_transition i actor reason EventRollbackTriggered RolloutRolledBack
             (\<lambda>c. c = RolloutActive \<or> c = RolloutPaused \<or> c = RolloutAwaitingApproval) True) (\<lambda>_.
             wrapped (RolloutWrap ''rollback state OK but revert failed'') (app_revert r))))"

datatype rollout_control = CtlPause | CtlResume | CtlPromote | CtlForcePromote | CtlApprove | CtlRollback

fun run_control :: "rollout_control \<Rightarrow> uuid \<Rightarrow> uuid \<Rightarrow> string \<Rightarrow> unit rollout_prog" where
  "run_control CtlPause i a r = rollout_pause i a r"
| "run_control CtlResume i a r = rollout_resume i a r"
| "run_control CtlPromote i a r = rollout_promote i a r"
| "run_control CtlForcePromote i a r = rollout_force_promote i a r"
| "run_control CtlApprove i a r = rollout_approve i a r"
| "run_control CtlRollback i a r = rollout_rollback i a r"

end
