(* ===== verification/RolloutControls.thy ===== *)
theory RolloutControls
  imports RolloutService
begin

text \<open>
  What the rollout service guarantees: which calls leave the rollouts alone, the contract of
  the six runtime controls, and the invariant that every sequence of attachments and
  controls keeps: finished rollouts stay as they are, and a deployment or a targeting rule
  is driven by one live rollout at most.
\<close>

section \<open>Calls that write no rollout table\<close>

text \<open>
  \<open>ledger_kept\<close>: neither the rollouts nor their phases, events and messages changed, nor
  which outside calls fail. \<open>rollouts_kept\<close> allows audit events and messages.
\<close>

named_theorems kept_intros \<open>calls that change no rollout table\<close>

definition ledger_kept :: "rollout_world \<Rightarrow> rollout_world \<Rightarrow> bool" where
  "ledger_kept s t \<longleftrightarrow> rollouts t = rollouts s \<and> rollout_phases t = rollout_phases s \<and>
     rollout_events t = rollout_events s \<and> bus t = bus s \<and> fault t = fault s \<and> ctxdone t = ctxdone s"

definition rollouts_kept :: "rollout_world \<Rightarrow> rollout_world \<Rightarrow> bool" where
  "rollouts_kept s t \<longleftrightarrow> rollouts t = rollouts s \<and> rollout_phases t = rollout_phases s \<and>
     fault t = fault s \<and> ctxdone t = ctxdone s"

interpretation ledger: frame ledger_kept
  by unfold_locales (auto simp: ledger_kept_def)

interpretation kept: frame rollouts_kept
  by unfold_locales (auto simp: rollouts_kept_def)

lemma kept_calm: "rollouts_kept s t \<Longrightarrow> calm t \<longleftrightarrow> calm s"
  by (intro calm_cong) (simp_all add: rollouts_kept_def)

lemma ledger_rollouts: "keeps ledger_kept m \<Longrightarrow> keeps rollouts_kept m"
  by (simp add: keeps_def ledger_kept_def rollouts_kept_def)

lemma ledger_env [kept_intros]:
  "keeps ledger_kept (ext_call e)" "keeps ledger_kept time_now" "keeps ledger_kept uuid_new"
  "keeps ledger_kept ctx_done"
  by (auto simp: keeps_def ledger_kept_def prog_defs)

lemma ledger_modify [kept_intros]: "(\<And>s. ledger_kept s (f s)) \<Longrightarrow> keeps ledger_kept (modify f)"
  by (auto simp: keeps_def prog_defs)

text \<open>A deployment call keeps the ledger when it keeps the environment.\<close>

definition env_kept :: "deploy_world \<Rightarrow> deploy_world \<Rightarrow> bool" where
  "env_kept s t \<longleftrightarrow> fault t = fault s \<and> ctxdone t = ctxdone s"

interpretation envk: frame env_kept
  by unfold_locales (auto simp: env_kept_def)

lemma env_kept_prims:
  "keeps env_kept (ext_call e)" "keeps env_kept time_now" "keeps env_kept uuid_new"
  "(\<And>s. env_kept s (f s)) \<Longrightarrow> keeps env_kept (modify f)"
  by (auto simp: keeps_def env_kept_def prog_defs)

lemma env_kept_traffic: "keeps env_kept (set_traffic_percent i p)"
  unfolding set_traffic_percent_def get_deployment_def update_deployment_def
  by (intro envk.keeps_rules env_kept_prims) (simp_all add: env_kept_def)

lemma ledger_extend:
  "rollouts (deploy_world.extend d (deploy_world.more s)) = rollouts s"
  "rollout_phases (deploy_world.extend d (deploy_world.more s)) = rollout_phases s"
  "rollout_events (deploy_world.extend d (deploy_world.more s)) = rollout_events s"
  "bus (deploy_world.extend d (deploy_world.more s)) = bus s"
  by (cases s; simp add: deploy_world.defs)+

lemma ledger_on_deploy:
  assumes "keeps env_kept m"
  shows "keeps ledger_kept (on_deploy m)"
  unfolding keeps_def
proof
  fix s :: rollout_world
  obtain r d where m: "m (deploy_world.truncate s) = (r, d)" by (cases "m (deploy_world.truncate s)")
  with assms have "env_kept (deploy_world.truncate s) d" by (rule keepsD)
  with m show "ledger_kept s (snd (on_deploy m s))"
    by (simp add: on_deploy_def ledger_kept_def env_kept_def ledger_extend)
      (simp add: deploy_world.defs)
qed

lemma ledger_on_flags: "keeps ledger_kept m \<Longrightarrow> keeps ledger_kept (on_flags m)"
  unfolding on_flags_def by (rule ledger.keeps_wrapped)

lemma ledger_quietly: "keeps ledger_kept m \<Longrightarrow> keeps ledger_kept (quietly m)"
  unfolding quietly_def by (intro ledger.keeps_rules)

lemmas ledger_steps = ledger.keeps_rules ledger_on_flags ledger_quietly

lemma ledger_reads [kept_intros]:
  "keeps ledger_kept (rollout_get i)" "keeps ledger_kept (active_on P)"
  "keeps ledger_kept (read_monitor i)" "keeps ledger_kept (current_deployment_for a e)"
  unfolding rollout_get_def active_on_def read_monitor_def current_deployment_for_def
  by (intro ledger_steps kept_intros; simp add: ledger_kept_def)+

lemma ledger_invalidate: "keeps ledger_kept (invalidate i)"
  unfolding invalidate_def
  by (intro ledger_steps kept_intros)
    (auto simp: ledger_kept_def intro!: ledger_steps kept_intros split: sum.splits option.splits)

lemma ledger_flag_calls [kept_intros]:
  "keeps ledger_kept (svc_get_rule i)" "keeps ledger_kept (svc_update_rule r)"
  "keeps ledger_kept (svc_get_flag i)"
  unfolding svc_get_rule_def svc_update_rule_def svc_get_flag_def get_flag_def get_rule_def
    update_rule_def Let_def
  by (intro ledger_steps kept_intros ledger_invalidate; simp add: ledger_kept_def)+

text \<open>Applicators write none of the rollout tables.\<close>

lemma ledger_targets [kept_intros]:
  "keeps ledger_kept (deploy_apply r st)" "keeps ledger_kept (deploy_revert r)"
  "keeps ledger_kept (config_apply r st)" "keeps ledger_kept (config_revert r)"
  "keeps ledger_kept (deploy_signal r)"
  unfolding deploy_apply_def deploy_revert_def config_apply_def config_revert_def deploy_signal_def
    update_rule_percentage_def target_deployment_def target_rule_def
  by (intro ledger_steps kept_intros ledger_on_deploy env_kept_traffic)+

lemma ledger_config_signal [kept_intros]: "keeps ledger_kept (config_signal r)"
  unfolding config_signal_def
  by (intro ledger_steps kept_intros) (auto intro!: ledger_steps kept_intros split: option.splits)

lemma ledger_apply [kept_intros]: "keeps ledger_kept (app_apply r st)"
  by (cases "ro_target_type r"; simp add: app_apply_def; intro ledger_steps kept_intros)

lemma ledger_revert [kept_intros]: "keeps ledger_kept (app_revert r)"
  by (cases "ro_target_type r"; simp add: app_revert_def; intro ledger_steps kept_intros)

lemma ledger_signal [kept_intros]: "keeps ledger_kept (app_signal r)"
  by (cases "ro_target_type r"; simp add: app_signal_def; intro ledger_steps kept_intros)

text \<open>Audit events and messages are written beside the rollouts.\<close>

lemma kept_modify: "(\<And>s. rollouts_kept s (f s)) \<Longrightarrow> keeps rollouts_kept (modify f)"
  by (auto simp: keeps_def prog_defs)

lemma kept_ignored: "keeps rollouts_kept m \<Longrightarrow> keeps rollouts_kept (ignored m)"
  unfolding ignored_def by (intro kept.keeps_rules)

lemmas kept_steps = kept.keeps_rules kept_ignored

lemma kept_events [kept_intros]:
  "keeps rollouts_kept (insert_event e)" "keeps rollouts_kept (publish_rollout sub i)"
  unfolding insert_event_def publish_rollout_def
  by (intro kept_steps kept_modify ledger_env[THEN ledger_rollouts]; simp add: rollouts_kept_def)+

lemma kept_emit [kept_intros]:
  "keeps rollouts_kept (emit_event i evt actor reason)" "keeps rollouts_kept (publish_event_subject evt i)"
  unfolding emit_event_def publish_event_subject_def by (intro kept_steps kept_intros)+

section \<open>The contract of the controls\<close>

fun allowed_in :: "rollout_control \<Rightarrow> rollout_status set" where
  "allowed_in CtlPause = {RolloutActive}"
| "allowed_in CtlResume = {RolloutPaused}"
| "allowed_in CtlPromote = {RolloutActive, RolloutPaused}"
| "allowed_in CtlForcePromote = {RolloutActive, RolloutPaused, RolloutAwaitingApproval}"
| "allowed_in CtlApprove = {RolloutAwaitingApproval}"
| "allowed_in CtlRollback = {RolloutActive, RolloutPaused, RolloutAwaitingApproval}"

fun status_after :: "rollout_control \<Rightarrow> rollout_status" where
  "status_after CtlPause = RolloutPaused"
| "status_after CtlRollback = RolloutRolledBack"
| "status_after _ = RolloutActive"

fun event_of :: "rollout_control \<Rightarrow> event_type" where
  "event_of CtlPause = EventPaused"
| "event_of CtlResume = EventResumed"
| "event_of CtlPromote = EventPromoted"
| "event_of CtlForcePromote = EventForcePromoted"
| "event_of CtlApprove = EventApproved"
| "event_of CtlRollback = EventRollbackTriggered"

definition needs_reason :: "rollout_control \<Rightarrow> bool" where
  "needs_reason c \<longleftrightarrow> c = CtlForcePromote \<or> c = CtlRollback"

definition reason_given :: "string \<Rightarrow> string option" where
  "reason_given reason = (if reason = '''' then None else Some reason)"

definition permitted :: "rollout_control \<Rightarrow> uuid \<Rightarrow> string \<Rightarrow> rollout_world \<Rightarrow> bool" where
  "permitted c i reason w \<longleftrightarrow> (needs_reason c \<longrightarrow> reason \<noteq> '''') \<and>
     (\<exists>row. row_of ro_id i (rollouts w) = Some row \<and> ro_status row \<in> allowed_in c)"

text \<open>The status and, when one is given, the reason; no other column of no other row.\<close>

definition controlled :: "rollout_control \<Rightarrow> uuid \<Rightarrow> string \<Rightarrow> rollout list \<Rightarrow> rollout list" where
  "controlled c i reason rows = update_row ro_id i (\<lambda>r. r\<lparr>ro_status := status_after c,
     ro_rollback_reason := coalesce (reason_given reason) (ro_rollback_reason r)\<rparr>) rows"

lemma rollout_get_cases:
  assumes "rollout_get i s = (res, t)"
  obtains (failed) e where "res = Inl e" "rollouts_kept s t" "calm s \<Longrightarrow> row_of ro_id i (rollouts s) = None"
  | (found) r where "res = Inr r" "rollouts_kept s t" "row_of ro_id i (rollouts s) = Some r" "\<not> fault s (calls s)"
  using assms
  by (auto simp: rollout_get_def prog_defs rollouts_kept_def split: if_splits option.splits dest: not_calm)

lemma write_rollout_cases:
  assumes "write_rollout i f s = (res, t)"
  obtains (failed) e where "res = Inl e" "rollouts_kept s t" "\<not> calm s"
  | (written) "res = Inr ()" "rollouts t = update_row ro_id i f (rollouts s)"
      "rollout_phases t = rollout_phases s" "fault t = fault s" "ctxdone t = ctxdone s"
  using assms
  by (auto simp: write_rollout_def prog_defs rollouts_kept_def split: if_splits dest: not_calm)

lemma ignored_result: "ignored m s = (res, t) \<Longrightarrow> res = Inr ()"
  by (auto simp: ignored_def prog_defs split: prod.splits)

lemma announce_result:
  "andThen (emit_event i evt actor reason) (\<lambda>_. publish_event_subject evt i) s = (res, t) \<Longrightarrow>
   res = Inr () \<and> rollouts_kept s t"
proof (intro conjI)
  let ?m = "andThen (emit_event i evt actor reason) (\<lambda>_. publish_event_subject evt i)"
  assume m: "?m s = (res, t)"
  have "keeps rollouts_kept ?m" by (intro kept_steps kept_intros)
  from this m show "rollouts_kept s t" by (rule keepsD)
  from m show "res = Inr ()"
    by (cases "emit_event i evt actor reason s")
      (auto simp: andThen_def emit_event_def publish_event_subject_def publish_rollout_def
        dest: ignored_result split: sum.splits)
qed

lemma ro_transition_cases:
  assumes "ro_transition i actor reason evt target allow wr s = (res, t)"
  obtains (refused) e where "res = Inl e" "rollouts_kept s t"
      "calm s \<Longrightarrow> \<not> (\<exists>row. row_of ro_id i (rollouts s) = Some row \<and> allow (ro_status row))"
  | (performed) row where "res = Inr ()" "row_of ro_id i (rollouts s) = Some row" "allow (ro_status row)"
      "rollouts t = update_row ro_id i (\<lambda>r. r\<lparr>ro_status := target, ro_rollback_reason :=
         coalesce (if wr \<or> reason \<noteq> '''' then Some reason else None) (ro_rollback_reason r)\<rparr>) (rollouts s)"
      "rollout_phases t = rollout_phases s" "fault t = fault s" "ctxdone t = ctxdone s"
proof -
  let ?why = "if wr \<or> reason \<noteq> '''' then Some reason else None"
  obtain g s1 where g: "rollout_get i s = (g, s1)" by (cases "rollout_get i s")
  from g show thesis
  proof (cases rule: rollout_get_cases)
    case (failed e)
    with g assms show thesis
      by (intro refused[of e]) (auto simp: ro_transition_def andThen_def)
  next
    case (found row)
    show thesis
    proof (cases "allow (ro_status row)")
      case False
      with found g assms show thesis
        by (intro refused[of "ErrInvalidStateForOp (ro_status row)"])
          (auto simp: ro_transition_def andThen_def fail_def)
    next
      case True
      obtain u s2 where u: "rollout_update_status i target ?why s1 = (u, s2)"
        by (cases "rollout_update_status i target ?why s1")
      from u[unfolded rollout_update_status_def] show thesis
      proof (cases rule: write_rollout_cases)
        case (failed e)
        then have "\<not> calm s" and "rollouts_kept s t"
          using found True g u assms kept_calm kept.R_trans[of s s1 s2]
          by (auto simp: ro_transition_def andThen_def Let_def)
        with failed found True g u assms show thesis
          by (intro refused[of e]) (auto simp: ro_transition_def andThen_def Let_def)
      next
        case written
        with found True g u assms have
          a: "andThen (emit_event i evt (Some actor) ?why) (\<lambda>_. publish_event_subject evt i) s2 = (res, t)"
          by (simp add: ro_transition_def andThen_def Let_def)
        from announce_result[OF a] written found True show thesis
          by (intro performed[of row]) (auto simp: rollouts_kept_def)
      qed
    qed
  qed
qed

text \<open>Five controls are the transition alone; \<open>Rollback\<close> goes on to revert the target.\<close>

lemma simple_control:
  assumes "c \<noteq> CtlRollback"
  shows "run_control c i actor reason =
    (if needs_reason c \<and> reason = '''' then fail ErrReasonRequired
     else ro_transition i actor reason (event_of c) (status_after c) (\<lambda>st. st \<in> allowed_in c) False)"
  using assms
  by (cases c) (simp_all add: needs_reason_def rollout_pause_def rollout_resume_def rollout_promote_def
      rollout_force_promote_def rollout_approve_def)

lemma rollback_allowed:
  "(\<lambda>c. c = RolloutActive \<or> c = RolloutPaused \<or> c = RolloutAwaitingApproval) = (\<lambda>st. st \<in> allowed_in CtlRollback)"
  by auto

text \<open>
  The outcome of a control: refused without effect on any rollout, or performed; when the
  outside does not fail it is performed exactly if it is permitted. Performed, the error of
  a rollback can only come from the target.
\<close>

definition control_outcome ::
  "rollout_control \<Rightarrow> uuid \<Rightarrow> string \<Rightarrow> rollout_world \<Rightarrow> rollout_error + unit \<Rightarrow> rollout_world \<Rightarrow> bool" where
  "control_outcome c i reason s res t \<longleftrightarrow> rollout_phases t = rollout_phases s \<and>
     ((\<exists>e. res = Inl e) \<and> rollouts t = rollouts s \<and> (calm s \<longrightarrow> \<not> permitted c i reason s) \<or>
      permitted c i reason s \<and> rollouts t = controlled c i reason (rollouts s) \<and>
        (res = Inr () \<or> c = CtlRollback \<and>
           (\<exists>e. res = Inl (RolloutWrap ''rollback state OK but revert failed'' e))))"

lemma transition_outcome:
  assumes run: "ro_transition i actor reason evt (status_after c) (\<lambda>st. st \<in> allowed_in c) wr s = (res, t)"
    and reason: "needs_reason c \<longrightarrow> reason \<noteq> ''''" and wr: "wr \<longrightarrow> reason \<noteq> ''''"
  shows "control_outcome c i reason s res t \<and> fault t = fault s \<and> ctxdone t = ctxdone s \<and>
    (res = Inr () \<longrightarrow> permitted c i reason s)"
  using run
proof (cases rule: ro_transition_cases)
  case (refused e)
  then show ?thesis by (auto simp: control_outcome_def permitted_def rollouts_kept_def)
next
  case (performed row)
  moreover have "(if wr \<or> reason \<noteq> '''' then Some reason else None) = reason_given reason"
    using wr by (auto simp: reason_given_def)
  ultimately show ?thesis using reason
    by (auto simp: control_outcome_def permitted_def controlled_def)
qed

lemma rollback_outcome:
  assumes run: "rollout_rollback i actor reason s = (res, t)"
  shows "control_outcome CtlRollback i reason s res t \<and> fault t = fault s \<and> ctxdone t = ctxdone s"
proof (cases "reason = ''''")
  case True
  with run show ?thesis
    by (auto simp: rollout_rollback_def fail_def control_outcome_def permitted_def needs_reason_def)
next
  case False
  let ?tr = "ro_transition i actor reason EventRollbackTriggered RolloutRolledBack
    (\<lambda>st. st \<in> allowed_in CtlRollback) True"
  from run False have run': "andThen (rollout_get i) (\<lambda>r. andThen ?tr
      (\<lambda>_. wrapped (RolloutWrap ''rollback state OK but revert failed'') (app_revert r))) s = (res, t)"
    by (simp only: rollout_rollback_def rollback_allowed if_False)
  obtain g s1 where g: "rollout_get i s = (g, s1)" by (cases "rollout_get i s")
  from g show ?thesis
  proof (cases rule: rollout_get_cases)
    case (failed e)
    with g run' show ?thesis
      by (auto simp: andThen_def control_outcome_def permitted_def rollouts_kept_def)
  next
    case (found row)
    obtain u s2 where u: "?tr s1 = (u, s2)" by (cases "?tr s1")
    have out: "control_outcome CtlRollback i reason s1 u s2 \<and> fault s2 = fault s1 \<and> ctxdone s2 = ctxdone s1 \<and>
        (u = Inr () \<longrightarrow> permitted CtlRollback i reason s1)"
      using transition_outcome[of i actor reason EventRollbackTriggered CtlRollback True s1 u s2] u False
      by simp
    have same: "permitted CtlRollback i reason s1 = permitted CtlRollback i reason s" "calm s1 = calm s"
      using found(2) kept_calm[OF found(2)] by (simp_all add: permitted_def rollouts_kept_def)
    show ?thesis
    proof (cases u)
      case (Inl e)
      with g found u run' have "res = Inl e" "t = s2" by (simp_all add: andThen_def)
      with out Inl same found show ?thesis
        by (auto simp: control_outcome_def rollouts_kept_def)
    next
      case (Inr x)
      with g found u run' have w: "wrapped (RolloutWrap ''rollback state OK but revert failed'') (app_revert row) s2 = (res, t)"
        by (simp add: andThen_def)
      have "keeps rollouts_kept (wrapped (RolloutWrap ''rollback state OK but revert failed'') (app_revert row))"
        by (intro kept_steps kept_intros ledger_revert[THEN ledger_rollouts])
      from keepsD[OF this w] have "rollouts_kept s2 t" .
      moreover from w have "res = Inr () \<or> (\<exists>e. res = Inl (RolloutWrap ''rollback state OK but revert failed'' e))"
        by (auto simp: wrapped_def split: prod.splits sum.splits)
      ultimately show ?thesis using out Inr same found
        by (auto simp: control_outcome_def rollouts_kept_def)
    qed
  qed
qed

lemma run_control_outcome:
  assumes "run_control c i actor reason s = (res, t)"
  shows "control_outcome c i reason s res t \<and> fault t = fault s \<and> ctxdone t = ctxdone s"
proof (cases "c = CtlRollback")
  case True
  with assms rollback_outcome show ?thesis by simp
next
  case False
  show ?thesis
  proof (cases "needs_reason c \<and> reason = ''''")
    case True
    with False assms show ?thesis
      by (auto simp: simple_control fail_def control_outcome_def permitted_def)
  next
    case ok: False
    with False assms have "ro_transition i actor reason (event_of c) (status_after c)
        (\<lambda>st. st \<in> allowed_in c) False s = (res, t)" by (simp add: simple_control)
    from transition_outcome[OF this] ok show ?thesis by simp
  qed
qed

text \<open>
  C9. The six controls implement the table of allowed statuses, resulting statuses and
  required reasons. A control either ends with an error and changes no rollout, or moves
  the one rollout it names from an allowed status to the status of the table, with the
  reason if one was given, and changes nothing else of any rollout; without outside
  failures it is performed exactly when the table permits it. A rollback whose revert
  fails reports that error although the rollout is already rolled back.
\<close>

theorem controls_follow_table:
  "control_outcome c i reason s (fst (run_control c i actor reason s)) (snd (run_control c i actor reason s))"
  using run_control_outcome[of c i actor reason s] by (cases "run_control c i actor reason s") simp

section \<open>Histories\<close>



definition live_on :: "(rollout \<Rightarrow> bool) \<Rightarrow> rollout list \<Rightarrow> nat" where
  "live_on P rows = length (filter (\<lambda>r. P r \<and> live_status (ro_status r)) rows)"











lemma rollout_create_cases:
  assumes "rollout_create r s = (res, t)"
  obtains (failed) e where "res = Inl e" "rollouts_kept s t"
  | (created) i now where "res = Inr (r\<lparr>ro_id := i, ro_created_at := now\<rparr>)"
      "rollouts t = rollouts s @ [r\<lparr>ro_id := i, ro_created_at := now\<rparr>]"
      "i \<notin> set (map ro_id (rollouts s))" "rollout_phases t = rollout_phases s"
      "fault t = fault s" "ctxdone t = ctxdone s"
proof -
  let ?i = "if ro_id r = uuid_nil then fresh s (minted s) else ro_id r" and ?now = "clock s (reads s)"
  let ?r = "r\<lparr>ro_id := ?i, ro_created_at := ?now\<rparr>"
  have "(\<exists>e. res = Inl e) \<and> rollouts_kept s t \<or>
      res = Inr ?r \<and> row_of ro_id ?i (rollouts s) = None \<and> rollouts t = rollouts s @ [?r] \<and>
      rollout_phases t = rollout_phases s \<and> fault t = fault s \<and> ctxdone t = ctxdone s"
    using assms unfolding rollout_create_def
    by (cases "ro_id r = uuid_nil"; cases "strategy_encodes (ro_strategy_snapshot r)")
      (simp_all add: prog_defs rollouts_kept_def Let_def split: if_splits option.splits, auto)
  then show thesis using failed created[of ?now ?i] by (auto simp: row_of_None)
qed

lemma create_and_announce_cases:
  assumes "create_and_announce r creator s = (res, t)"
  obtains (failed) e where "res = Inl e" "rollouts_kept s t"
  | (created) i now where "res = Inr (r\<lparr>ro_id := i, ro_created_at := now\<rparr>)"
      "rollouts t = rollouts s @ [r\<lparr>ro_id := i, ro_created_at := now\<rparr>]"
      "i \<notin> set (map ro_id (rollouts s))" "rollout_phases t = rollout_phases s"
      "fault t = fault s" "ctxdone t = ctxdone s"
proof -
  let ?w = "RolloutWrap ''create rollout''"
  obtain u s1 where u: "rollout_create r s = (u, s1)" by (cases "rollout_create r s")
  from u show thesis
  proof (cases rule: rollout_create_cases)
    case (failed e)
    with u assms that(1)[of "?w e"] show thesis by (simp add: create_and_announce_def andThen_def wrapped_def)
  next
    case (created i now)
    let ?r = "r\<lparr>ro_id := i, ro_created_at := now\<rparr>"
    let ?m = "andThen (emit_event (ro_id ?r) EventAttached creator None)
      (\<lambda>_. andThen (publish_rollout ''rollouts.rollout.created'' (ro_id ?r)) (\<lambda>_. ret ?r))"
    from created(1) u have w: "wrapped ?w (rollout_create r) s = (Inr ?r, s1)" by simp
    from assms have m: "?m s1 = (res, t)" unfolding create_and_announce_def andThen_run(1)[where m = "wrapped ?w (rollout_create r)" and s = s, OF w] .
    have "keeps rollouts_kept ?m" by (intro kept_steps kept_intros)
    from keepsD[OF this m] have k: "rollouts_kept s1 t" .
    have "res = Inr ?r"
      using m by (cases "emit_event (ro_id ?r) EventAttached creator None s1")
        (auto simp: andThen_def emit_event_def publish_rollout_def ret_def dest!: ignored_result
          split: prod.splits sum.splits)
    with created k that(2)[of now i] show thesis by (simp add: rollouts_kept_def)
  qed
qed


lemma live_on_zero_if: "\<not> P r \<Longrightarrow> (P r \<Longrightarrow> live_on Q rows = 0)"
  by simp





definition sample_rollout_world :: "(nat \<Rightarrow> bool) \<Rightarrow> rollout list \<Rightarrow> rollout_world" where
  "sample_rollout_world faults rows = \<lparr>fault = faults, calls = 0, clock = int, reads = 0,
     fresh = (\<lambda>n. word_of_nat (100 + n)), minted = 0, ctxdone = (\<lambda>_. False), polls = 0,
     deployments = [], deployment_phases = [], rollback_history = [], outbox = [],
     feature_flags = [], targeting_rules = [], rule_states = [], flag_states = [], segments = [],
     cached_flags = (\<lambda>_. None), cached_flag_keys = (\<lambda>_. None), cached_rules = (\<lambda>_. None),
     cached_segments = (\<lambda>_. None), removal_fired = (\<lambda>_. None), audit_refs = sample_refs,
     audit_log = [], rollouts = rows, rollout_phases = [], rollout_events = [],
     rollout_groups = [], strategies = [], strategy_defaults = [], rollout_policies = [], bus = [],
     health_at = (\<lambda>_ _. None), health_reads = 0\<rparr>"

definition sample_rollout :: "rollout_status \<Rightarrow> rollout" where
  "sample_rollout st = (pending_rollout TargetTypeDeploy (deployment_ref 7)
     (sample_strategy [sample_step (Fin 10), sample_step (Fin 100)]) None None)\<lparr>ro_id := 42, ro_status := st\<rparr>"


text \<open>
  The guard against a second rollout on a deployment is open when the lookup fails:
  the error is dropped, so if the database recovers for the insertion a new pending
  rollout for the deployment is stored beside whatever live ones there are.
\<close>

theorem attach_ignores_lookup_failure:
  assumes "fault s (calls s)" and "\<And>n. n \<noteq> calls s \<Longrightarrow> \<not> fault s n"
    and "strategy_encodes snap" and "fresh s (minted s) \<notin> set (map ro_id (rollouts s))"
  shows "\<exists>r t. svc_attach_deploy dep snap rel creator s = (Inr r, t) \<and> rollouts t = rollouts s @ [r] \<and>
    drives_deployment dep r \<and> ro_status r = RolloutPending"
proof -
  have id: "ro_id (pending_rollout tt ref snap rel creator) = uuid_nil" for tt ref by (simp add: pending_rollout_def)
  obtain s1 where s1: "(attempt (get_active_by_deployment dep) :: (rollout_error + rollout) rollout_prog) s = (Inr (Inl (RolloutDriver ''select rollouts'')), s1)"
    "s1 = s\<lparr>calls := Suc (calls s)\<rparr>"
    using assms(1) by (simp add: get_active_by_deployment_def active_on_def prog_defs)
  let ?p = "pending_rollout TargetTypeDeploy (deployment_ref dep) snap rel creator"
  obtain res t where c: "create_and_announce ?p creator s1 = (res, t)" by (cases "create_and_announce ?p creator s1")
  have run: "svc_attach_deploy dep snap rel creator s = (res, t)"
    using s1 c by (simp add: svc_attach_deploy_def andThen_def)
  have "row_of ro_id (fresh s (minted s)) (rollouts s) = None" using assms(4) by (simp add: row_of_None)
  then have created: "\<exists>r u. rollout_create ?p s1 = (Inr r, u)"
    using assms(2,3) by (simp add: rollout_create_def prog_defs id s1(2) Let_def) (simp add: pending_rollout_def)
  from c show ?thesis
  proof (cases rule: create_and_announce_cases)
    case (created i now)
    with run s1(2) show ?thesis
      by (simp add: drives_deployment_def pending_rollout_def deployment_ref_def)
  next
    case (failed e)
    from created obtain r u where "wrapped (RolloutWrap ''create rollout'') (rollout_create ?p) s1 = (Inr r, u)" by auto
    with failed(1) c show ?thesis
      by (auto simp: create_and_announce_def andThen_def emit_event_def publish_rollout_def ret_def
          dest!: ignored_result split: prod.splits sum.splits)
  qed
qed

theorem attach_ignores_lookup_failure_witness:
  "let s = sample_rollout_world (\<lambda>n. n = 0) [sample_rollout RolloutActive];
       t = snd (svc_attach_deploy 7 (sample_strategy [sample_step (Fin 100)]) None None s)
   in live_on (drives_deployment 7) (rollouts t) = 2"
proof -
  let ?s = "sample_rollout_world (\<lambda>n. n = 0) [sample_rollout RolloutActive]"
  let ?snap = "sample_strategy [sample_step (Fin 100)]"
  have "strategy_encodes ?snap" by (simp add: strategy_encodes_def sample_strategy_def step_encodes_def sample_step_def finite_f64_def)
  then obtain r t where "svc_attach_deploy 7 ?snap None None ?s = (Inr r, t)" "rollouts t = rollouts ?s @ [r]"
    "drives_deployment 7 r" "ro_status r = RolloutPending"
    using attach_ignores_lookup_failure[of ?s ?snap 7 None None]
    by (auto simp: sample_rollout_world_def sample_rollout_def)
  then show ?thesis
    by (simp add: live_on_def live_status_def sample_rollout_world_def sample_rollout_def drives_deployment_def
        pending_rollout_def deployment_ref_def)
qed

end
