(* ===== verification/RolloutEngine.thy ===== *)
theory RolloutEngine
  imports RolloutControls SqlBuilder
begin

text \<open>
  The rollout engine (\<open>internal/rollout/engine/engine.go\<close>, \<open>gates.go\<close>): the gates of a phase,
  the polling loop, and the drive of a rollout through its phases. The poll loop may run
  forever, so it is a partial function: \<open>None\<close> is a call that does not return. \<open>fmt\<close> renders
  a number in the notes and reasons (\<open>%g\<close>); no decision depends on it.
\<close>

section \<open>Gates\<close>

definition metric_value :: "string \<Rightarrow> health_score \<Rightarrow> f64 option" where
  "metric_value name s =
     (if name = ''score'' then Some (hs_score s)
      else if name = ''error_rate'' then Some (hs_error_rate s)
      else if name = ''latency_p99_ms'' then Some (hs_latency_p99_ms s)
      else if name = ''latency_p50_ms'' then Some (hs_latency_p50_ms s)
      else if name = ''request_rate'' then Some (hs_request_rate s)
      else None)"

definition compare_metric :: "f64 \<Rightarrow> string \<Rightarrow> f64 \<Rightarrow> bool" where
  "compare_metric val op threshold =
     (if op = ''>'' then fgt val threshold
      else if op = ''>='' then fge val threshold
      else if op = ''<'' then flt val threshold
      else if op = ''<='' then fle val threshold
      else if op = ''=='' then feq val threshold
      else if op = ''!='' then fne val threshold
      else False)"

definition trips :: "health_score \<Rightarrow> step_abort_condition \<Rightarrow> bool" where
  "trips score ac =
     (case metric_value (ac_metric ac) score of
        None \<Rightarrow> False
      | Some val \<Rightarrow> compare_metric val (ac_operator ac) (ac_threshold ac))"

definition evaluate_abort_conditions :: "step \<Rightarrow> health_score \<Rightarrow> step_abort_condition option" where
  "evaluate_abort_conditions st score = find (trips score) (st_abort_conditions st)"

definition effective_health_threshold :: "strategy \<Rightarrow> step \<Rightarrow> f64" where
  "effective_health_threshold sg st =
     (case st_health_threshold st of Some th \<Rightarrow> th | None \<Rightarrow> sg_default_health_threshold sg)"

section \<open>Events, messages and the rollback\<close>

definition show_int :: "int \<Rightarrow> string" where
  "show_int n = (if n < 0 then ''-'' @ decimal (nat (- n)) else decimal (nat n))"

definition engine_event ::
  "uuid \<Rightarrow> event_type \<Rightarrow> string option \<Rightarrow> (string \<times> payload_value) list \<Rightarrow> unit rollout_prog" where
  "engine_event i evt reason payload = ignored (insert_event
     \<lparr>re_id = uuid_nil, re_rollout_id = i, re_event_type = evt, re_actor_type = ''system'',
      re_actor_id = None, re_reason = reason, re_payload = payload, re_occurred_at = time_zero\<rparr>)"

definition engine_rollback :: "rollout \<Rightarrow> string \<Rightarrow> unit rollout_prog" where
  "engine_rollback ro reason =
     andThen (ignored (rollout_update_status (ro_id ro) RolloutRolledBack (Some reason))) (\<lambda>_.
     andThen (ignored (app_revert ro)) (\<lambda>_.
     andThen (engine_event (ro_id ro) EventRollbackTriggered (Some reason) []) (\<lambda>_.
       publish_rollout ''rollouts.rollout.rolled_back'' (ro_id ro))))"

section \<open>One phase\<close>

definition trip_text :: "(f64 \<Rightarrow> string) \<Rightarrow> step_abort_condition \<Rightarrow> string" where
  "trip_text fmt ac = ac_metric ac @ '' '' @ ac_operator ac @ '' '' @ fmt (ac_threshold ac)"

text \<open>Entering: the clock, the target, the phase row, the pointer, the event, the message.\<close>

definition enter_phase :: "rollout \<Rightarrow> rollout_phase \<Rightarrow> time rollout_prog" where
  "enter_phase ro ph =
     andThen time_now (\<lambda>now.
     andThen (wrapped (RolloutWrap ''apply phase'') (app_apply ro (rp_step_snapshot ph))) (\<lambda>_.
     andThen (ignored (update_phase_status (rp_id ph) PhaseActive (Some now) None
       (Some (st_percent (rp_step_snapshot ph))) None '''')) (\<lambda>_.
     andThen (ignored (update_phase_pointer (ro_id ro) (rp_phase_index ph) (Some now) None)) (\<lambda>_.
     andThen (engine_event (ro_id ro) EventPhaseEntered None
       [(''phase_index'', PayloadInt (rp_phase_index ph)),
        (''percent'', PayloadFloat (st_percent (rp_step_snapshot ph)))]) (\<lambda>_.
     andThen (publish_rollout ''rollouts.rollout.phase_entered'' (ro_id ro)) (\<lambda>_. ret now))))))"

text \<open>What a round of the loop ends with, beside the errors: another round or the phase passed.\<close>

datatype poll_outcome = PollAgain "time option" | PhaseComplete

definition abort_phase ::
  "(f64 \<Rightarrow> string) \<Rightarrow> rollout \<Rightarrow> rollout_phase \<Rightarrow> time \<Rightarrow> health_score \<Rightarrow> step_abort_condition \<Rightarrow>
   poll_outcome rollout_prog" where
  "abort_phase fmt ro ph now sg trip =
     andThen (ignored (update_phase_status (rp_id ph) PhaseRolledBack None (Some now) None
       (Some (hs_score sg)) (''abort: '' @ trip_text fmt trip))) (\<lambda>_.
     andThen (engine_event (ro_id ro) EventAbortConditionTripped None
       [(''metric'', PayloadText (ac_metric trip))]) (\<lambda>_.
     andThen (engine_rollback ro (''abort condition tripped: '' @ trip_text fmt trip)) (\<lambda>_.
       fail ErrPhaseRolledBack)))"

definition await_approval :: "rollout \<Rightarrow> rollout_phase \<Rightarrow> poll_outcome rollout_prog" where
  "await_approval ro ph =
     andThen (ignored (update_phase_status (rp_id ph) PhaseAwaitingApproval None None None None
       ''awaiting approval'')) (\<lambda>_.
     andThen (ignored (rollout_update_status (ro_id ro) RolloutAwaitingApproval None)) (\<lambda>_.
     andThen (publish_rollout ''rollouts.rollout.awaiting_approval'' (ro_id ro)) (\<lambda>_.
       fail ErrAwaitingApproval)))"

definition track_health ::
  "rollout \<Rightarrow> rollout_phase \<Rightarrow> time \<Rightarrow> time \<Rightarrow> bool \<Rightarrow> time option \<Rightarrow> time option rollout_prog" where
  "track_health ro ph entered now healthy since =
     (if healthy then
        (case since of
           None \<Rightarrow> andThen (ignored (update_phase_pointer (ro_id ro) (rp_phase_index ph)
             (Some entered) (Some now))) (\<lambda>_. ret (Some now))
         | Some t \<Rightarrow> ret (Some t))
      else andThen (ignored (update_phase_pointer (ro_id ro) (rp_phase_index ph)
             (Some entered) None)) (\<lambda>_. ret None))"

definition complete_phase :: "rollout \<Rightarrow> rollout_phase \<Rightarrow> time \<Rightarrow> health_score \<Rightarrow> poll_outcome rollout_prog" where
  "complete_phase ro ph now sg =
     andThen (ignored (update_phase_status (rp_id ph) PhasePassed None (Some now) None
       (Some (hs_score sg)) '''')) (\<lambda>_.
     andThen (engine_event (ro_id ro) EventPhaseExited None
       [(''phase_index'', PayloadInt (rp_phase_index ph)), (''score'', PayloadFloat (hs_score sg))]) (\<lambda>_.
     andThen (publish_rollout ''rollouts.rollout.phase_exited'' (ro_id ro)) (\<lambda>_. ret PhaseComplete)))"

definition time_out_phase :: "rollout \<Rightarrow> rollout_phase \<Rightarrow> time \<Rightarrow> health_score \<Rightarrow> poll_outcome rollout_prog" where
  "time_out_phase ro ph now sg =
     andThen (ignored (update_phase_status (rp_id ph) PhaseRolledBack None (Some now) None
       (Some (hs_score sg)) ''unhealthy at max_duration'')) (\<lambda>_.
     andThen (engine_rollback ro (''unhealthy at max_duration in phase '' @ show_int (rp_phase_index ph))) (\<lambda>_.
       fail ErrPhaseRolledBack))"

definition baked :: "step \<Rightarrow> time \<Rightarrow> time option \<Rightarrow> bool" where
  "baked st now since = (case since of None \<Rightarrow> False | Some t \<Rightarrow> now - t \<ge> st_bake_time_healthy st)"

text \<open>What the loop does with a signal it could read.\<close>

definition poll_decide ::
  "(f64 \<Rightarrow> string) \<Rightarrow> rollout \<Rightarrow> rollout_phase \<Rightarrow> bool \<Rightarrow> time \<Rightarrow> time option \<Rightarrow> time \<Rightarrow> health_score \<Rightarrow>
   poll_outcome rollout_prog" where
  "poll_decide fmt ro ph granted entered since now sg =
     (let st = rp_step_snapshot ph;
          threshold = effective_health_threshold (ro_strategy_snapshot ro) st
      in case evaluate_abort_conditions st sg of
           Some trip \<Rightarrow> abort_phase fmt ro ph now sg trip
         | None \<Rightarrow>
             if st_approval st \<noteq> None \<and> \<not> granted then await_approval ro ph
             else andThen (track_health ro ph entered now (fge (hs_score sg) threshold) since) (\<lambda>since'.
               if now - entered \<ge> st_min_duration st \<and> baked st now since'
               then complete_phase ro ph now sg
               else if st_max_duration st > 0 \<and> now - entered \<ge> st_max_duration st \<and>
                       \<not> baked st now since'
               then time_out_phase ro ph now sg
               else ret (PollAgain since')))"

definition poll_tick ::
  "(f64 \<Rightarrow> string) \<Rightarrow> rollout \<Rightarrow> rollout_phase \<Rightarrow> bool \<Rightarrow> time \<Rightarrow> time option \<Rightarrow> poll_outcome rollout_prog" where
  "poll_tick fmt ro ph granted entered since =
     andThen ctx_done (\<lambda>d. if d then fail ErrContext else
     andThen time_now (\<lambda>now.
     andThen (attempt (app_signal ro) :: (rollout_error + health_score) rollout_prog) (\<lambda>r.
       case r of
         Inl _ \<Rightarrow> ret (PollAgain since)
       | Inr sg \<Rightarrow> poll_decide fmt ro ph granted entered since now sg)))"

type_synonym rollout_run = "rollout_world \<Rightarrow> ((rollout_error + unit) \<times> rollout_world) option"

partial_function (option) poll_loop ::
  "(f64 \<Rightarrow> string) \<Rightarrow> rollout \<Rightarrow> rollout_phase \<Rightarrow> bool \<Rightarrow> time \<Rightarrow> time option \<Rightarrow> rollout_run" where
  "poll_loop fmt ro ph granted entered since s =
     (case poll_tick fmt ro ph granted entered since s of
        (Inl e, t) \<Rightarrow> Some (Inl e, t)
      | (Inr out, t) \<Rightarrow>
          (case out of
             PhaseComplete \<Rightarrow> Some (Inr (), t)
           | PollAgain since' \<Rightarrow> poll_loop fmt ro ph granted entered since' t))"

declare poll_loop.simps [code]

definition run_phase :: "(f64 \<Rightarrow> string) \<Rightarrow> rollout \<Rightarrow> rollout_phase \<Rightarrow> rollout_run" where
  "run_phase fmt ro ph s =
     (case enter_phase ro ph s of
        (Inl e, t) \<Rightarrow> Some (Inl e, t)
      | (Inr entered, t) \<Rightarrow>
          poll_loop fmt ro ph (ro_status ro \<noteq> RolloutAwaitingApproval) entered None t)"

section \<open>The drive\<close>

definition planned_phase :: "rollout \<Rightarrow> nat \<Rightarrow> step \<Rightarrow> rollout_phase" where
  "planned_phase ro i st = \<lparr>rp_id = uuid_nil, rp_rollout_id = ro_id ro, rp_phase_index = int i,
     rp_step_snapshot = st, rp_status = PhasePending, rp_entered_at = None, rp_exited_at = None,
     rp_applied_percent = None, rp_health_score_at_exit = None, rp_notes = ''''\<rparr>"

definition ensure_phases_exist :: "rollout \<Rightarrow> unit rollout_prog" where
  "ensure_phases_exist ro =
     andThen (list_rollout_phases (ro_id ro)) (\<lambda>existing.
       if existing \<noteq> [] then ret ()
       else bulk_insert_phases (map (\<lambda>(i, st). planned_phase ro i st)
              (List.enumerate 0 (sg_steps (ro_strategy_snapshot ro)))))"

text \<open>
  Everything before the loop: nothing to drive when the rollout is finished; otherwise the
  copy of the rollout the loop works with, marked active, and the phases.
\<close>

definition drive_start :: "uuid \<Rightarrow> (rollout \<times> rollout_phase list) option rollout_prog" where
  "drive_start i =
     andThen (wrapped (RolloutWrap ''get rollout'') (rollout_get i)) (\<lambda>ro.
       if rollout_is_terminal ro then ret None
       else andThen (ensure_phases_exist ro) (\<lambda>_.
            andThen (ignored (rollout_update_status (ro_id ro) RolloutActive None)) (\<lambda>_.
            andThen (list_rollout_phases (ro_id ro)) (\<lambda>phases.
              ret (Some (ro\<lparr>ro_status := RolloutActive\<rparr>, phases))))))"

text \<open>The loop over the phases from the current index; \<open>errRolledBack\<close> becomes the exported error.\<close>

fun drive_phases :: "(f64 \<Rightarrow> string) \<Rightarrow> rollout \<Rightarrow> rollout_phase list \<Rightarrow> rollout_run" where
  "drive_phases fmt ro [] s = Some (Inr (), s)"
| "drive_phases fmt ro (ph # phs) s =
     (if rp_status ph = PhasePassed then drive_phases fmt ro phs s
      else case run_phase fmt ro ph s of
        None \<Rightarrow> None
      | Some (Inl e, t) \<Rightarrow> Some (Inl (if e = ErrPhaseRolledBack then ErrRollbackTriggered else e), t)
      | Some (Inr _, t) \<Rightarrow> drive_phases fmt ro phs t)"

definition drive_finish :: "rollout \<Rightarrow> unit rollout_prog" where
  "drive_finish ro =
     andThen (ignored (mark_completed (ro_id ro))) (\<lambda>_.
     andThen time_now (\<lambda>_.
     andThen (engine_event (ro_id ro) EventCompleted None []) (\<lambda>_.
       publish_rollout ''rollouts.rollout.completed'' (ro_id ro))))"

definition drive_rollout :: "(f64 \<Rightarrow> string) \<Rightarrow> uuid \<Rightarrow> rollout_run" where
  "drive_rollout fmt i s =
     (case drive_start i s of
        (Inl e, t) \<Rightarrow> Some (Inl e, t)
      | (Inr None, t) \<Rightarrow> Some (Inr (), t)
      | (Inr (Some (ro, phases)), t) \<Rightarrow>
          (case drive_phases fmt ro (drop (nat (ro_current_phase_index ro)) phases) t of
             None \<Rightarrow> None
           | Some (Inl e, u) \<Rightarrow> Some (Inl e, u)
           | Some (Inr _, u) \<Rightarrow> Some (drive_finish ro u)))"

section \<open>The loop as a scan of its readings\<close>

text \<open>
  A round reads whether the context is done, the clock and the signal. What it decides is a
  function of these readings and of the time since which the target has been healthy.
\<close>

datatype verdict = VContinue "time option" | VAbort step_abort_condition | VApproval | VComplete | VTimeout

definition healthy_since :: "f64 \<Rightarrow> time option \<Rightarrow> time \<Rightarrow> health_score \<Rightarrow> time option" where
  "healthy_since threshold since now sg =
     (if fge (hs_score sg) threshold then (case since of None \<Rightarrow> Some now | Some t \<Rightarrow> Some t) else None)"

definition tick_verdict :: "step \<Rightarrow> f64 \<Rightarrow> bool \<Rightarrow> time \<Rightarrow> time option \<Rightarrow> time \<Rightarrow> health_score \<Rightarrow> verdict" where
  "tick_verdict st threshold granted entered since now sg =
     (case evaluate_abort_conditions st sg of
        Some trip \<Rightarrow> VAbort trip
      | None \<Rightarrow>
          if st_approval st \<noteq> None \<and> \<not> granted then VApproval
          else let since' = healthy_since threshold since now sg
               in if now - entered \<ge> st_min_duration st \<and> baked st now since' then VComplete
                  else if st_max_duration st > 0 \<and> now - entered \<ge> st_max_duration st \<and>
                          \<not> baked st now since' then VTimeout
                  else VContinue since')"

fun verdict_result :: "verdict \<Rightarrow> (rollout_error + unit) option" where
  "verdict_result (VContinue _) = None"
| "verdict_result (VAbort _) = Some (Inl ErrPhaseRolledBack)"
| "verdict_result VApproval = Some (Inl ErrAwaitingApproval)"
| "verdict_result VComplete = Some (Inr ())"
| "verdict_result VTimeout = Some (Inl ErrPhaseRolledBack)"

record reading =
  rd_done :: bool
  rd_now :: time
  rd_signal :: "health_score option"

definition reading_result :: "step \<Rightarrow> f64 \<Rightarrow> bool \<Rightarrow> time \<Rightarrow> time option \<Rightarrow> reading \<Rightarrow> (rollout_error + unit) option" where
  "reading_result st threshold granted entered since rd =
     (if rd_done rd then Some (Inl ErrContext)
      else case rd_signal rd of
        None \<Rightarrow> None
      | Some sg \<Rightarrow> verdict_result (tick_verdict st threshold granted entered since (rd_now rd) sg))"

definition reading_since :: "f64 \<Rightarrow> time option \<Rightarrow> reading \<Rightarrow> time option" where
  "reading_since threshold since rd =
     (case rd_signal rd of None \<Rightarrow> since | Some sg \<Rightarrow> healthy_since threshold since (rd_now rd) sg)"

fun since_after :: "f64 \<Rightarrow> time option \<Rightarrow> (nat \<Rightarrow> reading) \<Rightarrow> nat \<Rightarrow> time option" where
  "since_after threshold since rds 0 = since"
| "since_after threshold since rds (Suc k) =
     since_after threshold (reading_since threshold since (rds 0)) (\<lambda>n. rds (Suc n)) k"

definition result_at ::
  "step \<Rightarrow> f64 \<Rightarrow> bool \<Rightarrow> time \<Rightarrow> time option \<Rightarrow> (nat \<Rightarrow> reading) \<Rightarrow> nat \<Rightarrow> (rollout_error + unit) option" where
  "result_at st threshold granted entered since rds k =
     reading_result st threshold granted entered (since_after threshold since rds k) (rds k)"

text \<open>The readings of a loop that starts in \<open>s\<close>, for a rollout that drives the deployment \<open>dep\<close>.\<close>

definition readings :: "uuid \<Rightarrow> rollout_world \<Rightarrow> nat \<Rightarrow> reading" where
  "readings dep s k = \<lparr>rd_done = ctxdone s (polls s + k), rd_now = clock s (reads s + k),
     rd_signal = map_option score_of_health (health_at s (health_reads s + k) dep)\<rparr>"

text \<open>One round moves every reading on by one.\<close>

definition moved_on :: "nat \<Rightarrow> rollout_world \<Rightarrow> rollout_world \<Rightarrow> bool" where
  "moved_on n s t \<longleftrightarrow> ctxdone t = ctxdone s \<and> clock t = clock s \<and> health_at t = health_at s \<and>
     polls t = polls s + n \<and> reads t = reads s + n \<and> health_reads t = health_reads s + n"

lemma readings_moved: "moved_on 1 s t \<Longrightarrow> readings dep t = (\<lambda>k. readings dep s (Suc k))"
  by (simp add: readings_def moved_on_def fun_eq_iff)

lemma andThen_ignored [simp]: "andThen (ignored m) f s = f () (snd (ignored m s))"
  using ignored_result[of m s] by (cases "ignored m s") (auto simp: andThen_def)

lemma fst_ignored [simp]: "fst (ignored m s) = Inr ()"
  using ignored_result[of m s] by (cases "ignored m s") auto

lemma andThen_total: "fst (m s) = Inr x \<Longrightarrow> andThen m f s = f x (snd (m s))"
  by (cases "m s") (simp add: andThen_def)

lemma engine_rollback_result: "fst (engine_rollback ro reason s) = Inr ()"
  by (simp add: engine_rollback_def engine_event_def publish_rollout_def)

lemma phase_end_results:
  "fst (abort_phase fmt ro ph now sg trip s) = Inl ErrPhaseRolledBack"
  "fst (await_approval ro ph s) = Inl ErrAwaitingApproval"
  "fst (complete_phase ro ph now sg s) = Inr PhaseComplete"
  "fst (time_out_phase ro ph now sg s) = Inl ErrPhaseRolledBack"
  by (simp_all add: abort_phase_def await_approval_def complete_phase_def time_out_phase_def
      engine_event_def publish_rollout_def andThen_total[OF engine_rollback_result] fail_def ret_def)

lemma ignored_pointer_moved: "moved_on 0 s (snd (ignored (update_phase_pointer i idx a b) s))"
  by (simp add: ignored_def update_phase_pointer_def write_rollout_def prog_defs moved_on_def)

lemma track_health_result:
  "\<exists>t. track_health ro ph entered now (fge (hs_score sg) threshold) since s =
     (Inr (healthy_since threshold since now sg), t) \<and> moved_on 0 s t"
  using ignored_pointer_moved
  by (auto simp: track_health_def healthy_since_def ret_def moved_on_def split: option.splits)

lemma deploy_signal_result:
  assumes "ro_target_type ro = TargetTypeDeploy" and "tr_deployment_id (ro_target_ref ro) = Some dep"
  shows "app_signal ro s =
    ((case health_at s (health_reads s) dep of None \<Rightarrow> Inl ErrNoHealth | Some h \<Rightarrow> Inr (score_of_health h)),
     s\<lparr>health_reads := Suc (health_reads s)\<rparr>)"
  using assms
  by (auto simp: app_signal_def deploy_signal_def target_deployment_def read_monitor_def prog_defs
      split: option.splits)

lemma poll_tick_result:
  fixes s :: rollout_world and ph :: rollout_phase
  assumes dep: "ro_target_type ro = TargetTypeDeploy" "tr_deployment_id (ro_target_ref ro) = Some dep"
  defines "st \<equiv> rp_step_snapshot ph"
  defines "threshold \<equiv> effective_health_threshold (ro_strategy_snapshot ro) st"
  defines "rd \<equiv> readings dep s 0"
  shows "\<exists>t. poll_tick fmt ro ph granted entered since s =
    ((case reading_result st threshold granted entered since rd of
        None \<Rightarrow> Inr (PollAgain (reading_since threshold since rd))
      | Some (Inl e) \<Rightarrow> Inl e
      | Some (Inr _) \<Rightarrow> Inr PhaseComplete), t) \<and>
    (reading_result st threshold granted entered since rd = None \<longrightarrow> moved_on 1 s t)"
proof (cases "ctxdone s (polls s)")
  case True
  then show ?thesis
    by (simp add: poll_tick_def Let_def ctx_done_def andThen_def fail_def rd_def readings_def reading_result_def)
next
  case False
  let ?now = "clock s (reads s)"
  let ?s2 = "s\<lparr>polls := Suc (polls s), reads := Suc (reads s), health_reads := Suc (health_reads s)\<rparr>"
  have m2: "moved_on 1 s ?s2" by (simp add: moved_on_def)
  have rd: "\<not> rd_done rd" "rd_now rd = ?now" "rd_signal rd = map_option score_of_health (health_at s (health_reads s) dep)"
    using False by (simp_all add: rd_def readings_def)
  show ?thesis
  proof (cases "health_at s (health_reads s) dep")
    case None
    with False m2 rd show ?thesis
      by (simp add: poll_tick_def Let_def ctx_done_def time_now_def andThen_def attempt_def ret_def
          deploy_signal_result[OF dep] reading_result_def reading_since_def)
  next
    case (Some h)
    let ?sg = "score_of_health h"
    have run: "poll_tick fmt ro ph granted entered since s =
        poll_decide fmt ro ph granted entered since ?now ?sg ?s2"
      using False Some
      by (simp add: poll_tick_def ctx_done_def time_now_def andThen_def attempt_def deploy_signal_result[OF dep])
    have res: "reading_result st threshold granted entered since rd =
        verdict_result (tick_verdict st threshold granted entered since ?now ?sg)"
      "reading_since threshold since rd = healthy_since threshold since ?now ?sg"
      using rd Some by (simp_all add: reading_result_def reading_since_def)
    obtain t where t: "track_health ro ph entered ?now (fge (hs_score ?sg) threshold) since ?s2 =
        (Inr (healthy_since threshold since ?now ?sg), t)" "moved_on 0 ?s2 t"
      using track_health_result by blast
    show ?thesis
    proof (cases "evaluate_abort_conditions st ?sg")
      case None
      show ?thesis
      proof (cases "st_approval st \<noteq> None \<and> \<not> granted")
        case True
        with None show ?thesis unfolding run res poll_decide_def Let_def st_def[symmetric] threshold_def[symmetric]
          using phase_end_results(2)[of ro ph ?s2]
          by (cases "await_approval ro ph ?s2") (simp add: tick_verdict_def)
      next
        case ok: False
        have "moved_on 1 s t" using t(2) by (simp add: moved_on_def)
        obtain u v where uv: "complete_phase ro ph ?now ?sg t = (Inr PhaseComplete, u)"
          "time_out_phase ro ph ?now ?sg t = (Inl ErrPhaseRolledBack, v)"
          using phase_end_results(3)[of ro ph ?now ?sg t] phase_end_results(4)[of ro ph ?now ?sg t]
          by (cases "complete_phase ro ph ?now ?sg t"; cases "time_out_phase ro ph ?now ?sg t") simp
        note eval = andThen_run(1)[where m = "track_health _ _ _ _ _ _", OF t(1)]
        from ok consider "st_approval st = None" | granted by blast
        then show ?thesis
          unfolding run res poll_decide_def Let_def st_def[symmetric] threshold_def[symmetric]
          by cases (use \<open>moved_on 1 s t\<close> in \<open>simp_all add: None uv tick_verdict_def Let_def eval ret_def\<close>)
      qed
    next
      case abort: (Some trip)
      then show ?thesis unfolding run res poll_decide_def Let_def st_def[symmetric] threshold_def[symmetric]
        using phase_end_results(1)[of fmt ro ph ?now ?sg trip ?s2]
        by (cases "abort_phase fmt ro ph ?now ?sg trip ?s2") (simp add: tick_verdict_def)
    qed
  qed
qed

lemma since_after_snoc:
  "since_after threshold since rds (Suc k) = reading_since threshold (since_after threshold since rds k) (rds k)"
proof (induction k arbitrary: since rds)
  case (Suc k)
  have "since_after threshold since rds (Suc (Suc k)) =
      since_after threshold (reading_since threshold since (rds 0)) (\<lambda>n. rds (Suc n)) (Suc k)"
    by (rule since_after.simps(2))
  also have "\<dots> = reading_since threshold (since_after threshold (reading_since threshold since (rds 0))
      (\<lambda>n. rds (Suc n)) k) (rds (Suc k))" by (rule Suc)
  also have "\<dots> = reading_since threshold (since_after threshold since rds (Suc k)) (rds (Suc k))"
    by (simp only: since_after.simps(2))
  finally show ?case .
qed simp

lemma result_at_Suc:
  "result_at st threshold granted entered since rds (Suc k) =
   result_at st threshold granted entered (reading_since threshold since (rds 0)) (\<lambda>n. rds (Suc n)) k"
  by (simp add: result_at_def)

text \<open>The rounds of the loop, for a rollout that drives a deployment.\<close>

definition drives :: "uuid \<Rightarrow> rollout \<Rightarrow> bool" where
  "drives dep ro \<longleftrightarrow> ro_target_type ro = TargetTypeDeploy \<and> tr_deployment_id (ro_target_ref ro) = Some dep"

abbreviation phase_result ::
  "rollout \<Rightarrow> rollout_phase \<Rightarrow> bool \<Rightarrow> time \<Rightarrow> time option \<Rightarrow> (nat \<Rightarrow> reading) \<Rightarrow> nat \<Rightarrow> (rollout_error + unit) option" where
  "phase_result ro ph granted entered since rds k \<equiv>
     result_at (rp_step_snapshot ph)
       (effective_health_threshold (ro_strategy_snapshot ro) (rp_step_snapshot ph)) granted entered since rds k"

lemma poll_loop_step:
  assumes dep: "drives dep ro"
  shows "\<exists>t. poll_loop fmt ro ph granted entered since s =
    (case phase_result ro ph granted entered since (readings dep s) 0 of
       Some r \<Rightarrow> Some (r, t)
     | None \<Rightarrow> poll_loop fmt ro ph granted entered
         (reading_since (effective_health_threshold (ro_strategy_snapshot ro) (rp_step_snapshot ph))
            since (readings dep s 0)) t) \<and>
    (phase_result ro ph granted entered since (readings dep s) 0 = None \<longrightarrow> moved_on 1 s t)"
proof -
  let ?R = "reading_result (rp_step_snapshot ph)
    (effective_health_threshold (ro_strategy_snapshot ro) (rp_step_snapshot ph)) granted entered since (readings dep s 0)"
  from poll_tick_result[where ro = ro and dep = dep and ph = ph and fmt = fmt and granted = granted and
      entered = entered and since = since and s = s] dep
  obtain t where t: "poll_tick fmt ro ph granted entered since s =
      ((case ?R of None \<Rightarrow> Inr (PollAgain (reading_since
          (effective_health_threshold (ro_strategy_snapshot ro) (rp_step_snapshot ph)) since (readings dep s 0)))
        | Some (Inl e) \<Rightarrow> Inl e | Some (Inr _) \<Rightarrow> Inr PhaseComplete), t)"
    "?R = None \<longrightarrow> moved_on 1 s t" by (auto simp: drives_def)
  then show ?thesis
    by (intro exI[of _ t]) (subst poll_loop.simps, auto simp: result_at_def split: option.splits sum.splits)
qed

lemma poll_loop_reaches:
  assumes "drives dep ro" and "\<And>j. j < k \<Longrightarrow> phase_result ro ph granted entered since (readings dep s) j = None"
    and "phase_result ro ph granted entered since (readings dep s) k = Some r"
  shows "\<exists>t. poll_loop fmt ro ph granted entered since s = Some (r, t)"
  using assms(2,3)
proof (induction k arbitrary: s since)
  case 0
  with poll_loop_step[OF assms(1), of fmt ph granted entered since s] show ?case by auto
next
  case (Suc k)
  let ?since' = "reading_since (effective_health_threshold (ro_strategy_snapshot ro) (rp_step_snapshot ph))
    since (readings dep s 0)"
  have "phase_result ro ph granted entered since (readings dep s) 0 = None" using Suc.prems(1)[of 0] by simp
  with poll_loop_step[OF assms(1), of fmt ph granted entered since s] obtain t where
    t: "poll_loop fmt ro ph granted entered since s = poll_loop fmt ro ph granted entered ?since' t"
    "moved_on 1 s t" by auto
  have "\<exists>u. poll_loop fmt ro ph granted entered ?since' t = Some (r, u)"
  proof (rule Suc.IH)
    fix j assume "j < k"
    with Suc.prems(1)[of "Suc j"] show "phase_result ro ph granted entered ?since' (readings dep t) j = None"
      by (simp add: result_at_Suc readings_moved[OF t(2)])
  next
    from Suc.prems(2) show "phase_result ro ph granted entered ?since' (readings dep t) k = Some r"
      by (simp add: result_at_Suc readings_moved[OF t(2)])
  qed
  with t(1) show ?case by simp
qed

lemma poll_loop_returns:
  assumes "poll_loop fmt ro ph granted entered since s = Some out" and "drives dep ro"
  shows "\<exists>k. phase_result ro ph granted entered since (readings dep s) k \<noteq> None"
proof -
  have "drives dep ro \<longrightarrow> (\<exists>k. phase_result ro ph granted entered since (readings dep s) k \<noteq> None)"
  proof (rule poll_loop.raw_induct[where P = "\<lambda>fmt ro ph granted entered since s out.
      drives dep ro \<longrightarrow> (\<exists>k. phase_result ro ph granted entered since (readings dep s) k \<noteq> None)", OF _ assms(1)])
    fix loop :: "(f64 \<Rightarrow> string) \<Rightarrow> rollout \<Rightarrow> rollout_phase \<Rightarrow> bool \<Rightarrow> time \<Rightarrow> time option \<Rightarrow> rollout_run"
      and fmt ro ph granted entered since s out
    assume 1: "\<And>fmt ro ph granted entered since s out. loop fmt ro ph granted entered since s = Some out \<Longrightarrow>
        drives dep ro \<longrightarrow> (\<exists>k. phase_result ro ph granted entered since (readings dep s) k \<noteq> None)"
      "(case poll_tick fmt ro ph granted entered since s of
        (Inl e, t) \<Rightarrow> Some (Inl e, t)
      | (Inr out, t) \<Rightarrow>
          (case out of
             PhaseComplete \<Rightarrow> Some (Inr (), t)
           | PollAgain since' \<Rightarrow> loop fmt ro ph granted entered since' t)) = Some out"
    show "drives dep ro \<longrightarrow> (\<exists>k. phase_result ro ph granted entered since (readings dep s) k \<noteq> None)"
    proof
      assume dep: "drives dep ro"
      let ?th = "effective_health_threshold (ro_strategy_snapshot ro) (rp_step_snapshot ph)"
      from poll_tick_result[where ro = ro and dep = dep and ph = ph and fmt = fmt and granted = granted and
      entered = entered and since = since and s = s] dep obtain t where
        t: "poll_tick fmt ro ph granted entered since s =
          ((case phase_result ro ph granted entered since (readings dep s) 0 of
              None \<Rightarrow> Inr (PollAgain (reading_since ?th since (readings dep s 0)))
            | Some (Inl e) \<Rightarrow> Inl e | Some (Inr _) \<Rightarrow> Inr PhaseComplete), t)"
        "phase_result ro ph granted entered since (readings dep s) 0 = None \<longrightarrow> moved_on 1 s t"
        by (auto simp: drives_def result_at_def)
      show "\<exists>k. phase_result ro ph granted entered since (readings dep s) k \<noteq> None"
      proof (cases "phase_result ro ph granted entered since (readings dep s) 0")
        case None
        with t have m: "moved_on 1 s t" and
          l: "loop fmt ro ph granted entered (reading_since ?th since (readings dep s 0)) t = Some out"
          using 1(2) by auto
        from 1(1)[OF l] dep obtain k where
          "phase_result ro ph granted entered (reading_since ?th since (readings dep s 0)) (readings dep t) k \<noteq> None"
          by auto
        then show ?thesis by (intro exI[of _ "Suc k"]) (simp add: result_at_Suc readings_moved[OF m])
      qed (auto intro: exI[of _ 0])
    qed
  qed
  with assms(2) show ?thesis by simp
qed

lemma poll_loop_decided:
  assumes "drives dep ro"
  shows "(poll_loop fmt ro ph granted entered since s = None \<longleftrightarrow>
      (\<forall>k. phase_result ro ph granted entered since (readings dep s) k = None)) \<and>
    (\<forall>r t. poll_loop fmt ro ph granted entered since s = Some (r, t) \<longrightarrow>
      (\<exists>k. phase_result ro ph granted entered since (readings dep s) k = Some r \<and>
           (\<forall>j<k. phase_result ro ph granted entered since (readings dep s) j = None)))"
proof -
  let ?R = "phase_result ro ph granted entered since (readings dep s)"
  have first: "\<exists>t r. poll_loop fmt ro ph granted entered since s = Some (r, t) \<and> ?R k = Some r \<and> (\<forall>j<k. ?R j = None)"
    if "?R n \<noteq> None" "k = (LEAST n. ?R n \<noteq> None)" for n k
  proof -
    have k: "?R k \<noteq> None" unfolding that(2) using that(1) by (rule LeastI)
    then obtain r where r: "?R k = Some r" by auto
    have before: "?R j = None" if "j < k" for j
      using not_less_Least[where P = "\<lambda>n. ?R n \<noteq> None" and k = j] that \<open>k = _\<close> by simp
    with poll_loop_reaches[OF assms before r] r show ?thesis by blast
  qed
  show ?thesis
  proof (intro conjI iffI allI impI)
    fix k assume "poll_loop fmt ro ph granted entered since s = None"
    note stuck = this
    show "?R k = None"
    proof (rule ccontr)
      assume "?R k \<noteq> None"
      from first[OF this refl] stuck show False by simp
    qed
  next
    assume "\<forall>k. ?R k = None"
    with poll_loop_returns[OF _ assms, of fmt ph granted entered since s]
    show "poll_loop fmt ro ph granted entered since s = None"
      by (cases "poll_loop fmt ro ph granted entered since s") auto
  next
    fix r t assume run: "poll_loop fmt ro ph granted entered since s = Some (r, t)"
    from poll_loop_returns[OF this assms] obtain n where n: "?R n \<noteq> None" by (rule exE)
    from first[OF n refl] obtain u q where
      first_run: "poll_loop fmt ro ph granted entered since s = Some (q, u)" and
      first_result: "?R (LEAST n. ?R n \<noteq> None) = Some q" "\<forall>j<(LEAST n. ?R n \<noteq> None). ?R j = None" by blast
    from first_run run have "q = r" by simp
    with first_result show "\<exists>k. ?R k = Some r \<and> (\<forall>j<k. ?R j = None)" by blast
  qed
qed

end
