(* ===== verification/RolloutDrive.thy ===== *)
theory RolloutDrive
  imports RolloutEngine
begin

text \<open>
  What the rollout engine guarantees: the poll loop is the scan of its readings, a phase
  passes only after its bake window, the loop ends once a round reads a signal after both
  durations, and the status a driven rollout is left in.
\<close>

section \<open>The loop is a scan\<close>

definition first_result :: "(nat \<Rightarrow> 'r option) \<Rightarrow> 'r option" where
  "first_result f = (if \<exists>k. f k \<noteq> None then f (LEAST k. f k \<noteq> None) else None)"

lemma first_result_Some:
  assumes "f k = Some r" and "\<And>j. j < k \<Longrightarrow> f j = None"
  shows "first_result f = Some r"
proof -
  have "(LEAST k. f k \<noteq> None) = k"
    by (rule Least_equality) (use assms in \<open>auto simp: not_less[symmetric]\<close>)
  with assms(1) show ?thesis by (auto simp: first_result_def)
qed

lemma first_result_None: "(\<And>k. f k = None) \<Longrightarrow> first_result f = None"
  by (simp add: first_result_def)

lemma poll_loop_first:
  assumes "drives dep ro"
  shows "map_option fst (poll_loop fmt ro ph granted entered since s) =
    first_result (phase_result ro ph granted entered since (readings dep s))"
proof (cases "poll_loop fmt ro ph granted entered since s")
  case None
  with poll_loop_decided[OF assms, of fmt ph granted entered since s] show ?thesis
    by (simp add: first_result_None)
next
  case (Some out)
  obtain r t where rt: "out = (r, t)" by (cases out)
  with Some poll_loop_decided[OF assms, of fmt ph granted entered since s] obtain k where
    "phase_result ro ph granted entered since (readings dep s) k = Some r"
    "\<forall>j<k. phase_result ro ph granted entered since (readings dep s) j = None" by blast
  with Some rt show ?thesis by (simp add: first_result_Some[where k = k])
qed

text \<open>
  The poll loop of a deployment rollout is the scan of what its rounds read: it returns
  exactly if some round decides, with the decision of the first one. A round reads whether
  the context is done, the clock and the signal, and decides by the abort conditions, the
  approval gate, the minimal duration with the bake window, and the maximal duration, in
  this order.
\<close>

theorem poll_loop_scans:
  assumes "drives dep ro"
  shows "map_option fst (poll_loop fmt ro ph granted entered since s) =
    first_result (phase_result ro ph granted entered since (readings dep s))"
  using assms by (rule poll_loop_first)

text \<open>A deployment that is always healthy, observed once a minute.\<close>

definition sample_health :: deployment_health where
  "sample_health = \<lparr>dh_deployment_id = 7, dh_overall = Fin 1, dh_healthy = True, dh_checks = [],
     dh_metrics = Map.empty, dh_evaluated_at = 0\<rparr>"

definition watched_world :: "deployment_health option \<Rightarrow> rollout_world" where
  "watched_world h = (sample_rollout_world (\<lambda>_. False) [sample_rollout RolloutPending])
     \<lparr>clock := (\<lambda>n. int n * minutes 1), health_at := (\<lambda>_ _. h)\<rparr>"

definition sample_phase :: "f64 \<Rightarrow> rollout_phase" where
  "sample_phase p = planned_phase (sample_rollout RolloutActive) 0 (sample_step p)"

lemma sample_drives [simp]: "drives 7 (sample_rollout st)"
  by (simp add: drives_def sample_rollout_def pending_rollout_def deployment_ref_def)

lemmas sample_reading_defs = readings_def watched_world_def sample_rollout_world_def sample_phase_def
  planned_phase_def sample_step_def sample_rollout_def pending_rollout_def sample_strategy_def
  effective_health_threshold_def result_at_def reading_result_def tick_verdict_def reading_since_def
  healthy_since_def evaluate_abort_conditions_def baked_def score_of_health_def sample_health_def Let_def

lemma sample_scan:
  "phase_result (sample_rollout RolloutActive) (sample_phase (Fin 10)) True 0 None
     (readings 7 (watched_world (Some sample_health))) 0 = None"
  "phase_result (sample_rollout RolloutActive) (sample_phase (Fin 10)) True 0 None
     (readings 7 (watched_world (Some sample_health))) (Suc 0) = Some (Inr ())"
  by (simp_all add: sample_reading_defs)

lemma sample_first:
  "first_result (phase_result (sample_rollout RolloutActive) (sample_phase (Fin 10)) True 0 None
     (readings 7 (watched_world (Some sample_health)))) = Some (Inr ())"
  by (rule first_result_Some[where k = "Suc 0"]) (use sample_scan in \<open>auto simp: less_Suc_eq\<close>)

theorem poll_loop_scans_witness:
  "map_option fst (poll_loop (\<lambda>_. '''') (sample_rollout RolloutActive) (sample_phase (Fin 10)) True 0 None
     (watched_world (Some sample_health))) = Some (Inr ())"
  using poll_loop_scans[OF sample_drives, of "\<lambda>_. ''''" RolloutActive "sample_phase (Fin 10)" True 0 None
      "watched_world (Some sample_health)"]
  by (simp add: sample_first)

section \<open>When a phase passes\<close>

lemma since_after_window:
  assumes "since_after threshold None rds k = Some t"
  shows "\<exists>m<k. rd_now (rds m) = t \<and> rd_signal (rds m) \<noteq> None \<and>
    (\<forall>j sg. m \<le> j \<and> j < k \<and> rd_signal (rds j) = Some sg \<longrightarrow> fge (hs_score sg) threshold)"
  using assms
proof (induction k arbitrary: t)
  case (Suc k)
  let ?before = "since_after threshold None rds k"
  from Suc.prems have step: "reading_since threshold ?before (rds k) = Some t" by (simp only: since_after_snoc)
  show ?case
  proof (cases "rd_signal (rds k)")
    case None
    with step have "?before = Some t" by (simp add: reading_since_def)
    from Suc.IH[OF this] None show ?thesis by (auto simp: less_Suc_eq)
  next
    case (Some sg)
    with step have ok: "fge (hs_score sg) threshold" by (auto simp: reading_since_def healthy_since_def split: if_splits)
    show ?thesis
    proof (cases ?before)
      case None
      with step Some ok have "rd_now (rds k) = t" by (simp add: reading_since_def healthy_since_def)
      with Some ok show ?thesis by (intro exI[of _ k]) (auto simp: less_Suc_eq)
    next
      case (Some u)
      with step ok \<open>rd_signal (rds k) = _\<close> have "u = t" by (simp add: reading_since_def healthy_since_def)
      with Suc.IH Some ok \<open>rd_signal (rds k) = _\<close> show ?thesis by (auto simp: less_Suc_eq)
    qed
  qed
qed simp

text \<open>
  \<open>earned st threshold entered rds m k\<close>: round \<open>k\<close> comes after the minimal duration; the
  signals read from round \<open>m\<close> on are all healthy, and the rounds \<open>m\<close> and \<open>k\<close> are a bake time
  apart; up to \<open>k\<close> the context was not done and no abort condition held.
\<close>

definition earned :: "step \<Rightarrow> f64 \<Rightarrow> time \<Rightarrow> (nat \<Rightarrow> reading) \<Rightarrow> nat \<Rightarrow> nat \<Rightarrow> bool" where
  "earned st threshold entered rds m k \<longleftrightarrow> m \<le> k \<and>
     rd_now (rds k) - entered \<ge> st_min_duration st \<and>
     rd_now (rds k) - rd_now (rds m) \<ge> st_bake_time_healthy st \<and>
     rd_signal (rds m) \<noteq> None \<and> rd_signal (rds k) \<noteq> None \<and>
     (\<forall>j sg. m \<le> j \<and> j \<le> k \<and> rd_signal (rds j) = Some sg \<longrightarrow> fge (hs_score sg) threshold) \<and>
     (\<forall>j sg. j \<le> k \<and> rd_signal (rds j) = Some sg \<longrightarrow> evaluate_abort_conditions st sg = None) \<and>
     (\<forall>j \<le> k. \<not> rd_done (rds j))"

lemma verdict_result_unit [simp]: "verdict_result v = Some (Inr ()) \<longleftrightarrow> v = VComplete"
  by (cases v) auto

lemma result_none_calm:
  assumes "result_at st threshold granted entered since rds j = None"
  shows "\<not> rd_done (rds j)" and "rd_signal (rds j) = Some sg \<Longrightarrow> evaluate_abort_conditions st sg = None"
  using assms by (auto simp: result_at_def reading_result_def tick_verdict_def split: if_splits option.splits)

lemma completed_earned:
  assumes passed: "result_at st threshold granted entered None rds k = Some (Inr ())"
    and before: "\<forall>j<k. result_at st threshold granted entered None rds j = None"
  shows "\<exists>m. earned st threshold entered rds m k"
proof -
  let ?since = "since_after threshold None rds k"
  from passed obtain sg where sg: "rd_signal (rds k) = Some sg" "\<not> rd_done (rds k)"
    and v: "tick_verdict st threshold granted entered ?since (rd_now (rds k)) sg = VComplete"
    by (auto simp: result_at_def reading_result_def split: if_splits option.splits)
  let ?since' = "healthy_since threshold ?since (rd_now (rds k)) sg"
  from v have abort: "evaluate_abort_conditions st sg = None"
    and min: "rd_now (rds k) - entered \<ge> st_min_duration st" and bake: "baked st (rd_now (rds k)) ?since'"
    by (auto simp: tick_verdict_def Let_def split: option.splits if_splits)
  from bake obtain t where t: "?since' = Some t" "rd_now (rds k) - t \<ge> st_bake_time_healthy st"
    by (auto simp: baked_def split: option.splits)
  have "since_after threshold None rds (Suc k) = Some t"
    by (simp only: since_after_snoc) (use sg t in \<open>simp add: reading_since_def\<close>)
  from since_after_window[OF this] obtain m where m: "m \<le> k" "rd_now (rds m) = t" "rd_signal (rds m) \<noteq> None"
    "\<And>j sg. m \<le> j \<Longrightarrow> j \<le> k \<Longrightarrow> rd_signal (rds j) = Some sg \<Longrightarrow> fge (hs_score sg) threshold"
    by (auto simp: less_Suc_eq_le)
  have calm: "\<not> rd_done (rds j) \<and> (\<forall>sg. rd_signal (rds j) = Some sg \<longrightarrow> evaluate_abort_conditions st sg = None)"
    if "j \<le> k" for j
    using result_none_calm[of st threshold granted entered None rds j] before sg abort that
    by (cases "j = k") auto
  show ?thesis unfolding earned_def
    by (intro exI[of _ m] conjI) (use m min t sg calm in auto)
qed

lemma enter_phase_clock:
  assumes "enter_phase ro ph s = (Inr entered, t)"
  shows "entered = clock s (reads s)"
  using assms by (auto simp: enter_phase_def andThen_Inr time_now_def ret_def)

text \<open>
  C8. A phase of a deployment rollout passes only when it has earned it: after the minimal
  duration, at the end of a bake window throughout which every signal that could be read
  was at least the effective threshold, with no abort condition ever tripped and the
  context never done.
\<close>

theorem phase_passes_only_earned:
  assumes "drives dep ro" and "run_phase fmt ro ph s = Some (Inr (), t)"
  shows "\<exists>s' m k. enter_phase ro ph s = (Inr (clock s (reads s)), s') \<and>
    earned (rp_step_snapshot ph) (effective_health_threshold (ro_strategy_snapshot ro) (rp_step_snapshot ph))
      (clock s (reads s)) (readings dep s') m k"
proof -
  from assms(2) obtain entered s' where e: "enter_phase ro ph s = (Inr entered, s')"
    and p: "poll_loop fmt ro ph (ro_status ro \<noteq> RolloutAwaitingApproval) entered None s' = Some (Inr (), t)"
    by (auto simp: run_phase_def split: prod.splits sum.splits)
  from poll_loop_decided[OF assms(1), of fmt ph "ro_status ro \<noteq> RolloutAwaitingApproval" entered None s'] p
  obtain k where "phase_result ro ph (ro_status ro \<noteq> RolloutAwaitingApproval) entered None (readings dep s') k = Some (Inr ())"
    "\<forall>j<k. phase_result ro ph (ro_status ro \<noteq> RolloutAwaitingApproval) entered None (readings dep s') j = None" by blast
  from completed_earned[OF this] e show ?thesis unfolding enter_phase_clock[OF e] by blast
qed

section \<open>When the loop ends\<close>

text \<open>
  C29. The loop returns as soon as some round reads a signal after the minimal duration and
  a positive maximal duration are over, whatever that signal is.
\<close>

theorem poll_loop_ends:
  assumes "drives dep ro" and "st_max_duration (rp_step_snapshot ph) > 0"
    and "health_at s (health_reads s + k) dep \<noteq> None"
    and "clock s (reads s + k) - entered \<ge> st_min_duration (rp_step_snapshot ph)"
    and "clock s (reads s + k) - entered \<ge> st_max_duration (rp_step_snapshot ph)"
  shows "\<exists>r t. poll_loop fmt ro ph granted entered since s = Some (r, t)"
proof -
  let ?now = "clock s (reads s + k)"
  from assms(3) obtain h where h: "health_at s (health_reads s + k) dep = Some h" by auto
  have "verdict_result (tick_verdict (rp_step_snapshot ph) th granted entered since' ?now sg) \<noteq> None" for th since' sg
    using assms(2,4,5) by (simp add: tick_verdict_def Let_def split: option.splits)
  with h have "phase_result ro ph granted entered since (readings dep s) k \<noteq> None"
    by (simp add: result_at_def reading_result_def readings_def)
  with poll_loop_decided[OF assms(1)] show ?thesis by (metis option.exhaust prod.exhaust)
qed

theorem poll_loop_ends_witness:
  "\<exists>r t. poll_loop (\<lambda>_. '''') (sample_rollout RolloutActive) (sample_phase (Fin 10)) True 0 None
     (watched_world (Some sample_health)) = Some (r, t)"
  by (rule poll_loop_ends[OF sample_drives, where k = 6])
    (simp_all add: sample_reading_defs)

text \<open>
  The maximal duration does not bound a phase: when the monitor answers no read and the
  context is never done, the loop does not return, whatever the durations, the thresholds
  and the clock are.
\<close>

theorem silent_monitor_hangs:
  assumes "drives dep ro" and "\<And>n. health_at s n dep = None" and "\<And>n. \<not> ctxdone s n"
  shows "poll_loop fmt ro ph granted entered since s = None"
  using poll_loop_decided[OF assms(1), of fmt ph granted entered since s] assms(2,3)
  by (simp add: result_at_def reading_result_def readings_def)

theorem silent_monitor_hangs_witness:
  "poll_loop (\<lambda>_. '''') (sample_rollout RolloutActive) (sample_phase (Fin 10)) True 0 None (watched_world None) = None"
  by (rule silent_monitor_hangs[OF sample_drives]) (simp_all add: watched_world_def sample_rollout_world_def)

text \<open>
  The loop never looks at the stored rollouts: what a phase ends with is the same
  whatever the table holds, so a pause, a promotion or a rollback recorded while the phase
  runs does not change its outcome.
\<close>

theorem poll_loop_ignores_controls:
  assumes "drives dep ro"
  shows "map_option fst (poll_loop fmt ro ph granted entered since (s\<lparr>rollouts := rows\<rparr>)) =
    map_option fst (poll_loop fmt ro ph granted entered since s)"
proof -
  have "readings dep (s\<lparr>rollouts := rows\<rparr>) = readings dep s" by (simp add: readings_def fun_eq_iff)
  with poll_loop_first[OF assms] show ?thesis by simp
qed

theorem poll_loop_ignores_controls_witness:
  "map_option fst (poll_loop (\<lambda>_. '''') (sample_rollout RolloutActive) (sample_phase (Fin 10)) True 0 None
     ((watched_world (Some sample_health))\<lparr>rollouts := [sample_rollout RolloutPaused]\<rparr>)) = Some (Inr ())"
  using poll_loop_ignores_controls[OF sample_drives, of "\<lambda>_. ''''" RolloutActive "sample_phase (Fin 10)" True 0
      None "[sample_rollout RolloutPaused]" "watched_world (Some sample_health)"]
    poll_loop_first[OF sample_drives, of "\<lambda>_. ''''" RolloutActive "sample_phase (Fin 10)" True 0 None
      "watched_world (Some sample_health)"]
  by (simp add: sample_first)

section \<open>The status a driven rollout is left in\<close>

lemma poll_loop_invariant:
  assumes run: "poll_loop fmt ro ph granted entered since s = Some (res, t)" and start: "I s"
    and tick: "\<And>since s res t. I s \<Longrightarrow> poll_tick fmt ro ph granted entered since s = (res, t) \<Longrightarrow>
      case res of Inl e \<Rightarrow> Q (Inl e) t | Inr PhaseComplete \<Rightarrow> Q (Inr ()) t | Inr (PollAgain _) \<Rightarrow> I t"
  shows "Q res t"
proof -
  let ?P = "\<lambda>fmt' ro' ph' granted' entered' since s out. fmt' = fmt \<longrightarrow> ro' = ro \<longrightarrow> ph' = ph \<longrightarrow>
    granted' = granted \<longrightarrow> entered' = entered \<longrightarrow> I s \<longrightarrow> Q (fst out) (snd out)"
  have "?P fmt ro ph granted entered since s (res, t)"
  proof (rule poll_loop.raw_induct[where P = ?P, OF _ run])
    fix loop :: "(f64 \<Rightarrow> string) \<Rightarrow> rollout \<Rightarrow> rollout_phase \<Rightarrow> bool \<Rightarrow> time \<Rightarrow> time option \<Rightarrow> rollout_run"
      and fmt' ro' ph' granted' entered' since s out
    assume ih: "\<And>fmt' ro' ph' granted' entered' since s out.
        loop fmt' ro' ph' granted' entered' since s = Some out \<Longrightarrow> ?P fmt' ro' ph' granted' entered' since s out"
      and body: "(case poll_tick fmt' ro' ph' granted' entered' since s of
        (Inl e, t) \<Rightarrow> Some (Inl e, t)
      | (Inr out, t) \<Rightarrow>
          (case out of
             PhaseComplete \<Rightarrow> Some (Inr (), t)
           | PollAgain since' \<Rightarrow> loop fmt' ro' ph' granted' entered' since' t)) = Some out"
    obtain r u where t: "poll_tick fmt' ro' ph' granted' entered' since s = (r, u)"
      by (cases "poll_tick fmt' ro' ph' granted' entered' since s")
    show "?P fmt' ro' ph' granted' entered' since s out"
      using tick[of s since r u] t body ih
      by (cases r) (auto split: poll_outcome.splits)
  qed
  with start show ?thesis by simp
qed

text \<open>The status of a stored rollout, and the calls that keep every status.\<close>

definition status_of :: "uuid \<Rightarrow> rollout_world \<Rightarrow> rollout_status option" where
  "status_of i w = map_option ro_status (row_of ro_id i (rollouts w))"

definition statuses_kept :: "rollout_world \<Rightarrow> rollout_world \<Rightarrow> bool" where
  "statuses_kept s t \<longleftrightarrow> fault t = fault s \<and> (\<forall>i. status_of i t = status_of i s)"

interpretation statuses: frame statuses_kept
  by unfold_locales (auto simp: statuses_kept_def)

lemma kept_statuses: "keeps rollouts_kept m \<Longrightarrow> keeps statuses_kept m"
  by (simp add: keeps_def rollouts_kept_def statuses_kept_def status_of_def)

lemma statuses_ignored: "keeps statuses_kept m \<Longrightarrow> keeps statuses_kept (ignored m)"
  unfolding ignored_def by (intro statuses.keeps_rules)

lemma statuses_modify: "(\<And>s. statuses_kept s (f s)) \<Longrightarrow> keeps statuses_kept (modify f)"
  by (simp add: keeps_def modify_def)

lemma statuses_env: "keeps statuses_kept (ext_call e)" "keeps statuses_kept time_now" "keeps statuses_kept uuid_new"
  "keeps statuses_kept ctx_done"
  by (intro kept_statuses ledger_rollouts kept_intros)+

lemmas statuses_steps = statuses.keeps_rules statuses_ignored statuses_env

lemma row_of_update_status:
  assumes "\<And>r. ro_id (f r) = ro_id r"
  shows "map_option ro_status (row_of ro_id i (update_row ro_id j f rows)) =
    (if i = j then map_option (ro_status \<circ> f) (row_of ro_id i rows) else map_option ro_status (row_of ro_id i rows))"
  using assms by (induction rows) (auto simp: row_simps update_row_def)

lemma statuses_writes:
  "keeps statuses_kept (update_phase_pointer i idx a b)"
  "keeps statuses_kept (update_phase_status p st a b pct score notes)"
  "keeps statuses_kept (bulk_insert_phases ps)"
  "keeps statuses_kept (list_rollout_phases i)"
proof -
  show "keeps statuses_kept (update_phase_pointer i idx a b)"
    unfolding update_phase_pointer_def write_rollout_def
    by (intro statuses_steps statuses_modify)
      (auto simp: statuses_kept_def status_of_def row_of_update_status option.map_comp comp_def)
  show "keeps statuses_kept (update_phase_status p st a b pct score notes)"
    unfolding update_phase_status_def
    by (intro statuses_steps statuses_modify) (simp add: statuses_kept_def status_of_def)
  have mint: "keeps statuses_kept (mint_phases seen ps)" for seen ps
    by (induction ps arbitrary: seen) (simp_all only: mint_phases.simps, (intro statuses_steps | assumption)+)
  show "keeps statuses_kept (bulk_insert_phases ps)"
    unfolding bulk_insert_phases_def
    by (intro statuses_steps statuses_modify mint) (simp add: statuses_kept_def status_of_def)
  show "keeps statuses_kept (list_rollout_phases i)"
    unfolding list_rollout_phases_def by (intro statuses_steps)
qed

lemma statuses_calls:
  "keeps statuses_kept (engine_event i evt reason payload)" "keeps statuses_kept (publish_rollout sub i)"
  "keeps statuses_kept (app_apply ro st)" "keeps statuses_kept (app_revert ro)" "keeps statuses_kept (app_signal ro)"
  "keeps statuses_kept (rollout_get i)"
  unfolding engine_event_def
  by (intro statuses_steps kept_statuses kept_intros | rule kept_statuses ledger_rollouts kept_intros)+

lemmas statuses_intros = statuses_steps statuses_writes statuses_calls

text \<open>\<open>standing i st w\<close>: the outside does not fail and the stored rollout \<open>i\<close> has status \<open>st\<close>.\<close>

definition standing :: "uuid \<Rightarrow> rollout_status \<Rightarrow> rollout_world \<Rightarrow> bool" where
  "standing i st w \<longleftrightarrow> (\<forall>n. \<not> fault w n) \<and> status_of i w = Some st"

lemma standing_kept: "standing i st s \<Longrightarrow> statuses_kept s t \<Longrightarrow> standing i st t"
  by (simp add: standing_def statuses_kept_def)

lemma standing_keeps: "standing i st s \<Longrightarrow> keeps statuses_kept m \<Longrightarrow> standing i st (snd (m s))"
  by (rule standing_kept) (auto simp: keeps_def)

lemma standing_written:
  assumes "standing i st s" and "\<And>r. ro_id (f r) = ro_id r" and "\<And>r. ro_status (f r) = st'"
  shows "write_rollout i f s = (Inr (), snd (write_rollout i f s)) \<and> standing i st' (snd (write_rollout i f s))"
  using assms by (auto simp: standing_def write_rollout_def prog_defs status_of_def row_of_update_status)

lemma snd_ignored [simp]: "snd (ignored m s) = snd (m s)"
  by (simp add: ignored_def prog_defs split: prod.splits sum.splits)

lemma standing_update: "standing i st s \<Longrightarrow> standing i st' (snd (rollout_update_status i st' reason s))"
  unfolding rollout_update_status_def using standing_written by auto

lemma standing_completed:
  assumes "standing i st s"
  shows "standing i RolloutSucceeded (snd (mark_completed i s))"
proof -
  have s: "standing i st (s\<lparr>reads := Suc (reads s)\<rparr>)" using assms by (simp add: standing_def status_of_def)
  have "mark_completed i s = write_rollout i (\<lambda>r. r\<lparr>ro_status := RolloutSucceeded,
      ro_completed_at := Some (clock s (reads s))\<rparr>) (s\<lparr>reads := Suc (reads s)\<rparr>)"
    by (simp add: mark_completed_def prog_defs)
  with standing_written[OF s] show ?thesis by simp
qed

lemma snd_total: "fst (m s) = Inr x \<Longrightarrow> snd (andThen m f s) = snd (f x (snd (m s)))"
  by (cases "m s") (simp add: andThen_def)

lemma standing_rollback:
  assumes "standing (ro_id ro) st s"
  shows "standing (ro_id ro) RolloutRolledBack (snd (engine_rollback ro reason s))"
proof -
  let ?rest = "andThen (ignored (app_revert ro)) (\<lambda>_. andThen (engine_event (ro_id ro) EventRollbackTriggered (Some reason) [])
    (\<lambda>_. publish_rollout ''rollouts.rollout.rolled_back'' (ro_id ro)))"
  have "keeps statuses_kept ?rest" by (intro statuses_intros)
  from standing_keeps[OF standing_update[OF assms] this] show ?thesis by (simp add: engine_rollback_def)
qed

text \<open>One round, when no approval is outstanding.\<close>

lemma standing_ends:
  assumes "standing (ro_id ro) st s"
  shows "standing (ro_id ro) RolloutRolledBack (snd (abort_phase fmt ro ph now sg trip s))"
    and "standing (ro_id ro) RolloutRolledBack (snd (time_out_phase ro ph now sg s))"
    and "standing (ro_id ro) st (snd (complete_phase ro ph now sg s))"
    and "standing (ro_id ro) st (snd (track_health ro ph entered now healthy since s))"
proof -
  note after = snd_total[OF engine_rollback_result]
  have ev: "fst (engine_event i evt reason payload u) = Inr ()" for i evt reason payload u by (simp add: engine_event_def)
  have keep: "standing (ro_id ro) st (snd (update_phase_status i x a b pct score nt s))" for i x a b pct score nt
    by (rule standing_keeps[OF assms statuses_writes(2)])
  show "standing (ro_id ro) RolloutRolledBack (snd (abort_phase fmt ro ph now sg trip s))"
    using standing_rollback[OF standing_keeps[OF keep statuses_calls(1)]]
    by (simp add: abort_phase_def snd_total[OF ev] after fail_def)
  show "standing (ro_id ro) RolloutRolledBack (snd (time_out_phase ro ph now sg s))"
    using standing_rollback[OF keep] by (simp add: time_out_phase_def after fail_def)
  show "standing (ro_id ro) st (snd (complete_phase ro ph now sg s))"
    by (rule standing_keeps[OF assms]) (unfold complete_phase_def, intro statuses_intros)
  show "standing (ro_id ro) st (snd (track_health ro ph entered now healthy since s))"
    by (rule standing_keeps[OF assms]) (unfold track_health_def, intro statuses_intros)
qed

definition loop_left :: "uuid \<Rightarrow> rollout_error + unit \<Rightarrow> rollout_world \<Rightarrow> bool" where
  "loop_left i res t \<longleftrightarrow> (case res of
     Inr _ \<Rightarrow> standing i RolloutActive t
   | Inl e \<Rightarrow> e = ErrContext \<and> standing i RolloutActive t \<or> e = ErrPhaseRolledBack \<and> standing i RolloutRolledBack t)"

definition tick_left :: "uuid \<Rightarrow> rollout_error + poll_outcome \<Rightarrow> rollout_world \<Rightarrow> bool" where
  "tick_left i res t \<longleftrightarrow> (case res of
     Inl e \<Rightarrow> loop_left i (Inl e) t | Inr PhaseComplete \<Rightarrow> loop_left i (Inr ()) t | Inr (PollAgain _) \<Rightarrow> standing i RolloutActive t)"

lemma decide_left:
  assumes "standing (ro_id ro) RolloutActive s"
  shows "tick_left (ro_id ro) (fst (poll_decide fmt ro ph True entered since now sg s))
    (snd (poll_decide fmt ro ph True entered since now sg s))"
proof (cases "evaluate_abort_conditions (rp_step_snapshot ph) sg")
  case (Some trip)
  then show ?thesis using phase_end_results(1) standing_ends(1)[OF assms]
    by (simp add: poll_decide_def tick_left_def loop_left_def)
next
  case None
  let ?th = "effective_health_threshold (ro_strategy_snapshot ro) (rp_step_snapshot ph)"
  obtain t where t: "track_health ro ph entered now (fge (hs_score sg) ?th) since s =
      (Inr (healthy_since ?th since now sg), t)" using track_health_result by blast
  with standing_ends(4)[OF assms] have st: "standing (ro_id ro) RolloutActive t" by (metis snd_conv)
  show ?thesis
    using None phase_end_results(3,4) standing_ends(2,3)[OF st] st
    by (simp add: poll_decide_def Let_def andThen_run(1)[where m = "track_health _ _ _ _ _ _", OF t] tick_left_def
        loop_left_def ret_def)
qed

lemma tick_left:
  assumes "standing (ro_id ro) RolloutActive s" and "poll_tick fmt ro ph True entered since s = (res, t)"
  shows "tick_left (ro_id ro) res t"
proof -
  let ?s1 = "s\<lparr>polls := Suc (polls s)\<rparr>" and ?s2 = "s\<lparr>polls := Suc (polls s), reads := Suc (reads s)\<rparr>"
  have st: "standing (ro_id ro) RolloutActive ?s1" "standing (ro_id ro) RolloutActive ?s2"
    using assms(1) by (simp_all add: standing_def status_of_def)
  show ?thesis
  proof (cases "ctxdone s (polls s)")
    case True
    with assms(2) st show ?thesis
      by (auto simp: poll_tick_def ctx_done_def andThen_def fail_def tick_left_def loop_left_def)
  next
    case False
    obtain r u where r: "app_signal ro ?s2 = (r, u)" by (cases "app_signal ro ?s2")
    have u: "standing (ro_id ro) RolloutActive u"
      using standing_keeps[OF st(2) statuses_calls(5)] r by (metis snd_conv)
    from False r assms(2) have next_round: "(case r of Inl _ \<Rightarrow> ret (PollAgain since)
        | Inr sg \<Rightarrow> poll_decide fmt ro ph True entered since (clock s (reads s)) sg) u = (res, t)"
      by (cases r) (simp_all add: poll_tick_def ctx_done_def time_now_def andThen_def attempt_def)
    then show ?thesis
    proof (cases r)
      case (Inl e)
      with u next_round show ?thesis by (auto simp: ret_def tick_left_def)
    next
      case (Inr sg)
      with decide_left[OF u, of fmt ph entered since "clock s (reads s)" sg] next_round
      show ?thesis by simp
    qed
  qed
qed

lemma loop_left:
  assumes "standing (ro_id ro) RolloutActive s" and "poll_loop fmt ro ph True entered since s = Some (res, t)"
  shows "loop_left (ro_id ro) res t"
  using assms(2,1)
proof (rule poll_loop_invariant)
  fix since s res t
  assume "standing (ro_id ro) RolloutActive s" "poll_tick fmt ro ph True entered since s = (res, t)"
  from tick_left[OF this] show "case res of Inl e \<Rightarrow> loop_left (ro_id ro) (Inl e) t
      | Inr PhaseComplete \<Rightarrow> loop_left (ro_id ro) (Inr ()) t | Inr (PollAgain _) \<Rightarrow> standing (ro_id ro) RolloutActive t"
    by (auto simp: tick_left_def split: sum.splits poll_outcome.splits)
qed

lemma enter_phase_cases:
  assumes "standing i st s" and "enter_phase ro ph s = (res, t)"
  shows "standing i st t \<and> (\<forall>e. res = Inl e \<longrightarrow> (\<exists>e'. e = RolloutWrap ''apply phase'' e'))"
proof
  have "keeps statuses_kept (enter_phase ro ph)" unfolding enter_phase_def by (intro statuses_intros)
  from standing_kept[OF assms(1) keepsD[OF this assms(2)]] show "standing i st t" .
  obtain r u where w: "wrapped (RolloutWrap ''apply phase'') (app_apply ro (rp_step_snapshot ph)) (s\<lparr>reads := Suc (reads s)\<rparr>) = (r, u)"
    by (cases "wrapped (RolloutWrap ''apply phase'') (app_apply ro (rp_step_snapshot ph)) (s\<lparr>reads := Suc (reads s)\<rparr>)")
  show "\<forall>e. res = Inl e \<longrightarrow> (\<exists>e'. e = RolloutWrap ''apply phase'' e')"
  proof (intro allI impI)
    fix e assume e: "res = Inl e"
    show "\<exists>e'. e = RolloutWrap ''apply phase'' e'"
    proof (cases r)
      case (Inl x)
      with w have "x = e \<and> u = t" using assms(2) e by (simp add: enter_phase_def time_now_def andThen_def)
      with w Inl show ?thesis by (auto simp: wrapped_def split: prod.splits sum.splits)
    next
      case (Inr x)
      have "fst (enter_phase ro ph s) = Inr (clock s (reads s))"
        using w Inr by (simp add: enter_phase_def time_now_def andThen_def[of "\<lambda>s. (Inr (clock s (reads s)), s\<lparr>reads := Suc (reads s)\<rparr>)"]
            andThen_run(1)[where m = "wrapped _ _", OF w[unfolded Inr]] andThen_total engine_event_def publish_rollout_def ret_def)
      with assms(2) e show ?thesis by simp
    qed
  qed
qed

text \<open>The statuses and errors a rollout can be left with by the loop over its phases.\<close>

definition drive_left :: "uuid \<Rightarrow> rollout_error + unit \<Rightarrow> rollout_world \<Rightarrow> bool" where
  "drive_left i res t \<longleftrightarrow> (case res of
     Inr _ \<Rightarrow> standing i RolloutActive t
   | Inl e \<Rightarrow> e = ErrRollbackTriggered \<and> standing i RolloutRolledBack t \<or>
       (e = ErrContext \<or> (\<exists>e'. e = RolloutWrap ''apply phase'' e')) \<and> standing i RolloutActive t)"

lemma phases_left:
  assumes "standing (ro_id ro) RolloutActive s" and "ro_status ro = RolloutActive"
    and "drive_phases fmt ro phs s = Some (res, t)"
  shows "drive_left (ro_id ro) res t"
  using assms(1,3)
proof (induction phs arbitrary: s)
  case Nil
  then show ?case by (auto simp: drive_left_def)
next
  case (Cons ph phs)
  show ?case
  proof (cases "rp_status ph = PhasePassed")
    case True
    with Cons show ?thesis by simp
  next
    case False
    with Cons.prems(2) obtain r u where r: "run_phase fmt ro ph s = Some (r, u)" by (auto split: option.splits)
    obtain e s1 where e: "enter_phase ro ph s = (e, s1)" by (cases "enter_phase ro ph s")
    note entered = enter_phase_cases[OF Cons.prems(1) e]
    show ?thesis
    proof (cases e)
      case (Inl x)
      with e r have "r = Inl x" "u = s1" by (simp_all add: run_phase_def)
      with Inl entered r False Cons.prems(2) show ?thesis by (auto simp: drive_left_def)
    next
      case (Inr now)
      with e r assms(2) have "poll_loop fmt ro ph True now None s1 = Some (r, u)" by (simp add: run_phase_def)
      from loop_left[OF conjunct1[OF entered] this] have left: "loop_left (ro_id ro) r u" .
      show ?thesis
      proof (cases r)
        case (Inl x)
        with left r False Cons.prems(2) show ?thesis by (auto simp: loop_left_def drive_left_def)
      next
        case (Inr _)
        with left r False Cons.prems(2) Cons.IH[of u] show ?thesis by (simp add: loop_left_def)
      qed
    qed
  qed
qed

text \<open>The status a call of the driver leaves, by its result.\<close>

fun status_left :: "rollout_error + unit \<Rightarrow> rollout_status" where
  "status_left (Inr _) = RolloutSucceeded"
| "status_left (Inl e) = (if e = ErrRollbackTriggered then RolloutRolledBack else RolloutActive)"

lemma get_standing:
  assumes "\<forall>n. \<not> fault s n" and "row_of ro_id i (rollouts s) = Some row"
  shows "rollout_get i s = (Inr row, s\<lparr>calls := Suc (calls s)\<rparr>)"
  using assms by (simp add: rollout_get_def prog_defs)

text \<open>Phases of a rollout that has none, each at its own place, are refused only for their encoding.\<close>

definition placed :: "uuid \<Rightarrow> rollout_phase list \<Rightarrow> rollout_phase list \<Rightarrow> rollout_world \<Rightarrow> bool" where
  "placed i seen ps s \<longleftrightarrow> (\<forall>q \<in> set (rollout_phases s). rp_rollout_id q \<noteq> i) \<and>
     (\<forall>p \<in> set ps. rp_rollout_id p = i) \<and> distinct (map rp_phase_index (seen @ ps))"

lemma mint_errors:
  "\<forall>n. \<not> fault s n \<Longrightarrow> placed i seen ps s \<Longrightarrow>
   (\<forall>n. \<not> fault (snd (mint_phases seen ps s)) n) \<and> (\<forall>e. fst (mint_phases seen ps s) = Inl e \<longrightarrow> e = ErrMarshal)"
proof (induction ps arbitrary: seen s)
  case (Cons p ps)
  let ?u = "if rp_id p = uuid_nil then s\<lparr>minted := Suc (minted s)\<rparr> else s"
  let ?v = "?u\<lparr>calls := Suc (calls ?u)\<rparr>"
  have v: "\<forall>n. \<not> fault ?v n" "placed i (seen @ [p]) ps ?v"
    using Cons.prems by (auto simp: placed_def)
  from Cons.prems(2) have p: "rp_rollout_id p = i" "\<forall>q \<in> set (rollout_phases s). rp_rollout_id q \<noteq> i"
    "\<forall>q \<in> set seen. rp_phase_index q \<noteq> rp_phase_index p"
    by (simp_all add: placed_def) (metis image_eqI)
  have "rollout_phases ?v = rollout_phases s" by simp
  with p have free: "\<not> list_ex (same_place p) (rollout_phases ?v @ seen)"
    unfolding list_ex_iff same_place_def set_append by (metis UnE)
  let ?i = "if rp_id p = uuid_nil then fresh s (minted s) else rp_id p"
  obtain q t where m: "mint_phases (seen @ [p]) ps ?v = (q, t)" by (cases "mint_phases (seen @ [p]) ps ?v")
  have live: "\<not> fault s (calls s)" using Cons.prems(1) by blast
  have "mint_phases seen (p # ps) s =
      (if step_encodes (rp_step_snapshot p)
       then (case q of Inl e \<Rightarrow> Inl e | Inr qs \<Rightarrow> Inr (p\<lparr>rp_id := ?i\<rparr> # qs), t)
       else (Inl ErrMarshal, ?u))"
    using live free m by (cases "rp_id p = uuid_nil"; cases q) (simp_all add: prog_defs)
  then show ?case
    using Cons.IH[OF v] Cons.prems(1) m by (cases q) simp_all
qed (simp add: ret_def)

lemma bulk_insert_errors:
  assumes "\<forall>n. \<not> fault s n" and "placed i [] ps s"
  shows "fst (bulk_insert_phases ps s) = Inr () \<or> fst (bulk_insert_phases ps s) = Inl ErrMarshal"
proof -
  let ?s = "s\<lparr>calls := Suc (calls s)\<rparr>"
  have "\<forall>n. \<not> fault ?s n" "placed i [] ps ?s" using assms by (simp_all add: placed_def)
  from mint_errors[OF this] assms(1) show ?thesis
    by (cases "mint_phases [] ps ?s")
      (auto simp: bulk_insert_phases_def prog_defs split: sum.splits)
qed

lemma planned_placed:
  assumes "rollout_phases_of s (ro_id ro) = []"
  shows "placed (ro_id ro) [] (map (\<lambda>(i, st). planned_phase ro i st)
    (List.enumerate 0 (sg_steps (ro_strategy_snapshot ro)))) s"
proof -
  have "map rp_phase_index (map (\<lambda>(i, st). planned_phase ro i st) (List.enumerate 0 sts)) = map int [0 ..< length sts]" for sts
    by (rule nth_equalityI) (simp_all add: nth_enumerate_eq planned_phase_def)
  moreover have "rp_rollout_id q \<noteq> ro_id ro" if "q \<in> set (rollout_phases s)" for q
  proof
    assume "rp_rollout_id q = ro_id ro"
    with that have "q \<in> set (rollout_phases_of s (ro_id ro))" by (simp add: rollout_phases_of_def)
    with assms show False by simp
  qed
  ultimately show ?thesis
    by (auto simp: placed_def planned_phase_def distinct_map simp del: map_map)
qed

lemma list_standing:
  "standing i st s \<Longrightarrow> list_rollout_phases j s = (Inr (rollout_phases_of s j), s\<lparr>calls := Suc (calls s)\<rparr>)"
  by (simp add: list_rollout_phases_def prog_defs standing_def rollout_phases_of_def)

lemma ensure_cases:
  assumes "standing i st s" and "ensure_phases_exist ro s = (res, t)"
  shows "standing i st t \<and> (res = Inr () \<or> res = Inl ErrMarshal)"
proof
  have "keeps statuses_kept (ensure_phases_exist ro)" unfolding ensure_phases_exist_def by (intro statuses_intros)
  from standing_kept[OF assms(1) keepsD[OF this assms(2)]] show "standing i st t" .
  have "\<forall>n. \<not> fault (s\<lparr>calls := Suc (calls s)\<rparr>) n" using assms(1) by (simp add: standing_def)
  from bulk_insert_errors[OF this planned_placed]
  have "fst (bulk_insert_phases (map (\<lambda>(i, st). planned_phase ro i st)
      (List.enumerate 0 (sg_steps (ro_strategy_snapshot ro)))) (s\<lparr>calls := Suc (calls s)\<rparr>)) \<in> {Inr (), Inl ErrMarshal}"
    if "rollout_phases_of s (ro_id ro) = []" using that by (simp add: rollout_phases_of_def)
  with assms(2) show "res = Inr () \<or> res = Inl ErrMarshal"
    by (auto simp: ensure_phases_exist_def andThen_run(1)[where m = "list_rollout_phases _", OF list_standing[OF assms(1)]]
        ret_def split: if_splits)
qed

lemma drive_start_cases:
  assumes run: "drive_start i s = (res, t)" and st: "standing i (ro_status row) s"
    and row: "row_of ro_id i (rollouts s) = Some row" and live: "\<not> rollout_is_terminal row"
  shows "res = Inl ErrMarshal \<and> standing i (ro_status row) t \<or>
    (\<exists>phases. res = Inr (Some (row\<lparr>ro_status := RolloutActive\<rparr>, phases)) \<and> standing i RolloutActive t)"
proof -
  let ?s1 = "s\<lparr>calls := Suc (calls s)\<rparr>"
  have id: "ro_id row = i" using row_of_Some[OF row] by simp
  have get: "wrapped (RolloutWrap ''get rollout'') (rollout_get i) s = (Inr row, ?s1)"
    using get_standing[OF _ row] st by (simp add: wrapped_def standing_def)
  have st1: "standing i (ro_status row) ?s1" using st by (simp add: standing_def status_of_def)
  obtain e s2 where e: "ensure_phases_exist row ?s1 = (e, s2)" by (cases "ensure_phases_exist row ?s1")
  note ens = ensure_cases[OF st1 e]
  let ?s3 = "snd (rollout_update_status i RolloutActive None s2)"
  show ?thesis
  proof (cases e)
    case (Inl x)
    with e run live ens show ?thesis
      by (simp add: drive_start_def andThen_run(1)[where m = "wrapped _ _", OF get]
          andThen_run(2)[where m = "ensure_phases_exist _", OF e[unfolded Inl]])
  next
    case (Inr x)
    have st3: "standing i RolloutActive ?s3" using standing_update ens by blast
    have "standing i RolloutActive (?s3\<lparr>calls := Suc (calls ?s3)\<rparr>)" using st3 by (simp add: standing_def status_of_def)
    moreover have "andThen (ignored (rollout_update_status i RolloutActive None)) (\<lambda>_.
        andThen (list_rollout_phases i) (\<lambda>phases. ret (Some (row\<lparr>ro_status := RolloutActive\<rparr>, phases)))) s2 =
      (Inr (Some (row\<lparr>ro_status := RolloutActive\<rparr>, rollout_phases_of ?s3 i)), ?s3\<lparr>calls := Suc (calls ?s3)\<rparr>)"
      by (simp add: andThen_run(1)[where m = "list_rollout_phases _", OF list_standing[OF st3]] ret_def)
    moreover have "drive_start i s = andThen (ignored (rollout_update_status i RolloutActive None)) (\<lambda>_.
        andThen (list_rollout_phases i) (\<lambda>phases. ret (Some (row\<lparr>ro_status := RolloutActive\<rparr>, phases)))) s2"
      using Inr live by (simp add: drive_start_def andThen_run(1)[where m = "wrapped _ _", OF get] id
          andThen_run(1)[where m = "ensure_phases_exist _", OF e[unfolded Inr]])
    ultimately show ?thesis using run by simp
  qed
qed

lemma finish_left:
  assumes "standing (ro_id ro) st s"
  shows "fst (drive_finish ro s) = Inr () \<and> standing (ro_id ro) RolloutSucceeded (snd (drive_finish ro s))"
proof -
  let ?rest = "andThen time_now (\<lambda>_. andThen (engine_event (ro_id ro) EventCompleted None []) (\<lambda>_.
    publish_rollout ''rollouts.rollout.completed'' (ro_id ro)))"
  have "keeps statuses_kept ?rest" by (intro statuses_intros)
  from standing_keeps[OF standing_completed[OF assms] this] show ?thesis
    by (simp add: drive_finish_def engine_event_def publish_rollout_def)
      (simp add: time_now_def andThen_total)
qed

text \<open>
  C7. Driving a rollout that is not finished, with a database that answers: when the driver
  returns, the stored status is succeeded after success, rolled back after the rollback
  error, and otherwise active (or unchanged, if the phases could not be written). It never
  returns the error that asks for an approval: the driver has marked its copy of the
  rollout active before the phases run, so the approval gate is always open.
\<close>

theorem drive_leaves_status:
  assumes "\<forall>n. \<not> fault s n" and "row_of ro_id i (rollouts s) = Some row" and "\<not> rollout_is_terminal row"
    and "drive_rollout fmt i s = Some (res, t)"
  shows "(res = Inl ErrMarshal \<and> status_of i t = Some (ro_status row) \<or> status_of i t = Some (status_left res)) \<and>
    res \<noteq> Inl ErrAwaitingApproval"
proof -
  have st: "standing i (ro_status row) s" using assms(1,2) by (simp add: standing_def status_of_def)
  have id: "ro_id row = i" using row_of_Some[OF assms(2)] by simp
  obtain r u where r: "drive_start i s = (r, u)" by (cases "drive_start i s")
  from drive_start_cases[OF r st assms(2,3)] show ?thesis
  proof (elim disjE conjE exE)
    assume "r = Inl ErrMarshal" "standing i (ro_status row) u"
    with assms(4) r show ?thesis by (auto simp: drive_rollout_def standing_def)
  next
    fix phases
    let ?ro = "row\<lparr>ro_status := RolloutActive\<rparr>"
    assume r': "r = Inr (Some (?ro, phases))" and u: "standing i RolloutActive u"
    let ?run = "drive_phases fmt ?ro (drop (nat (ro_current_phase_index ?ro)) phases) u"
    obtain q v where q: "?run = Some (q, v)"
      using assms(4) r r' by (auto simp: drive_rollout_def split: option.splits)
    from phases_left[where ro = ?ro, OF _ _ q] u id have left: "drive_left i q v" by simp
    show ?thesis
    proof (cases q)
      case (Inl e)
      with assms(4) r r' q have "res = Inl e" "t = v" by (simp_all add: drive_rollout_def)
      with left Inl show ?thesis by (auto simp: drive_left_def standing_def)
    next
      case (Inr x)
      with assms(4) r r' q have f: "drive_finish ?ro v = (res, t)" by (simp add: drive_rollout_def)
      from left Inr have "standing (ro_id ?ro) RolloutActive v" by (simp add: drive_left_def id)
      from finish_left[OF this] f id show ?thesis by (simp add: standing_def)
    qed
  qed
qed

text \<open>A driver that resumes a rollout whose one phase has already passed.\<close>

definition resumed_world :: rollout_world where
  "resumed_world = (sample_rollout_world (\<lambda>_. False) [sample_rollout RolloutPending])
     \<lparr>rollout_phases := [(sample_phase (Fin 100))\<lparr>rp_status := PhasePassed\<rparr>]\<rparr>"

lemma resumed_run: "map_option fst (drive_rollout (\<lambda>_. '''') 42 resumed_world) = Some (Inr ())"
  by code_simp

theorem drive_leaves_status_witness:
  "\<exists>t. drive_rollout (\<lambda>_. '''') 42 resumed_world = Some (Inr (), t) \<and> status_of 42 t = Some RolloutSucceeded"
proof -
  let ?row = "sample_rollout RolloutPending"
  have id [simp]: "ro_id (sample_rollout st) = 42" for st by (simp add: sample_rollout_def)
  have row: "row_of ro_id 42 (rollouts resumed_world) = Some ?row" and calm: "\<forall>n. \<not> fault resumed_world n"
    by (simp_all add: resumed_world_def sample_rollout_world_def row_simps)
  from resumed_run obtain t where run: "drive_rollout (\<lambda>_. '''') 42 resumed_world = Some (Inr (), t)"
    by (cases "drive_rollout (\<lambda>_. '''') 42 resumed_world") auto
  with drive_leaves_status[OF calm row _ run] show ?thesis
    by (simp add: rollout_is_terminal_def sample_rollout_def)
qed

text \<open>A deployment that stays healthy passes its phase.\<close>

definition served_world :: rollout_world where
  "served_world = (watched_world (Some sample_health))
     \<lparr>deployments := [sample_deployment DeployStatusRunning]\<rparr>"

lemma served_run:
  "map_option fst (run_phase (\<lambda>_. '''') (sample_rollout RolloutActive) (sample_phase (Fin 10)) served_world) =
   Some (Inr ())"
  by code_simp

theorem phase_passes_only_earned_witness:
  "\<exists>s' m k. enter_phase (sample_rollout RolloutActive) (sample_phase (Fin 10)) served_world = (Inr 0, s') \<and>
    earned (sample_step (Fin 10)) (Fin (9 / 10)) 0 (readings 7 s') m k"
proof -
  from served_run obtain t where
    "run_phase (\<lambda>_. '''') (sample_rollout RolloutActive) (sample_phase (Fin 10)) served_world = Some (Inr (), t)"
    by (cases "run_phase (\<lambda>_. '''') (sample_rollout RolloutActive) (sample_phase (Fin 10)) served_world") auto
  from phase_passes_only_earned[OF sample_drives this] show ?thesis
    by (simp add: sample_reading_defs served_world_def)
qed

end
