(* ===== verification/FlagEvaluator.thy ===== *)
theory FlagEvaluator
  imports FlagService FlagTargeting
begin

text \<open>
  The evaluation engine (\<open>internal/flags/evaluator.go\<close>): a flag is read through the cache,
  then its state in the environment, then its rules in priority order. The wiring installs no
  telemetry logger, so logging is left out; concurrent misses are coalesced into one read,
  which changes no answer.
\<close>

section \<open>The engine\<close>

definition load_flag :: "uuid \<Rightarrow> uuid \<Rightarrow> string \<Rightarrow> ('x, feature_flag) flag_prog" where
  "load_flag project envi key =
     andThen (cache_get_flag project envi key) (\<lambda>c.
       case c of
         Some f \<Rightarrow> ret f
       | None \<Rightarrow>
           andThen (wrapped (FlagWrap ''flag not found'') (get_flag_by_key project envi key)) (\<lambda>f.
           andThen (quietly (cache_set_flag f)) (\<lambda>_. ret f)))"

definition load_rules :: "uuid \<Rightarrow> ('x, targeting_rule list) flag_prog" where
  "load_rules flag_id =
     andThen (cache_get_rules flag_id) (\<lambda>c.
       case c of
         Some rs \<Rightarrow> ret rs
       | None \<Rightarrow>
           andThen (wrapped (FlagWrap ''loading rules for flag'') (list_rules flag_id)) (\<lambda>rs.
           andThen (quietly (cache_set_rules flag_id rs)) (\<lambda>_. ret rs)))"

definition load_segment :: "uuid option \<Rightarrow> ('x, segment) flag_prog" where
  "load_segment segment_id =
     (case segment_id of
        None \<Rightarrow> fail SegmentIdMissing
      | Some i \<Rightarrow>
          andThen (cache_get_segment i) (\<lambda>c.
            case c of
              Some s \<Rightarrow> ret s
            | None \<Rightarrow>
                andThen (wrapped (FlagWrap ''loading segment'') (get_segment i)) (\<lambda>s.
                andThen (quietly (cache_set_segment s)) (\<lambda>_. ret s))))"

definition segment_conditions :: "segment \<Rightarrow> compound_condition list" where
  "segment_conditions s = map (\<lambda>c. \<lparr>cc_attribute = sq_attribute c, cc_operator = sq_operator c,
     cc_value = sq_value c\<rparr>) (sm_conditions s)"

definition evaluate_rule :: "targeting_rule \<Rightarrow> evaluation_context \<Rightarrow> string \<Rightarrow> ('x, bool) flag_prog" where
  "evaluate_rule r ctx flag_key =
     (case tg_rule_type r of
        RuleTypePercentage \<Rightarrow> ret (evaluate_percentage_rule r ctx flag_key)
      | RuleTypeUserTarget \<Rightarrow> ret (evaluate_user_target_rule r ctx)
      | RuleTypeAttribute \<Rightarrow> ret (evaluate_attribute_rule r ctx)
      | RuleTypeSchedule \<Rightarrow> andThen time_now (\<lambda>now. ret (evaluate_schedule_rule r now))
      | RuleTypeSegment \<Rightarrow> andThen (load_segment (tg_segment_id r)) (\<lambda>s.
          ret (evaluate_conditions (segment_conditions s) (sm_combine_op s) ctx))
      | RuleTypeCompound \<Rightarrow> ret (evaluate_conditions (tg_conditions r) (tg_combine_op r) ctx)
      | RuleTypeText _ \<Rightarrow> fail (UnknownRuleType (tg_rule_type r)))"

text \<open>The first enabled rule that matches; a rule whose evaluation fails is skipped.\<close>

primrec evaluate_rules ::
  "(uuid \<rightharpoonup> bool) \<Rightarrow> evaluation_context \<Rightarrow> string \<Rightarrow> targeting_rule list \<Rightarrow> ('x, targeting_rule option) flag_prog" where
  "evaluate_rules enabled ctx flag_key [] = ret None"
| "evaluate_rules enabled ctx flag_key (r # rs) =
     (if enabled (tg_id r) \<noteq> Some True then evaluate_rules enabled ctx flag_key rs
      else andThen (attempt (evaluate_rule r ctx flag_key) :: ('x, flag_error + bool) flag_prog) (\<lambda>m.
        if m = Inr True then ret (Some r) else evaluate_rules enabled ctx flag_key rs))"

definition strip_quotes :: "string \<Rightarrow> string" where
  "strip_quotes raw =
     (if length raw \<ge> 2 \<and> hd raw = CHR 0x22 \<and> last raw = CHR 0x22 then butlast (tl raw) else raw)"

definition disabled_result :: "feature_flag \<Rightarrow> evaluation_result" where
  "disabled_result f = \<lparr>er_flag_key = ff_key f, er_enabled = False, er_value = ff_default_value f,
     er_reason = ''flag_disabled'', er_rule_id = None\<rparr>"

definition matched_result :: "feature_flag \<Rightarrow> targeting_rule \<Rightarrow> evaluation_result" where
  "matched_result f r = \<lparr>er_flag_key = ff_key f, er_enabled = True, er_value = tg_value r,
     er_reason = ''rule_match'', er_rule_id = Some (tg_id r)\<rparr>"

definition default_result :: "feature_flag \<Rightarrow> flag_environment_state option \<Rightarrow> evaluation_result" where
  "default_result f st = \<lparr>er_flag_key = ff_key f, er_enabled = True,
     er_value = (case st of None \<Rightarrow> ff_default_value f
                 | Some s \<Rightarrow> (case fs_value s of None \<Rightarrow> ff_default_value f | Some raw \<Rightarrow> strip_quotes raw)),
     er_reason = ''default'', er_rule_id = None\<rparr>"

definition is_enabled :: "feature_flag \<Rightarrow> flag_environment_state option \<Rightarrow> bool" where
  "is_enabled f st = (case st of None \<Rightarrow> ff_enabled f | Some s \<Rightarrow> fs_enabled s)"

definition evaluate_enabled ::
  "feature_flag \<Rightarrow> flag_environment_state option \<Rightarrow> uuid \<Rightarrow> evaluation_context \<Rightarrow> ('x, evaluation_result) flag_prog" where
  "evaluate_enabled f st envi ctx =
     andThen (load_rules (ff_id f)) (\<lambda>rules.
     andThen (attempt (rule_states_by_env (ff_id f) envi) :: ('x, flag_error + (uuid \<rightharpoonup> bool)) flag_prog) (\<lambda>es.
     andThen (evaluate_rules (case es of Inl _ \<Rightarrow> Map.empty | Inr m \<Rightarrow> m) ctx (ff_key f) rules) (\<lambda>hit.
       ret (case hit of Some r \<Rightarrow> matched_result f r | None \<Rightarrow> default_result f st))))"

definition evaluate_flag ::
  "uuid \<Rightarrow> uuid \<Rightarrow> string \<Rightarrow> evaluation_context \<Rightarrow> ('x, evaluation_result) flag_prog" where
  "evaluate_flag project envi key ctx =
     andThen (load_flag project envi key) (\<lambda>f.
       if ff_archived f then ret (disabled_result f)
       else andThen (attempt (get_flag_env_state (ff_id f) envi)
                :: ('x, flag_error + flag_environment_state option) flag_prog) (\<lambda>g.
            let st = (case g of Inl _ \<Rightarrow> None | Inr st \<Rightarrow> st)
            in if \<not> is_enabled f st then ret (disabled_result f)
               else evaluate_enabled f st envi ctx))"

text \<open>\<open>BatchEvaluate\<close>: the answers in the order of the keys, an error as an answer of its own.\<close>

definition error_result :: "string \<Rightarrow> evaluation_result" where
  "error_result key = \<lparr>er_flag_key = key, er_enabled = False, er_value = '''', er_reason = ''error'',
     er_rule_id = None\<rparr>"

primrec batch_evaluate ::
  "uuid \<Rightarrow> uuid \<Rightarrow> evaluation_context \<Rightarrow> string list \<Rightarrow>
   ('x, (evaluation_result \<times> flag_error option) list) flag_prog" where
  "batch_evaluate project envi ctx [] = ret []"
| "batch_evaluate project envi ctx (key # keys) =
     andThen (attempt (evaluate_flag project envi key ctx) :: ('x, flag_error + evaluation_result) flag_prog) (\<lambda>r.
     andThen (batch_evaluate project envi ctx keys) (\<lambda>rest.
       ret ((case r of Inl e \<Rightarrow> (error_result key, Some e) | Inr x \<Rightarrow> (x, None)) # rest)))"

section \<open>What the tables say\<close>

text \<open>
  The reference: the answer read off the tables, without a cache. \<open>n\<close> counts the clock
  readings, one per enabled schedule rule.
\<close>

definition lookup_flag :: "'x flag_world_scheme \<Rightarrow> uuid \<Rightarrow> uuid \<Rightarrow> string \<Rightarrow> feature_flag option" where
  "lookup_flag w project envi key =
     (let rows = filter (\<lambda>f. ff_project_id f = project \<and> ff_key f = key) (feature_flags w)
      in case find (\<lambda>f. ff_environment_id f = Some envi) rows of
           Some f \<Rightarrow> Some f | None \<Rightarrow> find (\<lambda>f. ff_environment_id f = None) rows)"

definition lookup_segment :: "'x flag_world_scheme \<Rightarrow> uuid \<Rightarrow> segment option" where
  "lookup_segment w i = map_option (\<lambda>s. s\<lparr>sm_conditions := sort_key sq_priority (sm_conditions s)\<rparr>)
     (row_of sm_id i (segments w))"

definition lookup_state :: "'x flag_world_scheme \<Rightarrow> uuid \<Rightarrow> uuid \<Rightarrow> flag_environment_state option" where
  "lookup_state w flag_id envi = find (\<lambda>s. fs_flag_id s = flag_id \<and> fs_environment_id s = envi) (flag_states w)"

definition rule_enabled :: "'x flag_world_scheme \<Rightarrow> uuid \<Rightarrow> uuid \<Rightarrow> targeting_rule \<Rightarrow> bool" where
  "rule_enabled w flag_id envi r \<longleftrightarrow>
     map_of (rev (map (\<lambda>s. (rs_rule_id s, rs_enabled s))
       (filter (\<lambda>s. rs_environment_id s = envi \<and>
          (\<exists>q \<in> set (targeting_rules w). tg_id q = rs_rule_id s \<and> tg_flag_id q = flag_id))
         (rule_states w)))) (tg_id r) = Some True"

definition rule_matches :: "'x flag_world_scheme \<Rightarrow> evaluation_context \<Rightarrow> string \<Rightarrow> time \<Rightarrow> targeting_rule \<Rightarrow> bool" where
  "rule_matches w ctx flag_key now r =
     (case tg_rule_type r of
        RuleTypePercentage \<Rightarrow> evaluate_percentage_rule r ctx flag_key
      | RuleTypeUserTarget \<Rightarrow> evaluate_user_target_rule r ctx
      | RuleTypeAttribute \<Rightarrow> evaluate_attribute_rule r ctx
      | RuleTypeSchedule \<Rightarrow> evaluate_schedule_rule r now
      | RuleTypeSegment \<Rightarrow>
          (case tg_segment_id r of
             None \<Rightarrow> False
           | Some i \<Rightarrow> (case lookup_segment w i of
                None \<Rightarrow> False
              | Some s \<Rightarrow> evaluate_conditions (segment_conditions s) (sm_combine_op s) ctx))
      | RuleTypeCompound \<Rightarrow> evaluate_conditions (tg_conditions r) (tg_combine_op r) ctx
      | RuleTypeText _ \<Rightarrow> False)"

fun first_match ::
  "'x flag_world_scheme \<Rightarrow> uuid \<Rightarrow> uuid \<Rightarrow> evaluation_context \<Rightarrow> string \<Rightarrow> nat \<Rightarrow> targeting_rule list \<Rightarrow>
   targeting_rule option" where
  "first_match w flag_id envi ctx flag_key n [] = None"
| "first_match w flag_id envi ctx flag_key n (r # rs) =
     (if \<not> rule_enabled w flag_id envi r then first_match w flag_id envi ctx flag_key n rs
      else if rule_matches w ctx flag_key (clock w n) r then Some r
      else first_match w flag_id envi ctx flag_key (if tg_rule_type r = RuleTypeSchedule then Suc n else n) rs)"

definition answer :: "'x flag_world_scheme \<Rightarrow> uuid \<Rightarrow> evaluation_context \<Rightarrow> feature_flag \<Rightarrow> evaluation_result" where
  "answer w envi ctx f =
     (let st = lookup_state w (ff_id f) envi
      in if ff_archived f \<or> \<not> is_enabled f st then disabled_result f
         else case first_match w (ff_id f) envi ctx (ff_key f) (reads w) (rules_of w (ff_id f)) of
           Some r \<Rightarrow> matched_result f r | None \<Rightarrow> default_result f st)"

section \<open>The cache serves the tables\<close>

text \<open>
  \<open>coherent\<close>: an entry is what the tables say. \<open>served n s t\<close>: \<open>t\<close> has the tables and the
  environment of \<open>s\<close> with \<open>n\<close> clock readings more, and its cache is coherent.
\<close>

definition coherent :: "'x flag_world_scheme \<Rightarrow> bool" where
  "coherent w \<longleftrightarrow>
     (\<forall>p e k f. cached_flags w (p, e, k) = Some f \<longrightarrow> lookup_flag w p e k = Some f) \<and>
     (\<forall>i rs. cached_rules w i = Some rs \<longrightarrow> rs = rules_of w i) \<and>
     (\<forall>i s. cached_segments w i = Some s \<longrightarrow> lookup_segment w i = Some s) \<and>
     (\<forall>f \<in> set (feature_flags w). ff_environment_id f \<noteq> Some uuid_nil)"

definition served :: "nat \<Rightarrow> 'x flag_world_scheme \<Rightarrow> 'x flag_world_scheme \<Rightarrow> bool" where
  "served n s t \<longleftrightarrow> feature_flags t = feature_flags s \<and> targeting_rules t = targeting_rules s \<and>
     rule_states t = rule_states s \<and> flag_states t = flag_states s \<and> segments t = segments s \<and>
     clock t = clock s \<and> fault t = fault s \<and> ctxdone t = ctxdone s \<and> reads t = reads s + n \<and> coherent t"

lemma served_trans: "served m s t \<Longrightarrow> served n t u \<Longrightarrow> served (m + n) s u"
  by (simp add: served_def)

lemma served_refl: "coherent s \<Longrightarrow> served 0 s s"
  by (simp add: served_def)

lemma served_D: "served n s t \<Longrightarrow> coherent t" "served n s t \<Longrightarrow> calm t = calm s"
  "served n s t \<Longrightarrow> reads t = reads s + n"
  by (auto simp: served_def intro!: calm_cong)

lemma served_lookups:
  assumes "served n s t"
  shows "lookup_flag t = lookup_flag s" "lookup_segment t = lookup_segment s" "lookup_state t = lookup_state s"
    "rule_enabled t = rule_enabled s" "rules_of t = rules_of s" "rule_matches t = rule_matches s" "clock t = clock s"
proof -
  show seg: "lookup_segment t = lookup_segment s"
    using assms by (simp add: served_def lookup_segment_def fun_eq_iff)
  show "lookup_flag t = lookup_flag s" "lookup_state t = lookup_state s" "rules_of t = rules_of s" "clock t = clock s"
    using assms by (simp_all add: served_def lookup_flag_def lookup_state_def rules_of_def fun_eq_iff Let_def)
  show "rule_enabled t = rule_enabled s" using assms by (simp add: served_def rule_enabled_def fun_eq_iff)
  show "rule_matches t = rule_matches s"
    by (intro ext) (simp add: rule_matches_def seg split: rule_type.splits option.splits)
qed

lemma coherent_env [simp]:
  "coherent (s\<lparr>calls := n\<rparr>) = coherent s" "coherent (s\<lparr>reads := n\<rparr>) = coherent s"
  by (simp_all add: coherent_def lookup_flag_def lookup_segment_def rules_of_def Let_def)

lemma served_call: "coherent s \<Longrightarrow> served 0 s (s\<lparr>calls := n\<rparr>)"
  by (simp add: served_def)

lemma lookup_flag_filed:
  assumes "lookup_flag w p e k = Some f" and "\<forall>f \<in> set (feature_flags w). ff_environment_id f \<noteq> Some uuid_nil"
  shows "lookup_flag w (ff_project_id f) (case ff_environment_id f of None \<Rightarrow> uuid_nil | Some e \<Rightarrow> e) (ff_key f) = Some f"
proof -
  let ?rows = "filter (\<lambda>f. ff_project_id f = p \<and> ff_key f = k) (feature_flags w)"
  show ?thesis
  proof (cases "find (\<lambda>f. ff_environment_id f = Some e) ?rows")
    case (Some g)
    with assms(1) have "g = f" by (simp add: lookup_flag_def Let_def)
    with Some have "ff_environment_id f = Some e" "ff_project_id f = p" "ff_key f = k"
      by (auto simp: find_Some_iff dest!: nth_mem)
    with assms(1) show ?thesis by simp
  next
    case None
    with assms(1) have f: "find (\<lambda>f. ff_environment_id f = None) ?rows = Some f" by (simp add: lookup_flag_def Let_def)
    then have "ff_environment_id f = None" "ff_project_id f = p" "ff_key f = k"
      by (auto simp: find_Some_iff dest!: nth_mem)
    moreover have "find (\<lambda>f. ff_environment_id f = Some uuid_nil) ?rows = None"
      using assms(2) by (auto simp: find_None_iff)
    ultimately show ?thesis using f by (simp add: lookup_flag_def Let_def)
  qed
qed

lemma load_flag_run:
  assumes "calm s" and "coherent s"
  shows "\<exists>t. load_flag p e k s =
    ((case lookup_flag s p e k of None \<Rightarrow> Inl (FlagWrap ''flag not found'' FlagNotFound) | Some f \<Rightarrow> Inr f), t) \<and>
    served 0 s t"
proof (cases "cached_flags s (p, e, k)")
  case (Some f)
  with assms(2) have "lookup_flag s p e k = Some f" by (simp add: coherent_def)
  with Some assms show ?thesis
    by (simp add: load_flag_def cache_get_flag_def prog_defs served_call)
next
  case miss: None
  have by_key: "get_flag_by_key p e k (s\<lparr>calls := n\<rparr>) =
      ((case lookup_flag s p e k of None \<Rightarrow> Inl FlagNotFound | Some f \<Rightarrow> Inr f), s\<lparr>calls := Suc n\<rparr>)" for n
    using assms(1) by (simp add: get_flag_by_key_def prog_defs lookup_flag_def Let_def split: option.splits)
  show ?thesis
  proof (cases "lookup_flag s p e k")
    case None
    with miss assms by_key show ?thesis
      by (simp add: load_flag_def cache_get_flag_def prog_defs served_call)
  next
    case (Some f)
    let ?k = "(ff_project_id f, case ff_environment_id f of None \<Rightarrow> uuid_nil | Some e \<Rightarrow> e, ff_key f)"
    let ?t = "s\<lparr>calls := Suc (Suc (Suc (Suc (calls s)))), cached_flags := (cached_flags s)(?k \<mapsto> f),
        cached_flag_keys := (cached_flag_keys s)(ff_id f \<mapsto> ?k)\<rparr>"
    have "load_flag p e k s = (Inr f, ?t)"
      using Some miss assms(1) by_key
      by (simp add: load_flag_def cache_get_flag_def cache_set_flag_def quietly_def prog_defs Let_def)
    moreover have "coherent ?t"
      using assms(2) lookup_flag_filed[OF Some]
      by (auto simp: coherent_def lookup_flag_def lookup_segment_def rules_of_def Let_def split: if_splits)
    ultimately show ?thesis using Some by (simp add: served_def)
  qed
qed

lemma load_rules_run:
  assumes "calm s" and "coherent s"
  shows "\<exists>t. load_rules i s = (Inr (rules_of s i), t) \<and> served 0 s t"
proof (cases "\<exists>rs. cached_rules s i = Some rs \<and> rs \<noteq> []")
  case True
  then obtain rs where rs: "cached_rules s i = Some rs" "rs \<noteq> []" by blast
  with assms(2) have "rs = rules_of s i" by (simp add: coherent_def)
  with rs assms show ?thesis by (simp add: load_rules_def cache_get_rules_def prog_defs served_call)
next
  case False
  let ?t = "s\<lparr>calls := Suc (Suc (Suc (calls s))), cached_rules := (cached_rules s)(i \<mapsto> rules_of s i)\<rparr>"
  have "load_rules i s = (Inr (rules_of s i), ?t)"
    using False assms(1)
    by (cases "cached_rules s i")
      (auto simp: load_rules_def cache_get_rules_def list_rules_def cache_set_rules_def quietly_def prog_defs rules_of_def)
  moreover have "coherent ?t"
    using assms(2) by (auto simp: coherent_def lookup_flag_def lookup_segment_def rules_of_def Let_def)
  ultimately show ?thesis by (simp add: served_def)
qed

lemma load_segment_run:
  assumes "calm s" and "coherent s"
  shows "\<exists>t r. load_segment (Some i) s = (r, t) \<and> served 0 s t \<and>
    (case lookup_segment s i of None \<Rightarrow> \<exists>e. r = Inl e | Some sg \<Rightarrow> r = Inr sg)"
proof (cases "cached_segments s i")
  case (Some sg)
  with assms(2) have "lookup_segment s i = Some sg" by (simp add: coherent_def)
  with Some assms show ?thesis by (simp add: load_segment_def cache_get_segment_def prog_defs served_call)
next
  case miss: None
  show ?thesis
  proof (cases "row_of sm_id i (segments s)")
    case None
    with miss assms show ?thesis
      by (simp add: load_segment_def cache_get_segment_def get_segment_def prog_defs served_call lookup_segment_def)
  next
    case (Some row)
    let ?sg = "row\<lparr>sm_conditions := sort_key sq_priority (sm_conditions row)\<rparr>"
    let ?t = "s\<lparr>calls := calls s + 4, cached_segments := (cached_segments s)(sm_id row \<mapsto> ?sg)\<rparr>"
    have "load_segment (Some i) s = (Inr ?sg, ?t)"
      using Some miss assms(1)
      by (simp add: load_segment_def cache_get_segment_def get_segment_def cache_set_segment_def quietly_def prog_defs)
    moreover have "coherent ?t"
      using assms(2) Some row_of_Some[OF Some]
      by (auto simp: coherent_def lookup_flag_def lookup_segment_def rules_of_def Let_def)
    ultimately show ?thesis using Some by (simp add: served_def lookup_segment_def)
  qed
qed

lemma evaluate_rule_run:
  assumes "calm s" and "coherent s"
  shows "\<exists>t m. (attempt (evaluate_rule r ctx k) :: ('x, flag_error + bool) flag_prog) s = (Inr m, t) \<and>
    served (if tg_rule_type r = RuleTypeSchedule then 1 else 0) s t \<and>
    (m = Inr True \<longleftrightarrow> rule_matches s ctx k (clock s (reads s)) r)"
proof (cases "tg_rule_type r = RuleTypeSegment \<and> tg_segment_id r \<noteq> None")
  case True
  then obtain i where i: "tg_segment_id r = Some i" by auto
  from load_segment_run[OF assms, of i] obtain t q where
    q: "load_segment (Some i) s = (q, t)" "served 0 s t"
    "case lookup_segment s i of None \<Rightarrow> \<exists>e. q = Inl e | Some sg \<Rightarrow> q = Inr sg" by blast
  with True i show ?thesis
    by (cases "lookup_segment s i") (auto simp: evaluate_rule_def rule_matches_def attempt_def andThen_def ret_def)
next
  case False
  with assms show ?thesis
    by (cases "tg_rule_type r")
      (auto simp: evaluate_rule_def rule_matches_def prog_defs load_segment_def served_refl served_def)
qed

lemma evaluate_rules_run:
  assumes "calm s" and "coherent s"
    and "\<And>r. r \<in> set rs \<Longrightarrow> enabled (tg_id r) = Some True \<longleftrightarrow> rule_enabled s i envi r"
  shows "\<exists>t n. evaluate_rules enabled ctx k rs s = (Inr (first_match s i envi ctx k (reads s) rs), t) \<and> served n s t"
  using assms
proof (induction rs arbitrary: s)
  case Nil
  then show ?case by (auto simp: ret_def intro: served_refl)
next
  case (Cons r rs)
  show ?case
  proof (cases "rule_enabled s i envi r")
    case False
    with Cons show ?thesis by simp
  next
    case True
    from evaluate_rule_run[OF Cons.prems(1,2), of r ctx k] obtain t m where
      t: "(attempt (evaluate_rule r ctx k) :: ('a, flag_error + bool) flag_prog) s = (Inr m, t)"
      "served (if tg_rule_type r = RuleTypeSchedule then 1 else 0) s t"
      "m = Inr True \<longleftrightarrow> rule_matches s ctx k (clock s (reads s)) r" by blast
    show ?thesis
    proof (cases "m = Inr True")
      case hit: True
      with True t Cons.prems(3)[of r] show ?thesis by (auto simp: andThen_def ret_def)
    next
      case miss: False
      note same = served_lookups[OF t(2)]
      have "\<exists>u n. evaluate_rules enabled ctx k rs t = (Inr (first_match t i envi ctx k (reads t) rs), u) \<and> served n t u"
        by (rule Cons.IH) (use Cons.prems same served_D[OF t(2)] in auto)
      then obtain u n where u: "evaluate_rules enabled ctx k rs t = (Inr (first_match t i envi ctx k (reads t) rs), u)"
        "served n t u" by blast
      have fm: "first_match t i envi ctx k n rs = first_match s i envi ctx k n rs" for n
        by (induction rs arbitrary: n) (simp_all add: same)
      from True miss t u Cons.prems(3)[of r] served_trans[OF t(2) u(2)] show ?thesis
        by (auto simp: andThen_def fm served_D(3)[OF t(2)])
    qed
  qed
qed

lemma evaluate_enabled_run:
  assumes "calm s" and "coherent s"
  shows "\<exists>t n. evaluate_enabled f st envi ctx s =
    (Inr (case first_match s (ff_id f) envi ctx (ff_key f) (reads s) (rules_of s (ff_id f)) of
       Some r \<Rightarrow> matched_result f r | None \<Rightarrow> default_result f st), t) \<and> served n s t"
proof -
  from load_rules_run[OF assms, of "ff_id f"] obtain t where
    t: "load_rules (ff_id f) s = (Inr (rules_of s (ff_id f)), t)" "served 0 s t" by blast
  note same = served_lookups[OF t(2)]
  let ?u = "t\<lparr>calls := Suc (calls t)\<rparr>"
  let ?m = "map_of (rev (map (\<lambda>s. (rs_rule_id s, rs_enabled s))
       (filter (\<lambda>s. rs_environment_id s = envi \<and>
          (\<exists>q \<in> set (targeting_rules t). tg_id q = rs_rule_id s \<and> tg_flag_id q = ff_id f)) (rule_states t))))"
  have calm: "calm t" "coherent t" "reads t = reads s" using served_D[OF t(2)] assms by simp_all
  have es: "(attempt (rule_states_by_env (ff_id f) envi) :: ('a, flag_error + (uuid \<rightharpoonup> bool)) flag_prog) t = (Inr (Inr ?m), ?u)"
    using calm(1) by (simp add: rule_states_by_env_def prog_defs)
  have u: "served 0 t ?u" using calm(2) by (rule served_call)
  note same_u = served_lookups[OF u]
  have "\<exists>v n. evaluate_rules ?m ctx (ff_key f) (rules_of s (ff_id f)) ?u =
      (Inr (first_match ?u (ff_id f) envi ctx (ff_key f) (reads ?u) (rules_of s (ff_id f))), v) \<and> served n ?u v"
    by (rule evaluate_rules_run) (use calm in \<open>simp_all add: rule_enabled_def\<close>)
  then obtain v n where v: "evaluate_rules ?m ctx (ff_key f) (rules_of s (ff_id f)) ?u =
      (Inr (first_match ?u (ff_id f) envi ctx (ff_key f) (reads ?u) (rules_of s (ff_id f))), v)" "served n ?u v" by blast
  have fm: "first_match ?u i envi ctx k n rs = first_match s i envi ctx k n rs" for i k n rs
    by (induction rs arbitrary: n) (simp_all only: first_match.simps same same_u)
  have "evaluate_enabled f st envi ctx s = (Inr (case first_match s (ff_id f) envi ctx (ff_key f) (reads s) (rules_of s (ff_id f)) of
       Some r \<Rightarrow> matched_result f r | None \<Rightarrow> default_result f st), v)"
    using andThen_run(1)[where m = "evaluate_rules _ _ _ _", OF v(1)] calm(3)
    by (simp add: evaluate_enabled_def andThen_run(1)[where m = "load_rules _", OF t(1)]
        andThen_run(1)[where m = "attempt _", OF es] fm ret_def)
  with served_trans[OF t(2) served_trans[OF u v(2)]] show ?thesis by blast
qed

lemma evaluate_flag_run:
  assumes "calm s" and "coherent s"
  shows "\<exists>t n. evaluate_flag project envi key ctx s =
    ((case lookup_flag s project envi key of
        None \<Rightarrow> Inl (FlagWrap ''flag not found'' FlagNotFound) | Some f \<Rightarrow> Inr (answer s envi ctx f)), t) \<and> served n s t"
proof -
  from load_flag_run[OF assms, of project envi key] obtain t where
    t: "load_flag project envi key s = ((case lookup_flag s project envi key of
        None \<Rightarrow> Inl (FlagWrap ''flag not found'' FlagNotFound) | Some f \<Rightarrow> Inr f), t)" "served 0 s t" by blast
  note same = served_lookups[OF t(2)]
  have calm: "calm t" "coherent t" "reads t = reads s" using served_D[OF t(2)] assms by simp_all
  show ?thesis
  proof (cases "lookup_flag s project envi key")
    case None
    with t show ?thesis by (auto simp: evaluate_flag_def andThen_def)
  next
    case (Some f)
    let ?u = "t\<lparr>calls := Suc (calls t)\<rparr>" and ?st = "lookup_state s (ff_id f) envi"
    have u: "served 0 t ?u" using calm(2) by (rule served_call)
    note same_u = served_lookups[OF u]
    have get: "(attempt (get_flag_env_state (ff_id f) envi)
        :: ('a, flag_error + flag_environment_state option) flag_prog) t = (Inr (Inr ?st), ?u)"
      using calm(1) same(3) by (simp add: get_flag_env_state_def prog_defs lookup_state_def fun_eq_iff)
    from Some t have run: "evaluate_flag project envi key ctx s =
        (if ff_archived f then ret (disabled_result f) else andThen (attempt (get_flag_env_state (ff_id f) envi)
           :: ('a, flag_error + flag_environment_state option) flag_prog) (\<lambda>g.
            let st = (case g of Inl _ \<Rightarrow> None | Inr st \<Rightarrow> st)
            in if \<not> is_enabled f st then ret (disabled_result f) else evaluate_enabled f st envi ctx)) t"
      by (simp add: evaluate_flag_def andThen_def)
    show ?thesis
    proof (cases "ff_archived f \<or> \<not> is_enabled f ?st")
      case True
      have "evaluate_flag project envi key ctx s = (Inr (disabled_result f), if ff_archived f then t else ?u)"
        unfolding run using True by (auto simp: andThen_run(1)[where m = "attempt _", OF get] ret_def)
      with True Some served_trans[OF t(2) u] t(2) show ?thesis
        by (cases "ff_archived f") (auto simp: answer_def Let_def)
    next
      case False
      have "calm ?u" "coherent ?u" using calm by simp_all
      from evaluate_enabled_run[OF this, of f ?st envi ctx] obtain v n where
        v: "evaluate_enabled f ?st envi ctx ?u = (Inr (case first_match ?u (ff_id f) envi ctx (ff_key f) (reads ?u)
            (rules_of ?u (ff_id f)) of Some r \<Rightarrow> matched_result f r | None \<Rightarrow> default_result f ?st), v)"
        "served n ?u v" by blast
      have fm: "first_match ?u i envi ctx k n rs = first_match s i envi ctx k n rs" for i k n rs
        by (induction rs arbitrary: n) (simp_all only: first_match.simps same same_u)
      have "evaluate_flag project envi key ctx s = (Inr (answer s envi ctx f), v)"
        unfolding run using False v(1) calm(3)
        by (simp add: andThen_run(1)[where m = "attempt _", OF get] answer_def Let_def fm same same_u)
      with Some served_trans[OF t(2) served_trans[OF u v(2)]] show ?thesis by auto
    qed
  qed
qed

text \<open>
  C4. The evaluation engine answers what the tables say, however much of it comes from the
  cache: with a coherent cache and no failing call, evaluating a flag is the reference
  answer (or the error for an unknown flag), no table changes, and the cache stays coherent.
\<close>

theorem evaluation_refines_tables:
  assumes "calm s" and "coherent s"
  shows "\<exists>t n. evaluate_flag project envi key ctx s =
    ((case lookup_flag s project envi key of
        None \<Rightarrow> Inl (FlagWrap ''flag not found'' FlagNotFound) | Some f \<Rightarrow> Inr (answer s envi ctx f)), t) \<and> served n s t"
  using assms by (rule evaluate_flag_run)

text \<open>A flag with a rule for one user and a rule for everybody else.\<close>

definition sample_flag :: feature_flag where
  "sample_flag = \<lparr>ff_id = 11, ff_project_id = 1, ff_application_id = None, ff_environment_id = None,
     ff_key = ''beta'', ff_name = ''Beta'', ff_description = '''', ff_flag_type = FlagTypeString,
     ff_category = FlagCategoryFeature, ff_purpose = '''', ff_owners = [], ff_is_permanent = True,
     ff_expires_at = None, ff_enabled = True, ff_default_value = ''off'', ff_archived = False,
     ff_archived_at = None, ff_tags = [], ff_created_by = 3, ff_created_at = 0, ff_updated_at = 0,
     ff_delete_after = None, ff_smoke_test_status = None, ff_user_test_status = None,
     ff_scheduled_removal_at = None, ff_iteration_count = 0, ff_iteration_exhausted = False,
     ff_last_smoke_test_notes = None, ff_last_user_test_notes = None\<rparr>"

definition sample_rule :: "uuid \<Rightarrow> int \<Rightarrow> rule_type \<Rightarrow> string \<Rightarrow> targeting_rule" where
  "sample_rule i p ty v = \<lparr>tg_id = i, tg_flag_id = 11, tg_rule_type = ty, tg_priority = p, tg_value = v,
     tg_percentage = None, tg_attribute = '''', tg_operator = '''', tg_target_values = [''ann''],
     tg_segment_id = None, tg_conditions = [], tg_combine_op = '''', tg_start_time = None, tg_end_time = None,
     tg_enabled = True, tg_created_at = 0, tg_updated_at = 0\<rparr>"

definition sample_flag_world :: flag_world where
  "sample_flag_world = \<lparr>fault = (\<lambda>_. False), calls = 0, clock = (\<lambda>_. 0), reads = 0, fresh = (\<lambda>n. word_of_nat (100 + n)),
     minted = 0, ctxdone = (\<lambda>_. False), polls = 0, deployments = [], deployment_phases = [],
     rollback_history = [], outbox = [], feature_flags = [sample_flag],
     targeting_rules = [sample_rule 21 5 RuleTypeSchedule ''all'', sample_rule 22 1 RuleTypeUserTarget ''ann''],
     rule_states = map (\<lambda>i. \<lparr>rs_id = i, rs_rule_id = i, rs_environment_id = 2, rs_enabled = True,
       rs_created_at = 0, rs_updated_at = 0\<rparr>) [21, 22],
     flag_states = [], segments = [], cached_flags = (\<lambda>_. None), cached_flag_keys = (\<lambda>_. None),
     cached_rules = (\<lambda>_. None), cached_segments = (\<lambda>_. None),
     removal_fired = (\<lambda>_. None), audit_refs = sample_refs, audit_log = []\<rparr>"

lemma sample_flag_world_ready: "calm sample_flag_world" "coherent sample_flag_world"
  "lookup_flag sample_flag_world 1 2 ''beta'' = Some sample_flag"
  by (simp_all add: sample_flag_world_def calm_def coherent_def lookup_flag_def sample_flag_def)

lemma sample_answer: "answer sample_flag_world 2 (sample_visitor ''ann'') sample_flag =
    matched_result sample_flag (sample_rule 22 1 RuleTypeUserTarget ''ann'')"
  by code_simp

theorem evaluation_refines_tables_witness:
  "\<exists>t. evaluate_flag 1 2 ''beta'' (sample_visitor ''ann'') sample_flag_world =
     (Inr (matched_result sample_flag (sample_rule 22 1 RuleTypeUserTarget ''ann'')), t)"
  using evaluation_refines_tables[OF sample_flag_world_ready(1,2), of 1 2 "''beta''" "sample_visitor ''ann''"]
  by (auto simp: sample_flag_world_ready(3) sample_answer)

section \<open>Priorities\<close>

lemma first_match_frozen:
  assumes "\<And>n. clock w n = now"
  shows "first_match w i envi ctx k n rs = find (\<lambda>r. rule_enabled w i envi r \<and> rule_matches w ctx k now r) rs"
  using assms by (induction rs arbitrary: n) auto

lemma find_sorted_least:
  assumes "find P (sort_key f xs) = Some x" and "y \<in> set xs" and "P y"
  shows "f x \<le> f y"
proof -
  from assms(1) obtain i where i: "i < length (sort_key f xs)" "sort_key f xs ! i = x"
    "\<forall>j<i. \<not> P (sort_key f xs ! j)" by (auto simp: find_Some_iff)
  from assms(2) obtain j where j: "j < length (sort_key f xs)" "sort_key f xs ! j = y"
    by (metis in_set_conv_nth set_sort)
  with i assms(3) have "i \<le> j" by (metis not_less)
  have "sorted (map f (sort_key f xs))" by simp
  then have "map f (sort_key f xs) ! i \<le> map f (sort_key f xs) ! j"
    by (rule sorted_nth_mono) (use \<open>i \<le> j\<close> j in simp_all)
  with i j show ?thesis by simp
qed

text \<open>
  C5. Priorities decide. With a coherent cache, no failing call and a clock that stands
  still, an answer either says that the flag is off, or is the value of a rule that is
  enabled in the environment and matches, no such rule having a smaller priority number, or
  is the default because no enabled rule matches.
\<close>

theorem evaluation_by_priority:
  assumes "calm s" and "coherent s" and "\<And>n. clock s n = now"
    and "evaluate_flag project envi key ctx s = (Inr res, t)"
  shows "\<exists>f. lookup_flag s project envi key = Some f \<and>
    (let fits = (\<lambda>r. rule_enabled s (ff_id f) envi r \<and> rule_matches s ctx (ff_key f) now r);
         st = lookup_state s (ff_id f) envi
     in if ff_archived f \<or> \<not> is_enabled f st then res = disabled_result f
        else (\<exists>r \<in> set (rules_of s (ff_id f)). fits r \<and> res = matched_result f r \<and>
               (\<forall>q \<in> set (rules_of s (ff_id f)). fits q \<longrightarrow> tg_priority r \<le> tg_priority q)) \<or>
             (\<forall>q \<in> set (rules_of s (ff_id f)). \<not> fits q) \<and> res = default_result f st)"
proof -
  from evaluate_flag_run[OF assms(1,2), of project envi key ctx] assms(4) obtain f where
    f: "lookup_flag s project envi key = Some f" "res = answer s envi ctx f" by (auto split: option.splits)
  let ?fits = "\<lambda>r. rule_enabled s (ff_id f) envi r \<and> rule_matches s ctx (ff_key f) now r"
  note hit = first_match_frozen[of s now "ff_id f" envi ctx "ff_key f" "reads s" "rules_of s (ff_id f)", OF assms(3)]
  show ?thesis
  proof (intro exI[of _ f] conjI f(1))
    show "let fits = ?fits; st = lookup_state s (ff_id f) envi
     in if ff_archived f \<or> \<not> is_enabled f st then res = disabled_result f
        else (\<exists>r \<in> set (rules_of s (ff_id f)). fits r \<and> res = matched_result f r \<and>
               (\<forall>q \<in> set (rules_of s (ff_id f)). fits q \<longrightarrow> tg_priority r \<le> tg_priority q)) \<or>
             (\<forall>q \<in> set (rules_of s (ff_id f)). \<not> fits q) \<and> res = default_result f st"
    proof (cases "find ?fits (rules_of s (ff_id f))")
      case None
      moreover from None have "\<forall>q \<in> set (rules_of s (ff_id f)). \<not> ?fits q" by (auto simp: find_None_iff)
      ultimately show ?thesis by (simp add: f(2) answer_def Let_def hit)
    next
      case (Some r)
      then have r: "r \<in> set (rules_of s (ff_id f))" "?fits r" by (auto simp: find_Some_iff)
      have least: "tg_priority r \<le> tg_priority q" if "q \<in> set (rules_of s (ff_id f))" "?fits q" for q
        using find_sorted_least[OF Some[unfolded rules_of_def], of q] that by (simp add: rules_of_def)
      show ?thesis
      proof (cases "ff_archived f \<or> \<not> is_enabled f (lookup_state s (ff_id f) envi)")
        case True
        then show ?thesis by (simp add: f(2) answer_def Let_def)
      next
        case False
        with Some have "res = matched_result f r" by (simp add: f(2) answer_def Let_def hit)
        with False r least show ?thesis by (auto simp: Let_def)
      qed
    qed
  qed
qed

theorem evaluation_by_priority_witness:
  "\<exists>r \<in> set (rules_of sample_flag_world 11). tg_value r = ''ann'' \<and>
    (\<forall>q \<in> set (rules_of sample_flag_world 11). rule_enabled sample_flag_world 11 2 q \<and>
       rule_matches sample_flag_world (sample_visitor ''ann'') ''beta'' 0 q \<longrightarrow> tg_priority r \<le> tg_priority q)"
proof -
  from evaluate_flag_run[OF sample_flag_world_ready(1,2), of 1 2 "''beta''" "sample_visitor ''ann''"]
  obtain t where run: "evaluate_flag 1 2 ''beta'' (sample_visitor ''ann'') sample_flag_world =
     (Inr (matched_result sample_flag (sample_rule 22 1 RuleTypeUserTarget ''ann'')), t)"
    by (auto simp: sample_flag_world_ready(3) sample_answer)
  have frozen: "clock sample_flag_world n = 0" for n by (simp add: sample_flag_world_def)
  have flag: "ff_id sample_flag = 11" "ff_key sample_flag = ''beta''" "\<not> ff_archived sample_flag"
    "is_enabled sample_flag (lookup_state sample_flag_world 11 2)"
    by (simp_all add: sample_flag_def is_enabled_def lookup_state_def sample_flag_world_def)
  from evaluation_by_priority[OF sample_flag_world_ready(1,2) frozen run] show ?thesis
    by (auto simp: sample_flag_world_ready(3) flag Let_def matched_result_def default_result_def sample_rule_def)
qed

end
