(* ===== verification/Access.thy ===== *)
theory Access
  imports Prelude
begin

text \<open>
  Who may do what (\<open>internal/auth/rbac.go\<close>): roles and their permissions, the scopes of an API
  key, the resolution of the role of a request and the permission check; and the members of
  an organization (\<open>internal/members/service.go\<close>, \<open>postgres/members.go\<close>), whose stored
  roles the resolution reads (\<open>postgres/org_role_lookup.go\<close>).
\<close>

section \<open>Permissions and roles\<close>

datatype permission =
    PermDeployCreate | PermDeployRead | PermDeployPromote | PermDeployRollback | PermDeployManage
  | PermFlagCreate | PermFlagRead | PermFlagUpdate | PermFlagToggle | PermFlagArchive
  | PermReleaseCreate | PermReleaseRead | PermReleasePromote
  | PermProjectManage | PermOrgManage | PermAuditRead
  | PermAPIKeyManage | PermUserManage | PermEnvDeploy | PermBillingManage
  | PermSettingsRead | PermSettingsWrite | PermGroupManage | PermStatusWrite

text \<open>A role is text; a text that names no constant is \<open>RoleText\<close>.\<close>

datatype role = RoleOwner | RoleAdmin | RoleDeveloper | RoleViewer | RoleOrgOwner | RoleOrgAdmin
  | RoleProjectAdmin | RoleProjectEditor | RoleProjectViewer | RoleEnvDeployer | RoleText string

definition role_names :: "(string \<times> role) list" where
  "role_names = [(''owner'', RoleOwner), (''admin'', RoleAdmin), (''developer'', RoleDeveloper),
     (''viewer'', RoleViewer), (''org:owner'', RoleOrgOwner), (''org:admin'', RoleOrgAdmin),
     (''project:admin'', RoleProjectAdmin), (''project:editor'', RoleProjectEditor),
     (''project:viewer'', RoleProjectViewer), (''environment:deployer'', RoleEnvDeployer)]"

definition role_of_text :: "string \<Rightarrow> role" where
  "role_of_text t = (case map_of role_names t of Some r \<Rightarrow> r | None \<Rightarrow> RoleText t)"

definition deploy_perms :: "permission list" where
  "deploy_perms = [PermDeployCreate, PermDeployRead, PermDeployPromote, PermDeployRollback, PermDeployManage]"

definition flag_perms :: "permission list" where
  "flag_perms = [PermFlagCreate, PermFlagRead, PermFlagUpdate, PermFlagToggle]"

definition release_perms :: "permission list" where
  "release_perms = [PermReleaseCreate, PermReleaseRead, PermReleasePromote]"

fun role_permissions :: "role \<Rightarrow> permission list option" where
  "role_permissions RoleOwner = Some (deploy_perms @ flag_perms @ [PermFlagArchive] @ release_perms @
     [PermProjectManage, PermOrgManage, PermAuditRead, PermAPIKeyManage, PermSettingsRead,
      PermSettingsWrite, PermGroupManage, PermStatusWrite])"
| "role_permissions RoleAdmin = Some (deploy_perms @ flag_perms @ [PermFlagArchive] @ release_perms @
     [PermProjectManage, PermAuditRead, PermAPIKeyManage, PermSettingsRead, PermSettingsWrite,
      PermGroupManage, PermStatusWrite])"
| "role_permissions RoleDeveloper = Some (deploy_perms @ flag_perms @ release_perms @
     [PermSettingsRead, PermStatusWrite])"
| "role_permissions RoleViewer = Some [PermDeployRead, PermFlagRead, PermReleaseRead, PermSettingsRead]"
| "role_permissions RoleOrgOwner = Some (deploy_perms @ flag_perms @ [PermFlagArchive] @ release_perms @
     [PermProjectManage, PermOrgManage, PermAuditRead, PermAPIKeyManage, PermUserManage, PermEnvDeploy,
      PermBillingManage, PermSettingsRead, PermSettingsWrite, PermGroupManage, PermStatusWrite])"
| "role_permissions RoleOrgAdmin = Some (deploy_perms @ flag_perms @ [PermFlagArchive] @ release_perms @
     [PermProjectManage, PermAuditRead, PermAPIKeyManage, PermUserManage, PermEnvDeploy,
      PermBillingManage, PermSettingsRead, PermSettingsWrite, PermGroupManage, PermStatusWrite])"
| "role_permissions RoleProjectAdmin = Some (deploy_perms @ flag_perms @ [PermFlagArchive] @ release_perms @
     [PermProjectManage, PermAuditRead, PermAPIKeyManage, PermUserManage, PermEnvDeploy, PermStatusWrite])"
| "role_permissions RoleProjectEditor = Some (deploy_perms @ flag_perms @ release_perms @
     [PermEnvDeploy, PermStatusWrite])"
| "role_permissions RoleProjectViewer = Some [PermDeployRead, PermFlagRead, PermReleaseRead]"
| "role_permissions RoleEnvDeployer = Some [PermDeployCreate, PermDeployRead, PermEnvDeploy, PermStatusWrite]"
| "role_permissions (RoleText _) = None"

definition has_permission :: "role \<Rightarrow> permission \<Rightarrow> bool" where
  "has_permission r p = (case role_permissions r of None \<Rightarrow> False | Some ps \<Rightarrow> list_ex (\<lambda>q. q = p) ps)"

definition get_permissions :: "role \<Rightarrow> permission list option" where
  "get_permissions r = role_permissions r"

section \<open>Scopes of API keys\<close>

fun permission_satisfying_scopes :: "permission \<Rightarrow> string list" where
  "permission_satisfying_scopes PermDeployCreate = [''deploys:write'']"
| "permission_satisfying_scopes PermDeployRead = [''deploys:read'', ''deploys:write'']"
| "permission_satisfying_scopes PermDeployPromote = [''deploys:write'']"
| "permission_satisfying_scopes PermDeployRollback = [''deploys:write'']"
| "permission_satisfying_scopes PermDeployManage = [''deploys:write'']"
| "permission_satisfying_scopes PermFlagCreate = [''flags:write'']"
| "permission_satisfying_scopes PermFlagRead = [''flags:read'', ''flags:write'']"
| "permission_satisfying_scopes PermFlagUpdate = [''flags:write'']"
| "permission_satisfying_scopes PermFlagToggle = [''flags:write'']"
| "permission_satisfying_scopes PermFlagArchive = [''flags:write'']"
| "permission_satisfying_scopes PermReleaseCreate = [''releases:write'']"
| "permission_satisfying_scopes PermReleaseRead = [''releases:read'', ''releases:write'']"
| "permission_satisfying_scopes PermReleasePromote = [''releases:write'']"
| "permission_satisfying_scopes PermStatusWrite = [''status:write'']"
| "permission_satisfying_scopes PermAPIKeyManage = [''apikey:manage'']"
| "permission_satisfying_scopes PermSettingsRead = [''deploys:read'', ''flags:read'']"
| "permission_satisfying_scopes PermSettingsWrite = [''deploys:write'', ''flags:write'']"
| "permission_satisfying_scopes _ = []"

definition scope_satisfies :: "string list \<Rightarrow> permission \<Rightarrow> bool" where
  "scope_satisfies scopes p =
     (if list_ex (\<lambda>s. s = ''admin'') scopes then True
      else list_ex (\<lambda>want. list_ex (\<lambda>got. got = want) scopes) (permission_satisfying_scopes p))"

text \<open>The loop stops at \<open>admin\<close>, and otherwise notes whether it saw a writing or a reading scope.\<close>

definition write_scopes :: "string list" where
  "write_scopes = [''flag:toggle'', ''flags:toggle'', ''flag:create'', ''flags:create'',
     ''flag:update'', ''flags:update'', ''flag:write'', ''flags:write'']"

fun scopes_to_role_from :: "bool \<Rightarrow> bool \<Rightarrow> string list \<Rightarrow> role option" where
  "scopes_to_role_from wr rd [] = (if wr then Some RoleDeveloper else if rd then Some RoleViewer else None)"
| "scopes_to_role_from wr rd (s # ss) =
     (if s = ''admin'' then Some RoleOwner
      else if s \<in> set write_scopes then scopes_to_role_from True rd ss
      else if s = ''flag:read'' \<or> s = ''flags:read'' then scopes_to_role_from wr True ss
      else scopes_to_role_from wr rd ss)"

definition api_key_scopes_to_role :: "string list \<Rightarrow> role option" where
  "api_key_scopes_to_role scopes = scopes_to_role_from False False scopes"

section \<open>Requests\<close>

text \<open>What the authentication leaves in the context of a request.\<close>

record request =
  rq_auth_method :: "string option"
  rq_api_key_scopes :: "string list option"
  rq_role :: "role option"
  rq_user_id :: "uuid option"
  rq_org_id :: "uuid option"

text \<open>A handler aborts the request with a status, or lets it through.\<close>

datatype http_abort = HttpAbort int string

definition require_permission :: "permission \<Rightarrow> request \<Rightarrow> http_abort + unit" where
  "require_permission p rq =
     (if rq_auth_method rq = Some ''api_key'' then
        (if scope_satisfies (case rq_api_key_scopes rq of None \<Rightarrow> [] | Some ss \<Rightarrow> ss) p then Inr ()
         else Inl (HttpAbort 403 ''insufficient permissions''))
      else case rq_role rq of
        None \<Rightarrow> Inl (HttpAbort 403 ''role not determined'')
      | Some r \<Rightarrow> if has_permission r p then Inr () else Inl (HttpAbort 403 ''insufficient permissions''))"

section \<open>Organizations and their members\<close>

datatype org_role = OrgRoleOwner | OrgRoleAdmin | OrgRoleMember | OrgRoleViewer | OrgRoleText string

fun org_role_text :: "org_role \<Rightarrow> string" where
  "org_role_text OrgRoleOwner = ''owner''"
| "org_role_text OrgRoleAdmin = ''admin''"
| "org_role_text OrgRoleMember = ''member''"
| "org_role_text OrgRoleViewer = ''viewer''"
| "org_role_text (OrgRoleText t) = t"

definition valid_org_role :: "org_role \<Rightarrow> bool" where
  "valid_org_role r = (r \<in> {OrgRoleOwner, OrgRoleAdmin, OrgRoleMember, OrgRoleViewer})"

record org_member =
  om_id :: uuid
  om_org_id :: uuid
  om_user_id :: uuid
  om_role :: org_role
  om_invited_by :: uuid
  om_joined_at :: time
  om_created_at :: time
  om_updated_at :: time

record user =
  us_id :: uuid
  us_email :: string
  us_name :: string
  us_avatar_url :: string

datatype access_error =
    AccessNotFound
  | AccessConflict
  | AccessDriver string
  | ErrUserNotFound
  | ErrAlreadyMember
  | ErrInvalidRole
  | ErrLastOwner
  | ErrOwnerAssign
  | ErrMemberNotFound
  | AccessAbort http_abort
  | AccessWrap string access_error

text \<open>\<open>org_members\<close> has the primary key \<open>(org_id, user_id)\<close>; organizations are ids with slugs.\<close>

record access_world = env +
  organizations :: "(uuid \<times> string) list"
  org_members :: "org_member list"
  users :: "user list"

type_synonym ('x, 'a) access_prog = "('x access_world_scheme, access_error, 'a) prog"

definition in_org :: "uuid \<Rightarrow> uuid \<Rightarrow> org_member \<Rightarrow> bool" where
  "in_org org user m = (om_org_id m = org \<and> om_user_id m = user)"

definition get_org_id_by_slug :: "string \<Rightarrow> ('x, uuid) access_prog" where
  "get_org_id_by_slug slug =
     andThen (ext_call (AccessDriver ''postgres.GetOrgIDBySlug'')) (\<lambda>_.
     andThen get_state (\<lambda>w.
       case find (\<lambda>(_, s). s = slug) (organizations w) of
         None \<Rightarrow> fail AccessNotFound | Some (i, _) \<Rightarrow> ret i))"

definition get_org_member :: "uuid \<Rightarrow> uuid \<Rightarrow> ('x, org_member) access_prog" where
  "get_org_member org user =
     andThen (ext_call (AccessDriver ''postgres.GetOrgMember'')) (\<lambda>_.
     andThen get_state (\<lambda>w.
       case find (in_org org user) (org_members w) of None \<Rightarrow> fail AccessNotFound | Some m \<Rightarrow> ret m))"

definition get_org_member_role :: "uuid \<Rightarrow> uuid \<Rightarrow> ('x, string) access_prog" where
  "get_org_member_role org user =
     andThen (ext_call (AccessDriver ''postgres.GetOrgMemberRole'')) (\<lambda>_.
     andThen get_state (\<lambda>w.
       case find (in_org org user) (org_members w) of
         None \<Rightarrow> fail AccessNotFound | Some m \<Rightarrow> ret (org_role_text (om_role m))))"

definition role_rank :: "org_role \<Rightarrow> nat" where
  "role_rank r = (if r = OrgRoleOwner then 1 else if r = OrgRoleAdmin then 2
     else if r = OrgRoleMember then 3 else if r = OrgRoleViewer then 4 else 5)"

text \<open>The order of equal ranks is open in SQL; the table order stands for it.\<close>

definition get_user_default_org_role :: "uuid \<Rightarrow> ('x, uuid \<times> string) access_prog" where
  "get_user_default_org_role user =
     andThen (ext_call (AccessDriver ''postgres.GetUserDefaultOrgRole'')) (\<lambda>_.
     andThen get_state (\<lambda>w.
       case sort_key (role_rank \<circ> om_role) (filter (\<lambda>m. om_user_id m = user) (org_members w)) of
         [] \<Rightarrow> fail AccessNotFound
       | m # _ \<Rightarrow> ret (om_org_id m, org_role_text (om_role m))))"

text \<open>\<open>ResolveOrgRole\<close>: the role of the request, from the key or from the membership.\<close>

definition resolve_org_role :: "string \<Rightarrow> request \<Rightarrow> ('x, request) access_prog" where
  "resolve_org_role slug rq =
     (if rq_auth_method rq = Some ''api_key'' then
        ret (if rq_role rq = None then
               (case rq_api_key_scopes rq of
                  None \<Rightarrow> rq
                | Some ss \<Rightarrow> (case api_key_scopes_to_role ss of
                     None \<Rightarrow> rq | Some r \<Rightarrow> rq\<lparr>rq_role := Some r\<rparr>))
             else rq)
      else case rq_user_id rq of
        None \<Rightarrow> ret rq
      | Some user \<Rightarrow>
          if slug \<noteq> '''' then
            andThen (attempt (get_org_id_by_slug slug) :: ('x, access_error + uuid) access_prog) (\<lambda>g.
            case g of
              Inl _ \<Rightarrow> fail (AccessAbort (HttpAbort 404 ''organization not found''))
            | Inr org \<Rightarrow>
                andThen (attempt (get_org_member_role org user) :: ('x, access_error + string) access_prog) (\<lambda>r.
                  ret (case r of
                         Inl _ \<Rightarrow> rq
                       | Inr t \<Rightarrow> rq\<lparr>rq_role := Some (role_of_text t), rq_org_id := Some org\<rparr>)))
          else
            andThen (attempt (get_user_default_org_role user)
                :: ('x, access_error + (uuid \<times> string)) access_prog) (\<lambda>r.
              ret (case r of
                     Inl _ \<Rightarrow> rq
                   | Inr (org, t) \<Rightarrow> rq\<lparr>rq_role := Some (role_of_text t), rq_org_id := Some org\<rparr>)))"

section \<open>The member service\<close>

definition get_user_by_email :: "string \<Rightarrow> ('x, user) access_prog" where
  "get_user_by_email email =
     andThen (ext_call (AccessDriver ''postgres.GetUserByEmail'')) (\<lambda>_.
     andThen get_state (\<lambda>w.
       case find (\<lambda>u. us_email u = email) (users w) of None \<Rightarrow> fail AccessNotFound | Some u \<Rightarrow> ret u))"

definition insert_org_member :: "org_member \<Rightarrow> ('x, org_member) access_prog" where
  "insert_org_member m =
     andThen (if om_id m = uuid_nil then uuid_new else ret (om_id m)) (\<lambda>i.
     andThen time_now (\<lambda>now.
       let m' = m\<lparr>om_id := i, om_created_at := now, om_updated_at := now,
                  om_joined_at := (if om_joined_at m = 0 then now else om_joined_at m)\<rparr>
       in andThen (ext_call (AccessDriver ''postgres.AddOrgMember'')) (\<lambda>_.
          andThen get_state (\<lambda>w.
            if find (in_org (om_org_id m) (om_user_id m)) (org_members w) \<noteq> None then fail AccessConflict
            else andThen (modify (\<lambda>w. w\<lparr>org_members := org_members w @ [m']\<rparr>)) (\<lambda>_. ret m')))))"

definition write_org_member_role :: "uuid \<Rightarrow> uuid \<Rightarrow> org_role \<Rightarrow> ('x, unit) access_prog" where
  "write_org_member_role org user r =
     andThen time_now (\<lambda>now.
     andThen (ext_call (AccessDriver ''postgres.UpdateOrgMemberRole'')) (\<lambda>_.
     andThen get_state (\<lambda>w.
       if find (in_org org user) (org_members w) = None then fail AccessNotFound
       else modify (\<lambda>w. w\<lparr>org_members := map (\<lambda>m. if in_org org user m
              then m\<lparr>om_role := r, om_updated_at := now\<rparr> else m) (org_members w)\<rparr>))))"

definition delete_org_member :: "uuid \<Rightarrow> uuid \<Rightarrow> ('x, unit) access_prog" where
  "delete_org_member org user =
     andThen (ext_call (AccessDriver ''postgres.RemoveOrgMember'')) (\<lambda>_.
     andThen get_state (\<lambda>w.
       if find (in_org org user) (org_members w) = None then fail AccessNotFound
       else modify (\<lambda>w. w\<lparr>org_members := filter (\<lambda>m. \<not> in_org org user m) (org_members w)\<rparr>)))"

definition owners_of :: "uuid \<Rightarrow> org_member list \<Rightarrow> org_member list" where
  "owners_of org ms = filter (\<lambda>m. om_org_id m = org \<and> om_role m = OrgRoleOwner) ms"

definition count_org_owners :: "uuid \<Rightarrow> ('x, nat) access_prog" where
  "count_org_owners org =
     andThen (ext_call (AccessDriver ''postgres.CountOrgOwners'')) (\<lambda>_.
     andThen get_state (\<lambda>w. ret (length (owners_of org (org_members w)))))"

definition add_org_member :: "uuid \<Rightarrow> string \<Rightarrow> org_role \<Rightarrow> uuid \<Rightarrow> ('x, org_member \<times> user) access_prog" where
  "add_org_member org email r added_by =
     (if \<not> valid_org_role r then fail ErrInvalidRole
      else andThen (wrapped (\<lambda>_. ErrUserNotFound) (get_user_by_email email)) (\<lambda>u.
           andThen (wrapped (\<lambda>e. if e = AccessConflict then ErrAlreadyMember else AccessWrap ''adding org member'' e)
             (insert_org_member \<lparr>om_id = uuid_nil, om_org_id = org, om_user_id = us_id u, om_role = r,
                om_invited_by = added_by, om_joined_at = 0, om_created_at = 0, om_updated_at = 0\<rparr>)) (\<lambda>m.
             ret (m, u))))"

text \<open>The guard both writes share: the last owner stays.\<close>

definition guard_last_owner :: "uuid \<Rightarrow> uuid \<Rightarrow> ('x, unit) access_prog" where
  "guard_last_owner org user =
     andThen (wrapped (\<lambda>_. ErrMemberNotFound) (get_org_member org user)) (\<lambda>m.
       if om_role m = OrgRoleOwner then
         andThen (wrapped (AccessWrap ''counting owners'') (count_org_owners org)) (\<lambda>n.
           if n \<le> 1 then fail ErrLastOwner else ret ())
       else ret ())"

definition update_org_member_role :: "uuid \<Rightarrow> uuid \<Rightarrow> org_role \<Rightarrow> ('x, unit) access_prog" where
  "update_org_member_role org user r =
     (if \<not> valid_org_role r then fail ErrInvalidRole
      else if r = OrgRoleOwner then fail ErrOwnerAssign
      else andThen (guard_last_owner org user) (\<lambda>_.
           wrapped (AccessWrap ''updating org member role'') (write_org_member_role org user r)))"

definition remove_org_member :: "uuid \<Rightarrow> uuid \<Rightarrow> ('x, unit) access_prog" where
  "remove_org_member org user =
     andThen (guard_last_owner org user) (\<lambda>_.
       wrapped (AccessWrap ''removing org member'') (delete_org_member org user))"

section \<open>An organization keeps an owner\<close>

definition members_ok :: "org_member list \<Rightarrow> bool" where
  "members_ok ms \<longleftrightarrow> distinct (map (\<lambda>m. (om_org_id m, om_user_id m)) ms)"

definition owned :: "org_member list \<Rightarrow> org_member list \<Rightarrow> bool" where
  "owned ms ms' \<longleftrightarrow> (members_ok ms \<longrightarrow> members_ok ms') \<and>
     (\<forall>org. members_ok ms \<and> owners_of org ms \<noteq> [] \<longrightarrow> owners_of org ms' \<noteq> [])"

lemma owned_refl: "owned ms ms"
  by (simp add: owned_def)

lemma owned_trans: "owned a b \<Longrightarrow> owned b c \<Longrightarrow> owned a c"
  by (auto simp: owned_def)

lemma guard_cases:
  assumes "guard_last_owner org user s = (r, t)"
  shows "org_members t = org_members s \<and>
    (r = Inr () \<longrightarrow> (\<exists>m. find (in_org org user) (org_members s) = Some m \<and>
       (om_role m = OrgRoleOwner \<longrightarrow> length (owners_of org (org_members s)) > 1)))"
  using assms
  by (auto simp: guard_last_owner_def get_org_member_def count_org_owners_def prog_defs
      split: if_splits option.splits)

lemma other_owner:
  assumes "members_ok ms" and "find (in_org org user) ms = Some m"
    and "om_role m = OrgRoleOwner \<longrightarrow> length (owners_of org ms) > 1" and "owners_of o' ms \<noteq> []"
  shows "\<exists>k \<in> set ms. om_org_id k = o' \<and> om_role k = OrgRoleOwner \<and> \<not> in_org org user k"
proof (cases "\<exists>k \<in> set (owners_of o' ms). \<not> in_org org user k")
  case True
  then show ?thesis by (auto simp: owners_of_def)
next
  case False
  have m: "m \<in> set ms" "in_org org user m" using assms(2) by (auto simp: find_Some_iff)
  have unique: "k = m" if "k \<in> set ms" "in_org org user k" for k
    using assms(1) that m by (auto simp: members_ok_def in_org_def distinct_map inj_on_def)
  from False unique have all: "\<forall>k \<in> set (owners_of o' ms). k = m" by (auto simp: owners_of_def)
  with assms(4) have own: "m \<in> set (owners_of o' ms)" by (cases "owners_of o' ms") auto
  then have "om_role m = OrgRoleOwner" "o' = org" using m by (auto simp: owners_of_def in_org_def)
  moreover have "distinct (owners_of o' ms)"
    using assms(1) by (simp add: owners_of_def members_ok_def distinct_map)
  then have "length (owners_of o' ms) \<le> 1"
    using all by (cases "owners_of o' ms"; cases "tl (owners_of o' ms)") auto
  ultimately show ?thesis using assms(3) by simp
qed

lemma members_ok_filter: "members_ok ms \<Longrightarrow> members_ok (filter P ms)"
  by (simp add: members_ok_def distinct_map_filter)

lemma members_ok_role: "members_ok (map (\<lambda>m. if P m then m\<lparr>om_role := r, om_updated_at := n\<rparr> else m) ms) = members_ok ms"
proof -
  have "map ((\<lambda>m. (om_org_id m, om_user_id m)) \<circ> (\<lambda>m. if P m then m\<lparr>om_role := r, om_updated_at := n\<rparr> else m)) ms =
      map (\<lambda>m. (om_org_id m, om_user_id m)) ms" by (rule map_cong) auto
  then show ?thesis by (simp only: members_ok_def map_map)
qed

lemma update_owned: "owned (org_members s) (org_members (snd (update_org_member_role org user r s)))"
proof (cases "\<not> valid_org_role r \<or> r = OrgRoleOwner")
  case True
  then show ?thesis by (auto simp: update_org_member_role_def fail_def owned_refl)
next
  case False
  obtain q t where g: "guard_last_owner org user s = (q, t)" by (cases "guard_last_owner org user s")
  note gc = guard_cases[OF g]
  show ?thesis
  proof (cases q)
    case (Inl e)
    with False g gc show ?thesis by (simp add: update_org_member_role_def andThen_def owned_refl)
  next
    case (Inr x)
    with gc obtain m where m: "find (in_org org user) (org_members s) = Some m"
      "om_role m = OrgRoleOwner \<longrightarrow> length (owners_of org (org_members s)) > 1" by auto
    have "org_members (snd (write_org_member_role org user r t)) = org_members s \<or>
        (\<exists>n. org_members (snd (write_org_member_role org user r t)) =
          map (\<lambda>m. if in_org org user m then m\<lparr>om_role := r, om_updated_at := n\<rparr> else m) (org_members s))"
      using gc by (auto simp: write_org_member_role_def prog_defs)
    moreover have "owned (org_members s) (map (\<lambda>m. if in_org org user m then m\<lparr>om_role := r, om_updated_at := n\<rparr> else m)
        (org_members s))" for n
      using other_owner[OF _ m] by (force simp: owned_def members_ok_role owners_of_def filter_empty_conv)
    moreover have "snd (update_org_member_role org user r s) = snd (write_org_member_role org user r t)"
      using False g Inr by (cases "write_org_member_role org user r t")
        (auto simp: update_org_member_role_def andThen_def wrapped_def split: sum.splits)
    ultimately show ?thesis by (auto simp: owned_refl)
  qed
qed

lemma remove_owned: "owned (org_members s) (org_members (snd (remove_org_member org user s)))"
proof -
  obtain q t where g: "guard_last_owner org user s = (q, t)" by (cases "guard_last_owner org user s")
  note gc = guard_cases[OF g]
  show ?thesis
  proof (cases q)
    case (Inl e)
    with g gc show ?thesis by (simp add: remove_org_member_def andThen_def owned_refl)
  next
    case (Inr x)
    with gc obtain m where m: "find (in_org org user) (org_members s) = Some m"
      "om_role m = OrgRoleOwner \<longrightarrow> length (owners_of org (org_members s)) > 1" by auto
    have "org_members (snd (delete_org_member org user t)) = org_members s \<or>
        org_members (snd (delete_org_member org user t)) = filter (\<lambda>m. \<not> in_org org user m) (org_members s)"
      using gc by (auto simp: delete_org_member_def prog_defs)
    moreover have "owned (org_members s) (filter (\<lambda>m. \<not> in_org org user m) (org_members s))"
      using other_owner[OF _ m] by (auto simp: owned_def members_ok_filter owners_of_def filter_empty_conv)
    moreover have "snd (remove_org_member org user s) = snd (delete_org_member org user t)"
      using g Inr by (cases "delete_org_member org user t")
        (auto simp: remove_org_member_def andThen_def wrapped_def split: sum.splits)
    ultimately show ?thesis by (auto simp: owned_refl)
  qed
qed

lemma add_owned: "owned (org_members s) (org_members (snd (add_org_member org email r by_user s)))"
proof -
  have "org_members (snd (add_org_member org email r by_user s)) = org_members s \<or>
      (\<exists>m. org_members (snd (add_org_member org email r by_user s)) = org_members s @ [m] \<and>
         find (in_org (om_org_id m) (om_user_id m)) (org_members s) = None)"
    by (auto simp: add_org_member_def get_user_by_email_def insert_org_member_def prog_defs Let_def
        split: option.splits)
  then show ?thesis
    by (auto simp: owned_def members_ok_def owners_of_def in_org_def find_None_iff filter_empty_conv) metis+
qed

datatype member_op =
    OpAddMember uuid string org_role uuid
  | OpUpdateRole uuid uuid org_role
  | OpRemoveMember uuid uuid

fun exec_member_op :: "member_op \<Rightarrow> 'x access_world_scheme \<Rightarrow> 'x access_world_scheme" where
  "exec_member_op (OpAddMember org email r u) s = snd (add_org_member org email r u s)"
| "exec_member_op (OpUpdateRole org user r) s = snd (update_org_member_role org user r s)"
| "exec_member_op (OpRemoveMember org user) s = snd (remove_org_member org user s)"

text \<open>
  C36. Whatever sequence of additions, role changes and removals the service performs, and
  whatever calls fail in between, no user is a member of an organization twice and an
  organization that has an owner still has one.
\<close>

theorem owners_never_lost:
  assumes "members_ok (org_members s)" and "owners_of org (org_members s) \<noteq> []"
  shows "members_ok (org_members (fold exec_member_op ops s)) \<and>
    owners_of org (org_members (fold exec_member_op ops s)) \<noteq> []"
proof -
  have step: "owned (org_members s) (org_members (exec_member_op opr s))" for opr s
    by (cases opr) (simp_all add: add_owned update_owned remove_owned)
  have "owned (org_members s) (org_members (fold exec_member_op ops s))"
  proof (induction ops arbitrary: s)
    case (Cons opr ops)
    from owned_trans[OF step Cons.IH[of "exec_member_op opr s"]] show ?case by simp
  qed (simp add: owned_refl)
  with assms show ?thesis by (auto simp: owned_def)
qed

definition sample_member :: "uuid \<Rightarrow> org_role \<Rightarrow> org_member" where
  "sample_member u r = \<lparr>om_id = u, om_org_id = 1, om_user_id = u, om_role = r, om_invited_by = u,
     om_joined_at = 1, om_created_at = 1, om_updated_at = 1\<rparr>"

definition sample_access_world :: "org_member list \<Rightarrow> access_world" where
  "sample_access_world ms = \<lparr>fault = (\<lambda>_. False), calls = 0, clock = (\<lambda>_. 5), reads = 0,
     fresh = (\<lambda>n. word_of_nat (100 + n)), minted = 0, ctxdone = (\<lambda>_. False), polls = 0,
     organizations = [(1, ''acme'')], org_members = ms, users = []\<rparr>"

theorem owners_never_lost_witness:
  "let s = sample_access_world [sample_member 7 OrgRoleOwner, sample_member 8 OrgRoleOwner]
   in owners_of 1 (org_members (fold exec_member_op [OpRemoveMember 1 7, OpRemoveMember 1 8] s)) \<noteq> []"
  using owners_never_lost[of "sample_access_world [sample_member 7 OrgRoleOwner, sample_member 8 OrgRoleOwner]" 1
      "[OpRemoveMember 1 7, OpRemoveMember 1 8]"]
  by (simp add: members_ok_def owners_of_def sample_access_world_def sample_member_def)

text \<open>
  The guard and the write are two statements without a transaction: when two requests
  remove the two owners of an organization and both pass the guard before either writes,
  both removals succeed and the organization has no owner.
\<close>

theorem concurrent_removals_orphan:
  assumes "\<forall>n. \<not> fault s n" and "members_ok (org_members s)"
    and "find (in_org org a) (org_members s) = Some ma" and "find (in_org org b) (org_members s) = Some mb"
    and "a \<noteq> b" and "set (owners_of org (org_members s)) = {ma, mb}"
  shows "\<exists>s1 s2 s3 s4. guard_last_owner org a s = (Inr (), s1) \<and> guard_last_owner org b s1 = (Inr (), s2) \<and>
    delete_org_member org a s2 = (Inr (), s3) \<and> delete_org_member org b s3 = (Inr (), s4) \<and>
    owners_of org (org_members s4) = []"
proof -
  let ?ms = "org_members s"
  have m: "ma \<in> set ?ms" "in_org org a ma" "mb \<in> set ?ms" "in_org org b mb"
    using assms(3,4) by (auto simp: find_Some_iff)
  have "om_role ma = OrgRoleOwner" "om_role mb = OrgRoleOwner"
    using assms(6) by (auto simp: owners_of_def)
  moreover have "ma \<noteq> mb" using m assms(5) by (auto simp: in_org_def)
  moreover have "distinct (owners_of org ?ms)" using assms(2) by (simp add: owners_of_def members_ok_def distinct_map)
  then have "length (owners_of org ?ms) = 2" using assms(6) \<open>ma \<noteq> mb\<close> by (metis card_2_iff distinct_card)
  ultimately have "guard_last_owner org a s = (Inr (), s\<lparr>calls := Suc (Suc (calls s))\<rparr>)"
    "guard_last_owner org b (s\<lparr>calls := Suc (Suc (calls s))\<rparr>) = (Inr (), s\<lparr>calls := Suc (Suc (Suc (Suc (calls s))))\<rparr>)"
    using assms(1,3,4)
    by (simp_all add: guard_last_owner_def get_org_member_def count_org_owners_def prog_defs)
  moreover have "find (in_org org b) (filter (\<lambda>m. \<not> in_org org a m) ?ms) \<noteq> None"
    using m assms(5) by (auto simp: find_None_iff in_org_def)
  moreover have "owners_of org (filter (\<lambda>m. \<not> in_org org b m) (filter (\<lambda>m. \<not> in_org org a m) ?ms)) = []"
    using assms(6) m by (auto simp: owners_of_def filter_empty_conv)
  ultimately show ?thesis using assms(1,3) by (auto simp: delete_org_member_def prog_defs)
qed

theorem concurrent_removals_orphan_witness:
  "\<exists>s1 s2 s3 s4. guard_last_owner 1 7 (sample_access_world [sample_member 7 OrgRoleOwner, sample_member 8 OrgRoleOwner]) = (Inr (), s1) \<and>
    guard_last_owner 1 8 s1 = (Inr (), s2) \<and> delete_org_member 1 7 s2 = (Inr (), s3) \<and>
    delete_org_member 1 8 s3 = (Inr (), s4) \<and> owners_of 1 (org_members s4) = []"
  by (rule concurrent_removals_orphan[where ma = "sample_member 7 OrgRoleOwner" and mb = "sample_member 8 OrgRoleOwner"])
    (simp_all add: sample_access_world_def members_ok_def sample_member_def in_org_def owners_of_def)

section \<open>What a session may do\<close>

text \<open>
  A session request on an organization its user belongs to is let through exactly for
  the permissions of the stored role. The role \<open>member\<close>, which the database and the member
  service accept, is no key of the permission table: such a user is refused everything.
\<close>

theorem session_permissions:
  assumes "\<forall>n. \<not> fault s n" and "rq_auth_method rq = Some ''jwt''" and "rq_user_id rq = Some user"
    and "slug \<noteq> ''''" and "find (\<lambda>(_, t). t = slug) (organizations s) = Some (org, slug)"
    and "find (in_org org user) (org_members s) = Some m"
  shows "\<exists>rq' t. resolve_org_role slug rq s = (Inr rq', t) \<and>
    (\<forall>p. require_permission p rq' = Inr () \<longleftrightarrow> has_permission (role_of_text (org_role_text (om_role m))) p) \<and>
    (om_role m = OrgRoleMember \<longrightarrow> (\<forall>p. require_permission p rq' \<noteq> Inr ()))"
proof -
  let ?rq = "rq\<lparr>rq_role := Some (role_of_text (org_role_text (om_role m))), rq_org_id := Some org\<rparr>"
  have "resolve_org_role slug rq s = (Inr ?rq, s\<lparr>calls := Suc (Suc (calls s))\<rparr>)"
    using assms by (simp add: resolve_org_role_def get_org_id_by_slug_def get_org_member_role_def prog_defs)
  moreover have allowed: "require_permission p ?rq = Inr () \<longleftrightarrow>
      has_permission (role_of_text (org_role_text (om_role m))) p" for p
    using assms(2) by (simp add: require_permission_def)
  moreover have "\<not> has_permission (role_of_text ''member'') p" for p
    by (simp add: role_of_text_def role_names_def has_permission_def)
  ultimately show ?thesis by auto
qed

theorem session_permissions_witness:
  "\<exists>rq' t. resolve_org_role ''acme'' \<lparr>rq_auth_method = Some ''jwt'', rq_api_key_scopes = None, rq_role = None,
       rq_user_id = Some 7, rq_org_id = None\<rparr> (sample_access_world [sample_member 7 OrgRoleMember]) = (Inr rq', t) \<and>
     require_permission PermFlagRead rq' \<noteq> Inr ()"
  using session_permissions[of "sample_access_world [sample_member 7 OrgRoleMember]"
      "\<lparr>rq_auth_method = Some ''jwt'', rq_api_key_scopes = None, rq_role = None, rq_user_id = Some 7, rq_org_id = None\<rparr>"
      7 "''acme''" 1 "sample_member 7 OrgRoleMember"]
  by (auto simp: sample_access_world_def sample_member_def in_org_def)

end
