(* ===== verification/ApiKeys.thy ===== *)
theory ApiKeys
  imports Access
begin

text \<open>
  API keys (\<open>internal/models/api_key.go\<close>, \<open>internal/auth/apikeys.go\<close>,
  \<open>postgres/apikeys.go\<close>): generation, hashing, validation, revocation and rotation. Argon2 is
  a parameter, \<open>argon2 key salt\<close>; the random source is a stream of byte strings.
\<close>

section \<open>Hexadecimal text\<close>

definition hex_digits :: string where
  "hex_digits = ''0123456789abcdef''"

definition hex_encode :: "string \<Rightarrow> string" where
  "hex_encode s = concat (map (\<lambda>c. [hex_digits ! (of_char c div 16), hex_digits ! (of_char c mod 16)]) s)"

text \<open>\<open>hex.DecodeString\<close> reads digits of either case and refuses an odd length.\<close>

definition hex_value :: "char \<Rightarrow> nat option" where
  "hex_value c =
     (let n = of_char c :: nat
      in if 48 \<le> n \<and> n \<le> 57 then Some (n - 48)
         else if 97 \<le> n \<and> n \<le> 102 then Some (n - 87)
         else if 65 \<le> n \<and> n \<le> 70 then Some (n - 55) else None)"

fun hex_decode :: "string \<Rightarrow> string option" where
  "hex_decode [] = Some []"
| "hex_decode [c] = None"
| "hex_decode (c # d # cs) =
     (case (hex_value c, hex_value d, hex_decode cs) of
        (Some a, Some b, Some rest) \<Rightarrow> Some (char_of (16 * a + b) # rest)
      | _ \<Rightarrow> None)"

section \<open>The model\<close>

definition api_key_scopes :: "string list" where
  "api_key_scopes = [''flags:read'', ''flags:write'', ''deploys:read'', ''deploys:write'',
     ''releases:read'', ''releases:write'', ''status:write'', ''apikey:manage'', ''admin'']"

record api_key =
  ak_id :: uuid
  ak_org_id :: uuid
  ak_project_id :: "uuid option"
  ak_application_id :: "uuid option"
  ak_environment_ids :: "uuid list"
  ak_name :: string
  ak_key_prefix :: string
  ak_key_hash :: string
  ak_scopes :: "string list"
  ak_allowed_cidrs :: "string list"
  ak_expires_at :: "time option"
  ak_last_used_at :: "time option"
  ak_created_by :: uuid
  ak_created_at :: time
  ak_revoked_at :: "time option"

datatype key_invalid = KeyOrgRequired | KeyNameRequired | KeyScopeRequired | KeyScopeInvalid string

definition valid_scope :: "string \<Rightarrow> bool" where
  "valid_scope s = (s \<in> set api_key_scopes)"

definition validate_api_key :: "api_key \<Rightarrow> key_invalid option" where
  "validate_api_key k =
     (if ak_org_id k = uuid_nil then Some KeyOrgRequired
      else if ak_name k = '''' then Some KeyNameRequired
      else if ak_scopes k = [] then Some KeyScopeRequired
      else map_option KeyScopeInvalid (find (\<lambda>s. \<not> valid_scope s) (ak_scopes k)))"

definition is_revoked :: "api_key \<Rightarrow> bool" where
  "is_revoked k = (ak_revoked_at k \<noteq> None)"

definition expired_at :: "time \<Rightarrow> api_key \<Rightarrow> bool" where
  "expired_at now k = (case ak_expires_at k of None \<Rightarrow> False | Some e \<Rightarrow> now > e)"

definition has_scope :: "api_key \<Rightarrow> string \<Rightarrow> bool" where
  "has_scope k scope = list_ex (\<lambda>s. s = ''admin'' \<or> s = scope) (ak_scopes k)"

section \<open>The store\<close>

datatype key_error =
    KeyNotFound
  | KeyDriver string
  | KeyInvalid key_invalid
  | KeyFormat
  | KeyRevoked
  | KeyExpired
  | KeyWrong
  | KeyWrap string key_error

text \<open>\<open>entropy n k\<close>: the \<open>k\<close> bytes of the \<open>n\<close>-th read of the random source.\<close>

record key_world = access_world +
  api_keys :: "api_key list"
  entropy :: "nat \<Rightarrow> nat \<Rightarrow> string"
  drawn :: nat

type_synonym 'a key_prog = "(key_world, key_error, 'a) prog"

definition random_bytes :: "nat \<Rightarrow> string key_prog" where
  "random_bytes k =
     andThen (ext_call (KeyDriver ''rand'')) (\<lambda>_.
     andThen get_state (\<lambda>w.
     andThen (modify (\<lambda>w. w\<lparr>drawn := Suc (drawn w)\<rparr>)) (\<lambda>_. ret (entropy w (drawn w) k))))"

definition create_api_key :: "api_key \<Rightarrow> api_key key_prog" where
  "create_api_key k =
     andThen (if ak_id k = uuid_nil then uuid_new else ret (ak_id k)) (\<lambda>i.
     andThen (if ak_created_at k = 0 then time_now else ret (ak_created_at k)) (\<lambda>now.
       let k' = k\<lparr>ak_id := i, ak_created_at := now\<rparr>
       in andThen (ext_call (KeyDriver ''postgres.CreateAPIKey'')) (\<lambda>_.
          andThen get_state (\<lambda>w.
            if row_of ak_id i (api_keys w) \<noteq> None then fail (KeyDriver ''postgres.CreateAPIKey'')
            else andThen (modify (\<lambda>w. w\<lparr>api_keys := api_keys w @ [k']\<rparr>)) (\<lambda>_. ret k')))))"

text \<open>A project id that is the nil UUID reads back as no project.\<close>

definition scanned_key :: "api_key \<Rightarrow> api_key" where
  "scanned_key k = k\<lparr>ak_project_id := (if ak_project_id k = Some uuid_nil then None else ak_project_id k)\<rparr>"

definition get_api_key :: "uuid \<Rightarrow> api_key key_prog" where
  "get_api_key i =
     andThen (ext_call (KeyDriver ''postgres.GetAPIKey'')) (\<lambda>_.
     andThen get_state (\<lambda>w.
       case row_of ak_id i (api_keys w) of None \<Rightarrow> fail KeyNotFound | Some k \<Rightarrow> ret (scanned_key k)))"

text \<open>\<open>QueryRow\<close> keeps the first row; SQL leaves the order open, the table order stands for it.\<close>

definition live_with_prefix :: "string \<Rightarrow> api_key \<Rightarrow> bool" where
  "live_with_prefix pre k = (ak_key_prefix k = pre \<and> ak_revoked_at k = None)"

definition get_api_key_by_prefix :: "string \<Rightarrow> api_key key_prog" where
  "get_api_key_by_prefix pre =
     andThen (ext_call (KeyDriver ''postgres.GetAPIKeyByPrefix'')) (\<lambda>_.
     andThen get_state (\<lambda>w.
       case find (live_with_prefix pre) (api_keys w) of None \<Rightarrow> fail KeyNotFound | Some k \<Rightarrow> ret (scanned_key k)))"

definition update_api_key :: "api_key \<Rightarrow> unit key_prog" where
  "update_api_key k =
     andThen (ext_call (KeyDriver ''postgres.UpdateAPIKey'')) (\<lambda>_.
     andThen get_state (\<lambda>w.
       if row_of ak_id (ak_id k) (api_keys w) = None then fail KeyNotFound
       else modify (\<lambda>w. w\<lparr>api_keys := update_row ak_id (ak_id k) (\<lambda>r. r\<lparr>ak_name := ak_name k,
              ak_scopes := ak_scopes k, ak_expires_at := ak_expires_at k, ak_revoked_at := ak_revoked_at k\<rparr>)
              (api_keys w)\<rparr>)))"

definition delete_api_key :: "uuid \<Rightarrow> unit key_prog" where
  "delete_api_key i =
     andThen time_now (\<lambda>now.
     andThen (ext_call (KeyDriver ''postgres.DeleteAPIKey'')) (\<lambda>_.
     andThen get_state (\<lambda>w.
       case row_of ak_id i (api_keys w) of
         None \<Rightarrow> fail KeyNotFound
       | Some k \<Rightarrow> if ak_revoked_at k \<noteq> None then fail KeyNotFound
                   else modify (\<lambda>w. w\<lparr>api_keys := update_row ak_id i (\<lambda>r. r\<lparr>ak_revoked_at := Some now\<rparr>)
                          (api_keys w)\<rparr>))))"

definition update_last_used :: "uuid \<Rightarrow> time \<Rightarrow> unit key_prog" where
  "update_last_used i at =
     andThen (ext_call (KeyDriver ''postgres.UpdateLastUsed'')) (\<lambda>_.
       modify (\<lambda>w. w\<lparr>api_keys := update_row ak_id i (\<lambda>r. r\<lparr>ak_last_used_at := Some at\<rparr>) (api_keys w)\<rparr>))"

section \<open>The service\<close>

definition hash_text :: "(string \<Rightarrow> string \<Rightarrow> string) \<Rightarrow> string \<Rightarrow> string \<Rightarrow> string" where
  "hash_text argon2 plain salt = hex_encode salt @ ''$'' @ hex_encode (argon2 plain salt)"

definition hash_key :: "(string \<Rightarrow> string \<Rightarrow> string) \<Rightarrow> string \<Rightarrow> string key_prog" where
  "hash_key argon2 plain =
     andThen (wrapped (KeyWrap ''generating salt'') (random_bytes 16)) (\<lambda>salt. ret (hash_text argon2 plain salt))"

definition verify_key :: "(string \<Rightarrow> string \<Rightarrow> string) \<Rightarrow> string \<Rightarrow> string \<Rightarrow> bool" where
  "verify_key argon2 plain stored =
     (let salt_hex = (if CHR ''$'' \<in> set stored then takeWhile (\<lambda>c. c \<noteq> CHR ''$'') stored else []);
          hash_hex = drop 1 (dropWhile (\<lambda>c. c \<noteq> CHR ''$'') stored)
      in if salt_hex = [] \<or> hash_hex = [] then False
         else case hex_decode salt_hex of
           None \<Rightarrow> False
         | Some salt \<Rightarrow> (case hex_decode hash_hex of
             None \<Rightarrow> False
           | Some expected \<Rightarrow> argon2 plain salt = expected))"

definition generate_key ::
  "(string \<Rightarrow> string \<Rightarrow> string) \<Rightarrow> uuid \<Rightarrow> uuid option \<Rightarrow> uuid option \<Rightarrow> string \<Rightarrow> string list \<Rightarrow> uuid \<Rightarrow>
   uuid list \<Rightarrow> string list \<Rightarrow> time option \<Rightarrow> (string \<times> api_key) key_prog" where
  "generate_key argon2 org project app name scopes creator envs cidrs expires =
     andThen (wrapped (KeyWrap ''generating random key'') (random_bytes 32)) (\<lambda>raw.
       let plain = ''ds_'' @ hex_encode raw
       in andThen (wrapped (KeyWrap ''hashing key'') (hash_key argon2 plain)) (\<lambda>h.
          andThen time_now (\<lambda>now.
          andThen uuid_new (\<lambda>i.
            let k = \<lparr>ak_id = i, ak_org_id = org, ak_project_id = project, ak_application_id = app,
                     ak_environment_ids = envs, ak_name = name, ak_key_prefix = take 8 plain,
                     ak_key_hash = h, ak_scopes = scopes, ak_allowed_cidrs = cidrs, ak_expires_at = expires,
                     ak_last_used_at = None, ak_created_by = creator, ak_created_at = now, ak_revoked_at = None\<rparr>
            in case validate_api_key k of
                 Some e \<Rightarrow> fail (KeyWrap ''validation failed'' (KeyInvalid e))
               | None \<Rightarrow> andThen (wrapped (KeyWrap ''creating api key'') (create_api_key k)) (\<lambda>k'.
                           ret (plain, k'))))))"

definition is_expired :: "api_key \<Rightarrow> bool key_prog" where
  "is_expired k = (if ak_expires_at k = None then ret False else andThen time_now (\<lambda>now. ret (expired_at now k)))"

definition validate_key :: "(string \<Rightarrow> string \<Rightarrow> string) \<Rightarrow> string \<Rightarrow> api_key key_prog" where
  "validate_key argon2 plain =
     (if length plain < 8 then fail KeyFormat
      else andThen (wrapped (KeyWrap ''looking up api key'') (get_api_key_by_prefix (take 8 plain))) (\<lambda>k.
        if is_revoked k then fail KeyRevoked
        else andThen (is_expired k) (\<lambda>old.
          if old then fail KeyExpired
          else if \<not> verify_key argon2 plain (ak_key_hash k) then fail KeyWrong
          else andThen time_now (\<lambda>now.
               andThen (attempt (update_last_used (ak_id k) now) :: (key_error + unit) key_prog) (\<lambda>_. ret k)))))"

definition revoke_key :: "uuid \<Rightarrow> unit key_prog" where
  "revoke_key i =
     andThen (wrapped (KeyWrap ''getting api key for revocation'') (get_api_key i)) (\<lambda>k.
       if is_revoked k then fail KeyRevoked
       else andThen time_now (\<lambda>now.
            wrapped (KeyWrap ''revoking api key'') (update_api_key (k\<lparr>ak_revoked_at := Some now\<rparr>))))"

definition rotate_key :: "(string \<Rightarrow> string \<Rightarrow> string) \<Rightarrow> uuid \<Rightarrow> uuid \<Rightarrow> (string \<times> api_key) key_prog" where
  "rotate_key argon2 i creator =
     andThen (wrapped (KeyWrap ''getting old api key'') (get_api_key i)) (\<lambda>old.
       if is_revoked old then fail KeyRevoked
       else andThen (wrapped (KeyWrap ''generating rotated key'')
              (generate_key argon2 (ak_org_id old) (ak_project_id old) (ak_application_id old)
                 (ak_name old @ '' (rotated)'') (ak_scopes old) creator (ak_environment_ids old)
                 (ak_allowed_cidrs old) (ak_expires_at old))) (\<lambda>result.
            andThen time_now (\<lambda>now.
            andThen (wrapped (KeyWrap ''revoking old key during rotation'')
              (update_api_key (old\<lparr>ak_revoked_at := Some now\<rparr>))) (\<lambda>_. ret result))))"

definition list_limit :: "int \<Rightarrow> int" where
  "list_limit n = (let n' = (if n \<le> 0 then 20 else n) in if n' > 100 then 100 else n')"

definition list_api_keys :: "uuid \<Rightarrow> uuid option \<Rightarrow> uuid option \<Rightarrow> int \<Rightarrow> int \<Rightarrow> api_key list key_prog" where
  "list_api_keys org project envi n offset =
     andThen (ext_call (KeyWrap ''listing api keys'' (KeyDriver ''postgres.ListAPIKeys''))) (\<lambda>_.
     andThen get_state (\<lambda>w.
       ret (take (nat (list_limit n)) (drop (nat offset) (map scanned_key (rev (sort_key ak_created_at
         (filter (\<lambda>k. ak_org_id k = org \<and> (project = None \<or> ak_project_id k = project) \<and>
            (case envi of None \<Rightarrow> True
             | Some e \<Rightarrow> ak_environment_ids k = [] \<or> e \<in> set (ak_environment_ids k))) (api_keys w)))))))))"

section \<open>Hashes round-trip\<close>

lemma hex_digit_value: "n < 16 \<Longrightarrow> hex_value (hex_digits ! n) = Some n"
proof -
  have "list_all (\<lambda>n. hex_value (hex_digits ! n) = Some n) [0..<16]" by code_simp
  moreover assume "n < 16"
  ultimately show ?thesis by (auto simp: list_all_iff)
qed

lemma hex_decode_encode: "hex_decode (hex_encode s) = Some s"
proof (induction s)
  case (Cons c s)
  have "of_char c div 16 < (16 :: nat)" "of_char c mod 16 < (16 :: nat)"
    using nat_of_char_less_256[of c] by (simp_all add: less_mult_imp_div_less)
  with Cons show ?case by (simp add: hex_encode_def hex_digit_value)
qed (simp add: hex_encode_def)

lemma hex_encode_plain: "CHR ''$'' \<notin> set (hex_encode s)"
proof -
  have "\<forall>c \<in> set (hex_encode s). hex_value c \<noteq> None"
  proof (induction s)
    case (Cons c s)
    have "of_char c div 16 < (16 :: nat)" "of_char c mod 16 < (16 :: nat)"
      using nat_of_char_less_256[of c] by (simp_all add: less_mult_imp_div_less)
    with Cons show ?case by (simp add: hex_encode_def hex_digit_value)
  qed (simp add: hex_encode_def)
  moreover have "hex_value (CHR ''$'') = None" by (simp add: hex_value_def)
  ultimately show ?thesis by blast
qed

lemma hex_encode_nil: "hex_encode s = [] \<longleftrightarrow> s = []"
  by (cases s) (simp_all add: hex_encode_def)

lemma verify_hash:
  assumes "salt \<noteq> ''''" and "argon2 plain salt \<noteq> ''''"
  shows "verify_key argon2 plain' (hash_text argon2 plain salt) \<longleftrightarrow> argon2 plain' salt = argon2 plain salt"
proof -
  have no_sep: "takeWhile (\<lambda>c. c \<noteq> CHR ''$'') (hex_encode x @ CHR ''$'' # y) = hex_encode x"
    "dropWhile (\<lambda>c. c \<noteq> CHR ''$'') (hex_encode x @ CHR ''$'' # y) = CHR ''$'' # y" for x y
  proof -
    have all: "c \<noteq> CHR ''$''" if "c \<in> set (hex_encode x)" for c using that hex_encode_plain[of x] by blast
    show "takeWhile (\<lambda>c. c \<noteq> CHR ''$'') (hex_encode x @ CHR ''$'' # y) = hex_encode x"
      by (subst takeWhile_append2) (use all in auto)
    show "dropWhile (\<lambda>c. c \<noteq> CHR ''$'') (hex_encode x @ CHR ''$'' # y) = CHR ''$'' # y"
      by (subst dropWhile_append2) (use all in auto)
  qed
  show ?thesis using assms
    by (simp add: verify_key_def hash_text_def Let_def no_sep hex_encode_nil hex_decode_encode)
qed

text \<open>
  Verification undoes hashing: the text stored for a key under a salt is accepted for
  exactly the keys that Argon2 maps, under that salt, to the same digest, in particular for
  the key itself.
\<close>

theorem key_hash_roundtrip:
  assumes "salt \<noteq> ''''" and "argon2 plain salt \<noteq> ''''"
  shows "verify_key argon2 plain' (hash_text argon2 plain salt) \<longleftrightarrow> argon2 plain' salt = argon2 plain salt"
  using assms by (rule verify_hash)

theorem key_hash_roundtrip_witness:
  "verify_key (\<lambda>k s. k @ s) ''ds_1'' (hash_text (\<lambda>k s. k @ s) ''ds_1'' ''salt'') \<and>
   \<not> verify_key (\<lambda>k s. k @ s) ''ds_2'' (hash_text (\<lambda>k s. k @ s) ''ds_1'' ''salt'')"
  using key_hash_roundtrip[of "''salt''" "\<lambda>k s. k @ s" "''ds_1''" "''ds_1''"]
    key_hash_roundtrip[of "''salt''" "\<lambda>k s. k @ s" "''ds_1''" "''ds_2''"] by simp

section \<open>Keys that validate\<close>

definition key_accepted :: "(string \<Rightarrow> string \<Rightarrow> string) \<Rightarrow> string \<Rightarrow> key_world \<Rightarrow> bool" where
  "key_accepted argon2 plain s \<longleftrightarrow> (\<exists>k t. validate_key argon2 plain s = (Inr k, t))"

lemma validate_found:
  assumes "\<forall>n. \<not> fault s n" and "\<not> length plain < 8"
    and "find (live_with_prefix (take 8 plain)) (api_keys s) = Some k"
  shows "key_accepted argon2 plain s \<longleftrightarrow>
    \<not> expired_at (clock s (reads s)) k \<and> verify_key argon2 plain (ak_key_hash k)"
proof -
  have live: "\<not> is_revoked (scanned_key k)"
    using assms(3) by (auto simp: find_Some_iff live_with_prefix_def is_revoked_def scanned_key_def)
  have same: "expired_at now (scanned_key k) = expired_at now k" "ak_key_hash (scanned_key k) = ak_key_hash k"
    "ak_expires_at (scanned_key k) = ak_expires_at k" for now
    by (simp_all add: scanned_key_def expired_at_def)
  show ?thesis
    using assms live same
    by (cases "ak_expires_at k = None")
      (auto simp: key_accepted_def validate_key_def get_api_key_by_prefix_def is_expired_def expired_at_def prog_defs
        split: option.splits prod.splits sum.splits)
qed

lemma generate_key_run:
  assumes "generate_key argon2 org project app name scopes creator envs cidrs expires s = (Inr (plain, k), t)"
    and "clock s (reads s) \<noteq> 0"
  shows "plain = ''ds_'' @ hex_encode (entropy s (drawn s) 32) \<and> ak_key_prefix k = take 8 plain \<and>
    ak_key_hash k = hash_text argon2 plain (entropy s (Suc (drawn s)) 16) \<and> ak_expires_at k = expires \<and>
    ak_revoked_at k = None \<and> api_keys t = api_keys s @ [k] \<and> clock t = clock s \<and> fault t = fault s"
  using assms
  by (auto simp: generate_key_def hash_key_def random_bytes_def create_api_key_def andThen_Inr time_now_def uuid_new_def
      ext_call_def get_state_def modify_def ret_def fail_def Let_def split: if_splits option.splits)

lemma find_append: "find P (xs @ ys) = (case find P xs of None \<Rightarrow> find P ys | Some x \<Rightarrow> Some x)"
  by (induction xs) auto

lemma hex_encode_length: "length (hex_encode s) = 2 * length s"
  by (induction s) (simp_all add: hex_encode_def)

text \<open>
  A key that was just generated validates exactly if no other live key begins with the
  same eight characters: the lookup keeps one row per prefix and never tries the next. The
  prefix is \<open>ds_\<close> and five hexadecimal digits, so there are only \<open>16 ^ 5\<close> of them.
\<close>

theorem fresh_key_accepted:
  assumes "generate_key argon2 org project app name scopes creator envs cidrs expires s = (Inr (plain, k), t)"
    and "\<forall>n. \<not> fault s n" and "clock s (reads s) \<noteq> 0" and "\<not> expired_at (clock t (reads t)) k"
    and "\<And>n m. length (entropy s n m) = m" and "\<And>p salt. argon2 p salt \<noteq> ''''"
    and "\<And>old. old \<in> set (api_keys s) \<Longrightarrow> \<not> verify_key argon2 plain (ak_key_hash old)"
  shows "(key_accepted argon2 plain t \<longleftrightarrow> \<not> (\<exists>old \<in> set (api_keys s). live_with_prefix (take 8 plain) old)) \<and>
    (\<exists>digits. take 8 plain = ''ds_'' @ digits \<and> length digits = 5)"
proof
  note run = generate_key_run[OF assms(1,3)]
  have len: "length plain = 67" using run assms(5) by (simp add: hex_encode_length)
  have "entropy s (Suc (drawn s)) 16 \<noteq> ''''" using assms(5)[of "Suc (drawn s)" 16] by auto
  with run assms(6) have ok: "verify_key argon2 plain (ak_key_hash k)" by (simp add: verify_hash)
  show "key_accepted argon2 plain t \<longleftrightarrow> \<not> (\<exists>old \<in> set (api_keys s). live_with_prefix (take 8 plain) old)"
  proof (cases "find (live_with_prefix (take 8 plain)) (api_keys s)")
    case None
    then have none: "\<not> (\<exists>old \<in> set (api_keys s). live_with_prefix (take 8 plain) old)" by (auto simp: find_None_iff)
    have "live_with_prefix (take 8 plain) k" using run by (simp add: live_with_prefix_def)
    then have "find (live_with_prefix (take 8 plain)) (api_keys t) = Some k"
      using None run by (simp add: find_append)
    from validate_found[OF _ _ this] run assms(2,4) len ok none show ?thesis by simp
  next
    case (Some old)
    then have old: "old \<in> set (api_keys s)" "live_with_prefix (take 8 plain) old" by (auto simp: find_Some_iff)
    have "find (live_with_prefix (take 8 plain)) (api_keys t) = Some old"
      using Some run by (simp add: find_append)
    from validate_found[OF _ _ this] run assms(2,7) len old show ?thesis by auto
  qed
  have "length (take 5 (hex_encode (entropy s (drawn s) 32))) = 5" using assms(5) by (simp add: hex_encode_length)
  with run show "\<exists>digits. take 8 plain = ''ds_'' @ digits \<and> length digits = 5" by auto
qed

definition sample_key_world :: key_world where
  "sample_key_world = \<lparr>fault = (\<lambda>_. False), calls = 0, clock = (\<lambda>_. 5), reads = 0,
     fresh = (\<lambda>n. word_of_nat (100 + n)), minted = 0, ctxdone = (\<lambda>_. False), polls = 0,
     organizations = [(1, ''acme'')], org_members = [], users = [], api_keys = [],
     entropy = (\<lambda>n k. replicate k (CHR ''x'')), drawn = 0\<rparr>"

abbreviation sample_generation :: "(string \<times> api_key) key_prog" where
  "sample_generation \<equiv> generate_key (\<lambda>k s. CHR ''h'' # k @ s) 1 None None ''ci'' [''flags:read''] 9 [] [] None"

lemma sample_generates: "case fst (sample_generation sample_key_world) of Inr _ \<Rightarrow> True | Inl _ \<Rightarrow> False"
  by code_simp

theorem fresh_key_accepted_witness:
  "\<exists>plain k t. sample_generation sample_key_world = (Inr (plain, k), t) \<and>
     key_accepted (\<lambda>k s. CHR ''h'' # k @ s) plain t"
proof -
  obtain plain k t where g: "sample_generation sample_key_world = (Inr (plain, k), t)"
    using sample_generates by (cases "sample_generation sample_key_world") (auto split: sum.splits)
  have w: "clock sample_key_world (reads sample_key_world) \<noteq> 0" "\<forall>n. \<not> fault sample_key_world n"
    "api_keys sample_key_world = []" "length (entropy sample_key_world n m) = m" for n m
    by (simp_all add: sample_key_world_def)
  from generate_key_run[OF g w(1)] have "\<not> expired_at (clock t (reads t)) k" by (simp add: expired_at_def)
  from fresh_key_accepted[OF g w(2,1) this w(4)] g w(3) show ?thesis by auto
qed

section \<open>Rotation and revocation\<close>

text \<open>
  Once a rotation has returned, the old row, live until then, is revoked, and the new key
  is stored beside it with its scopes and expiry; all other rows are what they were.
\<close>

theorem rotation_replaces_key:
  assumes "rotate_key argon2 i creator s = (Inr (plain, k), t)" and "clock s (reads s) \<noteq> 0"
  shows "\<exists>old now. row_of ak_id i (api_keys s) = Some old \<and> ak_revoked_at old = None \<and>
    api_keys t = update_row ak_id i (\<lambda>r. r\<lparr>ak_name := ak_name old, ak_scopes := ak_scopes old,
      ak_expires_at := ak_expires_at old, ak_revoked_at := Some now\<rparr>) (api_keys s @ [k]) \<and>
    ak_key_prefix k = take 8 plain \<and> ak_scopes k = ak_scopes old \<and> ak_expires_at k = ak_expires_at old"
proof -
  from assms(1) obtain s1 old s2 now s3 where
    g: "get_api_key i s = (Inr old, s1)" and live: "\<not> is_revoked old" and
    n: "generate_key argon2 (ak_org_id old) (ak_project_id old) (ak_application_id old) (ak_name old @ '' (rotated)'')
      (ak_scopes old) creator (ak_environment_ids old) (ak_allowed_cidrs old) (ak_expires_at old) s1 = (Inr (plain, k), s2)" and
    u: "update_api_key (old\<lparr>ak_revoked_at := Some now\<rparr>) s3 = (Inr (), t)" and
    s3: "s3 = s2\<lparr>reads := Suc (reads s2)\<rparr>"
    by (auto simp: rotate_key_def andThen_Inr time_now_def ret_def fail_def split: if_splits)
  from g obtain row where row: "row_of ak_id i (api_keys s) = Some row" "old = scanned_key row"
    and s1: "s1 = s\<lparr>calls := Suc (calls s)\<rparr>"
    by (auto simp: get_api_key_def prog_defs split: if_splits option.splits)
  note new = generate_key_run[OF n]
  have scopes: "ak_scopes k = ak_scopes old"
    using n by (auto simp: generate_key_def create_api_key_def andThen_Inr ret_def fail_def Let_def modify_def
        split: if_splits option.splits)
  have id: "ak_id old = i" using row_of_Some[OF row(1)] row(2) by (simp add: scanned_key_def)
  have "api_keys t = update_row ak_id i (\<lambda>r. r\<lparr>ak_name := ak_name old, ak_scopes := ak_scopes old,
      ak_expires_at := ak_expires_at old, ak_revoked_at := Some now\<rparr>) (api_keys s2)"
    using u s3 id by (auto simp: update_api_key_def prog_defs split: if_splits)
  with new s1 assms(2) row live scopes show ?thesis
    by (intro exI[of _ row] exI[of _ now]) (simp add: scanned_key_def is_revoked_def)
qed

abbreviation sample_rotation :: "(string \<times> api_key) key_prog" where
  "sample_rotation \<equiv> rotate_key (\<lambda>k s. CHR ''h'' # k @ s) 50 9"

definition sample_old_key :: api_key where
  "sample_old_key = \<lparr>ak_id = 50, ak_org_id = 1, ak_project_id = None, ak_application_id = None,
     ak_environment_ids = [], ak_name = ''ci'', ak_key_prefix = ''ds_00000'', ak_key_hash = ''00$00'',
     ak_scopes = [''flags:read''], ak_allowed_cidrs = [], ak_expires_at = None, ak_last_used_at = None,
     ak_created_by = 9, ak_created_at = 1, ak_revoked_at = None\<rparr>"

definition rotated_world :: key_world where
  "rotated_world = sample_key_world\<lparr>api_keys := [sample_old_key]\<rparr>"

lemma sample_rotates: "case fst (sample_rotation rotated_world) of Inr _ \<Rightarrow> True | Inl _ \<Rightarrow> False"
  by code_simp

theorem rotation_replaces_key_witness:
  "\<exists>plain k t. sample_rotation rotated_world = (Inr (plain, k), t) \<and> ak_scopes k = [''flags:read'']"
proof -
  obtain plain k t where r: "sample_rotation rotated_world = (Inr (plain, k), t)"
    using sample_rotates by (cases "sample_rotation rotated_world") (auto split: sum.splits)
  have "clock rotated_world (reads rotated_world) \<noteq> 0" "api_keys rotated_world = [sample_old_key]"
    by (simp_all add: rotated_world_def sample_key_world_def)
  from rotation_replaces_key[OF r this(1)] this(2) r show ?thesis
    by (auto simp: row_simps sample_old_key_def split: if_splits)
qed

end
