(* ===== verification/StrategyStore.thy ===== *)
theory StrategyStore
  imports RolloutControls Json
begin

text \<open>
  Strategy templates, scope defaults and policies: their repositories
  (\<open>internal/platform/database/postgres/rollout.go\<close>, with the constraints of migration 049),
  their services (\<open>internal/rollout/service.go\<close>) and the attacher that resolves a strategy for
  a deployment or a targeting rule (\<open>internal/rollout/attacher.go\<close>). The listings, which only
  order rows by the collation of the database, are left out.
\<close>

section \<open>Strategies\<close>

text \<open>
  The driver sends a \<open>float64\<close> as its shortest decimal and the column \<open>NUMERIC(4,3)\<close> rounds it
  to three places, halves away from zero; reading gives the nearest \<open>float64\<close>.
\<close>

definition numeric_places :: "nat \<Rightarrow> rat \<Rightarrow> rat" where
  "numeric_places k x = sgn x * of_int \<lfloor>\<bar>x\<bar> * 10 ^ k + 1 / 2\<rfloor> / 10 ^ k"

definition threshold_column :: "f64 \<Rightarrow> rat option" where
  "threshold_column x =
     (case x of
        Fin q \<Rightarrow> let d = numeric_places 3 (shortest_decimal q) in if 0 \<le> d \<and> d \<le> 1 then Some d else None
      | _ \<Rightarrow> None)"

definition stored_strategy :: "strategy \<Rightarrow> strategy" where
  "stored_strategy s =
     (case threshold_column (sg_default_health_threshold s) of
        None \<Rightarrow> s
      | Some d \<Rightarrow> s\<lparr>sg_default_health_threshold := round64 d\<rparr>)"

definition strategy_checks :: "strategy \<Rightarrow> bool" where
  "strategy_checks s \<longleftrightarrow> sg_scope_type s \<in> {ScopeOrg, ScopeProject, ScopeApp} \<and>
     sg_target_type s \<in> {TargetTypeDeploy, TargetTypeConfig, TargetTypeAny} \<and>
     threshold_column (sg_default_health_threshold s) \<noteq> None"

text \<open>The unique key of the table covers deleted rows too.\<close>

definition same_name :: "strategy \<Rightarrow> strategy \<Rightarrow> bool" where
  "same_name s r \<longleftrightarrow> sg_scope_type r = sg_scope_type s \<and> sg_scope_id r = sg_scope_id s \<and> sg_name r = sg_name s"

definition strategy_create :: "strategy \<Rightarrow> strategy rollout_prog" where
  "strategy_create s =
     andThen (if sg_id s = uuid_nil then uuid_new else ret (sg_id s)) (\<lambda>i.
     andThen time_now (\<lambda>now.
       let s' = s\<lparr>sg_id := i, sg_created_at := now, sg_updated_at := now, sg_version := 1\<rparr>
       in if \<not> list_all step_encodes (sg_steps s) then fail (RolloutWrap ''marshal steps'' ErrMarshal)
          else andThen (ext_call (RolloutDriver ''insert strategies'')) (\<lambda>_.
               andThen get_state (\<lambda>w.
                 if row_of sg_id i (map fst (strategies w)) \<noteq> None \<or>
                    list_ex (same_name s') (map fst (strategies w)) \<or> \<not> strategy_checks s'
                 then fail (RolloutDriver ''insert strategies'')
                 else andThen (modify (\<lambda>w. w\<lparr>strategies := strategies w @ [(stored_strategy s', None)]\<rparr>)) (\<lambda>_.
                      ret s')))))"

definition live_strategies :: "rollout_world \<Rightarrow> strategy list" where
  "live_strategies w = map fst (filter (\<lambda>r. snd r = None) (strategies w))"

definition strategy_get :: "uuid \<Rightarrow> strategy rollout_prog" where
  "strategy_get i =
     andThen (ext_call (RolloutDriver ''select strategies'')) (\<lambda>_.
     andThen get_state (\<lambda>w.
       case row_of sg_id i (live_strategies w) of None \<Rightarrow> fail ErrStrategyNotFound | Some s \<Rightarrow> ret s))"

definition strategy_get_by_name :: "scope_ref \<Rightarrow> string \<Rightarrow> strategy rollout_prog" where
  "strategy_get_by_name ref name =
     andThen (ext_call (RolloutDriver ''select strategies'')) (\<lambda>_.
     andThen get_state (\<lambda>w.
       case find (\<lambda>s. sg_scope_type s = sc_type ref \<and> sg_scope_id s = sc_id ref \<and> sg_name s = name)
              (live_strategies w) of
         None \<Rightarrow> fail ErrStrategyNotFound
       | Some s \<Rightarrow> ret s))"

text \<open>The columns \<open>Update\<close> writes; the version guards against a concurrent change.\<close>

definition write_strategy :: "strategy \<Rightarrow> strategy \<Rightarrow> strategy" where
  "write_strategy s row = stored_strategy (row\<lparr>sg_description := sg_description s,
     sg_target_type := sg_target_type s, sg_steps := sg_steps s,
     sg_default_health_threshold := sg_default_health_threshold s,
     sg_default_rollback_on_failure := sg_default_rollback_on_failure s,
     sg_updated_by := sg_updated_by s, sg_updated_at := sg_updated_at s,
     sg_version := sg_version row + 1\<rparr>)"

definition strategy_update :: "strategy \<Rightarrow> int \<Rightarrow> strategy rollout_prog" where
  "strategy_update s expected =
     (if \<not> list_all step_encodes (sg_steps s) then fail (RolloutWrap ''marshal steps'' ErrMarshal)
      else andThen time_now (\<lambda>now.
        let s' = s\<lparr>sg_updated_at := now\<rparr>;
            hit = (\<lambda>r. sg_id (fst r) = sg_id s \<and> sg_version (fst r) = expected \<and> snd r = None)
        in andThen (ext_call (RolloutDriver ''update strategies'')) (\<lambda>_.
           andThen get_state (\<lambda>w.
             if \<not> list_ex hit (strategies w) then fail ErrVersionConflict
             else if list_ex (\<lambda>r. hit r \<and> \<not> strategy_checks (write_strategy s' (fst r))) (strategies w)
             then fail (RolloutDriver ''update strategies'')
             else andThen (modify (\<lambda>w. w\<lparr>strategies :=
                    map (\<lambda>r. if hit r then (write_strategy s' (fst r), None) else r) (strategies w)\<rparr>)) (\<lambda>_.
                  ret (s'\<lparr>sg_version := expected + 1\<rparr>))))))"

definition strategy_soft_delete :: "uuid \<Rightarrow> unit rollout_prog" where
  "strategy_soft_delete i =
     andThen (ext_call (RolloutDriver ''update strategies'')) (\<lambda>_.
     andThen time_now (\<lambda>now.
     andThen get_state (\<lambda>w.
       if row_of sg_id i (live_strategies w) = None then fail ErrStrategyNotFound
       else modify (\<lambda>w. w\<lparr>strategies :=
              map (\<lambda>r. if sg_id (fst r) = i \<and> snd r = None then (fst r, Some now) else r) (strategies w)\<rparr>))))"

definition strategy_is_referenced :: "uuid \<Rightarrow> bool rollout_prog" where
  "strategy_is_referenced i =
     andThen (ext_call (RolloutDriver ''count strategy_defaults'')) (\<lambda>_.
     andThen get_state (\<lambda>w. ret (list_ex (\<lambda>d. sd_strategy_id d = i) (strategy_defaults w))))"

section \<open>Defaults and policies\<close>

text \<open>The empty text is stored as \<open>NULL\<close>, and \<open>NULL\<close> is one value of the unique key.\<close>

definition null_if_empty :: "string option \<Rightarrow> string option" where
  "null_if_empty e = (if e = Some '''' then None else e)"

definition null_target :: "target_type option \<Rightarrow> target_type option" where
  "null_target tt = (if tt = Some (TargetTypeText '''') then None else tt)"

definition scoped_checks :: "scope_type \<Rightarrow> target_type option \<Rightarrow> bool" where
  "scoped_checks st tt \<longleftrightarrow> st \<in> {ScopeOrg, ScopeProject, ScopeApp} \<and>
     tt \<in> {None, Some TargetTypeDeploy, Some TargetTypeConfig}"

definition default_key ::
  "strategy_default \<Rightarrow> scope_type \<times> uuid \<times> string option \<times> target_type option" where
  "default_key d = (sd_scope_type d, sd_scope_id d, null_if_empty (sd_environment d), null_target (sd_target_type d))"

definition policy_key ::
  "rollout_policy \<Rightarrow> scope_type \<times> uuid \<times> string option \<times> target_type option" where
  "policy_key p = (po_scope_type p, po_scope_id p, null_if_empty (po_environment p), null_target (po_target_type p))"

text \<open>
  A row with the key of another updates it and keeps its identifier; the strategy has to be a
  row of the table, deleted or not.
\<close>

definition default_upsert :: "strategy_default \<Rightarrow> unit rollout_prog" where
  "default_upsert d =
     andThen (if sd_id d = uuid_nil then uuid_new else ret (sd_id d)) (\<lambda>i.
     andThen time_now (\<lambda>now.
       let d' = d\<lparr>sd_id := i, sd_updated_at := now,
                  sd_created_at := (if sd_created_at d = time_zero then now else sd_created_at d),
                  sd_environment := null_if_empty (sd_environment d),
                  sd_target_type := null_target (sd_target_type d)\<rparr>
       in andThen (ext_call (RolloutDriver ''upsert strategy_defaults'')) (\<lambda>_.
          andThen get_state (\<lambda>w.
            if \<not> scoped_checks (sd_scope_type d) (sd_target_type d') \<or>
               row_of sg_id (sd_strategy_id d) (map fst (strategies w)) = None
            then fail (RolloutDriver ''upsert strategy_defaults'')
            else if list_ex (\<lambda>r. default_key r = default_key d') (strategy_defaults w)
            then modify (\<lambda>w. w\<lparr>strategy_defaults :=
                   map (\<lambda>r. if default_key r = default_key d'
                            then r\<lparr>sd_strategy_id := sd_strategy_id d, sd_updated_by := sd_updated_by d,
                                   sd_updated_at := now\<rparr> else r) (strategy_defaults w)\<rparr>)
            else if row_of sd_id i (strategy_defaults w) \<noteq> None
            then fail (RolloutDriver ''upsert strategy_defaults'')
            else modify (\<lambda>w. w\<lparr>strategy_defaults := strategy_defaults w @ [d']\<rparr>)))))"

definition default_list :: "scope_ref \<Rightarrow> strategy_default list rollout_prog" where
  "default_list ref =
     andThen (ext_call (RolloutDriver ''select strategy_defaults'')) (\<lambda>_.
     andThen get_state (\<lambda>w. ret (filter (\<lambda>d. default_scope d = ref) (strategy_defaults w))))"

definition default_delete :: "uuid \<Rightarrow> unit rollout_prog" where
  "default_delete i =
     andThen (ext_call (RolloutDriver ''delete strategy_defaults'')) (\<lambda>_.
       modify (\<lambda>w. w\<lparr>strategy_defaults := filter (\<lambda>d. sd_id d \<noteq> i) (strategy_defaults w)\<rparr>))"

definition default_delete_by_key ::
  "scope_ref \<Rightarrow> string option \<Rightarrow> target_type option \<Rightarrow> unit rollout_prog" where
  "default_delete_by_key ref e tt =
     andThen (ext_call (RolloutDriver ''delete strategy_defaults'')) (\<lambda>_.
       modify (\<lambda>w. w\<lparr>strategy_defaults := filter (\<lambda>d.
         default_key d \<noteq> (sc_type ref, sc_id ref, null_if_empty e, null_target tt)) (strategy_defaults w)\<rparr>))"

definition policy_upsert :: "rollout_policy \<Rightarrow> unit rollout_prog" where
  "policy_upsert p =
     andThen (if po_id p = uuid_nil then uuid_new else ret (po_id p)) (\<lambda>i.
     andThen time_now (\<lambda>now.
       let p' = p\<lparr>po_id := i, po_updated_at := now,
                  po_created_at := (if po_created_at p = time_zero then now else po_created_at p),
                  po_environment := null_if_empty (po_environment p),
                  po_target_type := null_target (po_target_type p)\<rparr>
       in andThen (ext_call (RolloutDriver ''upsert rollout_policies'')) (\<lambda>_.
          andThen get_state (\<lambda>w.
            if \<not> scoped_checks (po_scope_type p) (po_target_type p')
            then fail (RolloutDriver ''upsert rollout_policies'')
            else if list_ex (\<lambda>r. policy_key r = policy_key p') (rollout_policies w)
            then modify (\<lambda>w. w\<lparr>rollout_policies :=
                   map (\<lambda>r. if policy_key r = policy_key p'
                            then r\<lparr>po_enabled := po_enabled p, po_policy := po_policy p,
                                   po_updated_by := po_updated_by p, po_updated_at := now\<rparr> else r)
                     (rollout_policies w)\<rparr>)
            else if row_of po_id i (rollout_policies w) \<noteq> None
            then fail (RolloutDriver ''upsert rollout_policies'')
            else modify (\<lambda>w. w\<lparr>rollout_policies := rollout_policies w @ [p']\<rparr>)))))"

definition policy_list :: "scope_ref \<Rightarrow> rollout_policy list rollout_prog" where
  "policy_list ref =
     andThen (ext_call (RolloutDriver ''select rollout_policies'')) (\<lambda>_.
     andThen get_state (\<lambda>w. ret (filter (\<lambda>p. policy_scope p = ref) (rollout_policies w))))"

definition policy_delete :: "uuid \<Rightarrow> unit rollout_prog" where
  "policy_delete i =
     andThen (ext_call (RolloutDriver ''delete rollout_policies'')) (\<lambda>_.
       modify (\<lambda>w. w\<lparr>rollout_policies := filter (\<lambda>p. po_id p \<noteq> i) (rollout_policies w)\<rparr>))"

section \<open>Services\<close>

definition strategy_create_tx :: "strategy \<Rightarrow> strategy rollout_prog" where
  "strategy_create_tx s =
     (case validate_strategy s of
        Some e \<Rightarrow> fail (RolloutWrap ''validate'' (ErrStrategyInvalid e))
      | None \<Rightarrow> wrapped (RolloutWrap ''create'') (strategy_create s))"

definition svc_create_strategy :: "strategy \<Rightarrow> unit rollout_prog" where
  "svc_create_strategy s =
     andThen (ext_call (RolloutWrap ''Create begin tx'' (RolloutDriver ''begin''))) (\<lambda>_.
     andThen get_state (\<lambda>before.
     andThen (strategy_create_tx s) (\<lambda>_.
     andThen (attempt (ext_call (RolloutWrap ''Create commit tx'' (RolloutDriver ''commit'')))
         :: (rollout_error + unit) rollout_prog) (\<lambda>c.
       case c of
         Inl e \<Rightarrow> andThen (modify (\<lambda>w. w\<lparr>strategies := strategies before\<rparr>)) (\<lambda>_. fail e)
       | Inr _ \<Rightarrow> ret ()))))"

definition svc_update_strategy :: "strategy \<Rightarrow> int \<Rightarrow> strategy rollout_prog" where
  "svc_update_strategy s expected =
     andThen (strategy_get (sg_id s)) (\<lambda>existing.
       if sg_is_system existing then fail ErrSystemStrategyImmutable
       else case validate_strategy s of
         Some e \<Rightarrow> fail (RolloutWrap ''validate'' (ErrStrategyInvalid e))
       | None \<Rightarrow> strategy_update s expected)"

definition svc_delete_strategy :: "uuid \<Rightarrow> unit rollout_prog" where
  "svc_delete_strategy i =
     andThen (strategy_get i) (\<lambda>existing.
       if sg_is_system existing then fail ErrSystemStrategyImmutable
       else andThen (strategy_is_referenced i) (\<lambda>used.
         if used then fail ErrStrategyInUse else strategy_soft_delete i))"

text \<open>The two \<open>Resolve\<close> loops read the rows of every ancestor before they choose.\<close>

fun gather :: "(scope_ref \<Rightarrow> 'r list rollout_prog) \<Rightarrow> scope_ref list \<Rightarrow> 'r list rollout_prog" where
  "gather lst [] = ret []"
| "gather lst (a # as) = andThen (lst a) (\<lambda>rows. andThen (gather lst as) (\<lambda>more. ret (rows @ more)))"

definition svc_resolve_default ::
  "scope_ref \<Rightarrow> uuid option \<Rightarrow> uuid option \<Rightarrow> string option \<Rightarrow> target_type option \<Rightarrow>
   strategy_default option rollout_prog" where
  "svc_resolve_default leaf project org e target =
     (let ancestors = ancestor_scopes leaf project org
      in andThen (gather default_list ancestors) (\<lambda>rows. ret (resolve_default rows ancestors e target)))"

definition svc_resolve_policy ::
  "scope_ref \<Rightarrow> uuid option \<Rightarrow> uuid option \<Rightarrow> string option \<Rightarrow> target_type option \<Rightarrow>
   rollout_policy option rollout_prog" where
  "svc_resolve_policy leaf project org e target =
     (let ancestors = ancestor_scopes leaf project org
      in andThen (gather policy_list ancestors) (\<lambda>rows. ret (resolve_policy rows ancestors e target)))"

end
