(* ===== verification/StrategyCatalog.thy ===== *)
theory StrategyCatalog
  imports StrategyStore
begin

text \<open>
  What the strategy services guarantee: every history of their calls, whatever statements
  fail, keeps the tables consistent and the live templates valid; the version of a template
  serialises its changes; the name of a deleted template stays taken.
\<close>

section \<open>Consistent tables\<close>

definition strategy_key :: "strategy \<Rightarrow> scope_type \<times> uuid \<times> string" where
  "strategy_key s = (sg_scope_type s, sg_scope_id s, sg_name s)"

text \<open>
  Validation up to the default threshold, which the column rounds after it was checked.
\<close>

definition valid_template :: "strategy \<Rightarrow> bool" where
  "valid_template s \<longleftrightarrow> (\<exists>th. validate_strategy (s\<lparr>sg_default_health_threshold := th\<rparr>) = None)"

definition strategies_ok :: "(strategy \<times> time option) list \<Rightarrow> bool" where
  "strategies_ok rows \<longleftrightarrow> distinct (map (sg_id \<circ> fst) rows) \<and> distinct (map (strategy_key \<circ> fst) rows) \<and>
     (\<forall>r \<in> set rows. valid_template (fst r))"

definition catalog_ok :: "rollout_world \<Rightarrow> bool" where
  "catalog_ok w \<longleftrightarrow> strategies_ok (strategies w) \<and>
     distinct (map default_key (strategy_defaults w)) \<and> distinct (map policy_key (rollout_policies w)) \<and>
     sd_strategy_id ` set (strategy_defaults w) \<subseteq> (sg_id \<circ> fst) ` set (strategies w)"

text \<open>
  How a template may change: a row stays with its identity and name and never goes back in
  version; deleted rows and system templates are final.
\<close>

definition row_evolves :: "strategy \<times> time option \<Rightarrow> strategy \<times> time option \<Rightarrow> bool" where
  "row_evolves r q \<longleftrightarrow> sg_id (fst q) = sg_id (fst r) \<and> strategy_key (fst q) = strategy_key (fst r) \<and>
     sg_version (fst r) \<le> sg_version (fst q) \<and> (snd r \<noteq> None \<or> sg_is_system (fst r) \<longrightarrow> q = r)"

definition templates_evolve ::
  "(strategy \<times> time option) list \<Rightarrow> (strategy \<times> time option) list \<Rightarrow> bool" where
  "templates_evolve rows rows' \<longleftrightarrow> (\<forall>r \<in> set rows. \<exists>q \<in> set rows'. row_evolves r q)"

lemma row_evolves_refl [simp]: "row_evolves r r"
  by (simp add: row_evolves_def)

lemma row_evolves_trans: "row_evolves a b \<Longrightarrow> row_evolves b c \<Longrightarrow> row_evolves a c"
  unfolding row_evolves_def by (metis order_trans)

lemma templates_evolve_refl [simp]: "templates_evolve rows rows"
  unfolding templates_evolve_def using row_evolves_refl by blast

lemma templates_evolve_trans:
  "templates_evolve a b \<Longrightarrow> templates_evolve b c \<Longrightarrow> templates_evolve a c"
  unfolding templates_evolve_def by (meson row_evolves_trans)

lemma templates_evolve_append: "templates_evolve rows (rows @ added)"
  unfolding templates_evolve_def using row_evolves_refl by force

lemma templates_evolve_map: "(\<And>r. r \<in> set rows \<Longrightarrow> row_evolves r (f r)) \<Longrightarrow> templates_evolve rows (map f rows)"
  unfolding templates_evolve_def by force

section \<open>Rows\<close>

lemma stored_strategy_simps [simp]:
  "sg_id (stored_strategy s) = sg_id s" "strategy_key (stored_strategy s) = strategy_key s"
  "sg_version (stored_strategy s) = sg_version s" "sg_is_system (stored_strategy s) = sg_is_system s"
  by (simp_all add: stored_strategy_def strategy_key_def split: option.splits)

lemma stored_strategy_threshold: "\<exists>th. stored_strategy s = s\<lparr>sg_default_health_threshold := th\<rparr>"
proof (cases "threshold_column (sg_default_health_threshold s)")
  case None
  then show ?thesis by (intro exI[of _ "sg_default_health_threshold s"]) (simp add: stored_strategy_def)
qed (auto simp: stored_strategy_def)

lemma valid_stored [simp]: "valid_template (stored_strategy s) = valid_template s"
  using stored_strategy_threshold[of s] by (auto simp: valid_template_def)

text \<open>Validation reads the name, the target type, the steps and the threshold only.\<close>

lemma validate_strategy_cong:
  "sg_name s = '''' \<longleftrightarrow> sg_name t = '''' \<Longrightarrow> sg_target_type s = sg_target_type t \<Longrightarrow> sg_steps s = sg_steps t \<Longrightarrow>
   sg_default_health_threshold s = sg_default_health_threshold t \<Longrightarrow>
   validate_strategy s = validate_strategy t"
  by (simp add: validate_strategy_def)

lemma valid_templateI:
  assumes "validate_strategy s = None" and "sg_name t = '''' \<longleftrightarrow> sg_name s = ''''"
    and "sg_target_type t = sg_target_type s" and "sg_steps t = sg_steps s"
  shows "valid_template t"
  unfolding valid_template_def
proof
  show "validate_strategy (t\<lparr>sg_default_health_threshold := sg_default_health_threshold s\<rparr>) = None"
    using assms by (subst validate_strategy_cong[of _ s]) simp_all
qed

lemma valid_named: "valid_template s \<Longrightarrow> sg_name s \<noteq> ''''"
  by (auto simp: valid_template_def validate_strategy_def)

lemma write_strategy_simps [simp]:
  "sg_id (write_strategy s row) = sg_id row" "strategy_key (write_strategy s row) = strategy_key row"
  "sg_version (write_strategy s row) = sg_version row + 1"
  "sg_is_system (write_strategy s row) = sg_is_system row"
  by (simp_all add: write_strategy_def strategy_key_def[of "row\<lparr>sg_description := _\<rparr>"])
    (simp add: strategy_key_def)

lemma valid_written:
  "validate_strategy s = None \<Longrightarrow> valid_template row \<Longrightarrow> valid_template (write_strategy s row)"
proof -
  assume v: "validate_strategy s = None" and row: "valid_template row"
  then have "sg_name s \<noteq> ''''" by (auto simp: validate_strategy_def)
  with v valid_named[OF row] show ?thesis
    unfolding write_strategy_def valid_stored by (intro valid_templateI[of s]) simp_all
qed

section \<open>What a call does to the tables\<close>

lemma strategy_create_rows:
  assumes "strategy_create s w = (r, t)"
  shows "strategy_defaults t = strategy_defaults w \<and> rollout_policies t = rollout_policies w \<and>
    (strategies t = strategies w \<or>
     (\<exists>s'. strategies t = strategies w @ [(stored_strategy s', None)] \<and>
        sg_name s' = sg_name s \<and> sg_target_type s' = sg_target_type s \<and> sg_steps s' = sg_steps s \<and>
        sg_id s' \<notin> (sg_id \<circ> fst) ` set (strategies w) \<and>
        strategy_key s' \<notin> (strategy_key \<circ> fst) ` set (strategies w)))"
proof -
  obtain i w1 where i: "(if sg_id s = uuid_nil then uuid_new else ret (sg_id s)) w = (Inr i :: rollout_error + uuid, w1)"
    "strategies w1 = strategies w" "strategy_defaults w1 = strategy_defaults w"
    "rollout_policies w1 = rollout_policies w"
    by (cases "sg_id s = uuid_nil") (simp_all add: prog_defs)
  let ?s' = "s\<lparr>sg_id := i, sg_created_at := clock w1 (reads w1), sg_updated_at := clock w1 (reads w1), sg_version := 1\<rparr>"
  have cases: "strategies t = strategies w \<or>
     strategies t = strategies w @ [(stored_strategy ?s', None)] \<and>
     row_of sg_id i (map fst (strategies w)) = None \<and> \<not> list_ex (same_name ?s') (map fst (strategies w))"
    and rest: "strategy_defaults t = strategy_defaults w \<and> rollout_policies t = rollout_policies w"
    using assms i
    unfolding strategy_create_def andThen_run(1)[where m = "if sg_id s = uuid_nil then uuid_new else ret (sg_id s)", OF i(1)]
    by (auto simp: prog_defs Let_def split: if_splits)
  have "sg_id ?s' \<notin> (sg_id \<circ> fst) ` set (strategies w)" if "row_of sg_id i (map fst (strategies w)) = None"
    using that by (auto simp: row_of_None)
  moreover have "strategy_key ?s' \<notin> (strategy_key \<circ> fst) ` set (strategies w)"
    if "\<not> list_ex (same_name ?s') (map fst (strategies w))"
    using that by (auto simp: list_ex_iff same_name_def strategy_key_def)
  ultimately show ?thesis using rest cases
    by (elim disjE conjE) (blast, intro conjI disjI2 exI[of _ ?s'], simp_all)
qed

lemma strategy_update_rows:
  assumes "strategy_update s v w = (r, t)"
  shows "strategy_defaults t = strategy_defaults w \<and> rollout_policies t = rollout_policies w \<and>
    (strategies t = strategies w \<or>
     (\<exists>now. strategies t = map (\<lambda>r. if sg_id (fst r) = sg_id s \<and> sg_version (fst r) = v \<and> snd r = None
        then (write_strategy (s\<lparr>sg_updated_at := now\<rparr>) (fst r), None) else r) (strategies w)))"
  using assms unfolding strategy_update_def
  by (auto simp: prog_defs Let_def split: if_splits intro!: exI[of _ "clock w (reads w)"])

lemma strategy_soft_delete_rows:
  assumes "strategy_soft_delete i w = (r, t)"
  shows "strategy_defaults t = strategy_defaults w \<and> rollout_policies t = rollout_policies w \<and>
    (strategies t = strategies w \<or>
     (\<exists>now. strategies t =
        map (\<lambda>r. if sg_id (fst r) = i \<and> snd r = None then (fst r, Some now) else r) (strategies w)))"
  using assms unfolding strategy_soft_delete_def
  by (auto simp: prog_defs split: if_splits intro!: exI[of _ "clock w (reads w)"])

lemma strategy_get_result:
  assumes "strategy_get i w = (r, t)"
  shows "strategies t = strategies w \<and> strategy_defaults t = strategy_defaults w \<and>
    rollout_policies t = rollout_policies w \<and> (\<forall>s. r = Inr s \<longrightarrow> (s, None) \<in> set (strategies w) \<and> sg_id s = i)"
  using assms unfolding strategy_get_def
  by (auto simp: prog_defs live_strategies_def split: if_splits option.splits dest!: row_of_Some)

section \<open>Histories\<close>

datatype catalog_op =
    OpCreateStrategy strategy
  | OpUpdateStrategy strategy int
  | OpDeleteStrategy uuid
  | OpUpsertDefault strategy_default
  | OpDeleteDefault uuid
  | OpDeleteDefaultByKey scope_ref "string option" "target_type option"
  | OpUpsertPolicy rollout_policy
  | OpDeletePolicy uuid

fun exec_catalog_op :: "catalog_op \<Rightarrow> rollout_world \<Rightarrow> rollout_world" where
  "exec_catalog_op (OpCreateStrategy s) w = snd (svc_create_strategy s w)"
| "exec_catalog_op (OpUpdateStrategy s v) w = snd (svc_update_strategy s v w)"
| "exec_catalog_op (OpDeleteStrategy i) w = snd (svc_delete_strategy i w)"
| "exec_catalog_op (OpUpsertDefault d) w = snd (default_upsert d w)"
| "exec_catalog_op (OpDeleteDefault i) w = snd (default_delete i w)"
| "exec_catalog_op (OpDeleteDefaultByKey ref e tt) w = snd (default_delete_by_key ref e tt w)"
| "exec_catalog_op (OpUpsertPolicy p) w = snd (policy_upsert p w)"
| "exec_catalog_op (OpDeletePolicy i) w = snd (policy_delete i w)"

definition catalog_step :: "rollout_world \<Rightarrow> rollout_world \<Rightarrow> bool" where
  "catalog_step s t \<longleftrightarrow> (catalog_ok s \<longrightarrow> catalog_ok t \<and> templates_evolve (strategies s) (strategies t))"

interpretation catalog: frame catalog_step
  by unfold_locales (auto simp: catalog_step_def intro: templates_evolve_trans)

text \<open>A step that only touches the templates, in one of the three ways.\<close>

lemma catalog_step_same:
  "strategies t = strategies s \<Longrightarrow> strategy_defaults t = strategy_defaults s \<Longrightarrow>
   rollout_policies t = rollout_policies s \<Longrightarrow> catalog_step s t"
  by (simp add: catalog_step_def catalog_ok_def)

lemma catalog_step_append:
  assumes "strategies t = strategies s @ [r]" and "strategy_defaults t = strategy_defaults s"
    and "rollout_policies t = rollout_policies s" and "valid_template (fst r)"
    and "sg_id (fst r) \<notin> (sg_id \<circ> fst) ` set (strategies s)"
    and "strategy_key (fst r) \<notin> (strategy_key \<circ> fst) ` set (strategies s)"
  shows "catalog_step s t"
  using assms by (auto simp: catalog_step_def catalog_ok_def strategies_ok_def templates_evolve_append)

lemma catalog_step_map:
  assumes "strategies t = map f (strategies s)" and "strategy_defaults t = strategy_defaults s"
    and "rollout_policies t = rollout_policies s"
    and "\<And>r. r \<in> set (strategies s) \<Longrightarrow> strategies_ok (strategies s) \<Longrightarrow> row_evolves r (f r) \<and> valid_template (fst (f r))"
  shows "catalog_step s t"
  unfolding catalog_step_def
proof (intro impI conjI)
  assume ok: "catalog_ok s"
  then have st: "strategies_ok (strategies s)" by (simp add: catalog_ok_def)
  note step = assms(4)[OF _ st]
  have ids: "map (sg_id \<circ> fst) (map f (strategies s)) = map (sg_id \<circ> fst) (strategies s)"
    and keys: "map (strategy_key \<circ> fst) (map f (strategies s)) = map (strategy_key \<circ> fst) (strategies s)"
    using step by (simp_all add: row_evolves_def)
  have "(sg_id \<circ> fst) ` set (map f (strategies s)) = (sg_id \<circ> fst) ` set (strategies s)"
    by (metis ids set_map)
  moreover have "strategies_ok (map f (strategies s))"
    unfolding strategies_ok_def ids keys using st step by (auto simp: strategies_ok_def)
  ultimately show "catalog_ok t" using ok unfolding catalog_ok_def assms(1-3) by simp
  show "templates_evolve (strategies s) (strategies t)"
    unfolding assms(1) using step by (intro templates_evolve_map) simp
qed

lemma catalog_prims:
  "keeps catalog_step (ext_call e)" "keeps catalog_step time_now" "keeps catalog_step uuid_new"
  by (auto simp: keeps_def prog_defs intro: catalog_step_same)

text \<open>Writes to the defaults and the policies.\<close>

lemma distinct_keep_or_append:
  "distinct (map key rows) \<Longrightarrow>
   distinct (map key (if list_ex (\<lambda>r. key r = key d) rows then map (\<lambda>r. if key r = key d then f r else r) rows
                      else rows @ [d]))"
  if "\<And>r. key (f r) = key r"
proof -
  assume d: "distinct (map key rows)"
  have "map key (map (\<lambda>r. if key r = key d then f r else r) rows) = map key rows"
    by (simp add: that)
  note same = this
  show ?thesis
  proof (cases "list_ex (\<lambda>r. key r = key d) rows")
    case True
    then show ?thesis by (simp only: if_True same d)
  next
    case False
    with d show ?thesis by (auto simp: list_ex_iff)
  qed
qed

lemma distinct_map_filter_key: "distinct (map key rows) \<Longrightarrow> distinct (map key (filter P rows))"
  by (induction rows) auto

lemma default_upsert_step: "catalog_step w (snd (default_upsert d w))"
proof -
  obtain i w1 where i: "(if sd_id d = uuid_nil then uuid_new else ret (sd_id d)) w = (Inr i :: rollout_error + uuid, w1)"
    "strategies w1 = strategies w" "strategy_defaults w1 = strategy_defaults w"
    "rollout_policies w1 = rollout_policies w"
    by (cases "sd_id d = uuid_nil") (simp_all add: prog_defs)
  let ?now = "clock w1 (reads w1)"
  let ?d = "d\<lparr>sd_id := i, sd_updated_at := ?now,
                  sd_created_at := (if sd_created_at d = time_zero then ?now else sd_created_at d),
                  sd_environment := null_if_empty (sd_environment d), sd_target_type := null_target (sd_target_type d)\<rparr>"
  let ?f = "\<lambda>r. r\<lparr>sd_strategy_id := sd_strategy_id d, sd_updated_by := sd_updated_by d, sd_updated_at := ?now\<rparr>"
  define rows where "rows = (if list_ex (\<lambda>r. default_key r = default_key ?d) (strategy_defaults w)
     then map (\<lambda>r. if default_key r = default_key ?d then ?f r else r) (strategy_defaults w)
     else strategy_defaults w @ [?d])"
  obtain res t where t: "default_upsert d w = (res, t)" by (cases "default_upsert d w")
  have "strategies t = strategies w \<and> rollout_policies t = rollout_policies w \<and>
     (strategy_defaults t = strategy_defaults w \<or>
      strategy_defaults t = rows \<and> row_of sg_id (sd_strategy_id d) (map fst (strategies w)) \<noteq> None)"
    using t i
    unfolding default_upsert_def andThen_run(1)[where m = "if sd_id d = uuid_nil then uuid_new else ret (sd_id d)", OF i(1)]
    by (auto simp: prog_defs Let_def rows_def split: if_splits)
  note tables = this
  have keys: "distinct (map default_key rows)" if "distinct (map default_key (strategy_defaults w))"
    unfolding rows_def using that by (rule distinct_keep_or_append[rotated]) (simp add: default_key_def)
  have refs: "sd_strategy_id ` set rows \<subseteq> insert (sd_strategy_id d) (sd_strategy_id ` set (strategy_defaults w))"
    unfolding rows_def by (cases "list_ex (\<lambda>r. default_key r = default_key ?d) (strategy_defaults w)") auto
  have known: "sd_strategy_id d \<in> (sg_id \<circ> fst) ` set (strategies w)"
    if "row_of sg_id (sd_strategy_id d) (map fst (strategies w)) \<noteq> None"
    using that by (auto simp: row_of_None)
  show ?thesis
  proof (cases "strategy_defaults t = strategy_defaults w")
    case True
    with tables show ?thesis by (simp add: t catalog_step_same)
  next
    case False
    with tables known have "strategy_defaults t = rows" "strategies t = strategies w"
      "rollout_policies t = rollout_policies w" "sd_strategy_id d \<in> (sg_id \<circ> fst) ` set (strategies w)" by blast+
    with keys subset_trans[OF refs] show ?thesis by (simp add: t catalog_step_def catalog_ok_def)
  qed
qed

lemma policy_upsert_step: "catalog_step w (snd (policy_upsert p w))"
proof -
  obtain i w1 where i: "(if po_id p = uuid_nil then uuid_new else ret (po_id p)) w = (Inr i :: rollout_error + uuid, w1)"
    "strategies w1 = strategies w" "strategy_defaults w1 = strategy_defaults w"
    "rollout_policies w1 = rollout_policies w"
    by (cases "po_id p = uuid_nil") (simp_all add: prog_defs)
  let ?now = "clock w1 (reads w1)"
  let ?p = "p\<lparr>po_id := i, po_updated_at := ?now,
                  po_created_at := (if po_created_at p = time_zero then ?now else po_created_at p),
                  po_environment := null_if_empty (po_environment p), po_target_type := null_target (po_target_type p)\<rparr>"
  let ?f = "\<lambda>r. r\<lparr>po_enabled := po_enabled p, po_policy := po_policy p, po_updated_by := po_updated_by p,
                   po_updated_at := ?now\<rparr>"
  define rows where "rows = (if list_ex (\<lambda>r. policy_key r = policy_key ?p) (rollout_policies w)
     then map (\<lambda>r. if policy_key r = policy_key ?p then ?f r else r) (rollout_policies w)
     else rollout_policies w @ [?p])"
  obtain res t where t: "policy_upsert p w = (res, t)" by (cases "policy_upsert p w")
  have "strategies t = strategies w \<and> strategy_defaults t = strategy_defaults w \<and>
     (rollout_policies t = rollout_policies w \<or> rollout_policies t = rows)"
    using t i
    unfolding policy_upsert_def andThen_run(1)[where m = "if po_id p = uuid_nil then uuid_new else ret (po_id p)", OF i(1)]
    by (auto simp: prog_defs Let_def rows_def split: if_splits)
  moreover have "distinct (map policy_key rows)" if "distinct (map policy_key (rollout_policies w))"
    unfolding rows_def using that by (rule distinct_keep_or_append[rotated]) (simp add: policy_key_def)
  ultimately show ?thesis unfolding t catalog_step_def catalog_ok_def snd_conv by auto
qed

lemma catalog_deletes:
  "catalog_step w (snd (default_delete i w))" "catalog_step w (snd (default_delete_by_key ref e tt w))"
  "catalog_step w (snd (policy_delete i w))"
  by (auto simp: default_delete_def default_delete_by_key_def policy_delete_def prog_defs catalog_step_def
      catalog_ok_def intro: distinct_map_filter_key)

text \<open>Calls of the strategy service.\<close>

lemma svc_create_strategy_step: "catalog_step w (snd (svc_create_strategy s w))"
proof (cases "validate_strategy s")
  case (Some e)
  then show ?thesis
    by (auto simp: svc_create_strategy_def strategy_create_tx_def prog_defs intro: catalog_step_same)
next
  case None
  define w1 where "w1 = w\<lparr>calls := Suc (calls w)\<rparr>"
  have same: "strategies w1 = strategies w" "strategy_defaults w1 = strategy_defaults w"
    "rollout_policies w1 = rollout_policies w" by (simp_all add: w1_def)
  obtain r t where c: "strategy_create s w1 = (r, t)" by (cases "strategy_create s w1")
  note rows = strategy_create_rows[OF c]
  have w1: "catalog_step w1 t"
  proof (cases "strategies t = strategies w1")
    case True
    with rows show ?thesis by (intro catalog_step_same) simp_all
  next
    case False
    with rows obtain s' where s': "strategies t = strategies w1 @ [(stored_strategy s', None)]"
      "sg_name s' = sg_name s" "sg_target_type s' = sg_target_type s" "sg_steps s' = sg_steps s"
      "sg_id s' \<notin> (sg_id \<circ> fst) ` set (strategies w1)"
      "strategy_key s' \<notin> (strategy_key \<circ> fst) ` set (strategies w1)" by blast
    have "valid_template s'" using None s' by (intro valid_templateI[OF None]) simp_all
    with s' rows show ?thesis by (intro catalog_step_append[OF s'(1)]) simp_all
  qed
  note run = svc_create_strategy_def strategy_create_tx_def None prog_defs c[unfolded w1_def]
  have "catalog_step w w1" using same by (intro catalog_step_same)
  then have t: "catalog_step w t" using w1 by (rule catalog.R_trans)
  show ?thesis
  proof (cases "fault w (calls w)")
    case True
    then show ?thesis by (simp add: run catalog_step_same)
  next
    case ok: False
    show ?thesis
    proof (cases r)
      case (Inl e)
      with ok t show ?thesis by (simp add: run)
    next
      case (Inr s')
      have u: "catalog_step t (t\<lparr>calls := n\<rparr>)" for n by (rule catalog_step_same) simp_all
      show ?thesis
      proof (cases "fault t (calls t)")
        case True
        with ok Inr rows same show ?thesis by (simp add: run catalog_step_same)
      next
        case False
        with ok Inr catalog.R_trans[OF t u] show ?thesis by (simp add: run)
      qed
    qed
  qed
qed

lemma strategies_ok_unique:
  "strategies_ok rows \<Longrightarrow> r \<in> set rows \<Longrightarrow> q \<in> set rows \<Longrightarrow> sg_id (fst r) = sg_id (fst q) \<Longrightarrow> r = q"
  unfolding strategies_ok_def by (metis comp_apply inj_onD distinct_map)

lemma svc_update_strategy_step: "catalog_step w (snd (svc_update_strategy s v w))"
proof -
  obtain g w1 where g: "strategy_get (sg_id s) w = (g, w1)" by (cases "strategy_get (sg_id s) w")
  note get = strategy_get_result[OF g]
  have w1: "catalog_step w w1" using get by (intro catalog_step_same) simp_all
  show ?thesis
  proof (cases "\<exists>old. g = Inr old \<and> \<not> sg_is_system old \<and> validate_strategy s = None")
    case False
    with g w1 show ?thesis
      by (cases g) (auto simp: svc_update_strategy_def prog_defs split: option.splits)
  next
    case True
    then obtain old where old: "g = Inr old" "\<not> sg_is_system old" "validate_strategy s = None" by blast
    obtain r t where u: "strategy_update s v w1 = (r, t)" by (cases "strategy_update s v w1")
    have eq: "snd (svc_update_strategy s v w) = t"
      using g old u by (simp add: svc_update_strategy_def andThen_def)
    have mem: "(old, None) \<in> set (strategies w1)" "sg_id old = sg_id s" using get old by auto
    from strategy_update_rows[OF u] have "catalog_step w1 t"
    proof (elim conjE disjE exE)
      assume "strategies t = strategies w1" "strategy_defaults t = strategy_defaults w1"
        "rollout_policies t = rollout_policies w1"
      then show ?thesis by (intro catalog_step_same)
    next
      fix now
      assume t: "strategies t = map (\<lambda>r. if sg_id (fst r) = sg_id s \<and> sg_version (fst r) = v \<and> snd r = None
          then (write_strategy (s\<lparr>sg_updated_at := now\<rparr>) (fst r), None) else r) (strategies w1)"
        and rest: "strategy_defaults t = strategy_defaults w1" "rollout_policies t = rollout_policies w1"
      show ?thesis
      proof (rule catalog_step_map[OF t rest])
        fix r assume r: "r \<in> set (strategies w1)" and ok: "strategies_ok (strategies w1)"
        have "r = (old, None)" if "sg_id (fst r) = sg_id s"
          using strategies_ok_unique[OF ok r mem(1)] that mem(2) by simp
        moreover have "valid_template (fst r)" using ok r by (simp add: strategies_ok_def)
        moreover have "validate_strategy (s\<lparr>sg_updated_at := now\<rparr>) = None"
          using old(3) by (subst validate_strategy_cong[of _ s]) simp_all
        ultimately show "row_evolves r (if sg_id (fst r) = sg_id s \<and> sg_version (fst r) = v \<and> snd r = None
              then (write_strategy (s\<lparr>sg_updated_at := now\<rparr>) (fst r), None) else r) \<and>
            valid_template (fst (if sg_id (fst r) = sg_id s \<and> sg_version (fst r) = v \<and> snd r = None
              then (write_strategy (s\<lparr>sg_updated_at := now\<rparr>) (fst r), None) else r))"
          using old(2) by (auto simp: row_evolves_def valid_written)
      qed
    qed
    with w1 eq show ?thesis using catalog.R_trans by simp
  qed
qed

lemma svc_delete_strategy_step: "catalog_step w (snd (svc_delete_strategy i w))"
proof -
  obtain g w1 where g: "strategy_get i w = (g, w1)" by (cases "strategy_get i w")
  note get = strategy_get_result[OF g]
  have w1: "catalog_step w w1" using get by (intro catalog_step_same) simp_all
  obtain u w2 where u: "strategy_is_referenced i w1 = (u, w2)" by (cases "strategy_is_referenced i w1")
  have w2: "strategies w2 = strategies w1" "strategy_defaults w2 = strategy_defaults w1"
    "rollout_policies w2 = rollout_policies w1"
    using u by (auto simp: strategy_is_referenced_def prog_defs split: if_splits)
  then have "catalog_step w1 w2" by (intro catalog_step_same)
  with w1 have to2: "catalog_step w w2" by (rule catalog.R_trans)
  show ?thesis
  proof (cases "\<exists>old. g = Inr old \<and> \<not> sg_is_system old \<and> u = Inr False")
    case False
    with g u w1 to2 show ?thesis
      by (cases g; cases u) (auto simp: svc_delete_strategy_def prog_defs)
  next
    case True
    then obtain old where old: "g = Inr old" "\<not> sg_is_system old" "u = Inr False" by blast
    obtain r t where d: "strategy_soft_delete i w2 = (r, t)" by (cases "strategy_soft_delete i w2")
    have eq: "snd (svc_delete_strategy i w) = t"
      using g old u d by (simp add: svc_delete_strategy_def andThen_def)
    have mem: "(old, None) \<in> set (strategies w2)" "sg_id old = i" using get old w2 by auto
    from strategy_soft_delete_rows[OF d] have "catalog_step w2 t"
    proof (elim conjE disjE exE)
      assume "strategies t = strategies w2" "strategy_defaults t = strategy_defaults w2"
        "rollout_policies t = rollout_policies w2"
      then show ?thesis by (intro catalog_step_same)
    next
      fix now
      assume t: "strategies t = map (\<lambda>r. if sg_id (fst r) = i \<and> snd r = None then (fst r, Some now) else r) (strategies w2)"
        and rest: "strategy_defaults t = strategy_defaults w2" "rollout_policies t = rollout_policies w2"
      show ?thesis
      proof (rule catalog_step_map[OF t rest])
        fix r assume r: "r \<in> set (strategies w2)" and ok: "strategies_ok (strategies w2)"
        have "r = (old, None)" if "sg_id (fst r) = i"
          using strategies_ok_unique[OF ok r mem(1)] that mem(2) by simp
        moreover have "valid_template (fst r)" using ok r by (simp add: strategies_ok_def)
        ultimately show "row_evolves r (if sg_id (fst r) = i \<and> snd r = None then (fst r, Some now) else r) \<and>
            valid_template (fst (if sg_id (fst r) = i \<and> snd r = None then (fst r, Some now) else r))"
          using old(2) by (auto simp: row_evolves_def)
      qed
    qed
    with to2 eq show ?thesis using catalog.R_trans by simp
  qed
qed

lemma exec_catalog_op_step: "catalog_step w (exec_catalog_op opr w)"
  by (cases opr) (simp_all add: svc_create_strategy_step svc_update_strategy_step svc_delete_strategy_step
      default_upsert_step policy_upsert_step catalog_deletes)

lemma catalog_ops_step: "catalog_step w (fold exec_catalog_op ops w)"
proof (induction ops arbitrary: w)
  case (Cons opr ops)
  from exec_catalog_op_step Cons.IH show ?case unfolding fold_simps by (rule catalog.R_trans)
qed (simp add: catalog.R_refl)

text \<open>
  C30. Whatever calls of the strategy, default and policy services arrive, and whichever of
  their statements fail: identifiers and scoped names stay unique, every template stays
  valid up to its rounded threshold, every default names a row of the table, defaults and
  policies have unique keys, versions never decrease, and deleted and system templates
  never change.
\<close>

theorem catalog_history:
  assumes "catalog_ok w"
  shows "catalog_ok (fold exec_catalog_op ops w) \<and>
    templates_evolve (strategies w) (strategies (fold exec_catalog_op ops w))"
  using catalog_ops_step[of w ops] assms by (simp add: catalog_step_def)

definition template_row :: "strategy \<times> time option" where
  "template_row = ((sample_strategy [sample_step (Fin 10), sample_step (Fin 100)])
     \<lparr>sg_id := 5, sg_default_health_threshold := Fin 0\<rparr>, None)"

definition sample_catalog :: rollout_world where
  "sample_catalog = (sample_rollout_world (\<lambda>_. False) [])\<lparr>strategies := [template_row]\<rparr>"

lemma sample_template_valid: "validate_strategy (fst template_row) = None"
  by code_simp

lemma sample_catalog_ok: "catalog_ok sample_catalog"
  using sample_template_valid
  by (auto simp: catalog_ok_def strategies_ok_def sample_catalog_def sample_rollout_world_def intro: valid_templateI)

theorem catalog_history_witness:
  "catalog_ok (fold exec_catalog_op [OpDeleteStrategy 5, OpCreateStrategy (fst template_row)] sample_catalog)"
  using catalog_history[OF sample_catalog_ok] by blast

section \<open>Versions and names\<close>

lemma svc_update_strategy_Inr:
  assumes "svc_update_strategy s v w = (Inr s', t)"
  obtains w1 now where "strategy_get (sg_id s) w = (Inr w1, now)" "strategy_update s v now = (Inr s', t)"
  using assms by (auto simp: svc_update_strategy_def andThen_Inr split: if_splits option.splits)
    (auto simp: prog_defs)

lemma strategy_update_Inr:
  assumes "strategy_update s v w = (Inr s', t)"
  shows "(\<exists>r \<in> set (strategies w). sg_id (fst r) = sg_id s \<and> sg_version (fst r) = v \<and> snd r = None) \<and>
    sg_version s' = v + 1 \<and>
    (\<exists>now. strategies t = map (\<lambda>r. if sg_id (fst r) = sg_id s \<and> sg_version (fst r) = v \<and> snd r = None
        then (write_strategy (s\<lparr>sg_updated_at := now\<rparr>) (fst r), None) else r) (strategies w))"
  using assms unfolding strategy_update_def
  by (auto simp: prog_defs Let_def list_ex_iff split: if_splits intro!: exI[of _ "clock w (reads w)"])

lemma no_version_after_update:
  assumes "strategy_update s v w = (Inr s', t)" and "strategies_ok (strategies w)"
  shows "\<not> list_ex (\<lambda>r. sg_id (fst r) = sg_id s \<and> sg_version (fst r) = v \<and> snd r = None) (strategies t)"
  using strategy_update_Inr[OF assms(1)] by (auto simp: list_ex_iff)

text \<open>
  Two changes prepared against the same version do not overwrite each other: once the
  first is stored, under the next version, the second one is refused and the table stays as
  the first left it.
\<close>

theorem stale_update_refused:
  assumes "strategies_ok (strategies w)" and "svc_update_strategy s v w = (Inr s', w1)"
    and "sg_id s2 = sg_id s" and "svc_update_strategy s2 v w1 = (r, w2)"
  shows "sg_version s' = v + 1 \<and> (\<exists>e. r = Inl e) \<and> strategies w2 = strategies w1"
proof -
  from assms(2) obtain old w0 where get: "strategy_get (sg_id s) w = (Inr old, w0)"
    and upd: "strategy_update s v w0 = (Inr s', w1)" by (rule svc_update_strategy_Inr)
  have "strategies_ok (strategies w0)" using strategy_get_result[OF get] assms(1) by simp
  note gone = no_version_after_update[OF upd this]
  obtain g u where g: "strategy_get (sg_id s2) w1 = (g, u)" by (cases "strategy_get (sg_id s2) w1")
  have u: "strategies u = strategies w1" using strategy_get_result[OF g] by simp
  have refused: "\<exists>e t. strategy_update s2 v u = (Inl e, t) \<and> strategies t = strategies u"
    using gone u assms(3) unfolding strategy_update_def by (auto simp: prog_defs Let_def)
  have "(\<exists>e. r = Inl e) \<and> strategies w2 = strategies w1"
    using assms(4) g u refused
    by (cases g) (auto simp: svc_update_strategy_def prog_defs split: if_splits option.splits)
  with strategy_update_Inr[OF upd] show ?thesis by simp
qed

definition edited_template :: "string \<Rightarrow> strategy" where
  "edited_template txt = (fst template_row)\<lparr>sg_description := txt\<rparr>"

theorem stale_update_refused_witness:
  "\<exists>e. fst (svc_update_strategy (edited_template ''two'') 1
      (snd (svc_update_strategy (edited_template ''one'') 1 sample_catalog))) = Inl e"
proof -
  have "\<not> isl (fst (svc_update_strategy (edited_template ''one'') 1 sample_catalog))" by code_simp
  then obtain s' w1 where w1: "svc_update_strategy (edited_template ''one'') 1 sample_catalog = (Inr s', w1)"
    by (cases "svc_update_strategy (edited_template ''one'') 1 sample_catalog"; cases "fst (svc_update_strategy (edited_template ''one'') 1 sample_catalog)") auto
  obtain r w2 where w2: "svc_update_strategy (edited_template ''two'') 1 w1 = (r, w2)"
    by (cases "svc_update_strategy (edited_template ''two'') 1 w1")
  have "strategies_ok (strategies sample_catalog)" using sample_catalog_ok by (simp add: catalog_ok_def)
  from stale_update_refused[OF this w1 _ w2] w1 w2 show ?thesis by (auto simp: edited_template_def)
qed

text \<open>
  A template that was deleted blocks its name for ever: no statement fails and no live
  template of the scope has the name, yet the name is answered as unknown and its creation
  as a conflict.
\<close>

theorem deleted_name_blocked:
  assumes "calm w" and "strategies_ok (strategies w)" and "(old, Some d) \<in> set (strategies w)"
    and "strategy_key s = strategy_key old"
  shows "fst (strategy_get_by_name \<lparr>sc_type = sg_scope_type s, sc_id = sg_scope_id s\<rparr> (sg_name s) w) = Inl ErrStrategyNotFound \<and>
    (\<exists>e. fst (svc_create_strategy s w) = Inl e)"
proof
  have "r = (old, Some d)" if "r \<in> set (strategies w)" "strategy_key (fst r) = strategy_key s" for r
    using assms(2,3,4) that unfolding strategies_ok_def by (metis comp_apply inj_onD distinct_map fst_conv)
  then have "\<not> (sg_scope_type x = sg_scope_type s \<and> sg_scope_id x = sg_scope_id s \<and> sg_name x = sg_name s)"
    if "x \<in> set (live_strategies w)" for x
    using that by (force simp: live_strategies_def strategy_key_def)
  then have "find (\<lambda>x. sg_scope_type x = sg_scope_type s \<and> sg_scope_id x = sg_scope_id s \<and> sg_name x = sg_name s)
      (live_strategies w) = None"
    by (auto simp: find_None_iff)
  then show "fst (strategy_get_by_name \<lparr>sc_type = sg_scope_type s, sc_id = sg_scope_id s\<rparr> (sg_name s) w)
      = Inl ErrStrategyNotFound"
    using assms(1) by (simp add: strategy_get_by_name_def prog_defs live_strategies_def)
next
  have clash: "list_ex (same_name x) (map fst (strategies w))"
    if "sg_scope_type x = sg_scope_type s" "sg_scope_id x = sg_scope_id s" "sg_name x = sg_name s" for x
    using assms(3,4) that by (force simp: list_ex_iff same_name_def strategy_key_def)
  have "\<exists>e t. strategy_create s v = (Inl e, t)" if "strategies v = strategies w" for v :: rollout_world
    using that clash unfolding strategy_create_def
    by (cases "sg_id s = uuid_nil") (auto simp: prog_defs Let_def)
  from this[of "w\<lparr>calls := Suc (calls w)\<rparr>"] assms(1) show "\<exists>e. fst (svc_create_strategy s w) = Inl e"
    by (auto simp: svc_create_strategy_def strategy_create_tx_def prog_defs split: option.splits)
qed

theorem deleted_name_blocked_witness:
  "\<exists>e. fst (svc_create_strategy ((fst template_row)\<lparr>sg_id := 6\<rparr>)
      (sample_catalog\<lparr>strategies := [(fst template_row, Some 3)]\<rparr>)) = Inl e"
proof -
  let ?w = "sample_catalog\<lparr>strategies := [(fst template_row, Some 3)]\<rparr>"
  have "calm ?w" by (simp add: calm_def sample_catalog_def sample_rollout_world_def)
  moreover have "strategies_ok (strategies ?w)"
    using sample_catalog_ok by (simp add: catalog_ok_def strategies_ok_def sample_catalog_def)
  ultimately show ?thesis
    using deleted_name_blocked[of ?w "fst template_row" 3 "(fst template_row)\<lparr>sg_id := 6\<rparr>"]
    by (simp add: strategy_key_def)
qed

end
