(* ===== verification/RolloutGroups.thy ===== *)
theory RolloutGroups
  imports RolloutControls
begin

text \<open>
  Rollout groups: their repository (\<open>internal/platform/database/postgres/rollout_groups.go\<close>),
  their service (\<open>internal/rollout/group_service.go\<close>) and the coordinator that acts on the
  siblings of a rollout that was rolled back (\<open>internal/rollout/coordination.go\<close>). The text of
  an identifier comes from the package \<open>google/uuid\<close> and is a parameter.
\<close>

section \<open>The repository\<close>

definition group_create :: "rollout_group \<Rightarrow> rollout_group rollout_prog" where
  "group_create g =
     andThen (if rg_id g = uuid_nil then uuid_new else ret (rg_id g)) (\<lambda>i.
     andThen time_now (\<lambda>now.
       let g' = g\<lparr>rg_id := i, rg_created_at := now, rg_updated_at := now,
                  rg_coordination_policy := (if rg_coordination_policy g = CoordinationUnset
                    then CoordinationIndependent else rg_coordination_policy g)\<rparr>
       in andThen (ext_call (RolloutDriver ''insert rollout_groups'')) (\<lambda>_.
          andThen get_state (\<lambda>w.
            if row_of rg_id i (rollout_groups w) \<noteq> None \<or> rg_scope_type g \<notin> {ScopeOrg, ScopeProject, ScopeApp}
            then fail (RolloutDriver ''insert rollout_groups'')
            else andThen (modify (\<lambda>w. w\<lparr>rollout_groups := rollout_groups w @ [g']\<rparr>)) (\<lambda>_. ret g')))))"

definition group_get :: "uuid \<Rightarrow> rollout_group rollout_prog" where
  "group_get i =
     andThen (ext_call (RolloutDriver ''select rollout_groups'')) (\<lambda>_.
     andThen get_state (\<lambda>w.
       case row_of rg_id i (rollout_groups w) of None \<Rightarrow> fail ErrRolloutGroupNotFound | Some g \<Rightarrow> ret g))"

text \<open>Newest first.\<close>

definition group_list_by_scope :: "scope_ref \<Rightarrow> rollout_group list rollout_prog" where
  "group_list_by_scope ref =
     andThen (ext_call (RolloutDriver ''select rollout_groups'')) (\<lambda>_.
     andThen get_state (\<lambda>w. ret (sort_key (\<lambda>g. - rg_created_at g)
       (filter (\<lambda>g. rg_scope_type g = sc_type ref \<and> rg_scope_id g = sc_id ref) (rollout_groups w)))))"

text \<open>The constraint of the column knows three policies; the empty text is none of them.\<close>

definition group_update :: "rollout_group \<Rightarrow> unit rollout_prog" where
  "group_update g =
     andThen time_now (\<lambda>now.
     andThen (ext_call (RolloutDriver ''update rollout_groups'')) (\<lambda>_.
     andThen get_state (\<lambda>w.
       if row_of rg_id (rg_id g) (rollout_groups w) = None then fail ErrRolloutGroupNotFound
       else if rg_coordination_policy g = CoordinationUnset then fail (RolloutDriver ''update rollout_groups'')
       else modify (\<lambda>w. w\<lparr>rollout_groups := update_row rg_id (rg_id g)
              (\<lambda>r. r\<lparr>rg_name := rg_name g, rg_description := rg_description g,
                     rg_coordination_policy := rg_coordination_policy g, rg_updated_at := now\<rparr>)
              (rollout_groups w)\<rparr>))))"

definition group_delete :: "uuid \<Rightarrow> unit rollout_prog" where
  "group_delete i =
     andThen (ext_call (RolloutDriver ''delete rollout_groups'')) (\<lambda>_.
     andThen get_state (\<lambda>w.
       if row_of rg_id i (rollout_groups w) = None then fail ErrRolloutGroupNotFound
       else modify (\<lambda>w. w\<lparr>rollout_groups := filter (\<lambda>g. rg_id g \<noteq> i) (rollout_groups w)\<rparr>)))"

section \<open>The service\<close>

definition svc_group_create :: "rollout_group \<Rightarrow> rollout_group rollout_prog" where
  "svc_group_create g =
     group_create (if rg_coordination_policy g = CoordinationUnset
                   then g\<lparr>rg_coordination_policy := CoordinationIndependent\<rparr> else g)"

definition group_attach :: "uuid \<Rightarrow> uuid \<Rightarrow> unit rollout_prog" where
  "group_attach g i =
     andThen (wrapped (RolloutWrap ''group not found'') (group_get g)) (\<lambda>_. set_release_id i (Some g))"

definition group_members :: "uuid \<Rightarrow> rollout list rollout_prog" where
  "group_members g = list_by_release g"

definition active_siblings :: "uuid \<Rightarrow> uuid \<Rightarrow> rollout list rollout_prog" where
  "active_siblings g i =
     andThen (list_by_release g) (\<lambda>all.
       ret (filter (\<lambda>r. ro_id r \<noteq> i \<and> ro_status r \<in> {RolloutPending, RolloutActive, RolloutPaused,
              RolloutAwaitingApproval}) all))"

definition group_policy :: "uuid \<Rightarrow> coordination_policy rollout_prog" where
  "group_policy g = andThen (group_get g) (\<lambda>r. ret (rg_coordination_policy r))"

section \<open>The coordinator\<close>

fun act_on_siblings :: "coordination_policy \<Rightarrow> string \<Rightarrow> rollout list \<Rightarrow> unit rollout_prog" where
  "act_on_siblings p reason [] = ret ()"
| "act_on_siblings p reason (r # rs) =
     andThen (case p of
         CoordinationPauseOnSiblingAbort \<Rightarrow>
           (if ro_status r = RolloutActive
            then wrapped (RolloutWrap ''pause sibling'') (rollout_pause (ro_id r) uuid_nil reason) else ret ())
       | CoordinationCascadeAbort \<Rightarrow>
           wrapped (RolloutWrap ''rollback sibling'') (rollout_rollback (ro_id r) uuid_nil reason)
       | CoordinationIndependent \<Rightarrow> ret ()
       | CoordinationUnset \<Rightarrow> ret ()) (\<lambda>_. act_on_siblings p reason rs)"

definition abort_reason :: "(uuid \<Rightarrow> string) \<Rightarrow> uuid \<Rightarrow> string" where
  "abort_reason text_of i = ''sibling_aborted:'' @ text_of i"

definition on_rollback :: "(uuid \<Rightarrow> string) \<Rightarrow> uuid \<Rightarrow> unit rollout_prog" where
  "on_rollback text_of i =
     andThen (wrapped (RolloutWrap ''lookup rolled-back rollout'') (rollout_get i)) (\<lambda>r.
       case ro_release_id r of
         None \<Rightarrow> ret ()
       | Some g \<Rightarrow>
           andThen (wrapped (RolloutWrap ''lookup group policy'') (group_policy g)) (\<lambda>p.
             if p = CoordinationIndependent then ret ()
             else andThen (wrapped (RolloutWrap ''list siblings'') (active_siblings g i)) (\<lambda>siblings.
                  act_on_siblings p (abort_reason text_of i) siblings)))"

section \<open>What the coordinator does to the siblings\<close>

lemma abort_reason_given [simp]: "abort_reason text_of i \<noteq> ''''"
  by (simp add: abort_reason_def)

text \<open>The siblings, in the order of their creation.\<close>

definition siblings_of :: "rollout list \<Rightarrow> uuid \<Rightarrow> uuid \<Rightarrow> rollout list" where
  "siblings_of rows g i = filter (\<lambda>r. ro_id r \<noteq> i \<and> live_status (ro_status r))
     (sort_key ro_created_at (filter (\<lambda>r. ro_release_id r = Some g) rows))"

definition grouped :: "rollout_world \<Rightarrow> uuid \<Rightarrow> uuid \<Rightarrow> coordination_policy \<Rightarrow> bool" where
  "grouped w i g p \<longleftrightarrow> (\<exists>r gr. row_of ro_id i (rollouts w) = Some r \<and> ro_release_id r = Some g \<and>
     row_of rg_id g (rollout_groups w) = Some gr \<and> rg_coordination_policy gr = p)"

lemma on_rollback_calm:
  assumes "calm s" and "grouped s i g p" and "p \<noteq> CoordinationIndependent"
  obtains s' where "on_rollback text_of i s =
      act_on_siblings p (abort_reason text_of i) (siblings_of (rollouts s) g i) s'"
    "rollouts s' = rollouts s" "calm s'"
proof
  let ?s = "s\<lparr>calls := Suc (Suc (Suc (calls s)))\<rparr>"
  from assms obtain r gr where "row_of ro_id i (rollouts s) = Some r" "ro_release_id r = Some g"
    "row_of rg_id g (rollout_groups s) = Some gr" "rg_coordination_policy gr = p" by (auto simp: grouped_def)
  then show "on_rollback text_of i s =
      act_on_siblings p (abort_reason text_of i) (siblings_of (rollouts s) g i) ?s"
    using assms(1,3)
    by (simp add: on_rollback_def rollout_get_def group_policy_def group_get_def active_siblings_def
        list_by_release_def siblings_of_def live_status_def prog_defs)
qed (use assms in simp_all)

lemma siblings_distinct:
  "distinct (map ro_id rows) \<Longrightarrow> distinct (map ro_id (siblings_of rows g i)) \<and> set (siblings_of rows g i) \<subseteq> set rows"
  unfolding siblings_of_def
  by (auto simp: distinct_map intro: inj_on_subset)

lemma rollout_pause_control: "rollout_pause i a r = run_control CtlPause i a r"
  and rollout_rollback_control: "rollout_rollback i a r = run_control CtlRollback i a r"
  by simp_all

lemma controlled_other:
  "x \<in> set (controlled c i reason rows) \<Longrightarrow> ro_id x \<noteq> i \<Longrightarrow> x \<in> set rows"
  "x \<in> set rows \<Longrightarrow> ro_id x \<noteq> i \<Longrightarrow> x \<in> set (controlled c i reason rows)"
  by (auto simp: controlled_def update_row_def split: if_splits)

lemma controlled_ids [simp]: "map ro_id (controlled c i reason rows) = map ro_id rows"
  by (simp add: controlled_def update_row_def)

definition aborted_as :: "rollout_control \<Rightarrow> string \<Rightarrow> rollout \<Rightarrow> rollout" where
  "aborted_as c reason r = r\<lparr>ro_status := status_after c, ro_rollback_reason := Some reason\<rparr>"

lemma controlled_map:
  "reason \<noteq> '''' \<Longrightarrow> controlled c i reason rows = map (\<lambda>r. if ro_id r = i then aborted_as c reason r else r) rows"
  by (simp add: controlled_def update_row_def aborted_as_def coalesce_def reason_given_def)

text \<open>A permitted control on a row of the table.\<close>

lemma permitted_row:
  assumes "distinct (map ro_id (rollouts s))" and "r \<in> set (rollouts s)" and "reason \<noteq> ''''"
  shows "permitted c (ro_id r) reason s \<longleftrightarrow> ro_status r \<in> allowed_in c"
  using row_of_distinct[OF assms(1,2)] assms(3) by (simp add: permitted_def)

lemma act_pause:
  assumes "calm s" and "distinct (map ro_id (rollouts s))" and "distinct (map ro_id sibs)"
    and "set sibs \<subseteq> set (rollouts s)" and "reason \<noteq> ''''"
  shows "\<exists>t. act_on_siblings CoordinationPauseOnSiblingAbort reason sibs s = (Inr (), t) \<and>
     rollouts t = map (\<lambda>r. if r \<in> set sibs \<and> ro_status r = RolloutActive then aborted_as CtlPause reason r else r) (rollouts s)"
  using assms
proof (induction sibs arbitrary: s)
  case Nil
  then show ?case by (simp add: ret_def)
next
  case (Cons r rs)
  have mem: "r \<in> set (rollouts s)" "set rs \<subseteq> set (rollouts s)" using Cons.prems by auto
  show ?case
  proof (cases "ro_status r = RolloutActive")
    case False
    obtain t where t: "act_on_siblings CoordinationPauseOnSiblingAbort reason rs s = (Inr (), t)"
      "rollouts t = map (\<lambda>r. if r \<in> set rs \<and> ro_status r = RolloutActive then aborted_as CtlPause reason r else r) (rollouts s)"
      using Cons.IH[OF Cons.prems(1,2) _ mem(2) Cons.prems(5)] Cons.prems(3) by auto
    have "rollouts t = map (\<lambda>x. if x \<in> set (r # rs) \<and> ro_status x = RolloutActive
        then aborted_as CtlPause reason x else x) (rollouts s)"
      unfolding t(2) by (intro map_cong refl if_cong) (use False in auto)
    with t(1) False show ?thesis by simp
  next
    case True
    obtain res u where u: "rollout_pause (ro_id r) uuid_nil reason s = (res, u)"
      by (cases "rollout_pause (ro_id r) uuid_nil reason s")
    from run_control_outcome[OF u[unfolded rollout_pause_control]]
      permitted_row[OF Cons.prems(2) mem(1) Cons.prems(5), of CtlPause] True Cons.prems(1)
    have out: "rollouts u = controlled CtlPause (ro_id r) reason (rollouts s)" "res = Inr ()"
      "fault u = fault s" "ctxdone u = ctxdone s" by (auto simp: control_outcome_def)
    from calm_cong[OF out(3,4)] Cons.prems(1) have calm: "calm u" by simp
    have other: "ro_id x \<noteq> ro_id r" if "x \<in> set rs" for x
      using Cons.prems(3) imageI[OF that, of ro_id] by auto
    have rest: "set rs \<subseteq> set (rollouts u)" and ids: "distinct (map ro_id (rollouts u))"
      using mem Cons.prems(2) other unfolding out(1) by (auto intro!: controlled_other(2))
    obtain t where t: "act_on_siblings CoordinationPauseOnSiblingAbort reason rs u = (Inr (), t)"
      "rollouts t = map (\<lambda>r. if r \<in> set rs \<and> ro_status r = RolloutActive then aborted_as CtlPause reason r else r) (rollouts u)"
      using Cons.IH[OF calm ids _ rest Cons.prems(5)] Cons.prems(3) by auto
    have step: "(if y \<in> set rs \<and> ro_status y = RolloutActive then aborted_as CtlPause reason y else y) =
        (if x \<in> set (r # rs) \<and> ro_status x = RolloutActive then aborted_as CtlPause reason x else x)"
      if x: "x \<in> set (rollouts s)" and y: "y = (if ro_id x = ro_id r then aborted_as CtlPause reason x else x)" for x y
    proof (cases "ro_id x = ro_id r")
      case True
      with x mem(1) Cons.prems(2) have "x = r" by (simp add: distinct_map inj_on_def)
      with y \<open>ro_status r = RolloutActive\<close> show ?thesis by (simp add: aborted_as_def)
    next
      case False
      with y show ?thesis by auto
    qed
    have "rollouts t = map (\<lambda>x. if x \<in> set (r # rs) \<and> ro_status x = RolloutActive
        then aborted_as CtlPause reason x else x) (rollouts s)"
      unfolding t(2) out(1) controlled_map[OF Cons.prems(5)] map_map comp_def
      by (intro map_cong refl) (rule step; simp)
    moreover have "act_on_siblings CoordinationPauseOnSiblingAbort reason (r # rs) s = (Inr (), t)"
      using u out(2) t(1) True by (simp add: andThen_def wrapped_def)
    ultimately show ?thesis by blast
  qed
qed

text \<open>
  When a member of a group that pauses on a sibling's abort is rolled back, and the
  outside does not fail, exactly the active members of the group are paused, with the
  reason naming the member; every other rollout stays as it is.
\<close>

theorem coordination_pauses:
  assumes "calm s" and "grouped s i g CoordinationPauseOnSiblingAbort" and "distinct (map ro_id (rollouts s))"
  shows "\<exists>t. on_rollback text_of i s = (Inr (), t) \<and>
    rollouts t = map (\<lambda>r. if ro_release_id r = Some g \<and> ro_id r \<noteq> i \<and> ro_status r = RolloutActive
      then aborted_as CtlPause (abort_reason text_of i) r else r) (rollouts s)"
proof -
  obtain s' where s': "on_rollback text_of i s = act_on_siblings CoordinationPauseOnSiblingAbort
      (abort_reason text_of i) (siblings_of (rollouts s) g i) s'" "rollouts s' = rollouts s" "calm s'"
    using on_rollback_calm[OF assms(1,2)] by blast
  note sib = siblings_distinct[OF assms(3), of g i]
  have eq: "r \<in> set (siblings_of (rollouts s) g i) \<and> ro_status r = RolloutActive \<longleftrightarrow>
      ro_release_id r = Some g \<and> ro_id r \<noteq> i \<and> ro_status r = RolloutActive" if "r \<in> set (rollouts s)" for r
    using that by (auto simp: siblings_of_def live_status_def)
  obtain t where t: "on_rollback text_of i s = (Inr (), t)"
    "rollouts t = map (\<lambda>r. if r \<in> set (siblings_of (rollouts s) g i) \<and> ro_status r = RolloutActive
       then aborted_as CtlPause (abort_reason text_of i) r else r) (rollouts s)"
    using act_pause[of s' "siblings_of (rollouts s) g i" "abort_reason text_of i"] s' sib assms(3) by auto
  have "rollouts t = map (\<lambda>r. if ro_release_id r = Some g \<and> ro_id r \<noteq> i \<and> ro_status r = RolloutActive
      then aborted_as CtlPause (abort_reason text_of i) r else r) (rollouts s)"
    unfolding t(2) by (intro map_cong refl if_cong eq)
  with t(1) show ?thesis by blast
qed

text \<open>One sibling of a cascade: rolled back, or the cascade ends there.\<close>

lemma rollback_one:
  assumes "calm s" and "distinct (map ro_id (rollouts s))" and "r \<in> set (rollouts s)" and "reason \<noteq> ''''"
    and "rollout_rollback (ro_id r) a reason s = (res, u)"
  shows "calm u \<and> (rollouts u = rollouts s \<or> rollouts u = controlled CtlRollback (ro_id r) reason (rollouts s)) \<and>
    (res = Inr () \<longrightarrow> rollouts u = controlled CtlRollback (ro_id r) reason (rollouts s)) \<and>
    (ro_status r = RolloutPending \<longrightarrow> (\<exists>e. res = Inl e) \<and> rollouts u = rollouts s)"
proof -
  from assms(5) have run: "run_control CtlRollback (ro_id r) a reason s = (res, u)" by simp
  note out = run_control_outcome[OF run]
  from calm_cong out assms(1) have "calm u" by blast
  then show ?thesis using out assms(1) permitted_row[OF assms(2,3,4), of CtlRollback]
    by (auto simp: control_outcome_def)
qed

lemma act_cascade:
  assumes "calm s" and "distinct (map ro_id (rollouts s))" and "distinct (map ro_id sibs)"
    and "set sibs \<subseteq> set (rollouts s)" and "reason \<noteq> ''''"
    and "act_on_siblings CoordinationCascadeAbort reason sibs s = (res, t)"
  shows "(\<forall>x \<in> set (rollouts s). x \<notin> set sibs \<longrightarrow> x \<in> set (rollouts t)) \<and>
    (res = Inr () \<longrightarrow> (\<forall>x \<in> set sibs. aborted_as CtlRollback reason x \<in> set (rollouts t))) \<and>
    (\<forall>ys p zs. sibs = ys @ p # zs \<and> ro_status p = RolloutPending \<longrightarrow>
       (\<exists>e. res = Inl e) \<and> set (p # zs) \<subseteq> set (rollouts t))"
  using assms
proof (induction sibs arbitrary: s res t)
  case Nil
  then show ?case by (simp add: ret_def)
next
  case (Cons r rs)
  have mem: "r \<in> set (rollouts s)" "set rs \<subseteq> set (rollouts s)" using Cons.prems by auto
  have other: "ro_id x \<noteq> ro_id r" if "x \<in> set rs" for x
    using Cons.prems(3) imageI[OF that, of ro_id] by auto
  have same: "x = r" if "x \<in> set (rollouts s)" "ro_id x = ro_id r" for x
    using that mem(1) Cons.prems(2) by (simp add: distinct_map inj_on_def)
  obtain q u where u: "rollout_rollback (ro_id r) uuid_nil reason s = (q, u)"
    by (cases "rollout_rollback (ro_id r) uuid_nil reason s")
  note one = rollback_one[OF Cons.prems(1,2) mem(1) Cons.prems(5) u]
  have kept: "x \<in> set (rollouts u)" if "x \<in> set (rollouts s)" "x \<noteq> r" for x
  proof -
    have "ro_id x \<noteq> ro_id r" using same that by blast
    with one that(1) show ?thesis by (auto intro: controlled_other(2))
  qed
  show ?case
  proof (cases q)
    case (Inl e)
    then have rt: "res = Inl (RolloutWrap ''rollback sibling'' e)" "t = u"
      using Cons.prems(6) u by (simp_all add: andThen_def wrapped_def)
    have "\<exists>e. res = Inl e" "set (p # zs) \<subseteq> set (rollouts t)"
      if split: "r # rs = ys @ p # zs" "ro_status p = RolloutPending" for ys p zs
    proof -
      show "set (p # zs) \<subseteq> set (rollouts t)"
      proof (cases ys)
        case Nil
        with split one mem rt show ?thesis by auto
      next
        case (Cons y ys')
        with split have "set (p # zs) \<subseteq> set rs" by auto
        with mem(2) other kept rt(2) show ?thesis by blast
      qed
    qed (use rt in simp)
    with rt kept show ?thesis by auto
  next
    case (Inr x)
    with one have roll: "rollouts u = controlled CtlRollback (ro_id r) reason (rollouts s)"
      and np: "ro_status r \<noteq> RolloutPending" by auto
    have tail: "act_on_siblings CoordinationCascadeAbort reason rs u = (res, t)"
      using Cons.prems(6) u Inr by (simp add: andThen_def wrapped_def)
    have ids: "distinct (map ro_id (rollouts u))" using Cons.prems(2) by (simp add: roll)
    have rest: "set rs \<subseteq> set (rollouts u)" using mem(2) other kept by blast
    have dr: "distinct (map ro_id rs)" using Cons.prems(3) by simp
    note IH = Cons.IH[OF conjunct1[OF one] ids dr rest Cons.prems(5) tail]
    have "aborted_as CtlRollback reason r \<in> set (rollouts u)"
      using mem(1) unfolding roll controlled_map[OF Cons.prems(5)] by force
    moreover have "aborted_as CtlRollback reason r \<notin> set rs" using other by (force simp: aborted_as_def)
    ultimately have first: "aborted_as CtlRollback reason r \<in> set (rollouts t)" using conjunct1[OF IH] by blast
    have "(\<exists>e. res = Inl e) \<and> set (p # zs) \<subseteq> set (rollouts t)"
      if "r # rs = ys @ p # zs" "ro_status p = RolloutPending" for ys p zs
      using that np IH by (cases ys) auto
    with IH first kept show ?thesis by auto
  qed
qed

text \<open>
  Under cascade abort, with no outside failure: rollouts outside the group, and the
  finished ones, are not touched; if the coordinator succeeds every live sibling is rolled
  back; but as soon as one sibling is still pending, which cannot be rolled back, the
  coordinator fails, and that sibling and all created after it go on as they were, the
  active ones included.
\<close>

theorem cascade_outcome:
  assumes "calm s" and "grouped s i g CoordinationCascadeAbort" and "distinct (map ro_id (rollouts s))"
    and "on_rollback text_of i s = (res, t)"
  shows "(\<forall>x \<in> set (rollouts s). x \<notin> set (siblings_of (rollouts s) g i) \<longrightarrow> x \<in> set (rollouts t)) \<and>
    (res = Inr () \<longrightarrow> (\<forall>x \<in> set (siblings_of (rollouts s) g i).
        aborted_as CtlRollback (abort_reason text_of i) x \<in> set (rollouts t))) \<and>
    (\<forall>ys p zs. siblings_of (rollouts s) g i = ys @ p # zs \<and> ro_status p = RolloutPending \<longrightarrow>
       (\<exists>e. res = Inl e) \<and> set (p # zs) \<subseteq> set (rollouts t))"
proof -
  obtain s' where s': "on_rollback text_of i s = act_on_siblings CoordinationCascadeAbort
      (abort_reason text_of i) (siblings_of (rollouts s) g i) s'" "rollouts s' = rollouts s" "calm s'"
    using on_rollback_calm[OF assms(1,2)] by blast
  note sib = siblings_distinct[OF assms(3), of g i]
  have "act_on_siblings CoordinationCascadeAbort (abort_reason text_of i) (siblings_of (rollouts s) g i) s' = (res, t)"
    using s'(1) assms(4) by simp
  note casc = act_cascade[OF s'(3) _ conjunct1[OF sib] _ abort_reason_given this, unfolded s'(2)]
  show ?thesis by (rule casc[OF assms(3) conjunct2[OF sib]])
qed

definition sample_group :: "coordination_policy \<Rightarrow> rollout_group" where
  "sample_group p = \<lparr>rg_id = 9, rg_scope_type = ScopeOrg, rg_scope_id = 1, rg_name = ''g'', rg_description = '''',
     rg_coordination_policy = p, rg_created_by = None, rg_created_at = 0, rg_updated_at = 0\<rparr>"

definition member_rollout :: "uuid \<Rightarrow> rollout_status \<Rightarrow> rollout" where
  "member_rollout i st = (sample_rollout st)\<lparr>ro_id := i, ro_release_id := Some 9\<rparr>"

definition grouped_world :: "coordination_policy \<Rightarrow> rollout_world" where
  "grouped_world p = (sample_rollout_world (\<lambda>_. False)
     [member_rollout 1 RolloutRolledBack, member_rollout 2 RolloutPending, member_rollout 3 RolloutActive])
     \<lparr>rollout_groups := [sample_group p]\<rparr>"

lemma grouped_world_facts:
  "calm (grouped_world p)" "grouped (grouped_world p) 1 9 p" "distinct (map ro_id (rollouts (grouped_world p)))"
  "siblings_of (rollouts (grouped_world p)) 9 1 = [member_rollout 2 RolloutPending, member_rollout 3 RolloutActive]"
  by (simp_all add: calm_def grouped_world_def sample_rollout_world_def grouped_def row_simps member_rollout_def
      sample_group_def siblings_of_def live_status_def sample_rollout_def pending_rollout_def)

theorem coordination_pauses_witness:
  "ro_status (rollouts (snd (on_rollback (\<lambda>_. ''1'') 1 (grouped_world CoordinationPauseOnSiblingAbort))) ! 2) = RolloutPaused"
  using coordination_pauses[OF grouped_world_facts(1,2,3), of "\<lambda>_. ''1''"]
  by (auto simp: grouped_world_def sample_rollout_world_def member_rollout_def sample_rollout_def
      pending_rollout_def aborted_as_def)

theorem cascade_outcome_witness:
  "member_rollout 3 RolloutActive \<in> set (rollouts (snd (on_rollback (\<lambda>_. ''1'') 1 (grouped_world CoordinationCascadeAbort))))"
proof -
  obtain res t where r: "on_rollback (\<lambda>_. ''1'') 1 (grouped_world CoordinationCascadeAbort) = (res, t)"
    by (cases "on_rollback (\<lambda>_. ''1'') 1 (grouped_world CoordinationCascadeAbort)")
  have "ro_status (member_rollout 2 RolloutPending) = RolloutPending"
    by (simp add: member_rollout_def sample_rollout_def)
  then show ?thesis
    using cascade_outcome[OF grouped_world_facts(1,2,3) r] unfolding grouped_world_facts(4)
    by (auto simp: r dest: spec[of _ "[]"])
qed

end
