(* ===== verification/RolloutAttach.thy ===== *)
theory RolloutAttach
  imports StrategyStore
begin

text \<open>
  The attacher (\<open>internal/rollout/attacher.go\<close>): it resolves the template for a deployment or a
  targeting rule (by identifier, by name along the ancestry, by default), enforces the policy
  of the scope, takes the snapshot and hands it to the rollout service.
\<close>

section \<open>The attacher\<close>

text \<open>The overrides are what decoding them gave: nothing sent, undecodable, or overrides.\<close>

datatype sent_overrides = NoOverrides | BadOverrides | Overrides strategy_overrides

record attach_intent =
  ai_strategy_id :: "uuid option"
  ai_strategy_name :: string
  ai_overrides :: sent_overrides
  ai_release_id :: "uuid option"
  ai_leaf :: scope_ref
  ai_project_id :: "uuid option"
  ai_org_id :: "uuid option"
  ai_environment :: "string option"

definition intent_scopes :: "attach_intent \<Rightarrow> scope_ref list" where
  "intent_scopes n = ancestor_scopes (ai_leaf n) (ai_project_id n) (ai_org_id n)"

fun nearest_named :: "string \<Rightarrow> scope_ref list \<Rightarrow> strategy option rollout_prog" where
  "nearest_named name [] = ret None"
| "nearest_named name (a # as) =
     andThen (attempt (strategy_get_by_name a name) :: (rollout_error + strategy) rollout_prog) (\<lambda>g.
       case g of Inr s \<Rightarrow> ret (Some s) | Inl _ \<Rightarrow> nearest_named name as)"

definition default_template :: "attach_intent \<Rightarrow> target_type \<Rightarrow> strategy option rollout_prog" where
  "default_template n tt =
     andThen (attempt (svc_resolve_default (ai_leaf n) (ai_project_id n) (ai_org_id n) (ai_environment n) (Some tt))
         :: (rollout_error + strategy_default option) rollout_prog) (\<lambda>d.
       case d of
         Inr (Some d') \<Rightarrow>
           andThen (attempt (strategy_get (sd_strategy_id d')) :: (rollout_error + strategy) rollout_prog) (\<lambda>g.
             case g of Inr s \<Rightarrow> ret (Some s) | Inl _ \<Rightarrow> ret None)
       | _ \<Rightarrow> ret None)"

definition resolve_template :: "attach_intent \<Rightarrow> target_type \<Rightarrow> strategy option rollout_prog" where
  "resolve_template n tt =
     (case ai_strategy_id n of
        Some i \<Rightarrow> andThen (wrapped (RolloutWrap ''strategy not found by id'') (strategy_get i)) (\<lambda>s. ret (Some s))
      | None \<Rightarrow>
          if ai_strategy_name n \<noteq> '''' then
            andThen (nearest_named (ai_strategy_name n) (intent_scopes n)) (\<lambda>s.
              case s of None \<Rightarrow> fail (ErrStrategyNameNotFound (ai_strategy_name n)) | Some _ \<Rightarrow> ret s)
          else default_template n tt)"

text \<open>The error of the policy lookup is dropped.\<close>

definition enforce_policy :: "attach_intent \<Rightarrow> target_type \<Rightarrow> strategy option \<Rightarrow> unit rollout_prog" where
  "enforce_policy n tt tmpl =
     andThen (attempt (svc_resolve_policy (ai_leaf n) (ai_project_id n) (ai_org_id n) (ai_environment n) (Some tt))
         :: (rollout_error + rollout_policy option) rollout_prog) (\<lambda>p.
       case p of
         Inr (Some pol) \<Rightarrow>
           if po_enabled pol \<and> po_policy pol = PolicyMandate \<and> tmpl = None then fail ErrMandateWithoutStrategy
           else ret ()
       | _ \<Rightarrow> ret ())"

definition attach_with ::
  "attach_intent \<Rightarrow> target_type \<Rightarrow> (strategy \<Rightarrow> rollout rollout_prog) \<Rightarrow> unit rollout_prog" where
  "attach_with n tt attach =
     andThen (resolve_template n tt) (\<lambda>tmpl.
     andThen (enforce_policy n tt tmpl) (\<lambda>_.
       case tmpl of
         None \<Rightarrow> ret ()
       | Some t \<Rightarrow>
           (case ai_overrides n of
              BadOverrides \<Rightarrow> fail ErrOverridesInvalid
            | NoOverrides \<Rightarrow> andThen (attach (build_snapshot t None)) (\<lambda>_. ret ())
            | Overrides ov \<Rightarrow> andThen (attach (build_snapshot t (Some ov))) (\<lambda>_. ret ()))))"

definition attacher_deploy :: "uuid \<Rightarrow> attach_intent \<Rightarrow> uuid \<Rightarrow> unit rollout_prog" where
  "attacher_deploy dep n actor =
     attach_with n TargetTypeDeploy (\<lambda>snap. svc_attach_deploy dep snap (ai_release_id n) (Some actor))"

definition attacher_config :: "uuid \<Rightarrow> int \<Rightarrow> attach_intent \<Rightarrow> uuid \<Rightarrow> unit rollout_prog" where
  "attacher_config rule prev n actor =
     attach_with n TargetTypeConfig (\<lambda>snap. svc_attach_config rule prev snap (ai_release_id n) (Some actor))"

section \<open>What it resolves\<close>

text \<open>The template and the mandate as the tables say.\<close>

definition template_for :: "rollout_world \<Rightarrow> attach_intent \<Rightarrow> target_type \<Rightarrow> strategy option" where
  "template_for w n tt =
     (case ai_strategy_id n of
        Some i \<Rightarrow> row_of sg_id i (live_strategies w)
      | None \<Rightarrow>
          if ai_strategy_name n \<noteq> '''' then
            first_some (\<lambda>a. find (\<lambda>s. strategy_scope s = a \<and> sg_name s = ai_strategy_name n) (live_strategies w))
              (intent_scopes n)
          else case resolve_default (strategy_defaults w) (intent_scopes n) (ai_environment n) (Some tt) of
            None \<Rightarrow> None
          | Some d \<Rightarrow> row_of sg_id (sd_strategy_id d) (live_strategies w))"

definition asked_for :: "attach_intent \<Rightarrow> bool" where
  "asked_for n \<longleftrightarrow> ai_strategy_id n \<noteq> None \<or> ai_strategy_name n \<noteq> ''''"

definition mandated :: "rollout_world \<Rightarrow> attach_intent \<Rightarrow> target_type \<Rightarrow> bool" where
  "mandated w n tt =
     (case resolve_policy (rollout_policies w) (intent_scopes n) (ai_environment n) (Some tt) of
        None \<Rightarrow> False | Some p \<Rightarrow> po_enabled p \<and> po_policy p = PolicyMandate)"

text \<open>The reads leave everything but the call counter alone.\<close>

definition counted :: "rollout_world \<Rightarrow> rollout_world \<Rightarrow> bool" where
  "counted s t \<longleftrightarrow> (\<exists>n. t = s\<lparr>calls := n\<rparr>)"

lemma counted_simps:
  assumes "counted s t"
  shows "rollouts t = rollouts s" "live_strategies t = live_strategies s" "calm t = calm s"
    "strategy_defaults t = strategy_defaults s" "rollout_policies t = rollout_policies s"
  using assms by (auto simp: counted_def live_strategies_def)

lemma counted_refl: "counted s s"
  unfolding counted_def by (intro exI[of _ "calls s"]) simp

lemma counted_trans: "counted s t \<Longrightarrow> counted t u \<Longrightarrow> counted s u"
  by (auto simp: counted_def)

lemma counted_more: "counted s t \<Longrightarrow> counted s (t\<lparr>calls := n\<rparr>)"
  by (auto simp: counted_def)

text \<open>Gathering the rows of the ancestors loses none that a resolver could choose.\<close>

lemma resolve_gathered:
  "resolve_rows ref renv rtt (concat (map (\<lambda>a. filter (\<lambda>r. ref r = a) rows) as)) as e target =
   resolve_rows ref renv rtt rows as e target" if "distinct as"
proof -
  have bucket: "filter (\<lambda>r. ref r = b) (concat (map (\<lambda>a. filter (\<lambda>r. ref r = a) rows) xs)) =
      (if b \<in> set xs then filter (\<lambda>r. ref r = b) rows else [])" if "distinct xs" for b xs
    using that
  proof (induction xs)
    case (Cons a xs)
    have "filter (\<lambda>r. ref r = b) (filter (\<lambda>r. ref r = a) rows) =
        (if b = a then filter (\<lambda>r. ref r = a) rows else [])"
      by (auto simp: filter_empty_conv conj_commute)
    with Cons show ?case by auto
  qed simp
  have cong: "first_some f xs = first_some g xs" if "\<And>x. x \<in> set xs \<Longrightarrow> f x = g x"
    for xs :: "scope_ref list" and f g :: "scope_ref \<Rightarrow> 'r option"
    using that by (induction xs) (auto split: option.splits)
  show ?thesis unfolding resolve_rows_def by (rule cong) (simp add: bucket[OF \<open>distinct as\<close>])
qed

lemma resolve_default_calm:
  assumes "calm s"
  shows "\<exists>t. svc_resolve_default leaf project org e target s =
     (Inr (resolve_default (strategy_defaults s) (ancestor_scopes leaf project org) e target), t) \<and> counted s t"
proof -
  have "\<exists>t. gather default_list as u =
      (Inr (concat (map (\<lambda>a. filter (\<lambda>d. default_scope d = a) (strategy_defaults s)) as)), t) \<and> counted u t"
    if "calm u" "strategy_defaults u = strategy_defaults s" for as u
    using that
  proof (induction as arbitrary: u)
    case (Cons a as)
    let ?v = "u\<lparr>calls := Suc (calls u)\<rparr>"
    from Cons.IH[of ?v] Cons.prems show ?case
      by (auto simp: default_list_def prog_defs counted_def)
  qed (simp add: ret_def counted_refl)
  from this[OF assms refl, of "ancestor_scopes leaf project org"] show ?thesis
    by (auto simp: svc_resolve_default_def resolve_default_def Let_def prog_defs resolve_gathered ancestor_scopes_distinct)
qed

lemma resolve_policy_calm:
  assumes "calm s"
  shows "\<exists>t. svc_resolve_policy leaf project org e target s =
     (Inr (resolve_policy (rollout_policies s) (ancestor_scopes leaf project org) e target), t) \<and> counted s t"
proof -
  have "\<exists>t. gather policy_list as u =
      (Inr (concat (map (\<lambda>a. filter (\<lambda>d. policy_scope d = a) (rollout_policies s)) as)), t) \<and> counted u t"
    if "calm u" "rollout_policies u = rollout_policies s" for as u
    using that
  proof (induction as arbitrary: u)
    case (Cons a as)
    let ?v = "u\<lparr>calls := Suc (calls u)\<rparr>"
    from Cons.IH[of ?v] Cons.prems show ?case
      by (auto simp: policy_list_def prog_defs counted_def)
  qed (simp add: ret_def counted_refl)
  from this[OF assms refl, of "ancestor_scopes leaf project org"] show ?thesis
    by (auto simp: svc_resolve_policy_def resolve_policy_def Let_def prog_defs resolve_gathered ancestor_scopes_distinct)
qed

lemma nearest_named_calm:
  assumes "calm s"
  shows "\<exists>t. nearest_named name as s =
    (Inr (first_some (\<lambda>a. find (\<lambda>x. strategy_scope x = a \<and> sg_name x = name) (live_strategies s)) as), t) \<and> counted s t"
  using assms
proof (induction as arbitrary: s)
  case (Cons a as)
  let ?u = "s\<lparr>calls := Suc (calls s)\<rparr>"
  have cond: "(\<lambda>x. sg_scope_type x = sc_type a \<and> sg_scope_id x = sc_id a \<and> sg_name x = name) =
      (\<lambda>x. strategy_scope x = a \<and> sg_name x = name)"
    by (auto simp: strategy_scope_def fun_eq_iff)
  have live: "live_strategies ?u = live_strategies s" by (simp add: live_strategies_def)
  show ?case
  proof (cases "find (\<lambda>x. strategy_scope x = a \<and> sg_name x = name) (live_strategies s)")
    case None
    with Cons.IH[of ?u] Cons.prems live show ?thesis
      by (auto simp: strategy_get_by_name_def cond prog_defs counted_def)
  next
    case (Some x)
    with Cons.prems live show ?thesis
      by (auto simp: strategy_get_by_name_def cond prog_defs counted_def)
  qed
qed (simp add: ret_def counted_refl)

lemma strategy_get_calm:
  "calm s \<Longrightarrow> \<exists>t. strategy_get i s =
     (case row_of sg_id i (live_strategies s) of None \<Rightarrow> Inl ErrStrategyNotFound | Some x \<Rightarrow> Inr x, t) \<and> counted s t"
  by (auto simp: strategy_get_def prog_defs live_strategies_def counted_def split: option.splits)

lemma resolve_template_calm:
  assumes "calm s"
  shows "\<exists>t r. resolve_template n tt s = (r, t) \<and> counted s t \<and>
    (if template_for s n tt = None \<and> asked_for n then \<exists>e. r = Inl e else r = Inr (template_for s n tt))"
proof (cases "ai_strategy_id n")
  case (Some i)
  with strategy_get_calm[OF assms, of i] show ?thesis
    by (auto simp: resolve_template_def template_for_def asked_for_def prog_defs split: option.splits)
next
  case None
  show ?thesis
  proof (cases "ai_strategy_name n = ''''")
    case False
    with None nearest_named_calm[OF assms, of "ai_strategy_name n" "intent_scopes n"] show ?thesis
      by (auto simp: resolve_template_def template_for_def asked_for_def prog_defs split: option.splits)
  next
    case True
    let ?d = "resolve_default (strategy_defaults s) (intent_scopes n) (ai_environment n) (Some tt)"
    obtain u where u: "svc_resolve_default (ai_leaf n) (ai_project_id n) (ai_org_id n) (ai_environment n) (Some tt) s
        = (Inr ?d, u)" "counted s u"
      using resolve_default_calm[OF assms] unfolding intent_scopes_def by blast
    show ?thesis
    proof (cases ?d)
      case none: None
      with None True u show ?thesis
        by (simp add: resolve_template_def template_for_def asked_for_def default_template_def prog_defs)
    next
      case (Some d)
      have "calm u" using counted_simps(3)[OF u(2)] assms by simp
      from strategy_get_calm[OF this, of "sd_strategy_id d"] counted_simps(2)[OF u(2)]
      obtain v where v: "strategy_get (sd_strategy_id d) u = (case row_of sg_id (sd_strategy_id d) (live_strategies s) of
          None \<Rightarrow> Inl ErrStrategyNotFound | Some x \<Rightarrow> Inr x, v)" "counted u v" by auto
      have "counted s v" using u(2) v(2) by (rule counted_trans)
      with None True u(1) v(1) Some show ?thesis
        by (auto simp: resolve_template_def template_for_def asked_for_def default_template_def prog_defs
            split: option.splits)
    qed
  qed
qed

lemma enforce_policy_calm:
  assumes "calm s"
  shows "\<exists>t. enforce_policy n tt tmpl s =
    (if mandated s n tt \<and> tmpl = None then Inl ErrMandateWithoutStrategy else Inr (), t) \<and> counted s t"
proof -
  obtain u where u: "svc_resolve_policy (ai_leaf n) (ai_project_id n) (ai_org_id n) (ai_environment n) (Some tt) s
      = (Inr (resolve_policy (rollout_policies s) (intent_scopes n) (ai_environment n) (Some tt)), u)" "counted s u"
    using resolve_policy_calm[OF assms] unfolding intent_scopes_def by blast
  then show ?thesis
    by (auto simp: enforce_policy_def mandated_def prog_defs split: option.splits)
qed

text \<open>
  As long as the database answers, attaching follows the tables: the template is the
  one asked for by identifier or by its nearest name, else the one the most specific default
  names; an unknown template that was asked for is an error, no template under a mandate
  is an error, no template without one attaches nothing, and otherwise the rollout service
  receives exactly the snapshot of the template, on an unchanged store.
\<close>

theorem attach_resolves:
  assumes "calm s"
  shows "\<exists>t. counted s t \<and> attach_with n tt attach s =
    (case template_for s n tt of
       None \<Rightarrow>
         if asked_for n then (fst (attach_with n tt attach s), t)
         else if mandated s n tt then (Inl ErrMandateWithoutStrategy, t) else (Inr (), t)
     | Some tmpl \<Rightarrow>
         (case ai_overrides n of
            BadOverrides \<Rightarrow> (Inl ErrOverridesInvalid, t)
          | NoOverrides \<Rightarrow> andThen (attach (build_snapshot tmpl None)) (\<lambda>_. ret ()) t
          | Overrides ov \<Rightarrow> andThen (attach (build_snapshot tmpl (Some ov))) (\<lambda>_. ret ()) t)) \<and>
    (template_for s n tt = None \<and> asked_for n \<longrightarrow> (\<exists>e. fst (attach_with n tt attach s) = Inl e))"
proof -
  obtain u r where r: "resolve_template n tt s = (r, u)" "counted s u"
    "if template_for s n tt = None \<and> asked_for n then \<exists>e. r = Inl e else r = Inr (template_for s n tt)"
    using resolve_template_calm[OF assms] by blast
  show ?thesis
  proof (cases "template_for s n tt = None \<and> asked_for n")
    case True
    with r show ?thesis by (auto simp: attach_with_def prog_defs)
  next
    case False
    with r(3) have rt: "r = Inr (template_for s n tt)" by (simp only: if_False)
    have "calm u" "mandated u n tt = mandated s n tt"
      using counted_simps[OF r(2)] assms by (simp_all add: mandated_def)
    with enforce_policy_calm[of u n tt "template_for s n tt"] obtain v where
      v: "enforce_policy n tt (template_for s n tt) u =
        (if mandated s n tt \<and> template_for s n tt = None then Inl ErrMandateWithoutStrategy else Inr (), v)" "counted u v"
      by auto
    have "counted s v" using r(2) v(2) by (rule counted_trans)
    with False r(1) rt v(1) show ?thesis
      by (intro exI[of _ v] conjI)
        (auto simp: attach_with_def andThen_def ret_def fail_def split: option.splits sent_overrides.splits)
  qed
qed

text \<open>
  The mandate is not enforced when the store cannot be read: an attachment that names
  no template succeeds without attaching a rollout, whatever the policies say.
\<close>

theorem mandate_fails_open:
  assumes "\<And>k. fault s k" and "\<not> asked_for n" and "intent_scopes n \<noteq> []"
  shows "fst (attach_with n tt attach s) = Inr () \<and> rollouts (snd (attach_with n tt attach s)) = rollouts s"
proof -
  obtain a as where sc: "ancestor_scopes (ai_leaf n) (ai_project_id n) (ai_org_id n) = a # as"
    using assms(3) by (cases "intent_scopes n") (auto simp: intent_scopes_def)
  let ?u = "s\<lparr>calls := Suc (calls s)\<rparr>"
  have "resolve_template n tt s = (Inr None, ?u)"
    using assms(1,2) by (simp add: resolve_template_def asked_for_def default_template_def svc_resolve_default_def
        sc default_list_def prog_defs)
  moreover have "enforce_policy n tt None ?u = (Inr (), ?u\<lparr>calls := Suc (Suc (calls s))\<rparr>)"
    using assms(1) by (simp add: enforce_policy_def svc_resolve_policy_def sc policy_list_def prog_defs)
  ultimately show ?thesis by (simp add: attach_with_def prog_defs)
qed

definition plain_intent :: attach_intent where
  "plain_intent = \<lparr>ai_strategy_id = None, ai_strategy_name = '''', ai_overrides = NoOverrides,
     ai_release_id = None, ai_leaf = \<lparr>sc_type = ScopeOrg, sc_id = 1\<rparr>, ai_project_id = None,
     ai_org_id = Some 1, ai_environment = None\<rparr>"

theorem attach_resolves_witness:
  "fst (attacher_deploy 7 plain_intent 1 (sample_rollout_world (\<lambda>_. False) [])) = Inr ()"
proof -
  let ?s = "sample_rollout_world (\<lambda>_. False) []"
  have "calm ?s" by (simp add: calm_def sample_rollout_world_def)
  moreover have "template_for ?s plain_intent TargetTypeDeploy = None" "\<not> asked_for plain_intent"
    "\<not> mandated ?s plain_intent TargetTypeDeploy"
    by code_simp+
  ultimately show ?thesis
    using attach_resolves[of ?s plain_intent TargetTypeDeploy
        "\<lambda>snap. svc_attach_deploy 7 snap (ai_release_id plain_intent) (Some 1)"]
    by (auto simp: attacher_deploy_def)
qed

definition mandate_row :: rollout_policy where
  "mandate_row = \<lparr>po_id = 3, po_scope_type = ScopeOrg, po_scope_id = 1, po_environment = None,
     po_target_type = None, po_enabled = True, po_policy = PolicyMandate, po_created_by = None,
     po_updated_by = None, po_created_at = 0, po_updated_at = 0\<rparr>"

theorem mandate_fails_open_witness:
  "fst (attacher_deploy 7 plain_intent 1
     ((sample_rollout_world (\<lambda>_. True) [])\<lparr>rollout_policies := [mandate_row]\<rparr>)) = Inr ()"
  using mandate_fails_open[of "(sample_rollout_world (\<lambda>_. True) [])\<lparr>rollout_policies := [mandate_row]\<rparr>" plain_intent
      TargetTypeDeploy "\<lambda>snap. svc_attach_deploy 7 snap (ai_release_id plain_intent) (Some 1)"]
  by (simp add: attacher_deploy_def sample_rollout_world_def asked_for_def plain_intent_def intent_scopes_def
      ancestor_scopes_def)

end
