(* ===== verification/FlagJson.thy ===== *)
theory FlagJson
  imports FlagService "HOL-Library.Monad_Syntax"
begin

text \<open>
  Flags, rules and states as JSON documents: what \<open>json.Unmarshal\<close> makes of a document for the
  structs of \<open>internal/models/flag.go\<close> and for the payloads of the staging layer and the audit
  log. Parsing an identifier (\<open>parse\<close>) and the text of a raw value (\<open>raw\<close>) are parameters.
\<close>

section \<open>Enumerations\<close>

definition flag_type_of :: "string \<Rightarrow> flag_type" where
  "flag_type_of s =
     (if s = ''boolean'' then FlagTypeBoolean else if s = ''string'' then FlagTypeString
      else if s = ''integer'' then FlagTypeInteger else if s = ''json'' then FlagTypeJSON
      else FlagTypeText s)"

definition flag_category_of :: "string \<Rightarrow> flag_category" where
  "flag_category_of s =
     (if s = '''' then FlagCategoryUnset else if s = ''release'' then FlagCategoryRelease
      else if s = ''feature'' then FlagCategoryFeature else if s = ''experiment'' then FlagCategoryExperiment
      else if s = ''ops'' then FlagCategoryOps else if s = ''permission'' then FlagCategoryPermission
      else FlagCategoryText s)"

fun flag_category_text :: "flag_category \<Rightarrow> string" where
  "flag_category_text FlagCategoryUnset = ''''"
| "flag_category_text FlagCategoryRelease = ''release''"
| "flag_category_text FlagCategoryFeature = ''feature''"
| "flag_category_text FlagCategoryExperiment = ''experiment''"
| "flag_category_text FlagCategoryOps = ''ops''"
| "flag_category_text FlagCategoryPermission = ''permission''"
| "flag_category_text (FlagCategoryText s) = s"

definition rule_type_of :: "string \<Rightarrow> rule_type" where
  "rule_type_of s =
     (if s = ''percentage'' then RuleTypePercentage else if s = ''user_target'' then RuleTypeUserTarget
      else if s = ''attribute'' then RuleTypeAttribute else if s = ''segment'' then RuleTypeSegment
      else if s = ''schedule'' then RuleTypeSchedule else if s = ''compound'' then RuleTypeCompound
      else RuleTypeText s)"

definition test_status_of :: "string \<Rightarrow> lifecycle_test_status" where
  "test_status_of s =
     (if s = ''pending'' then LifecycleTestPending else if s = ''pass'' then LifecycleTestPass
      else if s = ''fail'' then LifecycleTestFail else LifecycleTestText s)"

section \<open>Structs\<close>

text \<open>\<open>null\<close> leaves a struct as it is; anything but an object is refused.\<close>

fun members_of :: "json \<Rightarrow> (string \<times> json) list option" where
  "members_of JNull = Some []"
| "members_of (JObj ms) = Some ms"
| "members_of _ = None"

abbreviation string_field :: "string \<Rightarrow> (string \<times> json) list \<Rightarrow> string option" where
  "string_field field ms \<equiv> decode_field as_string field '''' ms"

abbreviation bool_field :: "string \<Rightarrow> (string \<times> json) list \<Rightarrow> bool option" where
  "bool_field field ms \<equiv> decode_field as_bool field False ms"

abbreviation time_field :: "string \<Rightarrow> (string \<times> json) list \<Rightarrow> time option" where
  "time_field field ms \<equiv> decode_field as_time field 0 ms"

abbreviation uuid_field :: "(string \<Rightarrow> uuid option) \<Rightarrow> string \<Rightarrow> (string \<times> json) list \<Rightarrow> uuid option" where
  "uuid_field parse field ms \<equiv> decode_field (as_uuid parse) field uuid_nil ms"

definition as_test_status :: "json \<Rightarrow> lifecycle_test_status option" where
  "as_test_status v = map_option test_status_of (as_string v)"

definition decode_flag :: "(string \<Rightarrow> uuid option) \<Rightarrow> json \<Rightarrow> feature_flag option" where
  "decode_flag parse v =
     do {
       ms \<leftarrow> members_of v;
       i \<leftarrow> uuid_field parse ''id'' ms;
       project \<leftarrow> uuid_field parse ''project_id'' ms;
       app \<leftarrow> decode_ptr (as_uuid parse) ''application_id'' ms;
       envi \<leftarrow> decode_ptr (as_uuid parse) ''environment_id'' ms;
       key \<leftarrow> string_field ''key'' ms;
       name \<leftarrow> string_field ''name'' ms;
       description \<leftarrow> string_field ''description'' ms;
       ty \<leftarrow> string_field ''flag_type'' ms;
       category \<leftarrow> string_field ''category'' ms;
       purpose \<leftarrow> string_field ''purpose'' ms;
       owners \<leftarrow> decode_slice as_string_item ''owners'' ms;
       permanent \<leftarrow> bool_field ''is_permanent'' ms;
       expires \<leftarrow> decode_ptr as_time ''expires_at'' ms;
       enabled \<leftarrow> bool_field ''enabled'' ms;
       default \<leftarrow> string_field ''default_value'' ms;
       archived \<leftarrow> bool_field ''archived'' ms;
       archived_at \<leftarrow> decode_ptr as_time ''archived_at'' ms;
       tags \<leftarrow> decode_slice as_string_item ''tags'' ms;
       created_by \<leftarrow> uuid_field parse ''created_by'' ms;
       created_at \<leftarrow> time_field ''created_at'' ms;
       updated_at \<leftarrow> time_field ''updated_at'' ms;
       delete_after \<leftarrow> decode_ptr as_time ''delete_after'' ms;
       smoke \<leftarrow> decode_ptr as_test_status ''smoke_test_status'' ms;
       user \<leftarrow> decode_ptr as_test_status ''user_test_status'' ms;
       removal \<leftarrow> decode_ptr as_time ''scheduled_removal_at'' ms;
       iterations \<leftarrow> decode_field as_int ''iteration_count'' 0 ms;
       exhausted \<leftarrow> bool_field ''iteration_exhausted'' ms;
       smoke_notes \<leftarrow> decode_ptr as_string ''last_smoke_test_notes'' ms;
       user_notes \<leftarrow> decode_ptr as_string ''last_user_test_notes'' ms;
       Some \<lparr>ff_id = i, ff_project_id = project, ff_application_id = app, ff_environment_id = envi,
             ff_key = key, ff_name = name, ff_description = description, ff_flag_type = flag_type_of ty,
             ff_category = flag_category_of category, ff_purpose = purpose, ff_owners = owners,
             ff_is_permanent = permanent, ff_expires_at = expires, ff_enabled = enabled,
             ff_default_value = default, ff_archived = archived, ff_archived_at = archived_at,
             ff_tags = tags, ff_created_by = created_by, ff_created_at = created_at,
             ff_updated_at = updated_at, ff_delete_after = delete_after, ff_smoke_test_status = smoke,
             ff_user_test_status = user, ff_scheduled_removal_at = removal, ff_iteration_count = iterations,
             ff_iteration_exhausted = exhausted, ff_last_smoke_test_notes = smoke_notes,
             ff_last_user_test_notes = user_notes\<rparr>
     }"

definition decode_condition :: "json \<Rightarrow> compound_condition option" where
  "decode_condition v =
     do {
       ms \<leftarrow> members_of v;
       attribute \<leftarrow> string_field ''attribute'' ms;
       operator \<leftarrow> string_field ''operator'' ms;
       val \<leftarrow> string_field ''value'' ms;
       Some \<lparr>cc_attribute = attribute, cc_operator = operator, cc_value = val\<rparr>
     }"

definition decode_rule :: "(string \<Rightarrow> uuid option) \<Rightarrow> json \<Rightarrow> targeting_rule option" where
  "decode_rule parse v =
     do {
       ms \<leftarrow> members_of v;
       i \<leftarrow> uuid_field parse ''id'' ms;
       flag \<leftarrow> uuid_field parse ''flag_id'' ms;
       ty \<leftarrow> string_field ''rule_type'' ms;
       priority \<leftarrow> decode_field as_int ''priority'' 0 ms;
       val \<leftarrow> string_field ''value'' ms;
       percentage \<leftarrow> decode_ptr as_int ''percentage'' ms;
       attribute \<leftarrow> string_field ''attribute'' ms;
       operator \<leftarrow> string_field ''operator'' ms;
       targets \<leftarrow> decode_slice as_string_item ''target_values'' ms;
       segment \<leftarrow> decode_ptr (as_uuid parse) ''segment_id'' ms;
       conditions \<leftarrow> decode_slice decode_condition ''conditions'' ms;
       combine \<leftarrow> string_field ''combine_op'' ms;
       start \<leftarrow> decode_ptr as_time ''start_time'' ms;
       end_time \<leftarrow> decode_ptr as_time ''end_time'' ms;
       enabled \<leftarrow> bool_field ''enabled'' ms;
       created_at \<leftarrow> time_field ''created_at'' ms;
       updated_at \<leftarrow> time_field ''updated_at'' ms;
       Some \<lparr>tg_id = i, tg_flag_id = flag, tg_rule_type = rule_type_of ty, tg_priority = priority,
             tg_value = val, tg_percentage = percentage, tg_attribute = attribute, tg_operator = operator,
             tg_target_values = targets, tg_segment_id = segment, tg_conditions = conditions,
             tg_combine_op = combine, tg_start_time = start, tg_end_time = end_time, tg_enabled = enabled,
             tg_created_at = created_at, tg_updated_at = updated_at\<rparr>
     }"

definition decode_env_state ::
  "(string \<Rightarrow> uuid option) \<Rightarrow> (json \<Rightarrow> string) \<Rightarrow> json \<Rightarrow> flag_environment_state option" where
  "decode_env_state parse raw v =
     do {
       ms \<leftarrow> members_of v;
       i \<leftarrow> uuid_field parse ''id'' ms;
       flag \<leftarrow> uuid_field parse ''flag_id'' ms;
       envi \<leftarrow> uuid_field parse ''environment_id'' ms;
       enabled \<leftarrow> bool_field ''enabled'' ms;
       val \<leftarrow> decode_ptr (\<lambda>v. Some (raw v)) ''value'' ms;
       updated_by \<leftarrow> decode_ptr (as_uuid parse) ''updated_by'' ms;
       updated_at \<leftarrow> time_field ''updated_at'' ms;
       Some \<lparr>fs_id = i, fs_flag_id = flag, fs_environment_id = envi, fs_enabled = enabled,
             fs_value = val, fs_updated_by = updated_by, fs_updated_at = updated_at\<rparr>
     }"

section \<open>Payloads\<close>

text \<open>\<open>togglePayload\<close>, \<open>ruleEnvStatePayload\<close> and the payloads the audit log is reverted from.\<close>

definition decode_toggle :: "json \<Rightarrow> bool option" where
  "decode_toggle v = do { ms \<leftarrow> members_of v; bool_field ''enabled'' ms }"

definition decode_rule_id :: "(string \<Rightarrow> uuid option) \<Rightarrow> json \<Rightarrow> uuid option" where
  "decode_rule_id parse v = do { ms \<leftarrow> members_of v; uuid_field parse ''rule_id'' ms }"

definition decode_rule_state :: "(string \<Rightarrow> uuid option) \<Rightarrow> json \<Rightarrow> (uuid \<times> uuid \<times> bool) option" where
  "decode_rule_state parse v =
     do {
       ms \<leftarrow> members_of v;
       rule \<leftarrow> uuid_field parse ''rule_id'' ms;
       envi \<leftarrow> uuid_field parse ''environment_id'' ms;
       enabled \<leftarrow> bool_field ''enabled'' ms;
       Some (rule, envi, enabled)
     }"

definition decode_rule_switch :: "(string \<Rightarrow> uuid option) \<Rightarrow> json \<Rightarrow> (uuid \<times> bool) option" where
  "decode_rule_switch parse v =
     do {
       ms \<leftarrow> members_of v;
       envi \<leftarrow> uuid_field parse ''environment_id'' ms;
       enabled \<leftarrow> bool_field ''enabled'' ms;
       Some (envi, enabled)
     }"

definition decode_env_payload ::
  "(string \<Rightarrow> uuid option) \<Rightarrow> (json \<Rightarrow> string) \<Rightarrow> json \<Rightarrow> (uuid \<times> bool \<times> string option) option" where
  "decode_env_payload parse raw v =
     do {
       ms \<leftarrow> members_of v;
       envi \<leftarrow> uuid_field parse ''environment_id'' ms;
       enabled \<leftarrow> bool_field ''enabled'' ms;
       val \<leftarrow> decode_ptr (\<lambda>v. Some (raw v)) ''value'' ms;
       Some (envi, enabled, val)
     }"

text \<open>What \<open>updateFlag\<close> writes to the audit log: the fields it can change, and no others.\<close>

definition flag_audit_value :: "feature_flag \<Rightarrow> json" where
  "flag_audit_value f = JObj
     [(''category'', JStr (flag_category_text (ff_category f))), (''default_value'', JStr (ff_default_value f)),
      (''description'', JStr (ff_description f)),
      (''expires_at'', case ff_expires_at f of None \<Rightarrow> JNull | Some t \<Rightarrow> JStr (format_rfc3339 t)),
      (''is_permanent'', JBool (ff_is_permanent f)), (''name'', JStr (ff_name f)),
      (''owners'', JArr (map JStr (ff_owners f))), (''purpose'', JStr (ff_purpose f)),
      (''tags'', JArr (map JStr (ff_tags f)))]"

lemma bind_SomeE: "Option.bind x f = Some y \<Longrightarrow> (\<And>z. x = Some z \<Longrightarrow> f z = Some y \<Longrightarrow> P) \<Longrightarrow> P"
  by (cases x) auto

text \<open>The audit value names neither the type of the flag nor whether it is enabled.\<close>

lemma audit_value_untyped:
  "decode_flag parse (flag_audit_value f) = Some g \<Longrightarrow> ff_flag_type g = FlagTypeText '''' \<and> \<not> ff_enabled g"
proof -
  have missing: "field_values ''flag_type''
      (case flag_audit_value f of JObj ms \<Rightarrow> ms | _ \<Rightarrow> []) = []"
    "field_values ''enabled'' (case flag_audit_value f of JObj ms \<Rightarrow> ms | _ \<Rightarrow> []) = []"
    by (simp_all add: flag_audit_value_def field_values_def names_field_def lower_code_def)
  assume "decode_flag parse (flag_audit_value f) = Some g"
  with missing show ?thesis
    by (auto simp: decode_flag_def flag_audit_value_def flag_type_of_def elim!: bind_SomeE)
qed

end
