(* ===== verification/Settings.thy ===== *)
theory Settings
  imports FlagJson
begin

text \<open>
  Hierarchical settings: the model (\<open>internal/models/setting.go\<close>), the repository
  (\<open>internal/platform/database/postgres/settings.go\<close>) and the service
  (\<open>internal/settings/service.go\<close>). The column \<open>value\<close> holds a document. Whether the entities
  a setting refers to exist is decided outside: a foreign key that refuses a row is a call
  that fails. The listings only order rows by key and are left out.
\<close>

section \<open>Settings\<close>

record setting =
  se_id :: uuid
  se_org_id :: "uuid option"
  se_project_id :: "uuid option"
  se_application_id :: "uuid option"
  se_environment_id :: "uuid option"
  se_key :: string
  se_value :: "json option"
  se_updated_by :: "uuid option"
  se_updated_at :: time

datatype setting_invalid = SettingKeyRequired | SettingValueRequired | SettingScopeRequired | SettingScopeAmbiguous

datatype setting_error =
    SettingNotFound
  | SettingConflict
  | SettingDriver string
  | SettingInvalid setting_invalid
  | SettingWrap string setting_error

text \<open>The scopes that are set, the most specific first.\<close>

definition setting_scopes :: "setting \<Rightarrow> (string \<times> uuid) list" where
  "setting_scopes s = List.map_filter id
     [map_option (Pair ''environment'') (se_environment_id s), map_option (Pair ''application'') (se_application_id s),
      map_option (Pair ''project'') (se_project_id s), map_option (Pair ''org'') (se_org_id s)]"

definition validate_setting :: "setting \<Rightarrow> setting_invalid option" where
  "validate_setting s =
     (if se_key s = '''' then Some SettingKeyRequired
      else if se_value s = None then Some SettingValueRequired
      else if setting_scopes s = [] then Some SettingScopeRequired
      else if length (setting_scopes s) > 1 then Some SettingScopeAmbiguous
      else None)"

definition scope_level :: "setting \<Rightarrow> string" where
  "scope_level s = (case setting_scopes s of [] \<Rightarrow> '''' | (level, _) # _ \<Rightarrow> level)"

section \<open>The repository\<close>

record settings_world = env +
  settings :: "setting list"

type_synonym ('x, 'a) setting_prog = "('x settings_world_scheme, setting_error, 'a) prog"

text \<open>The checks of a row, and the four partial unique indexes.\<close>

definition setting_row_ok :: "setting \<Rightarrow> bool" where
  "setting_row_ok s \<longleftrightarrow> length (setting_scopes s) = 1 \<and> se_value s \<noteq> None"

definition same_slot :: "setting \<Rightarrow> setting \<Rightarrow> bool" where
  "same_slot s r \<longleftrightarrow> se_key r = se_key s \<and> setting_scopes r = setting_scopes s"

definition create_setting :: "setting \<Rightarrow> ('x, setting) setting_prog" where
  "create_setting s =
     andThen time_now (\<lambda>now.
     andThen (if se_id s = uuid_nil then uuid_new else ret (se_id s)) (\<lambda>i.
       let s' = s\<lparr>se_id := i, se_updated_at := now\<rparr>
       in andThen (ext_call (SettingDriver ''postgres.CreateSetting'')) (\<lambda>_.
          andThen get_state (\<lambda>w.
            if \<not> setting_row_ok s' then fail (SettingDriver ''postgres.CreateSetting'')
            else if row_of se_id i (settings w) \<noteq> None \<or> list_ex (same_slot s') (settings w)
            then fail SettingConflict
            else andThen (modify (\<lambda>w. w\<lparr>settings := settings w @ [s']\<rparr>)) (\<lambda>_. ret s')))))"

definition get_setting_by_id :: "uuid \<Rightarrow> ('x, setting) setting_prog" where
  "get_setting_by_id i =
     andThen (ext_call (SettingWrap ''postgres.GetSettingByID'' (SettingDriver ''select settings''))) (\<lambda>_.
     andThen get_state (\<lambda>w.
       case row_of se_id i (settings w) of
         None \<Rightarrow> fail (SettingWrap ''postgres.GetSettingByID'' SettingNotFound) | Some s \<Rightarrow> ret s))"

text \<open>One query per scope that is asked for, up to the first that finds the key.\<close>

fun resolve_setting_from :: "string \<Rightarrow> (string \<times> uuid option) list \<Rightarrow> ('x, setting) setting_prog" where
  "resolve_setting_from key [] = fail SettingNotFound"
| "resolve_setting_from key ((level, None) # rest) = resolve_setting_from key rest"
| "resolve_setting_from key ((level, Some i) # rest) =
     andThen (ext_call (SettingWrap ''postgres.ResolveSetting'' (SettingDriver ''select settings''))) (\<lambda>_.
     andThen get_state (\<lambda>w.
       case find (\<lambda>s. se_key s = key \<and> (level, i) \<in> set (setting_scopes s)) (settings w) of
         Some s \<Rightarrow> ret s | None \<Rightarrow> resolve_setting_from key rest))"

definition resolve_setting ::
  "string \<Rightarrow> uuid option \<Rightarrow> uuid option \<Rightarrow> uuid option \<Rightarrow> uuid option \<Rightarrow> ('x, setting) setting_prog" where
  "resolve_setting key org project app envi =
     resolve_setting_from key [(''environment'', envi), (''application'', app), (''project'', project), (''org'', org)]"

text \<open>
  An insert that meets a row of the same scope and key changes its value, its author and its
  time, and keeps its identifier, whatever the identifier of the new row.
\<close>

definition upsert_setting :: "setting \<Rightarrow> ('x, setting) setting_prog" where
  "upsert_setting s =
     andThen time_now (\<lambda>now.
     andThen (if se_id s = uuid_nil then uuid_new else ret (se_id s)) (\<lambda>i.
       let s' = s\<lparr>se_id := i, se_updated_at := now\<rparr>
       in if scope_level s = '''' then fail (SettingDriver ''postgres.UpsertSetting: no scope set'')
          else andThen (ext_call (SettingDriver ''postgres.UpsertSetting'')) (\<lambda>_.
               andThen get_state (\<lambda>w.
                 if \<not> setting_row_ok s' then fail (SettingDriver ''postgres.UpsertSetting'')
                 else case find (same_slot s') (settings w) of
                   Some r \<Rightarrow>
                     andThen (modify (\<lambda>w. w\<lparr>settings := map (\<lambda>q. if same_slot s' q
                       then q\<lparr>se_value := se_value s, se_updated_by := se_updated_by s, se_updated_at := now\<rparr>
                       else q) (settings w)\<rparr>)) (\<lambda>_. ret (s'\<lparr>se_id := se_id r\<rparr>))
                 | None \<Rightarrow>
                     if row_of se_id i (settings w) \<noteq> None then fail (SettingDriver ''postgres.UpsertSetting'')
                     else andThen (modify (\<lambda>w. w\<lparr>settings := settings w @ [s']\<rparr>)) (\<lambda>_. ret s')))))"

definition delete_setting :: "uuid \<Rightarrow> ('x, unit) setting_prog" where
  "delete_setting i =
     andThen (ext_call (SettingDriver ''postgres.DeleteSetting'')) (\<lambda>_.
     andThen get_state (\<lambda>w.
       if row_of se_id i (settings w) = None then fail SettingNotFound
       else modify (\<lambda>w. w\<lparr>settings := filter (\<lambda>s. se_id s \<noteq> i) (settings w)\<rparr>)))"

section \<open>The service\<close>

definition svc_resolve_setting ::
  "string \<Rightarrow> uuid option \<Rightarrow> uuid option \<Rightarrow> uuid option \<Rightarrow> uuid option \<Rightarrow> ('x, setting) setting_prog" where
  "svc_resolve_setting key org project app envi =
     wrapped (SettingWrap ''resolving setting'') (resolve_setting key org project app envi)"

definition svc_set_setting :: "setting \<Rightarrow> ('x, setting) setting_prog" where
  "svc_set_setting s =
     andThen time_now (\<lambda>now.
       case validate_setting (s\<lparr>se_updated_at := now\<rparr>) of
         Some e \<Rightarrow> fail (SettingWrap ''validation failed'' (SettingInvalid e))
       | None \<Rightarrow> wrapped (SettingWrap ''setting value'') (upsert_setting (s\<lparr>se_updated_at := now\<rparr>)))"

definition svc_delete_setting :: "uuid \<Rightarrow> ('x, unit) setting_prog" where
  "svc_delete_setting i = wrapped (SettingWrap ''deleting setting'') (delete_setting i)"

section \<open>As a document\<close>

text \<open>The value is kept as it is, a null included; a document without the member has none.\<close>

definition raw_field :: "string \<Rightarrow> (string \<times> json) list \<Rightarrow> json option" where
  "raw_field field ms = (case rev (field_values field ms) of [] \<Rightarrow> None | v # _ \<Rightarrow> Some v)"

definition decode_setting :: "(string \<Rightarrow> uuid option) \<Rightarrow> json \<Rightarrow> setting option" where
  "decode_setting parse v =
     do {
       ms \<leftarrow> members_of v;
       i \<leftarrow> uuid_field parse ''id'' ms;
       org \<leftarrow> decode_ptr (as_uuid parse) ''org_id'' ms;
       project \<leftarrow> decode_ptr (as_uuid parse) ''project_id'' ms;
       app \<leftarrow> decode_ptr (as_uuid parse) ''application_id'' ms;
       envi \<leftarrow> decode_ptr (as_uuid parse) ''environment_id'' ms;
       key \<leftarrow> string_field ''key'' ms;
       updated_by \<leftarrow> decode_ptr (as_uuid parse) ''updated_by'' ms;
       updated_at \<leftarrow> time_field ''updated_at'' ms;
       Some \<lparr>se_id = i, se_org_id = org, se_project_id = project, se_application_id = app,
             se_environment_id = envi, se_key = key,
             se_value = raw_field ''value'' ms, se_updated_by = updated_by, se_updated_at = updated_at\<rparr>
     }"

section \<open>The table stays consistent\<close>

text \<open>Identifiers are unique, every row has one scope and a value, and no scope has a key twice.\<close>

definition setting_slot :: "setting \<Rightarrow> string \<times> (string \<times> uuid) list" where
  "setting_slot s = (se_key s, setting_scopes s)"

definition settings_ok :: "setting list \<Rightarrow> bool" where
  "settings_ok rows \<longleftrightarrow> distinct (map se_id rows) \<and> distinct (map setting_slot rows) \<and>
     (\<forall>s \<in> set rows. setting_row_ok s)"

definition settings_step :: "'x settings_world_scheme \<Rightarrow> 'x settings_world_scheme \<Rightarrow> bool" where
  "settings_step s t \<longleftrightarrow> (settings_ok (settings s) \<longrightarrow> settings_ok (settings t))"

interpretation settings_frame: frame settings_step
  by unfold_locales (auto simp: settings_step_def)

lemma same_slot_iff: "same_slot s r \<longleftrightarrow> setting_slot r = setting_slot s"
  by (simp add: same_slot_def setting_slot_def)

lemma setting_scopes_cong [simp]:
  "setting_scopes (s\<lparr>se_id := i\<rparr>) = setting_scopes s" "setting_scopes (s\<lparr>se_updated_at := t\<rparr>) = setting_scopes s"
  "setting_scopes (s\<lparr>se_value := v\<rparr>) = setting_scopes s" "setting_scopes (s\<lparr>se_updated_by := u\<rparr>) = setting_scopes s"
  by (simp_all add: setting_scopes_def)

lemma settings_ok_add:
  assumes "settings_ok rows" and "setting_row_ok s" and "row_of se_id (se_id s) rows = None"
    and "\<And>r. r \<in> set rows \<Longrightarrow> \<not> same_slot s r"
  shows "settings_ok (rows @ [s])"
proof -
  have "se_id s \<notin> set (map se_id rows)" using assms(3) by (simp add: row_of_None)
  moreover have "setting_slot s \<notin> set (map setting_slot rows)"
    using assms(4) unfolding same_slot_iff by (metis imageE list.set_map)
  ultimately show ?thesis using assms(1,2) by (simp add: settings_ok_def)
qed

lemma settings_ok_write:
  assumes ok: "settings_ok rows" and val: "v \<noteq> None"
  shows "settings_ok (map (\<lambda>q. if P q then q\<lparr>se_value := v, se_updated_by := u, se_updated_at := n\<rparr> else q) rows)"
proof -
  let ?f = "\<lambda>q. if P q then q\<lparr>se_value := v, se_updated_by := u, se_updated_at := n\<rparr> else q"
  have ids: "map se_id (map ?f rows) = map se_id rows" by simp
  have slots: "map setting_slot (map ?f rows) = map setting_slot rows" by (simp add: setting_slot_def)
  have rows: "\<forall>s \<in> set (map ?f rows). setting_row_ok s"
    using ok val by (auto simp: settings_ok_def setting_row_ok_def)
  from ok have "distinct (map se_id (map ?f rows)) \<and> distinct (map setting_slot (map ?f rows))"
    unfolding ids slots by (simp add: settings_ok_def)
  with rows show ?thesis unfolding settings_ok_def by blast
qed

lemma settings_ok_filter: "settings_ok rows \<Longrightarrow> settings_ok (filter P rows)"
  by (simp add: settings_ok_def distinct_map_filter)

lemma settings_env:
  "keeps settings_step (ext_call e)" "keeps settings_step time_now" "keeps settings_step uuid_new"
  by (auto simp: keeps_def prog_defs settings_step_def)

lemma setting_row_value: "setting_row_ok s \<Longrightarrow> se_value s \<noteq> None"
  by (simp add: setting_row_ok_def)

lemma setting_row_cong [simp]:
  "setting_row_ok (s\<lparr>se_id := i\<rparr>) = setting_row_ok s" "setting_row_ok (s\<lparr>se_updated_at := t\<rparr>) = setting_row_ok s"
  by (simp_all add: setting_row_ok_def)

lemma settings_prims:
  "keeps settings_step (create_setting s)" "keeps settings_step (upsert_setting s)" "keeps settings_step (delete_setting i)"
proof -
  show "keeps settings_step (create_setting s)"
    unfolding create_setting_def keeps_def settings_step_def
    by (auto simp: prog_defs Let_def list_ex_iff intro!: settings_ok_add)
  show "keeps settings_step (upsert_setting s)"
    unfolding upsert_setting_def keeps_def settings_step_def
    by (auto simp: prog_defs Let_def find_None_iff split: option.splits
        intro!: settings_ok_add settings_ok_write dest: setting_row_value)
  show "keeps settings_step (delete_setting i)"
    unfolding delete_setting_def keeps_def settings_step_def
    by (auto simp: prog_defs intro!: settings_ok_filter)
qed

lemma settings_services:
  "keeps settings_step (svc_set_setting s)" "keeps settings_step (svc_delete_setting i)"
  unfolding svc_set_setting_def svc_delete_setting_def
  by (intro settings_frame.keeps_rules settings_env settings_prims)+

datatype setting_op = OpCreateSetting setting | OpSetSetting setting | OpDeleteSetting uuid

fun exec_setting_op :: "setting_op \<Rightarrow> 'x settings_world_scheme \<Rightarrow> 'x settings_world_scheme" where
  "exec_setting_op (OpCreateSetting s) w = snd (create_setting s w)"
| "exec_setting_op (OpSetSetting s) w = snd (svc_set_setting s w)"
| "exec_setting_op (OpDeleteSetting i) w = snd (svc_delete_setting i w)"

text \<open>
  C33. Whatever settings are created, set and deleted, in whatever order and whatever calls fail, the
  table keeps one value per scope and key, and every row has exactly one scope.
\<close>

theorem settings_history:
  assumes "settings_ok (settings w)"
  shows "settings_ok (settings (fold exec_setting_op ops w))"
  using assms
proof (induction ops arbitrary: w)
  case (Cons opr ops)
  have "settings_step w (exec_setting_op opr w)"
    using settings_prims(1)[unfolded keeps_def] settings_services[unfolded keeps_def]
    by (cases opr; simp; blast)
  with Cons show ?case by (simp add: settings_step_def)
qed simp

section \<open>Which setting is found\<close>

text \<open>The rank of a level: the environment first, the organization last.\<close>

definition level_rank :: "string \<Rightarrow> nat" where
  "level_rank level = (if level = ''environment'' then 0 else if level = ''application'' then 1
     else if level = ''project'' then 2 else 3)"

text \<open>A row applies when it has the key and its scope is one that is asked for.\<close>

definition applies :: "string \<Rightarrow> (string \<times> uuid option) list \<Rightarrow> setting \<Rightarrow> bool" where
  "applies key asked x \<longleftrightarrow> se_key x = key \<and>
     (case setting_scopes x of [(level, i)] \<Rightarrow> (level, Some i) \<in> set asked | _ \<Rightarrow> False)"

lemma applies_iff:
  "applies key asked x \<longleftrightarrow> se_key x = key \<and>
     (\<exists>level i. setting_scopes x = [(level, i)] \<and> (level, Some i) \<in> set asked)"
  by (auto simp: applies_def split: list.splits)

abbreviation asked_scopes :: "uuid option \<Rightarrow> uuid option \<Rightarrow> uuid option \<Rightarrow> uuid option \<Rightarrow> (string \<times> uuid option) list" where
  "asked_scopes org project app envi \<equiv>
     [(''environment'', envi), (''application'', app), (''project'', project), (''org'', org)]"

definition at_scope :: "string \<Rightarrow> string \<Rightarrow> uuid \<Rightarrow> setting \<Rightarrow> bool" where
  "at_scope key level i x \<longleftrightarrow> se_key x = key \<and> setting_scopes x = [(level, i)]"

lemma one_scope: "setting_row_ok x \<Longrightarrow> (level, i) \<in> set (setting_scopes x) \<longleftrightarrow> setting_scopes x = [(level, i)]"
  by (cases "setting_scopes x") (auto simp: setting_row_ok_def)

lemma settings_ok_rows: "settings_ok rows \<Longrightarrow> x \<in> set rows \<Longrightarrow> setting_row_ok x"
  by (simp add: settings_ok_def)

lemma settings_ok_unique: "settings_ok rows \<Longrightarrow> x \<in> set rows \<Longrightarrow> y \<in> set rows \<Longrightarrow> setting_slot x = setting_slot y \<Longrightarrow> x = y"
  by (auto simp: settings_ok_def distinct_map inj_on_def)

fun nearest_setting :: "string \<Rightarrow> setting list \<Rightarrow> (string \<times> uuid option) list \<Rightarrow> setting option" where
  "nearest_setting key rows [] = None"
| "nearest_setting key rows ((level, None) # rest) = nearest_setting key rows rest"
| "nearest_setting key rows ((level, Some i) # rest) =
     (case find (at_scope key level i) rows of Some x \<Rightarrow> Some x | None \<Rightarrow> nearest_setting key rows rest)"

lemma resolve_from_calm:
  assumes "calm s" and "settings_ok (settings s)"
  shows "fst (resolve_setting_from key asked s) =
      (case nearest_setting key (settings s) asked of None \<Rightarrow> Inl SettingNotFound | Some x \<Rightarrow> Inr x) \<and>
    settings (snd (resolve_setting_from key asked s)) = settings s"
  using assms
proof (induction asked arbitrary: s)
  case Nil
  show ?case by (simp add: fail_def)
next
  case (Cons a rest)
  obtain level q where a: "a = (level, q)" by (cases a)
  show ?case
  proof (cases q)
    case None
    with Cons a show ?thesis by simp
  next
    case (Some i)
    let ?s = "s\<lparr>calls := Suc (calls s)\<rparr>"
    have "find (\<lambda>x. se_key x = key \<and> (level, i) \<in> set (setting_scopes x)) (settings s) = find (at_scope key level i) (settings s)"
      using one_scope settings_ok_rows[OF Cons.prems(2)] by (intro find_cong) (auto simp: at_scope_def)
    with Cons.IH[of ?s] Cons.prems a Some show ?thesis
      by (simp add: andThen_def ext_call_def get_state_def ret_def split: option.splits)
  qed
qed

lemma nearest_None:
  "nearest_setting key rows asked = None \<longleftrightarrow> (\<forall>x \<in> set rows. \<not> applies key asked x)"
proof (induction key rows asked rule: nearest_setting.induct)
  case (3 key rows level i rest)
  then show ?case
    by (auto simp: applies_iff at_scope_def find_None_iff find_Some_iff split: option.splits)
qed (auto simp: applies_iff)

lemma nearest_split:
  assumes "nearest_setting key rows asked = Some x"
  shows "\<exists>pre level i post. asked = pre @ (level, Some i) # post \<and> x \<in> set rows \<and> at_scope key level i x \<and>
    (\<forall>y \<in> set rows. \<not> applies key pre y)"
  using assms
proof (induction asked)
  case (Cons a rest)
  obtain level q where a: "a = (level, q)" by (cases a)
  show ?case
  proof (cases "nearest_setting key rows [a]")
    case None
    with Cons a have "nearest_setting key rows rest = Some x" by (cases q) (auto split: option.splits)
    then obtain pre l i post where rest: "rest = pre @ (l, Some i) # post" "x \<in> set rows" "at_scope key l i x"
      "\<forall>y \<in> set rows. \<not> applies key pre y" using Cons.IH by blast
    moreover have "\<not> applies key (a # pre) y" if "y \<in> set rows" for y
      using None rest(4) that nearest_None[of key rows "[a]"] by (auto simp: applies_iff)
    ultimately show ?thesis by (intro exI[of _ "a # pre"] exI[of _ l] exI[of _ i] exI[of _ post]) simp
  next
    case (Some y)
    then obtain i where q: "q = Some i" "find (at_scope key level i) rows = Some y"
      using a by (cases q) (auto split: option.splits)
    with Cons.prems a have "y = x" by simp
    with q a have "a # rest = [] @ (level, Some i) # rest" "x \<in> set rows" "at_scope key level i x"
      by (auto simp: find_Some_iff)
    then show ?thesis by (intro exI[of _ "[]"] exI[of _ level] exI[of _ i] exI[of _ rest]) (simp add: applies_iff)
  qed
qed simp

lemma nearest_Some:
  assumes near: "nearest_setting key rows asked = Some x" and sorted: "sorted (map (level_rank \<circ> fst) asked)"
  shows "x \<in> set rows \<and> applies key asked x \<and>
    (\<forall>y \<in> set rows. applies key asked y \<longrightarrow>
       level_rank (fst (hd (setting_scopes x))) \<le> level_rank (fst (hd (setting_scopes y))))"
proof -
  obtain pre l i post where s: "asked = pre @ (l, Some i) # post" "x \<in> set rows" "at_scope key l i x"
    "\<forall>y \<in> set rows. \<not> applies key pre y" using nearest_split[OF near] by blast
  have "level_rank l \<le> level_rank (fst (hd (setting_scopes y)))" if y: "y \<in> set rows" "applies key asked y" for y
  proof -
    from y(2) obtain m j where m: "se_key y = key" "setting_scopes y = [(m, j)]" "(m, Some j) \<in> set asked"
      by (auto simp: applies_iff)
    have "(m, Some j) \<notin> set pre" using s(4) y(1) m by (auto simp: applies_iff)
    with m(3) have "(m, Some j) \<in> set ((l, Some i) # post)" by (simp add: s(1))
    with sorted have "level_rank l \<le> level_rank m" unfolding s(1) by (auto simp: sorted_append)
    with m show ?thesis by simp
  qed
  moreover have "applies key asked x" using s(1,3) by (auto simp: applies_iff at_scope_def)
  ultimately show ?thesis using s(2,3) by (simp add: at_scope_def)
qed

lemma asked_sorted: "sorted (map (level_rank \<circ> fst) (asked_scopes org project app envi))"
  by (simp add: level_rank_def)

text \<open>
  C34. A key is resolved to the value of the most specific scope asked for that has one: no other row
  that applies is as specific. Nothing is found exactly when no row applies, and looking changes
  nothing.
\<close>

theorem resolve_setting_nearest:
  assumes calm: "calm s" and ok: "settings_ok (settings s)"
    and run: "resolve_setting key org project app envi s = (r, t)"
  shows "settings t = settings s \<and>
    (case r of
       Inl e \<Rightarrow> e = SettingNotFound \<and> (\<forall>x \<in> set (settings s). \<not> applies key (asked_scopes org project app envi) x)
     | Inr x \<Rightarrow> x \<in> set (settings s) \<and> applies key (asked_scopes org project app envi) x \<and>
         (\<forall>y \<in> set (settings s). applies key (asked_scopes org project app envi) y \<and> y \<noteq> x \<longrightarrow>
            level_rank (fst (hd (setting_scopes x))) < level_rank (fst (hd (setting_scopes y)))))"
proof -
  let ?asked = "asked_scopes org project app envi"
  have r: "r = (case nearest_setting key (settings s) ?asked of None \<Rightarrow> Inl SettingNotFound | Some x \<Rightarrow> Inr x)"
    and t: "settings t = settings s"
    using resolve_from_calm[OF calm ok, of key ?asked] run by (simp_all add: resolve_setting_def)
  show ?thesis
  proof (cases "nearest_setting key (settings s) ?asked")
    case None
    then show ?thesis using r t nearest_None[of key "settings s" ?asked] by simp
  next
    case (Some x)
    note near = nearest_Some[OF Some asked_sorted]
    have "level_rank (fst (hd (setting_scopes x))) \<noteq> level_rank (fst (hd (setting_scopes y)))"
      if y: "y \<in> set (settings s)" "applies key ?asked y" "y \<noteq> x" for y
    proof
      assume "level_rank (fst (hd (setting_scopes x))) = level_rank (fst (hd (setting_scopes y)))"
      with near y have "setting_slot x = setting_slot y"
        by (auto simp: applies_iff level_rank_def setting_slot_def)
      with settings_ok_unique[OF ok] near y show False by blast
    qed
    with near Some r t show ?thesis by (auto simp: le_less)
  qed
qed

section \<open>An identifier does not choose the row\<close>

lemma same_slot_cong [simp]:
  "same_slot (s\<lparr>se_id := i\<rparr>) = same_slot s" "same_slot (s\<lparr>se_updated_at := t\<rparr>) = same_slot s"
  by (simp_all add: same_slot_def fun_eq_iff)

lemma valid_setting_row: "validate_setting s = None \<Longrightarrow> setting_row_ok s \<and> scope_level s \<noteq> ''''"
  by (auto simp: validate_setting_def setting_row_ok_def scope_level_def setting_scopes_def
      split: if_splits list.splits option.splits)

lemma scope_level_cong [simp]: "scope_level (s\<lparr>se_updated_at := t\<rparr>) = scope_level s"
  by (simp add: scope_level_def)

lemma validate_setting_cong [simp]: "validate_setting (s\<lparr>se_updated_at := t\<rparr>) = validate_setting s"
  by (simp add: validate_setting_def)

lemma row_of_map:
  "(\<And>x. se_id (f x) = se_id x) \<Longrightarrow> row_of se_id k (map f rows) = map_option f (row_of se_id k rows)"
  by (induction rows) (auto simp: row_simps)

text \<open>
  Setting a value under the identifier of one row, but with the scope and the key of another,
  overwrites the other row and leaves the first as it was. The commit handler of a staged
  setting replaces the identifier of the document by that of the change so that a wrong document
  could not write to a wrong row; the identifier plays no part in which row is written.
\<close>

theorem setting_id_ignored:
  assumes calm: "calm s" and ok: "settings_ok (settings s)" and valid: "validate_setting st = None"
    and id: "se_id st \<noteq> uuid_nil" "se_id st \<noteq> se_id r" and r: "r \<in> set (settings s)" "same_slot st r"
    and run: "svc_set_setting st s = (q, t)"
  shows "map_option se_value (row_of se_id (se_id r) (settings t)) = Some (se_value st) \<and>
    row_of se_id (se_id st) (settings t) = row_of se_id (se_id st) (settings s)"
proof -
  obtain f where find: "find (same_slot st) (settings s) = Some f"
    using r by (cases "find (same_slot st) (settings s)") (auto simp: find_None_iff)
  let ?n = "clock s (Suc (reads s))"
  let ?w = "\<lambda>x. if same_slot st x then x\<lparr>se_value := se_value st, se_updated_by := se_updated_by st, se_updated_at := ?n\<rparr> else x"
  have t: "settings t = map ?w (settings s)"
    using run calm valid valid_setting_row[OF valid] id find
    by (auto simp: svc_set_setting_def upsert_setting_def prog_defs Let_def)
  have rows: "row_of se_id k (settings t) = map_option ?w (row_of se_id k (settings s))" for k
    unfolding t by (rule row_of_map) simp
  have "row_of se_id (se_id r) (settings s) = Some r"
    using ok r(1) by (intro row_of_distinct) (auto simp: settings_ok_def)
  moreover have "\<not> same_slot st x" if "row_of se_id (se_id st) (settings s) = Some x" for x
    using settings_ok_unique[OF ok, of x r] row_of_Some[OF that] r id(2) by (auto simp: same_slot_iff)
  ultimately show ?thesis using r(2) rows by (cases "row_of se_id (se_id st) (settings s)") auto
qed

section \<open>Samples\<close>

definition org_setting :: "uuid \<Rightarrow> string \<Rightarrow> json \<Rightarrow> setting" where
  "org_setting i key v = \<lparr>se_id = i, se_org_id = Some 1, se_project_id = None, se_application_id = None,
     se_environment_id = None, se_key = key, se_value = Some v, se_updated_by = None, se_updated_at = 0\<rparr>"

definition settings_sample :: settings_world where
  "settings_sample = \<lparr>fault = (\<lambda>_. False), calls = 0, clock = int, reads = 0, fresh = (\<lambda>n. word_of_nat (100 + n)),
     minted = 0, ctxdone = (\<lambda>_. False), polls = 0,
     settings = [org_setting 5 ''a'' (JBool True), org_setting 6 ''b'' (JBool True),
       (org_setting 7 ''a'' (JBool False))\<lparr>se_org_id := None, se_application_id := Some 3\<rparr>]\<rparr>"

lemma settings_sample_ok: "settings_ok (settings settings_sample)"
  by code_simp

lemma settings_sample_calm: "calm settings_sample"
  by (simp add: calm_def settings_sample_def)

theorem settings_history_witness:
  "settings_ok (settings (fold exec_setting_op [OpSetSetting (org_setting 8 ''c'' JNull), OpDeleteSetting 5,
     OpCreateSetting (org_setting 9 ''b'' JNull)] settings_sample))"
  by (rule settings_history[OF settings_sample_ok])

theorem resolve_setting_nearest_witness:
  "map_sum id se_id (fst (resolve_setting ''a'' (Some 1) None (Some 3) None settings_sample)) = Inr 7"
proof -
  let ?m = "resolve_setting ''a'' (Some 1) None (Some 3) None settings_sample"
  have found: "\<not> isl (fst ?m)" by code_simp
  have applies: "applies ''a'' (asked_scopes (Some 1) None (Some 3) None) (settings settings_sample ! 2)"
    "settings settings_sample ! 2 \<in> set (settings settings_sample)" "se_id (settings settings_sample ! 2) = 7"
    by code_simp+
  have low: "level_rank (fst (hd (setting_scopes (settings settings_sample ! 2)))) = 1" by code_simp
  have none: "\<forall>x \<in> set (settings settings_sample). \<not> level_rank (fst (hd (setting_scopes x))) < 1" by code_simp
  from resolve_setting_nearest[OF settings_sample_calm settings_sample_ok prod.collapse[symmetric],
      where key = "''a''" and org = "Some 1" and project = None and app = "Some 3" and envi = None]
  obtain x where "fst ?m = Inr x" "x \<in> set (settings settings_sample)"
    "\<forall>y \<in> set (settings settings_sample). applies ''a'' (asked_scopes (Some 1) None (Some 3) None) y \<and> y \<noteq> x \<longrightarrow>
       level_rank (fst (hd (setting_scopes x))) < level_rank (fst (hd (setting_scopes y)))"
    using found by (cases "fst ?m") auto
  with applies low none show ?thesis by (metis map_sum.simps(2))
qed

theorem setting_id_ignored_witness:
  "map se_value (settings (snd (svc_set_setting (org_setting 6 ''a'' JNull) settings_sample))) =
     [Some JNull, Some (JBool True), Some (JBool False)]"
proof -
  let ?t = "snd (svc_set_setting (org_setting 6 ''a'' JNull) settings_sample)"
  have hyps: "validate_setting (org_setting 6 ''a'' JNull) = None" "se_id (org_setting 6 ''a'' JNull) \<noteq> uuid_nil"
    "se_id (org_setting 6 ''a'' JNull) \<noteq> se_id (hd (settings settings_sample))"
    "hd (settings settings_sample) \<in> set (settings settings_sample)"
    "same_slot (org_setting 6 ''a'' JNull) (hd (settings settings_sample))" by code_simp+
  have "map_option se_value (row_of se_id 5 (settings ?t)) = Some (Some JNull)"
    using setting_id_ignored[OF settings_sample_calm settings_sample_ok hyps prod.collapse[symmetric]]
    by (simp add: settings_sample_def org_setting_def)
  moreover have "map se_id (settings ?t) = [5, 6, 7]" "map se_value (tl (settings ?t)) = [Some (JBool True), Some (JBool False)]"
    by code_simp+
  ultimately show ?thesis by (cases "settings ?t") (auto simp: row_simps)
qed

end
