(* ===== verification/Staging.thy ===== *)
theory Staging
  imports StrategyStore Access Settings
begin

text \<open>
  The staging layer (\<open>internal/staging\<close>, \<open>internal/models/staged_change.go\<close> and
  \<open>internal/platform/database/postgres/staging.go\<close>): provisional identifiers, the table of
  pending changes, the planning of a batch, the resolver that replaces provisional
  identifiers, the two registries of commit handlers, and the service that stages, discards
  and commits. Parsing and printing identifiers belong to the package \<open>google/uuid\<close> and are
  parameters (\<open>parse\<close>, \<open>text_of\<close>).
\<close>

section \<open>Provisional identifiers\<close>

text \<open>Byte 8 of the identifier, whose top bits are the variant.\<close>

definition variant_byte :: "uuid \<Rightarrow> uuid" where
  "variant_byte u = drop_bit 56 u AND 0xFF"

definition new_provisional :: "('x env_scheme, 'e, uuid) prog" where
  "new_provisional = andThen uuid_new (\<lambda>u.
     ret ((u AND NOT (push_bit 56 0xFF)) OR push_bit 56 ((variant_byte u AND 0x3F) OR 0xC0)))"

definition is_provisional :: "uuid \<Rightarrow> bool" where
  "is_provisional u = (if u = uuid_nil then False else variant_byte u AND 0xC0 = 0xC0)"

section \<open>Pending changes\<close>

record staged_change =
  sc_change_id :: uuid
  sc_user_id :: uuid
  sc_org_id :: uuid
  sc_resource_type :: string
  sc_resource_id :: "uuid option"
  sc_provisional_id :: "uuid option"
  sc_action :: string
  sc_field_path :: string
  sc_old_value :: "json option"
  sc_new_value :: "json option"
  sc_created_at :: time
  sc_updated_at :: time

text \<open>
  A panic is kept apart from an error: it passes the error checks of its callers, and only
  their deferred calls run.
\<close>

datatype staging_error =
    StagingDriver string
  | StageOwnerRequired
  | StageActionRequired
  | StageProvisionalVariant
  | StageResourceProvisional
  | RowsMissing int int
  | MalformedJSON
  | UnresolvedProvisional uuid uuid
  | ErrNoCommitHandler string
  | ErrNoCreateHandler string
  | ErrResourceIdRequired
  | ErrNewValueRequired
  | ErrFlagIdRequired
  | ErrEnvironmentRequired
  | ErrRoleRequired
  | StagedFlag flag_error
  | StagedRollout rollout_error
  | StagedSetting setting_error
  | StagedAccess access_error
  | StagingPanic string
  | StagingWrap string staging_error

fun panics :: "staging_error \<Rightarrow> bool" where
  "panics (StagingPanic _) = True"
| "panics (StagingWrap _ e) = panics e"
| "panics _ = False"

text \<open>
  The store with the pending changes, the tables of the settings and of the members, and what
  the open transaction has
  inserted and not yet committed. The transaction only ever inserts, so its rows are kept
  apart: calls that use the connection pool do not see them.
\<close>

record staging_world = rollout_world +
  staged_changes :: "staged_change list"
  st_organizations :: "(uuid \<times> string) list"
  st_members :: "org_member list"
  st_users :: "user list"
  st_settings :: "setting list"
  tx_flags :: "feature_flag list"
  tx_rules :: "targeting_rule list"
  tx_strategies :: "(strategy \<times> time option) list"

type_synonym 'a staging_prog = "(staging_world, staging_error, 'a) prog"

definition on_rollouts :: "'a rollout_prog \<Rightarrow> 'a staging_prog" where
  "on_rollouts m = (\<lambda>s. case m (rollout_world.truncate s) of
     (r, t) \<Rightarrow> (map_sum StagedRollout id r, rollout_world.extend t (rollout_world.more s)))"

definition on_flag_service :: "(staging_world, flag_error, 'a) prog \<Rightarrow> 'a staging_prog" where
  "on_flag_service m = wrapped StagedFlag m"

text \<open>A call of the service of settings or of members, on its tables.\<close>

definition on_settings :: "(settings_world, setting_error, 'a) prog \<Rightarrow> 'a staging_prog" where
  "on_settings m = (\<lambda>s.
     case m (env.extend (env.truncate s) (settings_world.fields (st_settings s))) of
       (r, t) \<Rightarrow> (map_sum StagedSetting id r,
         s\<lparr>calls := calls t, reads := reads t, minted := minted t, polls := polls t, st_settings := settings t\<rparr>))"

definition on_members :: "(access_world, access_error, 'a) prog \<Rightarrow> 'a staging_prog" where
  "on_members m = (\<lambda>s.
     case m (env.extend (env.truncate s) (access_world.fields (st_organizations s) (st_members s) (st_users s))) of
       (r, t) \<Rightarrow> (map_sum StagedAccess id r,
         s\<lparr>calls := calls t, reads := reads t, minted := minted t, polls := polls t,
           st_organizations := organizations t, st_members := org_members t, st_users := users t\<rparr>))"

text \<open>A call inside the transaction sees its rows after the committed ones and adds to them.\<close>

definition tx_view :: "staging_world \<Rightarrow> staging_world" where
  "tx_view s = s\<lparr>feature_flags := feature_flags s @ tx_flags s,
     targeting_rules := targeting_rules s @ tx_rules s, strategies := strategies s @ tx_strategies s\<rparr>"

definition in_tx :: "'a staging_prog \<Rightarrow> 'a staging_prog" where
  "in_tx m = (\<lambda>s. case m (tx_view s) of (r, t) \<Rightarrow>
     (r, t\<lparr>tx_flags := drop (length (feature_flags s)) (feature_flags t), feature_flags := feature_flags s,
           tx_rules := drop (length (targeting_rules s)) (targeting_rules t), targeting_rules := targeting_rules s,
           tx_strategies := drop (length (strategies s)) (strategies t), strategies := strategies s\<rparr>))"

definition drop_tx :: "staging_world \<Rightarrow> staging_world" where
  "drop_tx s = s\<lparr>tx_flags := [], tx_rules := [], tx_strategies := []\<rparr>"

definition keep_tx :: "staging_world \<Rightarrow> staging_world" where
  "keep_tx s = drop_tx (tx_view s)"

section \<open>The repository\<close>

text \<open>The unique index: the resource or else the provisional identifier or else nil.\<close>

definition change_key :: "staged_change \<Rightarrow> uuid \<times> uuid \<times> string \<times> uuid \<times> string" where
  "change_key c = (sc_user_id c, sc_org_id c, sc_resource_type c,
     (case sc_resource_id c of Some i \<Rightarrow> i
      | None \<Rightarrow> (case sc_provisional_id c of Some i \<Rightarrow> i | None \<Rightarrow> uuid_nil)), sc_field_path c)"

definition staged_upsert :: "staged_change \<Rightarrow> staged_change staging_prog" where
  "staged_upsert c =
     andThen (if sc_change_id c = uuid_nil then uuid_new else ret (sc_change_id c)) (\<lambda>i.
     andThen time_now (\<lambda>now.
       let c' = c\<lparr>sc_change_id := i, sc_updated_at := now,
                  sc_created_at := (if sc_created_at c = time_zero then now else sc_created_at c)\<rparr>
       in andThen (ext_call (StagingDriver ''upsert staged_changes'')) (\<lambda>_.
          andThen get_state (\<lambda>w.
            case find (\<lambda>r. change_key r = change_key c') (staged_changes w) of
              Some r \<Rightarrow>
                let r' = r\<lparr>sc_action := sc_action c, sc_old_value := sc_old_value c,
                           sc_new_value := sc_new_value c, sc_updated_at := now\<rparr>
                in andThen (modify (\<lambda>w. w\<lparr>staged_changes :=
                     map (\<lambda>q. if change_key q = change_key c' then r' else q) (staged_changes w)\<rparr>)) (\<lambda>_.
                   ret (c'\<lparr>sc_change_id := sc_change_id r, sc_created_at := sc_created_at r\<rparr>))
            | None \<Rightarrow>
                if row_of sc_change_id i (staged_changes w) \<noteq> None
                then fail (StagingDriver ''upsert staged_changes'')
                else andThen (modify (\<lambda>w. w\<lparr>staged_changes := staged_changes w @ [c']\<rparr>)) (\<lambda>_. ret c')))))"

definition owned_by :: "uuid \<Rightarrow> uuid \<Rightarrow> staged_change \<Rightarrow> bool" where
  "owned_by user org c \<longleftrightarrow> sc_user_id c = user \<and> sc_org_id c = org"

definition list_for_user :: "uuid \<Rightarrow> uuid \<Rightarrow> staged_change list staging_prog" where
  "list_for_user user org =
     andThen (ext_call (StagingDriver ''select staged_changes'')) (\<lambda>_.
     andThen get_state (\<lambda>w. ret (sort_key (\<lambda>c. - sc_created_at c) (filter (owned_by user org) (staged_changes w)))))"

definition list_for_resource :: "uuid \<Rightarrow> uuid \<Rightarrow> string \<Rightarrow> staged_change list staging_prog" where
  "list_for_resource user org rt =
     andThen (ext_call (StagingDriver ''select staged_changes'')) (\<lambda>_.
     andThen get_state (\<lambda>w. ret (sort_key sc_created_at
       (filter (\<lambda>c. owned_by user org c \<and> sc_resource_type c = rt) (staged_changes w)))))"

definition get_by_ids :: "uuid \<Rightarrow> uuid \<Rightarrow> uuid list \<Rightarrow> staged_change list staging_prog" where
  "get_by_ids user org ids =
     (if ids = [] then ret []
      else andThen (ext_call (StagingDriver ''select staged_changes'')) (\<lambda>_.
           andThen get_state (\<lambda>w.
             ret (filter (\<lambda>c. owned_by user org c \<and> sc_change_id c \<in> set ids) (staged_changes w)))))"

text \<open>The deletion inside the transaction takes effect with the commit.\<close>

definition without_ids :: "uuid \<Rightarrow> uuid \<Rightarrow> uuid list \<Rightarrow> staged_change list \<Rightarrow> staged_change list" where
  "without_ids user org ids rows = filter (\<lambda>c. \<not> (owned_by user org c \<and> sc_change_id c \<in> set ids)) rows"

definition delete_by_ids_tx :: "uuid list \<Rightarrow> unit staging_prog" where
  "delete_by_ids_tx ids =
     (if ids = [] then ret () else ext_call (StagingDriver ''postgres.DeleteByIDsTx''))"

definition delete_all_for_user :: "uuid \<Rightarrow> uuid \<Rightarrow> int staging_prog" where
  "delete_all_for_user user org =
     andThen (ext_call (StagingDriver ''postgres.DeleteAllForUser'')) (\<lambda>_.
     andThen get_state (\<lambda>w.
     andThen (modify (\<lambda>w. w\<lparr>staged_changes := filter (\<lambda>c. \<not> owned_by user org c) (staged_changes w)\<rparr>)) (\<lambda>_.
       ret (int (length (filter (owned_by user org) (staged_changes w)))))))"

definition delete_older_than :: "time \<Rightarrow> int staging_prog" where
  "delete_older_than cutoff =
     andThen (ext_call (StagingDriver ''postgres.DeleteOlderThan'')) (\<lambda>_.
     andThen get_state (\<lambda>w.
     andThen (modify (\<lambda>w. w\<lparr>staged_changes := filter (\<lambda>c. \<not> sc_created_at c < cutoff) (staged_changes w)\<rparr>)) (\<lambda>_.
       ret (int (length (filter (\<lambda>c. sc_created_at c < cutoff) (staged_changes w)))))))"

definition count_for_user :: "uuid \<Rightarrow> uuid \<Rightarrow> int staging_prog" where
  "count_for_user user org =
     andThen (ext_call (StagingDriver ''postgres.CountForUser'')) (\<lambda>_.
     andThen get_state (\<lambda>w. ret (int (length (filter (owned_by user org) (staged_changes w))))))"

definition get_provisional_create ::
  "uuid \<Rightarrow> uuid \<Rightarrow> string \<Rightarrow> uuid \<Rightarrow> staged_change option staging_prog" where
  "get_provisional_create user org rt prov =
     andThen (ext_call (StagingDriver ''postgres.GetProvisionalCreate'')) (\<lambda>_.
     andThen get_state (\<lambda>w.
       ret (find (\<lambda>c. owned_by user org c \<and> sc_resource_type c = rt \<and> sc_provisional_id c = Some prov \<and>
                  sc_action c = ''create'') (staged_changes w))))"

text \<open>One pass of the sweeper; a failure is logged.\<close>

definition sweep_once :: "duration \<Rightarrow> unit staging_prog" where
  "sweep_once retention =
     andThen time_now (\<lambda>now.
     andThen (attempt (delete_older_than (now - retention)) :: (staging_error + int) staging_prog) (\<lambda>_. ret ()))"

section \<open>Planning a batch\<close>

definition provisional_leaf :: "(string \<Rightarrow> uuid option) \<Rightarrow> string \<Rightarrow> uuid list" where
  "provisional_leaf parse s = (case parse s of Some u \<Rightarrow> if is_provisional u then [u] else [] | None \<Rightarrow> [])"

definition walk_provisionals :: "(string \<Rightarrow> uuid option) \<Rightarrow> json \<Rightarrow> uuid list" where
  "walk_provisionals parse v = concat (map (provisional_leaf parse) (leaves v))"

text \<open>Decoding a document into \<open>any\<close> fails when a number is out of range.\<close>

definition scan_value :: "(string \<Rightarrow> uuid option) \<Rightarrow> json option \<Rightarrow> uuid list option" where
  "scan_value parse raw =
     (case raw of
        None \<Rightarrow> Some []
      | Some v \<Rightarrow> (case through_any id v of None \<Rightarrow> None | Some w \<Rightarrow> Some (walk_provisionals parse w)))"

definition collect_provisionals :: "(string \<Rightarrow> uuid option) \<Rightarrow> staged_change \<Rightarrow> uuid list option" where
  "collect_provisionals parse c =
     (let own = (case sc_resource_id c of Some i \<Rightarrow> if is_provisional i then [i] else [] | None \<Rightarrow> [])
      in case scan_value parse (sc_new_value c) of
           None \<Rightarrow> None
         | Some xs \<Rightarrow> (case scan_value parse (sc_old_value c) of None \<Rightarrow> None | Some ys \<Rightarrow> Some (own @ xs @ ys)))"

definition minted_by :: "staged_change list \<Rightarrow> uuid set" where
  "minted_by rows = {p. \<exists>c \<in> set rows. sc_provisional_id c = Some p}"

fun check_refs :: "(string \<Rightarrow> uuid option) \<Rightarrow> staged_change list \<Rightarrow> staged_change list \<Rightarrow> staging_error option" where
  "check_refs parse all [] = None"
| "check_refs parse all (c # cs) =
     (case collect_provisionals parse c of
        None \<Rightarrow> Some (StagingWrap ''planBatch: scan row'' MalformedJSON)
      | Some refs \<Rightarrow>
          (case find (\<lambda>u. sc_provisional_id c \<noteq> Some u \<and> \<not> list_ex (\<lambda>r. sc_provisional_id r = Some u) all) refs of
             Some u \<Rightarrow> Some (UnresolvedProvisional (sc_change_id c) u)
           | None \<Rightarrow> check_refs parse all cs))"

definition plan_batch :: "(string \<Rightarrow> uuid option) \<Rightarrow> staged_change list \<Rightarrow> staging_error + staged_change list" where
  "plan_batch parse rows =
     (case check_refs parse rows rows of
        Some e \<Rightarrow> Inl e
      | None \<Rightarrow> Inr (filter (\<lambda>c. sc_provisional_id c \<noteq> None) rows @ filter (\<lambda>c. sc_provisional_id c = None) rows))"

section \<open>The resolver\<close>

type_synonym resolver = "uuid \<rightharpoonup> uuid"

definition bind_real :: "resolver \<Rightarrow> uuid \<Rightarrow> uuid \<Rightarrow> staging_error + resolver" where
  "bind_real m prov actual =
     (if \<not> is_provisional prov then Inl (StagingPanic ''staging.Resolver.Bind: source is not provisional'')
      else if is_provisional actual then Inl (StagingPanic ''staging.Resolver.Bind: destination is provisional'')
      else Inr (m(prov \<mapsto> actual)))"

definition rewrite_text :: "(string \<Rightarrow> uuid option) \<Rightarrow> (uuid \<Rightarrow> string) \<Rightarrow> resolver \<Rightarrow> string \<Rightarrow> string" where
  "rewrite_text parse text_of m s =
     (case parse s of
        None \<Rightarrow> s
      | Some u \<Rightarrow> (case m u of Some actual \<Rightarrow> text_of actual | None \<Rightarrow> s))"

definition rewrite_value ::
  "(string \<Rightarrow> uuid option) \<Rightarrow> (uuid \<Rightarrow> string) \<Rightarrow> resolver \<Rightarrow> json option \<Rightarrow> json option option" where
  "rewrite_value parse text_of m raw =
     (case raw of None \<Rightarrow> Some None | Some v \<Rightarrow> map_option Some (through_any (rewrite_text parse text_of m) v))"

definition rewrite_row ::
  "(string \<Rightarrow> uuid option) \<Rightarrow> (uuid \<Rightarrow> string) \<Rightarrow> resolver \<Rightarrow> staged_change \<Rightarrow> staging_error + staged_change" where
  "rewrite_row parse text_of m c =
     (let rid = (case sc_resource_id c of
                   None \<Rightarrow> None
                 | Some i \<Rightarrow> if is_provisional i \<and> m i \<noteq> None then m i else Some i)
      in case rewrite_value parse text_of m (sc_new_value c) of
           None \<Rightarrow> Inl (StagingWrap ''staging.Resolver.RewriteRow: new_value'' MalformedJSON)
         | Some nv \<Rightarrow>
             (case rewrite_value parse text_of m (sc_old_value c) of
                None \<Rightarrow> Inl (StagingWrap ''staging.Resolver.RewriteRow: old_value'' MalformedJSON)
              | Some ov \<Rightarrow> Inr (c\<lparr>sc_resource_id := rid, sc_new_value := nv, sc_old_value := ov\<rparr>)))"

end
