(* ===== verification/StagingCommit.thy ===== *)
theory StagingCommit
  imports Staging
begin

text \<open>
  The registries of commit handlers (\<open>internal/staging/registry.go\<close>) and the staging service
  (\<open>internal/staging/service.go\<close>): staging, discarding, and the commit of a batch in one
  transaction. What a registry promises is the locale \<open>commit_registry\<close>; what the service
  guarantees for every such registry is proved in it.
\<close>

section \<open>Registries\<close>

type_synonym commit_handler = "staged_change \<Rightarrow> string staging_prog"

text \<open>A create handler returns the identifier it minted, the audit action and a hook.\<close>

type_synonym hook = "staging_world \<Rightarrow> staging_world"
type_synonym create_handler = "staged_change \<Rightarrow> (uuid \<times> string \<times> hook option) staging_prog"

record registry =
  commit_handlers :: "string \<rightharpoonup> commit_handler"
  create_handlers :: "string \<rightharpoonup> create_handler"

definition commit_key :: "string \<Rightarrow> string \<Rightarrow> string" where
  "commit_key rt action = rt @ '':'' @ action"

definition empty_registry :: registry where
  "empty_registry = \<lparr>commit_handlers = (\<lambda>_. None), create_handlers = (\<lambda>_. None)\<rparr>"

definition register_commit :: "string \<times> string \<times> commit_handler \<Rightarrow> registry \<Rightarrow> registry" where
  "register_commit tup reg = (case tup of (rt, action, h) \<Rightarrow>
     reg\<lparr>commit_handlers := (commit_handlers reg)(commit_key rt action \<mapsto> h)\<rparr>)"

definition register_create :: "string \<times> string \<times> create_handler \<Rightarrow> registry \<Rightarrow> registry" where
  "register_create tup reg = (case tup of (rt, action, h) \<Rightarrow>
     reg\<lparr>create_handlers := (create_handlers reg)(commit_key rt action \<mapsto> h)\<rparr>)"

definition is_committable :: "registry \<Rightarrow> string \<Rightarrow> string \<Rightarrow> bool" where
  "is_committable reg rt action = (commit_handlers reg (commit_key rt action) \<noteq> None)"

definition is_creatable :: "registry \<Rightarrow> string \<Rightarrow> string \<Rightarrow> bool" where
  "is_creatable reg rt action = (create_handlers reg (commit_key rt action) \<noteq> None)"

definition commit_dispatch :: "registry \<Rightarrow> commit_handler" where
  "commit_dispatch reg c =
     (case commit_handlers reg (commit_key (sc_resource_type c) (sc_action c)) of
        None \<Rightarrow> fail (ErrNoCommitHandler (sc_resource_type c @ ''.'' @ sc_action c))
      | Some h \<Rightarrow> h c)"

definition create_dispatch :: "registry \<Rightarrow> create_handler" where
  "create_dispatch reg c =
     (case create_handlers reg (commit_key (sc_resource_type c) (sc_action c)) of
        None \<Rightarrow> fail (ErrNoCreateHandler (sc_resource_type c @ ''.'' @ sc_action c))
      | Some h \<Rightarrow> h c)"

section \<open>Staging and discarding\<close>

definition stage :: "staged_change \<Rightarrow> staged_change staging_prog" where
  "stage c =
     (if sc_user_id c = uuid_nil \<or> sc_org_id c = uuid_nil then fail StageOwnerRequired
      else if sc_resource_type c = '''' \<or> sc_action c = '''' then fail StageActionRequired
      else if (case sc_provisional_id c of Some p \<Rightarrow> \<not> is_provisional p | None \<Rightarrow> False)
        then fail StageProvisionalVariant
      else if (case sc_resource_id c of Some i \<Rightarrow> is_provisional i | None \<Rightarrow> False)
        then fail StageResourceProvisional
      else staged_upsert c)"

definition discard_one :: "uuid \<Rightarrow> uuid \<Rightarrow> uuid \<Rightarrow> unit staging_prog" where
  "discard_one user org i =
     andThen (ext_call (StagingWrap ''staging.DiscardOne: begin tx'' (StagingDriver ''begin''))) (\<lambda>_.
     andThen (delete_by_ids_tx [i]) (\<lambda>_.
     andThen (ext_call (StagingDriver ''commit'')) (\<lambda>_.
       modify (\<lambda>w. w\<lparr>staged_changes := without_ids user org [i] (staged_changes w)\<rparr>))))"

definition discard_all :: "uuid \<Rightarrow> uuid \<Rightarrow> int staging_prog" where
  "discard_all user org = delete_all_for_user user org"

section \<open>Audit entries\<close>

text \<open>The time a change was staged is spliced into its new value.\<close>

fun staged_new_value :: "json option \<Rightarrow> time \<Rightarrow> json" where
  "staged_new_value None t = JObj [(''_staged_at'', JStr (format_rfc3339 t))]"
| "staged_new_value (Some (JObj ms)) t = JObj ((''_staged_at'', JStr (format_rfc3339 t)) # ms)"
| "staged_new_value (Some v) t = JObj [(''_staged_at'', JStr (format_rfc3339 t)), (''value'', v)]"

definition build_audit_entry :: "staged_change \<Rightarrow> uuid \<Rightarrow> string \<Rightarrow> audit_entry staging_prog" where
  "build_audit_entry c actor action =
     andThen uuid_new (\<lambda>i.
     andThen time_now (\<lambda>now.
       ret \<lparr>ae_id = i, ae_org_id = sc_org_id c, ae_project_id = uuid_nil, ae_actor_id = actor, ae_action = action,
            ae_entity_type = sc_resource_type c,
            ae_entity_id = (case sc_resource_id c of Some r \<Rightarrow> r | None \<Rightarrow> uuid_nil),
            ae_old_value = sc_old_value c, ae_new_value = Some (staged_new_value (sc_new_value c) (sc_created_at c)),
            ae_created_at = now\<rparr>))"

definition must_not_be_provisional :: "uuid \<Rightarrow> string \<Rightarrow> unit staging_prog" where
  "must_not_be_provisional i site =
     (if is_provisional i then fail (StagingPanic (''staging: provisional id leaked into '' @ site)) else ret ())"

section \<open>Committing a batch\<close>

record commit_result =
  cr_committed :: "uuid list"
  cr_failed :: "uuid option"
  cr_reason :: "staging_error option"

record batch =
  bt_resolver :: resolver
  bt_committed :: "uuid list"
  bt_audits :: "audit_entry list"
  bt_hooks :: "hook list"

text \<open>\<open>if err != nil\<close> around a handler sees its errors but not its panics.\<close>

definition caught :: "'a staging_prog \<Rightarrow> (staging_error + 'a) staging_prog" where
  "caught m = (\<lambda>s. case m s of
     (Inl e, t) \<Rightarrow> if panics e then (Inl e, t) else (Inr (Inl e), t)
   | (Inr x, t) \<Rightarrow> (Inr (Inr x), t))"

definition commit_create ::
  "registry \<Rightarrow> uuid \<Rightarrow> batch \<Rightarrow> staged_change \<Rightarrow> uuid \<Rightarrow> (staging_error + batch) staging_prog" where
  "commit_create reg actor b c prov =
     andThen (caught (create_dispatch reg c)) (\<lambda>r.
       case r of
         Inl e \<Rightarrow> ret (Inl e)
       | Inr (actual, action, hook) \<Rightarrow>
           andThen (lift_err (bind_real (bt_resolver b) prov actual)) (\<lambda>m.
           andThen (build_audit_entry c actor action) (\<lambda>entry.
           andThen (must_not_be_provisional actual ''audit_log.entity_id (create)'') (\<lambda>_.
             ret (Inr \<lparr>bt_resolver = m, bt_committed = bt_committed b @ [sc_change_id c],
                       bt_audits = bt_audits b @ [entry\<lparr>ae_entity_id := actual\<rparr>],
                       bt_hooks = bt_hooks b @ (case hook of None \<Rightarrow> [] | Some h \<Rightarrow> [h])\<rparr>)))))"

definition commit_mutation ::
  "registry \<Rightarrow> (string \<Rightarrow> uuid option) \<Rightarrow> (uuid \<Rightarrow> string) \<Rightarrow> uuid \<Rightarrow> batch \<Rightarrow> staged_change \<Rightarrow>
   (staging_error + batch) staging_prog" where
  "commit_mutation reg parse text_of actor b c =
     (case rewrite_row parse text_of (bt_resolver b) c of
        Inl e \<Rightarrow> ret (Inl e)
      | Inr c' \<Rightarrow>
          andThen (caught (commit_dispatch reg c')) (\<lambda>r.
            case r of
              Inl e \<Rightarrow> ret (Inl e)
            | Inr action \<Rightarrow>
                andThen (build_audit_entry c' actor action) (\<lambda>entry.
                andThen (must_not_be_provisional (ae_entity_id entry) ''audit_log.entity_id (mutation)'') (\<lambda>_.
                  ret (Inr (b\<lparr>bt_committed := bt_committed b @ [sc_change_id c],
                             bt_audits := bt_audits b @ [entry]\<rparr>))))))"

definition commit_row ::
  "registry \<Rightarrow> (string \<Rightarrow> uuid option) \<Rightarrow> (uuid \<Rightarrow> string) \<Rightarrow> uuid \<Rightarrow> batch \<Rightarrow> staged_change \<Rightarrow>
   (staging_error + batch) staging_prog" where
  "commit_row reg parse text_of actor b c =
     (case sc_provisional_id c of
        Some prov \<Rightarrow>
          if is_creatable reg (sc_resource_type c) (sc_action c) then commit_create reg actor b c prov
          else commit_mutation reg parse text_of actor b c
      | None \<Rightarrow> commit_mutation reg parse text_of actor b c)"

text \<open>The rows in their order, up to the first that fails.\<close>

fun commit_rows ::
  "registry \<Rightarrow> (string \<Rightarrow> uuid option) \<Rightarrow> (uuid \<Rightarrow> string) \<Rightarrow> uuid \<Rightarrow> batch \<Rightarrow> staged_change list \<Rightarrow>
   (batch \<times> (uuid \<times> staging_error) option) staging_prog" where
  "commit_rows reg parse text_of actor b [] = ret (b, None)"
| "commit_rows reg parse text_of actor b (c # cs) =
     andThen (commit_row reg parse text_of actor b c) (\<lambda>r.
       case r of
         Inl e \<Rightarrow> ret (b, Some (sc_change_id c, e))
       | Inr b' \<Rightarrow> commit_rows reg parse text_of actor b' cs)"

text \<open>Audit rows are written after the commit; their errors are joined.\<close>

fun write_audits :: "audit_entry list \<Rightarrow> staging_error list staging_prog" where
  "write_audits [] = ret []"
| "write_audits (a # as) =
     andThen (attempt (write_audit_log (StagingWrap ''audit row'' (StagingDriver ''postgres.WriteAuditLog'')) a)
         :: (staging_error + unit) staging_prog) (\<lambda>r.
     andThen (write_audits as) (\<lambda>es. ret (case r of Inl e \<Rightarrow> e # es | Inr _ \<Rightarrow> es)))"

text \<open>\<open>defer tx.Rollback\<close>: what is not committed when the function returns is gone.\<close>

definition with_rollback :: "'a staging_prog \<Rightarrow> 'a staging_prog" where
  "with_rollback m = (\<lambda>s. case m s of (r, t) \<Rightarrow> (r, drop_tx t))"

definition empty_batch :: batch where
  "empty_batch = \<lparr>bt_resolver = (\<lambda>_. None), bt_committed = [], bt_audits = [], bt_hooks = []\<rparr>"

definition finish_commit :: "uuid \<Rightarrow> uuid \<Rightarrow> batch \<Rightarrow> (commit_result \<times> staging_error list) staging_prog" where
  "finish_commit user org b =
     andThen (wrapped (StagingWrap ''staging.Commit: delete staged rows'') (delete_by_ids_tx (bt_committed b))) (\<lambda>_.
     andThen (ext_call (StagingWrap ''staging.Commit: tx commit'' (StagingDriver ''commit''))) (\<lambda>_.
     andThen (modify (\<lambda>s. (keep_tx s)\<lparr>staged_changes := without_ids user org (bt_committed b) (staged_changes s)\<rparr>)) (\<lambda>_.
     andThen (modify (fold (\<lambda>h. h) (bt_hooks b))) (\<lambda>_.
     andThen (write_audits (bt_audits b)) (\<lambda>es.
       ret (\<lparr>cr_committed = bt_committed b, cr_failed = None, cr_reason = None\<rparr>, es))))))"

definition commit_in_tx ::
  "registry \<Rightarrow> (string \<Rightarrow> uuid option) \<Rightarrow> (uuid \<Rightarrow> string) \<Rightarrow> uuid \<Rightarrow> uuid \<Rightarrow> uuid \<Rightarrow> staged_change list \<Rightarrow>
   (commit_result \<times> staging_error list) staging_prog" where
  "commit_in_tx reg parse text_of user org actor rows =
     with_rollback (andThen (commit_rows reg parse text_of actor empty_batch rows) (\<lambda>res.
       case res of
         (b, Some (i, e)) \<Rightarrow> ret (\<lparr>cr_committed = bt_committed b, cr_failed = Some i, cr_reason = Some e\<rparr>, [])
       | (b, None) \<Rightarrow> finish_commit user org b))"

definition staging_commit ::
  "registry \<Rightarrow> (string \<Rightarrow> uuid option) \<Rightarrow> (uuid \<Rightarrow> string) \<Rightarrow> uuid \<Rightarrow> uuid \<Rightarrow> uuid \<Rightarrow> uuid list \<Rightarrow>
   (commit_result \<times> staging_error list) staging_prog" where
  "staging_commit reg parse text_of user org actor ids =
     (if ids = [] then ret (\<lparr>cr_committed = [], cr_failed = None, cr_reason = None\<rparr>, [])
      else andThen (wrapped (StagingWrap ''staging.Commit: load rows'') (get_by_ids user org ids)) (\<lambda>rows.
        if length rows \<noteq> length ids
        then fail (RowsMissing (int (length ids) - int (length rows)) (int (length ids)))
        else case plan_batch parse rows of
          Inl (UnresolvedProvisional i p) \<Rightarrow>
            ret (\<lparr>cr_committed = [], cr_failed = Some i, cr_reason = Some (UnresolvedProvisional i p)\<rparr>, [])
        | Inl e \<Rightarrow> fail (StagingWrap ''staging.Commit: preflight'' e)
        | Inr ordered \<Rightarrow>
            andThen (ext_call (StagingWrap ''staging.Commit: begin tx'' (StagingDriver ''begin''))) (\<lambda>_.
              commit_in_tx reg parse text_of user org actor ordered)))"

section \<open>What a registry promises\<close>

text \<open>
  \<open>tx_write s t\<close>: nothing but the rows of the transaction and the counters of the outside
  changed. \<open>pool_write s t\<close>: the pending changes, the audit log and the transaction are as
  they were.
\<close>

definition tx_write :: "staging_world \<Rightarrow> staging_world \<Rightarrow> bool" where
  "tx_write s t \<longleftrightarrow> (\<exists>c r m p fl ru st. t = s\<lparr>calls := c, reads := r, minted := m, polls := p,
     tx_flags := fl, tx_rules := ru, tx_strategies := st\<rparr>)"

definition pool_write :: "staging_world \<Rightarrow> staging_world \<Rightarrow> bool" where
  "pool_write s t \<longleftrightarrow> staged_changes t = staged_changes s \<and> audit_log t = audit_log s \<and>
     audit_refs t = audit_refs s \<and> owned (st_members s) (st_members t) \<and>
     tx_flags t = tx_flags s \<and> tx_rules t = tx_rules s \<and> tx_strategies t = tx_strategies s"

text \<open>
  The books: the pending changes and the audit log. No organization loses its last owner.
\<close>

definition books_kept :: "staging_world \<Rightarrow> staging_world \<Rightarrow> bool" where
  "books_kept s t \<longleftrightarrow>
     staged_changes t = staged_changes s \<and> audit_log t = audit_log s \<and> audit_refs t = audit_refs s \<and>
     owned (st_members s) (st_members t)"

declare owned_refl [simp]

lemma tx_write_refl: "tx_write s s"
  unfolding tx_write_def
  by (intro exI[of _ "calls s"] exI[of _ "reads s"] exI[of _ "minted s"] exI[of _ "polls s"]
      exI[of _ "tx_flags s"] exI[of _ "tx_rules s"] exI[of _ "tx_strategies s"]) simp

lemma tx_write_trans: "tx_write s t \<Longrightarrow> tx_write t u \<Longrightarrow> tx_write s u"
  unfolding tx_write_def by force

interpretation txw: frame tx_write
  by unfold_locales (auto intro: tx_write_refl tx_write_trans)

interpretation books: frame books_kept
  by unfold_locales (auto simp: books_kept_def intro: owned_trans)

lemma tx_write_books: "tx_write s t \<Longrightarrow> books_kept s t"
  by (auto simp: tx_write_def books_kept_def)

lemma pool_write_books: "pool_write s t \<Longrightarrow> books_kept s t"
  by (auto simp: pool_write_def books_kept_def)

lemma tx_write_step:
  "tx_write s (s\<lparr>calls := n\<rparr>)" "tx_write s (s\<lparr>reads := n\<rparr>)" "tx_write s (s\<lparr>minted := n\<rparr>)" "tx_write s (s\<lparr>polls := n\<rparr>)"
  by (simp_all add: tx_write_def)
    (intro exI[of _ "calls s"] exI[of _ "reads s"] exI[of _ "minted s"] exI[of _ "polls s"]
      exI[of _ "tx_flags s"] exI[of _ "tx_rules s"] exI[of _ "tx_strategies s"] exI[of _ n]; simp)+

lemma keeps_books_tx: "keeps tx_write m \<Longrightarrow> keeps books_kept m"
  by (simp add: keeps_def tx_write_books)

lemma keeps_books_pool: "keeps pool_write m \<Longrightarrow> keeps books_kept m"
  by (simp add: keeps_def pool_write_books)

lemma keeps_tx_env [intro]:
  "keeps tx_write (ext_call e)" "keeps tx_write time_now" "keeps tx_write uuid_new"
  by (auto simp: keeps_def prog_defs intro: tx_write_step)

text \<open>
  The contract of a registry: what a create handler writes is in the transaction, and what
  either kind of handler and a hook do leaves the pending changes and the audit log alone.
\<close>

definition quiet_hook :: "hook \<Rightarrow> bool" where
  "quiet_hook h \<longleftrightarrow> (\<forall>s. books_kept s (h s))"

definition batch_ok :: "batch \<Rightarrow> bool" where
  "batch_ok b \<longleftrightarrow> (\<forall>h \<in> set (bt_hooks b). quiet_hook h) \<and>
     (\<forall>a \<in> set (bt_audits b). \<not> is_provisional (ae_entity_id a) \<and> ae_project_id a = uuid_nil) \<and>
     length (bt_audits b) = length (bt_committed b)"

definition batch_failed :: "staging_error + (commit_result \<times> staging_error list) \<Rightarrow> bool" where
  "batch_failed r \<longleftrightarrow> (case r of Inl _ \<Rightarrow> True | Inr (res, _) \<Rightarrow> cr_failed res \<noteq> None)"

lemma batch_failed_simps [simp]:
  "batch_failed (Inl e)" "batch_failed (Inr (res, es)) \<longleftrightarrow> cr_failed res \<noteq> None"
  by (simp_all add: batch_failed_def)

lemma batch_ok_empty [simp]: "batch_ok empty_batch"
  by (simp add: batch_ok_def empty_batch_def)

lemma hooks_quiet: "(\<And>h. h \<in> set hs \<Longrightarrow> quiet_hook h) \<Longrightarrow> books_kept s (fold (\<lambda>h. h) hs s)"
proof (induction hs arbitrary: s)
  case (Cons h hs)
  have "books_kept s (h s)" using Cons.prems by (simp add: quiet_hook_def)
  moreover have "books_kept (h s) (fold (\<lambda>h. h) hs (h s))" using Cons by simp
  ultimately show ?case by (auto intro: books.R_trans)
qed (simp add: books.R_refl)

lemma caught_run:
  "caught m s = (Inr (Inl e), t) \<Longrightarrow> m s = (Inl e, t)" "caught m s = (Inr (Inr x), t) \<Longrightarrow> m s = (Inr x, t)"
  "caught m s = (Inl e, t) \<Longrightarrow> m s = (Inl e, t) \<and> panics e"
  by (auto simp: caught_def split: prod.splits sum.splits if_splits)

lemma keeps_caught: "keeps R m \<Longrightarrow> keeps R (caught m)"
  unfolding keeps_def caught_def by (auto split: prod.split sum.split simp: prod_eq_iff)

lemma or_else_Inr:
  "andThen m (\<lambda>r. case r of Inl e \<Rightarrow> ret (Inl (g e)) | Inr x \<Rightarrow> f x) s = (Inr (Inr y), t) \<longleftrightarrow>
   (\<exists>x u. m s = (Inr (Inr x), u) \<and> f x u = (Inr (Inr y), t))"
  by (auto simp: andThen_def ret_def split: prod.splits sum.splits)

lemma build_audit_entry_run:
  "build_audit_entry c actor action s = (r, t) \<Longrightarrow>
   \<exists>a. r = Inr a \<and> ae_project_id a = uuid_nil \<and> ae_entity_id a = (case sc_resource_id c of Some i \<Rightarrow> i | None \<Rightarrow> uuid_nil)"
  by (auto simp: build_audit_entry_def prog_defs)

lemma keeps_build_audit_entry [intro]: "keeps tx_write (build_audit_entry c actor action)"
  unfolding build_audit_entry_def by (intro txw.keeps_rules keeps_tx_env)

lemma keeps_must_not_be_provisional [intro]: "keeps tx_write (must_not_be_provisional i site)"
  unfolding must_not_be_provisional_def by (intro txw.keeps_rules)

lemma must_not_be_provisional_run:
  "must_not_be_provisional i site s = (Inr x, t) \<longleftrightarrow> \<not> is_provisional i \<and> t = s"
  by (auto simp: must_not_be_provisional_def prog_defs)

locale commit_registry =
  fixes reg :: registry
  assumes creates_frame: "create_handlers reg k = Some h \<Longrightarrow> keeps tx_write (h c)"
    and creates_hook: "create_handlers reg k = Some h \<Longrightarrow> h c s = (Inr (i, action, Some hook), t) \<Longrightarrow> quiet_hook hook"
    and commits_frame: "commit_handlers reg k = Some g \<Longrightarrow> keeps pool_write (g c)"
begin

lemma keeps_create_dispatch: "keeps tx_write (create_dispatch reg c)"
  unfolding create_dispatch_def by (intro txw.keeps_rules) (auto intro: creates_frame)

lemma keeps_commit_dispatch: "keeps pool_write (commit_dispatch reg c)"
  unfolding commit_dispatch_def
  by (cases "commit_handlers reg (commit_key (sc_resource_type c) (sc_action c))")
    (auto simp: keeps_def fail_def pool_write_def dest: commits_frame[unfolded keeps_def pool_write_def])

lemma keeps_commit_create: "keeps tx_write (commit_create reg actor b c prov)"
  unfolding commit_create_def
  by (intro txw.keeps_andThen keeps_caught keeps_create_dispatch)
    (auto split: sum.split option.split intro!: txw.keeps_rules)

lemma keeps_commit_mutation: "keeps books_kept (commit_mutation reg parse text_of actor b c)"
  unfolding commit_mutation_def
  by (intro books.keeps_sum books.keeps_andThen keeps_caught keeps_books_pool[OF keeps_commit_dispatch]
      books.keeps_ret keeps_books_tx[OF keeps_build_audit_entry] keeps_books_tx[OF keeps_must_not_be_provisional])

lemma keeps_commit_row: "keeps books_kept (commit_row reg parse text_of actor b c)"
  unfolding commit_row_def
  by (intro books.keeps_option books.keeps_if keeps_commit_mutation keeps_books_tx[OF keeps_commit_create])

lemma keeps_commit_rows: "keeps books_kept (commit_rows reg parse text_of actor b rows)"
proof (induction rows arbitrary: b)
  case (Cons c rows)
  show ?case unfolding commit_rows.simps
    by (intro books.keeps_andThen books.keeps_sum keeps_commit_row books.keeps_ret Cons.IH)
qed (simp add: books.keeps_ret)

text \<open>A row that succeeds extends the batch by itself, by one audit entry, and by a quiet hook.\<close>

lemma commit_create_Inr:
  assumes run: "commit_create reg actor b c prov s = (Inr (Inr b'), t)" and ok: "batch_ok b"
  shows "batch_ok b' \<and> bt_committed b' = bt_committed b @ [sc_change_id c]"
proof -
  from run obtain i action hook u where
    d: "caught (create_dispatch reg c) s = (Inr (Inr (i, action, hook)), u)"
    and r: "andThen (lift_err (bind_real (bt_resolver b) prov i)) (\<lambda>m.
        andThen (build_audit_entry c actor action) (\<lambda>entry.
        andThen (must_not_be_provisional i ''audit_log.entity_id (create)'') (\<lambda>_.
          ret (Inr \<lparr>bt_resolver = m, bt_committed = bt_committed b @ [sc_change_id c],
                    bt_audits = bt_audits b @ [entry\<lparr>ae_entity_id := i\<rparr>],
                    bt_hooks = bt_hooks b @ (case hook of None \<Rightarrow> [] | Some h \<Rightarrow> [h])\<rparr>)))) u
        = (Inr (Inr b' :: staging_error + batch), t)"
    unfolding commit_create_def or_else_Inr[where g = "\<lambda>e. e"] by (auto split: prod.splits)
  have hook: "quiet_hook h" if "hook = Some h" for h
    using caught_run(2)[OF d] that
    by (auto simp: create_dispatch_def fail_def split: option.splits intro: creates_hook)
  from r ok hook show ?thesis
    by (auto simp: andThen_Inr ret_def must_not_be_provisional_run batch_ok_def
          split: option.splits dest!: build_audit_entry_run)
qed

lemma commit_mutation_Inr:
  assumes run: "commit_mutation reg parse text_of actor b c s = (Inr (Inr b'), t)" and ok: "batch_ok b"
  shows "batch_ok b' \<and> bt_committed b' = bt_committed b @ [sc_change_id c]"
proof -
  from run obtain c' action u where
    "andThen (build_audit_entry c' actor action) (\<lambda>entry.
       andThen (must_not_be_provisional (ae_entity_id entry) ''audit_log.entity_id (mutation)'') (\<lambda>_.
         ret (Inr (b\<lparr>bt_committed := bt_committed b @ [sc_change_id c],
                    bt_audits := bt_audits b @ [entry]\<rparr>)))) u = (Inr (Inr b' :: staging_error + batch), t)"
    by (auto simp: commit_mutation_def or_else_Inr[where g = "\<lambda>e. e"] ret_def split: sum.splits)
  with ok show ?thesis
    by (auto simp: andThen_Inr ret_def must_not_be_provisional_run batch_ok_def dest!: build_audit_entry_run)
qed

lemma commit_row_Inr:
  assumes "commit_row reg parse text_of actor b c s = (Inr (Inr b'), t)" and "batch_ok b"
  shows "batch_ok b' \<and> bt_committed b' = bt_committed b @ [sc_change_id c]"
  using assms by (auto simp: commit_row_def split: option.splits if_splits dest: commit_create_Inr commit_mutation_Inr)

lemma commit_rows_Inr:
  assumes "commit_rows reg parse text_of actor b rows s = (Inr (b', None), t)" and "batch_ok b"
  shows "batch_ok b' \<and> bt_committed b' = bt_committed b @ map sc_change_id rows"
  using assms
proof (induction rows arbitrary: b s)
  case (Cons c rows)
  from Cons.prems(1) obtain r u where
    row: "commit_row reg parse text_of actor b c s = (Inr r, u)"
    and rest: "(case r of Inl e \<Rightarrow> ret (b, Some (sc_change_id c, e))
      | Inr b1 \<Rightarrow> commit_rows reg parse text_of actor b1 rows) u = (Inr (b', None), t)"
    unfolding commit_rows.simps andThen_Inr by blast
  obtain b1 where r: "r = Inr b1" using rest by (cases r) (auto simp: ret_def)
  from commit_row_Inr[OF row[unfolded r] Cons.prems(2)] Cons.IH[of b1 u] rest r show ?case by simp
qed (simp add: ret_def)

end

section \<open>The outcome of a commit\<close>

lemma write_audit_log_run:
  assumes "write_audit_log err a s = (r, t)"
  shows "(\<exists>x. r = Inl x \<and> audit_log t = audit_log s) \<or>
      r = Inr () \<and> audit_row_ok (audit_refs s) a \<and> (\<exists>i. audit_log t = audit_log s @ [a\<lparr>ae_id := i\<rparr>])"
    and "staged_changes t = staged_changes s" and "audit_refs t = audit_refs s" and "st_members t = st_members s"
  using assms by (auto simp: write_audit_log_def prog_defs split: if_splits intro: exI[of _ "ae_id a"])

text \<open>A stored entry is the one given, up to the identifier it gets when it has none.\<close>

definition stored_from :: "audit_entry list \<Rightarrow> audit_refs \<Rightarrow> audit_entry \<Rightarrow> bool" where
  "stored_from as refs n \<longleftrightarrow> (\<exists>a \<in> set as. audit_row_ok refs a \<and> (\<exists>i. n = a\<lparr>ae_id := i\<rparr>))"

lemma write_audits_outcome:
  assumes "write_audits as s = (r, t)"
  obtains es new where "r = Inr es" "audit_log t = audit_log s @ new"
    "\<And>n. n \<in> set new \<Longrightarrow> stored_from as (audit_refs s) n"
    "length new + length es = length as" "staged_changes t = staged_changes s"
    "st_members t = st_members s"
  using assms
proof (induction as arbitrary: s r t thesis)
  case Nil
  show thesis by (rule Nil.prems(1)[of "[]" "[]"]) (use Nil.prems(2) in \<open>auto simp: ret_def\<close>)
next
  case (Cons a as)
  let ?err = "StagingWrap ''audit row'' (StagingDriver ''postgres.WriteAuditLog'')"
  obtain x u where x: "write_audit_log ?err a s = (x, u)" by (cases "write_audit_log ?err a s")
  obtain q v where q: "write_audits as u = (q, v)" by (cases "write_audits as u")
  obtain es new where rest: "q = Inr es" "audit_log v = audit_log u @ new"
    "\<And>n. n \<in> set new \<Longrightarrow> stored_from as (audit_refs u) n"
    "length new + length es = length as" "staged_changes v = staged_changes u" "st_members v = st_members u"
    using Cons.IH[OF _ q] by blast
  have t: "r = Inr (case x of Inl e \<Rightarrow> e # es | Inr _ \<Rightarrow> es)" "t = v"
    using Cons.prems(2) x q rest(1) by (simp_all add: andThen_def attempt_def ret_def)
  have later: "stored_from (a # as) (audit_refs s) n" if "n \<in> set new" for n
    using rest(3)[OF that] write_audit_log_run(3)[OF x] by (auto simp: stored_from_def)
  from write_audit_log_run(1)[OF x] show thesis
  proof (elim disjE exE conjE)
    fix e assume "x = Inl e" "audit_log u = audit_log s"
    with t rest later write_audit_log_run(2,4)[OF x] show thesis
      by (intro Cons.prems(1)[of "e # es" new]) auto
  next
    fix i assume "x = Inr ()" "audit_row_ok (audit_refs s) a" "audit_log u = audit_log s @ [a\<lparr>ae_id := i\<rparr>]"
    moreover from this have "stored_from (a # as) (audit_refs s) (a\<lparr>ae_id := i\<rparr>)"
      by (auto simp: stored_from_def)
    ultimately show thesis using t rest later write_audit_log_run(2,4)[OF x]
      by (intro Cons.prems(1)[of es "a\<lparr>ae_id := i\<rparr> # new"]) auto
  qed
qed

text \<open>What the service owes to its caller, as a relation between the books before and after.\<close>

definition batch_outcome ::
  "uuid \<Rightarrow> uuid \<Rightarrow> (staging_error + (commit_result \<times> staging_error list)) \<Rightarrow> staging_world \<Rightarrow> staging_world \<Rightarrow> bool" where
  "batch_outcome user org r s t \<longleftrightarrow> owned (st_members s) (st_members t) \<and>
     (if batch_failed r then books_kept s t
      else case r of
        Inl _ \<Rightarrow> False
      | Inr (res, es) \<Rightarrow>
          staged_changes t = without_ids user org (cr_committed res) (staged_changes s) \<and>
          (\<exists>new. audit_log t = audit_log s @ new \<and>
             (\<forall>a \<in> set new. \<not> is_provisional (ae_entity_id a) \<and> known_project (audit_refs s) uuid_nil) \<and>
             length new + length es = length (cr_committed res)))"

lemma finish_commit_outcome:
  assumes run: "finish_commit user org b s = (r, t)" and ok: "batch_ok b"
  shows "batch_outcome user org r s t"
    and "r = Inr (res, es) \<Longrightarrow> cr_failed res = None \<and> cr_committed res = bt_committed b"
proof -
  let ?del = "wrapped (StagingWrap ''staging.Commit: delete staged rows'') (delete_by_ids_tx (bt_committed b))"
  let ?com = "ext_call (StagingWrap ''staging.Commit: tx commit'' (StagingDriver ''commit'')) :: unit staging_prog"
  obtain x1 s1 where 1: "?del s = (x1, s1)" by (cases "?del s")
  have k1: "books_kept s s1" using 1
    by (auto simp: delete_by_ids_tx_def prog_defs books_kept_def split: if_splits)
  obtain x2 s2 where 2: "?com s1 = (x2, s2)" by (cases "?com s1")
  have k2: "books_kept s s2" using 2 k1 by (auto simp: prog_defs books_kept_def split: if_splits)
  let ?s3 = "(keep_tx s2)\<lparr>staged_changes := without_ids user org (bt_committed b) (staged_changes s2)\<rparr>"
  let ?s4 = "fold (\<lambda>h. h) (bt_hooks b) ?s3"
  have k4: "books_kept ?s3 ?s4" using ok by (intro hooks_quiet) (auto simp: batch_ok_def)
  obtain q s5 where 5: "write_audits (bt_audits b) ?s4 = (q, s5)" by (cases "write_audits (bt_audits b) ?s4")
  obtain es' new where w: "q = Inr es'" "audit_log s5 = audit_log ?s4 @ new"
    "\<And>n. n \<in> set new \<Longrightarrow> stored_from (bt_audits b) (audit_refs ?s4) n"
    "length new + length es' = length (bt_audits b)" "staged_changes s5 = staged_changes ?s4"
    "st_members s5 = st_members ?s4"
    by (rule write_audits_outcome[OF 5]) blast
  have refs: "audit_refs ?s4 = audit_refs s"
    using k2 k4 by (simp add: books_kept_def keep_tx_def drop_tx_def tx_view_def)
  have real: "\<forall>a \<in> set new. \<not> is_provisional (ae_entity_id a) \<and> known_project (audit_refs s) uuid_nil"
    using ok w(3) unfolding refs by (fastforce simp: batch_ok_def stored_from_def audit_row_ok_def)
  show "batch_outcome user org r s t"
  proof (cases "isl x1 \<or> isl x2")
    case True
    then have "batch_failed r \<and> books_kept s t"
      using run 1 2 k1 k2 by (cases x1; cases x2; auto simp: finish_commit_def andThen_def)
    then show ?thesis by (simp add: batch_outcome_def books_kept_def)
  next
    case False
    then have "r = Inr (\<lparr>cr_committed = bt_committed b, cr_failed = None, cr_reason = None\<rparr>, es')" "t = s5"
      using run 1 2 5 w(1)
      by (cases x1; cases x2; simp add: finish_commit_def andThen_def modify_def ret_def)+
    moreover have "owned (st_members s) (st_members ?s4)"
      using k2 k4 by (auto simp: books_kept_def keep_tx_def drop_tx_def tx_view_def intro: owned_trans)
    ultimately show ?thesis using w k2 k4 real ok
      by (auto simp: batch_outcome_def books_kept_def keep_tx_def drop_tx_def tx_view_def batch_ok_def)
  qed
  show "cr_failed res = None \<and> cr_committed res = bt_committed b" if "r = Inr (res, es)"
    using run that by (auto simp: finish_commit_def andThen_Inr ret_def)
qed

lemma drop_tx_books [simp]:
  "staged_changes (drop_tx t) = staged_changes t" "audit_log (drop_tx t) = audit_log t"
  "st_members (drop_tx t) = st_members t"
  "audit_refs (drop_tx t) = audit_refs t"
  by (simp_all add: drop_tx_def)

context commit_registry begin

lemma commit_in_tx_outcome:
  assumes run: "commit_in_tx reg parse text_of user org actor rows s = (r, t)"
  shows "batch_outcome user org r s t"
    and "r = Inr (res, es) \<Longrightarrow> cr_failed res = None \<Longrightarrow> cr_committed res = map sc_change_id rows"
proof -
  let ?rows = "commit_rows reg parse text_of actor empty_batch rows"
  obtain x u where x: "?rows s = (x, u)" by (cases "?rows s")
  have kept: "books_kept s u" using keeps_commit_rows x by (rule keepsD)
  have both: "batch_outcome user org r s t \<and>
    (r = Inr (res, es) \<longrightarrow> cr_failed res = None \<longrightarrow> cr_committed res = map sc_change_id rows)"
  proof (cases "\<exists>b. x = Inr (b, None)")
    case True
    then obtain b where b: "x = Inr (b, None)" by blast
    have ok: "batch_ok b" "bt_committed b = map sc_change_id rows"
      using commit_rows_Inr[OF x[unfolded b] batch_ok_empty] by (simp_all add: empty_batch_def)
    obtain q v where q: "finish_commit user org b u = (q, v)" by (cases "finish_commit user org b u")
    have rt: "r = q" "t = drop_tx v"
      using run x b q by (simp_all add: commit_in_tx_def with_rollback_def andThen_def)
    note fin = finish_commit_outcome[OF q ok(1)]
    have "batch_outcome user org r s t"
      using fin(1) kept rt by (auto simp: batch_outcome_def books_kept_def split: sum.splits intro: owned_trans)
    with fin(2) rt ok(2) show ?thesis by simp
  next
    case False
    then have "batch_failed r \<and> t = drop_tx u"
      using run x by (auto simp: commit_in_tx_def with_rollback_def andThen_def ret_def split: sum.splits prod.splits option.splits)
    with kept show ?thesis by (auto simp: batch_outcome_def books_kept_def)
  qed
  then show "batch_outcome user org r s t" by blast
  show "cr_committed res = map sc_change_id rows" if "r = Inr (res, es)" "cr_failed res = None"
    using both that by blast
qed

end

lemma plan_batch_rows:
  "plan_batch parse rows = Inr ordered \<Longrightarrow> length ordered = length rows \<and> set ordered = set rows"
  using sum_length_filter_compl[of "\<lambda>c. sc_provisional_id c \<noteq> None" rows]
  by (auto simp: plan_batch_def split: option.splits)

lemma get_by_ids_run:
  assumes "get_by_ids user org ids s = (x, u)"
  shows "books_kept s u" and "x = Inr rows \<Longrightarrow> sc_change_id ` set rows \<subseteq> set ids"
  using assms by (auto simp: get_by_ids_def prog_defs books_kept_def split: if_splits)

lemma without_no_ids [simp]: "without_ids user org [] rows = rows"
  by (simp add: without_ids_def)

lemma batch_outcome_failed: "batch_failed r \<Longrightarrow> books_kept s t \<Longrightarrow> batch_outcome user org r s t"
  by (simp add: batch_outcome_def books_kept_def)

lemma batch_outcome_after:
  "books_kept s u \<Longrightarrow> batch_outcome user org r u t \<Longrightarrow> batch_outcome user org r s t"
  by (auto simp: batch_outcome_def books_kept_def split: sum.splits if_splits intro: owned_trans)

context commit_registry begin

text \<open>
  A batch that fails, however it fails, changes neither the pending changes nor the audit log;
  one that succeeds removes what it committed and accounts for each change by an audit entry or
  by an error, and no entry names a provisional identifier.
\<close>

lemma staging_commit_outcome:
  assumes run: "staging_commit reg parse text_of user org actor ids s = (r, t)"
  shows "batch_outcome user org r s t \<and>
    (\<forall>res es. r = Inr (res, es) \<longrightarrow> cr_failed res = None \<longrightarrow>
       length (cr_committed res) = length ids \<and> set (cr_committed res) \<subseteq> set ids)"
proof (cases "ids = []")
  case True
  with run show ?thesis
    by (auto simp: staging_commit_def ret_def batch_outcome_def)
next
  case ids: False
  let ?load = "wrapped (StagingWrap ''staging.Commit: load rows'') (get_by_ids user org ids)"
  obtain x u where x: "?load s = (x, u)" by (cases "?load s")
  have kept: "books_kept s u"
    using x get_by_ids_run(1)[of user org ids s] by (auto simp: wrapped_def split: prod.splits sum.splits)
  show ?thesis
  proof (cases "\<exists>rows ordered. x = Inr rows \<and> length rows = length ids \<and> plan_batch parse rows = Inr ordered")
    case False
    then have "batch_failed r \<and> t = u"
      using run x ids by (auto simp: staging_commit_def andThen_def fail_def ret_def
          split: sum.splits if_splits staging_error.splits)
    with kept show ?thesis by (auto intro: batch_outcome_failed)
  next
    case True
    then obtain rows ordered where rows: "x = Inr rows" "length rows = length ids" "plan_batch parse rows = Inr ordered"
      by blast
    let ?start = "ext_call (StagingWrap ''staging.Commit: begin tx'' (StagingDriver ''begin'')) :: unit staging_prog"
    obtain y v where y: "?start u = (y, v)" by (cases "?start u")
    have kept': "books_kept s v" using kept y by (auto simp: books_kept_def prog_defs split: if_splits)
    show ?thesis
    proof (cases y)
      case (Inl e)
      then have "batch_failed r \<and> t = v" using run x y ids rows by (auto simp: staging_commit_def andThen_def)
      with kept' show ?thesis by (auto intro: batch_outcome_failed)
    next
      case (Inr _)
      then have tx: "commit_in_tx reg parse text_of user org actor ordered v = (r, t)"
        using run x y ids rows by (simp add: staging_commit_def andThen_def)
      have "sc_change_id ` set rows \<subseteq> set ids"
        using x rows(1) get_by_ids_run(2)[of user org ids s x u rows] by auto
      then have "length (map sc_change_id ordered) = length ids \<and> set (map sc_change_id ordered) \<subseteq> set ids"
        using plan_batch_rows[OF rows(3)] rows(2) by auto
      with commit_in_tx_outcome(2)[OF tx] batch_outcome_after[OF kept' commit_in_tx_outcome(1)[OF tx]]
      show ?thesis by metis
    qed
  qed
qed

end

section \<open>Batches of creates\<close>

text \<open>What a batch of creates does before its commit is all in the transaction.\<close>

definition creates_only :: "registry \<Rightarrow> staged_change list \<Rightarrow> bool" where
  "creates_only reg rows \<longleftrightarrow>
     (\<forall>c \<in> set rows. sc_provisional_id c \<noteq> None \<and> is_creatable reg (sc_resource_type c) (sc_action c))"

lemma drop_tx_write: "tx_write s t \<Longrightarrow> tx_write s (drop_tx t)"
  unfolding tx_write_def drop_tx_def by force

context commit_registry begin

lemma keeps_create_row:
  assumes "sc_provisional_id c \<noteq> None" and "is_creatable reg (sc_resource_type c) (sc_action c)"
  shows "keeps tx_write (commit_row reg parse text_of actor b c)"
  using assms by (auto simp: commit_row_def intro: keeps_commit_create)

lemma keeps_create_rows:
  "creates_only reg rows \<Longrightarrow> keeps tx_write (commit_rows reg parse text_of actor b rows)"
proof (induction rows arbitrary: b)
  case (Cons c rows)
  show ?case unfolding commit_rows.simps
    by (intro txw.keeps_andThen txw.keeps_sum txw.keeps_ret keeps_create_row Cons.IH)
      (use Cons.prems in \<open>auto simp: creates_only_def\<close>)
qed (simp add: txw.keeps_ret)

end

lemma finish_commit_failed:
  assumes "finish_commit user org b s = (r, t)" and "batch_failed r"
  shows "tx_write s t"
proof -
  let ?del = "wrapped (StagingWrap ''staging.Commit: delete staged rows'') (delete_by_ids_tx (bt_committed b))"
  let ?com = "ext_call (StagingWrap ''staging.Commit: tx commit'' (StagingDriver ''commit'')) :: unit staging_prog"
  obtain x1 s1 where 1: "?del s = (x1, s1)" by (cases "?del s")
  obtain x2 s2 where 2: "?com s1 = (x2, s2)" by (cases "?com s1")
  have "keeps tx_write ?del" unfolding delete_by_ids_tx_def
    by (intro txw.keeps_wrapped txw.keeps_if txw.keeps_ret keeps_tx_env)
  from keepsD[OF this 1] have k1: "tx_write s s1" .
  have k2: "tx_write s1 s2" by (rule keepsD[OF keeps_tx_env(1) 2])
  show ?thesis
  proof (cases "isl x1 \<or> isl x2")
    case True
    then have "t = (if isl x1 then s1 else s2)"
      using assms(1) 1 2 by (cases x1; cases x2; auto simp: finish_commit_def andThen_def)
    then show ?thesis using k1 txw.R_trans[OF k1 k2] by simp
  next
    case False
    let ?s3 = "fold (\<lambda>h. h) (bt_hooks b) ((keep_tx s2)\<lparr>staged_changes := without_ids user org (bt_committed b) (staged_changes s2)\<rparr>)"
    obtain q v where q: "write_audits (bt_audits b) ?s3 = (q, v)" by (cases "write_audits (bt_audits b) ?s3")
    obtain es where "q = Inr es" by (rule write_audits_outcome[OF q])
    with False have "\<not> batch_failed r"
      using assms(1) 1 2 q by (cases x1; cases x2; auto simp: finish_commit_def andThen_def modify_def ret_def)
    with assms(2) show ?thesis by simp
  qed
qed

context commit_registry begin

text \<open>A batch of creates is all or nothing: when it fails the committed tables are untouched.\<close>

lemma commit_creates_atomic:
  assumes run: "commit_in_tx reg parse text_of user org actor rows s = (r, t)"
    and creates: "creates_only reg rows" and failed: "batch_failed r"
  shows "tx_write s t"
proof -
  let ?rows = "commit_rows reg parse text_of actor empty_batch rows"
  obtain x u where x: "?rows s = (x, u)" by (cases "?rows s")
  have kept: "tx_write s u" by (rule keepsD[OF keeps_create_rows[OF creates] x])
  show ?thesis
  proof (cases "\<exists>b. x = Inr (b, None)")
    case True
    then obtain b where b: "x = Inr (b, None)" by blast
    obtain q v where q: "finish_commit user org b u = (q, v)" by (cases "finish_commit user org b u")
    have rt: "r = q" "t = drop_tx v"
      using run x b q by (simp_all add: commit_in_tx_def with_rollback_def andThen_def)
    have "tx_write u v" using finish_commit_failed[OF q] failed rt by simp
    with kept rt show ?thesis by (auto intro: drop_tx_write txw.R_trans)
  next
    case False
    then have "t = drop_tx u"
      using run x by (auto simp: commit_in_tx_def with_rollback_def andThen_def ret_def split: sum.splits prod.splits option.splits)
    with kept show ?thesis by (auto intro: drop_tx_write)
  qed
qed

end

end
