(* ===== verification/FlagLifecycle.thy ===== *)
theory FlagLifecycle
  imports FlagJson
begin

text \<open>
  The end of a flag's life (\<open>internal/flags/service.go\<close> from "Feature lifecycle layer" on,
  \<open>lifecycle_scheduler.go\<close>, \<open>retention_sweep.go\<close> and the methods of
  \<open>internal/platform/database/postgres/flags.go\<close> they call): test results, scheduled removal,
  queued and hard deletion, and the two background jobs that act on them.
\<close>

section \<open>The repository\<close>

record lifecycle_patch =
  lp_smoke_test_status :: "lifecycle_test_status option"
  lp_user_test_status :: "lifecycle_test_status option"
  lp_set_scheduled_removal_at :: bool
  lp_scheduled_removal_at :: "time option"
  lp_iteration_increment :: int
  lp_iteration_exhausted :: "bool option"
  lp_set_smoke_notes :: bool
  lp_smoke_notes :: "string option"
  lp_set_user_notes :: bool
  lp_user_notes :: "string option"

definition empty_patch :: lifecycle_patch where
  "empty_patch = \<lparr>lp_smoke_test_status = None, lp_user_test_status = None,
     lp_set_scheduled_removal_at = False, lp_scheduled_removal_at = None, lp_iteration_increment = 0,
     lp_iteration_exhausted = None, lp_set_smoke_notes = False, lp_smoke_notes = None,
     lp_set_user_notes = False, lp_user_notes = None\<rparr>"

text \<open>\<open>COALESCE($n, col)\<close> and \<open>CASE WHEN $n THEN $m ELSE col END\<close> of the update.\<close>

definition write_lifecycle :: "lifecycle_patch \<Rightarrow> bool \<Rightarrow> time \<Rightarrow> feature_flag \<Rightarrow> feature_flag" where
  "write_lifecycle p disable now f = f\<lparr>
     ff_smoke_test_status := (case lp_smoke_test_status p of None \<Rightarrow> ff_smoke_test_status f | s \<Rightarrow> s),
     ff_user_test_status := (case lp_user_test_status p of None \<Rightarrow> ff_user_test_status f | s \<Rightarrow> s),
     ff_scheduled_removal_at := (if lp_set_scheduled_removal_at p then lp_scheduled_removal_at p
                                 else ff_scheduled_removal_at f),
     ff_iteration_count := ff_iteration_count f + lp_iteration_increment p,
     ff_iteration_exhausted := (case lp_iteration_exhausted p of None \<Rightarrow> ff_iteration_exhausted f | Some b \<Rightarrow> b),
     ff_last_smoke_test_notes := (if lp_set_smoke_notes p then lp_smoke_notes p else ff_last_smoke_test_notes f),
     ff_last_user_test_notes := (if lp_set_user_notes p then lp_user_notes p else ff_last_user_test_notes f),
     ff_enabled := (if disable then False else ff_enabled f),
     ff_updated_at := now\<rparr>"

text \<open>
  The update of the flag and of its states is one transaction: a failure of the second
  statement or of the commit leaves both tables as they were.
\<close>

definition update_flag_lifecycle :: "uuid \<Rightarrow> lifecycle_patch \<Rightarrow> bool \<Rightarrow> ('x, unit) flag_prog" where
  "update_flag_lifecycle i p disable =
     andThen (ext_call (FlagDriver ''postgres.UpdateFlagLifecycle: begin tx'')) (\<lambda>_.
     andThen (ext_call (FlagDriver ''postgres.UpdateFlagLifecycle'')) (\<lambda>_.
     andThen time_now (\<lambda>now.
     andThen get_state (\<lambda>w.
       if row_of ff_id i (feature_flags w) = None then fail FlagNotFound
       else andThen (if disable then ext_call (FlagDriver ''postgres.UpdateFlagLifecycle: disable env states'')
                     else ret ()) (\<lambda>_.
            andThen (ext_call (FlagDriver ''postgres.UpdateFlagLifecycle: commit'')) (\<lambda>_.
              modify (\<lambda>w. w\<lparr>
                feature_flags := update_row ff_id i (write_lifecycle p disable now) (feature_flags w),
                removal_fired := (if lp_set_scheduled_removal_at p then (removal_fired w)(i := None)
                                  else removal_fired w),
                flag_states := (if disable
                  then map (\<lambda>st. if fs_flag_id st = i then st\<lparr>fs_enabled := False, fs_updated_at := now\<rparr> else st)
                         (flag_states w)
                  else flag_states w)\<rparr>)))))))"

definition get_flag_by_project_key :: "uuid \<Rightarrow> string \<Rightarrow> ('x, feature_flag) flag_prog" where
  "get_flag_by_project_key project key =
     andThen (ext_call (FlagDriver ''postgres.GetFlagByProjectKey'')) (\<lambda>_.
     andThen get_state (\<lambda>w.
       case sort_key (\<lambda>f. case ff_environment_id f of None \<Rightarrow> -1 | Some e \<Rightarrow> uint e)
              (filter (\<lambda>f. ff_project_id f = project \<and> ff_key f = key) (feature_flags w)) of
         [] \<Rightarrow> fail FlagNotFound
       | f # _ \<Rightarrow> ret f))"

definition due_for_removal :: "'x flag_world_scheme \<Rightarrow> time \<Rightarrow> feature_flag \<Rightarrow> bool" where
  "due_for_removal w now f \<longleftrightarrow>
     (case ff_scheduled_removal_at f of None \<Rightarrow> False | Some t \<Rightarrow> t \<le> now) \<and>
     removal_fired w (ff_id f) = None \<and> ff_archived_at f = None"

definition list_flags_due_for_removal :: "time \<Rightarrow> ('x, feature_flag list) flag_prog" where
  "list_flags_due_for_removal now =
     andThen (ext_call (FlagDriver ''postgres.ListFlagsDueForRemoval'')) (\<lambda>_.
     andThen get_state (\<lambda>w.
       ret (take 500 (sort_key (\<lambda>f. case ff_scheduled_removal_at f of None \<Rightarrow> 0 | Some t \<Rightarrow> t)
         (filter (due_for_removal w now) (feature_flags w))))))"

definition mark_flag_removal_fired :: "uuid \<Rightarrow> time \<Rightarrow> ('x, unit) flag_prog" where
  "mark_flag_removal_fired i fired =
     andThen (ext_call (FlagDriver ''postgres.MarkFlagRemovalFired'')) (\<lambda>_.
     andThen get_state (\<lambda>w.
       if row_of ff_id i (feature_flags w) = None \<or> removal_fired w i \<noteq> None then fail FlagNotFound
       else modify (\<lambda>w. w\<lparr>removal_fired := (removal_fired w)(i \<mapsto> fired)\<rparr>)))"

text \<open>The retention travels to the database as a whole number of seconds.\<close>

definition interval_of :: "duration \<Rightarrow> duration" where
  "interval_of retention = seconds (whole_seconds retention)"

definition archived_since :: "uuid \<Rightarrow> feature_flag list \<Rightarrow> time option" where
  "archived_since i fs = (case row_of ff_id i fs of None \<Rightarrow> None | Some f \<Rightarrow> ff_archived_at f)"

definition queue_deletion :: "uuid \<Rightarrow> duration \<Rightarrow> ('x, unit) flag_prog" where
  "queue_deletion i retention =
     andThen (ext_call (FlagDriver ''postgres.QueueDeletion'')) (\<lambda>_.
     andThen time_now (\<lambda>now.
     andThen get_state (\<lambda>w.
       case archived_since i (feature_flags w) of
         None \<Rightarrow> fail FlagNotFound
       | Some t \<Rightarrow> modify (\<lambda>w. w\<lparr>feature_flags := update_row ff_id i
           (\<lambda>f. f\<lparr>ff_delete_after := Some (t + interval_of retention), ff_updated_at := now\<rparr>)
           (feature_flags w)\<rparr>))))"

definition clear_delete_after :: "uuid \<Rightarrow> ('x, unit) flag_prog" where
  "clear_delete_after i =
     andThen (ext_call (FlagDriver ''postgres.ClearDeleteAfter'')) (\<lambda>_.
     andThen time_now (\<lambda>now.
       modify (\<lambda>w. w\<lparr>feature_flags := update_row ff_id i
         (\<lambda>f. f\<lparr>ff_delete_after := None, ff_updated_at := now\<rparr>) (feature_flags w)\<rparr>)))"

text \<open>The foreign keys of the rules and of the states cascade.\<close>

definition hard_delete_flag :: "uuid \<Rightarrow> duration \<Rightarrow> ('x, unit) flag_prog" where
  "hard_delete_flag i retention =
     andThen (ext_call (FlagDriver ''postgres.HardDeleteFlag'')) (\<lambda>_.
     andThen time_now (\<lambda>now.
     andThen get_state (\<lambda>w.
       case archived_since i (feature_flags w) of
         None \<Rightarrow> fail FlagNotFound
       | Some t \<Rightarrow>
           if t + interval_of retention < now
           then modify (\<lambda>w. w\<lparr>feature_flags := filter (\<lambda>f. ff_id f \<noteq> i) (feature_flags w),
                  rule_states := filter (\<lambda>st. \<not> list_ex (\<lambda>r. tg_id r = rs_rule_id st \<and> tg_flag_id r = i) (targeting_rules w))
                    (rule_states w),
                  targeting_rules := filter (\<lambda>r. tg_flag_id r \<noteq> i) (targeting_rules w),
                  flag_states := filter (\<lambda>st. fs_flag_id st \<noteq> i) (flag_states w)\<rparr>)
           else fail FlagNotFound)))"

definition restore_flag :: "uuid \<Rightarrow> ('x, unit) flag_prog" where
  "restore_flag i =
     andThen (ext_call (FlagDriver ''postgres.RestoreFlag'')) (\<lambda>_.
     andThen time_now (\<lambda>now.
     andThen get_state (\<lambda>w.
       if row_of ff_id i (feature_flags w) = None then fail FlagNotFound
       else modify (\<lambda>w. w\<lparr>feature_flags := update_row ff_id i
              (\<lambda>f. f\<lparr>ff_archived := False, ff_archived_at := None, ff_delete_after := None, ff_updated_at := now\<rparr>)
              (feature_flags w)\<rparr>))))"

definition due_for_deletion :: "time \<Rightarrow> feature_flag \<Rightarrow> bool" where
  "due_for_deletion now f \<longleftrightarrow> (case ff_delete_after f of None \<Rightarrow> False | Some t \<Rightarrow> t < now)"

definition list_flags_to_hard_delete :: "nat \<Rightarrow> ('x, uuid list) flag_prog" where
  "list_flags_to_hard_delete limit =
     andThen (ext_call (FlagDriver ''postgres.ListFlagsToHardDelete'')) (\<lambda>_.
     andThen time_now (\<lambda>now.
     andThen get_state (\<lambda>w.
       ret (map ff_id (take limit (sort_key (\<lambda>f. case ff_delete_after f of None \<Rightarrow> 0 | Some t \<Rightarrow> t)
         (filter (due_for_deletion now) (feature_flags w))))))))"

section \<open>The service\<close>

definition status_known :: "lifecycle_test_status \<Rightarrow> bool" where
  "status_known s \<longleftrightarrow> s \<in> {LifecycleTestPending, LifecycleTestPass, LifecycleTestFail}"

definition string_ptr_or_nil :: "string \<Rightarrow> string option" where
  "string_ptr_or_nil s = (if s = '''' then None else Some s)"

definition record_smoke_test_result ::
  "uuid \<Rightarrow> lifecycle_test_status \<Rightarrow> string \<Rightarrow> ('x, feature_flag) flag_prog" where
  "record_smoke_test_result i status notes =
     (if \<not> status_known status then fail (FlagDriver ''status must be one of pending, pass, fail'')
      else let failed = (status = LifecycleTestFail);
               patch = empty_patch\<lparr>lp_smoke_test_status := Some status, lp_set_smoke_notes := True,
                 lp_smoke_notes := string_ptr_or_nil notes, lp_iteration_increment := (if failed then 1 else 0)\<rparr>
           in andThen (wrapped (FlagWrap ''updating lifecycle (smoke)'') (update_flag_lifecycle i patch failed)) (\<lambda>_.
              andThen (quietly (invalidate i)) (\<lambda>_. get_flag i)))"

definition record_user_test_result ::
  "uuid \<Rightarrow> lifecycle_test_status \<Rightarrow> string \<Rightarrow> ('x, feature_flag) flag_prog" where
  "record_user_test_result i status notes =
     (if \<not> status_known status then fail (FlagDriver ''status must be one of pending, pass, fail'')
      else if status = LifecycleTestFail \<and> notes = ''''
        then fail (FlagDriver ''notes are required for a failing user-test result'')
      else let failed = (status = LifecycleTestFail);
               patch = empty_patch\<lparr>lp_user_test_status := Some status, lp_set_user_notes := True,
                 lp_user_notes := string_ptr_or_nil notes, lp_iteration_increment := (if failed then 1 else 0)\<rparr>
           in andThen (wrapped (FlagWrap ''updating lifecycle (user)'') (update_flag_lifecycle i patch failed)) (\<lambda>_.
              andThen (quietly (invalidate i)) (\<lambda>_. get_flag i)))"

definition schedule_removal :: "uuid \<Rightarrow> int \<Rightarrow> ('x, feature_flag) flag_prog" where
  "schedule_removal i days =
     (if days \<le> 0 then fail (FlagDriver ''days must be a positive integer'')
      else andThen time_now (\<lambda>now.
           andThen (wrapped (FlagWrap ''scheduling removal'')
             (update_flag_lifecycle i (empty_patch\<lparr>lp_set_scheduled_removal_at := True,
               lp_scheduled_removal_at := Some (now + days * seconds 86400)\<rparr>) False)) (\<lambda>_. get_flag i)))"

definition cancel_scheduled_removal :: "uuid \<Rightarrow> ('x, feature_flag) flag_prog" where
  "cancel_scheduled_removal i =
     andThen (wrapped (FlagWrap ''cancelling scheduled removal'')
       (update_flag_lifecycle i (empty_patch\<lparr>lp_set_scheduled_removal_at := True\<rparr>) False)) (\<lambda>_. get_flag i)"

definition mark_iteration_exhausted :: "uuid \<Rightarrow> ('x, feature_flag) flag_prog" where
  "mark_iteration_exhausted i =
     andThen (wrapped (FlagWrap ''marking exhausted'')
       (update_flag_lifecycle i (empty_patch\<lparr>lp_iteration_exhausted := Some True\<rparr>) False)) (\<lambda>_. get_flag i)"

text \<open>An event about the flag as it is after the change, when it can still be read.\<close>

definition announce_if_read :: "string \<Rightarrow> uuid \<Rightarrow> ('x, unit) flag_prog" where
  "announce_if_read event i =
     andThen (attempt (get_flag i) :: ('x, flag_error + feature_flag) flag_prog) (\<lambda>g.
       case g of Inl _ \<Rightarrow> ret () | Inr f \<Rightarrow> flag_event event f)"

definition svc_queue_deletion :: "uuid \<Rightarrow> duration \<Rightarrow> ('x, unit) flag_prog" where
  "svc_queue_deletion i retention =
     andThen (wrapped (FlagWrap ''queue deletion'') (queue_deletion i retention)) (\<lambda>_.
     andThen (quietly (invalidate i)) (\<lambda>_. announce_if_read ''queued_for_deletion'' i))"

definition hard_deleted_event :: "uuid \<Rightarrow> ('x, unit) flag_prog" where
  "hard_deleted_event i =
     andThen time_now (\<lambda>_.
     andThen (attempt (andThen (ext_call (FlagDriver ''publish'')) (\<lambda>_.
         modify (\<lambda>w. w\<lparr>outbox := outbox w @ [ServiceEvent ''flags.hard_deleted'' i]\<rparr>)))
       :: ('x, flag_error + unit) flag_prog) (\<lambda>_. ret ()))"

definition svc_hard_delete_flag :: "uuid \<Rightarrow> duration \<Rightarrow> ('x, unit) flag_prog" where
  "svc_hard_delete_flag i retention =
     andThen (wrapped (FlagWrap ''hard delete'') (hard_delete_flag i retention)) (\<lambda>_.
     andThen (quietly (invalidate i)) (\<lambda>_. hard_deleted_event i))"

definition svc_restore_flag :: "uuid \<Rightarrow> ('x, unit) flag_prog" where
  "svc_restore_flag i =
     andThen (wrapped (FlagWrap ''restore'') (restore_flag i)) (\<lambda>_.
     andThen (quietly (invalidate i)) (\<lambda>_. announce_if_read ''restored'' i))"

definition svc_clear_delete_after :: "uuid \<Rightarrow> ('x, unit) flag_prog" where
  "svc_clear_delete_after i =
     andThen (wrapped (FlagWrap ''clear delete_after'') (clear_delete_after i)) (\<lambda>_. quietly (invalidate i))"

section \<open>The removal scheduler\<close>

text \<open>
  The webhook goes out through the message bus: a publication that fails is dropped.
\<close>

definition emit_due :: "feature_flag \<Rightarrow> ('x, unit) flag_prog" where
  "emit_due f =
     andThen time_now (\<lambda>_.
     andThen (attempt (andThen (ext_call (FlagDriver ''publish'')) (\<lambda>_.
         modify (\<lambda>w. w\<lparr>outbox := outbox w @ [ServiceEvent ''flag.scheduled_for_removal.due'' (ff_id f)]\<rparr>)))
       :: ('x, flag_error + unit) flag_prog) (\<lambda>_. ret ()))"

fun fire_due :: "time \<Rightarrow> feature_flag list \<Rightarrow> ('x, unit) flag_prog" where
  "fire_due now [] = ret ()"
| "fire_due now (f # fs) =
     andThen (attempt (mark_flag_removal_fired (ff_id f) now) :: ('x, flag_error + unit) flag_prog) (\<lambda>r.
     andThen (case r of Inl _ \<Rightarrow> ret () | Inr _ \<Rightarrow> emit_due f) (\<lambda>_. fire_due now fs))"

definition tick :: "('x, unit) flag_prog" where
  "tick = andThen time_now (\<lambda>now. andThen (list_flags_due_for_removal now) (fire_due now))"

section \<open>The retention job\<close>

text \<open>\<open>json.Marshal\<close> of the flag for the audit row is the parameter \<open>marshal\<close>.\<close>

definition sweep_flag :: "(feature_flag \<Rightarrow> json) \<Rightarrow> duration \<Rightarrow> uuid \<Rightarrow> ('x, unit) flag_prog" where
  "sweep_flag marshal retention i =
     andThen (attempt (svc_get_flag i) :: ('x, flag_error + feature_flag) flag_prog) (\<lambda>g.
     andThen (attempt (svc_hard_delete_flag i retention) :: ('x, flag_error + unit) flag_prog) (\<lambda>r.
       case r of
         Inl _ \<Rightarrow> ret ()
       | Inr _ \<Rightarrow>
           andThen time_now (\<lambda>now.
           andThen (attempt (write_audit_log (FlagDriver ''postgres.WriteAuditLog'')
               \<lparr>ae_id = uuid_nil, ae_org_id = uuid_nil, ae_project_id = uuid_nil, ae_actor_id = uuid_nil,
                ae_action = ''flag.hard_deleted'', ae_entity_type = ''flag'', ae_entity_id = i,
                ae_old_value = (case g of Inl _ \<Rightarrow> None | Inr f \<Rightarrow> Some (marshal f)),
                ae_new_value = None, ae_created_at = now\<rparr>)
             :: ('x, flag_error + unit) flag_prog) (\<lambda>_. ret ()))))"

primrec sweep_flags :: "(feature_flag \<Rightarrow> json) \<Rightarrow> duration \<Rightarrow> uuid list \<Rightarrow> ('x, unit) flag_prog" where
  "sweep_flags marshal retention [] = ret ()"
| "sweep_flags marshal retention (i # is) =
     andThen (sweep_flag marshal retention i) (\<lambda>_. sweep_flags marshal retention is)"

definition retention_sweep :: "(feature_flag \<Rightarrow> json) \<Rightarrow> duration \<Rightarrow> ('x, unit) flag_prog" where
  "retention_sweep marshal retention =
     andThen (attempt (list_flags_to_hard_delete 100) :: ('x, flag_error + uuid list) flag_prog) (\<lambda>l.
       case l of Inl _ \<Rightarrow> ret () | Inr is \<Rightarrow> sweep_flags marshal retention is)"

section \<open>A failed test\<close>

text \<open>\<open>lock_down i now w\<close>: the flag and its state in every environment are off.\<close>

definition locked_down :: "uuid \<Rightarrow> 'x flag_world_scheme \<Rightarrow> bool" where
  "locked_down i w \<longleftrightarrow> (\<forall>f \<in> set (feature_flags w). ff_id f = i \<longrightarrow> \<not> ff_enabled f) \<and>
     (\<forall>st \<in> set (flag_states w). fs_flag_id st = i \<longrightarrow> \<not> fs_enabled st)"

lemma update_flag_lifecycle_run:
  assumes "update_flag_lifecycle i p disable s = (r, t)"
  obtains (failed) e where "r = Inl e" "feature_flags t = feature_flags s" "flag_states t = flag_states s"
  | (written) now where "r = Inr ()" "row_of ff_id i (feature_flags s) \<noteq> None"
      "feature_flags t = update_row ff_id i (write_lifecycle p disable now) (feature_flags s)"
      "flag_states t = (if disable
         then map (\<lambda>st. if fs_flag_id st = i then st\<lparr>fs_enabled := False, fs_updated_at := now\<rparr> else st) (flag_states s)
         else flag_states s)"
      "removal_fired t = (if lp_set_scheduled_removal_at p then (removal_fired s)(i := None) else removal_fired s)"
  using assms
  by (auto simp: update_flag_lifecycle_def prog_defs split: if_splits)

definition tables_kept :: "'x flag_world_scheme \<Rightarrow> 'x flag_world_scheme \<Rightarrow> bool" where
  "tables_kept s t \<longleftrightarrow> feature_flags t = feature_flags s \<and> flag_states t = flag_states s \<and>
     targeting_rules t = targeting_rules s \<and> rule_states t = rule_states s \<and> removal_fired t = removal_fired s \<and>
     audit_log t = audit_log s \<and> fault t = fault s \<and> ctxdone t = ctxdone s"

interpretation tables_kept: frame tables_kept
  by unfold_locales (auto simp: tables_kept_def)

lemma tables_kept_calm: "tables_kept s t \<Longrightarrow> calm t \<longleftrightarrow> calm s"
  unfolding tables_kept_def by (elim conjE, rule calm_cong)

lemma tables_kept_env:
  "keeps tables_kept (ext_call e)" "keeps tables_kept time_now" "keeps tables_kept uuid_new"
  by (auto simp: keeps_def prog_defs tables_kept_def)

lemma tables_kept_caches:
  "keeps tables_kept (modify (\<lambda>w. w\<lparr>cached_flags := f w\<rparr>))"
  "keeps tables_kept (modify (\<lambda>w. w\<lparr>cached_flag_keys := g w, cached_rules := h w\<rparr>))"
  "keeps tables_kept (modify (\<lambda>w. w\<lparr>outbox := k w\<rparr>))"
  by (auto simp: keeps_def prog_defs tables_kept_def)

lemma tables_kept_invalidate: "keeps tables_kept (invalidate i)"
  unfolding invalidate_def
  by (intro tables_kept.keeps_andThen tables_kept.keeps_attempt tables_kept_env tables_kept.keeps_get
      tables_kept.keeps_ret) (auto split: sum.split option.split intro!: tables_kept.keeps_andThen
      tables_kept.keeps_attempt tables_kept_env tables_kept_caches tables_kept.keeps_ret)

lemma tables_kept_quietly: "keeps tables_kept m \<Longrightarrow> keeps tables_kept (quietly m)"
  unfolding quietly_def by (intro tables_kept.keeps_andThen tables_kept.keeps_attempt tables_kept.keeps_ret)

lemma tables_kept_get_flag: "keeps tables_kept (get_flag i)"
  unfolding get_flag_def
  by (intro tables_kept.keeps_andThen tables_kept_env tables_kept.keeps_get tables_kept.keeps_option
      tables_kept.keeps_fail tables_kept.keeps_ret)

lemma tables_kept_flag_event: "keeps tables_kept (flag_event e f)"
  unfolding flag_event_def
  by (intro tables_kept.keeps_andThen tables_kept.keeps_attempt tables_kept_env tables_kept_caches tables_kept.keeps_ret)

lemma tables_kept_reads:
  "keeps tables_kept (announce_if_read e i)" "keeps tables_kept (hard_deleted_event i)" "keeps tables_kept (svc_get_flag i)"
  unfolding announce_if_read_def hard_deleted_event_def svc_get_flag_def
  by (intro tables_kept.keeps_andThen tables_kept.keeps_attempt tables_kept_get_flag tables_kept.keeps_sum
      tables_kept.keeps_ret tables_kept_flag_event tables_kept_env tables_kept_caches tables_kept.keeps_wrapped)+

lemmas tables_kept_rules = tables_kept.keeps_rules tables_kept_env tables_kept_caches tables_kept_invalidate
  tables_kept_quietly tables_kept_get_flag tables_kept_flag_event tables_kept_reads

lemma updated_row: "h \<in> set (update_row key k f rs) \<Longrightarrow> key h = k \<Longrightarrow> \<exists>q. h = f q"
  by (auto simp: update_row_def)

lemma switched_off:
  "st \<in> set (map (\<lambda>st. if fs_flag_id st = i then st\<lparr>fs_enabled := False, fs_updated_at := now\<rparr> else st) xs) \<Longrightarrow>
   fs_flag_id st = i \<Longrightarrow> \<not> fs_enabled st"
  by (drule updated_row[where key = fs_flag_id, unfolded update_row_def]) auto

lemma failing_patch_locks_down:
  assumes run: "andThen (wrapped e (update_flag_lifecycle i p True)) (\<lambda>_. andThen (quietly (invalidate i)) (\<lambda>_. get_flag i)) s
      = (Inr f, t)"
    and p: "lp_iteration_increment p = 1" and before: "row_of ff_id i (feature_flags s) = Some g"
  shows "locked_down i t \<and> row_of ff_id i (feature_flags t) = Some f \<and>
    ff_iteration_count f = ff_iteration_count g + 1 \<and>
    (\<forall>j. j \<noteq> i \<longrightarrow> row_of ff_id j (feature_flags t) = row_of ff_id j (feature_flags s))"
proof -
  from run obtain u where upd: "update_flag_lifecycle i p True s = (Inr (), u)"
    and rest: "andThen (quietly (invalidate i)) (\<lambda>_. get_flag i) u = (Inr f, t)"
    by (auto simp: andThen_Inr)
  have "keeps tables_kept (andThen (quietly (invalidate i)) (\<lambda>_. get_flag i))"
    by (intro tables_kept_rules)
  from keepsD[OF this rest] have same: "feature_flags t = feature_flags u" "flag_states t = flag_states u"
    by (simp_all add: tables_kept_def)
  have got: "row_of ff_id i (feature_flags t) = Some f"
    using rest by (auto simp: andThen_Inr get_flag_def get_state_def ext_call_def ret_def fail_def split: option.splits)
  from upd obtain now where w:
    "feature_flags u = update_row ff_id i (write_lifecycle p True now) (feature_flags s)"
    "flag_states u = map (\<lambda>st. if fs_flag_id st = i then st\<lparr>fs_enabled := False, fs_updated_at := now\<rparr> else st) (flag_states s)"
    by (rule update_flag_lifecycle_run) auto
  have key: "ff_id (write_lifecycle p True now h) = ff_id h" for h by (simp add: write_lifecycle_def)
  have off: "\<not> ff_enabled (write_lifecycle p True now h)" for h by (simp add: write_lifecycle_def)
  have "\<not> ff_enabled h" if "h \<in> set (feature_flags t)" "ff_id h = i" for h
    using updated_row[OF that(1)[unfolded same w] that(2)] off by auto
  moreover have "\<not> fs_enabled st" if "st \<in> set (flag_states t)" "fs_flag_id st = i" for st
    using that(1) unfolding same w by (rule switched_off) (rule that(2))
  ultimately have "locked_down i t" by (simp add: locked_down_def)
  moreover have "f = write_lifecycle p True now g"
    using got before unfolding same w row_of_update[where key = ff_id and f = "write_lifecycle p True now", OF key] by simp
  moreover have "\<forall>j. j \<noteq> i \<longrightarrow> row_of ff_id j (feature_flags t) = row_of ff_id j (feature_flags s)"
    unfolding same w row_of_update[where key = ff_id and f = "write_lifecycle p True now", OF key] by simp
  ultimately show ?thesis using got p by (simp add: write_lifecycle_def)
qed

text \<open>
  A failing smoke or user test locks the flag down: when the call reports success, and
  whatever happened to the caches, the flag is off, its state is off in every environment, its
  iteration count is one higher, and no other flag has changed.
\<close>

theorem failed_test_locks_down:
  assumes "record_smoke_test_result i LifecycleTestFail notes s = (Inr f, t) \<or>
           record_user_test_result i LifecycleTestFail notes s = (Inr f, t)"
    and "row_of ff_id i (feature_flags s) = Some g"
  shows "locked_down i t \<and> row_of ff_id i (feature_flags t) = Some f \<and>
    ff_iteration_count f = ff_iteration_count g + 1 \<and>
    (\<forall>j. j \<noteq> i \<longrightarrow> row_of ff_id j (feature_flags t) = row_of ff_id j (feature_flags s))"
  using assms(1)
proof
  assume "record_smoke_test_result i LifecycleTestFail notes s = (Inr f, t)"
  then show ?thesis
    by (simp add: record_smoke_test_result_def status_known_def)
      (erule failing_patch_locks_down, simp add: empty_patch_def, rule assms(2))
next
  assume "record_user_test_result i LifecycleTestFail notes s = (Inr f, t)"
  then show ?thesis
    by (simp add: record_user_test_result_def status_known_def fail_def split: if_splits)
      (erule failing_patch_locks_down, simp add: empty_patch_def, rule assms(2))
qed

section \<open>The scheduler fires at most once\<close>

definition due_events :: "uuid \<Rightarrow> 'x flag_world_scheme \<Rightarrow> nat" where
  "due_events i w = count_list (outbox w) (ServiceEvent ''flag.scheduled_for_removal.due'' i)"

text \<open>A mark is never removed, and the number of events grows by at most the marks set.\<close>

definition fires_once :: "uuid \<Rightarrow> 'x flag_world_scheme \<Rightarrow> 'x flag_world_scheme \<Rightarrow> bool" where
  "fires_once i s t \<longleftrightarrow>
     (removal_fired s i \<noteq> None \<longrightarrow> removal_fired t i = removal_fired s i) \<and>
     due_events i t \<le> due_events i s + (if removal_fired s i = None \<and> removal_fired t i \<noteq> None then 1 else 0)"

interpretation once: frame "fires_once i"
  by unfold_locales (auto simp: fires_once_def split: if_splits)

lemma once_env: "keeps (fires_once i) (ext_call e)" "keeps (fires_once i) time_now"
  by (auto simp: keeps_def prog_defs fires_once_def due_events_def)

lemma emit_due_run:
  assumes "emit_due f s = (r, t)"
  shows "r = Inr ()" and "removal_fired t = removal_fired s"
    and "due_events i t \<le> due_events i s + (if i = ff_id f then 1 else 0)"
  using assms by (auto simp: emit_due_def prog_defs due_events_def split: if_splits)

lemma mark_fired_run:
  assumes "mark_flag_removal_fired j now s = (r, t)"
  shows "(\<exists>e. r = Inl e) \<and> removal_fired t = removal_fired s \<or>
      r = Inr () \<and> removal_fired s j = None \<and> removal_fired t = (removal_fired s)(j \<mapsto> now)"
    and "due_events i t = due_events i s"
  using assms by (auto simp: mark_flag_removal_fired_def prog_defs due_events_def split: if_splits)

lemma fire_due_once: "keeps (fires_once i) (fire_due now fs)"
proof (induction fs)
  case (Cons f fs)
  have "keeps (fires_once i) (andThen (attempt (mark_flag_removal_fired (ff_id f) now) :: ('x, flag_error + unit) flag_prog)
      (\<lambda>r. case r of Inl _ \<Rightarrow> ret () | Inr _ \<Rightarrow> emit_due f))"
    unfolding keeps_def
  proof
    fix s :: "'x flag_world_scheme"
    obtain r u where m: "mark_flag_removal_fired (ff_id f) now s = (r, u)" by (cases "mark_flag_removal_fired (ff_id f) now s")
    obtain q t where e: "emit_due f u = (q, t)" by (cases "emit_due f u")
    show "fires_once i s (snd (andThen (attempt (mark_flag_removal_fired (ff_id f) now) :: ('x, flag_error + unit) flag_prog)
      (\<lambda>r. case r of Inl _ \<Rightarrow> ret () | Inr _ \<Rightarrow> emit_due f) s))"
      using mark_fired_run(1)[OF m] mark_fired_run(2)[OF m, of i] emit_due_run(2)[OF e] emit_due_run(3)[OF e, of i] m e
      by (auto simp: fires_once_def andThen_def attempt_def ret_def split: if_splits)
  qed
  from once.keeps_andThen[OF this, of "\<lambda>_. fire_due now fs"] Cons.IH
  show ?case by (simp add: andThen_assoc)
qed (simp add: once.keeps_ret)

lemma tick_once: "keeps (fires_once i) tick"
  unfolding tick_def list_flags_due_for_removal_def
  by (intro once.keeps_andThen once_env once.keeps_get once.keeps_ret fire_due_once)

text \<open>
  C23. However often the scheduler runs and whatever fails, the removal of a flag is announced at
  most once for one scheduling: the mark is set before the event goes out and is never taken
  back by a tick.
\<close>

theorem removal_announced_at_most_once:
  "due_events i (((\<lambda>s. snd (tick s)) ^^ n) s) \<le>
     due_events i s + (if removal_fired s i = None then 1 else 0)"
proof -
  have "fires_once i s (((\<lambda>s. snd (tick s)) ^^ n) s)"
    using tick_once[of i] by (induction n) (auto simp: keeps_def intro: once.R_refl once.R_trans)
  then show ?thesis by (auto simp: fires_once_def split: if_splits)
qed

section \<open>What the retention job may delete\<close>

definition retention_over :: "duration \<Rightarrow> (nat \<Rightarrow> time) \<Rightarrow> feature_flag \<Rightarrow> bool" where
  "retention_over retention clk f \<longleftrightarrow>
     (\<exists>a n. ff_archived_at f = Some a \<and> a + interval_of retention < clk n)"

definition prunes :: "duration \<Rightarrow> 'x flag_world_scheme \<Rightarrow> 'x flag_world_scheme \<Rightarrow> bool" where
  "prunes retention s t \<longleftrightarrow> clock t = clock s \<and>
     (\<exists>keep. feature_flags t = filter keep (feature_flags s) \<and>
        (distinct (map ff_id (feature_flags s)) \<longrightarrow>
          (\<forall>f \<in> set (feature_flags s). \<not> keep f \<longrightarrow> retention_over retention (clock s) f)))"

lemma distinct_filter_map: "distinct (map key xs) \<Longrightarrow> distinct (map key (filter P xs))"
  by (induction xs) auto

lemma prunes_trans: "prunes r s t \<Longrightarrow> prunes r t u \<Longrightarrow> prunes r s u"
proof -
  assume st: "prunes r s t" and tu: "prunes r t u"
  from st obtain k where k: "feature_flags t = filter k (feature_flags s)" "clock t = clock s"
      "distinct (map ff_id (feature_flags s)) \<longrightarrow> (\<forall>f \<in> set (feature_flags s). \<not> k f \<longrightarrow> retention_over r (clock s) f)"
    unfolding prunes_def by blast
  from tu obtain l where l: "feature_flags u = filter l (feature_flags t)" "clock u = clock t"
      "distinct (map ff_id (feature_flags t)) \<longrightarrow> (\<forall>f \<in> set (feature_flags t). \<not> l f \<longrightarrow> retention_over r (clock t) f)"
    unfolding prunes_def by blast
  have "\<forall>f \<in> set (feature_flags s). \<not> (k f \<and> l f) \<longrightarrow> retention_over r (clock s) f"
    if "distinct (map ff_id (feature_flags s))"
    using k(3) l(3) that distinct_filter_map[OF that, of k] unfolding k(1,2) by auto
  with k(1,2) l(1,2) show ?thesis
    by (auto simp: prunes_def filter_filter conj_commute intro!: exI[of _ "\<lambda>f. k f \<and> l f"])
qed

lemma prunes_refl: "prunes r s s"
  by (auto simp: prunes_def intro!: exI[of _ "\<lambda>_. True"])

interpretation prunes: frame "prunes r"
  by unfold_locales (rule prunes_refl, rule prunes_trans)

lemma prunes_same: "feature_flags t = feature_flags s \<Longrightarrow> clock t = clock s \<Longrightarrow> prunes r s t"
  by (auto simp: prunes_def intro!: exI[of _ "\<lambda>_. True"])

lemma prunes_env:
  "keeps (prunes r) (ext_call e)" "keeps (prunes r) time_now" "keeps (prunes r) uuid_new"
  "keeps (prunes r) (modify (\<lambda>w. w\<lparr>cached_flags := f w\<rparr>))"
  "keeps (prunes r) (modify (\<lambda>w. w\<lparr>cached_flag_keys := g w, cached_rules := h w\<rparr>))"
  "keeps (prunes r) (modify (\<lambda>w. w\<lparr>outbox := k w\<rparr>))"
  "keeps (prunes r) (modify (\<lambda>w. w\<lparr>audit_log := a w\<rparr>))"
  by (auto simp: keeps_def prog_defs intro: prunes_same)

lemma prunes_invalidate: "keeps (prunes r) (invalidate i)"
  unfolding invalidate_def
  by (intro prunes.keeps_andThen prunes.keeps_attempt prunes_env prunes.keeps_get prunes.keeps_ret)
    (auto split: sum.split option.split intro!: prunes.keeps_andThen prunes.keeps_attempt prunes_env prunes.keeps_ret)

lemma prunes_hard_delete: "keeps (prunes r) (hard_delete_flag i r)"
  unfolding keeps_def
proof
  fix s :: "'x flag_world_scheme"
  obtain q t where run: "hard_delete_flag i r s = (q, t)" by (cases "hard_delete_flag i r s")
  have clk: "clock t = clock s"
    using run by (auto simp: hard_delete_flag_def prog_defs split: if_splits option.splits)
  have "prunes r s t"
  proof (cases q)
    case (Inl e)
    then have "feature_flags t = feature_flags s"
      using run by (auto simp: hard_delete_flag_def prog_defs split: if_splits option.splits)
    then show ?thesis using clk by (rule prunes_same)
  next
    case (Inr _)
    then obtain a n where a: "archived_since i (feature_flags s) = Some a" "a + interval_of r < clock s n"
      "feature_flags t = filter (\<lambda>f. ff_id f \<noteq> i) (feature_flags s)"
      using run by (auto simp: hard_delete_flag_def prog_defs split: if_splits option.splits)
    have "retention_over r (clock s) f"
      if "distinct (map ff_id (feature_flags s))" "f \<in> set (feature_flags s)" "ff_id f = i" for f
      using a(1,2) row_of_distinct[OF that(1,2)] that(3) by (auto simp: archived_since_def retention_over_def)
    with a(3) clk show ?thesis by (auto simp: prunes_def intro!: exI[of _ "\<lambda>f. ff_id f \<noteq> i"])
  qed
  then show "prunes r s (snd (hard_delete_flag i r s))" using run by simp
qed

lemma prunes_write_audit: "keeps (prunes r) (write_audit_log e a)"
  unfolding write_audit_log_def
  by (intro prunes.keeps_andThen prunes.keeps_if prunes_env prunes.keeps_get prunes.keeps_ret prunes.keeps_fail)

lemma prunes_sweep_flag: "keeps (prunes r) (sweep_flag marshal r i)"
  unfolding sweep_flag_def svc_get_flag_def get_flag_def svc_hard_delete_flag_def quietly_def hard_deleted_event_def
  by (intro prunes.keeps_andThen prunes.keeps_attempt prunes.keeps_wrapped prunes_env prunes.keeps_get
      prunes.keeps_option prunes.keeps_sum prunes.keeps_ret prunes.keeps_fail prunes_hard_delete prunes_invalidate
      prunes_write_audit)

lemma prunes_sweep: "keeps (prunes r) (retention_sweep marshal r)"
proof -
  have "keeps (prunes r) (sweep_flags marshal r is)" for "is"
    by (induction "is") (auto intro: prunes.keeps_ret prunes.keeps_andThen prunes_sweep_flag)
  then show ?thesis
    unfolding retention_sweep_def list_flags_to_hard_delete_def
    by (intro prunes.keeps_andThen prunes.keeps_attempt prunes_env prunes.keeps_get prunes.keeps_sum prunes.keeps_ret)
qed

text \<open>
  C22. The retention job never deletes a live flag, nor an archived one before its retention is
  over, whatever fails and however often it runs: every flag that is gone was archived, for
  longer than the retention, and the flags that stay are unchanged and in their order.
\<close>

theorem sweep_respects_retention:
  assumes "distinct (map ff_id (feature_flags s))" and "f \<in> set (feature_flags s)"
    and "f \<notin> set (feature_flags (((\<lambda>s. snd (retention_sweep marshal r s)) ^^ n) s))"
  shows "retention_over r (clock s) f"
proof -
  have "prunes r s (((\<lambda>s. snd (retention_sweep marshal r s)) ^^ n) s)"
    using prunes_sweep[of r marshal] by (induction n) (auto simp: keeps_def intro: prunes_refl prunes_trans)
  with assms show ?thesis by (auto simp: prunes_def)
qed

section \<open>What keeps the retention job from its work\<close>

lemma sweep_flag_live:
  assumes "archived_since i (feature_flags s) = None"
  shows "feature_flags (snd (sweep_flag marshal r i s)) = feature_flags s"
proof -
  let ?get = "attempt (svc_get_flag i) :: ('x, flag_error + feature_flag) flag_prog"
  obtain g u where g: "?get s = (Inr g, u)" by (rule attempt_value)
  have u: "feature_flags u = feature_flags s"
    using g by (auto simp: svc_get_flag_def get_flag_def prog_defs split: if_splits option.splits)
  obtain q v where run: "hard_delete_flag i r u = (q, v)" by (cases "hard_delete_flag i r u")
  have "isl q" and v: "feature_flags v = feature_flags u"
    using run assms u by (auto simp: hard_delete_flag_def prog_defs split: if_splits)
  then obtain e where e: "hard_delete_flag i r u = (Inl e, v)" using run by (cases q) auto
  have "svc_hard_delete_flag i r u = (Inl (FlagWrap ''hard delete'' e), v)"
    using e by (simp add: svc_hard_delete_flag_def andThen_def wrapped_def)
  then have "sweep_flag marshal r i s = (Inr (), v)"
    using g by (simp add: sweep_flag_def andThen_def attempt_def ret_def)
  with u v show ?thesis by simp
qed

lemma sweep_flags_live:
  "(\<forall>i \<in> set is. archived_since i (feature_flags s) = None) \<Longrightarrow>
   feature_flags (snd (sweep_flags marshal r is s)) = feature_flags s"
proof (induction "is" arbitrary: s)
  case (Cons i "is")
  obtain q u where q: "sweep_flag marshal r i s = (q, u)" by (cases "sweep_flag marshal r i s")
  have u: "feature_flags u = feature_flags s" using sweep_flag_live[of i s marshal r] Cons.prems q by simp
  then have "feature_flags (snd (sweep_flags marshal r is u)) = feature_flags u" using Cons by simp
  with u q show ?case by (cases q) (simp_all add: andThen_def)
qed (simp add: ret_def)

definition sweep_order :: "feature_flag \<Rightarrow> time" where
  "sweep_order f = (case ff_delete_after f of None \<Rightarrow> 0 | Some t \<Rightarrow> t)"

text \<open>
  Unarchiving a flag leaves its deletion queued, and the job looks at the hundred oldest
  entries of the queue only: when these belong to flags that are live again, no flag is ever
  deleted, however long it has been due.
\<close>

theorem stale_queue_starves:
  assumes distinct: "distinct (map ff_id (feature_flags s))"
    and live: "\<forall>f \<in> set (take 100 (sort_key sweep_order (filter (due_for_deletion (clock s (reads s))) (feature_flags s)))).
      ff_archived_at f = None"
  shows "feature_flags (snd (retention_sweep marshal r s)) = feature_flags s"
proof -
  let ?batch = "take 100 (sort_key sweep_order (filter (due_for_deletion (clock s (reads s))) (feature_flags s)))"
  let ?list = "attempt (list_flags_to_hard_delete 100) :: ('x, flag_error + uuid list) flag_prog"
  obtain l u where l: "?list s = (Inr l, u)" by (rule attempt_value)
  have u: "feature_flags u = feature_flags s"
    using l by (auto simp: list_flags_to_hard_delete_def prog_defs split: if_splits)
  have "archived_since (ff_id f) (feature_flags s) = None" if "f \<in> set ?batch" for f
  proof -
    have "f \<in> set (feature_flags s)" using that by (auto dest: in_set_takeD)
    with live that show ?thesis by (simp add: archived_since_def row_of_distinct[OF distinct])
  qed
  then have "\<forall>i \<in> set (map ff_id ?batch). archived_since i (feature_flags u) = None" by (simp add: u)
  moreover have "is = map ff_id ?batch" if "l = Inr is" for "is"
    using l that by (auto simp: list_flags_to_hard_delete_def prog_defs sweep_order_def[abs_def] split: if_splits)
  ultimately have "feature_flags (snd (sweep_flags marshal r is u)) = feature_flags u" if "l = Inr is" for "is"
    using that by (simp add: sweep_flags_live)
  then show ?thesis using l u by (cases l) (simp_all add: retention_sweep_def andThen_def ret_def)
qed

section \<open>Samples\<close>

definition plain_flag :: "uuid \<Rightarrow> feature_flag" where
  "plain_flag i = \<lparr>ff_id = i, ff_project_id = 1, ff_application_id = None, ff_environment_id = None,
     ff_key = ''f'', ff_name = ''f'', ff_description = '''', ff_flag_type = FlagTypeBoolean,
     ff_category = FlagCategoryFeature, ff_purpose = '''', ff_owners = [], ff_is_permanent = True,
     ff_expires_at = None, ff_enabled = True, ff_default_value = ''false'', ff_archived = False,
     ff_archived_at = None, ff_tags = [], ff_created_by = 1, ff_created_at = 0, ff_updated_at = 0,
     ff_delete_after = None, ff_smoke_test_status = None, ff_user_test_status = None,
     ff_scheduled_removal_at = None, ff_iteration_count = 0, ff_iteration_exhausted = False,
     ff_last_smoke_test_notes = None, ff_last_user_test_notes = None\<rparr>"

abbreviation days :: "int \<Rightarrow> duration" where "days n \<equiv> n * 86400000000000"

definition flags_world :: "(nat \<Rightarrow> time) \<Rightarrow> feature_flag list \<Rightarrow> flag_world" where
  "flags_world clk fs = \<lparr>fault = (\<lambda>_. False), calls = 0, clock = clk, reads = 0, fresh = (\<lambda>n. word_of_nat (100 + n)),
     minted = 0, ctxdone = (\<lambda>_. False), polls = 0, deployments = [], deployment_phases = [],
     rollback_history = [], outbox = [], feature_flags = fs, targeting_rules = [], rule_states = [],
     flag_states = [], segments = [], cached_flags = (\<lambda>_. None), cached_flag_keys = (\<lambda>_. None),
     cached_rules = (\<lambda>_. None), cached_segments = (\<lambda>_. None),
     removal_fired = (\<lambda>_. None), audit_refs = sample_refs, audit_log = []\<rparr>"

definition archived_sample :: flag_world where
  "archived_sample = flags_world (\<lambda>n. days (40 * int n)) [(plain_flag 7)\<lparr>ff_archived := True, ff_archived_at := Some 0\<rparr>]"

text \<open>
  A flag is deleted without having been queued. It was queued once, unarchived and archived
  again later: the old date still stands, so the first sweep after the retention deletes it.
  Restoring it instead of unarchiving it clears the date, and it stays.
\<close>

theorem stale_queue_deletes:
  "feature_flags (snd (andThen (svc_queue_deletion 7 (days 30)) (\<lambda>_. andThen (svc_unarchive_flag 7) (\<lambda>_.
      andThen (svc_archive_flag 7) (\<lambda>_. retention_sweep flag_audit_value (days 30)))) archived_sample)) = [] \<and>
   map ff_id (feature_flags (snd (andThen (svc_queue_deletion 7 (days 30)) (\<lambda>_. andThen (svc_restore_flag 7) (\<lambda>_.
      andThen (svc_archive_flag 7) (\<lambda>_. retention_sweep flag_audit_value (days 30)))) archived_sample))) = [7]"
  by code_simp

definition live_again :: "nat \<Rightarrow> feature_flag" where
  "live_again k = (plain_flag (word_of_nat k))\<lparr>ff_delete_after := Some (days 1)\<rparr>"

definition overdue_flag :: feature_flag where
  "overdue_flag = (plain_flag 200)\<lparr>ff_archived := True, ff_archived_at := Some 0, ff_delete_after := Some (days 30)\<rparr>"

definition starved_world :: flag_world where
  "starved_world = flags_world (\<lambda>_. days 100) (map live_again [1..<101] @ [overdue_flag])"

lemma word_of_nat_small: "a < 1000 \<Longrightarrow> b < 1000 \<Longrightarrow> (word_of_nat a :: uuid) = word_of_nat b \<longleftrightarrow> a = b"
  by (simp add: word_of_nat_eq_iff take_bit_nat_eq_self)

lemma starved_world_live:
  "distinct (map ff_id (feature_flags starved_world))"
  "\<forall>f \<in> set (take 100 (sort_key sweep_order (filter (due_for_deletion (clock starved_world (reads starved_world)))
      (feature_flags starved_world)))). ff_archived_at f = None"
proof -
  let ?fs = "map live_again [1..<101] @ [overdue_flag]"
  have "map ff_id ?fs = map word_of_nat ([1..<101] @ [200])"
    by (simp add: live_again_def overdue_flag_def plain_flag_def)
  moreover have "inj_on (word_of_nat :: nat \<Rightarrow> uuid) (set ([1..<101] @ [200]))"
    by (auto simp: inj_on_def word_of_nat_small simp del: of_nat_numeral)
  ultimately have "distinct (map ff_id ?fs)" by (simp only: distinct_map) simp
  then show "distinct (map ff_id (feature_flags starved_world))" by (simp add: starved_world_def flags_world_def)
  have "filter (due_for_deletion (days 100)) ?fs = ?fs"
    by (auto simp: due_for_deletion_def live_again_def overdue_flag_def)
  moreover have "map sweep_order ?fs = replicate 100 (days 1) @ [days 30]"
    by (simp add: sweep_order_def live_again_def overdue_flag_def map_replicate_const comp_def)
  then have "sorted (map sweep_order ?fs)" by (simp only: sorted_append sorted_replicate) simp
  ultimately show "\<forall>f \<in> set (take 100 (sort_key sweep_order (filter
      (due_for_deletion (clock starved_world (reads starved_world))) (feature_flags starved_world)))). ff_archived_at f = None"
    by (auto simp: starved_world_def flags_world_def sort_key_id_if_sorted live_again_def plain_flag_def)
qed

theorem stale_queue_starves_witness:
  "feature_flags (snd (retention_sweep flag_audit_value (days 30) starved_world)) = feature_flags starved_world"
  using starved_world_live by (intro stale_queue_starves) simp_all

theorem sweep_respects_retention_witness:
  "retention_over (days 30) (clock (flags_world (\<lambda>_. days 100) []))
     ((plain_flag 7)\<lparr>ff_archived := True, ff_archived_at := Some 0, ff_delete_after := Some (days 30)\<rparr>)"
proof -
  let ?f = "(plain_flag 7)\<lparr>ff_archived := True, ff_archived_at := Some 0, ff_delete_after := Some (days 30)\<rparr>"
  have gone: "feature_flags (((\<lambda>s. snd (retention_sweep flag_audit_value (days 30) s)) ^^ 1)
      (flags_world (\<lambda>_. days 100) [?f])) = []"
    by code_simp
  have "retention_over (days 30) (clock (flags_world (\<lambda>_. days 100) [?f])) ?f"
    by (rule sweep_respects_retention[where n = 1 and marshal = flag_audit_value])
      (use gone in \<open>auto simp: flags_world_def\<close>)
  then show ?thesis by (simp add: flags_world_def)
qed

theorem failed_test_locks_down_witness:
  "locked_down 7 (snd (record_smoke_test_result 7 LifecycleTestFail ''broken'' (flags_world (\<lambda>_. 5) [plain_flag 7])))"
proof -
  let ?s = "flags_world (\<lambda>_. 5) [plain_flag 7]"
  obtain r t where run: "record_smoke_test_result 7 LifecycleTestFail ''broken'' ?s = (r, t)"
    by (cases "record_smoke_test_result 7 LifecycleTestFail ''broken'' ?s")
  have "\<not> isl (fst (record_smoke_test_result 7 LifecycleTestFail ''broken'' ?s))" by code_simp
  then obtain f where "r = Inr f" using run by (cases r) auto
  moreover have "row_of ff_id 7 (feature_flags ?s) = Some (plain_flag 7)"
    by (simp add: flags_world_def row_simps plain_flag_def)
  ultimately show ?thesis
    using failed_test_locks_down[of 7 "''broken''" ?s f t "plain_flag 7"] run by simp
qed

end
