(* ===== verification/StagingHandlers.thy ===== *)
theory StagingHandlers
  imports StagingCommit FlagLifecycle
begin

text \<open>
  The commit handlers of the flag family (\<open>internal/flags/staging_commit.go\<close>) and of the
  rollout family (\<open>internal/rollout/staging_commit.go\<close>), of the settings
  (\<open>internal/settings/staging_commit.go\<close>) and of the members
  (\<open>internal/members/staging_commit.go\<close>), the registry the process builds from them, and what a commit means with it. The mutation handlers ignore the transaction they are
  given and go through the services, which use the connection pool; the create handlers insert
  through the transaction.
\<close>

section \<open>What every handler checks first\<close>

definition with_resource :: "string \<Rightarrow> staged_change \<Rightarrow> (uuid \<Rightarrow> 'a staging_prog) \<Rightarrow> 'a staging_prog" where
  "with_resource what c k =
     (case sc_resource_id c of None \<Rightarrow> fail (StagingWrap what ErrResourceIdRequired) | Some i \<Rightarrow> k i)"

definition with_value ::
  "string \<Rightarrow> (json \<Rightarrow> 'v option) \<Rightarrow> staged_change \<Rightarrow> ('v \<Rightarrow> 'a staging_prog) \<Rightarrow> 'a staging_prog" where
  "with_value what dec c k =
     (case sc_new_value c of
        None \<Rightarrow> fail (StagingWrap what ErrNewValueRequired)
      | Some v \<Rightarrow> (case dec v of None \<Rightarrow> fail (StagingWrap what MalformedJSON) | Some x \<Rightarrow> k x))"

text \<open>A call of a service through the pool, and the audit action of the handler.\<close>

definition by_flags :: "string \<Rightarrow> string \<Rightarrow> (staging_world, flag_error, 'a) prog \<Rightarrow> string staging_prog" where
  "by_flags what action m = andThen (wrapped (StagingWrap what) (on_flag_service m)) (\<lambda>_. ret action)"

definition by_rollouts :: "string \<Rightarrow> string \<Rightarrow> 'a rollout_prog \<Rightarrow> string staging_prog" where
  "by_rollouts what action m = andThen (wrapped (StagingWrap what) (on_rollouts m)) (\<lambda>_. ret action)"

definition by_settings :: "string \<Rightarrow> string \<Rightarrow> (settings_world, setting_error, 'a) prog \<Rightarrow> string staging_prog" where
  "by_settings what action m = andThen (wrapped (StagingWrap what) (on_settings m)) (\<lambda>_. ret action)"

definition by_members :: "string \<Rightarrow> string \<Rightarrow> (access_world, access_error, 'a) prog \<Rightarrow> string staging_prog" where
  "by_members what action m = andThen (wrapped (StagingWrap what) (on_members m)) (\<lambda>_. ret action)"

section \<open>The flag family\<close>

definition commit_flag_update :: "(string \<Rightarrow> uuid option) \<Rightarrow> commit_handler" where
  "commit_flag_update parse c =
     with_resource ''flag.update commit'' c (\<lambda>i. with_value ''flag.update commit'' (decode_flag parse) c (\<lambda>f.
       by_flags ''flag.update commit'' ''flag.updated'' (svc_update_flag (f\<lparr>ff_id := i\<rparr>))))"

definition commit_flag_archive :: commit_handler where
  "commit_flag_archive c = with_resource ''flag.archive commit'' c (\<lambda>i.
     by_flags ''flag.archive commit'' ''flag.archived'' (svc_archive_flag i))"

definition commit_flag_restore :: commit_handler where
  "commit_flag_restore c = with_resource ''flag.restore commit'' c (\<lambda>i.
     by_flags ''flag.restore commit'' ''flag.restored'' (svc_restore_flag i))"

definition commit_flag_toggle :: commit_handler where
  "commit_flag_toggle c =
     with_resource ''flag.toggle commit'' c (\<lambda>i. with_value ''flag.toggle commit'' decode_toggle c (\<lambda>en.
       by_flags ''flag.toggle commit'' ''flag.toggled'' (toggle_flag i en)))"

definition commit_rule_update :: "(string \<Rightarrow> uuid option) \<Rightarrow> commit_handler" where
  "commit_rule_update parse c =
     with_resource ''flag_rule.update commit'' c (\<lambda>i. with_value ''flag_rule.update commit'' (decode_rule parse) c (\<lambda>r.
       by_flags ''flag_rule.update commit'' ''flag.rule.updated'' (svc_update_rule (r\<lparr>tg_id := i\<rparr>))))"

definition commit_rule_delete :: commit_handler where
  "commit_rule_delete c = with_resource ''flag_rule.delete commit'' c (\<lambda>i.
     by_flags ''flag_rule.delete commit'' ''flag.rule.deleted'' (svc_delete_rule i))"

definition commit_rule_env_state :: "(string \<Rightarrow> uuid option) \<Rightarrow> commit_handler" where
  "commit_rule_env_state parse c =
     with_resource ''flag_rule_env_state.update commit'' c (\<lambda>i.
       with_value ''flag_rule_env_state.update commit'' (decode_rule_switch parse) c (\<lambda>p.
         if fst p = uuid_nil then fail (StagingWrap ''flag_rule_env_state.update commit'' ErrEnvironmentRequired)
         else by_flags ''flag_rule_env_state.update commit'' ''flag.rule.env_state.updated''
                (svc_set_rule_state i (fst p) (snd p))))"

definition commit_flag_env_state :: "(string \<Rightarrow> uuid option) \<Rightarrow> (json \<Rightarrow> string) \<Rightarrow> commit_handler" where
  "commit_flag_env_state parse raw c =
     with_resource ''flag_env_state.update commit'' c (\<lambda>i.
       with_value ''flag_env_state.update commit'' (decode_env_state parse raw) c (\<lambda>st.
         if fs_environment_id st = uuid_nil then fail (StagingWrap ''flag_env_state.update commit'' ErrEnvironmentRequired)
         else by_flags ''flag_env_state.update commit'' ''flag.env_state.updated''
                (set_flag_env_state (st\<lparr>fs_flag_id := i\<rparr>))))"

definition commit_flag_create :: "(string \<Rightarrow> uuid option) \<Rightarrow> create_handler" where
  "commit_flag_create parse c =
     with_value ''flag.create commit'' (decode_flag parse) c (\<lambda>f.
       andThen (wrapped (StagingWrap ''flag.create commit'')
         (in_tx (on_flag_service (create_flag_tx (f\<lparr>ff_id := uuid_nil\<rparr>))))) (\<lambda>f'.
         ret (ff_id f', ''flag.created'',
              Some (\<lambda>w. snd ((flag_event ''created'' f' :: (staging_world, flag_error, unit) prog) w)))))"

definition commit_rule_create :: "(string \<Rightarrow> uuid option) \<Rightarrow> create_handler" where
  "commit_rule_create parse c =
     with_value ''flag_rule.create commit'' (decode_rule parse) c (\<lambda>r.
       if tg_flag_id r = uuid_nil then fail (StagingWrap ''flag_rule.create commit'' ErrFlagIdRequired)
       else andThen (must_not_be_provisional (tg_flag_id r) ''flag_rule.create.flag_id'') (\<lambda>_.
            andThen (wrapped (StagingWrap ''flag_rule.create commit'')
              (in_tx (on_flag_service (add_rule_tx (r\<lparr>tg_id := uuid_nil\<rparr>))))) (\<lambda>r'.
              ret (tg_id r', ''flag.rule.created'',
                   Some (\<lambda>w. snd ((invalidate (tg_flag_id r) :: (staging_world, flag_error, unit) prog) w))))))"

section \<open>Strategies, defaults and policies as documents\<close>

text \<open>A number out of the range of \<open>float64\<close> is refused.\<close>

fun as_float :: "json \<Rightarrow> f64 option" where
  "as_float (JNum t) = (case parse_float t of Some (Fin x) \<Rightarrow> Some (Fin x) | _ \<Rightarrow> None)"
| "as_float _ = None"

definition scope_type_of :: "string \<Rightarrow> scope_type" where
  "scope_type_of s = (if s = ''org'' then ScopeOrg else if s = ''project'' then ScopeProject
     else if s = ''app'' then ScopeApp else ScopeText s)"

definition target_type_of :: "string \<Rightarrow> target_type" where
  "target_type_of s = (if s = ''deploy'' then TargetTypeDeploy else if s = ''config'' then TargetTypeConfig
     else if s = ''any'' then TargetTypeAny else TargetTypeText s)"

definition as_target_type :: "json \<Rightarrow> target_type option" where
  "as_target_type v = map_option target_type_of (as_string v)"

definition decode_approval :: "json \<Rightarrow> step_approval option" where
  "decode_approval v = do { ms \<leftarrow> members_of v; role \<leftarrow> string_field ''required_role'' ms;
     timeout \<leftarrow> decode_field as_int ''timeout'' 0 ms; Some \<lparr>ap_required_role = role, ap_timeout = timeout\<rparr> }"

definition decode_notify :: "json \<Rightarrow> step_notify option" where
  "decode_notify v = do { ms \<leftarrow> members_of v; entry \<leftarrow> decode_slice as_string_item ''on_entry'' ms;
     exit \<leftarrow> decode_slice as_string_item ''on_exit'' ms; Some \<lparr>nt_on_entry = entry, nt_on_exit = exit\<rparr> }"

definition decode_abort :: "json \<Rightarrow> step_abort_condition option" where
  "decode_abort v = do { ms \<leftarrow> members_of v; metric \<leftarrow> string_field ''metric'' ms;
     operator \<leftarrow> string_field ''operator'' ms; threshold \<leftarrow> decode_field as_float ''threshold'' (Fin 0) ms;
     window \<leftarrow> decode_field as_int ''window'' 0 ms;
     Some \<lparr>ac_metric = metric, ac_operator = operator, ac_threshold = threshold, ac_window = window\<rparr> }"

definition decode_signal :: "json \<Rightarrow> signal_source option" where
  "decode_signal v = do { ms \<leftarrow> members_of v; kind \<leftarrow> string_field ''kind'' ms; Some \<lparr>ss_kind = kind\<rparr> }"

definition decode_step :: "json \<Rightarrow> step option" where
  "decode_step v =
     do {
       ms \<leftarrow> members_of v;
       percent \<leftarrow> decode_field as_float ''percent'' (Fin 0) ms;
       mn \<leftarrow> decode_field as_int ''min_duration'' 0 ms;
       mx \<leftarrow> decode_field as_int ''max_duration'' 0 ms;
       bake \<leftarrow> decode_field as_int ''bake_time_healthy'' 0 ms;
       threshold \<leftarrow> decode_ptr as_float ''health_threshold'' ms;
       approval \<leftarrow> decode_ptr decode_approval ''approval'' ms;
       notify \<leftarrow> decode_ptr decode_notify ''notify'' ms;
       aborts \<leftarrow> decode_slice decode_abort ''abort_conditions'' ms;
       signal \<leftarrow> decode_ptr decode_signal ''signal_override'' ms;
       Some \<lparr>st_percent = percent, st_min_duration = mn, st_max_duration = mx, st_bake_time_healthy = bake,
             st_health_threshold = threshold, st_approval = approval, st_notify = notify,
             st_abort_conditions = aborts, st_signal_override = signal\<rparr>
     }"

definition decode_strategy :: "(string \<Rightarrow> uuid option) \<Rightarrow> json \<Rightarrow> strategy option" where
  "decode_strategy parse v =
     do {
       ms \<leftarrow> members_of v;
       i \<leftarrow> uuid_field parse ''id'' ms;
       st \<leftarrow> string_field ''scope_type'' ms;
       sid \<leftarrow> uuid_field parse ''scope_id'' ms;
       name \<leftarrow> string_field ''name'' ms;
       description \<leftarrow> string_field ''description'' ms;
       target \<leftarrow> string_field ''target_type'' ms;
       steps \<leftarrow> decode_slice decode_step ''steps'' ms;
       threshold \<leftarrow> decode_field as_float ''default_health_threshold'' (Fin 0) ms;
       rollback \<leftarrow> bool_field ''default_rollback_on_failure'' ms;
       version \<leftarrow> decode_field as_int ''version'' 0 ms;
       system \<leftarrow> bool_field ''is_system'' ms;
       created_by \<leftarrow> decode_ptr (as_uuid parse) ''created_by'' ms;
       updated_by \<leftarrow> decode_ptr (as_uuid parse) ''updated_by'' ms;
       created_at \<leftarrow> time_field ''created_at'' ms;
       updated_at \<leftarrow> time_field ''updated_at'' ms;
       Some \<lparr>sg_id = i, sg_scope_type = scope_type_of st, sg_scope_id = sid, sg_name = name,
             sg_description = description, sg_target_type = target_type_of target, sg_steps = steps,
             sg_default_health_threshold = threshold, sg_default_rollback_on_failure = rollback,
             sg_version = version, sg_is_system = system, sg_created_by = created_by, sg_updated_by = updated_by,
             sg_created_at = created_at, sg_updated_at = updated_at\<rparr>
     }"

definition decode_strategy_update :: "(string \<Rightarrow> uuid option) \<Rightarrow> json \<Rightarrow> (int \<times> strategy) option" where
  "decode_strategy_update parse v =
     do {
       ms \<leftarrow> members_of v;
       expected \<leftarrow> decode_field as_int ''expected_version'' 0 ms;
       zero \<leftarrow> decode_strategy parse JNull;
       s \<leftarrow> decode_field (decode_strategy parse) ''strategy'' zero ms;
       Some (expected, s)
     }"

definition decode_default :: "(string \<Rightarrow> uuid option) \<Rightarrow> json \<Rightarrow> strategy_default option" where
  "decode_default parse v =
     do {
       ms \<leftarrow> members_of v;
       i \<leftarrow> uuid_field parse ''id'' ms;
       st \<leftarrow> string_field ''scope_type'' ms;
       sid \<leftarrow> uuid_field parse ''scope_id'' ms;
       envi \<leftarrow> decode_ptr as_string ''environment'' ms;
       target \<leftarrow> decode_ptr as_target_type ''target_type'' ms;
       strategy \<leftarrow> uuid_field parse ''strategy_id'' ms;
       created_by \<leftarrow> decode_ptr (as_uuid parse) ''created_by'' ms;
       updated_by \<leftarrow> decode_ptr (as_uuid parse) ''updated_by'' ms;
       created_at \<leftarrow> time_field ''created_at'' ms;
       updated_at \<leftarrow> time_field ''updated_at'' ms;
       Some \<lparr>sd_id = i, sd_scope_type = scope_type_of st, sd_scope_id = sid, sd_environment = envi,
             sd_target_type = target, sd_strategy_id = strategy, sd_created_by = created_by,
             sd_updated_by = updated_by, sd_created_at = created_at, sd_updated_at = updated_at\<rparr>
     }"

text \<open>
  A policy that is none of the three, the empty one included, is refused by the check of the
  column; the model refuses it when the document is decoded.
\<close>

definition policy_kind_of :: "string \<Rightarrow> policy_kind option" where
  "policy_kind_of s = (if s = ''off'' then Some PolicyOff else if s = ''prompt'' then Some PolicyPrompt
     else if s = ''mandate'' then Some PolicyMandate else None)"

definition decode_policy :: "(string \<Rightarrow> uuid option) \<Rightarrow> json \<Rightarrow> rollout_policy option" where
  "decode_policy parse v =
     do {
       ms \<leftarrow> members_of v;
       i \<leftarrow> uuid_field parse ''id'' ms;
       st \<leftarrow> string_field ''scope_type'' ms;
       sid \<leftarrow> uuid_field parse ''scope_id'' ms;
       envi \<leftarrow> decode_ptr as_string ''environment'' ms;
       target \<leftarrow> decode_ptr as_target_type ''target_type'' ms;
       enabled \<leftarrow> bool_field ''enabled'' ms;
       kind \<leftarrow> string_field ''policy'' ms;
       policy \<leftarrow> policy_kind_of kind;
       created_by \<leftarrow> decode_ptr (as_uuid parse) ''created_by'' ms;
       updated_by \<leftarrow> decode_ptr (as_uuid parse) ''updated_by'' ms;
       created_at \<leftarrow> time_field ''created_at'' ms;
       updated_at \<leftarrow> time_field ''updated_at'' ms;
       Some \<lparr>po_id = i, po_scope_type = scope_type_of st, po_scope_id = sid, po_environment = envi,
             po_target_type = target, po_enabled = enabled, po_policy = policy, po_created_by = created_by,
             po_updated_by = updated_by, po_created_at = created_at, po_updated_at = updated_at\<rparr>
     }"

section \<open>The rollout family\<close>

definition commit_strategy_update :: "(string \<Rightarrow> uuid option) \<Rightarrow> commit_handler" where
  "commit_strategy_update parse c =
     with_resource ''strategy.update commit'' c (\<lambda>i.
       with_value ''strategy.update commit'' (decode_strategy_update parse) c (\<lambda>p.
         by_rollouts ''strategy.update commit'' ''strategy.updated''
           (svc_update_strategy ((snd p)\<lparr>sg_id := i\<rparr>) (fst p))))"

definition commit_strategy_delete :: commit_handler where
  "commit_strategy_delete c = with_resource ''strategy.delete commit'' c (\<lambda>i.
     by_rollouts ''strategy.delete commit'' ''strategy.deleted'' (svc_delete_strategy i))"

definition commit_default_upsert :: "(string \<Rightarrow> uuid option) \<Rightarrow> commit_handler" where
  "commit_default_upsert parse c =
     with_resource ''strategy_default.upsert commit'' c (\<lambda>i.
       with_value ''strategy_default.upsert commit'' (decode_default parse) c (\<lambda>d.
         by_rollouts ''strategy_default.upsert commit'' ''strategy_default.upserted'' (default_upsert (d\<lparr>sd_id := i\<rparr>))))"

definition commit_default_delete :: commit_handler where
  "commit_default_delete c = with_resource ''strategy_default.delete commit'' c (\<lambda>i.
     by_rollouts ''strategy_default.delete commit'' ''strategy_default.deleted'' (default_delete i))"

definition commit_policy_upsert :: "(string \<Rightarrow> uuid option) \<Rightarrow> commit_handler" where
  "commit_policy_upsert parse c =
     with_resource ''rollout_policy.upsert commit'' c (\<lambda>i.
       with_value ''rollout_policy.upsert commit'' (decode_policy parse) c (\<lambda>p.
         by_rollouts ''rollout_policy.upsert commit'' ''rollout_policy.upserted'' (policy_upsert (p\<lparr>po_id := i\<rparr>))))"

definition commit_policy_delete :: commit_handler where
  "commit_policy_delete c = with_resource ''rollout_policy.delete commit'' c (\<lambda>i.
     by_rollouts ''rollout_policy.delete commit'' ''rollout_policy.deleted'' (policy_delete i))"

definition commit_strategy_create :: "(string \<Rightarrow> uuid option) \<Rightarrow> create_handler" where
  "commit_strategy_create parse c =
     with_value ''strategy.create commit'' (decode_strategy parse) c (\<lambda>s.
       andThen (wrapped (StagingWrap ''strategy.create commit'')
         (in_tx (on_rollouts (strategy_create_tx (s\<lparr>sg_id := uuid_nil\<rparr>))))) (\<lambda>s'.
         ret (sg_id s', ''strategy.created'', None)))"

section \<open>Settings and members\<close>

definition commit_setting_update :: "(string \<Rightarrow> uuid option) \<Rightarrow> commit_handler" where
  "commit_setting_update parse c =
     with_resource ''setting.update commit'' c (\<lambda>i. with_value ''setting.update commit'' (decode_setting parse) c (\<lambda>s.
       by_settings ''setting.update commit'' ''setting.updated'' (svc_set_setting (s\<lparr>se_id := i\<rparr>))))"

definition commit_setting_delete :: commit_handler where
  "commit_setting_delete c = with_resource ''setting.delete commit'' c (\<lambda>i.
     by_settings ''setting.delete commit'' ''setting.deleted'' (svc_delete_setting i))"

definition org_role_of :: "string \<Rightarrow> org_role" where
  "org_role_of t = (if t = ''owner'' then OrgRoleOwner else if t = ''admin'' then OrgRoleAdmin
     else if t = ''member'' then OrgRoleMember else if t = ''viewer'' then OrgRoleViewer else OrgRoleText t)"

definition decode_role :: "json \<Rightarrow> string option" where
  "decode_role v = do { ms \<leftarrow> members_of v; string_field ''role'' ms }"

definition commit_member_role :: commit_handler where
  "commit_member_role c =
     with_resource ''member.role_changed commit'' c (\<lambda>user.
       with_value ''member.role_changed commit'' decode_role c (\<lambda>role.
         if role = [] then fail (StagingWrap ''member.role_changed commit'' ErrRoleRequired)
         else by_members ''member.role_changed commit'' ''member.role_changed''
                (update_org_member_role (sc_org_id c) user (org_role_of role))))"

section \<open>The registry of the process\<close>

definition flag_commit_handlers ::
  "(string \<Rightarrow> uuid option) \<Rightarrow> (json \<Rightarrow> string) \<Rightarrow> (string \<times> string \<times> commit_handler) list" where
  "flag_commit_handlers parse raw =
     [(''flag'', ''toggle'', commit_flag_toggle),
      (''flag'', ''update'', commit_flag_update parse),
      (''flag'', ''archive'', commit_flag_archive),
      (''flag'', ''restore'', commit_flag_restore),
      (''flag_rule'', ''update'', commit_rule_update parse),
      (''flag_rule'', ''delete'', commit_rule_delete),
      (''flag_rule_env_state'', ''update'', commit_rule_env_state parse),
      (''flag_env_state'', ''update'', commit_flag_env_state parse raw)]"

definition flag_create_handlers :: "(string \<Rightarrow> uuid option) \<Rightarrow> (string \<times> string \<times> create_handler) list" where
  "flag_create_handlers parse =
     [(''flag'', ''create'', commit_flag_create parse), (''flag_rule'', ''create'', commit_rule_create parse)]"

definition rollout_commit_handlers :: "(string \<Rightarrow> uuid option) \<Rightarrow> (string \<times> string \<times> commit_handler) list" where
  "rollout_commit_handlers parse =
     [(''strategy'', ''update'', commit_strategy_update parse),
      (''strategy'', ''delete'', commit_strategy_delete),
      (''strategy_default'', ''upsert'', commit_default_upsert parse),
      (''strategy_default'', ''delete'', commit_default_delete),
      (''rollout_policy'', ''upsert'', commit_policy_upsert parse),
      (''rollout_policy'', ''delete'', commit_policy_delete)]"

definition strategy_create_handlers :: "(string \<Rightarrow> uuid option) \<Rightarrow> (string \<times> string \<times> create_handler) list" where
  "strategy_create_handlers parse = [(''strategy'', ''create'', commit_strategy_create parse)]"

definition setting_commit_handlers :: "(string \<Rightarrow> uuid option) \<Rightarrow> (string \<times> string \<times> commit_handler) list" where
  "setting_commit_handlers parse =
     [(''setting'', ''update'', commit_setting_update parse), (''setting'', ''delete'', commit_setting_delete)]"

definition member_commit_handlers :: "(string \<times> string \<times> commit_handler) list" where
  "member_commit_handlers = [(''member'', ''role_changed'', commit_member_role)]"

definition process_registry :: "(string \<Rightarrow> uuid option) \<Rightarrow> (json \<Rightarrow> string) \<Rightarrow> registry" where
  "process_registry parse raw =
     fold register_create (flag_create_handlers parse @ strategy_create_handlers parse)
       (fold register_commit (flag_commit_handlers parse raw @ setting_commit_handlers parse @ member_commit_handlers @
          rollout_commit_handlers parse) empty_registry)"

end
