(* ===== verification/FlagReverts.thy ===== *)
theory FlagReverts
  imports FlagLifecycle
begin

text \<open>
  Undoing an audited change: the registry of revert handlers
  (\<open>internal/auth/revert_registry.go\<close>), the request that dispatches to it
  (\<open>revert_handler.go\<close>) and the handlers of the flag family (\<open>internal/flags/revert.go\<close>).
\<close>

section \<open>The registry\<close>

datatype revert_error =
    ErrRevertRace
  | ErrNotRevertible
  | MalformedPayload string
  | RevertFailed string flag_error
  | AuditEntryNotFound
  | AuditEntryUnreadable
  | AuditEntryOtherOrg
  | AuditWriteFailed

type_synonym ('x, 'a) revert_prog = "('x flag_world_scheme, revert_error, 'a) prog"
type_synonym 'x revert_handler = "audit_entry \<Rightarrow> bool \<Rightarrow> ('x, string) revert_prog"

text \<open>Whether the text of an error contains "not found": the sentinel of the store, however wrapped.\<close>

fun says_not_found :: "flag_error \<Rightarrow> bool" where
  "says_not_found FlagNotFound = True"
| "says_not_found (FlagWrap _ e) = says_not_found e"
| "says_not_found _ = False"

definition revert_key :: "string \<Rightarrow> string \<Rightarrow> string" where
  "revert_key entity_type action = entity_type @ '':'' @ action"

definition register_revert ::
  "string \<times> string \<times> 'x revert_handler \<Rightarrow> (string \<rightharpoonup> 'x revert_handler) \<Rightarrow> (string \<rightharpoonup> 'x revert_handler)" where
  "register_revert tup reg = (case tup of (entity_type, action, h) \<Rightarrow> reg(revert_key entity_type action \<mapsto> h))"

definition is_revertible :: "(string \<rightharpoonup> 'x revert_handler) \<Rightarrow> string \<Rightarrow> string \<Rightarrow> bool" where
  "is_revertible reg entity_type action = (reg (revert_key entity_type action) \<noteq> None)"

definition revert_dispatch :: "(string \<rightharpoonup> 'x revert_handler) \<Rightarrow> 'x revert_handler" where
  "revert_dispatch reg entry force =
     (case reg (revert_key (ae_entity_type entry) (ae_action entry)) of
        None \<Rightarrow> fail ErrNotRevertible
      | Some h \<Rightarrow> h entry force)"

text \<open>
  The request: the entry has to belong to the organization of the caller, and the new entry
  swaps the values. A failure to write it does not undo the revert.
\<close>

definition revert_request ::
  "(string \<rightharpoonup> 'x revert_handler) \<Rightarrow> uuid \<Rightarrow> uuid \<Rightarrow> uuid \<Rightarrow> bool \<Rightarrow> ('x, string) revert_prog" where
  "revert_request reg org actor entry_id force =
     andThen (ext_call AuditEntryUnreadable) (\<lambda>_.
     andThen get_state (\<lambda>w.
       case row_of ae_id entry_id (audit_log w) of
         None \<Rightarrow> fail AuditEntryNotFound
       | Some entry \<Rightarrow>
           if ae_org_id entry \<noteq> org then fail AuditEntryOtherOrg
           else andThen (revert_dispatch reg entry force) (\<lambda>new_action.
                andThen uuid_new (\<lambda>i.
                andThen time_now (\<lambda>now.
                andThen (write_audit_log AuditWriteFailed
                  \<lparr>ae_id = i, ae_org_id = ae_org_id entry, ae_project_id = ae_project_id entry,
                   ae_actor_id = actor, ae_action = new_action, ae_entity_type = ae_entity_type entry,
                   ae_entity_id = ae_entity_id entry, ae_old_value = ae_new_value entry,
                   ae_new_value = ae_old_value entry, ae_created_at = now\<rparr>) (\<lambda>_.
                  ret new_action))))))"

section \<open>Archiving, creation, deletion and restoration\<close>

definition loaded_flag :: "string \<Rightarrow> uuid \<Rightarrow> ('x, feature_flag) revert_prog" where
  "loaded_flag what i = wrapped (RevertFailed (what @ '' revert: load flag'')) (svc_get_flag i)"

definition revert_flag_archived :: "'x revert_handler" where
  "revert_flag_archived entry force =
     andThen (loaded_flag ''flag.archived'' (ae_entity_id entry)) (\<lambda>f.
       if \<not> ff_archived f \<and> \<not> force then fail ErrRevertRace
       else andThen (wrapped (RevertFailed ''flag.archived revert: unarchive'') (svc_unarchive_flag (ae_entity_id entry))) (\<lambda>_.
              ret ''flag.archived.reverted''))"

definition revert_flag_created :: "'x revert_handler" where
  "revert_flag_created entry force =
     andThen (loaded_flag ''flag.created'' (ae_entity_id entry)) (\<lambda>f.
       if ff_archived f \<and> \<not> force then fail ErrRevertRace
       else andThen (wrapped (RevertFailed ''flag.created revert: archive'') (svc_archive_flag (ae_entity_id entry))) (\<lambda>_.
              ret ''flag.created.reverted''))"

definition revert_flag_queued :: "'x revert_handler" where
  "revert_flag_queued entry force =
     andThen (loaded_flag ''flag.queued_for_deletion'' (ae_entity_id entry)) (\<lambda>f.
       if ff_delete_after f = None \<and> \<not> force then fail ErrRevertRace
       else andThen (wrapped (RevertFailed ''flag.queued_for_deletion revert: clear'')
              (svc_clear_delete_after (ae_entity_id entry))) (\<lambda>_.
              ret ''flag.queued_for_deletion.reverted''))"

definition revert_flag_restored :: "'x revert_handler" where
  "revert_flag_restored entry force =
     andThen (loaded_flag ''flag.restored'' (ae_entity_id entry)) (\<lambda>f.
       if ff_archived f \<and> \<not> force then fail ErrRevertRace
       else andThen (wrapped (RevertFailed ''flag.restored revert: archive'') (svc_archive_flag (ae_entity_id entry))) (\<lambda>_.
              ret ''flag.restored.reverted''))"

section \<open>Updates and toggles\<close>

text \<open>
  Values are compared by their encoding after a pass through \<open>any\<close>. The new value is decoded
  into a map, so it has to be an object, and \<open>null\<close> makes an empty one.
\<close>

definition payload_map :: "json option \<Rightarrow> (string \<times> json) list option" where
  "payload_map v =
     (case v of
        None \<Rightarrow> None
      | Some doc \<Rightarrow> (case through_any id doc of None \<Rightarrow> None | Some d \<Rightarrow> members_of d))"

definition changed_since :: "feature_flag \<Rightarrow> (string \<times> json) list \<Rightarrow> bool" where
  "changed_since f new =
     (case flag_audit_value f of
        JObj current \<Rightarrow> list_ex (\<lambda>m. case map_of current (fst m) of
             None \<Rightarrow> False
           | Some v \<Rightarrow> through_any id v \<noteq> Some (snd m)) new
      | _ \<Rightarrow> False)"

definition revert_flag_updated :: "(string \<Rightarrow> uuid option) \<Rightarrow> 'x revert_handler" where
  "revert_flag_updated parse entry force =
     (if ae_old_value entry = None \<or> ae_new_value entry = None
      then fail (MalformedPayload ''flag.updated revert: old_value or new_value is empty'')
      else case payload_map (ae_new_value entry) of
        None \<Rightarrow> fail (MalformedPayload ''flag.updated revert'')
      | Some new \<Rightarrow>
          andThen (loaded_flag ''flag.updated'' (ae_entity_id entry)) (\<lambda>current.
            if \<not> force \<and> changed_since current new then fail ErrRevertRace
            else case Option.bind (ae_old_value entry) (decode_flag parse) of
              None \<Rightarrow> fail (MalformedPayload ''flag.updated revert: old_value'')
            | Some old \<Rightarrow>
                andThen (wrapped (RevertFailed ''flag.updated revert: update'')
                  (svc_update_flag (old\<lparr>ff_id := ff_id current, ff_project_id := ff_project_id current,
                     ff_key := ff_key current, ff_created_at := ff_created_at current,
                     ff_created_by := ff_created_by current\<rparr>))) (\<lambda>_.
                  ret ''flag.updated.reverted'')))"

definition revert_flag_toggled :: "'x revert_handler" where
  "revert_flag_toggled entry force =
     (case (Option.bind (ae_new_value entry) decode_toggle, Option.bind (ae_old_value entry) decode_toggle) of
        (Some new, Some old) \<Rightarrow>
          andThen (loaded_flag ''flag.toggled'' (ae_entity_id entry)) (\<lambda>current.
            if ff_enabled current \<noteq> new \<and> \<not> force then fail ErrRevertRace
            else andThen (wrapped (RevertFailed ''flag.toggled revert: toggle'') (toggle_flag (ae_entity_id entry) old)) (\<lambda>_.
                   ret ''flag.toggled.reverted''))
      | _ \<Rightarrow> fail (MalformedPayload ''flag.toggled revert''))"

section \<open>Rules\<close>

definition revert_rule_created :: "(string \<Rightarrow> uuid option) \<Rightarrow> 'x revert_handler" where
  "revert_rule_created parse entry force =
     (case Option.bind (ae_new_value entry) (decode_rule_id parse) of
        None \<Rightarrow> fail (MalformedPayload ''flag.rule.created revert'')
      | Some rule_id \<Rightarrow>
          andThen (attempt (svc_get_rule rule_id) :: ('x, flag_error + targeting_rule) revert_prog) (\<lambda>g.
            case g of
              Inl e \<Rightarrow> if says_not_found e then ret ''flag.rule.created.reverted''
                       else fail (RevertFailed ''flag.rule.created revert: load rule'' e)
            | Inr _ \<Rightarrow>
                andThen (wrapped (RevertFailed ''flag.rule.created revert: delete rule'') (svc_delete_rule rule_id)) (\<lambda>_.
                  ret ''flag.rule.created.reverted'')))"

definition revert_rule_deleted :: "(string \<Rightarrow> uuid option) \<Rightarrow> 'x revert_handler" where
  "revert_rule_deleted parse entry force =
     (case Option.bind (ae_old_value entry) (decode_rule parse) of
        None \<Rightarrow> fail (MalformedPayload ''flag.rule.deleted revert'')
      | Some rule \<Rightarrow>
          if tg_id rule = uuid_nil then fail (MalformedPayload ''flag.rule.deleted revert: rule_id missing'')
          else andThen (attempt (svc_get_rule (tg_id rule)) :: ('x, flag_error + targeting_rule) revert_prog) (\<lambda>g.
            let again = andThen (wrapped (RevertFailed ''flag.rule.deleted revert: add rule'') (add_rule rule)) (\<lambda>_.
                          ret ''flag.rule.deleted.reverted'')
            in case g of
              Inl e \<Rightarrow> if says_not_found e then again
                       else fail (RevertFailed ''flag.rule.deleted revert: load rule'' e)
            | Inr _ \<Rightarrow> if force then again else fail ErrRevertRace))"

section \<open>States per environment\<close>

definition list_rule_environment_states :: "uuid \<Rightarrow> ('x, rule_environment_state list) flag_prog" where
  "list_rule_environment_states flag_id =
     andThen (ext_call (FlagDriver ''postgres.ListRuleEnvironmentStates'')) (\<lambda>_.
     andThen get_state (\<lambda>w.
       ret (filter (\<lambda>st. list_ex (\<lambda>r. tg_id r = rs_rule_id st \<and> tg_flag_id r = flag_id) (targeting_rules w))
         (rule_states w))))"

definition list_flag_env_states :: "uuid \<Rightarrow> ('x, flag_environment_state list) flag_prog" where
  "list_flag_env_states flag_id =
     andThen (ext_call (FlagDriver ''postgres.ListFlagEnvStates'')) (\<lambda>_.
     andThen get_state (\<lambda>w. ret (filter (\<lambda>st. fs_flag_id st = flag_id) (flag_states w))))"

definition revert_rule_env_state :: "(string \<Rightarrow> uuid option) \<Rightarrow> 'x revert_handler" where
  "revert_rule_env_state parse entry force =
     (case (Option.bind (ae_new_value entry) (decode_rule_state parse),
            Option.bind (ae_old_value entry) (decode_rule_state parse)) of
        (Some (rule_id, envi, new), Some (_, _, old)) \<Rightarrow>
          andThen (wrapped (RevertFailed ''flag.rule.env_state.updated revert: list states'')
            (list_rule_environment_states (ae_entity_id entry))) (\<lambda>states.
            if \<not> force \<and> (case find (\<lambda>st. rs_rule_id st = rule_id \<and> rs_environment_id st = envi) states of
                            None \<Rightarrow> False | Some st \<Rightarrow> rs_enabled st \<noteq> new)
            then fail ErrRevertRace
            else andThen (wrapped (RevertFailed ''flag.rule.env_state.updated revert: set state'')
                   (svc_set_rule_state rule_id envi old)) (\<lambda>_.
                   ret ''flag.rule.env_state.updated.reverted''))
      | _ \<Rightarrow> fail (MalformedPayload ''flag.rule.env_state.updated revert''))"

text \<open>
  \<open>json.Marshal\<close> of a raw value drops the blanks between its tokens and escapes the characters
  that are special in HTML.
\<close>

fun compact_from :: "bool \<Rightarrow> string \<Rightarrow> string" where
  "compact_from q [] = []"
| "compact_from True (c # cs) =
     (if c = CHR 0x22 then c # compact_from False cs
      else if c = CHR 0x5C \<and> cs \<noteq> [] then c # hd cs # compact_from True (tl cs)
      else if c = CHR ''<'' then CHR 0x5C # ''u003c'' @ compact_from True cs
      else if c = CHR ''>'' then CHR 0x5C # ''u003e'' @ compact_from True cs
      else if c = CHR ''&'' then CHR 0x5C # ''u0026'' @ compact_from True cs
      else if take 3 (c # cs) = [CHR 0xE2, CHR 0x80, CHR 0xA8] then CHR 0x5C # ''u2028'' @ compact_from True (drop 2 cs)
      else if take 3 (c # cs) = [CHR 0xE2, CHR 0x80, CHR 0xA9] then CHR 0x5C # ''u2029'' @ compact_from True (drop 2 cs)
      else c # compact_from True cs)"
| "compact_from False (c # cs) =
     (if c \<in> {CHR '' '', CHR 0x09, CHR 0x0A, CHR 0x0D} then compact_from False cs
      else if c = CHR 0x22 then c # compact_from True cs
      else c # compact_from False cs)"

definition marshal_raw :: "string option \<Rightarrow> string" where
  "marshal_raw v = (case v of None \<Rightarrow> ''null'' | Some s \<Rightarrow> compact_from False s)"

definition revert_flag_env_state :: "(string \<Rightarrow> uuid option) \<Rightarrow> (json \<Rightarrow> string) \<Rightarrow> 'x revert_handler" where
  "revert_flag_env_state parse raw entry force =
     (case (Option.bind (ae_new_value entry) (decode_env_payload parse raw),
            Option.bind (ae_old_value entry) (decode_env_payload parse raw)) of
        (Some (new_env, new_enabled, new_value), Some (old_env, old_enabled, old_value)) \<Rightarrow>
          andThen (if force then ret False
             else andThen (wrapped (RevertFailed ''flag.env_state.updated revert: list states'')
                    (list_flag_env_states (ae_entity_id entry))) (\<lambda>states.
                  ret (case find (\<lambda>st. fs_environment_id st = new_env) states of
                         None \<Rightarrow> False
                       | Some st \<Rightarrow> fs_enabled st \<noteq> new_enabled \<or>
                                   marshal_raw (fs_value st) \<noteq> marshal_raw new_value))) (\<lambda>race.
            if race then fail ErrRevertRace
            else andThen (wrapped (RevertFailed ''flag.env_state.updated revert: set state'')
              (set_flag_env_state \<lparr>fs_id = uuid_nil, fs_flag_id = ae_entity_id entry,
                 fs_environment_id = old_env, fs_enabled = old_enabled, fs_value = old_value,
                 fs_updated_by = None, fs_updated_at = 0\<rparr>)) (\<lambda>_.
              ret ''flag.env_state.updated.reverted''))
      | _ \<Rightarrow> fail (MalformedPayload ''flag.env_state.updated revert''))"

section \<open>The flag family\<close>

definition flag_revert_handlers ::
  "(string \<Rightarrow> uuid option) \<Rightarrow> (json \<Rightarrow> string) \<Rightarrow> (string \<times> string \<times> 'x revert_handler) list" where
  "flag_revert_handlers parse raw =
     [(''flag'', ''flag.archived'', revert_flag_archived),
      (''flag'', ''flag.created'', revert_flag_created),
      (''flag'', ''flag.updated'', revert_flag_updated parse),
      (''flag'', ''flag.toggled'', revert_flag_toggled),
      (''flag'', ''flag.rule.created'', revert_rule_created parse),
      (''flag'', ''flag.rule.deleted'', revert_rule_deleted parse),
      (''flag'', ''flag.rule.env_state.updated'', revert_rule_env_state parse),
      (''flag'', ''flag.env_state.updated'', revert_flag_env_state parse raw),
      (''flag'', ''flag.queued_for_deletion'', revert_flag_queued),
      (''flag'', ''flag.restored'', revert_flag_restored)]"

definition flag_reverts :: "(string \<Rightarrow> uuid option) \<Rightarrow> (json \<Rightarrow> string) \<Rightarrow> string \<rightharpoonup> 'x revert_handler" where
  "flag_reverts parse raw = fold register_revert (flag_revert_handlers parse raw) (\<lambda>_. None)"

section \<open>Updates cannot be undone\<close>

text \<open>
  The audit entry of an update names neither the type of the flag nor its project, so the
  flag decoded from it is never valid: undoing an update fails on every entry the update
  handler writes, forced or not, and changes nothing.
\<close>

theorem update_never_reverts:
  assumes "ae_old_value entry = Some (flag_audit_value f)"
  shows "isl (fst (revert_flag_updated parse entry force s)) \<and>
    feature_flags (snd (revert_flag_updated parse entry force s)) = feature_flags s"
proof -
  have refused: "validate_flag g \<noteq> None" if "ff_flag_type g = FlagTypeText ''''" for g
    using that by (simp add: validate_flag_def)
  have update: "\<exists>e v. svc_update_flag g u = (Inl e, v) \<and> feature_flags v = feature_flags u"
    if "ff_flag_type g = FlagTypeText ''''" for g u
    using refused[of "g\<lparr>ff_updated_at := clock u (reads u)\<rparr>"] that
    by (auto simp: svc_update_flag_def prog_defs split: option.splits)
  obtain r u where l: "loaded_flag ''flag.updated'' (ae_entity_id entry) s = (r, u)"
    by (cases "loaded_flag ''flag.updated'' (ae_entity_id entry) s")
  have u: "feature_flags u = feature_flags s"
    using l by (auto simp: loaded_flag_def svc_get_flag_def get_flag_def prog_defs split: if_splits option.splits)
  show ?thesis
  proof (cases "Option.bind (ae_old_value entry) (decode_flag parse)")
    case None
    with l u show ?thesis
      by (auto simp: revert_flag_updated_def fail_def andThen_def split: option.splits sum.splits)
  next
    case (Some old)
    then have ty: "ff_flag_type old = FlagTypeText ''''"
      using assms audit_value_untyped by fastforce
    show ?thesis
    proof (cases r)
      case (Inl e)
      with l u Some show ?thesis
        by (auto simp: revert_flag_updated_def fail_def andThen_def split: option.splits)
    next
      case (Inr c)
      obtain e v where "svc_update_flag (old\<lparr>ff_id := ff_id c, ff_project_id := ff_project_id c,
          ff_key := ff_key c, ff_created_at := ff_created_at c, ff_created_by := ff_created_by c\<rparr>) u = (Inl e, v)"
        and v: "feature_flags v = feature_flags u"
        using update[of "old\<lparr>ff_id := ff_id c, ff_project_id := ff_project_id c,
          ff_key := ff_key c, ff_created_at := ff_created_at c, ff_created_by := ff_created_by c\<rparr>" u] ty by auto
      with l u v Inr Some show ?thesis
        by (auto simp: revert_flag_updated_def fail_def andThen_def wrapped_def split: option.splits)
    qed
  qed
qed

section \<open>Undoing what can be undone\<close>

lemma quietly_run: obtains u where "quietly m s = (Inr (), u)"
  by (cases "m s") (auto simp: quietly_def andThen_def attempt_def ret_def)

lemma flag_event_run: obtains u where "flag_event e f s = (Inr (), u)"
proof (cases "fault s (calls s)")
qed (simp_all add: flag_event_def prog_defs that)

text \<open>The tail of a flag operation: invalidation and event leave the tables alone.\<close>

lemma tail_run:
  obtains u where "andThen (quietly (invalidate i)) (\<lambda>_. flag_event e f) s = (Inr (), u)" "tables_kept s u"
proof -
  obtain v where v: "quietly (invalidate i) s = (Inr (), v)" by (rule quietly_run)
  obtain u where u: "flag_event e f v = (Inr (), u)" by (rule flag_event_run)
  have run: "andThen (quietly (invalidate i)) (\<lambda>_. flag_event e f) s = (Inr (), u)"
    using v u by (simp add: andThen_def)
  have "keeps tables_kept (andThen (quietly (invalidate i)) (\<lambda>_. flag_event e f))" by (intro tables_kept_rules)
  from keepsD[OF this run] show thesis by (rule that[OF run])
qed

lemma calm_get_flag:
  assumes "calm s" and "row_of ff_id i (feature_flags s) = Some f"
  shows "get_flag i s = (Inr f, s\<lparr>calls := Suc (calls s)\<rparr>)"
  using assms by (simp add: get_flag_def prog_defs)

lemma calm_update_flag:
  assumes "calm s" and "row_of ff_id (ff_id f) (feature_flags s) \<noteq> None"
  shows "update_flag f s = (Inr (f\<lparr>ff_updated_at := clock s (reads s)\<rparr>),
    s\<lparr>reads := Suc (reads s), calls := Suc (calls s), feature_flags :=
       update_row ff_id (ff_id f) (write_flag (f\<lparr>ff_updated_at := clock s (reads s)\<rparr>)) (feature_flags s)\<rparr>)"
  using assms by (auto simp: update_flag_def prog_defs Let_def)

lemma toggle_flag_calm:
  assumes calm: "calm s" and row: "row_of ff_id i (feature_flags s) = Some f" and live: "\<not> ff_archived f"
  obtains t n where "toggle_flag i en s = (Inr (), t)" "calm t"
    "row_of ff_id i (feature_flags t) = Some (write_flag (f\<lparr>ff_enabled := en, ff_updated_at := n\<rparr>) f)"
proof -
  have id: "ff_id f = i" using row row_of_Some by fastforce
  let ?s1 = "s\<lparr>calls := Suc (calls s), reads := Suc (reads s)\<rparr>"
  let ?g = "f\<lparr>ff_enabled := en, ff_updated_at := clock s (reads s)\<rparr>"
  let ?n = "clock ?s1 (reads ?s1)"
  let ?h = "?g\<lparr>ff_updated_at := ?n\<rparr>"
  let ?s2 = "?s1\<lparr>reads := Suc (reads ?s1), calls := Suc (calls ?s1),
      feature_flags := update_row ff_id i (write_flag ?h) (feature_flags s)\<rparr>"
  have upd: "update_flag ?g ?s1 = (Inr ?h, ?s2)"
    using calm_update_flag[of ?s1 ?g] calm row id by simp
  obtain u where tail: "andThen (quietly (invalidate (ff_id f))) (\<lambda>_. flag_event ''toggled'' ?h) ?s2 = (Inr (), u)"
    and kept: "tables_kept ?s2 u"
    by (rule tail_run)
  have "toggle_flag i en s = (Inr (), u)"
    using calm_get_flag[OF calm row] live upd tail
    by (simp add: toggle_flag_def andThen_def wrapped_def time_now_def)
  moreover have "calm u"
    using tables_kept_calm[OF kept] calm calm_cong[of ?s2 s] by simp
  moreover have "row_of ff_id i (feature_flags u) = Some (write_flag ?h f)"
    using kept row by (simp add: tables_kept_def row_of_update[where key = ff_id] write_flag_def)
  ultimately show thesis by (intro that[of u ?n]) simp_all
qed

text \<open>The same read off any run that succeeds: the flag is there, live, and ends as asked.\<close>

lemma toggle_flag_sets:
  assumes "toggle_flag i en s = (Inr (), t)"
  obtains f n where "row_of ff_id i (feature_flags s) = Some f" "\<not> ff_archived f"
    "row_of ff_id i (feature_flags t) = Some (write_flag (f\<lparr>ff_enabled := en, ff_updated_at := n\<rparr>) f)"
proof -
  from assms obtain f s1 f' s3 where get: "get_flag i s = (Inr f, s1)" and live: "\<not> ff_archived f"
    and upd: "update_flag (f\<lparr>ff_enabled := en, ff_updated_at := clock s1 (reads s1)\<rparr>) (s1\<lparr>reads := Suc (reads s1)\<rparr>) = (Inr f', s3)"
    and rest: "andThen (quietly (invalidate (ff_id f))) (\<lambda>_. flag_event ''toggled'' f') s3 = (Inr (), t)"
    by (auto simp: toggle_flag_def andThen_Inr time_now_def fail_def split: if_splits)
  from get have f: "row_of ff_id i (feature_flags s) = Some f" and s1: "feature_flags s1 = feature_flags s"
    by (auto simp: get_flag_def prog_defs split: if_splits option.splits)
  then have id: "ff_id f = i" using row_of_Some by fastforce
  from upd obtain n where s3: "feature_flags s3 =
      update_row ff_id i (write_flag (f\<lparr>ff_enabled := en, ff_updated_at := n\<rparr>)) (feature_flags s)"
    using s1 id by (auto simp: update_flag_def prog_defs Let_def split: if_splits)
  obtain u where "andThen (quietly (invalidate (ff_id f))) (\<lambda>_. flag_event ''toggled'' f') s3 = (Inr (), u)"
    "tables_kept s3 u" by (rule tail_run)
  with rest have "feature_flags t = feature_flags s3" by (simp add: tables_kept_def)
  with s3 f have "row_of ff_id i (feature_flags t) = Some (write_flag (f\<lparr>ff_enabled := en, ff_updated_at := n\<rparr>) f)"
    by (simp add: row_of_update[where key = ff_id] write_flag_def)
  with f live show thesis by (rule that)
qed

text \<open>Undoing an entry whose values are the two positions of the switch.\<close>

lemma decode_enabled: "decode_toggle (JObj [(''enabled'', JBool b)]) = Some b"
  by (simp add: decode_toggle_def decode_field_def field_values_def names_field_def lower_code_def)

lemma toggled_dispatch:
  assumes "ae_entity_type e = ''flag''" and "ae_action e = ''flag.toggled''"
  shows "revert_dispatch (flag_reverts parse raw) e = revert_flag_toggled e"
  using assms by (intro ext)
    (simp add: revert_dispatch_def flag_reverts_def flag_revert_handlers_def register_revert_def revert_key_def)

lemma toggled_revert_run:
  assumes e: "ae_entity_type e = ''flag''" "ae_action e = ''flag.toggled''" "ae_entity_id e = i"
    "ae_old_value e = Some (JObj [(''enabled'', JBool old)])" "ae_new_value e = Some (JObj [(''enabled'', JBool new)])"
    and calm: "calm s" and row: "row_of ff_id i (feature_flags s) = Some f" "\<not> ff_archived f" "ff_enabled f = new"
  obtains u n where "revert_dispatch (flag_reverts parse raw) e False s = (Inr ''flag.toggled.reverted'', u)"
    "row_of ff_id i (feature_flags u) = Some (write_flag (f\<lparr>ff_enabled := old, ff_updated_at := n\<rparr>) f)"
proof -
  let ?s = "s\<lparr>calls := Suc (calls s)\<rparr>"
  have again: "calm ?s" "row_of ff_id i (feature_flags ?s) = Some f" using calm row by simp_all
  obtain u n where u: "toggle_flag i old ?s = (Inr (), u)"
    and h: "row_of ff_id i (feature_flags u) = Some (write_flag (f\<lparr>ff_enabled := old, ff_updated_at := n\<rparr>) f)"
    using toggle_flag_calm[OF again row(2), of old] by blast
  have "revert_dispatch (flag_reverts parse raw) e False s = (Inr ''flag.toggled.reverted'', u)"
    using calm_get_flag[OF calm row(1)] u row(3) e
    by (simp add: toggled_dispatch revert_flag_toggled_def decode_enabled loaded_flag_def svc_get_flag_def
        andThen_def wrapped_def ret_def)
  then show thesis using h by (rule that)
qed

section \<open>Force\<close>

lemma existing_rule_not_added:
  assumes "tg_id rule \<noteq> uuid_nil" and "row_of tg_id (tg_id rule) (targeting_rules s) \<noteq> None"
  shows "isl (fst (add_rule rule s)) \<and> targeting_rules (snd (add_rule rule s)) = targeting_rules s"
proof (cases "fault s (calls s)")
  case True
  then show ?thesis by (simp add: add_rule_def andThen_def ext_call_def)
next
  case False
  let ?s1 = "s\<lparr>calls := Suc (calls s)\<rparr>"
  obtain q t where q: "add_rule_tx rule ?s1 = (q, t)" by (cases "add_rule_tx rule ?s1")
  have "isl q \<and> targeting_rules t = targeting_rules s"
    using q assms by (auto simp: add_rule_tx_def create_rule_def prog_defs Let_def split: option.splits if_splits)
  with False q show ?thesis
    by (cases q) (auto simp: add_rule_def andThen_def ext_call_def get_state_def)
qed

text \<open>
  Force does not help to undo the deletion of a rule that exists again: the handler adds the
  rule under its old identifier, which the table refuses, so the call fails with force as it
  does without, and the rules are unchanged.
\<close>

theorem force_cannot_readd:
  assumes "Option.bind (ae_old_value entry) (decode_rule parse) = Some rule" and "tg_id rule \<noteq> uuid_nil"
    and "row_of tg_id (tg_id rule) (targeting_rules s) \<noteq> None"
  shows "isl (fst (revert_rule_deleted parse entry force s)) \<and>
    targeting_rules (snd (revert_rule_deleted parse entry force s)) = targeting_rules s"
proof (cases "fault s (calls s)")
  case True
  then have "svc_get_rule (tg_id rule) s = (Inl (FlagWrap ''getting rule'' (FlagDriver ''postgres.GetRule'')), s\<lparr>calls := Suc (calls s)\<rparr>)"
    by (simp add: svc_get_rule_def get_rule_def prog_defs)
  with assms(1,2) show ?thesis
    by (simp add: revert_rule_deleted_def andThen_def attempt_def fail_def)
next
  case False
  let ?s1 = "s\<lparr>calls := Suc (calls s)\<rparr>"
  from False assms(3) obtain old where "svc_get_rule (tg_id rule) s = (Inr old, ?s1)"
    by (auto simp: svc_get_rule_def get_rule_def prog_defs)
  moreover have "isl (fst (add_rule rule ?s1)) \<and> targeting_rules (snd (add_rule rule ?s1)) = targeting_rules s"
    using existing_rule_not_added[OF assms(2), of ?s1] assms(3) by simp
  ultimately show ?thesis using assms(1,2)
    by (cases "add_rule rule ?s1")
      (auto simp: revert_rule_deleted_def andThen_def attempt_def fail_def wrapped_def Let_def split: sum.splits)
qed

section \<open>The properties at work\<close>

definition sample_entry :: "uuid \<Rightarrow> audit_entry" where
  "sample_entry i = \<lparr>ae_id = 1, ae_org_id = 1, ae_project_id = 1, ae_actor_id = 1, ae_action = ''flag.updated'',
     ae_entity_type = ''flag'', ae_entity_id = i, ae_old_value = None,
     ae_new_value = Some (JObj [(''enabled'', JBool True)]), ae_created_at = 0\<rparr>"

theorem update_never_reverts_witness:
  "isl (fst (revert_flag_updated (\<lambda>_. Some 7)
     ((sample_entry 7)\<lparr>ae_old_value := Some (flag_audit_value (plain_flag 7))\<rparr>)
     True (flags_world (\<lambda>_. 5) [plain_flag 7])))"
  by (rule conjunct1[OF update_never_reverts[where f = "plain_flag 7"]]) simp

definition readded_rule :: json where
  "readded_rule = JObj [(''id'', JStr ''r''), (''flag_id'', JStr ''r'')]"

theorem force_cannot_readd_witness:
  "isl (fst (revert_rule_deleted (\<lambda>_. Some 9) ((sample_entry 7)\<lparr>ae_old_value := Some readded_rule\<rparr>) True
     ((flags_world (\<lambda>_. 5) [])\<lparr>targeting_rules := [the (decode_rule (\<lambda>_. Some 9) readded_rule)]\<rparr>)))"
proof -
  have rule: "decode_rule (\<lambda>_. Some 9) readded_rule \<noteq> None \<and> tg_id (the (decode_rule (\<lambda>_. Some 9) readded_rule)) = 9"
    by code_simp
  then show ?thesis
    using force_cannot_readd[of "(sample_entry 7)\<lparr>ae_old_value := Some readded_rule\<rparr>" "\<lambda>_. Some 9"
      "the (decode_rule (\<lambda>_. Some 9) readded_rule)"
      "(flags_world (\<lambda>_. 5) [])\<lparr>targeting_rules := [the (decode_rule (\<lambda>_. Some 9) readded_rule)]\<rparr>" True]
    by (auto simp: row_simps)
qed

end
