(* ===== verification/FlagFrame.thy ===== *)
theory FlagFrame
  imports FlagReverts
begin

text \<open>
  What the flag service can write: the tables of the flags, their cache and the events, and the
  counters of the outside. Whatever holds of such a write holds of every call of the service.
\<close>

text \<open>No stored flag names an application: the column is neither inserted nor updated.\<close>

definition no_applications :: "'x flag_world_scheme \<Rightarrow> bool" where
  "no_applications w \<longleftrightarrow> (\<forall>f \<in> set (feature_flags w). ff_application_id f = None)"

definition flag_write :: "'x flag_world_scheme \<Rightarrow> 'x flag_world_scheme \<Rightarrow> bool" where
  "flag_write s t \<longleftrightarrow> fault t = fault s \<and> clock t = clock s \<and> fresh t = fresh s \<and> ctxdone t = ctxdone s \<and>
     polls t = polls s \<and> deployments t = deployments s \<and> deployment_phases t = deployment_phases s \<and>
     rollback_history t = rollback_history s \<and> segments t = segments s \<and> cached_segments t = cached_segments s \<and>
     audit_refs t = audit_refs s \<and> audit_log t = audit_log s \<and> flag_world.more t = flag_world.more s \<and>
     (no_applications s \<longrightarrow> no_applications t)"

lemma keeps_weaken: "keeps R m \<Longrightarrow> (\<And>s t. R s t \<Longrightarrow> R' s t) \<Longrightarrow> keeps R' m"
  by (simp add: keeps_def)

interpretation flag_writes: frame flag_write
  by unfold_locales (auto simp: flag_write_def)

lemma flag_write_env:
  "keeps flag_write (ext_call e)" "keeps flag_write time_now" "keeps flag_write uuid_new"
  by (auto simp: keeps_def prog_defs flag_write_def no_applications_def)

lemma flag_write_tables:
  "keeps flag_write (modify (\<lambda>w. w\<lparr>targeting_rules := f2 w\<rparr>))"
  "keeps flag_write (modify (\<lambda>w. w\<lparr>rule_states := f3 w\<rparr>))"
  "keeps flag_write (modify (\<lambda>w. w\<lparr>flag_states := f4 w\<rparr>))"
  "keeps flag_write (modify (\<lambda>w. w\<lparr>cached_flags := f5 w\<rparr>))"
  "keeps flag_write (modify (\<lambda>w. w\<lparr>cached_flag_keys := f6 w, cached_rules := f7 w\<rparr>))"
  "keeps flag_write (modify (\<lambda>w. w\<lparr>outbox := f8 w\<rparr>))"
  by (auto simp: keeps_def prog_defs flag_write_def no_applications_def)

text \<open>The writes of the flags themselves: a row as it is inserted, an update of other columns, a deletion.\<close>

lemma flag_write_flags:
  "keeps flag_write (modify (\<lambda>w. w\<lparr>feature_flags := feature_flags w @ [stored_flag f]\<rparr>))"
  "(\<And>f. ff_application_id (u f) = ff_application_id f) \<Longrightarrow>
   keeps flag_write (modify (\<lambda>w. w\<lparr>feature_flags := update_row ff_id i u (feature_flags w)\<rparr>))"
  "(\<And>f. ff_application_id (u f) = ff_application_id f) \<Longrightarrow>
   keeps flag_write (modify (\<lambda>w. w\<lparr>feature_flags := update_row ff_id i u (feature_flags w),
     removal_fired := f9 w, flag_states := f4 w\<rparr>))"
  "keeps flag_write (modify (\<lambda>w. w\<lparr>feature_flags := filter p (feature_flags w), rule_states := f3 w,
     targeting_rules := f2 w, flag_states := f4 w\<rparr>))"
  by (auto simp: keeps_def prog_defs flag_write_def no_applications_def stored_flag_def dest!: set_update)

lemma columns_kept:
  "ff_application_id (write_flag f row) = ff_application_id row"
  "ff_application_id (write_lifecycle p b n row) = ff_application_id row"
  by (simp_all add: write_flag_def write_lifecycle_def)

lemmas flag_write_prims = flag_writes.keeps_rules flag_write_env flag_write_tables flag_write_flags columns_kept

lemma flag_write_repository:
  "keeps flag_write (get_flag i)" "keeps flag_write (create_flag f)" "keeps flag_write (update_flag f)"
  "keeps flag_write (archive_flag i)" "keeps flag_write (unarchive_flag i)"
  "keeps flag_write (get_rule i)" "keeps flag_write (create_rule r)" "keeps flag_write (update_rule r)"
  "keeps flag_write (delete_rule i)" "keeps flag_write (list_rules i)"
  "keeps flag_write (upsert_flag_env_state st)" "keeps flag_write (set_rule_environment_state i e b)"
  "keeps flag_write (list_rule_environment_states i)" "keeps flag_write (list_flag_env_states i)"
  "keeps flag_write (update_flag_lifecycle i p d)" "keeps flag_write (get_flag_by_project_key pr k)"
  "keeps flag_write (queue_deletion i r')" "keeps flag_write (clear_delete_after i)"
  "keeps flag_write (hard_delete_flag i r')" "keeps flag_write (restore_flag i)"
  unfolding get_flag_def create_flag_def update_flag_def archive_flag_def unarchive_flag_def get_rule_def create_rule_def
    update_rule_def delete_rule_def list_rules_def upsert_flag_env_state_def set_rule_environment_state_def
    list_rule_environment_states_def list_flag_env_states_def update_flag_lifecycle_def get_flag_by_project_key_def
    queue_deletion_def clear_delete_after_def hard_delete_flag_def restore_flag_def
  by (intro flag_write_prims | simp | (auto split: list.split intro!: flag_write_prims)[1])+

lemma flag_write_effects:
  "keeps flag_write (invalidate i)" "keeps flag_write (flag_event e f)" "keeps flag_write (announce_if_read e i)"
  "keeps flag_write (hard_deleted_event i)"
  unfolding invalidate_def flag_event_def announce_if_read_def hard_deleted_event_def
  by (intro flag_write_prims flag_write_repository | (auto split: sum.split option.split intro!: flag_write_prims)[1])+

lemma flag_write_quietly: "keeps flag_write m \<Longrightarrow> keeps flag_write (quietly m)"
  unfolding quietly_def by (intro flag_write_prims)

lemmas flag_write_rules = flag_write_prims flag_write_repository flag_write_effects flag_write_quietly

lemma flag_write_bulk: "keeps flag_write (toggle_flag i b)" "keeps flag_write (bulk_toggle is b)"
proof -
  show toggle: "keeps flag_write (toggle_flag i b)" for i
    unfolding toggle_flag_def by (intro flag_write_rules)
  have "keeps flag_write (bulk_toggle_from e is b)" for e
    by (induction "is" arbitrary: e) (auto intro!: flag_write_rules toggle)
  then show "keeps flag_write (bulk_toggle is b)" unfolding bulk_toggle_def by (intro flag_write_rules)
qed

text \<open>A creation whose commit fails puts the flags back as they were when it began.\<close>

lemma flag_write_create_tx: "keeps flag_write (create_flag_tx f)"
  unfolding create_flag_tx_def by (intro flag_write_rules)

lemma flag_write_create: "keeps flag_write (svc_create_flag f)"
  unfolding keeps_def
proof
  fix s :: "'x flag_world_scheme"
  let ?s = "s\<lparr>calls := Suc (calls s)\<rparr>"
  obtain r u where u: "create_flag_tx f ?s = (r, u)" by (cases "create_flag_tx f ?s")
  have base: "flag_write s ?s" by (simp add: flag_write_def no_applications_def)
  have su: "flag_write s u" by (rule flag_writes.R_trans[OF base keepsD[OF flag_write_create_tx u]])
  have undo: "flag_write s (u\<lparr>calls := n, feature_flags := feature_flags s\<rparr>)" for n
    using su by (simp add: flag_write_def no_applications_def)
  have event: "flag_write s (snd (flag_event e g (u\<lparr>calls := n\<rparr>)))" for e g n
  proof -
    have "flag_write s (u\<lparr>calls := n\<rparr>)" using su by (simp add: flag_write_def no_applications_def)
    moreover have "flag_write v (snd (flag_event e g v))" for v :: "'x flag_world_scheme"
      using flag_write_effects(2)[of e g] unfolding keeps_def by blast
    ultimately show ?thesis by (rule flag_writes.R_trans)
  qed
  show "flag_write s (snd (svc_create_flag f s))"
    using base su undo event u
    by (cases r) (auto simp: svc_create_flag_def andThen_def ext_call_def get_state_def attempt_def modify_def
        fail_def split: sum.splits)
qed

lemma flag_write_service:
  "keeps flag_write (svc_get_flag i)" "keeps flag_write (svc_create_flag f)" "keeps flag_write (svc_update_flag f)"
  "keeps flag_write (svc_archive_flag i)" "keeps flag_write (svc_unarchive_flag i)"
  "keeps flag_write (add_rule r)" "keeps flag_write (svc_get_rule i)" "keeps flag_write (svc_update_rule r)"
  "keeps flag_write (svc_delete_rule i)"
  "keeps flag_write (set_flag_env_state st)" "keeps flag_write (svc_set_rule_state i e b)"
  unfolding svc_get_flag_def svc_update_flag_def svc_archive_flag_def svc_unarchive_flag_def
    add_rule_def add_rule_tx_def svc_get_rule_def svc_update_rule_def svc_delete_rule_def set_flag_env_state_def svc_set_rule_state_def
  by (intro flag_write_rules flag_write_create)+

lemma flag_write_lifecycle:
  "keeps flag_write (record_smoke_test_result i st n)" "keeps flag_write (record_user_test_result i st n)"
  "keeps flag_write (schedule_removal i d)" "keeps flag_write (cancel_scheduled_removal i)"
  "keeps flag_write (mark_iteration_exhausted i)" "keeps flag_write (svc_queue_deletion i r')"
  "keeps flag_write (svc_hard_delete_flag i r')" "keeps flag_write (svc_restore_flag i)" "keeps flag_write (svc_clear_delete_after i)"
  unfolding record_smoke_test_result_def record_user_test_result_def schedule_removal_def cancel_scheduled_removal_def
    mark_iteration_exhausted_def svc_queue_deletion_def svc_hard_delete_flag_def svc_restore_flag_def svc_clear_delete_after_def
  by (intro flag_write_rules)+

lemmas flag_service_writes = flag_write_service flag_write_bulk flag_write_lifecycle

end
