(* ===== verification/StagingRegistry.thy ===== *)
theory StagingRegistry
  imports StagingHandlers FlagFrame
begin

text \<open>
  The registry of the process keeps the contract of \<open>commit_registry\<close>: the services the
  mutation handlers call write neither the pending changes nor the audit log nor the rows of the
  transaction, and the create handlers only append rows to the transaction. The properties of a
  commit are stated over this registry.
\<close>

section \<open>What the flag service writes\<close>

interpretation pool: frame pool_write
  by unfold_locales (auto simp: pool_write_def intro: owned_trans)

lemma flag_write_pool: "flag_write s t \<Longrightarrow> pool_write s t"
  by (cases s; cases t) (simp add: flag_write_def pool_write_def)

lemma pool_of_write: "keeps flag_write m \<Longrightarrow> keeps pool_write m"
  by (erule keeps_weaken) (rule flag_write_pool)

lemma pool_service:
  "keeps pool_write (svc_update_flag f)" "keeps pool_write (svc_archive_flag i)" "keeps pool_write (toggle_flag i b)"
  "keeps pool_write (svc_update_rule r)" "keeps pool_write (svc_delete_rule i)" "keeps pool_write (svc_restore_flag i)"
  "keeps pool_write (svc_set_rule_state i e b)" "keeps pool_write (set_flag_env_state st)"
  by (intro pool_of_write flag_service_writes)+

lemma pool_effects:
  "keeps pool_write (invalidate i)" "keeps pool_write (flag_event e f)"
  by (intro pool_of_write flag_write_effects)+

lemma pool_on_flags: "keeps pool_write m \<Longrightarrow> keeps pool_write (on_flag_service m)"
  unfolding on_flag_service_def by (rule pool.keeps_wrapped)

section \<open>What the rollout service writes\<close>

definition log_kept :: "rollout_world \<Rightarrow> rollout_world \<Rightarrow> bool" where
  "log_kept s t \<longleftrightarrow> audit_log t = audit_log s \<and> audit_refs t = audit_refs s \<and> feature_flags t = feature_flags s"

interpretation log: frame log_kept
  by unfold_locales (auto simp: log_kept_def)

lemma log_prims:
  "keeps log_kept (ext_call e)" "keeps log_kept time_now" "keeps log_kept uuid_new"
  "keeps log_kept (modify (\<lambda>w. w\<lparr>strategies := f1 w\<rparr>))"
  "keeps log_kept (modify (\<lambda>w. w\<lparr>strategy_defaults := f2 w\<rparr>))"
  "keeps log_kept (modify (\<lambda>w. w\<lparr>rollout_policies := f3 w\<rparr>))"
  by (auto simp: keeps_def prog_defs log_kept_def)

lemma log_service:
  "keeps log_kept (svc_update_strategy s v)" "keeps log_kept (svc_delete_strategy i)"
  "keeps log_kept (default_upsert d)" "keeps log_kept (default_delete i)"
  "keeps log_kept (policy_upsert p)" "keeps log_kept (policy_delete i)"
  unfolding svc_update_strategy_def svc_delete_strategy_def strategy_get_def strategy_update_def
    strategy_is_referenced_def strategy_soft_delete_def default_upsert_def default_delete_def
    policy_upsert_def policy_delete_def
  by (intro log.keeps_rules log_prims)+

lemma pool_on_rollouts:
  assumes "keeps log_kept m" shows "keeps pool_write (on_rollouts m)"
  unfolding keeps_def
proof
  fix s :: staging_world
  obtain r t where run: "m (rollout_world.truncate s) = (r, t)" by (cases "m (rollout_world.truncate s)")
  have "snd (on_rollouts m s) = rollout_world.extend t (rollout_world.more s)"
    by (simp add: on_rollouts_def run)
  with keepsD[OF assms run] show "pool_write s (snd (on_rollouts m s))"
    by (cases s; cases t) (simp add: log_kept_def pool_write_def rollout_world.defs)
qed

section \<open>What the services of settings and members write\<close>

lemma pool_on_settings: "keeps pool_write (on_settings m)"
  by (auto simp: keeps_def on_settings_def pool_write_def split: prod.split)

definition members_step :: "access_world \<Rightarrow> access_world \<Rightarrow> bool" where
  "members_step s t \<longleftrightarrow> owned (org_members s) (org_members t)"

lemma members_role_step: "keeps members_step (update_org_member_role org user r)"
  by (simp add: keeps_def members_step_def update_owned)

lemma pool_on_members:
  assumes "keeps members_step m" shows "keeps pool_write (on_members m)"
  unfolding keeps_def
proof
  fix s :: staging_world
  let ?w = "env.extend (env.truncate s) (access_world.fields (st_organizations s) (st_members s) (st_users s))"
  obtain r t where run: "m ?w = (r, t)" by (cases "m ?w")
  have "org_members ?w = st_members s" by (simp add: env.defs access_world.defs)
  with keepsD[OF assms run] show "pool_write s (snd (on_members m s))"
    by (simp add: on_members_def run pool_write_def members_step_def)
qed

section \<open>Inserting through the transaction\<close>

text \<open>\<open>appends s t\<close>: \<open>t\<close> is \<open>s\<close> with rows appended to the three tables a create writes.\<close>

definition appends :: "staging_world \<Rightarrow> staging_world \<Rightarrow> bool" where
  "appends s t \<longleftrightarrow> (\<exists>c r m p fl ru st. t = s\<lparr>calls := c, reads := r, minted := m, polls := p,
     feature_flags := feature_flags s @ fl, targeting_rules := targeting_rules s @ ru,
     strategies := strategies s @ st\<rparr>)"

lemma appends_refl: "appends s s"
  unfolding appends_def
  by (intro exI[of _ "calls s"] exI[of _ "reads s"] exI[of _ "minted s"] exI[of _ "polls s"] exI[of _ "[]"]) simp

lemma appends_trans:
  assumes "appends s t" and "appends t u" shows "appends s u"
proof -
  from assms obtain c r m p fl ru st c' r' m' p' fl' ru' st' where
    "t = s\<lparr>calls := c, reads := r, minted := m, polls := p,
       feature_flags := feature_flags s @ fl, targeting_rules := targeting_rules s @ ru, strategies := strategies s @ st\<rparr>"
    "u = t\<lparr>calls := c', reads := r', minted := m', polls := p',
       feature_flags := feature_flags t @ fl', targeting_rules := targeting_rules t @ ru', strategies := strategies t @ st'\<rparr>"
    unfolding appends_def by blast
  then show ?thesis unfolding appends_def
    by (intro exI[of _ c'] exI[of _ r'] exI[of _ m'] exI[of _ p'] exI[of _ "fl @ fl'"] exI[of _ "ru @ ru'"]
        exI[of _ "st @ st'"]) simp
qed

interpretation appends: frame appends
  by unfold_locales (auto intro: appends_refl appends_trans)

lemma appendsI:
  "appends s (s\<lparr>calls := c, reads := r, minted := m, polls := p,
     feature_flags := feature_flags s @ fl, targeting_rules := targeting_rules s @ ru,
     strategies := strategies s @ st\<rparr>)" for s c r m p fl ru st
  unfolding appends_def by blast

lemma appends_step:
  "appends s (s\<lparr>calls := n\<rparr>)" "appends s (s\<lparr>reads := n\<rparr>)" "appends s (s\<lparr>minted := n\<rparr>)"
  "appends s (s\<lparr>feature_flags := feature_flags s @ fl\<rparr>)"
  "appends s (s\<lparr>targeting_rules := targeting_rules s @ ru\<rparr>)"
  using appendsI[where s = s and c = n and r = "reads s" and m = "minted s" and p = "polls s" and fl = "[]" and ru = "[]" and st = "[]"]
    appendsI[where s = s and c = "calls s" and r = n and m = "minted s" and p = "polls s" and fl = "[]" and ru = "[]" and st = "[]"]
    appendsI[where s = s and c = "calls s" and r = "reads s" and m = n and p = "polls s" and fl = "[]" and ru = "[]" and st = "[]"]
    appendsI[where s = s and c = "calls s" and r = "reads s" and m = "minted s" and p = "polls s" and fl = fl and ru = "[]" and st = "[]"]
    appendsI[where s = s and c = "calls s" and r = "reads s" and m = "minted s" and p = "polls s" and fl = "[]" and ru = ru and st = "[]"] by simp_all

lemma appends_prims:
  "keeps appends (ext_call e)" "keeps appends time_now" "keeps appends uuid_new"
  "keeps appends (modify (\<lambda>w. w\<lparr>feature_flags := feature_flags w @ fl\<rparr>))"
  "keeps appends (modify (\<lambda>w. w\<lparr>targeting_rules := targeting_rules w @ ru\<rparr>))"
  by (auto simp: keeps_def prog_defs intro: appends_step)

lemma appends_creates:
  "keeps appends (on_flag_service (create_flag_tx f))" "keeps appends (on_flag_service (add_rule_tx r))"
  unfolding on_flag_service_def create_flag_tx_def add_rule_tx_def create_flag_def create_rule_def
  by (intro appends.keeps_rules appends_prims)+

text \<open>The same for a strategy, whose repository works on the rollout store.\<close>

definition adds_strategies :: "rollout_world \<Rightarrow> rollout_world \<Rightarrow> bool" where
  "adds_strategies s t \<longleftrightarrow> (\<exists>c r m p st. t = s\<lparr>calls := c, reads := r, minted := m, polls := p,
     strategies := strategies s @ st\<rparr>)"

lemma adds_strategiesI:
  "adds_strategies s (s\<lparr>calls := c, reads := r, minted := m, polls := p, strategies := strategies s @ st\<rparr>)"
  for s c r m p st
  unfolding adds_strategies_def by blast

interpretation adds: frame adds_strategies
proof
  show "adds_strategies s s" for s
    using adds_strategiesI[where s = s and c = "calls s" and r = "reads s" and m = "minted s" and p = "polls s" and st = "[]"] by simp
  show "adds_strategies s t \<Longrightarrow> adds_strategies t u \<Longrightarrow> adds_strategies s u" for s t u
    unfolding adds_strategies_def by force
qed

lemma adds_prims:
  "keeps adds_strategies (ext_call e)" "keeps adds_strategies time_now" "keeps adds_strategies uuid_new"
  "keeps adds_strategies (modify (\<lambda>w. w\<lparr>strategies := strategies w @ st\<rparr>))"
proof -
  have "adds_strategies s (s\<lparr>calls := n\<rparr>)" "adds_strategies s (s\<lparr>reads := n\<rparr>)"
    "adds_strategies s (s\<lparr>minted := n\<rparr>)" "adds_strategies s (s\<lparr>strategies := strategies s @ st\<rparr>)" for s n
    using adds_strategiesI[where s = s and c = n and r = "reads s" and m = "minted s" and p = "polls s" and st = "[]"]
      adds_strategiesI[where s = s and c = "calls s" and r = n and m = "minted s" and p = "polls s" and st = "[]"]
      adds_strategiesI[where s = s and c = "calls s" and r = "reads s" and m = n and p = "polls s" and st = "[]"]
      adds_strategiesI[where s = s and c = "calls s" and r = "reads s" and m = "minted s" and p = "polls s" and st = st] by simp_all
  then show "keeps adds_strategies (ext_call e)" "keeps adds_strategies time_now" "keeps adds_strategies uuid_new"
    "keeps adds_strategies (modify (\<lambda>w. w\<lparr>strategies := strategies w @ st\<rparr>))"
    by (auto simp: keeps_def prog_defs)
qed

lemma adds_create: "keeps adds_strategies (strategy_create_tx s)"
  unfolding strategy_create_tx_def strategy_create_def by (intro adds.keeps_rules adds_prims)

lemma appends_on_rollouts:
  assumes "keeps adds_strategies m" shows "keeps appends (on_rollouts m)"
  unfolding keeps_def
proof
  fix s :: staging_world
  obtain r t where run: "m (rollout_world.truncate s) = (r, t)" by (cases "m (rollout_world.truncate s)")
  from keepsD[OF assms run] obtain c q k p st where
    t: "t = (rollout_world.truncate s)\<lparr>calls := c, reads := q, minted := k, polls := p,
      strategies := strategies (rollout_world.truncate s) @ st\<rparr>"
    unfolding adds_strategies_def by blast
  have "snd (on_rollouts m s) = rollout_world.extend t (rollout_world.more s)"
    by (simp add: on_rollouts_def run)
  also have "\<dots> = s\<lparr>calls := c, reads := q, minted := k, polls := p, strategies := strategies s @ st\<rparr>"
    unfolding t by (cases s) (simp add: rollout_world.defs)
  finally have "snd (on_rollouts m s) = s\<lparr>calls := c, reads := q, minted := k, polls := p, strategies := strategies s @ st\<rparr>" .
  then show "appends s (snd (on_rollouts m s))" using appendsI[where s = s and c = c and r = q and m = k and p = p and fl = "[]" and ru = "[]" and st = st] by simp
qed

text \<open>What only appends, run in the transaction, writes the transaction only.\<close>

lemma in_tx_write:
  assumes "keeps appends m" shows "keeps tx_write (in_tx m)"
  unfolding keeps_def
proof
  fix s
  obtain r t where run: "m (tx_view s) = (r, t)" by (cases "m (tx_view s)")
  from keepsD[OF assms run] obtain c q k p fl ru st where
    t: "t = (tx_view s)\<lparr>calls := c, reads := q, minted := k, polls := p,
      feature_flags := feature_flags (tx_view s) @ fl, targeting_rules := targeting_rules (tx_view s) @ ru,
      strategies := strategies (tx_view s) @ st\<rparr>"
    unfolding appends_def by blast
  have "snd (in_tx m s) = t\<lparr>tx_flags := drop (length (feature_flags s)) (feature_flags t),
      feature_flags := feature_flags s,
      tx_rules := drop (length (targeting_rules s)) (targeting_rules t), targeting_rules := targeting_rules s,
      tx_strategies := drop (length (strategies s)) (strategies t), strategies := strategies s\<rparr>"
    by (simp add: in_tx_def run)
  also have "\<dots> = s\<lparr>calls := c, reads := q, minted := k, polls := p,
      tx_flags := tx_flags s @ fl, tx_rules := tx_rules s @ ru, tx_strategies := tx_strategies s @ st\<rparr>"
    unfolding t by (simp add: tx_view_def)
  finally show "tx_write s (snd (in_tx m s))" unfolding tx_write_def by blast
qed

section \<open>The contract\<close>

text \<open>A handler checks the row and then makes one call.\<close>

lemma pool_with_resource: "(\<And>i. keeps pool_write (k i)) \<Longrightarrow> keeps pool_write (with_resource what c k)"
  unfolding with_resource_def by (intro pool.keeps_rules)

lemma pool_with_value: "(\<And>x. keeps pool_write (k x)) \<Longrightarrow> keeps pool_write (with_value what dec c k)"
  unfolding with_value_def by (intro pool.keeps_rules)

lemma tx_with_value: "(\<And>x. keeps tx_write (k x)) \<Longrightarrow> keeps tx_write (with_value what dec c k)"
  unfolding with_value_def by (intro txw.keeps_rules)

lemma pool_by_flags: "keeps pool_write m \<Longrightarrow> keeps pool_write (by_flags what action m)"
  unfolding by_flags_def by (intro pool.keeps_rules pool_on_flags)

lemma pool_by_rollouts: "keeps log_kept m \<Longrightarrow> keeps pool_write (by_rollouts what action m)"
  unfolding by_rollouts_def by (intro pool.keeps_rules pool_on_rollouts)

lemma pool_by_settings: "keeps pool_write (by_settings what action m)"
  unfolding by_settings_def by (intro pool.keeps_rules pool_on_settings)

lemma pool_by_members: "keeps members_step m \<Longrightarrow> keeps pool_write (by_members what action m)"
  unfolding by_members_def by (intro pool.keeps_rules pool_on_members)

lemmas handler_rules = pool_by_settings pool_by_members members_role_step pool_with_resource pool_with_value pool_by_flags pool_by_rollouts
  pool_service log_service pool.keeps_if pool.keeps_fail

lemma pool_handlers:
  "keeps pool_write (commit_flag_update parse c)" "keeps pool_write (commit_flag_archive c)"
  "keeps pool_write (commit_flag_restore c)" "keeps pool_write (commit_flag_toggle c)"
  "keeps pool_write (commit_rule_update parse c)" "keeps pool_write (commit_rule_delete c)"
  "keeps pool_write (commit_rule_env_state parse c)" "keeps pool_write (commit_flag_env_state parse raw c)"
  "keeps pool_write (commit_strategy_update parse c)" "keeps pool_write (commit_strategy_delete c)"
  "keeps pool_write (commit_default_upsert parse c)" "keeps pool_write (commit_default_delete c)"
  "keeps pool_write (commit_policy_upsert parse c)" "keeps pool_write (commit_policy_delete c)"
  "keeps pool_write (commit_setting_update parse c)" "keeps pool_write (commit_setting_delete c)"
  "keeps pool_write (commit_member_role c)"
  unfolding commit_flag_update_def commit_flag_archive_def commit_flag_restore_def commit_flag_toggle_def
    commit_rule_update_def commit_rule_delete_def commit_rule_env_state_def commit_flag_env_state_def
    commit_strategy_update_def commit_strategy_delete_def commit_default_upsert_def commit_default_delete_def
    commit_policy_upsert_def commit_policy_delete_def commit_setting_update_def commit_setting_delete_def
    commit_member_role_def
  by (intro handler_rules)+

lemma tx_creates:
  "keeps tx_write (commit_flag_create parse c)" "keeps tx_write (commit_rule_create parse c)"
  "keeps tx_write (commit_strategy_create parse c)"
  unfolding commit_flag_create_def commit_rule_create_def commit_strategy_create_def
  by (intro tx_with_value txw.keeps_rules in_tx_write appends_creates appends_on_rollouts adds_create
      keeps_must_not_be_provisional)+

lemma quiet_effects:
  "keeps pool_write (m :: (staging_world, flag_error, unit) prog) \<Longrightarrow> quiet_hook (\<lambda>w. snd (m w))"
  by (simp add: quiet_hook_def keeps_def pool_write_books)

lemma create_hooks:
  "commit_flag_create parse c s = (Inr (i, action, Some h), t) \<Longrightarrow> quiet_hook h"
  "commit_rule_create parse c s = (Inr (i, action, Some h), t) \<Longrightarrow> quiet_hook h"
  "commit_strategy_create parse c s = (Inr (i, action, Some h), t) \<Longrightarrow> quiet_hook h"
  by (auto simp: commit_flag_create_def commit_rule_create_def commit_strategy_create_def with_value_def
      andThen_Inr ret_def fail_def split: option.splits if_splits intro: quiet_effects pool_effects)

definition process_creates :: "(string \<Rightarrow> uuid option) \<Rightarrow> create_handler set" where
  "process_creates parse = {commit_flag_create parse, commit_rule_create parse, commit_strategy_create parse}"

lemma process_handlers:
  "create_handlers (process_registry parse raw) k = Some h \<Longrightarrow> h \<in> process_creates parse"
  "commit_handlers (process_registry parse raw) k = Some g \<Longrightarrow> keeps pool_write (g c)"
  by (auto simp: process_registry_def flag_create_handlers_def strategy_create_handlers_def process_creates_def
      flag_commit_handlers_def rollout_commit_handlers_def
      setting_commit_handlers_def member_commit_handlers_def register_create_def register_commit_def empty_registry_def
      pool_handlers split: if_splits)

interpretation process_commits: commit_registry "process_registry parse raw" for parse raw
proof
  show "keeps tx_write (h c)" if "create_handlers (process_registry parse raw) k = Some h" for k h c
    using process_handlers(1)[OF that] tx_creates by (auto simp: process_creates_def)
  show "quiet_hook hook" if "create_handlers (process_registry parse raw) k = Some h"
    "h c s = (Inr (i, action, Some hook), t)" for k h c s i action hook t
    using process_handlers(1)[OF that(1)] that(2) create_hooks by (auto simp: process_creates_def)
  show "keeps pool_write (g c)" if "commit_handlers (process_registry parse raw) k = Some g" for k g c
    by (rule process_handlers(2)[OF that])
qed

section \<open>What a commit guarantees\<close>

definition toggle_change :: staged_change where
  "toggle_change = \<lparr>sc_change_id = 11, sc_user_id = 1, sc_org_id = 2, sc_resource_type = ''flag'',
     sc_resource_id = Some 7, sc_provisional_id = None, sc_action = ''toggle'', sc_field_path = '''',
     sc_old_value = None, sc_new_value = Some (JObj [(''enabled'', JBool False)]),
     sc_created_at = 0, sc_updated_at = 0\<rparr>"

definition staging_sample :: "staged_change list \<Rightarrow> staging_world" where
  "staging_sample cs = (rollout_world.extend (sample_rollout_world (\<lambda>_. False) []) (staging_world.fields cs [(2, ''acme'')] [sample_member 1 OrgRoleOwner] [] [] [] [] []))
     \<lparr>feature_flags := [plain_flag 7]\<rparr>"

text \<open>Identifiers of the samples are their decimal texts.\<close>

definition number_id :: "string \<Rightarrow> uuid option" where
  "number_id s = (if s = ''7'' then Some 7 else if s = ''provisional'' then Some (push_bit 56 0xC0) else None)"

definition id_text :: "uuid \<Rightarrow> string" where
  "id_text _ = ''7''"

abbreviation sample_commit :: "uuid list \<Rightarrow> staged_change list \<Rightarrow>
    (staging_error + (commit_result \<times> staging_error list)) \<times> staging_world" where
  "sample_commit ids cs \<equiv> staging_commit (process_registry number_id (\<lambda>_. '''')) number_id id_text 1 2 1 ids (staging_sample cs)"

lemma sample_commit_toggle:
  "\<not> batch_failed (fst (sample_commit [11] [toggle_change]))"
  "(case fst (sample_commit [11] [toggle_change]) of Inr (res, es) \<Rightarrow> cr_committed res = [11] | _ \<Rightarrow> False)"
  by code_simp+

text \<open>
  C10. A commit either leaves the pending changes and the audit log as they were (when it reports a
  failed row or an error, or panics) or removes exactly the changes it reports as committed,
  which are all the requested ones, and accounts for each of them by one new audit entry or
  one reported error; no audit entry ever names a provisional identifier, and no organization
  loses its last owner to a staged change of role.
\<close>

theorem staging_outcome:
  assumes "staging_commit (process_registry parse raw) parse text_of user org actor ids s = (r, t)"
  shows "batch_outcome user org r s t \<and>
    (\<forall>res es. r = Inr (res, es) \<longrightarrow> cr_failed res = None \<longrightarrow>
       length (cr_committed res) = length ids \<and> set (cr_committed res) \<subseteq> set ids)"
  by (rule process_commits.staging_commit_outcome[OF assms])

theorem staging_outcome_witness:
  "staged_changes (snd (sample_commit [11] [toggle_change])) = []"
proof -
  have "batch_outcome 1 2 (fst (sample_commit [11] [toggle_change])) (staging_sample [toggle_change])
      (snd (sample_commit [11] [toggle_change]))"
    using staging_outcome[OF prod.collapse[symmetric]] by blast
  moreover have "staged_changes (staging_sample [toggle_change]) = [toggle_change]" by code_simp
  moreover have "without_ids 1 2 [11] [toggle_change] = []" by code_simp
  ultimately show ?thesis using sample_commit_toggle
    by (auto simp: batch_outcome_def split: sum.splits)
qed

text \<open>
  As long as no project has the nil identifier, which no row of the table has, a commit that
  succeeds writes nothing to the audit log and reports one error for each change, because no
  writer of these entries sets the project and \<open>WriteAuditLog\<close> passes the nil identifier where
  the foreign key wants a project or \<open>NULL\<close>.
\<close>

theorem staging_never_audits:
  assumes run: "staging_commit (process_registry parse raw) parse text_of user org actor ids s = (Inr (res, es), t)"
    and "cr_failed res = None" and nil: "\<not> known_project (audit_refs s) uuid_nil"
  shows "audit_log t = audit_log s \<and> length es = length ids"
proof -
  note out = process_commits.staging_commit_outcome[OF run]
  then obtain new where new: "audit_log t = audit_log s @ new"
    "\<forall>a \<in> set new. \<not> is_provisional (ae_entity_id a) \<and> known_project (audit_refs s) uuid_nil"
    "length new + length es = length (cr_committed res)"
    using assms(2) by (auto simp: batch_outcome_def)
  have "new = []" using new(2) nil by (cases new) auto
  with new out assms(2) show ?thesis by auto
qed

theorem staging_never_audits_witness:
  "\<exists>res es t. sample_commit [11] [toggle_change] = (Inr (res, es), t) \<and> audit_log t = [] \<and> length es = 1"
proof -
  obtain res es t where run: "sample_commit [11] [toggle_change] = (Inr (res, es), t)"
    using sample_commit_toggle(2) by (cases "sample_commit [11] [toggle_change]") (auto split: sum.splits)
  have "cr_failed res = None" using sample_commit_toggle(1) unfolding run by simp
  moreover have "\<not> known_project (audit_refs (staging_sample [toggle_change])) uuid_nil"
    and log: "audit_log (staging_sample [toggle_change]) = []" by code_simp+
  ultimately show ?thesis using staging_never_audits[OF run] run log by auto
qed

text \<open>A rule staged on a flag that the same batch creates.\<close>

definition dependent_rule :: "(string \<Rightarrow> uuid option) \<Rightarrow> staged_change \<Rightarrow> bool" where
  "dependent_rule parse c \<longleftrightarrow> sc_resource_type c = ''flag_rule'' \<and> sc_action c = ''create'' \<and>
     sc_provisional_id c \<noteq> None \<and>
     (case sc_new_value c of None \<Rightarrow> False
      | Some v \<Rightarrow> (case decode_rule parse v of None \<Rightarrow> False | Some r \<Rightarrow> is_provisional (tg_flag_id r)))"

lemma rule_create_dispatch:
  assumes "dependent_rule parse c"
  shows "create_dispatch (process_registry parse raw) c = commit_rule_create parse c"
    and "is_creatable (process_registry parse raw) (sc_resource_type c) (sc_action c)"
  using assms
  by (simp_all add: dependent_rule_def create_dispatch_def is_creatable_def commit_key_def process_registry_def
      flag_create_handlers_def strategy_create_handlers_def register_create_def)

lemma rule_create_panics:
  assumes "dependent_rule parse c"
  shows "commit_rule_create parse c s = (Inl (StagingPanic (''staging: provisional id leaked into flag_rule.create.flag_id'')), s)"
  using assms
  by (auto simp: dependent_rule_def commit_rule_create_def with_value_def must_not_be_provisional_def
      is_provisional_def prog_defs split: option.splits)

lemma dependent_row_fails:
  assumes "dependent_rule parse c"
  shows "commit_row (process_registry parse raw) parse text_of actor b c s
     = (Inl (StagingPanic (''staging: provisional id leaked into flag_rule.create.flag_id'')), s)"
  using assms rule_create_dispatch[OF assms] rule_create_panics[OF assms]
  by (auto simp: commit_row_def commit_create_def caught_def andThen_def dependent_rule_def split: option.splits)

lemma rows_with_dependent:
  assumes "dependent_rule parse c" and "c \<in> set rows"
    and "commit_rows (process_registry parse raw) parse text_of actor b rows s = (r, t)"
  shows "\<nexists>b'. r = Inr (b', None)"
  using assms(2,3)
proof (induction rows arbitrary: b s)
  case (Cons d rows)
  obtain x u where x: "commit_row (process_registry parse raw) parse text_of actor b d s = (x, u)"
    by (cases "commit_row (process_registry parse raw) parse text_of actor b d s")
  show ?case
  proof (cases "\<exists>b'. x = Inr (Inr b')")
    case True
    then obtain b' where b': "x = Inr (Inr b')" by blast
    then have "d \<noteq> c" using x dependent_row_fails[OF assms(1)] by auto
    moreover have "commit_rows (process_registry parse raw) parse text_of actor b' rows u = (r, t)"
      using Cons.prems(2) x b' by (simp add: andThen_def)
    ultimately show ?thesis using Cons by auto
  next
    case False
    then show ?thesis using Cons.prems(2) x by (auto simp: andThen_def ret_def split: sum.splits)
  qed
qed simp

lemma dependent_batch_fails:
  assumes "dependent_rule parse c" and "c \<in> set rows"
    and "commit_in_tx (process_registry parse raw) parse text_of user org actor rows s = (r, t)"
  shows "batch_failed r"
proof -
  let ?rows = "commit_rows (process_registry parse raw) parse text_of actor empty_batch rows"
  obtain x u where x: "?rows s = (x, u)" by (cases "?rows s")
  from rows_with_dependent[OF assms(1,2) x] assms(3) x show ?thesis
    by (auto simp: commit_in_tx_def with_rollback_def andThen_def ret_def split: sum.splits prod.splits option.splits)
qed

text \<open>
  A batch that creates a flag and a rule of that flag never commits, whatever else it holds:
  the create handler of the rule is called with the row as it was staged, still naming the
  provisional flag, and its guard panics. The comment in the handler says that \<open>RewriteRow\<close> has
  always run by then; it runs on mutations only.
\<close>

theorem dependent_create_never_commits:
  assumes run: "staging_commit (process_registry parse raw) parse text_of user org actor ids s = (r, t)"
    and c: "c \<in> set (staged_changes s)" "owned_by user org c" "sc_change_id c \<in> set ids"
    and dep: "dependent_rule parse c"
  shows "batch_failed r \<and> books_kept s t"
proof -
  let ?load = "wrapped (StagingWrap ''staging.Commit: load rows'') (get_by_ids user org ids)"
  let ?start = "ext_call (StagingWrap ''staging.Commit: begin tx'' (StagingDriver ''begin'')) :: unit staging_prog"
  obtain x u where x: "?load s = (x, u)" by (cases "?load s")
  obtain y v where y: "?start u = (y, v)" by (cases "?start u")
  have loaded: "c \<in> set rows" if "x = Inr rows" for rows
    using x that c by (auto simp: get_by_ids_def prog_defs split: if_splits)
  have "batch_failed r"
  proof (rule ccontr)
    assume ok: "\<not> batch_failed r"
    have "ids \<noteq> []" using c(3) by auto
    with run x y ok obtain rows ordered where rows: "x = Inr rows" "plan_batch parse rows = Inr ordered"
      and tx: "commit_in_tx (process_registry parse raw) parse text_of user org actor ordered v = (r, t)"
      by (auto simp: staging_commit_def andThen_def fail_def ret_def split: sum.splits if_splits staging_error.splits)
    have "c \<in> set ordered" using loaded[OF rows(1)] plan_batch_rows[OF rows(2)] by simp
    from dependent_batch_fails[OF dep this tx] ok show False by simp
  qed
  with process_commits.staging_commit_outcome[OF run] show ?thesis by (simp add: batch_outcome_def)
qed

definition create_change :: staged_change where
  "create_change = \<lparr>sc_change_id = 12, sc_user_id = 1, sc_org_id = 2, sc_resource_type = ''flag'',
     sc_resource_id = None, sc_provisional_id = Some (push_bit 56 0xC0), sc_action = ''create'', sc_field_path = '''',
     sc_old_value = None, sc_new_value = Some (JObj [(''key'', JStr ''k''), (''name'', JStr ''n''),
       (''flag_type'', JStr ''boolean''), (''category'', JStr ''feature''), (''is_permanent'', JBool True),
       (''project_id'', JStr ''7''), (''created_by'', JStr ''7''), (''default_value'', JStr ''false''), (''owners'', JArr [JStr ''o''])]),
     sc_created_at = 0, sc_updated_at = 0\<rparr>"

definition rule_change :: staged_change where
  "rule_change = \<lparr>sc_change_id = 13, sc_user_id = 1, sc_org_id = 2, sc_resource_type = ''flag_rule'',
     sc_resource_id = None, sc_provisional_id = Some (push_bit 56 0xC1), sc_action = ''create'', sc_field_path = '''',
     sc_old_value = None, sc_new_value = Some (JObj [(''flag_id'', JStr ''provisional''), (''rule_type'', JStr ''percentage'')]),
     sc_created_at = 1, sc_updated_at = 1\<rparr>"

theorem dependent_create_never_commits_witness:
  "batch_failed (fst (sample_commit [12, 13] [create_change, rule_change]))"
proof -
  have c: "rule_change \<in> set (staged_changes (staging_sample [create_change, rule_change]))"
    "owned_by 1 2 rule_change" "sc_change_id rule_change \<in> set [12, 13]" "dependent_rule number_id rule_change"
    by code_simp+
  show "batch_failed (fst (sample_commit [12, 13] [create_change, rule_change]))"
    using dependent_create_never_commits[OF prod.collapse[symmetric] c] by blast
qed

section \<open>What a failed batch leaves behind\<close>

definition staged_toggle :: "uuid \<Rightarrow> bool \<Rightarrow> staged_change \<Rightarrow> bool" where
  "staged_toggle i en c \<longleftrightarrow> sc_resource_type c = ''flag'' \<and> sc_action c = ''toggle'' \<and>
     sc_resource_id c = Some i \<and> sc_provisional_id c = None \<and>
     sc_new_value c = Some (JObj [(''enabled'', JBool en)])"

text \<open>A row of a kind for which the process registers no handler.\<close>

definition unhandled :: "registry \<Rightarrow> staged_change \<Rightarrow> bool" where
  "unhandled reg c \<longleftrightarrow> commit_handlers reg (commit_key (sc_resource_type c) (sc_action c)) = None \<and>
     sc_provisional_id c = None \<and> sc_old_value c = None \<and> sc_new_value c = None"

lemma decode_toggle_sample: "decode_toggle (JObj [(''enabled'', JBool en)]) = Some en"
  by (cases en; code_simp)

lemma toggle_dispatch:
  assumes "staged_toggle i en c"
  shows "commit_dispatch (process_registry parse raw) c = commit_flag_toggle c"
  using assms
  by (simp add: staged_toggle_def commit_dispatch_def commit_key_def process_registry_def
      flag_create_handlers_def strategy_create_handlers_def flag_commit_handlers_def rollout_commit_handlers_def
      setting_commit_handlers_def member_commit_handlers_def
      register_create_def register_commit_def)

lemma toggle_row_run:
  assumes calm: "calm s" and row: "row_of ff_id i (feature_flags s) = Some f" "\<not> ff_archived f"
    and c: "staged_toggle i en c" "sc_old_value c = None" and real: "\<not> is_provisional i"
  obtains t n a where
    "commit_row (process_registry parse raw) parse text_of actor empty_batch c s
       = (Inr (Inr (empty_batch\<lparr>bt_committed := [sc_change_id c], bt_audits := [a]\<rparr>)), t)"
    "row_of ff_id i (feature_flags t) = Some (write_flag (f\<lparr>ff_enabled := en, ff_updated_at := n\<rparr>) f)"
proof -
  obtain u n where u: "toggle_flag i en s = (Inr (), u)" "calm u"
    "row_of ff_id i (feature_flags u) = Some (write_flag (f\<lparr>ff_enabled := en, ff_updated_at := n\<rparr>) f)"
    by (rule toggle_flag_calm[OF calm row])
  have same: "rewrite_row parse text_of (\<lambda>_. None) c = Inr c"
    using c real by (simp add: staged_toggle_def rewrite_row_def rewrite_value_def)
  have run: "commit_flag_toggle c s = (Inr ''flag.toggled'', u)"
    using c u(1) by (simp add: staged_toggle_def commit_flag_toggle_def with_resource_def with_value_def
        decode_toggle_sample by_flags_def on_flag_service_def andThen_def wrapped_def ret_def)
  obtain a v where a: "build_audit_entry c actor ''flag.toggled'' u = (Inr a, v)"
    and id: "ae_entity_id a = i" and kept: "tx_write u v"
  proof -
    obtain q v where q: "build_audit_entry c actor ''flag.toggled'' u = (q, v)"
      by (cases "build_audit_entry c actor ''flag.toggled'' u")
    from build_audit_entry_run[OF q] keepsD[OF keeps_build_audit_entry q] q c show thesis
      by (auto simp: staged_toggle_def intro: that)
  qed
  have "commit_row (process_registry parse raw) parse text_of actor empty_batch c s
      = (Inr (Inr (empty_batch\<lparr>bt_committed := [sc_change_id c], bt_audits := [a]\<rparr>)), v)"
    using c same run a id real toggle_dispatch[OF c(1), of parse raw]
    by (simp add: staged_toggle_def commit_row_def commit_mutation_def empty_batch_def caught_def andThen_def
        must_not_be_provisional_def ret_def)
  moreover have "feature_flags v = feature_flags u" using kept by (auto simp: tx_write_def)
  ultimately show thesis using u(3) by (intro that[of a v n]) simp_all
qed

lemma unhandled_row_run:
  assumes "unhandled reg c" and "bt_resolver b = (\<lambda>_. None)"
  shows "commit_row reg parse text_of actor b c s
     = (Inr (Inl (ErrNoCommitHandler (sc_resource_type c @ ''.'' @ sc_action c))), s)"
  using assms
  by (auto simp: unhandled_def commit_row_def commit_mutation_def rewrite_row_def rewrite_value_def
      commit_dispatch_def caught_def fail_def andThen_def ret_def split: option.splits)

text \<open>A toggle that succeeds has set the flag, whatever came before it in the batch.\<close>

lemma toggle_row_sets:
  assumes run: "commit_row (process_registry parse raw) parse text_of actor b c s = (Inr (Inr b'), t)"
    and c: "staged_toggle i en c" and real: "\<not> is_provisional i"
  shows "map_option ff_enabled (row_of ff_id i (feature_flags t)) = Some en"
proof -
  from run c obtain c' where c': "rewrite_row parse text_of (bt_resolver b) c = Inr c'"
    by (auto simp: commit_row_def staged_toggle_def commit_mutation_def ret_def split: sum.splits)
  with c real have same: "staged_toggle i en c'"
    by (auto simp: staged_toggle_def rewrite_row_def rewrite_value_def Let_def split: option.splits)
  from run c c' obtain x u where x: "caught (commit_dispatch (process_registry parse raw) c') s = (Inr (Inr x), u)"
    and u: "andThen (build_audit_entry c' actor x) (\<lambda>entry.
       andThen (must_not_be_provisional (ae_entity_id entry) ''audit_log.entity_id (mutation)'') (\<lambda>_.
         ret (Inr (b\<lparr>bt_committed := bt_committed b @ [sc_change_id c],
                    bt_audits := bt_audits b @ [entry]\<rparr>)))) u = (Inr (Inr b' :: staging_error + batch), t)"
    by (simp add: commit_row_def staged_toggle_def commit_mutation_def or_else_Inr[where g = "\<lambda>e. e"]) blast
  from u obtain entry where entry: "build_audit_entry c' actor x u = (Inr entry, t)"
    by (auto simp: andThen_Inr ret_def must_not_be_provisional_run)
  from x have "commit_flag_toggle c' s = (Inr x, u)"
    using toggle_dispatch[OF same, of parse raw] caught_run(2) by metis
  then have "toggle_flag i en s = (Inr (), u)"
    using same by (auto simp: staged_toggle_def commit_flag_toggle_def with_resource_def with_value_def
        decode_toggle_sample by_flags_def on_flag_service_def andThen_Inr ret_def)
  then obtain f n where "row_of ff_id i (feature_flags u) = Some (write_flag (f\<lparr>ff_enabled := en, ff_updated_at := n\<rparr>) f)"
    by (rule toggle_flag_sets)
  moreover have "feature_flags t = feature_flags u"
    using keepsD[OF keeps_build_audit_entry entry] by (auto simp: tx_write_def)
  ultimately show ?thesis by (simp add: write_flag_def)
qed

text \<open>The rows up to the first that fails, and the state each of them starts from.\<close>

lemma commit_rows_failure:
  "commit_rows reg parse text_of actor b rows s = (Inr (b1, Some (j, e)), t) \<Longrightarrow>
   \<exists>pre d rest u. rows = pre @ d # rest \<and> j = sc_change_id d \<and>
     commit_rows reg parse text_of actor b pre s = (Inr (b1, None), u) \<and>
     commit_row reg parse text_of actor b1 d u = (Inr (Inl e), t)"
proof (induction rows arbitrary: b s)
  case Nil
  then show ?case by (simp add: ret_def)
next
  case (Cons c rows)
  then obtain x u where x: "commit_row reg parse text_of actor b c s = (Inr x, u)"
    by (auto simp: andThen_Inr)
  show ?case
  proof (cases x)
    case (Inl e')
    with Cons.prems x show ?thesis
      by (intro exI[of _ "[]"] exI[of _ c] exI[of _ rows] exI[of _ s]) (simp add: andThen_def ret_def)
  next
    case (Inr b2)
    with Cons.prems x have "commit_rows reg parse text_of actor b2 rows u = (Inr (b1, Some (j, e)), t)"
      by (simp add: andThen_def)
    from Cons.IH[OF this] obtain pre d rest v where "rows = pre @ d # rest" "j = sc_change_id d"
      "commit_rows reg parse text_of actor b2 pre u = (Inr (b1, None), v)"
      "commit_row reg parse text_of actor b1 d v = (Inr (Inl e), t)" by blast
    with x Inr show ?thesis
      by (intro exI[of _ "c # pre"] exI[of _ d] exI[of _ rest] exI[of _ v]) (simp add: andThen_def)
  qed
qed

lemma commit_rows_step:
  "commit_rows reg parse text_of actor b (c # cs) s = (Inr (b1, None), t) \<Longrightarrow>
   \<exists>b2 u. commit_row reg parse text_of actor b c s = (Inr (Inr b2), u) \<and>
     commit_rows reg parse text_of actor b2 cs u = (Inr (b1, None), t)"
  by (auto simp: andThen_def ret_def split: prod.splits sum.splits)

lemma commit_rows_last:
  "commit_rows reg parse text_of actor b (cs @ [c]) s = (Inr (b1, None), t) \<Longrightarrow>
   \<exists>b2 u. commit_row reg parse text_of actor b2 c u = (Inr (Inr b1), t)"
proof (induction cs arbitrary: b s)
  case Nil
  then show ?case
    using commit_rows_step[of reg parse text_of actor b c "[]" s b1 t] by (auto simp: ret_def)
next
  case (Cons a cs)
  then show ?case
    using commit_rows_step[of reg parse text_of actor b a "cs @ [c]" s b1 t] by auto
qed

text \<open>
  C11. The one transaction of a commit does not cover the mutations: the handlers go through the
  services and ignore it. Whenever a batch reports a row that failed, whichever row that is and
  for whatever reason, no staged change and no audit entry is touched, although the rows before
  it, which it reports as committed, have run one after another and nothing of what they and
  the failing row wrote through the services is taken back: the state is the one after them,
  less the rows of the dead transaction. In particular a toggle just before the failing row has
  left its flag switched when the failing row starts.
\<close>

theorem failed_batch_keeps_writes:
  assumes run: "commit_in_tx (process_registry parse raw) parse text_of user org actor rows s = (Inr (res, as), t)"
    and failed: "cr_failed res = Some j"
  shows "books_kept s t \<and> as = [] \<and>
    (\<exists>pre d rest b u e v. rows = pre @ d # rest \<and> j = sc_change_id d \<and>
       cr_committed res = map sc_change_id pre \<and> cr_reason res = Some e \<and>
       commit_rows (process_registry parse raw) parse text_of actor empty_batch pre s = (Inr (b, None), u) \<and>
       commit_row (process_registry parse raw) parse text_of actor b d u = (Inr (Inl e), v) \<and>
       t = drop_tx v \<and> feature_flags t = feature_flags v \<and>
       (\<forall>c i en. pre \<noteq> [] \<and> c = last pre \<and> staged_toggle i en c \<and> \<not> is_provisional i \<longrightarrow>
          map_option ff_enabled (row_of ff_id i (feature_flags u)) = Some en))"
proof -
  from run failed obtain b e v where
    rows: "commit_rows (process_registry parse raw) parse text_of actor empty_batch rows s = (Inr (b, Some (j, e)), v)"
    and res: "res = \<lparr>cr_committed = bt_committed b, cr_failed = Some j, cr_reason = Some e\<rparr>" "as = []" "t = drop_tx v"
    by (auto simp: commit_in_tx_def with_rollback_def andThen_def ret_def finish_commit_def
        split: prod.splits sum.splits option.splits)
  from commit_rows_failure[OF rows] obtain pre d rest u where split: "rows = pre @ d # rest" "j = sc_change_id d"
    "commit_rows (process_registry parse raw) parse text_of actor empty_batch pre s = (Inr (b, None), u)"
    "commit_row (process_registry parse raw) parse text_of actor b d u = (Inr (Inl e), v)"
    by blast
  have "bt_committed b = map sc_change_id pre"
    using process_commits.commit_rows_Inr[OF split(3) batch_ok_empty] by (simp add: empty_batch_def)
  note split = split this
  have "map_option ff_enabled (row_of ff_id i (feature_flags u)) = Some en"
    if "pre \<noteq> []" "staged_toggle i en (last pre)" "\<not> is_provisional i" for i en
  proof -
    have "pre = butlast pre @ [last pre]" using that(1) by simp
    then have "commit_rows (process_registry parse raw) parse text_of actor empty_batch
        (butlast pre @ [last pre]) s = (Inr (b, None), u)" using split(3) by simp
    then show ?thesis using commit_rows_last toggle_row_sets[OF _ that(2,3)] by meson
  qed
  moreover have "books_kept s t"
    using process_commits.commit_in_tx_outcome(1)[OF run] failed by (simp add: batch_outcome_def)
  moreover have "feature_flags t = feature_flags v" using res(3) by (simp add: drop_tx_def)
  ultimately show ?thesis
    using split res
    by (intro conjI exI[of _ pre] exI[of _ d] exI[of _ rest] exI[of _ b] exI[of _ u] exI[of _ e] exI[of _ v]) auto
qed

definition stray_change :: staged_change where
  "stray_change = toggle_change\<lparr>sc_change_id := 14, sc_resource_type := ''webhook'', sc_action := ''pause'', sc_new_value := None\<rparr>"

abbreviation sample_tx :: "staged_change list \<Rightarrow> staging_world \<Rightarrow>
    (staging_error + (commit_result \<times> staging_error list)) \<times> staging_world" where
  "sample_tx \<equiv> commit_in_tx (process_registry number_id (\<lambda>_. [])) number_id id_text 1 2 1"

lemma stray_batch_run:
  obtains res as t where
    "sample_tx [toggle_change, stray_change] (staging_sample [toggle_change, stray_change]) = (Inr (res, as), t)"
    "cr_failed res = Some 14" "cr_committed res = [sc_change_id toggle_change]"
proof -
  let ?s = "staging_sample [toggle_change, stray_change]"
  have calm: "calm ?s"
    by (simp add: calm_def staging_sample_def sample_rollout_world_def rollout_world.defs staging_world.defs)
  have row: "row_of ff_id 7 (feature_flags ?s) = Some (plain_flag 7)" "\<not> ff_archived (plain_flag 7)" by code_simp+
  have c: "staged_toggle 7 False toggle_change" "\<not> is_provisional 7" "sc_old_value toggle_change = None" by code_simp+
  have d: "unhandled (process_registry number_id (\<lambda>_. [])) stray_change" "sc_change_id stray_change = 14" by code_simp+
  obtain u n a where
    1: "commit_row (process_registry number_id (\<lambda>_. [])) number_id id_text 1 empty_batch toggle_change ?s
       = (Inr (Inr (empty_batch\<lparr>bt_committed := [sc_change_id toggle_change], bt_audits := [a]\<rparr>)), u)"
    by (rule toggle_row_run[OF calm row c(1,3,2)])
  have 2: "commit_row (process_registry number_id (\<lambda>_. [])) number_id id_text 1
      (empty_batch\<lparr>bt_committed := [sc_change_id toggle_change], bt_audits := [a]\<rparr>) stray_change u
    = (Inr (Inl (ErrNoCommitHandler (sc_resource_type stray_change @ ''.'' @ sc_action stray_change))), u)"
    by (rule unhandled_row_run[OF d(1)]) (simp add: empty_batch_def)
  from 1 2 d(2) have "sample_tx [toggle_change, stray_change] ?s = (Inr (\<lparr>cr_committed = [sc_change_id toggle_change],
      cr_failed = Some 14, cr_reason = Some (ErrNoCommitHandler (sc_resource_type stray_change @ ''.'' @ sc_action stray_change))\<rparr>, []),
      drop_tx u)"
    by (simp add: commit_in_tx_def with_rollback_def andThen_def ret_def)
  then show thesis by (rule that) simp_all
qed

theorem failed_batch_keeps_writes_witness:
  "ff_enabled (plain_flag 7) \<and>
   map_option ff_enabled (row_of ff_id 7 (feature_flags
     (snd (sample_tx [toggle_change, stray_change] (staging_sample [toggle_change, stray_change]))))) = Some False"
proof -
  obtain res as t where run:
    "sample_tx [toggle_change, stray_change] (staging_sample [toggle_change, stray_change]) = (Inr (res, as), t)"
    "cr_failed res = Some 14" "cr_committed res = [sc_change_id toggle_change]" by (rule stray_batch_run)
  from failed_batch_keeps_writes[OF run(1,2)] obtain pre d rest b u e v where
    split: "[toggle_change, stray_change] = pre @ d # rest" "cr_committed res = map sc_change_id pre"
    and d: "commit_row (process_registry number_id (\<lambda>_. [])) number_id id_text 1 b d u = (Inr (Inl e), v)"
    and t: "feature_flags t = feature_flags v"
    and flag: "\<forall>c i en. pre \<noteq> [] \<and> c = last pre \<and> staged_toggle i en c \<and> \<not> is_provisional i \<longrightarrow>
          map_option ff_enabled (row_of ff_id i (feature_flags u)) = Some en" by blast
  note split = split[unfolded run(3)]
  from split have rows: "pre = [toggle_change]" "d = stray_change" by (cases pre; auto)+
  have "staged_toggle 7 False toggle_change" "\<not> is_provisional 7"
    "unhandled (process_registry number_id (\<lambda>_. [])) stray_change" by code_simp+
  note facts = this
  then have on: "map_option ff_enabled (row_of ff_id 7 (feature_flags u)) = Some False"
    using flag[rule_format, of toggle_change 7 False] rows by simp
  have "feature_flags v = feature_flags u"
    using d facts(3) unfolding rows(2)
    by (auto simp: unhandled_def commit_row_def commit_mutation_def rewrite_row_def rewrite_value_def
      commit_dispatch_def caught_def fail_def andThen_def ret_def split: option.splits if_splits)
  with on t run(1) show ?thesis by (simp add: plain_flag_def)
qed

section \<open>Batches of creates\<close>

text \<open>
  A batch of creates is all or nothing: when it fails, whatever the reason, the state differs
  from the one before it by the counters of the outside and the rows of the dead transaction,
  and these are gone.
\<close>

theorem creates_atomic:
  assumes "commit_in_tx (process_registry parse raw) parse text_of user org actor rows s = (r, t)"
    and "creates_only (process_registry parse raw) rows" and "batch_failed r"
  shows "tx_write s t \<and> tx_flags t = [] \<and> tx_rules t = [] \<and> tx_strategies t = []"
proof
  show "tx_write s t" by (rule process_commits.commit_creates_atomic[OF assms])
  show "tx_flags t = [] \<and> tx_rules t = [] \<and> tx_strategies t = []"
    using assms(1) by (auto simp: commit_in_tx_def with_rollback_def drop_tx_def split: prod.splits)
qed

theorem creates_atomic_witness:
  "feature_flags (snd (sample_tx [create_change, rule_change] (staging_sample []))) = [plain_flag 7]"
proof -
  have creates: "creates_only (process_registry number_id (\<lambda>_. '''')) [create_change, rule_change]" by code_simp
  have dep: "dependent_rule number_id rule_change" by code_simp
  have flags: "feature_flags (staging_sample []) = [plain_flag 7]" by code_simp
  have "batch_failed (fst (sample_tx [create_change, rule_change] (staging_sample [])))"
    by (rule dependent_batch_fails[OF dep _ prod.collapse[symmetric]]) simp
  then have "tx_write (staging_sample []) (snd (sample_tx [create_change, rule_change] (staging_sample [])))"
    using creates_atomic[OF prod.collapse[symmetric] creates] by blast
  with flags show ?thesis by (auto simp: tx_write_def)
qed

end
