(* ===== verification/StagingOverlay.thy ===== *)
theory StagingOverlay
  imports StagingRegistry
begin

text \<open>
  The preview of pending changes (\<open>internal/staging/overlay.go\<close>): a user who asks for it sees
  the stored rows with the pending changes applied. The functions are generic in the rows; the
  instances for flags and rules are those of \<open>internal/flags/handler.go\<close>.
\<close>

section \<open>Layering changes over rows\<close>

text \<open>The patched row, and whether it is dropped.\<close>

type_synonym 'a apply_func = "'a \<Rightarrow> staged_change \<Rightarrow> 'a \<times> bool"
type_synonym 'a synthetic_func = "staged_change \<Rightarrow> 'a option"

text \<open>The changes other than creates, bucketed by their resource.\<close>

definition bucket_change :: "staged_change \<Rightarrow> (uuid \<Rightarrow> staged_change list) \<Rightarrow> uuid \<Rightarrow> staged_change list" where
  "bucket_change s m =
     (if sc_action s = ''create'' then m
      else case sc_resource_id s of None \<Rightarrow> m | Some i \<Rightarrow> m(i := m i @ [s]))"

definition updates_by_id :: "staged_change list \<Rightarrow> uuid \<Rightarrow> staged_change list" where
  "updates_by_id staged = fold bucket_change staged (\<lambda>_. [])"

definition staged_creates :: "staged_change list \<Rightarrow> staged_change list" where
  "staged_creates staged = filter (\<lambda>s. sc_action s = ''create'') staged"

fun apply_staged :: "'a apply_func \<Rightarrow> 'a \<Rightarrow> staged_change list \<Rightarrow> 'a option" where
  "apply_staged apply p [] = Some p"
| "apply_staged apply p (s # ss) =
     (case apply p s of (q, gone) \<Rightarrow> if gone then None else apply_staged apply q ss)"

definition overlay_list ::
  "('a \<Rightarrow> uuid) \<Rightarrow> 'a apply_func \<Rightarrow> 'a synthetic_func \<Rightarrow> 'a list \<Rightarrow> staged_change list \<Rightarrow> 'a list" where
  "overlay_list key apply synth production staged =
     (if staged = [] then production
      else List.map_filter (\<lambda>p. apply_staged apply p (updates_by_id staged (key p))) production @
           List.map_filter synth (staged_creates staged))"

text \<open>A detail request does not set creates apart.\<close>

fun overlay_detail :: "('a \<Rightarrow> uuid) \<Rightarrow> 'a apply_func \<Rightarrow> uuid \<Rightarrow> 'a \<Rightarrow> staged_change list \<Rightarrow> 'a option" where
  "overlay_detail key apply pid p [] = Some p"
| "overlay_detail key apply pid p (s # ss) =
     (if sc_resource_id s \<noteq> Some pid then overlay_detail key apply pid p ss
      else case apply p s of (q, gone) \<Rightarrow> if gone then None else overlay_detail key apply pid q ss)"

record marker =
  mk_provisional_id :: "uuid option"
  mk_action :: string
  mk_staged_at :: time

text \<open>The row with the last change applied to it, if any.\<close>

fun apply_marked :: "'a apply_func \<Rightarrow> 'a \<Rightarrow> staged_change option \<Rightarrow> staged_change list \<Rightarrow> ('a \<times> staged_change option) option" where
  "apply_marked apply p last_s [] = Some (p, last_s)"
| "apply_marked apply p last_s (s # ss) =
     (case apply p s of (q, gone) \<Rightarrow> if gone then None else apply_marked apply q (Some s) ss)"

definition overlay_list_marked ::
  "('a \<Rightarrow> uuid) \<Rightarrow> 'a apply_func \<Rightarrow> 'a synthetic_func \<Rightarrow> (marker \<Rightarrow> 'a \<Rightarrow> 'a) option \<Rightarrow>
   'a list \<Rightarrow> staged_change list \<Rightarrow> 'a list" where
  "overlay_list_marked key apply synth set_marker production staged =
     (if staged = [] then production
      else List.map_filter (\<lambda>p. map_option (\<lambda>(q, last_s).
               case (last_s, set_marker) of
                 (Some s, Some set_m) \<Rightarrow> set_m \<lparr>mk_provisional_id = None, mk_action = sc_action s, mk_staged_at = sc_created_at s\<rparr> q
               | _ \<Rightarrow> q) (apply_marked apply p None (updates_by_id staged (key p)))) production @
           List.map_filter (\<lambda>s. map_option (\<lambda>v.
               case set_marker of
                 Some set_m \<Rightarrow> set_m \<lparr>mk_provisional_id = sc_provisional_id s, mk_action = ''create'', mk_staged_at = sc_created_at s\<rparr> v
               | None \<Rightarrow> v) (synth s)) (staged_creates staged))"

section \<open>Flags and rules\<close>

text \<open>
  A document that does not decode, or that is missing, leaves the row as it is. \<open>now s\<close> is the
  reading of the clock when the change \<open>s\<close> is applied.
\<close>

definition new_value_as :: "(json \<Rightarrow> 'v option) \<Rightarrow> staged_change \<Rightarrow> 'v option" where
  "new_value_as dec s = Option.bind (sc_new_value s) dec"

definition flag_apply :: "(string \<Rightarrow> uuid option) \<Rightarrow> (staged_change \<Rightarrow> time) \<Rightarrow> feature_flag apply_func" where
  "flag_apply parse now f s =
     (if sc_action s = ''delete'' then (f, True)
      else if sc_action s = ''update'' then
        (case new_value_as (decode_flag parse) s of
           None \<Rightarrow> f
         | Some p \<Rightarrow> p\<lparr>ff_id := ff_id f, ff_project_id := ff_project_id f, ff_created_at := ff_created_at f\<rparr>, False)
      else if sc_action s = ''archive'' then (f\<lparr>ff_archived_at := Some (now s)\<rparr>, False)
      else if sc_action s = ''restore'' then (f\<lparr>ff_archived_at := None, ff_delete_after := None\<rparr>, False)
      else if sc_action s = ''toggle'' then
        (case new_value_as decode_toggle s of None \<Rightarrow> f | Some en \<Rightarrow> f\<lparr>ff_enabled := en\<rparr>, False)
      else (f, False))"

definition flag_synth :: "(string \<Rightarrow> uuid option) \<Rightarrow> uuid \<Rightarrow> feature_flag synthetic_func" where
  "flag_synth parse project s =
     (case new_value_as (decode_flag parse) s of
        None \<Rightarrow> None
      | Some f \<Rightarrow> if ff_project_id f \<noteq> project then None
                 else Some (case sc_provisional_id s of None \<Rightarrow> f | Some i \<Rightarrow> f\<lparr>ff_id := i\<rparr>))"

definition rule_apply :: "(string \<Rightarrow> uuid option) \<Rightarrow> targeting_rule apply_func" where
  "rule_apply parse r s =
     (if sc_action s = ''delete'' then (r, True)
      else if sc_action s = ''update'' then
        (case new_value_as (decode_rule parse) s of
           None \<Rightarrow> r
         | Some p \<Rightarrow> p\<lparr>tg_id := tg_id r, tg_flag_id := tg_flag_id r, tg_created_at := tg_created_at r\<rparr>, False)
      else (r, False))"

definition rule_synth :: "(string \<Rightarrow> uuid option) \<Rightarrow> uuid \<Rightarrow> targeting_rule synthetic_func" where
  "rule_synth parse flag s =
     (case new_value_as (decode_rule parse) s of
        None \<Rightarrow> None
      | Some r \<Rightarrow> if tg_flag_id r \<noteq> flag then None
                 else Some (case sc_provisional_id s of None \<Rightarrow> r | Some i \<Rightarrow> r\<lparr>tg_id := i\<rparr>))"

section \<open>List and detail agree\<close>

lemma updates_by_id_filter:
  "updates_by_id staged i = filter (\<lambda>s. sc_action s \<noteq> ''create'' \<and> sc_resource_id s = Some i) staged"
proof -
  have "fold bucket_change staged m i = m i @ filter (\<lambda>s. sc_action s \<noteq> ''create'' \<and> sc_resource_id s = Some i) staged" for m
    by (induction staged arbitrary: m) (auto simp: bucket_change_def split: option.splits)
  then show ?thesis by (simp add: updates_by_id_def)
qed

lemma overlay_detail_filter:
  "overlay_detail key apply pid p staged = apply_staged apply p (filter (\<lambda>s. sc_resource_id s = Some pid) staged)"
  by (induction staged arbitrary: p) (auto split: prod.splits)

text \<open>No create names a resource: what the service accepts of a dashboard.\<close>

definition creates_anonymous :: "staged_change list \<Rightarrow> bool" where
  "creates_anonymous staged \<longleftrightarrow> (\<forall>s \<in> set staged. sc_action s = ''create'' \<longrightarrow> sc_resource_id s = None)"

text \<open>
  The list and the detail show the same row: a row of the list is the row as its detail shows
  it, a row whose detail is gone is missing from the list, and the rest of the list are the
  pending creates, in their order.
\<close>

theorem overlay_list_is_detail:
  assumes "creates_anonymous staged"
  shows "overlay_list key apply synth production staged =
    List.map_filter (\<lambda>p. overlay_detail key apply (key p) p staged) production @
    List.map_filter synth (staged_creates staged)"
proof -
  have "updates_by_id staged i = filter (\<lambda>s. sc_resource_id s = Some i) staged" for i
    using assms unfolding updates_by_id_filter creates_anonymous_def by (intro filter_cong) auto
  moreover have "List.map_filter (\<lambda>p. overlay_detail key apply (key p) p []) production = production"
    by (induction production) (simp_all add: List.map_filter_simps)
  ultimately show ?thesis
    by (cases "staged = []") (simp_all add: overlay_list_def overlay_detail_filter staged_creates_def List.map_filter_simps)
qed

lemma apply_marked_staged:
  "apply_staged apply p staged = map_option fst (apply_marked apply p last_s staged)"
  by (induction staged arbitrary: p last_s) (auto split: prod.splits)

lemma map_filter_map_option: "map g (List.map_filter f xs) = List.map_filter (\<lambda>x. map_option g (f x)) xs"
  by (induction xs) (auto simp: List.map_filter_simps split: option.splits)

text \<open>
  The marks are only marks: without them the marked list is the plain one.
\<close>

theorem marks_change_nothing:
  assumes strip: "\<And>m x. strip (f m x) = strip x"
  shows "map strip (overlay_list_marked key apply synth (Some f) production staged) =
    map strip (overlay_list key apply synth production staged)"
proof (cases "staged = []")
  case False
  have upd: "map_option strip (map_option (\<lambda>(q, last_s). case last_s of
          Some s \<Rightarrow> f \<lparr>mk_provisional_id = None, mk_action = sc_action s, mk_staged_at = sc_created_at s\<rparr> q
        | None \<Rightarrow> q) (apply_marked apply p None ss)) = map_option strip (apply_staged apply p ss)" for p ss
    unfolding apply_marked_staged[of "apply" p ss None] option.map_comp
    by (intro option.map_cong0) (auto simp: strip split: option.split)
  have new: "map_option strip (map_option (f m) (synth s)) = map_option strip (synth s)" for m s
    unfolding option.map_comp by (intro option.map_cong0) (simp add: strip)
  from False show ?thesis
    by (simp add: overlay_list_marked_def overlay_list_def map_filter_map_option upd[simplified] new)
qed (simp add: overlay_list_marked_def overlay_list_def)

section \<open>The preview and the commit\<close>

lemma overlay_one:
  "sc_resource_id c = Some i \<Longrightarrow>
   overlay_detail key apply i f [c] = (case apply f c of (q, gone) \<Rightarrow> if gone then None else Some q)"
  by (simp split: prod.split)

text \<open>
  The preview of a pending toggle of a flag that is not archived is what its commit makes of the
  flag, but for the time of the update. The preview of one archived shows it toggled; the commit
  refuses.
\<close>

theorem preview_toggle:
  assumes calm: "calm s" and row: "row_of ff_id i (feature_flags s) = Some f" "\<not> ff_archived f"
    and def: "ff_default_value f \<noteq> []" and c: "staged_toggle i en c"
  shows "\<exists>t n. commit_flag_toggle c s = (Inr ''flag.toggled'', t) \<and>
    row_of ff_id i (feature_flags t) =
      map_option (\<lambda>g. g\<lparr>ff_updated_at := n\<rparr>) (overlay_detail ff_id (flag_apply parse now) i f [c])"
proof -
  obtain t n where t: "toggle_flag i en s = (Inr (), t)"
    "row_of ff_id i (feature_flags t) = Some (write_flag (f\<lparr>ff_enabled := en, ff_updated_at := n\<rparr>) f)"
    by (rule toggle_flag_calm[OF calm row])
  have "commit_flag_toggle c s = (Inr ''flag.toggled'', t)"
    using c t(1) by (simp add: staged_toggle_def commit_flag_toggle_def with_resource_def with_value_def
        decode_toggle_sample by_flags_def on_flag_service_def andThen_def wrapped_def ret_def)
  moreover have "overlay_detail ff_id (flag_apply parse now) i f [c] = Some (f\<lparr>ff_enabled := en\<rparr>)"
    using c by (simp add: staged_toggle_def flag_apply_def new_value_as_def decode_toggle_sample)
  moreover have "write_flag (f\<lparr>ff_enabled := en, ff_updated_at := n\<rparr>) f = f\<lparr>ff_enabled := en, ff_updated_at := n\<rparr>"
    using def by (simp add: write_flag_def)
  ultimately show ?thesis using t(2) by auto
qed

text \<open>A commit of an update keeps what the statement does not write.\<close>

lemma write_flag_keeps [simp]:
  "ff_id (write_flag g f) = ff_id f" "ff_key (write_flag g f) = ff_key f"
  "ff_archived (write_flag g f) = ff_archived f" "ff_environment_id (write_flag g f) = ff_environment_id f"
  by (simp_all add: write_flag_def)

lemma update_flag_keeps:
  assumes run: "update_flag g s = (q, t)" and row: "row_of ff_id i (feature_flags s) = Some f"
  shows "\<exists>h. row_of ff_id i (feature_flags t) = Some h \<and> ff_key h = ff_key f \<and>
    ff_archived h = ff_archived f \<and> ff_environment_id h = ff_environment_id f"
proof -
  have upd: "\<exists>h. row_of ff_id i (update_row ff_id j (write_flag w) (feature_flags s)) = Some h \<and> ff_key h = ff_key f \<and>
      ff_archived h = ff_archived f \<and> ff_environment_id h = ff_environment_id f" for j w
    using row by (auto simp: row_of_update)
  from run row upd show ?thesis
    by (auto simp: update_flag_def prog_defs Let_def split: if_splits)
qed

definition row_kept :: "uuid \<Rightarrow> 'x flag_world_scheme \<Rightarrow> 'x flag_world_scheme \<Rightarrow> bool" where
  "row_kept i s t \<longleftrightarrow> (\<forall>f. row_of ff_id i (feature_flags s) = Some f \<longrightarrow>
     (\<exists>h. row_of ff_id i (feature_flags t) = Some h \<and> ff_key h = ff_key f \<and>
        ff_archived h = ff_archived f \<and> ff_environment_id h = ff_environment_id f))"

interpretation row_frame: frame "row_kept i"
  by unfold_locales (fastforce simp: row_kept_def)+

lemma row_kept_env:
  "keeps (row_kept i) (ext_call e)" "keeps (row_kept i) time_now"
  "keeps (row_kept i) (quietly (invalidate j))" "keeps (row_kept i) (flag_event ev f)"
  by (auto simp: keeps_def row_kept_def quietly_def invalidate_def flag_event_def prog_defs split: option.splits sum.splits)

lemma row_kept_update: "keeps (row_kept i) (svc_update_flag g)"
proof -
  have "keeps (row_kept i) (update_flag f)" for f :: feature_flag
    unfolding keeps_def row_kept_def using update_flag_keeps by (metis prod.collapse)
  then show ?thesis unfolding svc_update_flag_def
    by (intro row_frame.keeps_rules row_kept_env)
qed

lemma by_flags_state: "snd (by_flags what action m s) = snd (m s)"
  by (simp add: by_flags_def on_flag_service_def prog_defs split: prod.split sum.split)

text \<open>
  The preview of a pending update shows the key, the environment and the archive state of the
  document; its commit keeps those of the flag, whatever fails.
\<close>

theorem preview_of_update_differs:
  assumes row: "row_of ff_id i (feature_flags s) = Some f" and c: "sc_action c = ''update''" "sc_resource_id c = Some i"
    and doc: "new_value_as (decode_flag parse) c = Some g" and run: "commit_flag_update parse c s = (q, t)"
  shows "\<exists>p h. overlay_detail ff_id (flag_apply parse now) i f [c] = Some p \<and> row_of ff_id i (feature_flags t) = Some h \<and>
    ff_key p = ff_key g \<and> ff_key h = ff_key f \<and> ff_archived p = ff_archived g \<and> ff_archived h = ff_archived f \<and>
    ff_environment_id p = ff_environment_id g \<and> ff_environment_id h = ff_environment_id f"
proof -
  have "overlay_detail ff_id (flag_apply parse now) i f [c] =
      Some (g\<lparr>ff_id := ff_id f, ff_project_id := ff_project_id f, ff_created_at := ff_created_at f\<rparr>)"
    using c doc by (simp add: flag_apply_def)
  moreover have "row_kept i s t"
  proof -
    have "commit_flag_update parse c s = by_flags ''flag.update commit'' ''flag.updated'' (svc_update_flag (g\<lparr>ff_id := i\<rparr>)) s"
      using c doc by (auto simp: commit_flag_update_def with_resource_def with_value_def new_value_as_def split: option.splits)
    then have t: "t = snd (svc_update_flag (g\<lparr>ff_id := i\<rparr>) s)" using run by_flags_state by (metis snd_conv)
    show ?thesis unfolding t by (rule row_kept_update[unfolded keeps_def, rule_format])
  qed
  ultimately show ?thesis using row unfolding row_kept_def by auto
qed

section \<open>Samples\<close>

definition update_change :: staged_change where
  "update_change = toggle_change\<lparr>sc_action := ''update'', sc_new_value := Some (JObj [(''key'', JStr ''other'')])\<rparr>"

abbreviation sample_overlay :: "feature_flag list \<Rightarrow> staged_change list \<Rightarrow> feature_flag list" where
  "sample_overlay \<equiv> overlay_list ff_id (flag_apply number_id (\<lambda>_. 0)) (flag_synth number_id 7)"

theorem overlay_list_is_detail_witness:
  "sample_overlay [plain_flag 7, plain_flag 8] [toggle_change, create_change] =
     List.map_filter (\<lambda>p. overlay_detail ff_id (flag_apply number_id (\<lambda>_. 0)) (ff_id p) p [toggle_change, create_change])
       [plain_flag 7, plain_flag 8] @
     List.map_filter (flag_synth number_id 7) (staged_creates [toggle_change, create_change]) \<and>
   length (sample_overlay [plain_flag 7, plain_flag 8] [toggle_change, create_change]) = 3"
proof
  have "creates_anonymous [toggle_change, create_change]"
    by (simp add: creates_anonymous_def toggle_change_def create_change_def)
  then show "sample_overlay [plain_flag 7, plain_flag 8] [toggle_change, create_change] =
     List.map_filter (\<lambda>p. overlay_detail ff_id (flag_apply number_id (\<lambda>_. 0)) (ff_id p) p [toggle_change, create_change])
       [plain_flag 7, plain_flag 8] @
     List.map_filter (flag_synth number_id 7) (staged_creates [toggle_change, create_change])"
    by (rule overlay_list_is_detail)
  show "length (sample_overlay [plain_flag 7, plain_flag 8] [toggle_change, create_change]) = 3"
    by code_simp
qed

theorem marks_change_nothing_witness:
  "map snd (overlay_list_marked (\<lambda>p. ff_id (snd p)) (\<lambda>p s. case flag_apply number_id (\<lambda>_. 0) (snd p) s of (f, gone) \<Rightarrow> ((fst p, f), gone))
       (\<lambda>s. map_option (Pair None) (flag_synth number_id 7 s)) (Some (\<lambda>m p. (Some m, snd p)))
       [(None, plain_flag 7)] [toggle_change]) =
   map snd (overlay_list (\<lambda>p. ff_id (snd p)) (\<lambda>p s. case flag_apply number_id (\<lambda>_. 0) (snd p) s of (f, gone) \<Rightarrow> ((fst p, f), gone))
       (\<lambda>s. map_option (Pair None) (flag_synth number_id 7 s)) [(None :: marker option, plain_flag 7)] [toggle_change])"
  by (rule marks_change_nothing[where strip = snd and f = "\<lambda>m p. (Some m, snd p)"]) simp

lemma staging_sample_calm: "calm (staging_sample cs)"
  by (simp add: staging_sample_def sample_rollout_world_def calm_def rollout_world.defs)

lemma staging_sample_flag: "row_of ff_id 7 (feature_flags (staging_sample cs)) = Some (plain_flag 7)"
  by (simp add: staging_sample_def row_simps plain_flag_def)

theorem preview_toggle_witness:
  "fst (commit_flag_toggle toggle_change (staging_sample [])) = Inr ''flag.toggled'' \<and>
   map_option ff_enabled (overlay_detail ff_id (flag_apply number_id (\<lambda>_. 0)) 7 (plain_flag 7) [toggle_change]) = Some False"
proof -
  have f: "\<not> ff_archived (plain_flag 7)" "ff_default_value (plain_flag 7) \<noteq> []"
    "staged_toggle 7 False toggle_change" by code_simp+
  from preview_toggle[OF staging_sample_calm staging_sample_flag f, of "[]" number_id "\<lambda>_. 0"]
  show ?thesis by (auto simp: overlay_one flag_apply_def new_value_as_def toggle_change_def decode_toggle_sample)
qed

theorem preview_of_update_differs_witness:
  "map_option ff_key (overlay_detail ff_id (flag_apply number_id (\<lambda>_. 0)) 7 (plain_flag 7) [update_change]) = Some ''other'' \<and>
   map_option ff_key (row_of ff_id 7 (feature_flags (snd (commit_flag_update number_id update_change (staging_sample []))))) =
     Some (ff_key (plain_flag 7)) \<and> ff_key (plain_flag 7) \<noteq> ''other''"
proof -
  obtain g where g: "new_value_as (decode_flag number_id) update_change = Some g" and key: "ff_key g = ''other''"
  proof -
    have "map_option ff_key (new_value_as (decode_flag number_id) update_change) = Some ''other''" by code_simp
    then show thesis using that by auto
  qed
  have c: "sc_action update_change = ''update''" "sc_resource_id update_change = Some 7"
    by (simp_all add: update_change_def toggle_change_def)
  have "ff_key (plain_flag 7) \<noteq> ''other''" by code_simp
  with key preview_of_update_differs[OF staging_sample_flag c g prod.collapse[symmetric], of "\<lambda>_. 0" "[]"]
  show ?thesis by (auto simp del: overlay_detail.simps)
qed

end
