(* ===== verification/FlagRequests.thy ===== *)
theory FlagRequests
  imports StagingOverlay RolloutAttach SqlBuilder
begin

text \<open>
  The requests of the flag API (\<open>internal/flags/handler.go\<close>, \<open>lifecycle_handler.go\<close>): how a
  handler finds the flag, checks the body, calls the service, writes the audit log, tells the
  stream clients and publishes the webhook event. Binding of the route and the texts of the
  answers are left out: a handler answers with a status and what it found.
\<close>

section \<open>The caller and the state\<close>

text \<open>
  What the middleware leaves in the context: the user of a session, the creator of an API key,
  the organization (as a text, parsed where it is used) and the project of a key.
\<close>

record caller =
  cl_user :: "uuid option"
  cl_key_creator :: "uuid option"
  cl_org :: "uuid option"
  cl_project :: "uuid option"

definition actor_user_id :: "caller \<Rightarrow> uuid" where
  "actor_user_id c =
     (case cl_user c of
        Some u \<Rightarrow> if u \<noteq> uuid_nil then u else (case cl_key_creator c of None \<Rightarrow> uuid_nil | Some k \<Rightarrow> k)
      | None \<Rightarrow> (case cl_key_creator c of None \<Rightarrow> uuid_nil | Some k \<Rightarrow> k))"

definition org_of_caller :: "caller \<Rightarrow> uuid" where
  "org_of_caller c = (case cl_org c of None \<Rightarrow> uuid_nil | Some i \<Rightarrow> i)"

definition user_of_caller :: "caller \<Rightarrow> uuid" where
  "user_of_caller c = (case cl_user c of None \<Rightarrow> uuid_nil | Some i \<Rightarrow> i)"

record sse_event =
  sv_event :: string
  sv_flag_id :: uuid
  sv_flag_key :: string
  sv_timestamp :: time

record webhook_note =
  wn_event :: string
  wn_org_id :: uuid
  wn_project_id :: uuid
  wn_user_id :: "uuid option"

text \<open>
  The channels of the connected clients, what was published for webhooks, and the projects by
  organization and slug.
\<close>

record request_world = staging_world +
  streams :: "sse_event list list"
  webhook_notes :: "webhook_note list"
  projects :: "(uuid \<times> uuid \<times> string) list"

text \<open>A refused request ends with its status.\<close>

type_synonym 'a request = "(request_world, nat, 'a) prog"

text \<open>The text of an identifier and of a raw value, and back.\<close>

record codec =
  cd_parse :: "string \<Rightarrow> uuid option"
  cd_text :: "uuid \<Rightarrow> string"
  cd_raw :: "json \<Rightarrow> string"
  cd_doc :: "string \<Rightarrow> json"

definition path_id :: "codec \<Rightarrow> string \<Rightarrow> (uuid \<Rightarrow> 'a request) \<Rightarrow> 'a request" where
  "path_id cd p k = (case cd_parse cd p of None \<Rightarrow> fail 400 | Some i \<Rightarrow> k i)"

text \<open>\<open>ShouldBindJSON\<close>: a body that is no document, or that does not decode, is refused.\<close>

definition bind_json :: "(json \<Rightarrow> 'v option) \<Rightarrow> json option \<Rightarrow> ('v \<Rightarrow> 'a request) \<Rightarrow> 'a request" where
  "bind_json dec body k = (case Option.bind body dec of None \<Rightarrow> fail 400 | Some v \<Rightarrow> k v)"

abbreviation or_status :: "nat \<Rightarrow> (request_world, 'e, 'a) prog \<Rightarrow> 'a request" where
  "or_status code m \<equiv> wrapped (\<lambda>_. code) m"

section \<open>What follows a change\<close>

text \<open>
  The values of an audit entry are texts: empty, a document, or something the column, which
  holds documents, refuses. The error of the write is dropped. No writer sets the project.
\<close>

datatype audit_text = NoText | Doc json | NotJson string

fun text_value :: "audit_text \<Rightarrow> json option" where
  "text_value (Doc v) = Some v"
| "text_value _ = None"

fun well_formed :: "audit_text \<Rightarrow> bool" where
  "well_formed (NotJson _) = False"
| "well_formed _ = True"

definition audit_row :: "caller \<Rightarrow> string \<Rightarrow> uuid \<Rightarrow> audit_text \<Rightarrow> audit_text \<Rightarrow> time \<Rightarrow> audit_entry" where
  "audit_row c action i old new now =
     \<lparr>ae_id = uuid_nil, ae_org_id = org_of_caller c, ae_project_id = uuid_nil,
      ae_actor_id = user_of_caller c, ae_action = action, ae_entity_type = ''flag'', ae_entity_id = i,
      ae_old_value = text_value old, ae_new_value = text_value new, ae_created_at = now\<rparr>"

definition audit_change :: "caller \<Rightarrow> string \<Rightarrow> uuid \<Rightarrow> audit_text \<Rightarrow> audit_text \<Rightarrow> unit request" where
  "audit_change c action i old new =
     andThen time_now (\<lambda>now.
     andThen (attempt (if \<not> well_formed old \<or> \<not> well_formed new
         then andThen uuid_new (\<lambda>_. andThen (ext_call ()) (\<lambda>_. fail ()))
         else write_audit_log () (audit_row c action i old new now))
       :: (request_world, nat, unit + unit) prog) (\<lambda>_. ret ()))"

text \<open>A client whose channel is full misses the event.\<close>

definition push_event :: "sse_event \<Rightarrow> sse_event list \<Rightarrow> sse_event list" where
  "push_event m buf = (if length buf < 64 then buf @ [m] else buf)"

definition broadcast_event :: "string \<Rightarrow> uuid \<Rightarrow> string \<Rightarrow> unit request" where
  "broadcast_event event i key =
     andThen time_now (\<lambda>now.
       modify (\<lambda>w. w\<lparr>streams := map (push_event
         \<lparr>sv_event = event, sv_flag_id = i, sv_flag_key = key, sv_timestamp = now\<rparr>) (streams w)\<rparr>))"

definition sse_subscribe :: "unit request" where
  "sse_subscribe = modify (\<lambda>w. w\<lparr>streams := streams w @ [[]]\<rparr>)"

definition sse_unsubscribe :: "nat \<Rightarrow> unit request" where
  "sse_unsubscribe n = modify (\<lambda>w. w\<lparr>streams := take n (streams w) @ drop (Suc n) (streams w)\<rparr>)"

text \<open>The error of the publication is dropped.\<close>

definition publish_webhook :: "string \<Rightarrow> uuid \<Rightarrow> uuid \<Rightarrow> uuid option \<Rightarrow> unit request" where
  "publish_webhook event org project user =
     andThen time_now (\<lambda>_.
     andThen (attempt (andThen (ext_call ()) (\<lambda>_.
         modify (\<lambda>w. w\<lparr>webhook_notes := webhook_notes w @
           [\<lparr>wn_event = event, wn_org_id = org, wn_project_id = project, wn_user_id = user\<rparr>]\<rparr>)))
       :: (request_world, nat, unit + unit) prog) (\<lambda>_. ret ()))"

text \<open>
  The handlers that create, update, archive and toggle read the organization from the context
  by an assertion to a UUID; it is kept there as a text, so what they publish names the nil
  organization. The user is kept as a UUID.
\<close>

definition flag_hook :: "caller \<Rightarrow> string \<Rightarrow> feature_flag \<Rightarrow> uuid \<Rightarrow> unit request" where
  "flag_hook c event f user = publish_webhook event uuid_nil (ff_project_id f) (Some user)"

definition publish_lifecycle_event :: "caller \<Rightarrow> string \<Rightarrow> feature_flag \<Rightarrow> unit request" where
  "publish_lifecycle_event c event f = publish_webhook event (org_of_caller c) (ff_project_id f) (cl_user c)"

section \<open>Creation\<close>

definition strings_or_nil :: "json \<Rightarrow> string list option" where
  "strings_or_nil v = (case v of JArr xs \<Rightarrow> those (map as_string_item xs) | _ \<Rightarrow> None)"

text \<open>The project as it was sent, and the flag; the required members must not be empty.\<close>

definition decode_create_flag :: "codec \<Rightarrow> json \<Rightarrow> (string \<times> feature_flag) option" where
  "decode_create_flag cd v =
     do {
       ms \<leftarrow> members_of v;
       project \<leftarrow> string_field ''project_id'' ms;
       envi \<leftarrow> decode_ptr (as_uuid (cd_parse cd)) ''environment_id'' ms;
       app \<leftarrow> decode_ptr (as_uuid (cd_parse cd)) ''application_id'' ms;
       key \<leftarrow> string_field ''key'' ms;
       name \<leftarrow> string_field ''name'' ms;
       description \<leftarrow> string_field ''description'' ms;
       ty \<leftarrow> string_field ''flag_type'' ms;
       category \<leftarrow> string_field ''category'' ms;
       purpose \<leftarrow> string_field ''purpose'' ms;
       owners \<leftarrow> decode_slice as_string_item ''owners'' ms;
       permanent \<leftarrow> bool_field ''is_permanent'' ms;
       expires \<leftarrow> decode_ptr as_time ''expires_at'' ms;
       default \<leftarrow> string_field ''default_value'' ms;
       tags \<leftarrow> decode_slice as_string_item ''tags'' ms;
       if project = [] \<or> key = [] \<or> name = [] \<or> ty = [] then None
       else Some (project, \<lparr>ff_id = uuid_nil, ff_project_id = uuid_nil, ff_application_id = app,
             ff_environment_id = envi, ff_key = key, ff_name = name, ff_description = description,
             ff_flag_type = flag_type_of ty,
             ff_category = (if category = [] then FlagCategoryFeature else flag_category_of category),
             ff_purpose = purpose, ff_owners = owners, ff_is_permanent = permanent, ff_expires_at = expires,
             ff_enabled = False, ff_default_value = default, ff_archived = False, ff_archived_at = None,
             ff_tags = tags, ff_created_by = uuid_nil, ff_created_at = 0, ff_updated_at = 0,
             ff_delete_after = None, ff_smoke_test_status = None, ff_user_test_status = None,
             ff_scheduled_removal_at = None, ff_iteration_count = 0, ff_iteration_exhausted = False,
             ff_last_smoke_test_notes = None, ff_last_user_test_notes = None\<rparr>)
     }"

definition resolve_project_id :: "codec \<Rightarrow> caller \<Rightarrow> string \<Rightarrow> uuid request" where
  "resolve_project_id cd c v =
     (case cd_parse cd v of
        Some i \<Rightarrow> ret i
      | None \<Rightarrow>
          (case cl_org c of
             None \<Rightarrow> fail 400
           | Some org \<Rightarrow>
               andThen (ext_call 500) (\<lambda>_.
               andThen get_state (\<lambda>w.
                 case find (\<lambda>(_, o', slug). o' = org \<and> slug = v) (projects w) of
                   None \<Rightarrow> fail 404 | Some (i, _, _) \<Rightarrow> ret i))))"

fun flag_type_text :: "flag_type \<Rightarrow> string" where
  "flag_type_text FlagTypeBoolean = ''boolean''"
| "flag_type_text FlagTypeString = ''string''"
| "flag_type_text FlagTypeInteger = ''integer''"
| "flag_type_text FlagTypeJSON = ''json''"
| "flag_type_text (FlagTypeText s) = s"

text \<open>The service fills in the identifier of the flag, the next one it mints.\<close>

definition create_flag_request :: "codec \<Rightarrow> caller \<Rightarrow> json option \<Rightarrow> nat request" where
  "create_flag_request cd c body =
     bind_json (decode_create_flag cd) body (\<lambda>(project, f).
     andThen (resolve_project_id cd c project) (\<lambda>pid.
       if actor_user_id c = uuid_nil then fail 422
       else let f' = f\<lparr>ff_project_id := pid, ff_created_by := actor_user_id c\<rparr>
       in andThen get_state (\<lambda>w.
          let i = fresh w (minted w)
          in andThen (or_status 422 (svc_create_flag f')) (\<lambda>_.
             andThen (audit_change c ''flag.created'' i NoText (Doc (JObj
               [(''category'', JStr (flag_category_text (ff_category f'))), (''default_value'', JStr (ff_default_value f')),
                (''flag_type'', JStr (flag_type_text (ff_flag_type f'))), (''key'', JStr (ff_key f')),
                (''name'', JStr (ff_name f'))]))) (\<lambda>_.
             andThen (flag_hook c ''flag.created'' f' (actor_user_id c)) (\<lambda>_. ret 201))))))"

section \<open>Changes of a flag\<close>

definition found_flag :: "uuid \<Rightarrow> feature_flag request" where
  "found_flag i = or_status 404 (svc_get_flag i)"

record flag_patch =
  up_name :: string
  up_description :: string
  up_category :: string
  up_purpose :: string
  up_owners :: "string list option"
  up_is_permanent :: "bool option"
  up_expires_at :: "time option"
  up_default_value :: string

definition decode_flag_patch :: "json \<Rightarrow> flag_patch option" where
  "decode_flag_patch v =
     do {
       ms \<leftarrow> members_of v;
       name \<leftarrow> string_field ''name'' ms;
       description \<leftarrow> string_field ''description'' ms;
       category \<leftarrow> string_field ''category'' ms;
       purpose \<leftarrow> string_field ''purpose'' ms;
       owners \<leftarrow> decode_ptr strings_or_nil ''owners'' ms;
       permanent \<leftarrow> decode_ptr as_bool ''is_permanent'' ms;
       expires \<leftarrow> decode_ptr as_time ''expires_at'' ms;
       default \<leftarrow> string_field ''default_value'' ms;
       Some \<lparr>up_name = name, up_description = description, up_category = category, up_purpose = purpose,
             up_owners = owners, up_is_permanent = permanent, up_expires_at = expires, up_default_value = default\<rparr>
     }"

definition patch_flag :: "flag_patch \<Rightarrow> feature_flag \<Rightarrow> feature_flag" where
  "patch_flag p f = f\<lparr>
     ff_name := (if up_name p \<noteq> [] then up_name p else ff_name f),
     ff_description := (if up_description p \<noteq> [] then up_description p else ff_description f),
     ff_category := (if up_category p \<noteq> [] then flag_category_of (up_category p) else ff_category f),
     ff_purpose := (if up_purpose p \<noteq> [] then up_purpose p else ff_purpose f),
     ff_owners := (case up_owners p of None \<Rightarrow> ff_owners f | Some os \<Rightarrow> os),
     ff_is_permanent := (case up_is_permanent p of None \<Rightarrow> ff_is_permanent f | Some b \<Rightarrow> b),
     ff_expires_at := (case up_expires_at p of None \<Rightarrow> ff_expires_at f | Some t \<Rightarrow> Some t),
     ff_default_value := (if up_default_value p \<noteq> [] then up_default_value p else ff_default_value f)\<rparr>"

definition update_flag_request :: "codec \<Rightarrow> caller \<Rightarrow> string \<Rightarrow> json option \<Rightarrow> nat request" where
  "update_flag_request cd c p body =
     path_id cd p (\<lambda>i.
     andThen (found_flag i) (\<lambda>f.
     bind_json decode_flag_patch body (\<lambda>patch.
       let f' = patch_flag patch f
       in andThen (or_status 422 (svc_update_flag f')) (\<lambda>_.
          andThen (audit_change c ''flag.updated'' (ff_id f) (Doc (flag_audit_value f)) (Doc (flag_audit_value f'))) (\<lambda>_.
          andThen (broadcast_event ''flag.updated'' i []) (\<lambda>_.
          andThen (flag_hook c ''flag.updated'' f' (user_of_caller c)) (\<lambda>_. ret 200)))))))"

definition archive_flag_request :: "codec \<Rightarrow> caller \<Rightarrow> string \<Rightarrow> nat request" where
  "archive_flag_request cd c p =
     path_id cd p (\<lambda>i.
     andThen (found_flag i) (\<lambda>f.
     andThen (or_status 422 (svc_archive_flag i)) (\<lambda>_.
     andThen (audit_change c ''flag.archived'' i NoText NoText) (\<lambda>_.
     andThen (broadcast_event ''flag.archived'' i []) (\<lambda>_.
     andThen (flag_hook c ''flag.archived'' f (user_of_caller c)) (\<lambda>_. ret 200))))))"

definition retention_window :: duration where
  "retention_window = 30 * seconds 86400"

text \<open>A time in whole seconds, the layout of \<open>time.RFC3339\<close>; the empty text when it is not set.\<close>

definition seconds_text :: "time option \<Rightarrow> json" where
  "seconds_text t = (case t of None \<Rightarrow> JStr [] | Some d \<Rightarrow> JStr (format_rfc3339 (d - d mod seconds 1)))"

text \<open>A second read finds what is audited; when it fails the date is left empty.\<close>

definition queue_deletion_request :: "codec \<Rightarrow> caller \<Rightarrow> string \<Rightarrow> nat request" where
  "queue_deletion_request cd c p =
     path_id cd p (\<lambda>i.
     andThen (found_flag i) (\<lambda>f.
       if \<not> ff_archived f then fail 409
       else andThen (or_status 422 (svc_queue_deletion i retention_window)) (\<lambda>_.
            andThen (attempt (svc_get_flag i) :: (request_world, nat, flag_error + feature_flag) prog) (\<lambda>g.
            andThen (audit_change c ''flag.queued_for_deletion'' i NoText (Doc (JObj [(''delete_after'',
                case g of Inl _ \<Rightarrow> JStr [] | Inr f' \<Rightarrow> seconds_text (ff_delete_after f'))]))) (\<lambda>_.
            andThen (broadcast_event ''flag.queued_for_deletion'' i []) (\<lambda>_. ret 200))))))"

definition cancel_deletion_request :: "codec \<Rightarrow> caller \<Rightarrow> string \<Rightarrow> nat request" where
  "cancel_deletion_request cd c p =
     path_id cd p (\<lambda>i.
     andThen (found_flag i) (\<lambda>f.
     andThen (or_status 500 (svc_clear_delete_after i)) (\<lambda>_.
     andThen (audit_change c ''flag.queued_for_deletion.cancelled'' i
       (Doc (JObj [(''delete_after'', seconds_text (ff_delete_after f))])) NoText) (\<lambda>_.
     andThen (broadcast_event ''flag.queued_for_deletion.cancelled'' i []) (\<lambda>_.
     andThen (attempt (svc_get_flag i) :: (request_world, nat, flag_error + feature_flag) prog) (\<lambda>_. ret 200))))))"

text \<open>The whole flag, as \<open>json.Marshal\<close> writes it: the members marked \<open>omitempty\<close> only when they are set.\<close>

definition int_json :: "int \<Rightarrow> json" where
  "int_json i = JNum (if i < 0 then CHR ''-'' # decimal (nat (- i)) else decimal (nat i))"

definition opt_member :: "string \<Rightarrow> ('a \<Rightarrow> json) \<Rightarrow> 'a option \<Rightarrow> (string \<times> json) list" where
  "opt_member name enc x = (case x of None \<Rightarrow> [] | Some v \<Rightarrow> [(name, enc v)])"

definition text_member :: "string \<Rightarrow> string \<Rightarrow> (string \<times> json) list" where
  "text_member name t = (if t = [] then [] else [(name, JStr t)])"

definition list_member :: "string \<Rightarrow> json list \<Rightarrow> (string \<times> json) list" where
  "list_member name xs = (if xs = [] then [] else [(name, JArr xs)])"

fun test_status_text :: "lifecycle_test_status \<Rightarrow> string" where
  "test_status_text LifecycleTestPending = ''pending''"
| "test_status_text LifecycleTestPass = ''pass''"
| "test_status_text LifecycleTestFail = ''fail''"
| "test_status_text (LifecycleTestText s) = s"

definition time_json :: "time \<Rightarrow> json" where
  "time_json t = JStr (format_rfc3339 t)"

definition flag_document :: "codec \<Rightarrow> feature_flag \<Rightarrow> json" where
  "flag_document cd f = (let ident = (\<lambda>i. JStr (cd_text cd i)) in JObj (
     [(''id'', ident (ff_id f)), (''project_id'', ident (ff_project_id f))] @
     opt_member ''application_id'' ident (ff_application_id f) @
     opt_member ''environment_id'' ident (ff_environment_id f) @
     [(''key'', JStr (ff_key f)), (''name'', JStr (ff_name f))] @
     text_member ''description'' (ff_description f) @
     [(''flag_type'', JStr (flag_type_text (ff_flag_type f))),
      (''category'', JStr (flag_category_text (ff_category f)))] @
     text_member ''purpose'' (ff_purpose f) @
     list_member ''owners'' (map JStr (ff_owners f)) @
     [(''is_permanent'', JBool (ff_is_permanent f))] @
     opt_member ''expires_at'' time_json (ff_expires_at f) @
     [(''enabled'', JBool (ff_enabled f)), (''default_value'', JStr (ff_default_value f)),
      (''archived'', JBool (ff_archived f))] @
     opt_member ''archived_at'' time_json (ff_archived_at f) @
     list_member ''tags'' (map JStr (ff_tags f)) @
     [(''created_by'', ident (ff_created_by f)), (''created_at'', time_json (ff_created_at f)),
      (''updated_at'', time_json (ff_updated_at f))] @
     opt_member ''delete_after'' time_json (ff_delete_after f) @
     opt_member ''smoke_test_status'' (\<lambda>t. JStr (test_status_text t)) (ff_smoke_test_status f) @
     opt_member ''user_test_status'' (\<lambda>t. JStr (test_status_text t)) (ff_user_test_status f) @
     opt_member ''scheduled_removal_at'' time_json (ff_scheduled_removal_at f) @
     [(''iteration_count'', int_json (ff_iteration_count f)), (''iteration_exhausted'', JBool (ff_iteration_exhausted f))] @
     opt_member ''last_smoke_test_notes'' JStr (ff_last_smoke_test_notes f) @
     opt_member ''last_user_test_notes'' JStr (ff_last_user_test_notes f)))"

text \<open>The query parameter \<open>force\<close> and the confirming header come first.\<close>

definition hard_delete_request :: "codec \<Rightarrow> caller \<Rightarrow> string \<Rightarrow> string \<Rightarrow> string \<Rightarrow> nat request" where
  "hard_delete_request cd c p force confirm =
     path_id cd p (\<lambda>i.
       if force \<noteq> ''true'' then fail 400
       else andThen (found_flag i) (\<lambda>f.
         if confirm \<noteq> ff_key f then fail 400
         else if \<not> ff_archived f then fail 409
         else andThen (wrapped (\<lambda>e. if says_not_found e then 409 else 500) (svc_hard_delete_flag i retention_window)) (\<lambda>_.
              andThen (audit_change c ''flag.hard_deleted'' i (Doc (flag_document cd f)) NoText) (\<lambda>_.
              andThen (broadcast_event ''flag.hard_deleted'' i []) (\<lambda>_. ret 200)))))"

definition restore_flag_request :: "codec \<Rightarrow> caller \<Rightarrow> string \<Rightarrow> nat request" where
  "restore_flag_request cd c p =
     path_id cd p (\<lambda>i.
     andThen (found_flag i) (\<lambda>f.
     andThen (or_status 422 (svc_restore_flag i)) (\<lambda>_.
     andThen (audit_change c ''flag.restored'' i
       (Doc (JObj [(''archived_at'', seconds_text (ff_archived_at f)),
                   (''delete_after'', seconds_text (ff_delete_after f))])) NoText) (\<lambda>_.
     andThen (broadcast_event ''flag.restored'' i []) (\<lambda>_.
     andThen (attempt (svc_get_flag i) :: (request_world, nat, flag_error + feature_flag) prog) (\<lambda>_. ret 200))))))"

text \<open>The old value of the audit entry is the negation of the new one.\<close>

definition enabled_doc :: "bool \<Rightarrow> json" where
  "enabled_doc b = JObj [(''enabled'', JBool b)]"

text \<open>
  What the handler audits: the old value is the opposite of the request, not the state the flag
  was in.
\<close>

definition toggled_old :: "bool \<Rightarrow> audit_text" where
  "toggled_old en = Doc (enabled_doc (\<not> en))"

definition toggled_new :: "bool \<Rightarrow> audit_text" where
  "toggled_new en = Doc (enabled_doc en)"

definition toggle_flag_request :: "codec \<Rightarrow> caller \<Rightarrow> string \<Rightarrow> json option \<Rightarrow> nat request" where
  "toggle_flag_request cd c p body =
     path_id cd p (\<lambda>i.
     bind_json decode_toggle body (\<lambda>en.
     andThen (found_flag i) (\<lambda>f.
     andThen (or_status 422 (toggle_flag i en)) (\<lambda>_.
     andThen (audit_change c ''flag.toggled'' i (toggled_old en) (toggled_new en)) (\<lambda>_.
     andThen (broadcast_event ''flag.toggled'' i []) (\<lambda>_.
     andThen (flag_hook c ''flag.toggled'' f (user_of_caller c)) (\<lambda>_. ret 200)))))))"

definition decode_bulk_toggle :: "codec \<Rightarrow> json \<Rightarrow> (uuid list \<times> bool) option" where
  "decode_bulk_toggle cd v =
     do {
       ms \<leftarrow> members_of v;
       ids \<leftarrow> decode_slice (\<lambda>x. if x = JNull then Some uuid_nil else as_uuid (cd_parse cd) x) ''flag_ids'' ms;
       enabled \<leftarrow> bool_field ''enabled'' ms;
       Some (ids, enabled)
     }"

fun broadcast_all :: "string \<Rightarrow> uuid list \<Rightarrow> unit request" where
  "broadcast_all event [] = ret ()"
| "broadcast_all event (i # is) = andThen (broadcast_event event i []) (\<lambda>_. broadcast_all event is)"

text \<open>A change of several flags at once is neither audited nor published.\<close>

definition bulk_toggle_request :: "codec \<Rightarrow> caller \<Rightarrow> json option \<Rightarrow> nat request" where
  "bulk_toggle_request cd c body =
     bind_json (decode_bulk_toggle cd) body (\<lambda>(ids, en).
       if ids = [] then fail 400
       else andThen (or_status 422 (bulk_toggle ids en)) (\<lambda>_.
            andThen (broadcast_all ''flag.bulk_toggled'' ids) (\<lambda>_. ret 200)))"

section \<open>Rules\<close>

record attach_request =
  ar_strategy_name :: string
  ar_strategy_id :: "uuid option"
  ar_overrides :: sent_overrides
  ar_release_id :: "uuid option"
  ar_apply_immediately :: bool

record rule_body =
  rb_rule_type :: string
  rb_priority :: int
  rb_value :: string
  rb_percentage :: "int option"
  rb_attribute :: string
  rb_operator :: string
  rb_target_values :: "string list"
  rb_segment_id :: "uuid option"
  rb_rollout :: "attach_request option"

text \<open>What the overrides decode to is decided by the attacher; here they are carried along.\<close>

definition decode_attach_request :: "(json \<Rightarrow> sent_overrides) \<Rightarrow> codec \<Rightarrow> json \<Rightarrow> attach_request option" where
  "decode_attach_request overrides cd v =
     do {
       ms \<leftarrow> members_of v;
       name \<leftarrow> string_field ''strategy_name'' ms;
       i \<leftarrow> decode_ptr (as_uuid (cd_parse cd)) ''strategy_id'' ms;
       release \<leftarrow> decode_ptr (as_uuid (cd_parse cd)) ''release_id'' ms;
       now \<leftarrow> bool_field ''apply_immediately'' ms;
       Some \<lparr>ar_strategy_name = name, ar_strategy_id = i,
             ar_overrides = (case raw_field ''overrides'' ms of None \<Rightarrow> NoOverrides | Some o' \<Rightarrow> overrides o'),
             ar_release_id = release, ar_apply_immediately = now\<rparr>
     }"

definition decode_rule_body :: "(json \<Rightarrow> sent_overrides) \<Rightarrow> codec \<Rightarrow> json \<Rightarrow> rule_body option" where
  "decode_rule_body overrides cd v =
     do {
       ms \<leftarrow> members_of v;
       ty \<leftarrow> string_field ''rule_type'' ms;
       priority \<leftarrow> decode_field as_int ''priority'' 0 ms;
       val \<leftarrow> string_field ''value'' ms;
       percentage \<leftarrow> decode_ptr as_int ''percentage'' ms;
       attribute \<leftarrow> string_field ''attribute'' ms;
       operator \<leftarrow> string_field ''operator'' ms;
       targets \<leftarrow> decode_slice as_string_item ''target_values'' ms;
       segment \<leftarrow> decode_ptr (as_uuid (cd_parse cd)) ''segment_id'' ms;
       rollout \<leftarrow> decode_ptr (decode_attach_request overrides cd) ''rollout'' ms;
       if ty = [] then None
       else Some \<lparr>rb_rule_type = ty, rb_priority = priority, rb_value = val, rb_percentage = percentage,
             rb_attribute = attribute, rb_operator = operator, rb_target_values = targets,
             rb_segment_id = segment, rb_rollout = rollout\<rparr>
     }"

definition rule_of_body :: "uuid \<Rightarrow> uuid \<Rightarrow> rule_body \<Rightarrow> targeting_rule" where
  "rule_of_body i flag b = \<lparr>tg_id = i, tg_flag_id = flag, tg_rule_type = rule_type_of (rb_rule_type b),
     tg_priority = rb_priority b, tg_value = rb_value b, tg_percentage = rb_percentage b,
     tg_attribute = rb_attribute b, tg_operator = rb_operator b, tg_target_values = rb_target_values b,
     tg_segment_id = rb_segment_id b, tg_conditions = [], tg_combine_op = [], tg_start_time = None,
     tg_end_time = None, tg_enabled = True, tg_created_at = 0, tg_updated_at = 0\<rparr>"

definition add_rule_request ::
  "(json \<Rightarrow> sent_overrides) \<Rightarrow> codec \<Rightarrow> caller \<Rightarrow> string \<Rightarrow> json option \<Rightarrow> nat request" where
  "add_rule_request overrides cd c p body =
     path_id cd p (\<lambda>flag.
     bind_json (decode_rule_body overrides cd) body (\<lambda>b.
       let r = rule_of_body uuid_nil flag b
       in andThen get_state (\<lambda>w.
          let i = fresh w (minted w)
          in andThen (or_status 422 (add_rule r)) (\<lambda>_.
             andThen (audit_change c ''flag.rule.created'' flag NoText (Doc (JObj
               [(''attribute'', JStr (tg_attribute r)), (''operator'', JStr (tg_operator r)),
                (''priority'', int_json (tg_priority r)), (''rule_id'', JStr (cd_text cd i)),
                (''target_values'', JArr (map JStr (tg_target_values r))), (''value'', JStr (tg_value r))]))) (\<lambda>_.
             andThen (broadcast_event ''rule.created'' flag []) (\<lambda>_. ret 201))))))"

text \<open>
  The adapter of \<open>cmd/api\<close>: the scope of a rollout is that of the flag, and the rollout is
  attached to the rule. It runs on the part of the state the rollouts have.
\<close>

definition on_attacher :: "'a rollout_prog \<Rightarrow> (request_world, rollout_error, 'a) prog" where
  "on_attacher m = (\<lambda>s. case m (rollout_world.truncate s) of
     (r, t) \<Rightarrow> (r, rollout_world.extend t (rollout_world.more s)))"

definition attach_from_rule_request ::
  "targeting_rule \<Rightarrow> int \<Rightarrow> attach_request \<Rightarrow> uuid \<Rightarrow> (request_world, rollout_error, unit) prog" where
  "attach_from_rule_request rule prev req actor =
     andThen (wrapped ErrFlag (svc_get_flag (tg_flag_id rule))) (\<lambda>f.
     andThen (attempt (ext_call ()) :: (request_world, rollout_error, unit + unit) prog) (\<lambda>g.
     andThen get_state (\<lambda>w.
       on_attacher (attacher_config (tg_id rule) prev
         \<lparr>ai_strategy_id = ar_strategy_id req, ai_strategy_name = ar_strategy_name req,
          ai_overrides = ar_overrides req, ai_release_id = ar_release_id req,
          ai_leaf = (case ff_application_id f of
              Some a \<Rightarrow> \<lparr>sc_type = ScopeApp, sc_id = a\<rparr>
            | None \<Rightarrow> \<lparr>sc_type = ScopeProject, sc_id = ff_project_id f\<rparr>),
          ai_project_id = Some (ff_project_id f),
          ai_org_id = (case g of Inl _ \<Rightarrow> None
            | Inr _ \<Rightarrow> map_option (\<lambda>(_, org, _). org) (find (\<lambda>(i, _, _). i = ff_project_id f) (projects w))),
          ai_environment = None\<rparr> actor))))"

fun already_active :: "rollout_error \<Rightarrow> bool" where
  "already_active ErrAlreadyActiveOnTarget = True"
| "already_active (RolloutWrap _ e) = already_active e"
| "already_active _ = False"

text \<open>
  The rule is written under the flag of the route. With a rollout that is not to be applied at
  once only the rollout is attached; nothing is audited either way.
\<close>

definition update_rule_request ::
  "(json \<Rightarrow> sent_overrides) \<Rightarrow> codec \<Rightarrow> caller \<Rightarrow> string \<Rightarrow> string \<Rightarrow> json option \<Rightarrow> nat request" where
  "update_rule_request overrides cd c p q body =
     path_id cd q (\<lambda>i.
     bind_json (decode_rule_body overrides cd) body (\<lambda>b.
     path_id cd p (\<lambda>flag.
       let r = rule_of_body i flag b
       in case rb_rollout b of
            Some req \<Rightarrow>
              if \<not> ar_apply_immediately req then
                andThen (attempt (svc_get_rule i) :: (request_world, nat, flag_error + targeting_rule) prog) (\<lambda>g.
                let prev = (case g of Inl _ \<Rightarrow> 0
                      | Inr old \<Rightarrow> (case tg_percentage old of None \<Rightarrow> 0 | Some n \<Rightarrow> n))
                in andThen (wrapped (\<lambda>e. if already_active e then 409 else 400)
                     (attach_from_rule_request r prev req (user_of_caller c))) (\<lambda>_. ret 202))
              else andThen (or_status 422 (svc_update_rule r)) (\<lambda>_.
                   andThen (broadcast_event ''rule.updated'' flag []) (\<lambda>_. ret 200))
          | None \<Rightarrow> andThen (or_status 422 (svc_update_rule r)) (\<lambda>_.
                   andThen (broadcast_event ''rule.updated'' flag []) (\<lambda>_. ret 200)))))"

fun rule_type_text :: "rule_type \<Rightarrow> string" where
  "rule_type_text RuleTypePercentage = ''percentage''"
| "rule_type_text RuleTypeUserTarget = ''user_target''"
| "rule_type_text RuleTypeAttribute = ''attribute''"
| "rule_type_text RuleTypeSegment = ''segment''"
| "rule_type_text RuleTypeSchedule = ''schedule''"
| "rule_type_text RuleTypeCompound = ''compound''"
| "rule_type_text (RuleTypeText s) = s"

definition condition_document :: "compound_condition \<Rightarrow> json" where
  "condition_document q = JObj [(''attribute'', JStr (cc_attribute q)), (''operator'', JStr (cc_operator q)),
     (''value'', JStr (cc_value q))]"

definition rule_document :: "codec \<Rightarrow> targeting_rule \<Rightarrow> json" where
  "rule_document cd r = (let ident = (\<lambda>i. JStr (cd_text cd i)) in JObj (
     [(''id'', ident (tg_id r)), (''flag_id'', ident (tg_flag_id r)),
      (''rule_type'', JStr (rule_type_text (tg_rule_type r))), (''priority'', int_json (tg_priority r)),
      (''value'', JStr (tg_value r))] @
     opt_member ''percentage'' int_json (tg_percentage r) @
     text_member ''attribute'' (tg_attribute r) @ text_member ''operator'' (tg_operator r) @
     list_member ''target_values'' (map JStr (tg_target_values r)) @
     opt_member ''segment_id'' ident (tg_segment_id r) @
     list_member ''conditions'' (map condition_document (tg_conditions r)) @
     text_member ''combine_op'' (tg_combine_op r) @
     opt_member ''start_time'' time_json (tg_start_time r) @ opt_member ''end_time'' time_json (tg_end_time r) @
     [(''enabled'', JBool (tg_enabled r)), (''created_at'', time_json (tg_created_at r)),
      (''updated_at'', time_json (tg_updated_at r))]))"

definition delete_rule_request :: "codec \<Rightarrow> caller \<Rightarrow> string \<Rightarrow> string \<Rightarrow> nat request" where
  "delete_rule_request cd c p q =
     path_id cd q (\<lambda>i.
     path_id cd p (\<lambda>flag.
     andThen (attempt (svc_get_rule i) :: (request_world, nat, flag_error + targeting_rule) prog) (\<lambda>g.
     andThen (or_status 422 (svc_delete_rule i)) (\<lambda>_.
     andThen (audit_change c ''flag.rule.deleted'' flag
       (Doc (case g of Inl _ \<Rightarrow> JObj [(''rule_id'', JStr (cd_text cd i))] | Inr r \<Rightarrow> rule_document cd r)) NoText) (\<lambda>_.
     andThen (broadcast_event ''rule.deleted'' flag []) (\<lambda>_. ret 204))))))"

section \<open>States per environment\<close>

definition rule_state_doc :: "codec \<Rightarrow> uuid \<Rightarrow> uuid \<Rightarrow> bool \<Rightarrow> json" where
  "rule_state_doc cd i envi en = JObj [(''enabled'', JBool en), (''environment_id'', JStr (cd_text cd envi)),
     (''rule_id'', JStr (cd_text cd i))]"

text \<open>The flag of the route is only looked at for the prior state, the audit entry and the event.\<close>

definition set_rule_state_request :: "codec \<Rightarrow> caller \<Rightarrow> string \<Rightarrow> string \<Rightarrow> string \<Rightarrow> json option \<Rightarrow> nat request" where
  "set_rule_state_request cd c p q e body =
     path_id cd q (\<lambda>i.
     path_id cd e (\<lambda>envi.
     bind_json decode_toggle body (\<lambda>en.
       let flag = (case cd_parse cd p of None \<Rightarrow> uuid_nil | Some f \<Rightarrow> f)
       in andThen (attempt (list_rule_environment_states flag)
            :: (request_world, nat, flag_error + rule_environment_state list) prog) (\<lambda>g.
          let old = (case g of Inl _ \<Rightarrow> NoText
                | Inr states \<Rightarrow> (case find (\<lambda>st. rs_rule_id st = i \<and> rs_environment_id st = envi) states of
                    None \<Rightarrow> NoText | Some st \<Rightarrow> Doc (rule_state_doc cd i envi (rs_enabled st))))
          in andThen (or_status 500 (svc_set_rule_state i envi en)) (\<lambda>_.
             andThen (audit_change c ''flag.rule.env_state.updated'' flag old (Doc (rule_state_doc cd i envi en))) (\<lambda>_.
             andThen (broadcast_event ''rule.updated'' flag []) (\<lambda>_. ret 200)))))))"

definition decode_state_body :: "codec \<Rightarrow> json \<Rightarrow> (bool \<times> string option) option" where
  "decode_state_body cd v =
     do {
       ms \<leftarrow> members_of v;
       enabled \<leftarrow> bool_field ''enabled'' ms;
       val \<leftarrow> decode_ptr (\<lambda>v. Some (cd_raw cd v)) ''value'' ms;
       Some (enabled, val)
     }"

definition env_state_doc :: "codec \<Rightarrow> uuid \<Rightarrow> bool \<Rightarrow> string option \<Rightarrow> json" where
  "env_state_doc cd envi en val = JObj [(''enabled'', JBool en), (''environment_id'', JStr (cd_text cd envi)),
     (''value'', case val of None \<Rightarrow> JNull | Some t \<Rightarrow> cd_doc cd t)]"

definition set_flag_state_request :: "codec \<Rightarrow> caller \<Rightarrow> string \<Rightarrow> string \<Rightarrow> json option \<Rightarrow> nat request" where
  "set_flag_state_request cd c p e body =
     path_id cd p (\<lambda>flag.
     path_id cd e (\<lambda>envi.
     bind_json (decode_state_body cd) body (\<lambda>(en, val).
     andThen (attempt (list_flag_env_states flag)
        :: (request_world, nat, flag_error + flag_environment_state list) prog) (\<lambda>g.
       let old = (case g of Inl _ \<Rightarrow> NoText
             | Inr states \<Rightarrow> (case find (\<lambda>st. fs_environment_id st = envi) states of
                 None \<Rightarrow> NoText | Some st \<Rightarrow> Doc (env_state_doc cd envi (fs_enabled st) (fs_value st))))
       in andThen (or_status 422 (set_flag_env_state \<lparr>fs_id = uuid_nil, fs_flag_id = flag, fs_environment_id = envi,
                     fs_enabled = en, fs_value = val, fs_updated_by = cl_user c, fs_updated_at = 0\<rparr>)) (\<lambda>_.
          andThen (audit_change c ''flag.env_state.updated'' flag old (Doc (env_state_doc cd envi en val))) (\<lambda>_.
          andThen (broadcast_event ''flag.updated'' flag []) (\<lambda>_. ret 200)))))))"

section \<open>Life cycle\<close>

definition resolve_flag_ref :: "codec \<Rightarrow> caller \<Rightarrow> string \<Rightarrow> feature_flag request" where
  "resolve_flag_ref cd c p =
     (if p = [] then fail 400
      else case cd_parse cd p of
        Some i \<Rightarrow> found_flag i
      | None \<Rightarrow>
          (case cl_project c of
             None \<Rightarrow> fail 400
           | Some project \<Rightarrow> or_status 404 (get_flag_by_project_key project p)))"

text \<open>A status, the notes and a third text the event carries; the status must not be empty.\<close>

definition decode_result :: "string \<Rightarrow> json \<Rightarrow> (string \<times> string) option" where
  "decode_result extra v =
     do {
       ms \<leftarrow> members_of v;
       status \<leftarrow> string_field ''status'' ms;
       notes \<leftarrow> string_field ''notes'' ms;
       _ \<leftarrow> string_field extra ms;
       if status = [] then None else Some (status, notes)
     }"

text \<open>The new value of the audit entry is the bare status, which is no document.\<close>

definition smoke_test_request :: "codec \<Rightarrow> caller \<Rightarrow> string \<Rightarrow> json option \<Rightarrow> nat request" where
  "smoke_test_request cd c p body =
     andThen (resolve_flag_ref cd c p) (\<lambda>f.
     bind_json (decode_result ''test_run_url'') body (\<lambda>(status, notes).
       if \<not> status_known (test_status_of status) then fail 400
       else andThen (or_status 422 (record_smoke_test_result (ff_id f) (test_status_of status) notes)) (\<lambda>f'.
            andThen (audit_change c ''flag.smoke_test.recorded'' (ff_id f) NoText (NotJson status)) (\<lambda>_.
            andThen (broadcast_event ''flag.smoke_test.recorded'' (ff_id f) (ff_key f)) (\<lambda>_.
            andThen (publish_lifecycle_event c
              (if test_status_of status = LifecycleTestFail then ''flag.smoke_test.failed'' else ''flag.smoke_test.passed'') f') (\<lambda>_.
              ret 200))))))"

definition user_test_request :: "codec \<Rightarrow> caller \<Rightarrow> string \<Rightarrow> json option \<Rightarrow> nat request" where
  "user_test_request cd c p body =
     andThen (resolve_flag_ref cd c p) (\<lambda>f.
     bind_json (decode_result ''userId'') body (\<lambda>(status, notes).
       if \<not> status_known (test_status_of status) then fail 400
       else if test_status_of status = LifecycleTestFail \<and> notes = [] then fail 400
       else andThen (or_status 422 (record_user_test_result (ff_id f) (test_status_of status) notes)) (\<lambda>f'.
            andThen (audit_change c ''flag.user_test.recorded'' (ff_id f) NoText (NotJson status)) (\<lambda>_.
            andThen (broadcast_event ''flag.user_test.recorded'' (ff_id f) (ff_key f)) (\<lambda>_.
            andThen (publish_lifecycle_event c
              (if test_status_of status = LifecycleTestFail then ''flag.user_test.failed'' else ''flag.user_test.passed'') f') (\<lambda>_.
              ret 200))))))"

definition decode_days :: "json \<Rightarrow> int option" where
  "decode_days v =
     do { ms \<leftarrow> members_of v; n \<leftarrow> decode_field as_int ''days'' 0 ms; if n = 0 then None else Some n }"

definition schedule_removal_request :: "codec \<Rightarrow> caller \<Rightarrow> string \<Rightarrow> json option \<Rightarrow> nat request" where
  "schedule_removal_request cd c p body =
     andThen (resolve_flag_ref cd c p) (\<lambda>f.
     bind_json decode_days body (\<lambda>n.
       if n \<le> 0 then fail 400
       else andThen (or_status 422 (schedule_removal (ff_id f) n)) (\<lambda>f'.
            andThen (audit_change c ''flag.scheduled_for_removal.set'' (ff_id f) NoText NoText) (\<lambda>_.
            andThen (publish_lifecycle_event c ''flag.scheduled_for_removal.set'' f') (\<lambda>_. ret 200)))))"

definition cancel_removal_request :: "codec \<Rightarrow> caller \<Rightarrow> string \<Rightarrow> nat request" where
  "cancel_removal_request cd c p =
     andThen (resolve_flag_ref cd c p) (\<lambda>f.
     andThen (or_status 422 (cancel_scheduled_removal (ff_id f))) (\<lambda>f'.
     andThen (audit_change c ''flag.scheduled_for_removal.cancelled'' (ff_id f) NoText NoText) (\<lambda>_.
     andThen (publish_lifecycle_event c ''flag.scheduled_for_removal.cancelled'' f') (\<lambda>_. ret 200))))"

definition mark_exhausted_request :: "codec \<Rightarrow> caller \<Rightarrow> string \<Rightarrow> nat request" where
  "mark_exhausted_request cd c p =
     andThen (resolve_flag_ref cd c p) (\<lambda>f.
     andThen (or_status 422 (mark_iteration_exhausted (ff_id f))) (\<lambda>f'.
     andThen (audit_change c ''flag.iteration_exhausted'' (ff_id f) NoText NoText) (\<lambda>_.
     andThen (publish_lifecycle_event c ''flag.iteration_exhausted'' f') (\<lambda>_. ret 200))))"

section \<open>Reading with pending changes\<close>

definition on_staged :: "'a staging_prog \<Rightarrow> (request_world, staging_error, 'a) prog" where
  "on_staged m = (\<lambda>s. case m (staging_world.truncate s) of
     (r, t) \<Rightarrow> (r, staging_world.extend t (staging_world.more s)))"

text \<open>A row and its mark; the functions of the overlay work on the row.\<close>

definition on_row :: "'a apply_func \<Rightarrow> ('a \<times> marker option) apply_func" where
  "on_row apply p s = (case apply (fst p) s of (q, gone) \<Rightarrow> ((q, snd p), gone))"

definition asks_staged :: "caller \<Rightarrow> string \<Rightarrow> (uuid \<times> uuid) option" where
  "asks_staged c include =
     (case cl_org c of
        None \<Rightarrow> None
      | Some org \<Rightarrow> if include = ''true'' \<and> org \<noteq> uuid_nil \<and> actor_user_id c \<noteq> uuid_nil
                    then Some (actor_user_id c, org) else None)"

text \<open>A list of rules; when the pending changes cannot be read it is the stored one.\<close>

definition list_rules_request ::
  "codec \<Rightarrow> caller \<Rightarrow> string \<Rightarrow> string \<Rightarrow> (targeting_rule \<times> marker option) list request" where
  "list_rules_request cd c p include =
     path_id cd p (\<lambda>flag.
     andThen (or_status 500 (list_rules flag)) (\<lambda>rs.
       let plain = map (\<lambda>r. (r, None)) rs
       in case asks_staged c include of
            None \<Rightarrow> ret plain
          | Some (user, org) \<Rightarrow>
              andThen (attempt (on_staged (list_for_resource user org ''flag_rule''))
                :: (request_world, nat, staging_error + staged_change list) prog) (\<lambda>g.
                case g of
                  Inl _ \<Rightarrow> ret plain
                | Inr staged \<Rightarrow> ret (overlay_list_marked (\<lambda>p. tg_id (fst p)) (on_row (rule_apply (cd_parse cd)))
                    (\<lambda>s. map_option (\<lambda>r. (r, None)) (rule_synth (cd_parse cd) flag s))
                    (Some (\<lambda>m p. (fst p, Some m))) plain staged))))"

definition unquote_json :: "codec \<Rightarrow> string \<Rightarrow> string" where
  "unquote_json cd raw = (case cd_doc cd raw of JStr s \<Rightarrow> s | JNull \<Rightarrow> [] | _ \<Rightarrow> raw)"

definition in_environment :: "codec \<Rightarrow> uuid \<Rightarrow> flag_environment_state list \<Rightarrow> feature_flag \<Rightarrow> feature_flag" where
  "in_environment cd envi states f =
     (case find (\<lambda>st. fs_environment_id st = envi) states of
        None \<Rightarrow> f
      | Some st \<Rightarrow> f\<lparr>ff_enabled := fs_enabled st,
          ff_default_value := (case fs_value st of None \<Rightarrow> ff_default_value f | Some v \<Rightarrow> unquote_json cd v)\<rparr>)"

text \<open>
  A provisional identifier finds the pending creation of the caller. Otherwise the flag is shown
  with its state in the environment asked for; \<open>envs\<close> resolves the slug of an environment. Names
  and ratings are left out.
\<close>

definition get_flag_request ::
  "(uuid \<Rightarrow> string \<Rightarrow> uuid option) \<Rightarrow> codec \<Rightarrow> caller \<Rightarrow> string \<Rightarrow> string \<Rightarrow> string \<Rightarrow>
   (feature_flag \<times> marker option) request" where
  "get_flag_request envs cd c p include environment =
     path_id cd p (\<lambda>i.
       if is_provisional i then
         (case asks_staged c include of
            None \<Rightarrow> fail 404
          | Some (user, org) \<Rightarrow>
              andThen (wrapped (\<lambda>_. 404) (on_staged (get_provisional_create user org ''flag'' i))) (\<lambda>row.
                case row of
                  None \<Rightarrow> fail 404
                | Some s \<Rightarrow> (case new_value_as (decode_flag (cd_parse cd)) s of
                    None \<Rightarrow> fail 500
                  | Some f \<Rightarrow> ret (f\<lparr>ff_id := i\<rparr>, Some \<lparr>mk_provisional_id = sc_provisional_id s,
                      mk_action = ''create'', mk_staged_at = sc_created_at s\<rparr>))))
       else andThen (found_flag i) (\<lambda>f.
         case (case cd_parse cd environment of
                 Some e \<Rightarrow> Some e
               | None \<Rightarrow> Option.bind (cl_org c) (\<lambda>org. envs org environment)) of
           Some e \<Rightarrow>
             if environment = [] then ret (f, None)
             else andThen (attempt (list_flag_env_states (ff_id f))
                    :: (request_world, nat, flag_error + flag_environment_state list) prog) (\<lambda>g.
                  case g of Inl _ \<Rightarrow> ret (f, None) | Inr states \<Rightarrow> ret (in_environment cd e states f, None))
         | None \<Rightarrow> ret (f, None)))"

section \<open>All requests\<close>

datatype flag_request =
    ReqCreate "json option"
  | ReqUpdate string "json option"
  | ReqArchive string
  | ReqQueueDeletion string
  | ReqCancelDeletion string
  | ReqHardDelete string string string
  | ReqRestore string
  | ReqToggle string "json option"
  | ReqBulkToggle "json option"
  | ReqAddRule string "json option"
  | ReqUpdateRule string string "json option"
  | ReqDeleteRule string string
  | ReqRuleState string string string "json option"
  | ReqFlagState string string "json option"
  | ReqSmokeTest string "json option"
  | ReqUserTest string "json option"
  | ReqScheduleRemoval string "json option"
  | ReqCancelRemoval string
  | ReqExhausted string

fun serve :: "(json \<Rightarrow> sent_overrides) \<Rightarrow> codec \<Rightarrow> caller \<Rightarrow> flag_request \<Rightarrow> nat request" where
  "serve ov cd c (ReqCreate b) = create_flag_request cd c b"
| "serve ov cd c (ReqUpdate p b) = update_flag_request cd c p b"
| "serve ov cd c (ReqArchive p) = archive_flag_request cd c p"
| "serve ov cd c (ReqQueueDeletion p) = queue_deletion_request cd c p"
| "serve ov cd c (ReqCancelDeletion p) = cancel_deletion_request cd c p"
| "serve ov cd c (ReqHardDelete p f k) = hard_delete_request cd c p f k"
| "serve ov cd c (ReqRestore p) = restore_flag_request cd c p"
| "serve ov cd c (ReqToggle p b) = toggle_flag_request cd c p b"
| "serve ov cd c (ReqBulkToggle b) = bulk_toggle_request cd c b"
| "serve ov cd c (ReqAddRule p b) = add_rule_request ov cd c p b"
| "serve ov cd c (ReqUpdateRule p q b) = update_rule_request ov cd c p q b"
| "serve ov cd c (ReqDeleteRule p q) = delete_rule_request cd c p q"
| "serve ov cd c (ReqRuleState p q e b) = set_rule_state_request cd c p q e b"
| "serve ov cd c (ReqFlagState p e b) = set_flag_state_request cd c p e b"
| "serve ov cd c (ReqSmokeTest p b) = smoke_test_request cd c p b"
| "serve ov cd c (ReqUserTest p b) = user_test_request cd c p b"
| "serve ov cd c (ReqScheduleRemoval p b) = schedule_removal_request cd c p b"
| "serve ov cd c (ReqCancelRemoval p) = cancel_removal_request cd c p"
| "serve ov cd c (ReqExhausted p) = mark_exhausted_request cd c p"

end
