(* ===== verification/FlagRequestLaws.thy ===== *)
theory FlagRequestLaws
  imports FlagRequests FlagFrame
begin

text \<open>
  What the requests of the flag API do, whoever sends them: what they leave in the audit log and
  in the channels of the clients, who may change which flag, and what becomes of the flags.
\<close>

section \<open>The audit log and the channels\<close>

text \<open>No client has more than 64 events waiting.\<close>

definition streams_bounded :: "request_world \<Rightarrow> bool" where
  "streams_bounded w = list_all (\<lambda>b. length b \<le> 64) (streams w)"

definition request_step :: "request_world \<Rightarrow> request_world \<Rightarrow> bool" where
  "request_step s t \<longleftrightarrow> audit_refs t = audit_refs s \<and>
     (known_project (audit_refs s) uuid_nil \<or> audit_log t = audit_log s) \<and>
     (streams_bounded s \<longrightarrow> streams_bounded t) \<and> (no_applications s \<longrightarrow> no_applications t)"

interpretation steps: frame request_step
  by unfold_locales (auto simp: request_step_def)

lemma steps_write: "keeps flag_write m \<Longrightarrow> keeps request_step (m :: (request_world, 'e, 'a) prog)"
proof (erule keeps_weaken)
  show "flag_write s t \<Longrightarrow> request_step s t" for s t :: request_world
    by (auto simp: flag_write_def request_step_def streams_bounded_def) (cases s; cases t; simp)+
qed

lemma steps_env:
  "keeps request_step (ext_call e)" "keeps request_step time_now" "keeps request_step uuid_new"
  by (auto simp: keeps_def prog_defs request_step_def streams_bounded_def no_applications_def)

lemma push_bounded: "length b \<le> 64 \<Longrightarrow> length (push_event m b) \<le> 64"
  by (simp add: push_event_def)

lemma steps_broadcast: "keeps request_step (broadcast_event e i k)"
  by (auto simp: keeps_def broadcast_event_def prog_defs request_step_def streams_bounded_def list_all_iff push_bounded
      no_applications_def)

lemma steps_broadcast_all: "keeps request_step (broadcast_all e is)"
  by (induction "is") (auto intro!: steps.keeps_rules steps_broadcast)

lemma steps_webhook: "keeps request_step (publish_webhook e org p u)"
proof -
  have "keeps request_step (modify (\<lambda>w. w\<lparr>webhook_notes := f w\<rparr>))" for f
    by (simp add: keeps_def prog_defs request_step_def streams_bounded_def no_applications_def)
  then show ?thesis unfolding publish_webhook_def by (intro steps.keeps_rules steps_env)
qed

text \<open>The entry names the nil project, so the row is refused unless such a project exists.\<close>

lemma steps_log:
  "ae_project_id a = uuid_nil \<Longrightarrow> keeps request_step (write_audit_log e a)"
  by (auto simp: keeps_def write_audit_log_def prog_defs request_step_def streams_bounded_def audit_row_ok_def
      no_applications_def)

lemma steps_audit: "keeps request_step (audit_change c action i old new)"
  unfolding audit_change_def by (intro steps.keeps_rules steps_env steps_log) (simp add: audit_row_def)

lemma steps_after:
  "keeps request_step (flag_hook c e f u)" "keeps request_step (publish_lifecycle_event c e f)"
  unfolding flag_hook_def publish_lifecycle_event_def by (rule steps_webhook)+

lemma log_attach: "keeps log_kept (attacher_config rule prev n actor)"
proof -
  have rollouts: "keeps log_kept (modify (\<lambda>w. w\<lparr>rollouts := f w\<rparr>))"
    "keeps log_kept (modify (\<lambda>w. w\<lparr>rollout_events := g w\<rparr>))" "keeps log_kept (modify (\<lambda>w. w\<lparr>bus := h w\<rparr>))" for f g h
    by (simp_all add: keeps_def prog_defs log_kept_def)
  have named: "keeps log_kept (nearest_named name as)" for name as
    by (induction "as") (auto simp: strategy_get_by_name_def intro!: log.keeps_rules log_prims)
  have rows: "keeps log_kept (gather default_list as)" "keeps log_kept (gather policy_list as)" for as
    by (induction "as") (auto simp: default_list_def policy_list_def intro!: log.keeps_rules log_prims)
  show ?thesis
    unfolding attacher_config_def attach_with_def resolve_template_def default_template_def enforce_policy_def
      svc_resolve_default_def svc_resolve_policy_def svc_attach_config_def create_and_announce_def emit_event_def
      publish_rollout_def rollout_create_def insert_event_def get_active_by_rule_def active_on_def strategy_get_def ignored_def
    by (intro log.keeps_rules log_prims rollouts named rows
      | (auto split: sent_overrides.split option.split sum.split intro!: log.keeps_rules log_prims rollouts named rows)[1])+
qed

lemma steps_on_attacher:
  assumes "keeps log_kept m" shows "keeps request_step (on_attacher m)"
  unfolding keeps_def
proof
  fix s :: request_world
  obtain r t where run: "m (rollout_world.truncate s) = (r, t)" by (cases "m (rollout_world.truncate s)")
  have "snd (on_attacher m s) = rollout_world.extend t (rollout_world.more s)"
    by (simp add: on_attacher_def run)
  with keepsD[OF assms run] show "request_step s (snd (on_attacher m s))"
    by (cases s; cases t)
      (simp add: log_kept_def request_step_def streams_bounded_def no_applications_def rollout_world.defs)
qed

lemma steps_path: "(\<And>i. keeps request_step (k i)) \<Longrightarrow> keeps request_step (path_id cd p k)"
  unfolding path_id_def by (intro steps.keeps_rules)

lemma steps_bind: "(\<And>v. keeps request_step (k v)) \<Longrightarrow> keeps request_step (bind_json dec b k)"
  unfolding bind_json_def by (intro steps.keeps_rules)

lemma steps_flag_write:
  "keeps request_step (svc_get_flag i :: (request_world, flag_error, feature_flag) prog)"
  "keeps request_step (found_flag i)"
  unfolding found_flag_def by (intro steps.keeps_rules steps_write flag_service_writes)+

lemmas steps_rules = steps.keeps_rules steps_env steps_path steps_bind steps_flag_write steps_audit steps_broadcast
  steps_broadcast_all steps_after

lemma steps_flags: "keeps request_step (or_status code (m :: (request_world, flag_error, 'a) prog))"
  if "keeps flag_write m"
  by (intro steps.keeps_wrapped steps_write that)

lemma steps_attempted: "keeps request_step (attempt (m :: (request_world, flag_error, 'a) prog))"
  if "keeps flag_write m"
  by (intro steps.keeps_attempt steps_write that)

lemma steps_project: "keeps request_step (resolve_project_id cd c v)"
  unfolding resolve_project_id_def by (intro steps_rules | (auto split: prod.split intro!: steps_rules)[1])+

lemma steps_flag_ref: "keeps request_step (resolve_flag_ref cd c p)"
  unfolding resolve_flag_ref_def by (intro steps_rules steps_flags flag_write_repository)

lemma steps_flag_requests:
  "keeps request_step (create_flag_request cd c b)" "keeps request_step (update_flag_request cd c p b)"
  "keeps request_step (archive_flag_request cd c p)" "keeps request_step (queue_deletion_request cd c p)"
  "keeps request_step (cancel_deletion_request cd c p)" "keeps request_step (hard_delete_request cd c p f k)"
  "keeps request_step (restore_flag_request cd c p)" "keeps request_step (toggle_flag_request cd c p b)"
  "keeps request_step (bulk_toggle_request cd c b)"
  unfolding create_flag_request_def update_flag_request_def archive_flag_request_def queue_deletion_request_def
    cancel_deletion_request_def hard_delete_request_def restore_flag_request_def toggle_flag_request_def
    bulk_toggle_request_def case_prod_beta
  by (intro steps_rules steps_project steps_write flag_service_writes)+

lemma steps_attach: "keeps request_step (attach_from_rule_request r prev req actor)"
  unfolding attach_from_rule_request_def
  by (intro steps_rules steps_write flag_service_writes steps_on_attacher log_attach)

lemma steps_rule_requests:
  "keeps request_step (add_rule_request ov cd c p b)" "keeps request_step (update_rule_request ov cd c p q b)"
  "keeps request_step (delete_rule_request cd c p q)" "keeps request_step (set_rule_state_request cd c p q e b)"
  "keeps request_step (set_flag_state_request cd c p e b)"
  unfolding add_rule_request_def update_rule_request_def delete_rule_request_def set_rule_state_request_def
    set_flag_state_request_def case_prod_beta
  by (intro steps_rules steps_write steps_attach flag_service_writes flag_write_repository)+

lemma steps_lifecycle_requests:
  "keeps request_step (smoke_test_request cd c p b)" "keeps request_step (user_test_request cd c p b)"
  "keeps request_step (schedule_removal_request cd c p b)" "keeps request_step (cancel_removal_request cd c p)"
  "keeps request_step (mark_exhausted_request cd c p)"
  unfolding smoke_test_request_def user_test_request_def schedule_removal_request_def cancel_removal_request_def
    mark_exhausted_request_def case_prod_beta
  by (intro steps_rules steps_flag_ref steps_write flag_service_writes)+

lemma steps_serve: "keeps request_step (serve ov cd c r)"
  by (cases r) (simp_all add: steps_flag_requests steps_rule_requests steps_lifecycle_requests)

text \<open>A history of requests by any callers.\<close>

definition serve_all :: "(json \<Rightarrow> sent_overrides) \<Rightarrow> codec \<Rightarrow> (caller \<times> flag_request) list \<Rightarrow> request_world \<Rightarrow> request_world" where
  "serve_all ov cd rs w = fold (\<lambda>(c, r) w. snd (serve ov cd c r w)) rs w"

lemma steps_serve_all: "request_step w (serve_all ov cd rs w)"
  unfolding serve_all_def
proof (induction rs arbitrary: w)
  case (Cons cr rs)
  have "request_step w (snd (serve ov cd (fst cr) (snd cr) w))"
    using steps_serve by (simp add: keeps_def)
  with Cons show ?case by (auto simp: case_prod_beta intro: steps.R_trans)
qed (simp add: steps.R_refl)

text \<open>
  C13. Unless there is a project with the nil identifier, no request of the flag API, whoever sends
  it and whatever it changes, is ever written to the audit log; and no client of the event
  stream ever has more than 64 events waiting.
\<close>

theorem requests_never_audited:
  assumes "\<not> known_project (audit_refs w) uuid_nil" and "streams_bounded w"
  shows "audit_log (serve_all ov cd rs w) = audit_log w \<and> streams_bounded (serve_all ov cd rs w)"
  using steps_serve_all assms unfolding request_step_def by blast

section \<open>Whose flags\<close>

text \<open>The tables of the flags, without the user a state of a flag names.\<close>

definition flag_tables where
  "flag_tables w = (feature_flags w, targeting_rules w, rule_states w,
     map (\<lambda>st. st\<lparr>fs_updated_by := None\<rparr>) (flag_states w))"

definition same_tables_after :: "'a request \<Rightarrow> 'a request \<Rightarrow> bool" where
  "same_tables_after m m' \<longleftrightarrow> (\<forall>s. fst (m s) = fst (m' s) \<and> flag_tables (snd (m s)) = flag_tables (snd (m' s)))"

text \<open>\<open>ends_with x m\<close>: \<open>m\<close> always answers \<open>x\<close> and leaves the tables alone.\<close>

definition ends_with :: "'a \<Rightarrow> 'a request \<Rightarrow> bool" where
  "ends_with x m \<longleftrightarrow> (\<forall>s. fst (m s) = Inr x \<and> flag_tables (snd (m s)) = flag_tables s)"

lemma ends_ret: "ends_with x (ret x)"
  by (simp add: ends_with_def ret_def)

lemma ends_andThen: "ends_with () m \<Longrightarrow> ends_with x (k ()) \<Longrightarrow> ends_with x (andThen m k)"
  by (auto simp: ends_with_def andThen_def split: prod.split sum.split) (metis fst_conv snd_conv Inr_not_Inl)+

lemma ends_attempt:
  fixes m :: "(request_world, flag_error, 'b) prog"
  assumes "\<And>s. flag_tables (snd (m s)) = flag_tables s" and "\<And>r. ends_with x (k r)"
  shows "ends_with x (andThen (attempt m) k)"
  using assms by (auto simp: ends_with_def andThen_def attempt_def split: prod.splits) (metis snd_conv)+

lemma ends_after:
  "ends_with () (audit_change c a i o' n)" "ends_with () (broadcast_event e i k)" "ends_with () (publish_webhook e g p u)"
  "ends_with () (flag_hook c e f v)" "ends_with () (publish_lifecycle_event c e f)"
  by (auto simp: ends_with_def audit_change_def broadcast_event_def publish_webhook_def flag_hook_def
      publish_lifecycle_event_def write_audit_log_def prog_defs flag_tables_def)

lemmas ends_rules = ends_ret ends_andThen ends_after

lemma blind_refl: "same_tables_after m m"
  by (simp add: same_tables_after_def)

lemma blind_ends: "ends_with x m \<Longrightarrow> ends_with x m' \<Longrightarrow> same_tables_after m m'"
  by (simp add: same_tables_after_def ends_with_def)

lemma blind_andThen: "(\<And>x. same_tables_after (k x) (k' x)) \<Longrightarrow> same_tables_after (andThen m k) (andThen m k')"
  by (auto simp: same_tables_after_def andThen_def split: prod.splits sum.splits)

lemma blind_path: "(\<And>i. same_tables_after (k i) (k' i)) \<Longrightarrow> same_tables_after (path_id cd p k) (path_id cd p k')"
  by (cases "cd_parse cd p") (simp_all add: path_id_def blind_refl)

lemma blind_bind: "(\<And>i. same_tables_after (k i) (k' i)) \<Longrightarrow> same_tables_after (bind_json dec b k) (bind_json dec b k')"
  by (cases "Option.bind b dec") (simp_all add: bind_json_def blind_refl)

lemma blind_if: "same_tables_after m m' \<Longrightarrow> same_tables_after n n' \<Longrightarrow>
    same_tables_after (if b then m else n) (if b then m' else n')"
  by simp

lemma blind_let: "(\<And>x. same_tables_after (k x) (k' x)) \<Longrightarrow> same_tables_after (let x = e in k x) (let x = e in k' x)"
  by simp

lemmas blind_rules = blind_path blind_bind blind_if blind_let blind_refl

lemma get_flag_tables: "flag_tables (snd (svc_get_flag i s)) = flag_tables s"
  by (auto simp: svc_get_flag_def get_flag_def prog_defs flag_tables_def split: option.split)

lemma blind_flag_requests:
  "same_tables_after (update_flag_request cd c p b) (update_flag_request cd c' p b)"
  "same_tables_after (archive_flag_request cd c p) (archive_flag_request cd c' p)"
  "same_tables_after (queue_deletion_request cd c p) (queue_deletion_request cd c' p)"
  "same_tables_after (cancel_deletion_request cd c p) (cancel_deletion_request cd c' p)"
  "same_tables_after (hard_delete_request cd c p f k) (hard_delete_request cd c' p f k)"
  "same_tables_after (restore_flag_request cd c p) (restore_flag_request cd c' p)"
  "same_tables_after (toggle_flag_request cd c p b) (toggle_flag_request cd c' p b)"
  "same_tables_after (bulk_toggle_request cd c b) (bulk_toggle_request cd c' b)"
  unfolding update_flag_request_def archive_flag_request_def queue_deletion_request_def
    cancel_deletion_request_def hard_delete_request_def restore_flag_request_def toggle_flag_request_def
    bulk_toggle_request_def
  by (intro blind_rules blind_andThen blind_ends[where x = 200] ends_rules ends_attempt get_flag_tables)+

lemma blind_rule_requests:
  "same_tables_after (add_rule_request ov cd c p b) (add_rule_request ov cd c' p b)"
  "same_tables_after (delete_rule_request cd c p q) (delete_rule_request cd c' p q)"
  "same_tables_after (set_rule_state_request cd c p q e b) (set_rule_state_request cd c' p q e b)"
  unfolding add_rule_request_def delete_rule_request_def set_rule_state_request_def
  by (intro blind_rules blind_andThen blind_ends[where x = 200] blind_ends[where x = 201] blind_ends[where x = 204] ends_rules)+

text \<open>A rule change that attaches a rollout instead writes no flag table; it names its creator.\<close>

definition applies_at_once :: "(json \<Rightarrow> sent_overrides) \<Rightarrow> codec \<Rightarrow> json option \<Rightarrow> bool" where
  "applies_at_once ov cd b \<longleftrightarrow>
     (case Option.bind b (decode_rule_body ov cd) of
        None \<Rightarrow> True
      | Some r \<Rightarrow> (case rb_rollout r of None \<Rightarrow> True | Some req \<Rightarrow> ar_apply_immediately req))"

lemma blind_update_rule:
  "applies_at_once ov cd b \<Longrightarrow> update_rule_request ov cd c p q b = update_rule_request ov cd c' p q b"
  by (auto simp: update_rule_request_def applies_at_once_def bind_json_def path_id_def Let_def split: option.splits)

lemma blind_flag_ref: "cd_parse cd p \<noteq> None \<Longrightarrow> resolve_flag_ref cd c p = resolve_flag_ref cd c' p"
  by (auto simp: resolve_flag_ref_def)

lemma blind_lifecycle_requests:
  assumes "cd_parse cd p \<noteq> None"
  shows "same_tables_after (smoke_test_request cd c p b) (smoke_test_request cd c' p b)"
    "same_tables_after (user_test_request cd c p b) (user_test_request cd c' p b)"
    "same_tables_after (schedule_removal_request cd c p b) (schedule_removal_request cd c' p b)"
    "same_tables_after (cancel_removal_request cd c p) (cancel_removal_request cd c' p)"
    "same_tables_after (mark_exhausted_request cd c p) (mark_exhausted_request cd c' p)"
  unfolding smoke_test_request_def user_test_request_def schedule_removal_request_def cancel_removal_request_def
    mark_exhausted_request_def case_prod_beta blind_flag_ref[OF assms, of c c']
  by (intro blind_rules blind_andThen blind_ends[where x = 200] ends_rules)+

text \<open>The state of a flag names the user, which the comparison leaves out.\<close>

definition named_state :: "uuid \<Rightarrow> uuid \<Rightarrow> bool \<Rightarrow> string option \<Rightarrow> uuid option \<Rightarrow> flag_environment_state" where
  "named_state flag envi en val u = \<lparr>fs_id = uuid_nil, fs_flag_id = flag, fs_environment_id = envi, fs_enabled = en,
     fs_value = val, fs_updated_by = u, fs_updated_at = 0\<rparr>"

lemma invalidate_tables: "flag_tables (snd (quietly (invalidate i) s)) = flag_tables s" "fst (quietly (invalidate i) s) = Inr ()"
  by (auto simp: quietly_def invalidate_def prog_defs flag_tables_def split: option.split sum.split)

lemma blind_state:
  "same_tables_after (or_status 422 (set_flag_env_state (named_state f e b v u)))
     (or_status 422 (set_flag_env_state (named_state f e b v u')))"
proof -
  let ?up = "\<lambda>u. upsert_flag_env_state (named_state f e b v u) :: (request_world, flag_error, unit) prog"
  have up: "fst (?up u s) = fst (?up u' s) \<and> flag_tables (snd (?up u s)) = flag_tables (snd (?up u' s))" for s
    by (auto simp: upsert_flag_env_state_def named_state_def prog_defs flag_tables_def Let_def)
  have valid: "validate_env_state (named_state f e b v u) = validate_env_state (named_state f e b v u')"
    by (simp add: validate_env_state_def named_state_def)
  have id: "fs_flag_id (named_state f e b v w) = f" for w by (simp add: named_state_def)
  show ?thesis
  proof (cases "validate_env_state (named_state f e b v u)")
    case None
    have tail: "andThen m (\<lambda>_. quietly (invalidate f)) s = (case m s of (Inl e, t) \<Rightarrow> (Inl e, t)
        | (Inr _, t) \<Rightarrow> (Inr (), snd (quietly (invalidate f) t)))"
      for m :: "(request_world, flag_error, unit) prog" and s
      using invalidate_tables(2)[of f] by (auto simp: andThen_def prod_eq_iff split: prod.split sum.split)
    from None valid have "or_status 422 (set_flag_env_state (named_state f e b v w)) s =
        (case ?up w s of (Inl _, t) \<Rightarrow> (Inl 422, t) | (Inr _, t) \<Rightarrow> (Inr (), snd (quietly (invalidate f) t)))"
      if "w \<in> {u, u'}" for w and s :: request_world
      using that by (auto simp: set_flag_env_state_def id tail wrapped_def split: prod.split sum.split)
    with up show ?thesis
      by (auto simp: same_tables_after_def invalidate_tables split: prod.split sum.split) (metis fst_conv snd_conv sum.distinct)+
  next
    case (Some err)
    moreover from this valid have "validate_env_state (named_state f e b v u') = Some err" by simp
    ultimately show ?thesis by (simp add: same_tables_after_def set_flag_env_state_def wrapped_def fail_def)
  qed
qed

lemma blind_then_ends:
  assumes "same_tables_after m m'" and "\<And>x. ends_with y (k x)" and "\<And>x. ends_with y (k' x)"
  shows "same_tables_after (andThen m k) (andThen m' k')"
  unfolding same_tables_after_def
proof
  fix s
  obtain r t where m: "m s = (r, t)" by (cases "m s")
  obtain r' t' where m': "m' s = (r', t')" by (cases "m' s")
  have "r' = r" "flag_tables t' = flag_tables t" using assms(1) m m' unfolding same_tables_after_def by (metis fst_conv, metis snd_conv)
  then show "fst (andThen m k s) = fst (andThen m' k' s) \<and> flag_tables (snd (andThen m k s)) = flag_tables (snd (andThen m' k' s))"
    using m m' assms(2,3) by (cases r) (simp_all add: andThen_def ends_with_def)
qed

lemma blind_flag_state: "same_tables_after (set_flag_state_request cd c p e b) (set_flag_state_request cd c' p e b)"
  unfolding set_flag_state_request_def case_prod_beta named_state_def[symmetric]
  by (intro blind_rules blind_andThen blind_then_ends[where y = 200] blind_state ends_rules)

text \<open>
  The request names what it changes by an identifier: creating a flag, naming a flag by the key
  a project-scoped API key gives it, and attaching a rollout are left out.
\<close>

fun by_identifier :: "(json \<Rightarrow> sent_overrides) \<Rightarrow> codec \<Rightarrow> flag_request \<Rightarrow> bool" where
  "by_identifier ov cd (ReqCreate b) = False"
| "by_identifier ov cd (ReqUpdateRule p q b) = applies_at_once ov cd b"
| "by_identifier ov cd (ReqSmokeTest p b) = (cd_parse cd p \<noteq> None)"
| "by_identifier ov cd (ReqUserTest p b) = (cd_parse cd p \<noteq> None)"
| "by_identifier ov cd (ReqScheduleRemoval p b) = (cd_parse cd p \<noteq> None)"
| "by_identifier ov cd (ReqCancelRemoval p) = (cd_parse cd p \<noteq> None)"
| "by_identifier ov cd (ReqExhausted p) = (cd_parse cd p \<noteq> None)"
| "by_identifier ov cd _ = True"

text \<open>
  C12. A request that names a flag, a rule or an environment by its identifier is answered with the
  same status and leaves the same flags, rules and states, whoever sends it: no handler looks at
  the organization or the project of the caller, so whoever has a permission in one organization
  has it for the flags of all.
\<close>

theorem requests_ignore_tenant:
  assumes "by_identifier ov cd r"
  shows "fst (serve ov cd c r s) = fst (serve ov cd c' r s) \<and>
    flag_tables (snd (serve ov cd c r s)) = flag_tables (snd (serve ov cd c' r s))"
proof -
  have "same_tables_after (serve ov cd c r) (serve ov cd c' r)"
    using assms
    by (cases r) (auto simp only: serve.simps by_identifier.simps blind_update_rule[of ov cd _ c _ _ c']
      intro: blind_flag_requests blind_rule_requests blind_lifecycle_requests blind_flag_state blind_refl)
  then show ?thesis by (simp add: same_tables_after_def)
qed

section \<open>Release flags\<close>


lemma ends_value:
  assumes "ends_with x m"
  obtains t where "m s = (Inr x, t)" "flag_tables t = flag_tables s"
  using assms by (cases "m s") (auto simp: ends_with_def dest: spec[of _ s])

text \<open>A release flag without application is never valid.\<close>

lemma validate_flag_time: "validate_flag (f\<lparr>ff_updated_at := n\<rparr>) = validate_flag f"
  by (simp add: validate_flag_def)

lemma release_invalid:
  "ff_category f = FlagCategoryRelease \<Longrightarrow> ff_application_id f = None \<Longrightarrow> validate_flag f \<noteq> None"
  by (simp add: validate_flag_def)

lemma update_release:
  assumes g: "row_of ff_id i (feature_flags w) = Some g" "ff_application_id g = None"
    and p: "cd_parse cd p = Some i" "decode_flag_patch doc = Some patch"
    and release: "ff_category (patch_flag patch g) = FlagCategoryRelease"
  shows "fst (update_flag_request cd c p (Some doc) w) \<in> {Inl 404, Inl 422} \<and>
    flag_tables (snd (update_flag_request cd c p (Some doc) w)) = flag_tables w"
proof -
  have "ff_application_id (patch_flag patch g) = None" using g(2) by (simp add: patch_flag_def)
  with release obtain e where e: "validate_flag (patch_flag patch g) = Some e" using release_invalid by blast
  have refused: "\<exists>v. or_status 422 (svc_update_flag (patch_flag patch g)) u = (Inl 422, v) \<and> flag_tables v = flag_tables u"
    for u :: request_world
    using e by (auto simp: svc_update_flag_def prog_defs Let_def flag_tables_def validate_flag_time)
  obtain r u where l: "found_flag i w = (r, u)" by (cases "found_flag i w")
  have u: "flag_tables u = flag_tables w" "r = Inr g \<or> r = Inl 404"
    using l g(1) by (auto simp: found_flag_def svc_get_flag_def get_flag_def prog_defs flag_tables_def split: if_splits)
  from refused[of u] obtain v where v: "or_status 422 (svc_update_flag (patch_flag patch g)) u = (Inl 422, v)" "flag_tables v = flag_tables u"
    by blast
  show ?thesis
    using u l v p(1,2)
    by (cases r) (auto simp: update_flag_request_def path_id_def bind_json_def Let_def andThen_run)
qed

text \<open>
  C35. No update ends in a release flag. Validation wants a release flag to name its
  application, but the application is neither stored nor read back. After any history of
  requests of the flag API, by any callers and under any failures, no stored flag names an
  application, and every update whose outcome would be a release flag (a change of a release
  flag that leaves it one, or a move of another flag into the category) is refused and changes
  no table. Updates that take a flag out of the category are judged as the category they name.
\<close>

theorem release_flag_frozen:
  assumes "no_applications w"
  shows "no_applications (serve_all ov cd rs w) \<and>
    (\<forall>c p i doc patch g. cd_parse cd p = Some i \<and> decode_flag_patch doc = Some patch \<and>
       row_of ff_id i (feature_flags (serve_all ov cd rs w)) = Some g \<and>
       ff_category (patch_flag patch g) = FlagCategoryRelease \<longrightarrow>
       fst (update_flag_request cd c p (Some doc) (serve_all ov cd rs w)) \<in> {Inl 404, Inl 422} \<and>
       flag_tables (snd (update_flag_request cd c p (Some doc) (serve_all ov cd rs w))) =
         flag_tables (serve_all ov cd rs w))"
proof
  show none: "no_applications (serve_all ov cd rs w)"
    using steps_serve_all[of w ov cd rs] assms by (simp add: request_step_def)
  have "ff_application_id g = None" if "row_of ff_id i (feature_flags (serve_all ov cd rs w)) = Some g" for i g
    using none row_of_Some[OF that] by (simp add: no_applications_def)
  then show "\<forall>c p i doc patch g. cd_parse cd p = Some i \<and> decode_flag_patch doc = Some patch \<and>
       row_of ff_id i (feature_flags (serve_all ov cd rs w)) = Some g \<and>
       ff_category (patch_flag patch g) = FlagCategoryRelease \<longrightarrow>
       fst (update_flag_request cd c p (Some doc) (serve_all ov cd rs w)) \<in> {Inl 404, Inl 422} \<and>
       flag_tables (snd (update_flag_request cd c p (Some doc) (serve_all ov cd rs w))) =
         flag_tables (serve_all ov cd rs w)"
    using update_release by blast
qed

section \<open>Undoing a toggle\<close>

text \<open>What follows a change leaves the outside as it was.\<close>

lemma calm_after:
  "calm (snd (audit_change c a i o' n s)) \<longleftrightarrow> calm s" "calm (snd (broadcast_event e i k s)) \<longleftrightarrow> calm s"
  "calm (snd (flag_hook c e f v s)) \<longleftrightarrow> calm s"
  by (rule calm_cong; auto simp: audit_change_def broadcast_event_def flag_hook_def publish_webhook_def
      write_audit_log_def prog_defs)+

lemma toggle_request_run:
  assumes calm: "calm s" and row: "row_of ff_id i (feature_flags s) = Some f" "\<not> ff_archived f"
    and p: "cd_parse cd p = Some i"
  obtains t n where "toggle_flag_request cd c p (Some (enabled_doc en)) s = (Inr 200, t)" "calm t"
    "row_of ff_id i (feature_flags t) = Some (write_flag (f\<lparr>ff_enabled := en, ff_updated_at := n\<rparr>) f)"
proof -
  let ?s = "s\<lparr>calls := Suc (calls s)\<rparr>"
  let ?audit = "audit_change c ''flag.toggled'' i (toggled_old en) (toggled_new en)"
  let ?tell = "broadcast_event ''flag.toggled'' i []" and ?hook = "flag_hook c ''flag.toggled'' f (user_of_caller c)"
  let ?k = "andThen ?audit (\<lambda>_. andThen ?tell (\<lambda>_. andThen ?hook (\<lambda>_. ret (200 :: nat))))"
  have again: "calm ?s" "row_of ff_id i (feature_flags ?s) = Some f" using calm row(1) by simp_all
  obtain u n where u: "toggle_flag i en ?s = (Inr (), u)" "calm u"
    and g: "row_of ff_id i (feature_flags u) = Some (write_flag (f\<lparr>ff_enabled := en, ff_updated_at := n\<rparr>) f)"
    using toggle_flag_calm[OF again row(2), of en] by blast
  have ends: "ends_with () ?audit" "ends_with () ?tell" "ends_with () ?hook" "ends_with 200 ?k" by (intro ends_rules)+
  obtain t where t: "?k u = (Inr 200, t)" "flag_tables t = flag_tables u" by (rule ends_value[OF ends(4)])
  obtain v1 where v1: "?audit u = (Inr (), v1)" by (rule ends_value[OF ends(1)])
  obtain v2 where v2: "?tell v1 = (Inr (), v2)" by (rule ends_value[OF ends(2)])
  obtain v3 where v3: "?hook v2 = (Inr (), v3)" by (rule ends_value[OF ends(3)])
  note v = v1 v2 v3
  have "t = v3" using v t(1) by (simp add: andThen_def ret_def)
  then have "calm t"
    using v u(2) calm_after(1)[of c "''flag.toggled''" i "toggled_old en" "toggled_new en" u]
      calm_after(2)[of "''flag.toggled''" i "[]" v1] calm_after(3)[of c "''flag.toggled''" f "user_of_caller c" v2]
    by simp
  moreover have "toggle_flag_request cd c p (Some (enabled_doc en)) s = (Inr 200, t)"
    using calm_get_flag[OF calm row(1)] u(1) t(1) p
    by (simp add: toggle_flag_request_def path_id_def bind_json_def enabled_doc_def decode_enabled found_flag_def
        svc_get_flag_def andThen_run)
  moreover have "feature_flags t = feature_flags u" using t(2) by (simp add: flag_tables_def)
  ultimately show thesis using g by (intro that[of t n]) simp_all
qed

text \<open>
  C28. Undoing a toggle by the entry its handler audits. When no outside call fails, a request
  to switch a live flag on or off succeeds, and dispatching the entry the handler hands to the
  audit log for it, when nothing has changed in between, succeeds without force and leaves the
  flag in the position opposite to the one asked for, all else but the time of update as before
  the request. So a toggle that changed the flag is undone, and one that asked for the position
  the flag was in, whose entry claims the opposite as the old value, is undone into a change.
\<close>

theorem toggle_reverts:
  assumes "calm s" and "row_of ff_id i (feature_flags s) = Some f" and "\<not> ff_archived f"
    and "ff_default_value f \<noteq> []" and "cd_parse cd p = Some i"
  shows "\<exists>t u n. toggle_flag_request cd c p (Some (enabled_doc en)) s = (Inr 200, t) \<and>
    revert_dispatch (flag_reverts parse raw)
      (audit_row c ''flag.toggled'' i (toggled_old en) (toggled_new en) now) False t =
        (Inr ''flag.toggled.reverted'', u) \<and>
    row_of ff_id i (feature_flags u) = Some (f\<lparr>ff_enabled := \<not> en, ff_updated_at := n\<rparr>)"
proof -
  obtain t n where t: "toggle_flag_request cd c p (Some (enabled_doc en)) s = (Inr 200, t)" "calm t"
    and g: "row_of ff_id i (feature_flags t) = Some (write_flag (f\<lparr>ff_enabled := en, ff_updated_at := n\<rparr>) f)"
    by (rule toggle_request_run[OF assms(1-3,5)])
  let ?g = "write_flag (f\<lparr>ff_enabled := en, ff_updated_at := n\<rparr>) f"
  let ?e = "audit_row c ''flag.toggled'' i (toggled_old en) (toggled_new en) now"
  have e: "ae_entity_type ?e = ''flag''" "ae_action ?e = ''flag.toggled''" "ae_entity_id ?e = i"
    "ae_old_value ?e = Some (JObj [(''enabled'', JBool (\<not> en))])"
    "ae_new_value ?e = Some (JObj [(''enabled'', JBool en)])"
    by (simp_all add: audit_row_def toggled_old_def toggled_new_def enabled_doc_def)
  have live: "\<not> ff_archived ?g" "ff_enabled ?g = en" using assms(3) by (simp_all add: write_flag_def)
  obtain u m where u: "revert_dispatch (flag_reverts parse raw) ?e False t = (Inr ''flag.toggled.reverted'', u)"
    and h: "row_of ff_id i (feature_flags u) = Some (write_flag (?g\<lparr>ff_enabled := \<not> en, ff_updated_at := m\<rparr>) ?g)"
    by (rule toggled_revert_run[OF e t(2) g live])
  have "write_flag (?g\<lparr>ff_enabled := \<not> en, ff_updated_at := m\<rparr>) ?g = f\<lparr>ff_enabled := \<not> en, ff_updated_at := m\<rparr>"
    using assms(4) by (simp add: write_flag_def)
  with t(1) u h show ?thesis by metis
qed

section \<open>Deleting for good\<close>






section \<open>Rules of another flag\<close>

lemma validate_rule_time: "validate_rule (r\<lparr>tg_updated_at := n\<rparr>) = validate_rule r"
  by (cases "tg_rule_type r") (simp_all add: validate_rule_def)

lemma invalidate_rules:
  assumes "invalidate i s = (r, t)" and "j \<noteq> i"
  shows "cached_rules t j = cached_rules s j"
  using assms by (auto simp: invalidate_def prog_defs split: option.splits sum.splits if_splits)

text \<open>
  A rule is written by its identifier, but the cached rules that are dropped are those of the flag
  of the route. When the two differ the change is answered with success, the rule is changed, and
  the rules cached for its own flag stay as they were: evaluations go on with the old rule.
\<close>

theorem misrouted_rule_update:
  assumes calm: "calm s" and row: "row_of tg_id i (targeting_rules s) = Some old"
    and p: "cd_parse cd p = Some j" "cd_parse cd q = Some i" "j \<noteq> tg_flag_id old"
    and b: "Option.bind body (decode_rule_body ov cd) = Some b" "rb_rollout b = None"
    and valid: "validate_rule (rule_of_body i j b) = None"
  shows "\<exists>t n. update_rule_request ov cd c p q body s = (Inr 200, t) \<and>
    row_of tg_id i (targeting_rules t) = Some (write_rule ((rule_of_body i j b)\<lparr>tg_updated_at := n\<rparr>) old) \<and>
    cached_rules t (tg_flag_id old) = cached_rules s (tg_flag_id old)"
proof -
  let ?r = "rule_of_body i j b"
  let ?s1 = "s\<lparr>reads := Suc (reads s)\<rparr>"
  have ids: "tg_id ?r = i" "tg_flag_id ?r = j" by (simp_all add: rule_of_body_def)
  have validn: "validate_rule (?r\<lparr>tg_updated_at := n\<rparr>) = None" for n using valid by (simp add: validate_rule_time)
  let ?n = "clock s (Suc (reads s))"
  let ?s2 = "?s1\<lparr>reads := Suc (Suc (reads s)), calls := Suc (calls s),
      targeting_rules := update_row tg_id i (write_rule (?r\<lparr>tg_updated_at := ?n\<rparr>)) (targeting_rules s)\<rparr>"
  have upd: "update_rule (?r\<lparr>tg_updated_at := clock s (reads s)\<rparr>) ?s1 = (Inr (), ?s2)"
    using calm row ids by (simp add: update_rule_def prog_defs)
  obtain u where u: "quietly (invalidate j) ?s2 = (Inr (), u)" by (rule quietly_run)
  obtain x where x: "invalidate j ?s2 = (x, u)"
    using u by (cases "invalidate j ?s2") (auto simp: quietly_def andThen_def attempt_def ret_def)
  have "svc_update_rule ?r s = (Inr (), u)"
    using validn upd u ids by (simp add: svc_update_rule_def time_now_def andThen_def wrapped_def Let_def)
  moreover obtain v where "broadcast_event ''rule.updated'' j [] u = (Inr (), v)"
    and kept: "targeting_rules v = targeting_rules u" "cached_rules v = cached_rules u"
    by (simp add: broadcast_event_def prog_defs)
  ultimately have run: "update_rule_request ov cd c p q body s = (Inr 200, v)"
    using p b by (simp add: update_rule_request_def path_id_def bind_json_def Let_def andThen_def wrapped_def ret_def)
  have "targeting_rules u = targeting_rules ?s2"
    using x by (auto simp: invalidate_def prog_defs split: option.splits sum.splits if_splits)
  then have "row_of tg_id i (targeting_rules u) = Some (write_rule (?r\<lparr>tg_updated_at := ?n\<rparr>) old)"
    using row by (simp add: row_of_update write_rule_def)
  moreover have "cached_rules u (tg_flag_id old) = cached_rules s (tg_flag_id old)"
    using invalidate_rules[OF x, of "tg_flag_id old"] p(3) by simp
  ultimately show ?thesis using run kept by auto
qed

section \<open>What a preview shows\<close>

lemma apply_staged_on_row: "map_option fst (apply_staged (on_row f) p ss) = apply_staged f (fst p) ss"
  by (induction ss arbitrary: p) (auto simp: on_row_def split: prod.split)

lemma apply_staged_on_row_cases:
  "case apply_staged (on_row f) p ss of None \<Rightarrow> apply_staged f (fst p) ss = None
     | Some q \<Rightarrow> apply_staged f (fst p) ss = Some (fst q)"
  using apply_staged_on_row[of f p ss] by (cases "apply_staged (on_row f) p ss") auto

lemma staged_rows_unmarked:
  "map fst (List.map_filter (\<lambda>p. apply_staged (on_row f) p (u (k (fst p)))) ps) =
     List.map_filter (\<lambda>r. apply_staged f r (u (k r))) (map fst ps)"
proof (induction ps)
  case (Cons p ps)
  then show ?case
    using apply_staged_on_row_cases[of f p "u (k (fst p))"]
    by (cases "apply_staged (on_row f) p (u (k (fst p)))") (auto simp: List.map_filter_simps)
qed (simp add: List.map_filter_simps)

lemma creates_unmarked:
  "map fst (List.map_filter (\<lambda>s. map_option (\<lambda>r. (r, m)) (synth s)) ss) = List.map_filter synth ss"
proof (induction ss)
  case (Cons s ss)
  then show ?case by (cases "synth s") (auto simp: List.map_filter_simps)
qed (simp add: List.map_filter_simps)

text \<open>
  The rows of a list with pending changes, without their marks, are the stored rules with the
  pending changes of the caller applied; a caller without an organization or an identity gets
  the stored rules.
\<close>

theorem rule_list_is_overlay:
  assumes run: "list_rules_request cd c p include s = (Inr rows, t)" and calm: "calm s" and p: "cd_parse cd p = Some flag"
  shows "map fst rows = (case asks_staged c include of
      None \<Rightarrow> rules_of s flag
    | Some (user, org) \<Rightarrow> overlay_list tg_id (rule_apply (cd_parse cd)) (rule_synth (cd_parse cd) flag) (rules_of s flag)
        (sort_key sc_created_at (filter (\<lambda>ch. owned_by user org ch \<and> sc_resource_type ch = ''flag_rule'') (staged_changes s))))"
proof (cases "asks_staged c include")
  case None
  with run calm p show ?thesis
    by (auto simp: list_rules_request_def path_id_def list_rules_def prog_defs Let_def rules_of_def comp_def)
next
  case (Some ask)
  obtain user org where ask: "ask = (user, org)" by (cases ask)
  let ?staged = "sort_key sc_created_at (filter (\<lambda>ch. owned_by user org ch \<and> sc_resource_type ch = ''flag_rule'') (staged_changes s))"
  let ?plain = "map (\<lambda>r. (r, None :: marker option)) (rules_of s flag)"
  let ?synth = "\<lambda>s. map_option (\<lambda>r. (r, None :: marker option)) (rule_synth (cd_parse cd) flag s)"
  have staged: "\<exists>u. on_staged (list_for_resource user org ''flag_rule'') (s\<lparr>calls := n\<rparr>) = (Inr ?staged, u)" for n
    using calm by (auto simp: on_staged_def list_for_resource_def prog_defs staging_world.defs)
  have "rows = overlay_list_marked (\<lambda>p. tg_id (fst p)) (on_row (rule_apply (cd_parse cd))) ?synth
      (Some (\<lambda>m p. (fst p, Some m))) ?plain ?staged"
    using run calm p Some ask staged[of "Suc (calls s)"]
    by (auto simp: list_rules_request_def path_id_def list_rules_def andThen_def wrapped_def attempt_def ext_call_def
        get_state_def ret_def Let_def rules_of_def)
  then have "map fst rows = map fst (overlay_list (\<lambda>p. tg_id (fst p)) (on_row (rule_apply (cd_parse cd))) ?synth ?plain ?staged)"
    by (simp add: marks_change_nothing)
  moreover have "map fst (overlay_list (\<lambda>p. tg_id (fst p)) (on_row (rule_apply (cd_parse cd))) ?synth ?plain ?staged) =
      overlay_list tg_id (rule_apply (cd_parse cd)) (rule_synth (cd_parse cd) flag) (rules_of s flag) ?staged"
    by (simp add: overlay_list_def staged_rows_unmarked creates_unmarked comp_def)
  ultimately show ?thesis using Some ask by simp
qed

section \<open>Samples\<close>

definition sample_codec :: codec where
  "sample_codec = \<lparr>cd_parse = (\<lambda>s. if s = ''7'' then Some 7 else if s = ''8'' then Some 8 else if s = ''9'' then Some 9 else None),
     cd_text = (\<lambda>_. ''7''), cd_raw = (\<lambda>_. ''null''), cd_doc = (\<lambda>_. JNull)\<rparr>"

text \<open>An administrator of organization 2, and a user of another organization.\<close>

definition insider :: caller where
  "insider = \<lparr>cl_user = Some 1, cl_key_creator = None, cl_org = Some 2, cl_project = None\<rparr>"

definition outsider :: caller where
  "outsider = \<lparr>cl_user = Some 5, cl_key_creator = None, cl_org = Some 6, cl_project = None\<rparr>"

definition sample_rule :: "uuid \<Rightarrow> uuid \<Rightarrow> targeting_rule" where
  "sample_rule i flag = \<lparr>tg_id = i, tg_flag_id = flag, tg_rule_type = RuleTypePercentage, tg_priority = 0,
     tg_value = ''true'', tg_percentage = Some 10, tg_attribute = [], tg_operator = [], tg_target_values = [],
     tg_segment_id = None, tg_conditions = [], tg_combine_op = [], tg_start_time = None, tg_end_time = None,
     tg_enabled = True, tg_created_at = 0, tg_updated_at = 0\<rparr>"

definition request_sample :: "feature_flag list \<Rightarrow> targeting_rule list \<Rightarrow> request_world" where
  "request_sample fs rs = (staging_world.extend (staging_sample []) (request_world.fields [[]] [] [(1, 2, ''shop'')]))
     \<lparr>feature_flags := fs, targeting_rules := rs\<rparr>"

abbreviation sample_serve :: "caller \<Rightarrow> flag_request \<Rightarrow> nat request" where
  "sample_serve \<equiv> serve (\<lambda>_. NoOverrides) sample_codec"

definition switch_off :: flag_request where
  "switch_off = ReqToggle ''7'' (Some (enabled_doc False))"

theorem requests_never_audited_witness:
  "audit_log (serve_all (\<lambda>_. NoOverrides) sample_codec [(insider, switch_off), (outsider, ReqArchive ''7'')]
     (request_sample [plain_flag 7] [])) = []"
proof -
  have "\<not> known_project (audit_refs (request_sample [plain_flag 7] [])) uuid_nil" "streams_bounded (request_sample [plain_flag 7] [])"
    "audit_log (request_sample [plain_flag 7] []) = []" by code_simp+
  with requests_never_audited[of "request_sample [plain_flag 7] []"] show ?thesis by auto
qed

text \<open>The user of the other organization switches the flag off.\<close>

theorem requests_ignore_tenant_witness:
  "fst (sample_serve outsider switch_off (request_sample [plain_flag 7] [])) = Inr 200 \<and>
   map ff_enabled (feature_flags (snd (sample_serve outsider switch_off (request_sample [plain_flag 7] [])))) = [False]"
proof -
  have "by_identifier (\<lambda>_. NoOverrides) sample_codec switch_off" by (simp add: switch_off_def)
  moreover have "fst (sample_serve insider switch_off (request_sample [plain_flag 7] [])) = Inr 200"
    "map ff_enabled (feature_flags (snd (sample_serve insider switch_off (request_sample [plain_flag 7] [])))) = [False]"
    by code_simp+
  ultimately show ?thesis
    using requests_ignore_tenant[of _ sample_codec switch_off outsider _ insider] by (auto simp: flag_tables_def)
qed

definition release_body :: json where
  "release_body = JObj [(''project_id'', JStr ''7''), (''application_id'', JStr ''8''), (''key'', JStr ''k''), (''name'', JStr ''n''),
     (''flag_type'', JStr ''boolean''), (''category'', JStr ''release''), (''is_permanent'', JBool True)]"

definition rename_body :: json where
  "rename_body = JObj [(''name'', JStr ''other'')]"

definition sample_codec_100 :: codec where
  "sample_codec_100 = sample_codec\<lparr>cd_parse := (\<lambda>s. if s = ''7'' then Some 7 else if s = ''8'' then Some 8 else Some 100)\<rparr>"

definition sample_created :: request_world where
  "sample_created = snd (create_flag_request sample_codec_100 insider (Some release_body) (request_sample [] []))"

theorem release_flag_frozen_witness:
  "map ff_name (feature_flags sample_created) = [''n''] \<and>
   fst (update_flag_request sample_codec_100 insider ''new'' (Some rename_body) sample_created) \<in> {Inl 404, Inl 422}"
proof -
  have start: "no_applications (request_sample [] [])" by code_simp
  have history: "serve_all (\<lambda>_. NoOverrides) sample_codec_100 [(insider, ReqCreate (Some release_body))] (request_sample [] []) =
      sample_created"
    by (simp add: serve_all_def sample_created_def sample_codec_100_def)
  have "map (\<lambda>f. (ff_name f, ff_id f, ff_category f)) (feature_flags sample_created) =
      [(''n'', 100, FlagCategoryRelease)]"
    by code_simp
  then obtain g where g: "feature_flags sample_created = [g]" "ff_id g = 100" "ff_category g = FlagCategoryRelease"
    and names: "map ff_name (feature_flags sample_created) = [''n'']" by auto
  have "map_option up_category (decode_flag_patch rename_body) = Some []" by code_simp
  then obtain patch where patch: "decode_flag_patch rename_body = Some patch" "up_category patch = []" by auto
  have release: "ff_category (patch_flag patch g) = FlagCategoryRelease" using g(3) patch(2) by (simp add: patch_flag_def)
  have row: "row_of ff_id 100 (feature_flags sample_created) = Some g" using g(1,2) by (simp add: row_simps)
  have "cd_parse sample_codec_100 ''new'' = Some 100" by (simp add: sample_codec_100_def)
  with release_flag_frozen[OF start, of "\<lambda>_. NoOverrides" sample_codec_100 "[(insider, ReqCreate (Some release_body))]"]
    row release patch(1) names
  show ?thesis unfolding history by blast
qed

theorem toggle_reverts_witness:
  "\<exists>t u n. toggle_flag_request sample_codec insider ''7'' (Some (enabled_doc False)) (request_sample [plain_flag 7] []) = (Inr 200, t) \<and>
     revert_dispatch (flag_reverts number_id (\<lambda>_. []))
       (audit_row insider ''flag.toggled'' 7 (toggled_old False) (toggled_new False) 0) False t =
         (Inr ''flag.toggled.reverted'', u) \<and>
     row_of ff_id 7 (feature_flags u) = Some ((plain_flag 7)\<lparr>ff_enabled := True, ff_updated_at := n\<rparr>)"
proof -
  let ?s = "request_sample [plain_flag 7] []"
  have "calm ?s"
    by (simp add: calm_def request_sample_def staging_sample_def sample_rollout_world_def staging_world.defs rollout_world.defs)
  moreover have "row_of ff_id 7 (feature_flags ?s) = Some (plain_flag 7)" "\<not> ff_archived (plain_flag 7)"
    "ff_default_value (plain_flag 7) \<noteq> []" by code_simp+
  moreover have "cd_parse sample_codec ''7'' = Some 7" by (simp add: sample_codec_def)
  ultimately show ?thesis using toggle_reverts[where en = False] by force
qed



definition rule_body_doc :: json where
  "rule_body_doc = JObj [(''rule_type'', JStr ''percentage''), (''percentage'', JNum ''50''), (''value'', JStr ''true'')]"

theorem misrouted_rule_update_witness:
  "fst (update_rule_request (\<lambda>_. NoOverrides) sample_codec insider ''8'' ''9'' (Some rule_body_doc)
     ((request_sample [plain_flag 7, plain_flag 8] [sample_rule 9 7])\<lparr>cached_rules := [7 \<mapsto> [sample_rule 9 7]]\<rparr>)) = Inr 200 \<and>
   cached_rules (snd (update_rule_request (\<lambda>_. NoOverrides) sample_codec insider ''8'' ''9'' (Some rule_body_doc)
     ((request_sample [plain_flag 7, plain_flag 8] [sample_rule 9 7])\<lparr>cached_rules := [7 \<mapsto> [sample_rule 9 7]]\<rparr>))) 7 =
       Some [sample_rule 9 7]"
proof -
  let ?s = "(request_sample [plain_flag 7, plain_flag 8] [sample_rule 9 7])\<lparr>cached_rules := [7 \<mapsto> [sample_rule 9 7]]\<rparr>"
  have calm: "calm ?s"
    by (simp add: calm_def request_sample_def staging_sample_def sample_rollout_world_def staging_world.defs rollout_world.defs)
  have row: "row_of tg_id 9 (targeting_rules ?s) = Some (sample_rule 9 7)"
    by (simp add: request_sample_def row_simps sample_rule_def)
  have ids: "cd_parse sample_codec ''8'' = Some 8" "cd_parse sample_codec ''9'' = Some 9" "8 \<noteq> tg_flag_id (sample_rule 9 7)"
    by (simp_all add: sample_codec_def sample_rule_def)
  have "map_option (\<lambda>b. (rb_rollout b, validate_rule (rule_of_body 9 8 b))) (Option.bind (Some rule_body_doc) (decode_rule_body (\<lambda>_. NoOverrides) sample_codec)) = Some (None, None)"
    by code_simp
  then obtain b where b: "Option.bind (Some rule_body_doc) (decode_rule_body (\<lambda>_. NoOverrides) sample_codec) = Some b"
    "rb_rollout b = None" "validate_rule (rule_of_body 9 8 b) = None" by (auto simp: map_option_eq_Some)
  from misrouted_rule_update[OF calm row ids b, of insider]
  show ?thesis by (auto simp: sample_rule_def)
qed

end
