(* ===== verification/Webhooks.thy ===== *)
theory Webhooks
  imports ApiKeys FlagTargeting SqlBuilder Json
begin

text \<open>
  Webhook endpoints and their deliveries (\<open>internal/webhooks\<close>, \<open>internal/models/webhook.go\<close>,
  \<open>internal/platform/database/postgres/webhook_repository.go\<close>, \<open>internal/platform/crypto/aes.go\<close>):
  management of endpoints, the test delivery, retries with their backoff, the signature of a
  request, the check of an address, and the requests of the API. Outside are the receiver's
  answer to the n-th request, the resolution of a redirect's location, the cipher of \<open>crypto/aes\<close>, the text \<open>json.Marshal\<close> gives a payload,
  the parts \<open>net/url\<close> finds in an address and the name service.
\<close>

section \<open>Endpoints and deliveries\<close>

text \<open>The events of an endpoint are a slice, \<open>None\<close> for a nil one.\<close>

record webhook =
  wh_id :: uuid
  wh_org_id :: uuid
  wh_project_id :: "uuid option"
  wh_name :: string
  wh_url :: string
  wh_secret :: string
  wh_encrypted :: bool
  wh_events :: "string list option"
  wh_is_active :: bool
  wh_retry_attempts :: int
  wh_timeout_seconds :: int
  wh_created_at :: time
  wh_updated_at :: time
  wh_created_by :: "uuid option"
  wh_updated_by :: "uuid option"

datatype delivery_status = DeliveryPending | DeliverySent | DeliveryFailed | DeliveryCancelled

text \<open>What the requests ask for. The rules in the \<open>validate\<close> tags are not applied by the binding.\<close>

record webhook_fields =
  wc_project_id :: "uuid option"
  wc_name :: string
  wc_url :: string
  wc_events :: "string list option"
  wc_retry_attempts :: "int option"
  wc_timeout_seconds :: "int option"

record webhook_patch =
  wu_name :: "string option"
  wu_url :: "string option"
  wu_events :: "string list option"
  wu_is_active :: "bool option"
  wu_retry_attempts :: "int option"
  wu_timeout_seconds :: "int option"

text \<open>The data of an event: a document that was sent, or what the service notes of its own changes.\<close>

datatype event_data =
    Given json
  | NoteCreated uuid string string "string list option"
  | NoteUpdated uuid string webhook_patch
  | NoteDeleted uuid string

record webhook_payload =
  wp_event :: string
  wp_timestamp :: time
  wp_org_id :: uuid
  wp_project_id :: "uuid option"
  wp_data :: event_data
  wp_user_id :: "uuid option"
  wp_test :: "uuid option"

record webhook_delivery =
  wd_id :: uuid
  wd_webhook_id :: uuid
  wd_event_type :: string
  wd_payload :: event_data
  wd_status :: delivery_status
  wd_http_status :: "int option"
  wd_response_body :: "string option"
  wd_error_message :: "string option"
  wd_attempt_count :: nat
  wd_created_at :: time
  wd_sent_at :: "time option"
  wd_next_retry_at :: "time option"

definition should_retry :: "webhook_delivery \<Rightarrow> int \<Rightarrow> bool" where
  "should_retry d limit \<longleftrightarrow> wd_status d = DeliveryFailed \<and> int (wd_attempt_count d) < limit"

text \<open>Durations are 64-bit: the shift drops what passes the top and the product wraps.\<close>

definition next_retry_delay :: "nat \<Rightarrow> duration" where
  "next_retry_delay n =
     (let d = sint (push_bit n (1 :: 64 word) * word_of_int (minutes 1))
      in if d > minutes 60 then minutes 60 else d)"

section \<open>The outside\<close>

text \<open>
  A request cannot be built, is not answered, or is answered with a status and a body, and
  possibly with a location.
\<close>

datatype http_answer = BadRequest string | NoAnswer string | Answered int string | Relocated int string string

record webhook_request =
  wr_method :: string
  wr_url :: string
  wr_event :: string
  wr_timestamp :: string
  wr_signature :: string
  wr_body :: string

datatype webhook_error =
    WebhookNotFound
  | WebhookRowMissing
  | WebhookDriver string
  | CipherError string
  | RequestFailed string
  | ReturnedStatus int string
  | WebhookWrap string webhook_error

text \<open>
  \<open>legacy_deliveries\<close>: the table of deliveries is the one migration 018 creates and 028 extends,
  which keeps the column \<open>endpoint_id\<close> that may not be null and that no insert mentions.
  \<open>webhook_refs\<close>: the organization, project and users an endpoint names exist.
\<close>

record webhook_world = env +
  webhooks :: "webhook list"
  deliveries :: "webhook_delivery list"
  legacy_deliveries :: bool
  webhook_refs :: "webhook \<Rightarrow> bool"
  random_source :: "nat \<Rightarrow> nat \<Rightarrow> string"
  random_reads :: nat
  answers :: "nat \<Rightarrow> http_answer"
  asked :: nat
  requests :: "webhook_request list"
  webhook_bus :: "webhook_payload list"

type_synonym 'a webhook_prog = "(webhook_world, webhook_error, 'a) prog"

definition fill_random :: "nat \<Rightarrow> string webhook_prog" where
  "fill_random k =
     andThen (ext_call (WebhookDriver ''rand'')) (\<lambda>_.
     andThen get_state (\<lambda>w.
     andThen (modify (\<lambda>w. w\<lparr>random_reads := Suc (random_reads w)\<rparr>)) (\<lambda>_.
       ret (random_source w (random_reads w) k))))"

section \<open>The repository\<close>

text \<open>
  The columns of migration 028: the name has 255 characters, the events are not null (a nil slice
  is), and the two numbers are 32-bit integers.
\<close>

definition column_int :: "int \<Rightarrow> bool" where
  "column_int x \<longleftrightarrow> - (2 ^ 31) \<le> x \<and> x < 2 ^ 31"

definition storable_webhook :: "webhook \<Rightarrow> bool" where
  "storable_webhook h \<longleftrightarrow> length (wh_name h) \<le> 255 \<and> wh_events h \<noteq> None \<and>
     column_int (wh_retry_attempts h) \<and> column_int (wh_timeout_seconds h)"

definition create_webhook :: "webhook \<Rightarrow> webhook webhook_prog" where
  "create_webhook wh =
     andThen time_now (\<lambda>now.
       let wh' = wh\<lparr>wh_created_at := now, wh_updated_at := now\<rparr>
       in andThen (ext_call (WebhookDriver ''insert webhooks'')) (\<lambda>_.
          andThen get_state (\<lambda>w.
            if row_of wh_id (wh_id wh) (webhooks w) \<noteq> None \<or> \<not> webhook_refs w wh' \<or>
               \<not> storable_webhook wh \<or> length (wh_secret wh) > 255
            then fail (WebhookDriver ''insert webhooks'')
            else andThen (modify (\<lambda>w. w\<lparr>webhooks := webhooks w @ [wh']\<rparr>)) (\<lambda>_. ret wh'))))"

definition get_webhook :: "uuid \<Rightarrow> webhook webhook_prog" where
  "get_webhook i =
     andThen (ext_call (WebhookDriver ''select webhooks'')) (\<lambda>_.
     andThen get_state (\<lambda>w.
       case row_of wh_id i (webhooks w) of None \<Rightarrow> fail WebhookNotFound | Some h \<Rightarrow> ret h))"

definition write_webhook :: "webhook \<Rightarrow> time \<Rightarrow> webhook \<Rightarrow> webhook" where
  "write_webhook h now row = row\<lparr>wh_name := wh_name h, wh_url := wh_url h, wh_events := wh_events h,
     wh_is_active := wh_is_active h, wh_retry_attempts := wh_retry_attempts h,
     wh_timeout_seconds := wh_timeout_seconds h, wh_updated_at := now, wh_updated_by := wh_updated_by h\<rparr>"

definition update_webhook :: "webhook \<Rightarrow> webhook webhook_prog" where
  "update_webhook h =
     andThen time_now (\<lambda>now.
     andThen (ext_call (WebhookDriver ''update webhooks'')) (\<lambda>_.
     andThen get_state (\<lambda>w.
       if row_of wh_id (wh_id h) (webhooks w) = None then fail WebhookRowMissing
       else if \<not> webhook_refs w h \<or> \<not> storable_webhook h then fail (WebhookDriver ''update webhooks'')
       else andThen (modify (\<lambda>w. w\<lparr>webhooks := update_row wh_id (wh_id h) (write_webhook h now) (webhooks w)\<rparr>)) (\<lambda>_.
            ret (h\<lparr>wh_updated_at := now\<rparr>)))))"

text \<open>Deleting an endpoint deletes its deliveries.\<close>

definition delete_webhook :: "uuid \<Rightarrow> unit webhook_prog" where
  "delete_webhook i =
     andThen (ext_call (WebhookDriver ''delete webhooks'')) (\<lambda>_.
     andThen get_state (\<lambda>w.
       if row_of wh_id i (webhooks w) = None then fail WebhookRowMissing
       else modify (\<lambda>w. w\<lparr>webhooks := filter (\<lambda>h. wh_id h \<noteq> i) (webhooks w),
                          deliveries := filter (\<lambda>d. wd_webhook_id d \<noteq> i) (deliveries w)\<rparr>)))"

definition create_delivery :: "webhook_delivery \<Rightarrow> webhook_delivery webhook_prog" where
  "create_delivery d =
     andThen time_now (\<lambda>now.
       let d' = d\<lparr>wd_created_at := now\<rparr>
       in andThen (ext_call (WebhookDriver ''insert webhook_deliveries'')) (\<lambda>_.
          andThen get_state (\<lambda>w.
            if legacy_deliveries w \<or> row_of wd_id (wd_id d) (deliveries w) \<noteq> None \<or>
               row_of wh_id (wd_webhook_id d) (webhooks w) = None
            then fail (WebhookDriver ''insert webhook_deliveries'')
            else andThen (modify (\<lambda>w. w\<lparr>deliveries := deliveries w @ [d']\<rparr>)) (\<lambda>_. ret d'))))"

definition get_delivery :: "uuid \<Rightarrow> webhook_delivery webhook_prog" where
  "get_delivery i =
     andThen (ext_call (WebhookDriver ''select webhook_deliveries'')) (\<lambda>_.
     andThen get_state (\<lambda>w.
       case row_of wd_id i (deliveries w) of
         None \<Rightarrow> fail (WebhookDriver ''no rows in result set'') | Some d \<Rightarrow> ret d))"

definition write_delivery :: "webhook_delivery \<Rightarrow> webhook_delivery \<Rightarrow> webhook_delivery" where
  "write_delivery d row = row\<lparr>wd_status := wd_status d, wd_http_status := wd_http_status d,
     wd_response_body := wd_response_body d, wd_error_message := wd_error_message d,
     wd_attempt_count := wd_attempt_count d, wd_sent_at := wd_sent_at d,
     wd_next_retry_at := wd_next_retry_at d, wd_payload := wd_payload d\<rparr>"

text \<open>The old table also checks the status, which knows neither \<open>sent\<close> nor \<open>cancelled\<close>.\<close>

definition update_delivery :: "webhook_delivery \<Rightarrow> unit webhook_prog" where
  "update_delivery d =
     andThen (ext_call (WebhookDriver ''update webhook_deliveries'')) (\<lambda>_.
     andThen get_state (\<lambda>w.
       if row_of wd_id (wd_id d) (deliveries w) = None then fail WebhookRowMissing
       else if legacy_deliveries w \<and> wd_status d \<in> {DeliverySent, DeliveryCancelled}
       then fail (WebhookDriver ''update webhook_deliveries'')
       else modify (\<lambda>w. w\<lparr>deliveries := update_row wd_id (wd_id d) (write_delivery d) (deliveries w)\<rparr>)))"

definition retry_due :: "webhook list \<Rightarrow> time \<Rightarrow> webhook_delivery \<Rightarrow> bool" where
  "retry_due hs now d \<longleftrightarrow> wd_status d = DeliveryFailed \<and>
     (case wd_next_retry_at d of None \<Rightarrow> False | Some t \<Rightarrow> t \<le> now) \<and>
     (case row_of wh_id (wd_webhook_id d) hs of None \<Rightarrow> False | Some h \<Rightarrow> wh_is_active h)"

definition get_pending_retries :: "nat \<Rightarrow> webhook_delivery list webhook_prog" where
  "get_pending_retries limit =
     andThen (ext_call (WebhookDriver ''select webhook_deliveries'')) (\<lambda>_.
     andThen time_now (\<lambda>now.
     andThen get_state (\<lambda>w.
       ret (take limit (sort_key (\<lambda>d. case wd_next_retry_at d of Some t \<Rightarrow> t | None \<Rightarrow> 0)
         (filter (retry_due (webhooks w) now) (deliveries w)))))))"

section \<open>Signatures\<close>

text \<open>\<open>HMAC\<close> with SHA-256 over bytes.\<close>

definition string_of_words :: "word32 list \<Rightarrow> string" where
  "string_of_words ws = concat (map (\<lambda>w. map (\<lambda>k. char_of (unat (drop_bit k w AND 0xFF))) [24, 16, 8, 0]) ws)"

definition sha256_sum :: "string \<Rightarrow> string" where
  "sha256_sum s = string_of_words (sha256 s)"

definition hmac_block :: "string \<Rightarrow> string" where
  "hmac_block key = (let k = (if length key > 64 then sha256_sum key else key)
                     in k @ replicate (64 - length k) (char_of (0 :: nat)))"

definition xor_byte :: "nat \<Rightarrow> char \<Rightarrow> char" where
  "xor_byte m c = char_of ((of_char c :: nat) XOR m)"

definition hmac_sha256 :: "string \<Rightarrow> string \<Rightarrow> string" where
  "hmac_sha256 key msg =
     sha256_sum (map (xor_byte 0x5C) (hmac_block key) @ sha256_sum (map (xor_byte 0x36) (hmac_block key) @ msg))"

definition generate_signature :: "string \<Rightarrow> string \<Rightarrow> string \<Rightarrow> string" where
  "generate_signature secret timestamp payload = hex_encode (hmac_sha256 secret (timestamp @ ''.'' @ payload))"

definition verify_signature :: "string \<Rightarrow> string \<Rightarrow> string \<Rightarrow> string \<Rightarrow> bool" where
  "verify_signature secret timestamp signature payload \<longleftrightarrow>
     signature = generate_signature secret timestamp payload"

section \<open>The cipher\<close>

record webhook_config =
  wo_key :: string
  wo_seal :: "string \<Rightarrow> string \<Rightarrow> string \<Rightarrow> string"
  wo_open :: "string \<Rightarrow> string \<Rightarrow> string \<Rightarrow> string option"
  wo_marshal :: "webhook_payload \<Rightarrow> string"
  wo_locate :: "string \<Rightarrow> string \<Rightarrow> string option"

definition encrypt_bytes :: "webhook_config \<Rightarrow> string \<Rightarrow> string webhook_prog" where
  "encrypt_bytes cfg clear_text =
     (if length (wo_key cfg) \<noteq> 32 then fail (CipherError ''key must be 32 bytes'')
      else andThen (wrapped (WebhookWrap ''nonce generation'') (fill_random 12)) (\<lambda>nonce.
           ret (nonce @ wo_seal cfg (wo_key cfg) nonce clear_text)))"

definition decrypt_bytes :: "webhook_config \<Rightarrow> string \<Rightarrow> webhook_error + string" where
  "decrypt_bytes cfg ct =
     (if length (wo_key cfg) \<noteq> 32 then Inl (CipherError ''key must be 32 bytes'')
      else if length ct < 12 then Inl (CipherError ''ciphertext too short'')
      else case wo_open cfg (wo_key cfg) (take 12 ct) (drop 12 ct) of
        None \<Rightarrow> Inl (CipherError ''cipher: message authentication failed'') | Some p \<Rightarrow> Inr p)"

section \<open>The service\<close>

definition publish_webhook_event ::
  "string \<Rightarrow> uuid \<Rightarrow> uuid option \<Rightarrow> event_data \<Rightarrow> uuid option \<Rightarrow> unit webhook_prog" where
  "publish_webhook_event event org project info user =
     andThen time_now (\<lambda>now.
     andThen (ext_call (WebhookDriver ''publish'')) (\<lambda>_.
       modify (\<lambda>w. w\<lparr>webhook_bus := webhook_bus w @
         [\<lparr>wp_event = event, wp_timestamp = now, wp_org_id = org, wp_project_id = project,
           wp_data = info, wp_user_id = user, wp_test = None\<rparr>]\<rparr>)))"

definition announce :: "uuid \<Rightarrow> uuid option \<Rightarrow> event_data \<Rightarrow> uuid option \<Rightarrow> unit webhook_prog" where
  "announce org project info user =
     andThen (attempt (publish_webhook_event ''audit.log'' org project info user) :: (webhook_error + unit) webhook_prog) (\<lambda>_. ret ())"

definition generate_secret :: "string webhook_prog" where
  "generate_secret = andThen (fill_random 32) (\<lambda>bs. ret (hex_encode bs))"

definition svc_create_webhook :: "webhook_config \<Rightarrow> uuid \<Rightarrow> webhook_fields \<Rightarrow> uuid option \<Rightarrow> webhook webhook_prog" where
  "svc_create_webhook cfg org req user =
     andThen (wrapped (WebhookWrap ''failed to generate webhook secret'') generate_secret) (\<lambda>secret.
     andThen (if length (wo_key cfg) = 32
              then andThen (wrapped (WebhookWrap ''encrypting webhook secret'') (encrypt_bytes cfg secret))
                     (\<lambda>ct. ret (hex_encode ct, True))
              else ret (secret, False)) (\<lambda>(stored, enc).
     andThen uuid_new (\<lambda>i.
     andThen (wrapped (WebhookWrap ''failed to create webhook'') (create_webhook
       \<lparr>wh_id = i, wh_org_id = org, wh_project_id = wc_project_id req, wh_name = wc_name req, wh_url = wc_url req,
        wh_secret = stored, wh_encrypted = enc, wh_events = wc_events req, wh_is_active = True,
        wh_retry_attempts = (case wc_retry_attempts req of None \<Rightarrow> 3 | Some n \<Rightarrow> n),
        wh_timeout_seconds = (case wc_timeout_seconds req of None \<Rightarrow> 10 | Some n \<Rightarrow> n),
        wh_created_at = 0, wh_updated_at = 0, wh_created_by = user, wh_updated_by = user\<rparr>)) (\<lambda>wh.
     andThen (announce org (wc_project_id req) (NoteCreated i (wh_name wh) (wh_url wh) (wh_events wh)) user) (\<lambda>_.
       ret wh)))))"

definition patches :: "webhook_patch \<Rightarrow> bool" where
  "patches r \<longleftrightarrow> wu_name r \<noteq> None \<or> wu_url r \<noteq> None \<or> wu_events r \<noteq> None \<or> wu_is_active r \<noteq> None \<or>
     wu_retry_attempts r \<noteq> None \<or> wu_timeout_seconds r \<noteq> None"

definition or_old :: "'a \<Rightarrow> 'a option \<Rightarrow> 'a" where
  "or_old old x = (case x of None \<Rightarrow> old | Some v \<Rightarrow> v)"

definition patch_webhook :: "webhook_patch \<Rightarrow> webhook \<Rightarrow> webhook" where
  "patch_webhook r h = h\<lparr>wh_name := or_old (wh_name h) (wu_name r), wh_url := or_old (wh_url h) (wu_url r),
     wh_events := (if wu_events r = None then wh_events h else wu_events r), wh_is_active := or_old (wh_is_active h) (wu_is_active r),
     wh_retry_attempts := or_old (wh_retry_attempts h) (wu_retry_attempts r),
     wh_timeout_seconds := or_old (wh_timeout_seconds h) (wu_timeout_seconds r)\<rparr>"

definition svc_update_webhook :: "uuid \<Rightarrow> webhook_patch \<Rightarrow> uuid option \<Rightarrow> webhook webhook_prog" where
  "svc_update_webhook i r user =
     andThen (get_webhook i) (\<lambda>h.
       if \<not> patches r then ret h
       else andThen time_now (\<lambda>now.
            andThen (wrapped (WebhookWrap ''failed to update webhook'')
              (update_webhook ((patch_webhook r h)\<lparr>wh_updated_by := user, wh_updated_at := now\<rparr>))) (\<lambda>h'.
            andThen (announce (wh_org_id h') (wh_project_id h') (NoteUpdated i (wh_name h') r) user) (\<lambda>_. ret h'))))"

definition svc_delete_webhook :: "uuid \<Rightarrow> uuid option \<Rightarrow> unit webhook_prog" where
  "svc_delete_webhook i user =
     andThen (get_webhook i) (\<lambda>h.
     andThen (wrapped (WebhookWrap ''failed to delete webhook'') (delete_webhook i)) (\<lambda>_.
       announce (wh_org_id h) (wh_project_id h) (NoteDeleted i (wh_name h)) user))"

section \<open>Delivery\<close>

definition int_text :: "int \<Rightarrow> string" where
  "int_text i = (if i < 0 then CHR ''-'' # decimal (nat (- i)) else decimal (nat i))"

fun webhook_error_text :: "webhook_error \<Rightarrow> string" where
  "webhook_error_text WebhookNotFound = ''webhook not found''"
| "webhook_error_text WebhookRowMissing = ''not found''"
| "webhook_error_text (WebhookDriver e) = e"
| "webhook_error_text (CipherError e) = e"
| "webhook_error_text (RequestFailed e) = e"
| "webhook_error_text (ReturnedStatus n body) = ''webhook returned status '' @ int_text n @ '': '' @ body"
| "webhook_error_text (WebhookWrap m e) = m @ '': '' @ webhook_error_text e"

text \<open>A secret that cannot be decrypted is used as it is stored.\<close>

definition signing_secret :: "webhook_config \<Rightarrow> webhook \<Rightarrow> string" where
  "signing_secret cfg h =
     (if wh_encrypted h \<and> length (wo_key cfg) = 32
      then case hex_decode (wh_secret h) of
          None \<Rightarrow> wh_secret h
        | Some raw \<Rightarrow> (case decrypt_bytes cfg raw of Inl _ \<Rightarrow> wh_secret h | Inr p \<Rightarrow> p)
      else wh_secret h)"

text \<open>
  \<open>client.Do\<close> of a client without \<open>CheckRedirect\<close>: an answer 301, 302 or 303 with a location is
  followed by a request without body (a \<open>POST\<close> becomes a \<open>GET\<close>), an answer 307 or 308 by the same
  request again; the headers that were set are copied. After ten requests a further redirect
  is an error. \<open>wo_locate\<close> resolves a location against the address of the request.
\<close>

definition next_hop :: "webhook_config \<Rightarrow> webhook_request \<Rightarrow> http_answer \<Rightarrow> (string + webhook_request) option" where
  "next_hop cfg q a =
     (case a of
        Relocated st loc _ \<Rightarrow>
          if st \<notin> {301, 302, 303, 307, 308} \<or> loc = [] then None
          else (case wo_locate cfg (wr_url q) loc of
              None \<Rightarrow> Some (Inl ''failed to parse Location header'')
            | Some u \<Rightarrow> Some (Inr (if st \<in> {307, 308} then q\<lparr>wr_url := u\<rparr>
                                  else q\<lparr>wr_method := ''GET'', wr_url := u, wr_body := []\<rparr>)))
      | _ \<Rightarrow> None)"

fun final_answer :: "http_answer \<Rightarrow> string + (int \<times> string)" where
  "final_answer (Answered st text) = Inr (st, text)"
| "final_answer (Relocated st _ text) = Inr (st, text)"
| "final_answer (NoAnswer e) = Inl e"
| "final_answer (BadRequest e) = Inl e"

definition send_hop :: "webhook_request \<Rightarrow> http_answer webhook_prog" where
  "send_hop q =
     andThen get_state (\<lambda>w.
     andThen (modify (\<lambda>w. w\<lparr>asked := Suc (asked w), requests := requests w @ [q]\<rparr>)) (\<lambda>_.
       ret (answers w (asked w))))"

text \<open>\<open>n\<close>: how many more requests may be sent.\<close>

primrec follow_redirects ::
  "webhook_config \<Rightarrow> nat \<Rightarrow> webhook_request \<Rightarrow> http_answer \<Rightarrow> (string + (int \<times> string)) webhook_prog" where
  "follow_redirects cfg 0 q a =
     (case next_hop cfg q a of
        None \<Rightarrow> ret (final_answer a)
      | Some (Inl e) \<Rightarrow> ret (Inl e)
      | Some (Inr _) \<Rightarrow> ret (Inl ''stopped after 10 redirects''))"
| "follow_redirects cfg (Suc n) q a =
     (case next_hop cfg q a of
        None \<Rightarrow> ret (final_answer a)
      | Some (Inl e) \<Rightarrow> ret (Inl e)
      | Some (Inr q') \<Rightarrow> andThen (send_hop q') (\<lambda>a'. follow_redirects cfg n q' a'))"

definition deliver_webhook ::
  "webhook_config \<Rightarrow> webhook \<Rightarrow> webhook_delivery \<Rightarrow> webhook_payload \<Rightarrow>
   (webhook_delivery \<times> webhook_error option) webhook_prog" where
  "deliver_webhook cfg h d p =
     (let body = wo_marshal cfg p in
      andThen get_state (\<lambda>w.
      andThen (modify (\<lambda>w. w\<lparr>asked := Suc (asked w)\<rparr>)) (\<lambda>_.
        case answers w (asked w) of
          BadRequest e \<Rightarrow> ret (d, Some (WebhookWrap ''failed to create request'' (RequestFailed e)))
        | a \<Rightarrow>
          andThen time_now (\<lambda>now.
          andThen uuid_new (\<lambda>_.
            let stamp = int_text (now div seconds 1);
                q = \<lparr>wr_method = ''POST'', wr_url = wh_url h, wr_event = wp_event p, wr_timestamp = stamp,
                     wr_signature = generate_signature (signing_secret cfg h) stamp body, wr_body = body\<rparr>
            in andThen (modify (\<lambda>w. w\<lparr>requests := requests w @ [q]\<rparr>)) (\<lambda>_.
               andThen (follow_redirects cfg 9 q a) (\<lambda>res.
               case res of
                 Inr (st, text) \<Rightarrow>
                   let d' = d\<lparr>wd_http_status := Some st,
                              wd_response_body := (if text \<noteq> [] then Some text else wd_response_body d)\<rparr>
                   in ret (d', if 200 \<le> st \<and> st < 300 then None else Some (ReturnedStatus st text))
               | Inl e \<Rightarrow> ret (d, Some (WebhookWrap ''failed to send webhook'' (RequestFailed e))))))))))"

text \<open>
  The error of the delivery is bound inside the condition, so the one returned at the end is
  that of the first lookup, which is none. Nothing sets the time of a retry.
\<close>

definition svc_test_webhook ::
  "webhook_config \<Rightarrow> uuid \<Rightarrow> string \<Rightarrow> json \<Rightarrow>
   (webhook_world, webhook_delivery option \<times> webhook_error, webhook_delivery) prog" where
  "svc_test_webhook cfg i event doc =
     andThen (wrapped (Pair None) (get_webhook i)) (\<lambda>h.
     andThen time_now (\<lambda>now.
     andThen uuid_new (\<lambda>did.
     andThen time_now (\<lambda>made.
     andThen (wrapped (\<lambda>e. (None, WebhookWrap ''failed to create delivery record'' e)) (create_delivery
       \<lparr>wd_id = did, wd_webhook_id = wh_id h, wd_event_type = event, wd_payload = Given doc,
        wd_status = DeliveryPending, wd_http_status = None, wd_response_body = None, wd_error_message = None,
        wd_attempt_count = 0, wd_created_at = made, wd_sent_at = None, wd_next_retry_at = None\<rparr>)) (\<lambda>d.
     andThen (wrapped (Pair None) (deliver_webhook cfg h d
       \<lparr>wp_event = event, wp_timestamp = now, wp_org_id = wh_org_id h, wp_project_id = wh_project_id h,
        wp_data = Given doc, wp_user_id = None, wp_test = Some (wh_id h)\<rparr>)) (\<lambda>(d, res).
     andThen (case res of
         Some e \<Rightarrow> ret (d\<lparr>wd_status := DeliveryFailed, wd_error_message := Some (webhook_error_text e),
                        wd_attempt_count := 1\<rparr>)
       | None \<Rightarrow> andThen time_now (\<lambda>sent.
           ret (d\<lparr>wd_status := DeliverySent, wd_sent_at := Some sent, wd_attempt_count := 1\<rparr>))) (\<lambda>d.
     andThen (wrapped (\<lambda>e. (Some d, WebhookWrap ''webhook delivered but failed to update record'' e)) (update_delivery d)) (\<lambda>_.
       ret d))))))))"

definition retry_delivery :: "webhook_config \<Rightarrow> webhook_delivery \<Rightarrow> unit webhook_prog" where
  "retry_delivery cfg d =
     andThen (get_webhook (wd_webhook_id d)) (\<lambda>h.
       if \<not> wh_is_active h then update_delivery (d\<lparr>wd_status := DeliveryCancelled\<rparr>)
       else if \<not> should_retry d (wh_retry_attempts h)
       then update_delivery (d\<lparr>wd_status := DeliveryFailed, wd_next_retry_at := None\<rparr>)
       else
         andThen (deliver_webhook cfg h (d\<lparr>wd_attempt_count := Suc (wd_attempt_count d)\<rparr>)
           \<lparr>wp_event = wd_event_type d, wp_timestamp = wd_created_at d, wp_org_id = wh_org_id h,
            wp_project_id = wh_project_id h, wp_data = wd_payload d, wp_user_id = None, wp_test = None\<rparr>) (\<lambda>(d, res).
         andThen time_now (\<lambda>now.
           case res of
             Some e \<Rightarrow> update_delivery (d\<lparr>wd_status := DeliveryFailed, wd_error_message := Some (webhook_error_text e),
               wd_next_retry_at := Some (now + next_retry_delay (wd_attempt_count d))\<rparr>)
           | None \<Rightarrow> update_delivery (d\<lparr>wd_status := DeliverySent, wd_sent_at := Some now, wd_next_retry_at := None\<rparr>))))"

fun retry_all :: "webhook_config \<Rightarrow> webhook_delivery list \<Rightarrow> unit webhook_prog" where
  "retry_all cfg [] = ret ()"
| "retry_all cfg (d # ds) =
     andThen (attempt (retry_delivery cfg d) :: (webhook_error + unit) webhook_prog) (\<lambda>_. retry_all cfg ds)"

definition retry_failed_deliveries :: "webhook_config \<Rightarrow> unit webhook_prog" where
  "retry_failed_deliveries cfg =
     andThen (wrapped (WebhookWrap ''failed to get pending retries'') (get_pending_retries 100)) (retry_all cfg)"

section \<open>Listings\<close>

record webhook_filter =
  wl_project_id :: "uuid option"
  wl_is_active :: "bool option"
  wl_events :: "string list"
  wl_limit :: int
  wl_offset :: int

record delivery_filter =
  dl_status :: "delivery_status option"
  dl_event_type :: "string option"
  dl_since :: "time option"
  dl_limit :: int
  dl_offset :: int

text \<open>An offset without a limit is ignored.\<close>

definition page :: "int \<Rightarrow> int \<Rightarrow> 'a list \<Rightarrow> 'a list" where
  "page limit offset xs =
     (if limit > 0 then take (nat limit) (if offset > 0 then drop (nat offset) xs else xs) else xs)"

definition wanted_by :: "'a option \<Rightarrow> 'a \<Rightarrow> bool" where
  "wanted_by x v = (case x of None \<Rightarrow> True | Some y \<Rightarrow> y = v)"

definition get_webhooks_by_org :: "uuid \<Rightarrow> webhook_filter \<Rightarrow> webhook list webhook_prog" where
  "get_webhooks_by_org org q =
     andThen (ext_call (WebhookDriver ''select webhooks'')) (\<lambda>_.
     andThen get_state (\<lambda>w.
       ret (page (wl_limit q) (wl_offset q) (sort_key (\<lambda>h. - wh_created_at h) (filter (\<lambda>h.
         wh_org_id h = org \<and>
         (wl_project_id q = None \<or> wh_project_id h = wl_project_id q) \<and>
         wanted_by (wl_is_active q) (wh_is_active h) \<and>
         (wl_events q = [] \<or> list_ex (\<lambda>e. e \<in> set (wl_events q)) (or_old [] (wh_events h)))) (webhooks w))))))"

definition get_deliveries_by_webhook :: "uuid \<Rightarrow> delivery_filter \<Rightarrow> webhook_delivery list webhook_prog" where
  "get_deliveries_by_webhook i q =
     andThen (ext_call (WebhookDriver ''select webhook_deliveries'')) (\<lambda>_.
     andThen get_state (\<lambda>w.
       ret (page (dl_limit q) (dl_offset q) (sort_key (\<lambda>d. - wd_created_at d) (filter (\<lambda>d.
         wd_webhook_id d = i \<and>
         wanted_by (dl_status q) (wd_status d) \<and>
         wanted_by (dl_event_type q) (wd_event_type d) \<and>
         (case dl_since q of None \<Rightarrow> True | Some t \<Rightarrow> t \<le> wd_created_at d)) (deliveries w))))))"

section \<open>Addresses\<close>

datatype ip_address = V4 "32 word" | V6 "128 word"
datatype ip_net = Net4 "32 word" nat | Net6 "128 word" nat

definition private_ranges :: "ip_net list" where
  "private_ranges =
     [Net4 0x7F000000 8, Net4 0x0A000000 8, Net4 0xAC100000 12, Net4 0xC0A80000 16,
      Net4 0xA9FE0000 16, Net4 0 8,
      Net6 1 128, Net6 0xFE800000000000000000000000000000 10, Net6 0xFC000000000000000000000000000000 7]"

text \<open>An IPv4 address written as IPv6 counts as IPv4.\<close>

fun to4 :: "ip_address \<Rightarrow> ip_address" where
  "to4 (V4 a) = V4 a"
| "to4 (V6 a) = (if drop_bit 32 a = 0xFFFF then V4 (ucast a) else V6 a)"

fun net_contains :: "ip_net \<Rightarrow> ip_address \<Rightarrow> bool" where
  "net_contains (Net4 a k) (V4 x) = (drop_bit (32 - k) a = drop_bit (32 - k) x)"
| "net_contains (Net6 a k) (V6 x) = (drop_bit (128 - k) a = drop_bit (128 - k) x)"
| "net_contains _ _ = False"

definition private_address :: "ip_address \<Rightarrow> bool" where
  "private_address ip = list_ex (\<lambda>n. net_contains n (to4 ip)) private_ranges"

record url_parts =
  up_scheme :: string
  up_host :: string
  up_hostname :: string

text \<open>\<open>lookup_host\<close>: the addresses the name service knows; \<open>literal_ip\<close>: the address a text spells.\<close>

record net_world =
  parse_url :: "string \<Rightarrow> url_parts option"
  lookup_host :: "string \<Rightarrow> ip_address list option"
  literal_ip :: "string \<Rightarrow> ip_address option"

definition validate_webhook_url :: "net_world \<Rightarrow> string \<Rightarrow> bool" where
  "validate_webhook_url nw raw =
     (case parse_url nw raw of
        None \<Rightarrow> False
      | Some u \<Rightarrow>
          up_host u \<noteq> [] \<and>
          (equal_ignoring_case (up_scheme u) ''http'' \<or> equal_ignoring_case (up_scheme u) ''https'') \<and>
          \<not> names_field ''localhost'' (up_hostname u) \<and>
          (case lookup_host nw (up_hostname u) of
             Some ips \<Rightarrow> \<not> list_ex private_address ips
           | None \<Rightarrow> (case literal_ip nw (up_hostname u) of None \<Rightarrow> False | Some ip \<Rightarrow> \<not> private_address ip)))"

section \<open>Requests\<close>

text \<open>
  The organization and the user of the caller, each if the request carries one. A body that
  cannot be bound is None. What a request returns is the status and what it shows.
\<close>

record webhook_caller =
  wk_org :: "uuid option"
  wk_user :: "uuid option"

type_synonym 'a webhook_request_prog = "(webhook_world, nat, 'a) prog"

fun missing :: "webhook_error \<Rightarrow> bool" where
  "missing WebhookNotFound = True"
| "missing (WebhookWrap _ e) = missing e"
| "missing _ = False"

definition read_status :: "webhook_error \<Rightarrow> nat" where
  "read_status e = (if missing e then 404 else 500)"

definition create_webhook_request ::
  "webhook_config \<Rightarrow> net_world \<Rightarrow> webhook_caller \<Rightarrow> webhook_fields option \<Rightarrow> webhook webhook_request_prog" where
  "create_webhook_request cfg nw c req =
     (case req of
        None \<Rightarrow> fail 400
      | Some r \<Rightarrow>
          if \<not> validate_webhook_url nw (wc_url r) then fail 400
          else case wk_org c of
              None \<Rightarrow> fail 401
            | Some org \<Rightarrow> wrapped (\<lambda>_. 500) (svc_create_webhook cfg org r (wk_user c)))"

definition owned_webhook :: "webhook_caller \<Rightarrow> uuid \<Rightarrow> webhook webhook_request_prog" where
  "owned_webhook c i =
     andThen (wrapped read_status (get_webhook i)) (\<lambda>h.
       if wk_org c \<noteq> Some (wh_org_id h) then fail 404 else ret h)"

definition get_webhook_request :: "webhook_caller \<Rightarrow> uuid option \<Rightarrow> webhook webhook_request_prog" where
  "get_webhook_request c i = (case i of None \<Rightarrow> fail 400 | Some i \<Rightarrow> owned_webhook c i)"

text \<open>The organization is compared after the change is made.\<close>

definition update_webhook_request ::
  "net_world \<Rightarrow> webhook_caller \<Rightarrow> uuid option \<Rightarrow> webhook_patch option \<Rightarrow> webhook webhook_request_prog" where
  "update_webhook_request nw c i req =
     (case (i, req) of
        (Some i, Some r) \<Rightarrow>
          if (case wu_url r of None \<Rightarrow> False | Some u \<Rightarrow> u \<noteq> [] \<and> \<not> validate_webhook_url nw u) then fail 400
          else andThen (wrapped read_status (svc_update_webhook i r (wk_user c))) (\<lambda>h.
               if wk_org c \<noteq> Some (wh_org_id h) then fail 404 else ret h)
      | _ \<Rightarrow> fail 400)"

definition delete_webhook_request :: "webhook_caller \<Rightarrow> uuid option \<Rightarrow> unit webhook_request_prog" where
  "delete_webhook_request c i =
     (case i of
        None \<Rightarrow> fail 400
      | Some i \<Rightarrow> andThen (owned_webhook c i) (\<lambda>_. wrapped (\<lambda>_. 500) (svc_delete_webhook i (wk_user c))))"

definition all_webhook_events :: "string list" where
  "all_webhook_events =
     [''flag.created'', ''flag.updated'', ''flag.toggled'', ''flag.archived'', ''flag.evaluated'',
      ''flag.smoke_test.passed'', ''flag.smoke_test.failed'', ''flag.user_test.passed'', ''flag.user_test.failed'',
      ''flag.scheduled_for_removal.set'', ''flag.scheduled_for_removal.cancelled'', ''flag.scheduled_for_removal.due'',
      ''flag.iteration_exhausted'', ''deployment.created'', ''deployment.recorded'', ''deployment.started'',
      ''deployment.completed'', ''deployment.failed'', ''deployment.rolledback'', ''deployment.paused'',
      ''deployment.resumed'', ''deployment.phase_changed'', ''release.created'', ''release.promoted'',
      ''system.alert'', ''system.recovery'', ''audit.log'']"

text \<open>The answer of a test shows the record and whether the test succeeded.\<close>

definition test_webhook_request ::
  "webhook_config \<Rightarrow> webhook_caller \<Rightarrow> uuid option \<Rightarrow> (string \<times> json) option \<Rightarrow>
   (webhook_delivery \<times> bool) webhook_request_prog" where
  "test_webhook_request cfg c i req =
     (case (i, req) of
        (Some i, Some (event, doc)) \<Rightarrow>
          if event \<notin> set all_webhook_events then fail 400
          else andThen (owned_webhook c i) (\<lambda>_.
               andThen (attempt (svc_test_webhook cfg i event doc)) (\<lambda>res.
               case res of
                 Inr d \<Rightarrow> ret (d, True)
               | Inl (Some d, e) \<Rightarrow> ret (d, False)
               | Inl (None, e) \<Rightarrow> fail 500))
      | _ \<Rightarrow> fail 400)"

definition list_webhooks_request :: "webhook_caller \<Rightarrow> webhook_filter \<Rightarrow> webhook list webhook_request_prog" where
  "list_webhooks_request c q =
     (case wk_org c of None \<Rightarrow> fail 401 | Some org \<Rightarrow> wrapped (\<lambda>_. 500) (get_webhooks_by_org org q))"

definition get_deliveries_request ::
  "webhook_caller \<Rightarrow> uuid option \<Rightarrow> delivery_filter \<Rightarrow> webhook_delivery list webhook_request_prog" where
  "get_deliveries_request c i q =
     (case i of
        None \<Rightarrow> fail 400
      | Some i \<Rightarrow> andThen (owned_webhook c i) (\<lambda>_. wrapped (\<lambda>_. 500) (get_deliveries_by_webhook i q)))"

section \<open>Histories\<close>

datatype webhook_op =
    OpCreate webhook_caller "webhook_fields option"
  | OpGet webhook_caller "uuid option"
  | OpUpdate webhook_caller "uuid option" "webhook_patch option"
  | OpDelete webhook_caller "uuid option"
  | OpTest webhook_caller "uuid option" "(string \<times> json) option"
  | OpList webhook_caller webhook_filter
  | OpDeliveries webhook_caller "uuid option" delivery_filter
  | OpPublish string uuid "uuid option" event_data "uuid option"
  | OpRetry

fun exec_webhook_op :: "webhook_config \<Rightarrow> net_world \<Rightarrow> webhook_op \<Rightarrow> webhook_world \<Rightarrow> webhook_world" where
  "exec_webhook_op cfg nw (OpCreate c r) s = snd (create_webhook_request cfg nw c r s)"
| "exec_webhook_op cfg nw (OpGet c i) s = snd (get_webhook_request c i s)"
| "exec_webhook_op cfg nw (OpUpdate c i r) s = snd (update_webhook_request nw c i r s)"
| "exec_webhook_op cfg nw (OpDelete c i) s = snd (delete_webhook_request c i s)"
| "exec_webhook_op cfg nw (OpTest c i r) s = snd (test_webhook_request cfg c i r s)"
| "exec_webhook_op cfg nw (OpList c q) s = snd (list_webhooks_request c q s)"
| "exec_webhook_op cfg nw (OpDeliveries c i q) s = snd (get_deliveries_request c i q s)"
| "exec_webhook_op cfg nw (OpPublish e org p d u) s = snd (publish_webhook_event e org p d u s)"
| "exec_webhook_op cfg nw OpRetry s = snd (retry_failed_deliveries cfg s)"

end
