(* ===== verification/WebhookLaws.thy ===== *)
theory WebhookLaws
  imports Webhooks
begin

text \<open>
  What the webhooks do over any history of requests, who may change an endpoint, and that the
  receiver of a delivery can verify its signature.
\<close>

section \<open>Nothing but tests is sent\<close>

definition unretried :: "webhook_world \<Rightarrow> bool" where
  "unretried s \<longleftrightarrow> (\<forall>d \<in> set (deliveries s). wd_next_retry_at d = None)"

definition unsent :: "webhook_world \<Rightarrow> webhook_world \<Rightarrow> bool" where
  "unsent s t \<longleftrightarrow> (unretried s \<longrightarrow> unretried t) \<and> requests t = requests s"

interpretation unsent: frame unsent
  by unfold_locales (auto simp: unsent_def)

lemma unsent_env:
  "keeps unsent (ext_call e)" "keeps unsent time_now" "keeps unsent uuid_new" "keeps unsent (fill_random k)"
  by (auto simp: keeps_def prog_defs unsent_def unretried_def fill_random_def)

lemma unsent_tables:
  "keeps unsent (modify (\<lambda>w. w\<lparr>webhooks := f w\<rparr>))"
  "keeps unsent (modify (\<lambda>w. w\<lparr>webhook_bus := g w\<rparr>))"
  "keeps unsent (modify (\<lambda>w. w\<lparr>asked := k w\<rparr>))"
  "keeps unsent (modify (\<lambda>w. w\<lparr>webhooks := f w, deliveries := filter P (deliveries w)\<rparr>))"
  by (auto simp: keeps_def prog_defs unsent_def unretried_def)

lemmas unsent_prims = unsent.keeps_rules unsent_env unsent_tables

lemma unsent_repository:
  "keeps unsent (create_webhook h)" "keeps unsent (get_webhook i)" "keeps unsent (update_webhook h)"
  "keeps unsent (delete_webhook i)" "keeps unsent (get_pending_retries n)"
  "keeps unsent (get_webhooks_by_org org q)" "keeps unsent (get_deliveries_by_webhook i q')"
  unfolding create_webhook_def get_webhook_def update_webhook_def delete_webhook_def get_pending_retries_def
    get_webhooks_by_org_def get_deliveries_by_webhook_def Let_def
  by (intro unsent_prims)+

lemma unsent_service:
  "keeps unsent (publish_webhook_event e org p d u)" "keeps unsent (announce org p d u)"
  "keeps unsent (svc_create_webhook cfg org r u)" "keeps unsent (svc_update_webhook i x u)"
  "keeps unsent (svc_delete_webhook i u)"
  unfolding publish_webhook_event_def announce_def svc_create_webhook_def svc_update_webhook_def svc_delete_webhook_def
    generate_secret_def encrypt_bytes_def
  by (auto intro!: unsent_prims unsent_repository split: prod.split)

lemma unsent_requests:
  "keeps unsent (create_webhook_request cfg nw c r)" "keeps unsent (get_webhook_request c i)"
  "keeps unsent (owned_webhook c j)"
  "keeps unsent (update_webhook_request nw c i x)" "keeps unsent (delete_webhook_request c i)"
  "keeps unsent (list_webhooks_request c q)" "keeps unsent (get_deliveries_request c i q')"
  unfolding create_webhook_request_def get_webhook_request_def update_webhook_request_def delete_webhook_request_def
    list_webhooks_request_def get_deliveries_request_def owned_webhook_def
  by (auto intro!: unsent_prims unsent_repository unsent_service split: option.split)

lemma nothing_to_retry: "unretried s \<Longrightarrow> filter (retry_due hs now) (deliveries s) = []"
  by (auto simp: unretried_def retry_due_def filter_empty_conv)

lemma unsent_retry: "unretried s \<Longrightarrow> unsent s (snd (retry_failed_deliveries cfg s))"
  by (auto simp: retry_failed_deliveries_def get_pending_retries_def prog_defs nothing_to_retry unsent_def
      unretried_def[of "_\<lparr>calls := _\<rparr>"] unretried_def[of "_\<lparr>calls := _, reads := _\<rparr>"] unretried_def
      retry_due_def filter_empty_conv cong: filter_cong)

definition sends :: "nat \<Rightarrow> webhook_world \<Rightarrow> webhook_world \<Rightarrow> bool" where
  "sends n s t \<longleftrightarrow> (unretried s \<longrightarrow> unretried t) \<and> length (requests t) \<le> length (requests s) + n"

lemma unsent_after: "unsent s t \<Longrightarrow> sends n s t"
  by (simp add: unsent_def sends_def)

lemma sends_trans: "sends m s t \<Longrightarrow> sends n t u \<Longrightarrow> sends (m + n) s u"
  by (simp add: sends_def)

text \<open>
  Following redirects sends at most the allowed number of further requests, touches nothing else,
  and posts nothing but the body, the timestamp and the signature of the first request.
\<close>

definition reposts :: "webhook_request \<Rightarrow> webhook_request \<Rightarrow> bool" where
  "reposts q q' \<longleftrightarrow> wr_timestamp q' = wr_timestamp q \<and> wr_signature q' = wr_signature q \<and>
     (wr_method q' = ''POST'' \<longrightarrow> wr_method q = ''POST'' \<and> wr_body q' = wr_body q)"

lemma reposts_trans: "reposts q q' \<Longrightarrow> reposts q' q'' \<Longrightarrow> reposts q q''"
  by (auto simp: reposts_def)

lemma next_hop_reposts: "next_hop cfg q a = Some (Inr q') \<Longrightarrow> reposts q q'"
  by (auto simp: next_hop_def reposts_def split: http_answer.splits option.splits if_splits)

lemma follow_answered:
  "follow_redirects cfg n q (Answered st text) s = (Inr (Inr (st, text)), s)"
  by (cases n) (simp_all add: next_hop_def ret_def)

lemma follow_stops:
  assumes "n = 0 \<or> (\<nexists>q'. next_hop cfg q a = Some (Inr q'))"
  shows "\<exists>res. follow_redirects cfg n q a s = (Inr res, s)"
  using assms by (cases n) (auto simp: ret_def split: option.splits sum.splits)

lemma follow_hop:
  "next_hop cfg q a = Some (Inr q') \<Longrightarrow> follow_redirects cfg (Suc n) q a s =
     follow_redirects cfg n q' (answers s (asked s)) (s\<lparr>asked := Suc (asked s), requests := requests s @ [q']\<rparr>)"
  by (simp add: send_hop_def prog_defs)

lemma follow_run:
  "\<exists>res qs k. follow_redirects cfg n q a s = (Inr res, s\<lparr>asked := k, requests := requests s @ qs\<rparr>) \<and>
     length qs \<le> n \<and> (\<forall>q' \<in> set qs. reposts q q')"
proof (induction n arbitrary: q a s)
  case 0
  obtain res where "follow_redirects cfg 0 q a s = (Inr res, s)" using follow_stops[of 0 cfg q a s] by blast
  then show ?case by (intro exI[of _ res] exI[of _ "[]"] exI[of _ "asked s"]) simp
next
  case (Suc n)
  show ?case
  proof (cases "\<exists>q'. next_hop cfg q a = Some (Inr q')")
    case False
    then obtain res where "follow_redirects cfg (Suc n) q a s = (Inr res, s)"
      using follow_stops[of "Suc n" cfg q a s] by blast
    then show ?thesis by (intro exI[of _ res] exI[of _ "[]"] exI[of _ "asked s"]) simp
  next
    case True
    then obtain q' where q': "next_hop cfg q a = Some (Inr q')" by blast
    let ?s = "s\<lparr>asked := Suc (asked s), requests := requests s @ [q']\<rparr>"
    obtain res qs k where run: "follow_redirects cfg n q' (answers s (asked s)) ?s =
        (Inr res, ?s\<lparr>asked := k, requests := requests ?s @ qs\<rparr>)"
      and qs: "length qs \<le> n" "\<forall>p \<in> set qs. reposts q' p"
      using Suc.IH[of q' "answers s (asked s)" ?s] by blast
    have "follow_redirects cfg (Suc n) q a s = (Inr res, s\<lparr>asked := k, requests := requests s @ (q' # qs)\<rparr>)"
      using run unfolding follow_hop[OF q'] by simp
    moreover have "\<forall>p \<in> set (q' # qs). reposts q p"
      using next_hop_reposts[OF q'] qs(2) reposts_trans by auto
    ultimately show ?thesis using qs(1) by (intro exI[of _ res] exI[of _ "q' # qs"] exI[of _ k]) simp
  qed
qed

text \<open>One attempt sends at most ten requests and leaves the time of a retry as it was.\<close>

definition first_request :: "webhook_config \<Rightarrow> webhook \<Rightarrow> webhook_payload \<Rightarrow> time \<Rightarrow> webhook_request" where
  "first_request cfg h p now = \<lparr>wr_method = ''POST'', wr_url = wh_url h, wr_event = wp_event p,
     wr_timestamp = int_text (now div seconds 1),
     wr_signature = generate_signature (signing_secret cfg h) (int_text (now div seconds 1)) (wo_marshal cfg p),
     wr_body = wo_marshal cfg p\<rparr>"

definition settle :: "webhook_delivery \<Rightarrow> string + (int \<times> string) \<Rightarrow> webhook_delivery \<times> webhook_error option" where
  "settle d res =
     (case res of
        Inr (st, text) \<Rightarrow>
          (d\<lparr>wd_http_status := Some st, wd_response_body := (if text \<noteq> [] then Some text else wd_response_body d)\<rparr>,
           if 200 \<le> st \<and> st < 300 then None else Some (ReturnedStatus st text))
      | Inl e \<Rightarrow> (d, Some (WebhookWrap ''failed to send webhook'' (RequestFailed e))))"

lemma deliver_settles:
  assumes "\<nexists>e. answers s (asked s) = BadRequest e"
    and "follow_redirects cfg 9 (first_request cfg h p (clock s (reads s))) (answers s (asked s))
      (s\<lparr>asked := Suc (asked s), reads := Suc (reads s), minted := Suc (minted s),
         requests := requests s @ [first_request cfg h p (clock s (reads s))]\<rparr>) = (Inr res, t)"
  shows "deliver_webhook cfg h d p s = (Inr (settle d res), t)"
proof -
  have "deliver_webhook cfg h d p s =
      andThen (follow_redirects cfg 9 (first_request cfg h p (clock s (reads s))) (answers s (asked s)))
        (\<lambda>res. ret (settle d res))
        (s\<lparr>asked := Suc (asked s), reads := Suc (reads s), minted := Suc (minted s),
           requests := requests s @ [first_request cfg h p (clock s (reads s))]\<rparr>)"
    using assms(1)
    by (cases "answers s (asked s)")
      (simp_all add: deliver_webhook_def first_request_def settle_def prog_defs Let_def split: sum.split prod.split)
  then show ?thesis using assms(2) by (simp add: andThen_def ret_def)
qed

lemma deliver_run:
  "\<exists>d' e qs t. deliver_webhook cfg h d p s = (Inr (d', e), t) \<and> deliveries t = deliveries s \<and>
     requests t = requests s @ qs \<and> wd_next_retry_at d' = wd_next_retry_at d \<and> length qs \<le> 10 \<and>
     (qs \<noteq> [] \<longrightarrow> (\<exists>now. hd qs = first_request cfg h p now \<and> (\<forall>q \<in> set (tl qs). reposts (hd qs) q)))"
proof (cases "\<exists>e. answers s (asked s) = BadRequest e")
  case True
  then obtain e where "answers s (asked s) = BadRequest e" by blast
  then have "deliver_webhook cfg h d p s =
      (Inr (d, Some (WebhookWrap ''failed to create request'' (RequestFailed e))), s\<lparr>asked := Suc (asked s)\<rparr>)"
    by (simp add: deliver_webhook_def prog_defs Let_def)
  then show ?thesis by auto
next
  case False
  let ?q = "first_request cfg h p (clock s (reads s))"
  let ?s = "s\<lparr>asked := Suc (asked s), reads := Suc (reads s), minted := Suc (minted s), requests := requests s @ [?q]\<rparr>"
  obtain res qs k where f: "follow_redirects cfg 9 ?q (answers s (asked s)) ?s =
      (Inr res, ?s\<lparr>asked := k, requests := requests ?s @ qs\<rparr>)"
    and qs: "length qs \<le> 9" "\<forall>q \<in> set qs. reposts ?q q"
    using follow_run[of cfg 9 ?q "answers s (asked s)" ?s] by blast
  have "deliver_webhook cfg h d p s = (Inr (settle d res), ?s\<lparr>asked := k, requests := requests ?s @ qs\<rparr>)"
    using deliver_settles[OF False f] .
  moreover obtain d' e where "settle d res = (d', e)" "wd_next_retry_at d' = wd_next_retry_at d"
    by (rule that[of "fst (settle d res)" "snd (settle d res)"]) (auto simp: settle_def split: sum.splits prod.splits)
  ultimately have run: "deliver_webhook cfg h d p s = (Inr (d', e), ?s\<lparr>asked := k, requests := requests ?s @ qs\<rparr>)"
    and "wd_next_retry_at d' = wd_next_retry_at d" by simp_all
  with qs show ?thesis
    by (intro exI[of _ d'] exI[of _ e] exI[of _ "?q # qs"] exI[of _ "?s\<lparr>asked := k, requests := requests ?s @ qs\<rparr>"]) auto
qed

lemma deliver_sends:
  assumes "deliver_webhook cfg h d p s = (r, t)"
  shows "sends 10 s t" and "r = Inr (d', e) \<Longrightarrow> wd_next_retry_at d' = wd_next_retry_at d"
  using deliver_run[of cfg h d p s] assms by (auto simp: sends_def unretried_def)

lemma update_delivery_sends:
  "wd_next_retry_at d = None \<Longrightarrow> update_delivery d s = (r, t) \<Longrightarrow> sends 0 s t"
  by (auto simp: update_delivery_def prog_defs sends_def unretried_def write_delivery_def update_row_def
      split: if_splits)

lemma create_delivery_sends:
  assumes "create_delivery d s = (r, t)" and "wd_next_retry_at d = None"
  shows "sends 0 s t" and "r = Inr d' \<Longrightarrow> wd_next_retry_at d' = None"
  using assms by (auto simp: create_delivery_def prog_defs sends_def unretried_def Let_def split: if_splits)

definition sent_at_most :: "nat \<Rightarrow> webhook_world \<Rightarrow> bool" where
  "sent_at_most n s \<longleftrightarrow> unretried s \<and> length (requests s) \<le> n"

lemma sent_after: "sends k s t \<Longrightarrow> sent_at_most n s \<Longrightarrow> sent_at_most (n + k) t"
  by (auto simp: sent_at_most_def sends_def)

lemma sent_mono: "sent_at_most n s \<Longrightarrow> n \<le> m \<Longrightarrow> sent_at_most m s"
  by (simp add: sent_at_most_def)

lemma sent_unsent: "keeps unsent m \<Longrightarrow> spec (sent_at_most n) m (\<lambda>_. sent_at_most n) (sent_at_most n)"
  by (auto simp: spec_def keeps_def unsent_def sent_at_most_def split: prod.splits sum.splits)

lemma sent_deliver:
  "spec (\<lambda>s. wd_next_retry_at d = None \<and> sent_at_most n s) (deliver_webhook cfg h d p)
     (\<lambda>(d', e) s. wd_next_retry_at d' = None \<and> sent_at_most (n + 10) s) (sent_at_most (n + 10))"
proof (rule specI)
  fix s x t assume s: "wd_next_retry_at d = None \<and> sent_at_most n s" and run: "deliver_webhook cfg h d p s = (Inr x, t)"
  obtain d' e where x: "x = (d', e)" by (cases x)
  from deliver_sends[OF run] x s sent_after[of 10 s t n]
  show "(\<lambda>(d', e) s. wd_next_retry_at d' = None \<and> sent_at_most (n + 10) s) x t" by auto
next
  fix s e t assume s: "wd_next_retry_at d = None \<and> sent_at_most n s" and run: "deliver_webhook cfg h d p s = (Inl e, t)"
  from deliver_sends(1)[OF run] s sent_after[of 10 s t n] show "sent_at_most (n + 10) t" by auto
qed

lemma sent_create_delivery:
  assumes "wd_next_retry_at d = None"
  shows "spec (sent_at_most n) (create_delivery d) (\<lambda>d' s. wd_next_retry_at d' = None \<and> sent_at_most n s) (sent_at_most n)"
proof (rule specI)
  show "wd_next_retry_at d' = None \<and> sent_at_most n t" if "sent_at_most n s" "create_delivery d s = (Inr d', t)" for s d' t
    using create_delivery_sends[OF that(2) assms] sent_after[of 0 s t n] that(1) by simp
  show "sent_at_most n t" if "sent_at_most n s" "create_delivery d s = (Inl e, t)" for s e t
    using create_delivery_sends(1)[OF that(2) assms] sent_after[of 0 s t n] that(1) by simp
qed

lemma sent_update_delivery:
  assumes "wd_next_retry_at d = None"
  shows "spec (sent_at_most n) (update_delivery d) (\<lambda>_. sent_at_most n) (sent_at_most n)"
proof (rule specI)
  show "sent_at_most n t" if "sent_at_most n s" "update_delivery d s = (Inr x, t)" for s x t
    using update_delivery_sends[OF assms that(2)] sent_after[of 0 s t n] that(1) by simp
  show "sent_at_most n t" if "sent_at_most n s" "update_delivery d s = (Inl e, t)" for s e t
    using update_delivery_sends[OF assms that(2)] sent_after[of 0 s t n] that(1) by simp
qed

lemma sent_step:
  assumes m: "keeps unsent m" and n: "n \<le> k" and f: "\<And>x. spec (sent_at_most n) (f x) Q (sent_at_most k)"
  shows "spec (sent_at_most n) (andThen m f) Q (sent_at_most k)"
proof (rule spec_andThen[OF _ f])
  show "spec (sent_at_most n) m (\<lambda>_. sent_at_most n) (sent_at_most k)"
    by (rule spec_post[OF sent_unsent[OF m]]) (use n in \<open>auto intro: sent_mono\<close>)
qed

lemma sent_finish:
  assumes "wd_next_retry_at d = None"
  shows "spec (sent_at_most n)
    (andThen (case res of
       Some e \<Rightarrow> ret (d\<lparr>wd_status := DeliveryFailed, wd_error_message := Some (webhook_error_text e), wd_attempt_count := 1\<rparr>)
     | None \<Rightarrow> andThen time_now (\<lambda>sent. ret (d\<lparr>wd_status := DeliverySent, wd_sent_at := Some sent, wd_attempt_count := 1\<rparr>)))
     (\<lambda>d. andThen (wrapped (k d) (update_delivery d)) (\<lambda>_. ret d)))
    (\<lambda>_. sent_at_most n) (sent_at_most n)"
proof (rule spec_andThen[where R = "\<lambda>d s. wd_next_retry_at d = None \<and> sent_at_most n s"])
  show "spec (sent_at_most n)
    (case res of
       Some e \<Rightarrow> ret (d\<lparr>wd_status := DeliveryFailed, wd_error_message := Some (webhook_error_text e), wd_attempt_count := 1\<rparr>)
     | None \<Rightarrow> andThen time_now (\<lambda>sent. ret (d\<lparr>wd_status := DeliverySent, wd_sent_at := Some sent, wd_attempt_count := 1\<rparr>)))
    (\<lambda>d s. wd_next_retry_at d = None \<and> sent_at_most n s) (sent_at_most n)"
    using assms by (auto simp: spec_def prog_defs sent_at_most_def unretried_def split: option.splits)
next
  fix d :: webhook_delivery
  show "spec (\<lambda>s. wd_next_retry_at d = None \<and> sent_at_most n s) (andThen (wrapped (k d) (update_delivery d)) (\<lambda>_. ret d))
    (\<lambda>_. sent_at_most n) (sent_at_most n)"
    by (rule spec_assume, rule spec_andThen, rule spec_wrapped, erule sent_update_delivery, rule spec_ret)
qed

lemma sent_deliver_finish:
  assumes "wd_next_retry_at d = None" and "\<And>d res. wd_next_retry_at d = None \<Longrightarrow> spec (sent_at_most (n + 10)) (f d res) Q (sent_at_most (n + 10))"
  shows "spec (sent_at_most n) (andThen (wrapped k (deliver_webhook cfg h d p)) (\<lambda>(d, res). f d res)) Q (sent_at_most (n + 10))"
proof (rule spec_andThen[where R = "\<lambda>(d, e) s. wd_next_retry_at d = None \<and> sent_at_most (n + 10) s"])
  show "spec (sent_at_most n) (wrapped k (deliver_webhook cfg h d p))
    (\<lambda>(d, e) s. wd_next_retry_at d = None \<and> sent_at_most (n + 10) s) (sent_at_most (n + 10))"
    by (rule spec_wrapped, rule spec_pre[OF sent_deliver]) (simp add: assms(1))
next
  fix x :: "webhook_delivery \<times> webhook_error option"
  obtain d res where x: "x = (d, res)" by (cases x)
  show "spec ((\<lambda>(d, e) s. wd_next_retry_at d = None \<and> sent_at_most (n + 10) s) x) (case x of (d, res) \<Rightarrow> f d res) Q (sent_at_most (n + 10))"
    unfolding x prod.case by (rule spec_assume) (rule assms(2))
qed

lemma sent_create_finish:
  assumes "wd_next_retry_at d = None" and "\<And>d. wd_next_retry_at d = None \<Longrightarrow> spec (sent_at_most n) (f d) Q (sent_at_most (n + 10))"
  shows "spec (sent_at_most n) (andThen (wrapped k (create_delivery d)) f) Q (sent_at_most (n + 10))"
proof (rule spec_andThen[where R = "\<lambda>d s. wd_next_retry_at d = None \<and> sent_at_most n s"])
  show "spec (sent_at_most n) (wrapped k (create_delivery d)) (\<lambda>d s. wd_next_retry_at d = None \<and> sent_at_most n s) (sent_at_most (n + 10))"
    by (rule spec_wrapped, rule spec_post[OF sent_create_delivery[OF assms(1)]]) (auto intro: sent_mono)
  fix d
  show "spec (\<lambda>s. wd_next_retry_at d = None \<and> sent_at_most n s) (f d) Q (sent_at_most (n + 10))"
    by (rule spec_assume) (rule assms(2))
qed

lemma sent_test:
  "spec (sent_at_most n) (svc_test_webhook cfg i event doc) (\<lambda>_. sent_at_most (n + 10)) (sent_at_most (n + 10))"
  unfolding svc_test_webhook_def
  apply (rule sent_step[OF unsent.keeps_wrapped[OF unsent_repository(2)]], simp)
  apply (rule sent_step[OF unsent_env(2)], simp)
  apply (rule sent_step[OF unsent_env(3)], simp)
  apply (rule sent_step[OF unsent_env(2)], simp)
  apply (rule sent_create_finish, simp)
  apply (rule sent_deliver_finish, assumption)
  apply (erule sent_finish)
  done

lemma sent_test_request: "sent_at_most n s \<Longrightarrow> sent_at_most (n + 10) (snd (test_webhook_request cfg c i r s))"
proof -
  have tail: "spec (sent_at_most n) (andThen (attempt (svc_test_webhook cfg j e doc)) (\<lambda>res. case res of
      Inr d \<Rightarrow> ret (d, True) | Inl (Some d, e) \<Rightarrow> ret (d, False) | Inl (None, e) \<Rightarrow> fail (500 :: nat)))
    (\<lambda>_. sent_at_most (n + 10)) (sent_at_most (n + 10))" for j e doc
  proof (rule spec_andThen[where R = "\<lambda>_. sent_at_most (n + 10)"])
    show "spec (sent_at_most n) (attempt (svc_test_webhook cfg j e doc)) (\<lambda>_. sent_at_most (n + 10)) (sent_at_most (n + 10))"
      by (rule spec_attempt) (use sent_test[of n cfg j e doc] in simp)
  qed (auto split: sum.split option.split prod.split intro!: spec_ret spec_fail)
  have "spec (sent_at_most n) (test_webhook_request cfg c i r) (\<lambda>_. sent_at_most (n + 10)) (sent_at_most (n + 10))"
    unfolding test_webhook_request_def
    by (auto split: option.split prod.split intro!: sent_step[OF unsent_requests(3)] tail spec_fail intro: sent_mono)
  then show "sent_at_most n s \<Longrightarrow> ?thesis"
    by (cases "test_webhook_request cfg c i r s") (auto simp: spec_def split: sum.splits)
qed

fun is_test :: "webhook_op \<Rightarrow> bool" where
  "is_test (OpTest _ _ _) = True"
| "is_test _ = False"

lemma sent_op:
  assumes "sent_at_most n s"
  shows "sent_at_most (if is_test x then n + 10 else n) (exec_webhook_op cfg nw x s)"
proof -
  have quiet: "unsent s (snd (m s)) \<Longrightarrow> sent_at_most n (snd (m s))" for m :: "(webhook_world, 'e, 'a) prog"
    using assms by (simp add: unsent_def sent_at_most_def)
  have kept: "keeps unsent m \<Longrightarrow> unsent s (snd (m s))" for m :: "(webhook_world, 'e, 'a) prog"
    by (simp add: keeps_def)
  have "unretried s" using assms by (simp add: sent_at_most_def)
  with assms show ?thesis
    by (cases x) (auto intro!: quiet kept[OF unsent_requests(1)] kept[OF unsent_requests(2)] kept[OF unsent_requests(4)]
      kept[OF unsent_requests(5)] kept[OF unsent_requests(6)] kept[OF unsent_requests(7)] kept[OF unsent_service(1)]
      unsent_retry sent_test_request)
qed

text \<open>
  C15. Over any history of requests, publications and rounds of retries that starts without
  deliveries, no delivery ever waits for a retry, and at most ten requests go out per test (one,
  and nine that follow redirects of its receiver): the events that are published reach no
  endpoint.
\<close>

theorem webhook_history:
  assumes "deliveries s = []" and "t = fold (exec_webhook_op cfg nw) xs s"
  shows "unretried t \<and> length (requests t) \<le> length (requests s) + 10 * length (filter is_test xs)"
proof -
  have "sent_at_most n s \<Longrightarrow> sent_at_most (n + 10 * length (filter is_test xs)) (fold (exec_webhook_op cfg nw) xs s)" for n s
  proof (induction xs arbitrary: n s)
    case (Cons x xs)
    from Cons.IH[OF sent_op[OF Cons.prems, of x cfg nw]] show ?case
      by (cases "is_test x") (simp_all add: algebra_simps)
  qed simp
  from this[of "length (requests s)" s] assms
  show ?thesis
    by (simp_all add: sent_at_most_def unretried_def)
qed

section \<open>Who changes an endpoint\<close>

text \<open>
  C16. A request that changes an endpoint changes it whoever sends it: a caller of another
  organization is told that there is no such endpoint, after its address has been replaced.
\<close>

theorem foreign_webhook_update:
  assumes calm: "calm s" and row: "row_of wh_id i (webhooks s) = Some h" and r: "patches r"
    and url: "\<And>u. wu_url r = Some u \<Longrightarrow> u = [] \<or> validate_webhook_url nw u"
    and refs: "\<And>x. webhook_refs s x" and columns: "storable_webhook (patch_webhook r h)"
    and run: "update_webhook_request nw c (Some i) (Some r) s = (res, t)"
  shows "(\<exists>h'. row_of wh_id i (webhooks t) = Some h' \<and> wh_url h' = or_old (wh_url h) (wu_url r) \<and> wh_secret h' = wh_secret h) \<and>
    (wk_org c \<noteq> Some (wh_org_id h) \<longleftrightarrow> res = Inl 404)"
proof -
  let ?h = "(patch_webhook r h)\<lparr>wh_updated_by := wk_user c, wh_updated_at := clock s (reads s)\<rparr>"
  let ?w = "update_row wh_id i (write_webhook ?h (clock s (Suc (reads s)))) (webhooks s)"
  have key: "wh_id h = i" using row row_of_Some by fastforce
  have same: "wh_id (patch_webhook r h) = i" "wh_org_id (patch_webhook r h) = wh_org_id h"
    "wh_name (patch_webhook r h) = or_old (wh_name h) (wu_name r)"
    using key by (simp_all add: patch_webhook_def)
  have columns': "storable_webhook ?h" using columns by (simp add: storable_webhook_def)
  have ok: "\<not> (case wu_url r of None \<Rightarrow> False | Some u \<Rightarrow> u \<noteq> [] \<and> \<not> validate_webhook_url nw u)"
    using url by (auto split: option.split)
  have "webhooks t = ?w \<and> res = (if wk_org c \<noteq> Some (wh_org_id h) then Inl 404 else Inr (?h\<lparr>wh_updated_at := clock s (Suc (reads s))\<rparr>))"
    using run calm row refs columns' ok r same key
    by (auto simp: update_webhook_request_def svc_update_webhook_def get_webhook_def update_webhook_def announce_def
        publish_webhook_event_def prog_defs Let_def split: if_splits)
  moreover have "row_of wh_id i ?w = Some (write_webhook ?h (clock s (Suc (reads s))) h)"
    using row by (subst row_of_update) (simp_all add: write_webhook_def)
  ultimately show ?thesis
    by (auto simp: write_webhook_def patch_webhook_def)
qed

section \<open>Signatures\<close>

lemma signing_secret_sealed:
  assumes "wh_encrypted h" "length (wo_key cfg) = 32" "wh_secret h = hex_encode (nonce @ wo_seal cfg (wo_key cfg) nonce p)"
    "length nonce = 12" "\<And>k n p. wo_open cfg k n (wo_seal cfg k n p) = Some p"
  shows "signing_secret cfg h = p"
  using assms by (simp add: signing_secret_def hex_decode_encode decrypt_bytes_def)

text \<open>
  C27. The secret of a new endpoint, stored under the cipher or as it is, is the secret a delivery is
  signed with, so a receiver that knows it verifies what it gets, and so does every receiver that
  is posted the delivery again after a redirect. The cipher opens what it sealed under the same
  key and nonce.
\<close>

theorem delivery_verifies:
  assumes cipher: "\<And>k n p. wo_open cfg k n (wo_seal cfg k n p) = Some p"
    and random: "\<And>n k. length (random_source s n k) = k"
    and made: "svc_create_webhook cfg org req user s = (Inr h, s')"
    and sent: "deliver_webhook cfg h d p u = (Inr x, v)"
    and q: "requests v = requests u @ q # qs"
  shows "\<forall>p \<in> set (q # qs). p = q \<or> wr_method p = ''POST'' \<longrightarrow>
    verify_signature (hex_encode (random_source s (random_reads s) 32)) (wr_timestamp p) (wr_signature p) (wr_body p)"
proof -
  have secret: "signing_secret cfg h = hex_encode (random_source s (random_reads s) 32)"
  proof (cases "length (wo_key cfg) = 32")
    case True
    with made random show ?thesis
      by (auto simp: svc_create_webhook_def generate_secret_def fill_random_def encrypt_bytes_def create_webhook_def
          prog_defs Let_def split: if_splits sum.splits prod.splits
          intro!: signing_secret_sealed[OF _ _ _ _ cipher])
  next
    case False
    with made show ?thesis
      by (auto simp: svc_create_webhook_def generate_secret_def fill_random_def encrypt_bytes_def create_webhook_def
          prog_defs Let_def signing_secret_def split: if_splits sum.splits prod.splits)
  qed
  from deliver_run[of cfg h d p u] sent q obtain now where
    first: "q = first_request cfg h p now" and rest: "\<forall>p \<in> set qs. reposts q p" by auto
  from first have "wr_signature q = generate_signature (signing_secret cfg h) (wr_timestamp q) (wr_body q)"
    "wr_method q = ''POST''" by (simp_all add: first_request_def)
  with secret rest show ?thesis by (auto simp: verify_signature_def reposts_def)
qed

section \<open>Backoff and addresses\<close>

text \<open>
  The delay doubles from one minute and stays at an hour, as long as the product fits; from the
  28th attempt on it does not, and the next retry lies in the past.
\<close>

lemma next_retry_delay_exact:
  assumes "n \<le> 27"
  shows "next_retry_delay n = min (2 ^ n * minutes 1) (minutes 60)"
proof -
  have "\<forall>n \<in> set [0..<28]. next_retry_delay n = min (2 ^ n * minutes 1) (minutes 60)"
    by (simp add: upt_rec next_retry_delay_def Let_def) 
  with assms show ?thesis by simp
qed

theorem retry_delay_bounds:
  "n \<le> 27 \<Longrightarrow> minutes 1 \<le> next_retry_delay n \<and> next_retry_delay n \<le> minutes 60"
  "next_retry_delay 28 < 0"
proof -
  show "next_retry_delay 28 < 0" by code_simp
  assume "n \<le> 27"
  moreover have "(1::int) \<le> 2 ^ n" by simp
  ultimately show "minutes 1 \<le> next_retry_delay n \<and> next_retry_delay n \<le> minutes 60"
    by (simp add: next_retry_delay_exact)
qed

text \<open>The unspecified address of IPv6 is not among the refused ones, that of IPv4 is.\<close>

lemma unspecified_address: "\<not> private_address (V6 0)" "private_address (V4 0)"
  by code_simp+

text \<open>
  C26. The address of an endpoint is checked when it is stored; the location a receiver redirects
  to never is: a delivery that is first answered 307 or 308 goes on, posted with the same body,
  timestamp and signature, to whatever address the location resolves to.
\<close>

theorem redirect_unchecked:
  assumes "answers s (asked s) = Relocated st loc said" and "st \<in> {307, 308}" and "loc \<noteq> []" and "wo_locate cfg (wh_url h) loc = Some u"
  shows "\<exists>x t q qs. deliver_webhook cfg h d p s = (x, t) \<and> requests t = requests s @ q # q\<lparr>wr_url := u\<rparr> # qs \<and>
    wr_method q = ''POST'' \<and> wr_url q = wh_url h \<and> wr_body q = wo_marshal cfg p"
proof -
  let ?q = "first_request cfg h p (clock s (reads s))"
  let ?q' = "?q\<lparr>wr_url := u\<rparr>"
  let ?s = "s\<lparr>asked := Suc (asked s), reads := Suc (reads s), minted := Suc (minted s), requests := requests s @ [?q]\<rparr>"
  let ?t = "?s\<lparr>asked := Suc (asked ?s), requests := requests ?s @ [?q']\<rparr>"
  have hop: "next_hop cfg ?q (answers s (asked s)) = Some (Inr ?q')"
    using assms by (auto simp: next_hop_def first_request_def)
  obtain res qs k where f: "follow_redirects cfg 8 ?q' (answers ?s (asked ?s)) ?t =
      (Inr res, ?t\<lparr>asked := k, requests := requests ?t @ qs\<rparr>)"
    using follow_run[of cfg 8 ?q' "answers ?s (asked ?s)" ?t] by blast
  have f9: "follow_redirects cfg 9 ?q (answers s (asked s)) ?s =
      (Inr res, ?t\<lparr>asked := k, requests := requests ?t @ qs\<rparr>)"
    using follow_hop[OF hop, of 8 ?s] f by simp
  have "deliver_webhook cfg h d p s = (Inr (settle d res), ?t\<lparr>asked := k, requests := requests ?t @ qs\<rparr>)"
    by (rule deliver_settles[OF _ f9]) (simp add: assms(1))
  then show ?thesis
    by (intro exI[of _ "Inr (settle d res)"] exI[of _ "?t\<lparr>asked := k, requests := requests ?t @ qs\<rparr>"] exI[of _ ?q] exI[of _ qs] conjI, assumption) (simp_all add: first_request_def)
qed

text \<open>On the old table of deliveries no test ever sends anything.\<close>

lemma legacy_test_fails:
  assumes "legacy_deliveries s" and "svc_test_webhook cfg i event doc s = (r, t)"
  shows "\<exists>e. r = Inl (None, e)" and "requests t = requests s"
  using assms by (auto simp: svc_test_webhook_def create_delivery_def get_webhook_def prog_defs Let_def split: if_splits option.splits)

section \<open>Samples\<close>

definition webhook_sample :: "webhook list \<Rightarrow> webhook_world" where
  "webhook_sample hs = \<lparr>fault = (\<lambda>_. False), calls = 0, clock = int, reads = 0, fresh = (\<lambda>n. of_nat n + 100), minted = 0,
     ctxdone = (\<lambda>_. False), polls = 0, webhooks = hs, deliveries = [], legacy_deliveries = False,
     webhook_refs = (\<lambda>_. True), random_source = (\<lambda>_ k. replicate k (CHR ''r'')), random_reads = 0,
     answers = (\<lambda>_. Answered 200 []), asked = 0, requests = [], webhook_bus = []\<rparr>"

text \<open>A cipher for the samples: it opens what it seals.\<close>

definition sample_config :: webhook_config where
  "sample_config = \<lparr>wo_key = replicate 32 (CHR ''k''), wo_seal = (\<lambda>_ n p. p @ n), wo_open = (\<lambda>_ n c. Some (take (length c - length n) c)),
     wo_marshal = (\<lambda>p. wp_event p), wo_locate = (\<lambda>_ loc. Some loc)\<rparr>"

definition sample_net :: net_world where
  "sample_net = \<lparr>parse_url = (\<lambda>u. Some \<lparr>up_scheme = ''https'', up_host = u, up_hostname = u\<rparr>),
     lookup_host = (\<lambda>_. Some [V4 0x08080808]), literal_ip = (\<lambda>_. None)\<rparr>"

definition sample_fields :: webhook_fields where
  "sample_fields = \<lparr>wc_project_id = None, wc_name = ''ci'', wc_url = ''a.example'', wc_events = Some [''flag.toggled''],
     wc_retry_attempts = None, wc_timeout_seconds = None\<rparr>"

definition sample_webhook :: webhook where
  "sample_webhook = \<lparr>wh_id = 7, wh_org_id = 2, wh_project_id = None, wh_name = ''ci'', wh_url = ''a.example'',
     wh_secret = ''s'', wh_encrypted = False, wh_events = Some [''flag.toggled''], wh_is_active = True, wh_retry_attempts = 3,
     wh_timeout_seconds = 10, wh_created_at = 0, wh_updated_at = 0, wh_created_by = None, wh_updated_by = None\<rparr>"

definition redirect :: webhook_patch where
  "redirect = \<lparr>wu_name = None, wu_url = Some ''b.example'', wu_events = None, wu_is_active = None,
     wu_retry_attempts = None, wu_timeout_seconds = None\<rparr>"

definition stranger :: webhook_caller where
  "stranger = \<lparr>wk_org = Some 3, wk_user = Some 5\<rparr>"

definition owner :: webhook_caller where
  "owner = \<lparr>wk_org = Some 2, wk_user = Some 1\<rparr>"

abbreviation sample_history :: "webhook_op list" where
  "sample_history \<equiv> [OpPublish ''flag.toggled'' 2 None (Given JNull) None, OpTest owner (Some 7) (Some (''flag.toggled'', JNull)),
     OpRetry]"

theorem webhook_history_witness:
  "unretried (fold (exec_webhook_op sample_config sample_net) sample_history (webhook_sample [sample_webhook])) \<and>
   length (requests (fold (exec_webhook_op sample_config sample_net) sample_history (webhook_sample [sample_webhook]))) \<le> 10"
  using webhook_history[of "webhook_sample [sample_webhook]" _ sample_config sample_net sample_history]
  by (simp add: webhook_sample_def)

theorem foreign_webhook_update_witness:
  "\<exists>h' t. update_webhook_request sample_net stranger (Some 7) (Some redirect) (webhook_sample [sample_webhook]) = (Inl 404, t) \<and>
     row_of wh_id 7 (webhooks t) = Some h' \<and> wh_url h' = ''b.example''"
proof -
  let ?s = "webhook_sample [sample_webhook]"
  obtain res t where run: "update_webhook_request sample_net stranger (Some 7) (Some redirect) ?s = (res, t)"
    by (cases "update_webhook_request sample_net stranger (Some 7) (Some redirect) ?s")
  have "validate_webhook_url sample_net ''b.example''" by code_simp
  then have valid: "wu_url redirect = Some u \<Longrightarrow> u = [] \<or> validate_webhook_url sample_net u" for u
    by (auto simp: redirect_def)
  have "calm ?s" "row_of wh_id 7 (webhooks ?s) = Some sample_webhook" "patches redirect" "webhook_refs ?s x"
    "storable_webhook (patch_webhook redirect sample_webhook)" for x
    by (simp_all add: calm_def webhook_sample_def sample_webhook_def redirect_def patches_def or_old_def row_simps
        storable_webhook_def patch_webhook_def column_int_def)
  from foreign_webhook_update[OF this(1-3) valid this(4,5) run] show ?thesis
    using run by (auto simp: redirect_def or_old_def stranger_def sample_webhook_def)
qed

theorem delivery_verifies_witness:
  "\<exists>h s'. svc_create_webhook sample_config 2 sample_fields None (webhook_sample []) = (Inr h, s') \<and>
     (\<forall>d p. \<exists>x v q. deliver_webhook sample_config h d p s' = (Inr x, v) \<and> requests v = requests s' @ [q] \<and>
       verify_signature (hex_encode (replicate 32 (CHR ''r''))) (wr_timestamp q) (wr_signature q) (wr_body q))"
proof -
  let ?s = "webhook_sample []"
  obtain h s' where made: "svc_create_webhook sample_config 2 sample_fields None ?s = (Inr h, s')"
    and s': "answers s' = (\<lambda>_. Answered 200 [])"
    by (auto simp: svc_create_webhook_def generate_secret_def fill_random_def encrypt_bytes_def create_webhook_def announce_def
        publish_webhook_event_def prog_defs Let_def webhook_sample_def sample_config_def sample_fields_def row_simps
        storable_webhook_def column_int_def hex_encode_length)
  have opens: "wo_open sample_config k n (wo_seal sample_config k n p) = Some p" "length (random_source ?s m j) = j" for k n p m j
    by (simp_all add: sample_config_def webhook_sample_def)
  have "\<exists>x v q. deliver_webhook sample_config h d p s' = (Inr x, v) \<and> requests v = requests s' @ [q] \<and>
       verify_signature (hex_encode (replicate 32 (CHR ''r''))) (wr_timestamp q) (wr_signature q) (wr_body q)" for d p
  proof -
    obtain x v q where sent: "deliver_webhook sample_config h d p s' = (Inr x, v)" and q: "requests v = requests s' @ [q]"
      by (auto simp: deliver_webhook_def prog_defs Let_def s' follow_answered)
    from delivery_verifies[OF opens made sent, of q "[]"] sent q show ?thesis
      by (auto simp: webhook_sample_def)
  qed
  with made show ?thesis by blast
qed

abbreviation redirected_sample :: webhook_world where
  "redirected_sample \<equiv> webhook_sample []
     \<lparr>answers := (\<lambda>n. if n = 0 then Relocated 307 ''http://169.254.169.254/'' [] else Answered 200 [])\<rparr>"

theorem redirect_unchecked_witness:
  "\<forall>d p. \<exists>x t q qs. deliver_webhook sample_config sample_webhook d p redirected_sample = (x, t) \<and>
     requests t = requests redirected_sample @ q # q\<lparr>wr_url := ''http://169.254.169.254/''\<rparr> # qs \<and>
     wr_method q = ''POST'' \<and> wr_url q = wh_url sample_webhook \<and> wr_body q = wo_marshal sample_config p"
  by (intro allI, rule redirect_unchecked[where st = 307 and loc = "''http://169.254.169.254/''" and said = "[]"])
    (simp_all add: webhook_sample_def sample_config_def)

theorem retry_delay_bounds_witness: "minutes 1 \<le> next_retry_delay 3 \<and> next_retry_delay 3 \<le> minutes 60"
  by (rule retry_delay_bounds(1)) simp

end
