(* ===== verification/Grants.thy ===== *)
theory Grants
  imports FlagTargeting
begin

text \<open>
  User groups and grants on projects and applications (\<open>internal/groups\<close>, \<open>internal/grants\<close>,
  \<open>internal/models/group.go\<close>, \<open>internal/platform/database/postgres/groups.go\<close>, \<open>grants.go\<close>): the
  tables with their constraints, the services, the resolution of the access a user has, and the
  requests. The entity service that finds organizations, projects and applications by their
  slugs is a parameter here; \<open>known\<close> says which organizations, projects, applications and users
  exist. The listings only join the names for display.
\<close>

section \<open>Groups and grants\<close>

record user_group =
  ug_id :: uuid
  ug_org_id :: uuid
  ug_name :: string
  ug_slug :: string
  ug_description :: string
  ug_created_by :: "uuid option"
  ug_created_at :: time
  ug_updated_at :: time

record group_member =
  gm_group_id :: uuid
  gm_user_id :: uuid
  gm_created_at :: time

datatype resource_permission = PermissionRead | PermissionWrite | PermissionOther string

record resource_grant =
  gr_id :: uuid
  gr_org_id :: uuid
  gr_project_id :: "uuid option"
  gr_application_id :: "uuid option"
  gr_user_id :: "uuid option"
  gr_group_id :: "uuid option"
  gr_permission :: resource_permission
  gr_granted_by :: "uuid option"
  gr_created_at :: time

datatype group_invalid = GroupOrgRequired | GroupNameRequired | GroupSlugRequired

datatype grant_invalid = GrantOrgRequired | GrantResourceOne | GrantGranteeOne | GrantPermissionUnknown

text \<open>\<open>NilGroup\<close>: the panic of a nil group that is dereferenced.\<close>

datatype grant_error =
    GroupNotFound
  | SlugTaken
  | GrantDuplicate
  | GrantRowMissing
  | GrantConflict
  | GrantDriver string
  | GroupInvalid group_invalid
  | GrantInvalid grant_invalid
  | GrantWrap string grant_error
  | NilGroup

definition validate_group :: "user_group \<Rightarrow> group_invalid option" where
  "validate_group g =
     (if ug_org_id g = uuid_nil then Some GroupOrgRequired
      else if ug_name g = [] then Some GroupNameRequired
      else if ug_slug g = [] then Some GroupSlugRequired
      else None)"

definition validate_grant :: "resource_grant \<Rightarrow> grant_invalid option" where
  "validate_grant g =
     (if gr_org_id g = uuid_nil then Some GrantOrgRequired
      else if gr_project_id g = None \<and> gr_application_id g = None then Some GrantResourceOne
      else if gr_project_id g \<noteq> None \<and> gr_application_id g \<noteq> None then Some GrantResourceOne
      else if gr_user_id g = None \<and> gr_group_id g = None then Some GrantGranteeOne
      else if gr_user_id g \<noteq> None \<and> gr_group_id g \<noteq> None then Some GrantGranteeOne
      else if gr_permission g \<noteq> PermissionRead \<and> gr_permission g \<noteq> PermissionWrite then Some GrantPermissionUnknown
      else None)"

section \<open>Slugs\<close>

text \<open>
  \<open>strings.ToLower\<close> as far as the slug shows it: the letters of ASCII, and the two other letters
  whose lower case is one of them, the dotted I and the Kelvin sign.
\<close>

fun slug_lower :: "nat list \<Rightarrow> nat list" where
  "slug_lower (a # b # c # cs) =
     (if a = 0xC4 \<and> b = 0xB0 then 105 # slug_lower (c # cs)
      else if a = 0xE2 \<and> b = 0x84 \<and> c = 0xAA then 107 # slug_lower cs
      else (if 65 \<le> a \<and> a \<le> 90 then a + 32 else a) # slug_lower (b # c # cs))"
| "slug_lower [a, b] =
     (if a = 0xC4 \<and> b = 0xB0 then [105]
      else [if 65 \<le> a \<and> a \<le> 90 then a + 32 else a, if 65 \<le> b \<and> b \<le> 90 then b + 32 else b])"
| "slug_lower [a] = [if 65 \<le> a \<and> a \<le> 90 then a + 32 else a]"
| "slug_lower [] = []"

definition slug_char :: "nat \<Rightarrow> bool" where
  "slug_char n \<longleftrightarrow> 97 \<le> n \<and> n \<le> 122 \<or> 48 \<le> n \<and> n \<le> 57"

text \<open>Every run of other characters becomes one dash; the dashes at the ends are trimmed.\<close>

fun dash_runs :: "bool \<Rightarrow> nat list \<Rightarrow> nat list" where
  "dash_runs inside [] = []"
| "dash_runs inside (n # ns) =
     (if slug_char n then n # dash_runs False ns
      else if inside then dash_runs True ns else 45 # dash_runs True ns)"

definition trim_dashes :: "nat list \<Rightarrow> nat list" where
  "trim_dashes ns = rev (dropWhile (\<lambda>n. n = 45) (rev (dropWhile (\<lambda>n. n = 45) ns)))"

definition generate_slug :: "string \<Rightarrow> string" where
  "generate_slug name = map char_of (trim_dashes (dash_runs False (slug_lower (map code_of name))))"

section \<open>The tables\<close>

record grants_world = env +
  user_groups :: "user_group list"
  group_members :: "group_member list"
  resource_grants :: "resource_grant list"
  known :: "uuid \<Rightarrow> bool"

type_synonym 'a grant_prog = "(grants_world, grant_error, 'a) prog"

definition known_or_null :: "grants_world \<Rightarrow> uuid option \<Rightarrow> bool" where
  "known_or_null w x = (case x of None \<Rightarrow> True | Some i \<Rightarrow> known w i)"

definition get_group_by_slug :: "uuid \<Rightarrow> string \<Rightarrow> user_group option grant_prog" where
  "get_group_by_slug org slug =
     andThen (ext_call (GrantDriver ''select groups'')) (\<lambda>_.
     andThen get_state (\<lambda>w. ret (find (\<lambda>g. ug_org_id g = org \<and> ug_slug g = slug) (user_groups w))))"

definition create_group :: "user_group \<Rightarrow> user_group grant_prog" where
  "create_group g =
     andThen (if ug_id g = uuid_nil then uuid_new else ret (ug_id g)) (\<lambda>i.
     andThen time_now (\<lambda>now.
     let g' = g\<lparr>ug_id := i, ug_created_at := now, ug_updated_at := now\<rparr>
     in andThen (ext_call (GrantDriver ''insert groups'')) (\<lambda>_.
        andThen get_state (\<lambda>w.
          if row_of ug_id i (user_groups w) \<noteq> None \<or>
             list_ex (\<lambda>h. ug_org_id h = ug_org_id g \<and> ug_slug h = ug_slug g) (user_groups w) then fail GrantConflict
          else if \<not> known w (ug_org_id g) \<or> \<not> known_or_null w (ug_created_by g) then fail (GrantDriver ''insert groups'')
          else andThen (modify (\<lambda>w. w\<lparr>user_groups := user_groups w @ [g']\<rparr>)) (\<lambda>_. ret g')))))"

definition write_group :: "user_group \<Rightarrow> time \<Rightarrow> user_group \<Rightarrow> user_group" where
  "write_group g now row = row\<lparr>ug_name := ug_name g, ug_slug := ug_slug g, ug_description := ug_description g, ug_updated_at := now\<rparr>"

definition update_group :: "user_group \<Rightarrow> user_group grant_prog" where
  "update_group g =
     andThen time_now (\<lambda>now.
     andThen (ext_call (GrantDriver ''update groups'')) (\<lambda>_.
     andThen get_state (\<lambda>w.
       case row_of ug_id (ug_id g) (user_groups w) of
         None \<Rightarrow> fail GrantRowMissing
       | Some row \<Rightarrow>
           if list_ex (\<lambda>h. ug_id h \<noteq> ug_id g \<and> ug_org_id h = ug_org_id row \<and> ug_slug h = ug_slug g) (user_groups w)
           then fail GrantConflict
           else andThen (modify (\<lambda>w. w\<lparr>user_groups := update_row ug_id (ug_id g) (write_group g now) (user_groups w)\<rparr>))
                  (\<lambda>_. ret (g\<lparr>ug_updated_at := now\<rparr>)))))"

text \<open>Deleting a group deletes its members and the grants it has.\<close>

definition delete_group :: "uuid \<Rightarrow> unit grant_prog" where
  "delete_group i =
     andThen (ext_call (GrantDriver ''delete groups'')) (\<lambda>_.
     andThen get_state (\<lambda>w.
       if row_of ug_id i (user_groups w) = None then fail GrantRowMissing
       else modify (\<lambda>w. w\<lparr>user_groups := filter (\<lambda>g. ug_id g \<noteq> i) (user_groups w),
              group_members := filter (\<lambda>m. gm_group_id m \<noteq> i) (group_members w),
              resource_grants := filter (\<lambda>r. gr_group_id r \<noteq> Some i) (resource_grants w)\<rparr>)))"

definition is_member :: "uuid \<Rightarrow> uuid \<Rightarrow> group_member \<Rightarrow> bool" where
  "is_member g u m \<longleftrightarrow> gm_group_id m = g \<and> gm_user_id m = u"

definition add_group_member :: "uuid \<Rightarrow> uuid \<Rightarrow> unit grant_prog" where
  "add_group_member g u =
     andThen time_now (\<lambda>now.
     andThen (ext_call (GrantDriver ''insert group_members'')) (\<lambda>_.
     andThen get_state (\<lambda>w.
       if list_ex (is_member g u) (group_members w) then ret ()
       else if row_of ug_id g (user_groups w) = None \<or> \<not> known w u then fail (GrantDriver ''insert group_members'')
       else modify (\<lambda>w. w\<lparr>group_members := group_members w @ [\<lparr>gm_group_id = g, gm_user_id = u, gm_created_at = now\<rparr>]\<rparr>))))"

definition remove_group_member :: "uuid \<Rightarrow> uuid \<Rightarrow> unit grant_prog" where
  "remove_group_member g u =
     andThen (ext_call (GrantDriver ''delete group_members'')) (\<lambda>_.
     andThen get_state (\<lambda>w.
       if \<not> list_ex (is_member g u) (group_members w) then fail GrantRowMissing
       else modify (\<lambda>w. w\<lparr>group_members := filter (\<lambda>m. \<not> is_member g u m) (group_members w)\<rparr>)))"

text \<open>The four partial unique indexes: null is equal to nothing.\<close>

definition both_some :: "'a option \<Rightarrow> 'a option \<Rightarrow> bool" where
  "both_some x y \<longleftrightarrow> x \<noteq> None \<and> x = y"

definition same_grant :: "resource_grant \<Rightarrow> resource_grant \<Rightarrow> bool" where
  "same_grant g h \<longleftrightarrow>
     (both_some (gr_project_id g) (gr_project_id h) \<or> both_some (gr_application_id g) (gr_application_id h)) \<and>
     (both_some (gr_user_id g) (gr_user_id h) \<or> both_some (gr_group_id g) (gr_group_id h))"

definition grant_checks :: "resource_grant \<Rightarrow> bool" where
  "grant_checks g \<longleftrightarrow> gr_permission g \<in> {PermissionRead, PermissionWrite} \<and>
     (gr_project_id g \<noteq> None) \<noteq> (gr_application_id g \<noteq> None) \<and>
     (gr_user_id g \<noteq> None) \<noteq> (gr_group_id g \<noteq> None)"

definition create_grant :: "resource_grant \<Rightarrow> resource_grant grant_prog" where
  "create_grant g =
     andThen (if gr_id g = uuid_nil then uuid_new else ret (gr_id g)) (\<lambda>i.
     andThen time_now (\<lambda>now.
     let g' = g\<lparr>gr_id := i, gr_created_at := now\<rparr>
     in andThen (ext_call (GrantDriver ''insert resource_grants'')) (\<lambda>_.
        andThen get_state (\<lambda>w.
          if \<not> grant_checks g then fail (GrantDriver ''insert resource_grants'')
          else if row_of gr_id i (resource_grants w) \<noteq> None \<or> list_ex (same_grant g) (resource_grants w) then fail GrantConflict
          else if \<not> known w (gr_org_id g) \<or> \<not> known_or_null w (gr_project_id g) \<or> \<not> known_or_null w (gr_application_id g) \<or>
            \<not> known_or_null w (gr_user_id g) \<or> \<not> known_or_null w (gr_granted_by g) \<or>
            (case gr_group_id g of None \<Rightarrow> False | Some h \<Rightarrow> row_of ug_id h (user_groups w) = None)
          then fail (GrantDriver ''insert resource_grants'')
          else andThen (modify (\<lambda>w. w\<lparr>resource_grants := resource_grants w @ [g']\<rparr>)) (\<lambda>_. ret g')))))"

definition delete_grant :: "uuid \<Rightarrow> unit grant_prog" where
  "delete_grant i =
     andThen (ext_call (GrantDriver ''delete resource_grants'')) (\<lambda>_.
     andThen get_state (\<lambda>w.
       if row_of gr_id i (resource_grants w) = None then fail GrantRowMissing
       else modify (\<lambda>w. w\<lparr>resource_grants := filter (\<lambda>g. gr_id g \<noteq> i) (resource_grants w)\<rparr>)))"

text \<open>The grants of a project, else of an application; with neither there are none.\<close>

definition grants_on :: "uuid option \<Rightarrow> uuid option \<Rightarrow> resource_grant list \<Rightarrow> resource_grant list" where
  "grants_on project app gs =
     (case project of
        Some p \<Rightarrow> filter (\<lambda>g. gr_project_id g = Some p) gs
      | None \<Rightarrow> (case app of Some a \<Rightarrow> filter (\<lambda>g. gr_application_id g = Some a) gs | None \<Rightarrow> []))"

definition query_grants :: "uuid option \<Rightarrow> uuid option \<Rightarrow> unit grant_prog" where
  "query_grants project app =
     (if project = None \<and> app = None then ret () else ext_call (GrantDriver ''select resource_grants''))"

definition has_any_grants :: "uuid option \<Rightarrow> uuid option \<Rightarrow> bool grant_prog" where
  "has_any_grants project app =
     andThen (query_grants project app) (\<lambda>_.
     andThen get_state (\<lambda>w. ret (grants_on project app (resource_grants w) \<noteq> [])))"

definition get_user_permission :: "uuid \<Rightarrow> uuid option \<Rightarrow> uuid option \<Rightarrow> resource_permission option grant_prog" where
  "get_user_permission u project app =
     andThen (query_grants project app) (\<lambda>_.
     andThen get_state (\<lambda>w.
       ret (map_option gr_permission (find (\<lambda>g. gr_user_id g = Some u) (grants_on project app (resource_grants w))))))"

definition through_group :: "grants_world \<Rightarrow> uuid \<Rightarrow> resource_grant \<Rightarrow> bool" where
  "through_group w u g = (case gr_group_id g of None \<Rightarrow> False | Some i \<Rightarrow> list_ex (is_member i u) (group_members w))"

definition get_user_group_permission :: "uuid \<Rightarrow> uuid option \<Rightarrow> uuid option \<Rightarrow> resource_permission option grant_prog" where
  "get_user_group_permission u project app =
     andThen (query_grants project app) (\<lambda>_.
     andThen get_state (\<lambda>w.
       let ps = map gr_permission (filter (through_group w u) (grants_on project app (resource_grants w)))
       in ret (if PermissionWrite \<in> set ps then Some PermissionWrite else case ps of [] \<Rightarrow> None | p # _ \<Rightarrow> Some p)))"

section \<open>The services\<close>

fun grant_error_text :: "grant_error \<Rightarrow> string" where
  "grant_error_text GroupNotFound = ''group not found''"
| "grant_error_text SlugTaken = ''group slug already exists in this organization''"
| "grant_error_text GrantDuplicate = ''grant already exists for this grantee on this resource''"
| "grant_error_text GrantRowMissing = ''not found''"
| "grant_error_text GrantConflict = ''conflict''"
| "grant_error_text (GrantDriver e) = e"
| "grant_error_text (GroupInvalid GroupOrgRequired) = ''org_id is required''"
| "grant_error_text (GroupInvalid GroupNameRequired) = ''name is required''"
| "grant_error_text (GroupInvalid GroupSlugRequired) = ''slug is required''"
| "grant_error_text (GrantInvalid GrantOrgRequired) = ''org_id is required''"
| "grant_error_text (GrantInvalid GrantResourceOne) = ''exactly one of project_id or application_id is required''"
| "grant_error_text (GrantInvalid GrantGranteeOne) = ''exactly one of user_id or group_id is required''"
| "grant_error_text (GrantInvalid GrantPermissionUnknown) = ''permission must be '' @ [CHR 0x27] @ ''read'' @ [CHR 0x27] @ '' or '' @ [CHR 0x27] @ ''write'' @ [CHR 0x27]"
| "grant_error_text (GrantWrap m e) = m @ '': '' @ grant_error_text e"
| "grant_error_text NilGroup = ''invalid memory address or nil pointer dereference''"

definition svc_create_grant :: "resource_grant \<Rightarrow> resource_grant grant_prog" where
  "svc_create_grant g =
     (case validate_grant g of
        Some e \<Rightarrow> fail (GrantInvalid e)
      | None \<Rightarrow>
          andThen uuid_new (\<lambda>i.
          andThen time_now (\<lambda>now.
            wrapped (\<lambda>e. if contains (grant_error_text e) ''duplicate key'' \<or> contains (grant_error_text e) ''23505''
                then GrantDuplicate else GrantWrap ''creating grant'' e)
              (create_grant (g\<lparr>gr_id := i, gr_created_at := now\<rparr>)))))"

definition svc_delete_grant :: "uuid \<Rightarrow> unit grant_prog" where
  "svc_delete_grant i = wrapped (GrantWrap ''deleting grant'') (delete_grant i)"

definition resolve_access ::
  "uuid \<Rightarrow> string \<Rightarrow> uuid option \<Rightarrow> uuid option \<Rightarrow> resource_permission option grant_prog" where
  "resolve_access u role project app =
     (if role = ''owner'' then ret (Some PermissionWrite)
      else
        andThen (case app of
            None \<Rightarrow> ret (project, None)
          | Some a \<Rightarrow> andThen (wrapped (GrantWrap ''checking app grants'') (has_any_grants None (Some a))) (\<lambda>own.
              ret (if own then (None, Some a) else (project, None)))) (\<lambda>(project, app).
        andThen (wrapped (GrantWrap ''checking resource grants'') (has_any_grants project app)) (\<lambda>closed.
          if \<not> closed then ret (Some PermissionWrite)
          else andThen (wrapped (GrantWrap ''checking user permission'') (get_user_permission u project app)) (\<lambda>direct.
               if direct \<noteq> None then ret direct
               else wrapped (GrantWrap ''checking group permission'') (get_user_group_permission u project app)))))"

text \<open>An unknown slug is no error of the repository, and the service asks for errors only.\<close>

definition svc_get_group :: "uuid \<Rightarrow> string \<Rightarrow> user_group option grant_prog" where
  "svc_get_group org slug = wrapped (\<lambda>_. GroupNotFound) (get_group_by_slug org slug)"

definition deref_group :: "user_group option \<Rightarrow> user_group grant_prog" where
  "deref_group g = (case g of None \<Rightarrow> fail NilGroup | Some g \<Rightarrow> ret g)"

definition slug_exists :: "uuid \<Rightarrow> string \<Rightarrow> bool grant_prog" where
  "slug_exists org slug =
     andThen (attempt (get_group_by_slug org slug) :: (grant_error + user_group option) grant_prog) (\<lambda>res.
       ret (case res of Inr (Some _) \<Rightarrow> True | _ \<Rightarrow> False))"

definition svc_create_group :: "uuid \<Rightarrow> string \<Rightarrow> string \<Rightarrow> uuid \<Rightarrow> user_group grant_prog" where
  "svc_create_group org name descr creator =
     (let slug = generate_slug name in
      andThen (slug_exists org slug) (\<lambda>taken.
        if taken then fail SlugTaken
        else andThen time_now (\<lambda>now.
             andThen uuid_new (\<lambda>i.
               let g = \<lparr>ug_id = i, ug_org_id = org, ug_name = name, ug_slug = slug, ug_description = descr,
                        ug_created_by = Some creator, ug_created_at = now, ug_updated_at = now\<rparr>
               in case validate_group g of
                    Some e \<Rightarrow> fail (GrantWrap ''validation'' (GroupInvalid e))
                  | None \<Rightarrow> wrapped (GrantWrap ''creating group'') (create_group g)))))"

definition svc_update_group :: "uuid \<Rightarrow> string \<Rightarrow> string \<Rightarrow> string \<Rightarrow> user_group grant_prog" where
  "svc_update_group org slug name descr =
     andThen (svc_get_group org slug) (\<lambda>found.
     andThen (deref_group found) (\<lambda>g.
       let new = generate_slug name in
       andThen (if new \<noteq> ug_slug g then slug_exists org new else ret False) (\<lambda>taken.
         if taken then fail SlugTaken
         else andThen time_now (\<lambda>now.
              wrapped (GrantWrap ''updating group'')
                (update_group (g\<lparr>ug_name := name, ug_slug := new, ug_description := descr, ug_updated_at := now\<rparr>))))))"

definition svc_delete_group :: "uuid \<Rightarrow> string \<Rightarrow> unit grant_prog" where
  "svc_delete_group org slug =
     andThen (svc_get_group org slug) (\<lambda>found.
     andThen (deref_group found) (\<lambda>g. wrapped (GrantWrap ''deleting group'') (delete_group (ug_id g))))"

definition svc_add_group_member :: "uuid \<Rightarrow> string \<Rightarrow> uuid \<Rightarrow> unit grant_prog" where
  "svc_add_group_member org slug u =
     andThen (svc_get_group org slug) (\<lambda>found.
     andThen (deref_group found) (\<lambda>g. wrapped (GrantWrap ''adding group member'') (add_group_member (ug_id g) u)))"

definition svc_remove_group_member :: "uuid \<Rightarrow> string \<Rightarrow> uuid \<Rightarrow> unit grant_prog" where
  "svc_remove_group_member org slug u =
     andThen (svc_get_group org slug) (\<lambda>found.
     andThen (deref_group found) (\<lambda>g. wrapped (GrantWrap ''removing group member'') (remove_group_member (ug_id g) u)))"

section \<open>Requests\<close>

text \<open>
  What the route resolves to (None: no such slug), the user of the caller, and the texts of the
  body parsed as identifiers (None inside: not an identifier). A panic is answered 500.
\<close>

type_synonym 'a grant_request = "(grants_world, nat, 'a) prog"

record grant_body =
  gb_user_id :: "uuid option option"
  gb_group_id :: "uuid option option"
  gb_permission :: string

definition permission_of :: "string \<Rightarrow> resource_permission" where
  "permission_of s = (if s = ''read'' then PermissionRead else if s = ''write'' then PermissionWrite else PermissionOther s)"

definition create_grant_request ::
  "uuid option \<Rightarrow> uuid \<Rightarrow> uuid option \<Rightarrow> uuid option \<Rightarrow> grant_body option \<Rightarrow> resource_grant grant_request" where
  "create_grant_request user org project app body =
     (case body of
        None \<Rightarrow> fail 400
      | Some b \<Rightarrow>
          if gb_permission b \<noteq> ''read'' \<and> gb_permission b \<noteq> ''write'' then fail 400
          else if (gb_user_id b = None) = (gb_group_id b = None) then fail 400
          else if gb_user_id b = Some None \<or> gb_group_id b = Some None then fail 400
          else wrapped (\<lambda>e. if e = GrantDuplicate then 409 else 400) (svc_create_grant
            \<lparr>gr_id = uuid_nil, gr_org_id = org, gr_project_id = project, gr_application_id = app,
             gr_user_id = Option.bind (gb_user_id b) id, gr_group_id = Option.bind (gb_group_id b) id,
             gr_permission = permission_of (gb_permission b), gr_granted_by = user, gr_created_at = 0\<rparr>))"

text \<open>The grant is found by its identifier alone.\<close>

definition delete_grant_request :: "uuid option \<Rightarrow> unit grant_request" where
  "delete_grant_request i = (case i of None \<Rightarrow> fail 400 | Some i \<Rightarrow> wrapped (\<lambda>_. 500) (svc_delete_grant i))"

definition group_status :: "grant_error \<Rightarrow> nat" where
  "group_status e = (if e = GroupNotFound then 404 else if e = SlugTaken then 409 else 500)"

definition create_group_request :: "uuid option \<Rightarrow> uuid option \<Rightarrow> (string \<times> string) option \<Rightarrow> user_group grant_request" where
  "create_group_request user org body =
     (case (org, body) of
        (None, _) \<Rightarrow> fail 404
      | (_, None) \<Rightarrow> fail 400
      | (Some o', Some (name, descr)) \<Rightarrow>
          if name = [] then fail 400
          else wrapped (\<lambda>e. if e = SlugTaken then 409 else 500)
            (svc_create_group o' name descr (case user of None \<Rightarrow> uuid_nil | Some u \<Rightarrow> u)))"

definition get_group_request :: "uuid option \<Rightarrow> string \<Rightarrow> user_group option grant_request" where
  "get_group_request org slug =
     (case org of None \<Rightarrow> fail 404 | Some o' \<Rightarrow> wrapped group_status (svc_get_group o' slug))"

definition update_group_request :: "uuid option \<Rightarrow> string \<Rightarrow> (string \<times> string) option \<Rightarrow> user_group grant_request" where
  "update_group_request org slug body =
     (case (org, body) of
        (None, _) \<Rightarrow> fail 404
      | (_, None) \<Rightarrow> fail 400
      | (Some o', Some (name, descr)) \<Rightarrow>
          if name = [] then fail 400 else wrapped group_status (svc_update_group o' slug name descr))"

definition delete_group_request :: "uuid option \<Rightarrow> string \<Rightarrow> unit grant_request" where
  "delete_group_request org slug =
     (case org of None \<Rightarrow> fail 404 | Some o' \<Rightarrow> wrapped group_status (svc_delete_group o' slug))"

definition add_group_member_request :: "uuid option \<Rightarrow> string \<Rightarrow> uuid option option \<Rightarrow> unit grant_request" where
  "add_group_member_request org slug user =
     (case (org, user) of
        (None, _) \<Rightarrow> fail 404
      | (Some o', Some (Some u)) \<Rightarrow> wrapped group_status (svc_add_group_member o' slug u)
      | _ \<Rightarrow> fail 400)"

definition remove_group_member_request :: "uuid option \<Rightarrow> string \<Rightarrow> uuid option \<Rightarrow> unit grant_request" where
  "remove_group_member_request org slug user =
     (case (org, user) of
        (None, _) \<Rightarrow> fail 404
      | (Some o', Some u) \<Rightarrow> wrapped group_status (svc_remove_group_member o' slug u)
      | _ \<Rightarrow> fail 400)"

text \<open>
  The check in front of a request (\<open>RequireResourceAccess\<close>): \<open>ret None\<close> lets the request pass without
  a permission, which is the case when it names no resource.
\<close>

definition require_resource_access ::
  "string \<Rightarrow> uuid option \<Rightarrow> string \<Rightarrow> uuid option \<Rightarrow> uuid option \<Rightarrow> resource_permission option grant_request" where
  "require_resource_access needed user role project app =
     (case user of
        None \<Rightarrow> fail 401
      | Some u \<Rightarrow>
          if project = None \<and> app = None then ret None
          else andThen (wrapped (\<lambda>_. 500) (resolve_access u role project app)) (\<lambda>perm.
               case perm of
                 None \<Rightarrow> fail 404
               | Some p \<Rightarrow> if needed = ''write'' \<and> p = PermissionRead then fail 403 else ret (Some p)))"

datatype grant_op =
    OpCreateGrant "uuid option" uuid "uuid option" "uuid option" "grant_body option"
  | OpDeleteGrant "uuid option"
  | OpCreateGroup "uuid option" "uuid option" "(string \<times> string) option"
  | OpUpdateGroup "uuid option" string "(string \<times> string) option"
  | OpDeleteGroup "uuid option" string
  | OpAddMember "uuid option" string "uuid option option"
  | OpRemoveMember "uuid option" string "uuid option"

fun exec_grant_op :: "grant_op \<Rightarrow> grants_world \<Rightarrow> grants_world" where
  "exec_grant_op (OpCreateGrant u org p a b) s = snd (create_grant_request u org p a b s)"
| "exec_grant_op (OpDeleteGrant i) s = snd (delete_grant_request i s)"
| "exec_grant_op (OpCreateGroup u org b) s = snd (create_group_request u org b s)"
| "exec_grant_op (OpUpdateGroup org slug b) s = snd (update_group_request org slug b s)"
| "exec_grant_op (OpDeleteGroup org slug) s = snd (delete_group_request org slug s)"
| "exec_grant_op (OpAddMember org slug u) s = snd (add_group_member_request org slug u s)"
| "exec_grant_op (OpRemoveMember org slug u) s = snd (remove_group_member_request org slug u s)"

end
