(* ===== verification/Entities.thy ===== *)
theory Entities
  imports Grants
begin

text \<open>
  Organizations, projects, applications and environments (\<open>internal/entities\<close>,
  \<open>internal/models/organization.go\<close>, \<open>project.go\<close>, \<open>application.go\<close>,
  \<open>internal/platform/database/postgres/entities.go\<close>): their tables, the service with the rules for
  deleting and restoring, and the requests with their checks of the grants. The flags of a
  project are the rows \<open>flag_homes\<close>, their evaluations \<open>evaluations\<close>. What deleting a row deletes in
  tables of other components is not shown here.
\<close>

section \<open>The model\<close>

record organization =
  og_id :: uuid
  og_name :: string
  og_slug :: string
  og_owner_id :: uuid
  og_plan :: string
  og_created_at :: time
  og_updated_at :: time

record project =
  pj_id :: uuid
  pj_org_id :: uuid
  pj_name :: string
  pj_slug :: string
  pj_description :: string
  pj_repo_url :: string
  pj_created_at :: time
  pj_updated_at :: time
  pj_deleted_at :: "time option"

record monitoring_link =
  ml_label :: string
  ml_url :: string
  ml_icon :: string

record application =
  ap_id :: uuid
  ap_project_id :: uuid
  ap_name :: string
  ap_slug :: string
  ap_description :: string
  ap_repo_url :: string
  ap_links :: "monitoring_link list"
  ap_created_by :: "uuid option"
  ap_created_at :: time
  ap_updated_at :: time
  ap_deleted_at :: "time option"

record org_environment =
  ev_id :: uuid
  ev_org_id :: uuid
  ev_name :: string
  ev_slug :: string
  ev_is_production :: bool
  ev_sort_order :: int
  ev_created_at :: time
  ev_updated_at :: time

record flag_home =
  fh_id :: uuid
  fh_key :: string
  fh_name :: string
  fh_project_id :: uuid
  fh_application_id :: "uuid option"

record activity =
  ac_key :: string
  ac_name :: string
  ac_last :: time

datatype delete_result = DeletedPermanent | DeletedSoft time | StillActive "activity list"

datatype entity_error =
    EntityMissing
  | EntityConflict
  | EntityDriver string
  | EntityText string
  | EntityGrants grant_error

definition validate_org :: "organization \<Rightarrow> string option" where
  "validate_org g =
     (if og_name g = [] then Some ''organization name is required''
      else if length (og_name g) > 100 then Some ''organization name must be 100 characters or fewer''
      else if og_slug g = [] then Some ''organization slug is required''
      else if length (og_slug g) > 60 then Some ''organization slug must be 60 characters or fewer''
      else if og_owner_id g = uuid_nil then Some ''organization owner_id is required''
      else None)"

definition validate_project :: "project \<Rightarrow> string option" where
  "validate_project p =
     (if pj_org_id p = uuid_nil then Some ''org_id is required''
      else if pj_name p = [] then Some ''project name is required''
      else if length (pj_name p) > 100 then Some ''project name must be 100 characters or fewer''
      else if pj_slug p = [] then Some ''project slug is required''
      else None)"

definition validate_app :: "application \<Rightarrow> string option" where
  "validate_app a =
     (if ap_project_id a = uuid_nil then Some ''project_id is required''
      else if ap_name a = [] then Some ''name is required''
      else if ap_slug a = [] then Some ''slug is required''
      else None)"

definition allowed_icons :: "string list" where
  "allowed_icons = [''github'', ''datadog'', ''newrelic'', ''grafana'', ''pagerduty'', ''sentry'',
     ''slack'', ''loki'', ''prometheus'', ''cloudwatch'', ''custom'']"

text \<open>
  \<open>scheme_and_host\<close> is what \<open>net/url\<close> finds in an address. Every way to refuse a link is one error
  here; the texts name the index and the rule.
\<close>

definition clean_link :: "(string \<Rightarrow> (string \<times> string) option) \<Rightarrow> monitoring_link \<Rightarrow> monitoring_link option" where
  "clean_link scheme_and_host l =
     (let label = trim_space (ml_label l); raw = trim_space (ml_url l); icon = trim_space (ml_icon l)
      in if label = [] \<or> length label > 60 \<or> raw = [] then None
         else case scheme_and_host raw of
           None \<Rightarrow> None
         | Some (scheme, host) \<Rightarrow>
             if scheme \<noteq> ''http'' \<and> scheme \<noteq> ''https'' \<or> host = [] then None
             else if icon \<noteq> [] \<and> icon \<notin> set allowed_icons then None
             else Some \<lparr>ml_label = label, ml_url = raw, ml_icon = icon\<rparr>)"

definition validate_links ::
  "(string \<Rightarrow> (string \<times> string) option) \<Rightarrow> monitoring_link list \<Rightarrow> monitoring_link list option" where
  "validate_links scheme_and_host ls =
     (if length ls > 10 then None else those (map (clean_link scheme_and_host) ls))"

section \<open>The tables\<close>

record entities_world = grants_world +
  organizations :: "organization list"
  org_members :: "(uuid \<times> uuid \<times> string) list"
  projects :: "project list"
  applications :: "application list"
  environments :: "org_environment list"
  flag_homes :: "flag_home list"
  evaluations :: "(uuid \<times> time) list"

type_synonym 'a entity_prog = "(entities_world, entity_error, 'a) prog"

definition query :: "string \<Rightarrow> unit entity_prog" where
  "query what = ext_call (EntityDriver what)"

definition create_org :: "organization \<Rightarrow> unit entity_prog" where
  "create_org g =
     andThen (query ''postgres.CreateOrg'') (\<lambda>_.
     andThen get_state (\<lambda>w.
       if list_ex (\<lambda>h. og_id h = og_id g \<or> og_slug h = og_slug g) (organizations w) then fail EntityConflict
       else modify (\<lambda>w. w\<lparr>organizations := organizations w @ [g]\<rparr>)))"

definition get_org_by_slug :: "string \<Rightarrow> organization option entity_prog" where
  "get_org_by_slug slug =
     andThen (query ''postgres.GetOrgBySlug'') (\<lambda>_.
     andThen get_state (\<lambda>w. ret (find (\<lambda>g. og_slug g = slug) (organizations w))))"

definition get_org_by_id :: "uuid \<Rightarrow> organization option entity_prog" where
  "get_org_by_id i =
     andThen (query ''postgres.GetOrgByID'') (\<lambda>_.
     andThen get_state (\<lambda>w. ret (row_of og_id i (organizations w))))"

definition list_orgs_by_user :: "uuid \<Rightarrow> organization list entity_prog" where
  "list_orgs_by_user u =
     andThen (query ''postgres.ListOrgsByUser'') (\<lambda>_.
     andThen get_state (\<lambda>w.
       ret (filter (\<lambda>g. list_ex (\<lambda>(org, v, _). org = og_id g \<and> v = u) (org_members w)) (organizations w))))"

text \<open>The plan is not among the columns that are written.\<close>

definition update_org :: "organization \<Rightarrow> unit entity_prog" where
  "update_org g =
     andThen (query ''postgres.UpdateOrg'') (\<lambda>_.
     andThen get_state (\<lambda>w.
       if row_of og_id (og_id g) (organizations w) = None then fail EntityMissing
       else modify (\<lambda>w. w\<lparr>organizations := update_row og_id (og_id g)
              (\<lambda>row. row\<lparr>og_name := og_name g, og_updated_at := og_updated_at g\<rparr>) (organizations w)\<rparr>)))"

definition add_org_member :: "uuid \<Rightarrow> uuid \<Rightarrow> string \<Rightarrow> unit entity_prog" where
  "add_org_member org u role =
     andThen time_now (\<lambda>_.
     andThen (query ''postgres.AddOrgMember'') (\<lambda>_.
     andThen get_state (\<lambda>w.
       if list_ex (\<lambda>(g, v, _). g = org \<and> v = u) (org_members w) then fail EntityConflict
       else modify (\<lambda>w. w\<lparr>org_members := org_members w @ [(org, u, role)]\<rparr>))))"

definition create_project :: "project \<Rightarrow> unit entity_prog" where
  "create_project p =
     andThen (query ''postgres.CreateProject'') (\<lambda>_.
     andThen get_state (\<lambda>w.
       if list_ex (\<lambda>q. pj_id q = pj_id p \<or> pj_org_id q = pj_org_id p \<and> pj_slug q = pj_slug p) (projects w)
       then fail EntityConflict
       else modify (\<lambda>w. w\<lparr>projects := projects w @ [p]\<rparr>)))"

definition get_project_by_slug :: "uuid \<Rightarrow> string \<Rightarrow> project option entity_prog" where
  "get_project_by_slug org slug =
     andThen (query ''postgres.GetProjectBySlug'') (\<lambda>_.
     andThen get_state (\<lambda>w. ret (find (\<lambda>p. pj_org_id p = org \<and> pj_slug p = slug) (projects w))))"

definition get_project_by_id :: "uuid \<Rightarrow> project option entity_prog" where
  "get_project_by_id i =
     andThen (query ''postgres.GetProjectByID'') (\<lambda>_.
     andThen get_state (\<lambda>w. ret (row_of pj_id i (projects w))))"

text \<open>An update that only touches rows in some state, and finds none otherwise.\<close>

definition write_projects :: "string \<Rightarrow> uuid \<Rightarrow> (project \<Rightarrow> bool) \<Rightarrow> (project \<Rightarrow> project) \<Rightarrow> unit entity_prog" where
  "write_projects what i ok f =
     andThen (query what) (\<lambda>_.
     andThen get_state (\<lambda>w.
       if \<not> list_ex (\<lambda>p. pj_id p = i \<and> ok p) (projects w) then fail EntityMissing
       else modify (\<lambda>w. w\<lparr>projects := map (\<lambda>p. if pj_id p = i \<and> ok p then f p else p) (projects w)\<rparr>)))"

definition update_project :: "project \<Rightarrow> unit entity_prog" where
  "update_project p = write_projects ''postgres.UpdateProject'' (pj_id p) (\<lambda>q. pj_deleted_at q = None)
     (\<lambda>q. q\<lparr>pj_name := pj_name p, pj_description := pj_description p, pj_repo_url := pj_repo_url p,
            pj_updated_at := pj_updated_at p\<rparr>)"

definition soft_delete_project :: "uuid \<Rightarrow> unit entity_prog" where
  "soft_delete_project i =
     andThen time_now (\<lambda>now.
       write_projects ''postgres.SoftDeleteProject'' i (\<lambda>p. pj_deleted_at p = None) (\<lambda>p. p\<lparr>pj_deleted_at := Some now\<rparr>))"

definition restore_project :: "uuid \<Rightarrow> unit entity_prog" where
  "restore_project i =
     write_projects ''postgres.RestoreProject'' i (\<lambda>p. pj_deleted_at p \<noteq> None) (\<lambda>p. p\<lparr>pj_deleted_at := None\<rparr>)"

abbreviation a_week :: duration where "a_week \<equiv> 7 * 24 * minutes 60"

text \<open>A row that is not marked as deleted does not satisfy the condition: null is not before a time.\<close>

definition deleted_for_a_week :: "time \<Rightarrow> project \<Rightarrow> bool" where
  "deleted_for_a_week now p = (case pj_deleted_at p of None \<Rightarrow> False | Some t \<Rightarrow> t \<le> now - a_week)"

definition hard_delete_project :: "uuid \<Rightarrow> unit entity_prog" where
  "hard_delete_project i =
     andThen time_now (\<lambda>now.
     andThen (query ''postgres.HardDeleteProject'') (\<lambda>_.
     andThen get_state (\<lambda>w.
       if \<not> list_ex (\<lambda>p. pj_id p = i \<and> deleted_for_a_week now p) (projects w) then fail EntityMissing
       else modify (\<lambda>w. w\<lparr>projects := filter (\<lambda>p. \<not> (pj_id p = i \<and> deleted_for_a_week now p)) (projects w),
              applications := filter (\<lambda>a. ap_project_id a \<noteq> i) (applications w),
              flag_homes := filter (\<lambda>f. fh_project_id f \<noteq> i) (flag_homes w),
              resource_grants := filter (\<lambda>g. gr_project_id g \<noteq> Some i \<and>
                (\<forall>a \<in> set (applications w). ap_project_id a = i \<longrightarrow> gr_application_id g \<noteq> Some (ap_id a))) (resource_grants w)\<rparr>))))"

definition create_app :: "application \<Rightarrow> unit entity_prog" where
  "create_app a =
     andThen (query ''postgres.CreateApp'') (\<lambda>_.
     andThen get_state (\<lambda>w.
       if list_ex (\<lambda>b. ap_id b = ap_id a \<or> ap_project_id b = ap_project_id a \<and> ap_slug b = ap_slug a) (applications w)
       then fail EntityConflict
       else modify (\<lambda>w. w\<lparr>applications := applications w @ [a]\<rparr>)))"

definition get_app_by_slug :: "uuid \<Rightarrow> string \<Rightarrow> application option entity_prog" where
  "get_app_by_slug project slug =
     andThen (query ''postgres.GetAppBySlug'') (\<lambda>_.
     andThen get_state (\<lambda>w. ret (find (\<lambda>a. ap_project_id a = project \<and> ap_slug a = slug) (applications w))))"

definition get_app_by_id :: "uuid \<Rightarrow> application option entity_prog" where
  "get_app_by_id i =
     andThen (query ''postgres.GetAppByID'') (\<lambda>_.
     andThen get_state (\<lambda>w. ret (row_of ap_id i (applications w))))"

definition write_apps :: "string \<Rightarrow> uuid \<Rightarrow> (application \<Rightarrow> bool) \<Rightarrow> (application \<Rightarrow> application) \<Rightarrow> unit entity_prog" where
  "write_apps what i ok f =
     andThen (query what) (\<lambda>_.
     andThen get_state (\<lambda>w.
       if \<not> list_ex (\<lambda>a. ap_id a = i \<and> ok a) (applications w) then fail EntityMissing
       else modify (\<lambda>w. w\<lparr>applications := map (\<lambda>a. if ap_id a = i \<and> ok a then f a else a) (applications w)\<rparr>)))"

definition update_app :: "application \<Rightarrow> unit entity_prog" where
  "update_app a = write_apps ''postgres.UpdateApp'' (ap_id a) (\<lambda>_. True)
     (\<lambda>b. b\<lparr>ap_name := ap_name a, ap_description := ap_description a, ap_repo_url := ap_repo_url a,
            ap_updated_at := ap_updated_at a\<rparr>)"

definition update_app_links :: "uuid \<Rightarrow> monitoring_link list \<Rightarrow> unit entity_prog" where
  "update_app_links i ls =
     andThen time_now (\<lambda>now.
       write_apps ''postgres.UpdateAppMonitoringLinks'' i (\<lambda>_. True) (\<lambda>a. a\<lparr>ap_links := ls, ap_updated_at := now\<rparr>))"

definition soft_delete_app :: "uuid \<Rightarrow> unit entity_prog" where
  "soft_delete_app i =
     andThen time_now (\<lambda>now.
       write_apps ''postgres.SoftDeleteApp'' i (\<lambda>a. ap_deleted_at a = None)
         (\<lambda>a. a\<lparr>ap_deleted_at := Some now, ap_updated_at := now\<rparr>))"

definition restore_app :: "uuid \<Rightarrow> unit entity_prog" where
  "restore_app i =
     andThen time_now (\<lambda>now.
       write_apps ''postgres.RestoreApp'' i (\<lambda>a. ap_deleted_at a \<noteq> None)
         (\<lambda>a. a\<lparr>ap_deleted_at := None, ap_updated_at := now\<rparr>))"

definition hard_delete_app :: "uuid \<Rightarrow> unit entity_prog" where
  "hard_delete_app i =
     andThen (query ''postgres.HardDeleteApp'') (\<lambda>_.
     andThen get_state (\<lambda>w.
       if row_of ap_id i (applications w) = None then fail EntityMissing
       else modify (\<lambda>w. w\<lparr>applications := filter (\<lambda>a. ap_id a \<noteq> i) (applications w),
              flag_homes := filter (\<lambda>f. fh_application_id f \<noteq> Some i) (flag_homes w),
              resource_grants := filter (\<lambda>g. gr_application_id g \<noteq> Some i) (resource_grants w)\<rparr>)))"

definition count_flags_by_project :: "uuid \<Rightarrow> nat entity_prog" where
  "count_flags_by_project i =
     andThen (query ''postgres.CountFlagsByProject'') (\<lambda>_.
     andThen get_state (\<lambda>w. ret (length (filter (\<lambda>f. fh_project_id f = i) (flag_homes w)))))"

definition count_flags_by_app :: "uuid \<Rightarrow> nat entity_prog" where
  "count_flags_by_app i =
     andThen (query ''postgres.CountFlagsByApp'') (\<lambda>_.
     andThen get_state (\<lambda>w. ret (length (filter (\<lambda>f. fh_application_id f = Some i) (flag_homes w)))))"

text \<open>The flags evaluated since a time, the last one first.\<close>

definition recent_activity :: "uuid \<Rightarrow> uuid option \<Rightarrow> time \<Rightarrow> entities_world \<Rightarrow> activity list" where
  "recent_activity project app since w =
     (let fs = filter (\<lambda>f. fh_project_id f = project \<and> (app = None \<or> fh_application_id f = app)) (flag_homes w);
          last_of = (\<lambda>key name. filter (\<lambda>t. t \<ge> since) (map snd (filter (\<lambda>(i, _).
            list_ex (\<lambda>f. fh_id f = i \<and> fh_key f = key \<and> fh_name f = name) fs) (evaluations w))))
      in sort_key (\<lambda>a. - ac_last a)
           (List.map_filter (\<lambda>(key, name). case last_of key name of
               [] \<Rightarrow> None
             | ts \<Rightarrow> Some \<lparr>ac_key = key, ac_name = name, ac_last = foldr max ts since\<rparr>)
             (remdups (map (\<lambda>f. (fh_key f, fh_name f)) fs))))"

definition has_recent_flag_activity :: "uuid \<Rightarrow> uuid option \<Rightarrow> time \<Rightarrow> activity list entity_prog" where
  "has_recent_flag_activity project app since =
     andThen (query ''postgres.HasRecentFlagActivity'') (\<lambda>_.
     andThen get_state (\<lambda>w. ret (recent_activity project app since w)))"

text \<open>The environments belong to an organization; their errors keep the text of the driver.\<close>

definition duplicate_key :: entity_error where
  "duplicate_key = EntityDriver ''duplicate key value violates unique constraint''"

definition env_get_by_slug :: "uuid \<Rightarrow> string \<Rightarrow> org_environment option entity_prog" where
  "env_get_by_slug org slug =
     andThen (query ''EnvironmentRepository.GetBySlug'') (\<lambda>_.
     andThen get_state (\<lambda>w. ret (find (\<lambda>e. ev_org_id e = org \<and> ev_slug e = slug) (environments w))))"

definition env_get_by_id :: "uuid \<Rightarrow> org_environment option entity_prog" where
  "env_get_by_id i =
     andThen (query ''EnvironmentRepository.GetByID'') (\<lambda>_.
     andThen get_state (\<lambda>w. ret (row_of ev_id i (environments w))))"

definition resolve_environment_slug :: "uuid \<Rightarrow> string \<Rightarrow> uuid entity_prog" where
  "resolve_environment_slug org slug =
     andThen (env_get_by_slug org slug) (\<lambda>e.
       case e of None \<Rightarrow> fail (EntityText (''environment not found: '' @ slug)) | Some e \<Rightarrow> ret (ev_id e))"

definition env_list_by_org :: "uuid \<Rightarrow> org_environment list entity_prog" where
  "env_list_by_org org =
     andThen (query ''EnvironmentRepository.ListByOrg'') (\<lambda>_.
     andThen get_state (\<lambda>w. ret (sort_key ev_sort_order (filter (\<lambda>e. ev_org_id e = org) (environments w)))))"

definition env_create :: "org_environment \<Rightarrow> org_environment entity_prog" where
  "env_create e =
     andThen uuid_new (\<lambda>i.
     andThen time_now (\<lambda>now.
     let e' = e\<lparr>ev_id := i, ev_created_at := now, ev_updated_at := now\<rparr>
     in andThen (query ''EnvironmentRepository.Create'') (\<lambda>_.
        andThen get_state (\<lambda>w.
          if list_ex (\<lambda>x. ev_id x = i \<or> ev_org_id x = ev_org_id e \<and> ev_slug x = ev_slug e) (environments w)
          then fail duplicate_key
          else andThen (modify (\<lambda>w. w\<lparr>environments := environments w @ [e']\<rparr>)) (\<lambda>_. ret e')))))"

definition env_update :: "org_environment \<Rightarrow> org_environment entity_prog" where
  "env_update e =
     andThen time_now (\<lambda>now.
     let e' = e\<lparr>ev_updated_at := now\<rparr>
     in andThen (query ''EnvironmentRepository.Update'') (\<lambda>_.
        andThen get_state (\<lambda>w.
          case row_of ev_id (ev_id e) (environments w) of
            None \<Rightarrow> fail (EntityText ''EnvironmentRepository.Update: no rows affected'')
          | Some row \<Rightarrow>
              if list_ex (\<lambda>x. ev_id x \<noteq> ev_id e \<and> ev_org_id x = ev_org_id row \<and> ev_slug x = ev_slug e) (environments w)
              then fail duplicate_key
              else andThen (modify (\<lambda>w. w\<lparr>environments := update_row ev_id (ev_id e)
                     (\<lambda>row. row\<lparr>ev_name := ev_name e, ev_slug := ev_slug e, ev_is_production := ev_is_production e,
                              ev_sort_order := ev_sort_order e, ev_updated_at := now\<rparr>) (environments w)\<rparr>)) (\<lambda>_. ret e'))))"

definition env_delete :: "uuid \<Rightarrow> unit entity_prog" where
  "env_delete i =
     andThen (query ''EnvironmentRepository.Delete'') (\<lambda>_.
       modify (\<lambda>w. w\<lparr>environments := filter (\<lambda>e. ev_id e \<noteq> i) (environments w)\<rparr>))"

section \<open>Who sees what\<close>

definition granted :: "entities_world \<Rightarrow> uuid \<Rightarrow> resource_grant \<Rightarrow> bool" where
  "granted w u g \<longleftrightarrow> gr_user_id g = Some u \<or>
     (case gr_group_id g of None \<Rightarrow> False | Some i \<Rightarrow> list_ex (is_member i u) (group_members w))"

definition on_project :: "entities_world \<Rightarrow> uuid \<Rightarrow> resource_grant list" where
  "on_project w p = filter (\<lambda>g. gr_project_id g = Some p) (resource_grants w)"

definition on_app :: "entities_world \<Rightarrow> uuid \<Rightarrow> resource_grant list" where
  "on_app w a = filter (\<lambda>g. gr_application_id g = Some a) (resource_grants w)"

text \<open>
  The conditions of the two listings. The rows come in the order of the table here; the order by
  name of the queries depends on the collation of the database.
\<close>

definition sees_project :: "entities_world \<Rightarrow> uuid \<Rightarrow> string \<Rightarrow> project \<Rightarrow> bool" where
  "sees_project w u role p \<longleftrightarrow> role = ''owner'' \<or> on_project w (pj_id p) = [] \<or>
     list_ex (\<lambda>g. gr_user_id g = Some u) (on_project w (pj_id p)) \<or> list_ex (granted w u) (on_project w (pj_id p))"

definition list_projects_by_org :: "uuid \<Rightarrow> bool \<Rightarrow> uuid \<Rightarrow> string \<Rightarrow> project list entity_prog" where
  "list_projects_by_org org deleted u role =
     andThen (query ''postgres.ListProjectsByOrg'') (\<lambda>_.
     andThen get_state (\<lambda>w.
       ret (filter (\<lambda>p. pj_org_id p = org \<and> (deleted \<or> pj_deleted_at p = None) \<and> sees_project w u role p) (projects w))))"

definition sees_app :: "entities_world \<Rightarrow> uuid \<Rightarrow> string \<Rightarrow> application \<Rightarrow> bool" where
  "sees_app w u role a \<longleftrightarrow> role = ''owner'' \<or>
     on_app w (ap_id a) = [] \<and> on_project w (ap_project_id a) = [] \<or>
     on_app w (ap_id a) = [] \<and> list_ex (granted w u) (on_project w (ap_project_id a)) \<or>
     list_ex (granted w u) (on_app w (ap_id a))"

definition list_apps_by_project :: "uuid \<Rightarrow> bool \<Rightarrow> uuid \<Rightarrow> string \<Rightarrow> application list entity_prog" where
  "list_apps_by_project project deleted u role =
     andThen (query ''postgres.ListAppsByProject'') (\<lambda>_.
     andThen get_state (\<lambda>w.
       ret (filter (\<lambda>a. ap_project_id a = project \<and> (deleted \<or> ap_deleted_at a = None) \<and> sees_app w u role a) (applications w))))"

section \<open>The service\<close>

definition svc_create_org :: "organization \<Rightarrow> uuid \<Rightarrow> organization entity_prog" where
  "svc_create_org g creator =
     andThen uuid_new (\<lambda>i.
     andThen time_now (\<lambda>now.
     let g' = g\<lparr>og_id := i, og_owner_id := creator, og_plan := (if og_plan g = [] then ''free'' else og_plan g),
               og_created_at := now, og_updated_at := now\<rparr>
     in case validate_org g' of
          Some e \<Rightarrow> fail (EntityText e)
        | None \<Rightarrow> andThen (create_org g') (\<lambda>_. andThen (add_org_member i creator ''owner'') (\<lambda>_. ret g'))))"

definition svc_get_org_by_slug :: "string \<Rightarrow> organization option entity_prog" where
  "svc_get_org_by_slug slug = (if slug = [] then fail (EntityText ''slug is required'') else get_org_by_slug slug)"

definition svc_get_org_by_id :: "uuid \<Rightarrow> organization option entity_prog" where
  "svc_get_org_by_id i = (if i = uuid_nil then fail (EntityText ''id is required'') else get_org_by_id i)"

definition svc_update_org :: "organization \<Rightarrow> organization entity_prog" where
  "svc_update_org g = andThen time_now (\<lambda>now.
     let g' = g\<lparr>og_updated_at := now\<rparr> in andThen (update_org g') (\<lambda>_. ret g'))"

definition svc_create_project :: "project \<Rightarrow> project entity_prog" where
  "svc_create_project p =
     andThen uuid_new (\<lambda>i.
     andThen time_now (\<lambda>now.
     let p' = p\<lparr>pj_id := i, pj_created_at := now, pj_updated_at := now\<rparr>
     in case validate_project p' of
          Some e \<Rightarrow> fail (EntityText e)
        | None \<Rightarrow> andThen (create_project p') (\<lambda>_. ret p')))"

definition svc_update_project :: "project \<Rightarrow> project entity_prog" where
  "svc_update_project p = andThen time_now (\<lambda>now.
     let p' = p\<lparr>pj_updated_at := now\<rparr> in andThen (update_project p') (\<lambda>_. ret p'))"

definition found_or :: "string \<Rightarrow> 'a option entity_prog \<Rightarrow> 'a entity_prog" where
  "found_or msg m = andThen m (\<lambda>x. case x of None \<Rightarrow> fail (EntityText msg) | Some v \<Rightarrow> ret v)"

abbreviation two_weeks :: duration where "two_weeks \<equiv> 14 * 24 * minutes 60"

definition svc_delete_project :: "uuid \<Rightarrow> string \<Rightarrow> delete_result entity_prog" where
  "svc_delete_project org slug =
     andThen (found_or ''project not found'' (get_project_by_slug org slug)) (\<lambda>p.
       if pj_deleted_at p \<noteq> None then fail (EntityText ''project is already deleted'')
       else andThen (count_flags_by_project (pj_id p)) (\<lambda>n.
         if n = 0 then andThen (hard_delete_project (pj_id p)) (\<lambda>_. ret DeletedPermanent)
         else andThen time_now (\<lambda>now.
              andThen (has_recent_flag_activity (pj_id p) None (now - two_weeks)) (\<lambda>active.
                if active \<noteq> [] then ret (StillActive active)
                else andThen (soft_delete_project (pj_id p)) (\<lambda>_.
                     andThen time_now (\<lambda>now. ret (DeletedSoft (now + a_week))))))))"

text \<open>The date of the message is left out: \<open>until\<close> only.\<close>

definition svc_hard_delete_project :: "uuid \<Rightarrow> string \<Rightarrow> unit entity_prog" where
  "svc_hard_delete_project org slug =
     andThen (found_or ''project not found'' (get_project_by_slug org slug)) (\<lambda>p.
       case pj_deleted_at p of
         None \<Rightarrow> fail (EntityText ''project must be soft-deleted before hard delete'')
       | Some t \<Rightarrow> andThen time_now (\<lambda>now.
           if now < t + a_week then fail (EntityText ''project cannot be hard-deleted until'')
           else hard_delete_project (pj_id p)))"

definition svc_restore_project :: "uuid \<Rightarrow> string \<Rightarrow> project entity_prog" where
  "svc_restore_project org slug =
     andThen (found_or ''project not found'' (get_project_by_slug org slug)) (\<lambda>p.
       if pj_deleted_at p = None then fail (EntityText ''project is not deleted'')
       else andThen (restore_project (pj_id p)) (\<lambda>_. ret (p\<lparr>pj_deleted_at := None\<rparr>)))"

definition svc_create_app :: "application \<Rightarrow> application entity_prog" where
  "svc_create_app a =
     andThen uuid_new (\<lambda>i.
     andThen time_now (\<lambda>now.
     let a' = a\<lparr>ap_id := i, ap_created_at := now, ap_updated_at := now\<rparr>
     in case validate_app a' of
          Some e \<Rightarrow> fail (EntityText e)
        | None \<Rightarrow> andThen (create_app a') (\<lambda>_. ret a')))"

definition svc_update_app :: "application \<Rightarrow> application entity_prog" where
  "svc_update_app a = andThen time_now (\<lambda>now.
     let a' = a\<lparr>ap_updated_at := now\<rparr> in andThen (update_app a') (\<lambda>_. ret a'))"

definition svc_update_app_links ::
  "(string \<Rightarrow> (string \<times> string) option) \<Rightarrow> uuid \<Rightarrow> monitoring_link list \<Rightarrow> monitoring_link list entity_prog" where
  "svc_update_app_links parse i ls =
     (case validate_links parse ls of
        None \<Rightarrow> fail (EntityText ''monitoring_links'')
      | Some cleaned \<Rightarrow> andThen (update_app_links i cleaned) (\<lambda>_. ret cleaned))"

definition svc_delete_app :: "uuid \<Rightarrow> string \<Rightarrow> delete_result entity_prog" where
  "svc_delete_app project slug =
     andThen (found_or ''application not found'' (get_app_by_slug project slug)) (\<lambda>a.
       if ap_deleted_at a \<noteq> None then fail (EntityText ''application is already deleted'')
       else andThen (count_flags_by_app (ap_id a)) (\<lambda>n.
         if n = 0 then andThen (hard_delete_app (ap_id a)) (\<lambda>_. ret DeletedPermanent)
         else andThen time_now (\<lambda>now.
              andThen (has_recent_flag_activity project (Some (ap_id a)) (now - two_weeks)) (\<lambda>active.
                if active \<noteq> [] then ret (StillActive active)
                else andThen (soft_delete_app (ap_id a)) (\<lambda>_.
                     andThen time_now (\<lambda>now. ret (DeletedSoft (now + a_week))))))))"

definition svc_hard_delete_app :: "uuid \<Rightarrow> string \<Rightarrow> unit entity_prog" where
  "svc_hard_delete_app project slug =
     andThen (found_or ''application not found'' (get_app_by_slug project slug)) (\<lambda>a.
       case ap_deleted_at a of
         None \<Rightarrow> fail (EntityText ''application must be soft-deleted before hard delete'')
       | Some t \<Rightarrow> andThen time_now (\<lambda>now.
           if now < t + a_week then fail (EntityText ''application cannot be hard-deleted until'')
           else hard_delete_app (ap_id a)))"

definition svc_restore_app :: "uuid \<Rightarrow> string \<Rightarrow> application entity_prog" where
  "svc_restore_app project slug =
     andThen (found_or ''application not found'' (get_app_by_slug project slug)) (\<lambda>a.
       if ap_deleted_at a = None then fail (EntityText ''application is not deleted'')
       else andThen (restore_app (ap_id a)) (\<lambda>_. ret (a\<lparr>ap_deleted_at := None\<rparr>)))"

section \<open>Requests\<close>

text \<open>
  The user and the role of the caller, as the checks read them: without a user it is the nil
  identifier. What follows the route is the body, None where it cannot be bound.
\<close>

record entity_caller =
  ek_user :: uuid
  ek_role :: string

type_synonym 'a entity_request = "(entities_world, nat, 'a) prog"

definition on_grants :: "'a grant_prog \<Rightarrow> 'a entity_prog" where
  "on_grants m = (\<lambda>s. case m (grants_world.truncate s) of
     (r, t) \<Rightarrow> (map_sum EntityGrants id r, grants_world.extend t (grants_world.more s)))"

fun entity_error_text :: "entity_error \<Rightarrow> string" where
  "entity_error_text EntityMissing = ''not found''"
| "entity_error_text EntityConflict = ''conflict''"
| "entity_error_text (EntityDriver e) = e"
| "entity_error_text (EntityText e) = e"
| "entity_error_text (EntityGrants e) = grant_error_text e"

definition create_status :: "entity_error \<Rightarrow> nat" where
  "create_status e = (if contains (entity_error_text e) ''duplicate'' \<or> contains (entity_error_text e) ''unique'' then 409 else 422)"

definition hard_delete_status :: "entity_error \<Rightarrow> nat" where
  "hard_delete_status e = (if contains (entity_error_text e) ''eligible at'' then 409 else 500)"

definition or_404 :: "'a option entity_prog \<Rightarrow> 'a entity_request" where
  "or_404 m = andThen (wrapped (\<lambda>_. 404) m) (\<lambda>x. case x of None \<Rightarrow> fail 404 | Some v \<Rightarrow> ret v)"

definition routed_org :: "string \<Rightarrow> organization entity_request" where
  "routed_org slug = or_404 (svc_get_org_by_slug slug)"

definition routed_project :: "string \<Rightarrow> string \<Rightarrow> project entity_request" where
  "routed_project org slug = andThen (routed_org org) (\<lambda>g. or_404 (get_project_by_slug (og_id g) slug))"

definition routed_app :: "string \<Rightarrow> string \<Rightarrow> string \<Rightarrow> (project \<times> application) entity_request" where
  "routed_app org pslug slug =
     andThen (routed_project org pslug) (\<lambda>p.
     andThen (or_404 (get_app_by_slug (pj_id p) slug)) (\<lambda>a. ret (p, a)))"

text \<open>Any permission will do.\<close>

definition check_access :: "entity_caller \<Rightarrow> uuid \<Rightarrow> uuid option \<Rightarrow> unit entity_request" where
  "check_access c project app =
     andThen (wrapped (\<lambda>_. 500) (on_grants (resolve_access (ek_user c) (ek_role c) (Some project) app))) (\<lambda>perm.
       if perm = None then fail 404 else ret ())"

definition reach_project :: "entity_caller \<Rightarrow> string \<Rightarrow> string \<Rightarrow> project entity_request" where
  "reach_project c org slug =
     andThen (routed_project org slug) (\<lambda>p. andThen (check_access c (pj_id p) None) (\<lambda>_. ret p))"

definition reach_app :: "entity_caller \<Rightarrow> string \<Rightarrow> string \<Rightarrow> string \<Rightarrow> (project \<times> application) entity_request" where
  "reach_app c org pslug slug =
     andThen (routed_app org pslug slug) (\<lambda>(p, a). andThen (check_access c (pj_id p) (Some (ap_id a))) (\<lambda>_. ret (p, a)))"

definition create_org_request :: "entity_caller \<Rightarrow> (string \<times> string) option \<Rightarrow> organization entity_request" where
  "create_org_request c body =
     (case body of
        None \<Rightarrow> fail 400
      | Some (name, slug) \<Rightarrow>
          if name = [] \<or> slug = [] then fail 400
          else wrapped create_status (svc_create_org \<lparr>og_id = uuid_nil, og_name = name, og_slug = slug, og_owner_id = uuid_nil,
            og_plan = [], og_created_at = 0, og_updated_at = 0\<rparr> (ek_user c)))"

text \<open>An API key sees the organization it is made for, if any.\<close>

definition list_orgs_request :: "entity_caller \<Rightarrow> uuid option option \<Rightarrow> organization list entity_request" where
  "list_orgs_request c key_org =
     (case key_org of
        Some (Some i) \<Rightarrow> andThen (wrapped (\<lambda>_. 500) (svc_get_org_by_id i)) (\<lambda>g. ret (case g of None \<Rightarrow> [] | Some g \<Rightarrow> [g]))
      | Some None \<Rightarrow> ret []
      | None \<Rightarrow> wrapped (\<lambda>_. 500) (list_orgs_by_user (ek_user c)))"

definition or_kept :: "string \<Rightarrow> string \<Rightarrow> string" where
  "or_kept sent old = (if sent \<noteq> [] then sent else old)"

definition update_org_request :: "string \<Rightarrow> (string \<times> string) option \<Rightarrow> organization entity_request" where
  "update_org_request slug body =
     andThen (routed_org slug) (\<lambda>g.
       case body of
         None \<Rightarrow> fail 400
       | Some (name, plan) \<Rightarrow> wrapped (\<lambda>_. 422) (svc_update_org
           (g\<lparr>og_name := or_kept name (og_name g), og_plan := or_kept plan (og_plan g)\<rparr>)))"

record entity_body =
  eb_name :: string
  eb_slug :: string
  eb_description :: string
  eb_repo_url :: string

definition create_project_request :: "string \<Rightarrow> entity_body option \<Rightarrow> project entity_request" where
  "create_project_request org body =
     andThen (routed_org org) (\<lambda>g.
       case body of
         None \<Rightarrow> fail 400
       | Some b \<Rightarrow>
           if eb_name b = [] \<or> eb_slug b = [] then fail 400
           else wrapped create_status (svc_create_project \<lparr>pj_id = uuid_nil, pj_org_id = og_id g, pj_name = eb_name b,
             pj_slug = eb_slug b, pj_description = eb_description b, pj_repo_url = eb_repo_url b, pj_created_at = 0,
             pj_updated_at = 0, pj_deleted_at = None\<rparr>))"

definition list_projects_request :: "entity_caller \<Rightarrow> string \<Rightarrow> bool \<Rightarrow> project list entity_request" where
  "list_projects_request c org deleted =
     andThen (routed_org org) (\<lambda>g. wrapped (\<lambda>_. 500) (list_projects_by_org (og_id g) deleted (ek_user c) (ek_role c)))"

definition update_project_request :: "entity_caller \<Rightarrow> string \<Rightarrow> string \<Rightarrow> entity_body option \<Rightarrow> project entity_request" where
  "update_project_request c org slug body =
     andThen (reach_project c org slug) (\<lambda>p.
       case body of
         None \<Rightarrow> fail 400
       | Some b \<Rightarrow> wrapped (\<lambda>_. 422) (svc_update_project
           (p\<lparr>pj_name := or_kept (eb_name b) (pj_name p), pj_description := or_kept (eb_description b) (pj_description p),
             pj_repo_url := or_kept (eb_repo_url b) (pj_repo_url p)\<rparr>)))"

definition answer_delete :: "delete_result \<Rightarrow> delete_result entity_request" where
  "answer_delete r = (case r of StillActive _ \<Rightarrow> fail 409 | _ \<Rightarrow> ret r)"

definition delete_project_request :: "entity_caller \<Rightarrow> string \<Rightarrow> string \<Rightarrow> delete_result entity_request" where
  "delete_project_request c org slug =
     andThen (reach_project c org slug) (\<lambda>p.
     andThen (wrapped (\<lambda>_. 500) (svc_delete_project (pj_org_id p) slug)) answer_delete)"

definition hard_delete_project_request :: "entity_caller \<Rightarrow> string \<Rightarrow> string \<Rightarrow> unit entity_request" where
  "hard_delete_project_request c org slug =
     andThen (reach_project c org slug) (\<lambda>p. wrapped hard_delete_status (svc_hard_delete_project (pj_org_id p) slug))"

definition restore_project_request :: "entity_caller \<Rightarrow> string \<Rightarrow> string \<Rightarrow> project entity_request" where
  "restore_project_request c org slug =
     andThen (reach_project c org slug) (\<lambda>p. wrapped (\<lambda>_. 500) (svc_restore_project (pj_org_id p) slug))"

definition create_app_request :: "entity_caller \<Rightarrow> string \<Rightarrow> string \<Rightarrow> entity_body option \<Rightarrow> application entity_request" where
  "create_app_request c org pslug body =
     andThen (reach_project c org pslug) (\<lambda>p.
       case body of
         None \<Rightarrow> fail 400
       | Some b \<Rightarrow>
           if eb_name b = [] \<or> eb_slug b = [] then fail 400
           else wrapped create_status (svc_create_app \<lparr>ap_id = uuid_nil, ap_project_id = pj_id p, ap_name = eb_name b,
             ap_slug = eb_slug b, ap_description = eb_description b, ap_repo_url = eb_repo_url b, ap_links = [],
             ap_created_by = None, ap_created_at = 0, ap_updated_at = 0, ap_deleted_at = None\<rparr>))"

definition list_apps_request :: "entity_caller \<Rightarrow> string \<Rightarrow> string \<Rightarrow> bool \<Rightarrow> application list entity_request" where
  "list_apps_request c org pslug deleted =
     andThen (routed_project org pslug) (\<lambda>p.
       wrapped (\<lambda>_. 500) (list_apps_by_project (pj_id p) deleted (ek_user c) (ek_role c)))"

fun apps_of_projects :: "entity_caller \<Rightarrow> bool \<Rightarrow> project list \<Rightarrow> (project \<times> application) list entity_prog" where
  "apps_of_projects c deleted [] = ret []"
| "apps_of_projects c deleted (p # ps) =
     andThen (list_apps_by_project (pj_id p) deleted (ek_user c) (ek_role c)) (\<lambda>as.
     andThen (apps_of_projects c deleted ps) (\<lambda>rest. ret (map (Pair p) as @ rest)))"

definition list_apps_by_org_request :: "entity_caller \<Rightarrow> string \<Rightarrow> bool \<Rightarrow> (project \<times> application) list entity_request" where
  "list_apps_by_org_request c org deleted =
     andThen (routed_org org) (\<lambda>g.
     wrapped (\<lambda>_. 500) (andThen (list_projects_by_org (og_id g) deleted (ek_user c) (ek_role c)) (apps_of_projects c deleted)))"

definition update_app_request ::
  "entity_caller \<Rightarrow> string \<Rightarrow> string \<Rightarrow> string \<Rightarrow> entity_body option \<Rightarrow> application entity_request" where
  "update_app_request c org pslug slug body =
     andThen (reach_app c org pslug slug) (\<lambda>(p, a).
       case body of
         None \<Rightarrow> fail 400
       | Some b \<Rightarrow> wrapped (\<lambda>_. 422) (svc_update_app
           (a\<lparr>ap_name := or_kept (eb_name b) (ap_name a), ap_description := or_kept (eb_description b) (ap_description a),
             ap_repo_url := or_kept (eb_repo_url b) (ap_repo_url a)\<rparr>)))"

definition update_app_links_request ::
  "(string \<Rightarrow> (string \<times> string) option) \<Rightarrow> entity_caller \<Rightarrow> string \<Rightarrow> string \<Rightarrow> string \<Rightarrow>
   monitoring_link list option \<Rightarrow> application entity_request" where
  "update_app_links_request parse c org pslug slug body =
     andThen (reach_app c org pslug slug) (\<lambda>(p, a).
       case body of
         None \<Rightarrow> fail 400
       | Some ls \<Rightarrow> andThen (wrapped (\<lambda>_. 400) (svc_update_app_links parse (ap_id a) ls)) (\<lambda>cleaned.
           ret (a\<lparr>ap_links := cleaned\<rparr>)))"

definition delete_app_request :: "entity_caller \<Rightarrow> string \<Rightarrow> string \<Rightarrow> string \<Rightarrow> delete_result entity_request" where
  "delete_app_request c org pslug slug =
     andThen (reach_app c org pslug slug) (\<lambda>(p, a).
     andThen (wrapped (\<lambda>_. 500) (svc_delete_app (pj_id p) slug)) answer_delete)"

definition hard_delete_app_request :: "entity_caller \<Rightarrow> string \<Rightarrow> string \<Rightarrow> string \<Rightarrow> unit entity_request" where
  "hard_delete_app_request c org pslug slug =
     andThen (reach_app c org pslug slug) (\<lambda>(p, a). wrapped hard_delete_status (svc_hard_delete_app (pj_id p) slug))"

definition restore_app_request :: "entity_caller \<Rightarrow> string \<Rightarrow> string \<Rightarrow> string \<Rightarrow> application entity_request" where
  "restore_app_request c org pslug slug =
     andThen (reach_app c org pslug slug) (\<lambda>(p, a). wrapped (\<lambda>_. 500) (svc_restore_app (pj_id p) slug))"

text \<open>
  The environments of an application are read from a column \<open>application_id\<close> that the table no
  longer has since migration 035: the query always fails.
\<close>

definition list_environments_by_app :: "uuid \<Rightarrow> org_environment list entity_prog" where
  "list_environments_by_app i = fail (EntityDriver ''column application_id does not exist'')"

definition list_environments_request :: "entity_caller \<Rightarrow> string \<Rightarrow> string \<Rightarrow> string \<Rightarrow> org_environment list entity_request" where
  "list_environments_request c org pslug slug =
     andThen (reach_app c org pslug slug) (\<lambda>(p, a). wrapped (\<lambda>_. 500) (list_environments_by_app (ap_id a)))"

definition create_environment_request :: "string \<Rightarrow> (string \<times> string \<times> bool) option \<Rightarrow> org_environment entity_request" where
  "create_environment_request org body =
     andThen (routed_org org) (\<lambda>g.
       case body of
         None \<Rightarrow> fail 400
       | Some (name, slug, live) \<Rightarrow>
           if name = [] \<or> slug = [] then fail 400
           else wrapped create_status (env_create \<lparr>ev_id = uuid_nil, ev_org_id = og_id g, ev_name = name, ev_slug = slug,
             ev_is_production = live, ev_sort_order = 0, ev_created_at = 0, ev_updated_at = 0\<rparr>))"

definition update_environment_request ::
  "string \<Rightarrow> string \<Rightarrow> (string \<times> string \<times> bool option \<times> int option) option \<Rightarrow> org_environment entity_request" where
  "update_environment_request org slug body =
     andThen (routed_org org) (\<lambda>g.
     andThen (or_404 (env_get_by_slug (og_id g) slug)) (\<lambda>e.
       case body of
         None \<Rightarrow> fail 400
       | Some (name, new, live, pos) \<Rightarrow> wrapped (\<lambda>_. 422) (env_update
           (e\<lparr>ev_name := or_kept name (ev_name e), ev_slug := or_kept new (ev_slug e),
             ev_is_production := (case live of None \<Rightarrow> ev_is_production e | Some b \<Rightarrow> b),
             ev_sort_order := (case pos of None \<Rightarrow> ev_sort_order e | Some n \<Rightarrow> n)\<rparr>))))"

definition delete_environment_request :: "string \<Rightarrow> string \<Rightarrow> unit entity_request" where
  "delete_environment_request org slug =
     andThen (routed_org org) (\<lambda>g.
     andThen (or_404 (env_get_by_slug (og_id g) slug)) (\<lambda>e. wrapped (\<lambda>_. 500) (env_delete (ev_id e))))"

text \<open>The requests that only read one row.\<close>

definition get_org_request :: "string \<Rightarrow> organization entity_request" where
  "get_org_request slug = routed_org slug"

definition get_project_request :: "entity_caller \<Rightarrow> string \<Rightarrow> string \<Rightarrow> project entity_request" where
  "get_project_request c org slug = reach_project c org slug"

definition get_app_request :: "entity_caller \<Rightarrow> string \<Rightarrow> string \<Rightarrow> string \<Rightarrow> application entity_request" where
  "get_app_request c org pslug slug = andThen (reach_app c org pslug slug) (\<lambda>(p, a). ret a)"

definition list_org_environments_request :: "string \<Rightarrow> org_environment list entity_request" where
  "list_org_environments_request org = andThen (routed_org org) (\<lambda>g. wrapped (\<lambda>_. 500) (env_list_by_org (og_id g)))"

section \<open>Histories\<close>

text \<open>The requests that write; the readers leave the tables alone.\<close>

datatype entity_op =
    OpCreateOrg "(string \<times> string) option"
  | OpUpdateOrg string "(string \<times> string) option"
  | OpCreateProject string "entity_body option"
  | OpUpdateProject string string "entity_body option"
  | OpDeleteProject string string
  | OpHardDeleteProject string string
  | OpRestoreProject string string
  | OpCreateApp string string "entity_body option"
  | OpUpdateApp string string string "entity_body option"
  | OpUpdateAppLinks string string string "monitoring_link list option"
  | OpDeleteApp string string string
  | OpHardDeleteApp string string string
  | OpRestoreApp string string string
  | OpCreateEnvironment string "(string \<times> string \<times> bool) option"
  | OpUpdateEnvironment string string "(string \<times> string \<times> bool option \<times> int option) option"
  | OpDeleteEnvironment string string

fun exec_entity_op ::
  "(string \<Rightarrow> (string \<times> string) option) \<Rightarrow> entity_caller \<times> entity_op \<Rightarrow> entities_world \<Rightarrow> entities_world" where
  "exec_entity_op parse (c, OpCreateOrg b) s = snd (create_org_request c b s)"
| "exec_entity_op parse (c, OpUpdateOrg g b) s = snd (update_org_request g b s)"
| "exec_entity_op parse (c, OpCreateProject g b) s = snd (create_project_request g b s)"
| "exec_entity_op parse (c, OpUpdateProject g p b) s = snd (update_project_request c g p b s)"
| "exec_entity_op parse (c, OpDeleteProject g p) s = snd (delete_project_request c g p s)"
| "exec_entity_op parse (c, OpHardDeleteProject g p) s = snd (hard_delete_project_request c g p s)"
| "exec_entity_op parse (c, OpRestoreProject g p) s = snd (restore_project_request c g p s)"
| "exec_entity_op parse (c, OpCreateApp g p b) s = snd (create_app_request c g p b s)"
| "exec_entity_op parse (c, OpUpdateApp g p a b) s = snd (update_app_request c g p a b s)"
| "exec_entity_op parse (c, OpUpdateAppLinks g p a ls) s = snd (update_app_links_request parse c g p a ls s)"
| "exec_entity_op parse (c, OpDeleteApp g p a) s = snd (delete_app_request c g p a s)"
| "exec_entity_op parse (c, OpHardDeleteApp g p a) s = snd (hard_delete_app_request c g p a s)"
| "exec_entity_op parse (c, OpRestoreApp g p a) s = snd (restore_app_request c g p a s)"
| "exec_entity_op parse (c, OpCreateEnvironment g b) s = snd (create_environment_request g b s)"
| "exec_entity_op parse (c, OpUpdateEnvironment g e b) s = snd (update_environment_request g e b s)"
| "exec_entity_op parse (c, OpDeleteEnvironment g e) s = snd (delete_environment_request g e s)"

end
