(* ===== verification/GrantLaws.thy ===== *)
theory GrantLaws
  imports Grants
begin

text \<open>
  What the slugs look like, what access a user has in terms of the tables, the invariant of all
  histories of requests, and what deleting a group does to what it guarded.
\<close>

section \<open>Slugs\<close>

text \<open>Only characters of a slug and single dashes; \<open>inside\<close> says that a dash was just read.\<close>

fun dashes_single :: "bool \<Rightarrow> nat list \<Rightarrow> bool" where
  "dashes_single inside [] = True"
| "dashes_single inside (n # ns) =
     (if slug_char n then dashes_single False ns else n = 45 \<and> \<not> inside \<and> dashes_single True ns)"

lemma dash_not_slug_char [simp]: "\<not> slug_char 45"
  by (simp add: slug_char_def)

lemma dash_runs_single: "dashes_single inside (dash_runs inside ns)"
  by (induction inside ns rule: dash_runs.induct) auto

lemma dash_runs_id: "dashes_single inside ns \<Longrightarrow> dash_runs inside ns = ns"
  by (induction inside ns rule: dash_runs.induct) (auto split: if_splits)

lemma dashes_single_weaken: "dashes_single True ns \<Longrightarrow> dashes_single False ns"
  by (cases ns) (auto split: if_splits)

lemma dashes_single_append: "dashes_single inside (xs @ ys) \<Longrightarrow> dashes_single inside xs"
  by (induction inside xs rule: dashes_single.induct) (auto split: if_splits)

lemma dashes_single_drop: "dashes_single False ns \<Longrightarrow> dashes_single False (dropWhile (\<lambda>n. n = 45) ns)"
proof (induction ns)
  case (Cons n ns)
  show ?case
  proof (cases "n = 45")
    case True
    with Cons.prems have "dashes_single False ns" using dashes_single_weaken by simp
    with Cons.IH True show ?thesis by simp
  qed (use Cons.prems in simp)
qed simp

lemma dashes_single_trim: "dashes_single False ns \<Longrightarrow> dashes_single False (trim_dashes ns)"
proof -
  assume "dashes_single False ns"
  then have ok: "dashes_single False (dropWhile (\<lambda>n. n = 45) ns)" by (rule dashes_single_drop)
  let ?xs = "dropWhile (\<lambda>n. n = 45) ns"
  have "?xs = rev (dropWhile (\<lambda>n. n = 45) (rev ?xs)) @ rev (takeWhile (\<lambda>n. n = 45) (rev ?xs))"
    by (metis rev_append rev_rev_ident takeWhile_dropWhile_id)
  with ok have "dashes_single False (rev (dropWhile (\<lambda>n. n = 45) (rev ?xs)))"
    by (metis dashes_single_append)
  then show ?thesis by (simp add: trim_dashes_def)
qed

lemma trim_dashes_ends: "trim_dashes ns = [] \<or> hd (trim_dashes ns) \<noteq> 45 \<and> last (trim_dashes ns) \<noteq> 45"
proof (cases "trim_dashes ns = []")
  case False
  let ?P = "\<lambda>n :: nat. n = 45"
  let ?xs = "dropWhile ?P ns"
  have ne: "dropWhile ?P (rev ?xs) \<noteq> []" using False by (simp add: trim_dashes_def)
  then have last: "last (trim_dashes ns) \<noteq> 45"
    using hd_dropWhile[OF ne] by (simp add: trim_dashes_def last_rev)
  have split: "?xs = trim_dashes ns @ rev (takeWhile ?P (rev ?xs))"
    unfolding trim_dashes_def by (metis rev_append rev_rev_ident takeWhile_dropWhile_id)
  with False have "hd ?xs = hd (trim_dashes ns)" "?xs \<noteq> []" by (metis hd_append, force)
  with last show ?thesis using hd_dropWhile[of ?P ns] by simp
qed simp

lemma dropWhile_none: "xs = [] \<or> \<not> P (hd xs) \<Longrightarrow> dropWhile P xs = xs"
  by (cases xs) auto

lemma trim_dashes_id: "ns = [] \<or> hd ns \<noteq> 45 \<and> last ns \<noteq> 45 \<Longrightarrow> trim_dashes ns = ns"
  using dropWhile_none[of ns "\<lambda>n. n = 45"] dropWhile_none[of "rev ns" "\<lambda>n. n = 45"]
  by (auto simp: trim_dashes_def hd_rev)

lemma single_codes: "dashes_single inside ns \<Longrightarrow> n \<in> set ns \<Longrightarrow> slug_char n \<or> n = 45"
  by (induction inside ns rule: dashes_single.induct) (auto split: if_splits)

lemma slug_lower_id: "\<forall>n \<in> set ns. slug_char n \<or> n = 45 \<Longrightarrow> slug_lower ns = ns"
  by (induction ns rule: slug_lower.induct) (auto simp: slug_char_def)

definition slug_codes :: "string \<Rightarrow> nat list" where
  "slug_codes name = trim_dashes (dash_runs False (slug_lower (map code_of name)))"

lemma slug_codes_single: "dashes_single False (slug_codes name)"
  unfolding slug_codes_def by (intro dashes_single_trim dash_runs_single)

lemma slug_codes_back: "map code_of (map char_of (slug_codes name) :: string) = slug_codes name"
proof -
  have "n \<in> set (slug_codes name) \<Longrightarrow> n < 256" for n
    using single_codes[OF slug_codes_single] by (fastforce simp: slug_char_def)
  then show ?thesis by (simp add: map_idI)
qed

text \<open>
  A slug is made of letters, digits and single dashes, none at an end, and making a slug of a
  slug changes nothing.
\<close>

theorem generate_slug_stable:
  "generate_slug (generate_slug name) = generate_slug name"
  "dashes_single False (map code_of (generate_slug name))"
  "generate_slug name \<noteq> [] \<Longrightarrow> hd (generate_slug name) \<noteq> CHR ''-'' \<and> last (generate_slug name) \<noteq> CHR ''-''"
proof -
  have codes: "map code_of (generate_slug name) = slug_codes name"
    unfolding generate_slug_def slug_codes_def[symmetric] by (rule slug_codes_back)
  have same: "trim_dashes (dash_runs False (slug_lower (slug_codes name))) = slug_codes name"
    using slug_codes_single[of name] trim_dashes_ends[of "dash_runs False (slug_lower (map code_of name))"]
    by (subst slug_lower_id) (auto simp: dash_runs_id trim_dashes_id slug_codes_def dest: single_codes)
  show "generate_slug (generate_slug name) = generate_slug name"
    unfolding generate_slug_def[of "generate_slug name"] codes same by (simp add: generate_slug_def slug_codes_def)
  show "dashes_single False (map code_of (generate_slug name))"
    unfolding codes by (rule slug_codes_single)
  assume ne: "generate_slug name \<noteq> []"
  have "code_of (hd (generate_slug name)) = hd (slug_codes name)" "code_of (last (generate_slug name)) = last (slug_codes name)"
    using ne codes by (metis hd_map, metis last_map)
  with ne codes trim_dashes_ends[of "dash_runs False (slug_lower (map code_of name))"]
  show "hd (generate_slug name) \<noteq> CHR ''-'' \<and> last (generate_slug name) \<noteq> CHR ''-''"
    by (auto simp: slug_codes_def)
qed

section \<open>Who has access\<close>

text \<open>What the tables say about the access of a user.\<close>

definition effective_grants :: "uuid option \<Rightarrow> uuid option \<Rightarrow> resource_grant list \<Rightarrow> resource_grant list" where
  "effective_grants project app gs =
     (if grants_on None app gs \<noteq> [] then grants_on None app gs else grants_on project None gs)"

definition access_of :: "grants_world \<Rightarrow> uuid \<Rightarrow> string \<Rightarrow> uuid option \<Rightarrow> uuid option \<Rightarrow> resource_permission option" where
  "access_of w u role project app =
     (let rows = effective_grants project app (resource_grants w);
          mine = filter (\<lambda>g. gr_user_id g = Some u) rows;
          ours = map gr_permission (filter (through_group w u) rows)
      in if role = ''owner'' \<or> rows = [] then Some PermissionWrite
         else if mine \<noteq> [] then Some (gr_permission (hd mine))
         else if PermissionWrite \<in> set ours then Some PermissionWrite
         else if ours \<noteq> [] then Some (hd ours)
         else None)"

lemma find_hd: "find P xs = (if filter P xs = [] then None else Some (hd (filter P xs)))"
  by (induction xs) auto

lemma calm_query: "calm s \<Longrightarrow> \<exists>n. query_grants p a s = (Inr (), s\<lparr>calls := n\<rparr>)"
  by (cases "p = None \<and> a = None") (auto simp: query_grants_def prog_defs intro: exI[of _ "calls s"])

text \<open>
  C17. Resolution gives what the tables say. The rows that count: those of the application when it has some, else those of the project.
  Owners and resources without rows are open; a row of the user decides before those of the
  groups, of which the strongest counts.
\<close>

theorem access_resolved:
  assumes "calm s"
  shows "fst (resolve_access u role project app s) = Inr (access_of s u role project app)"
proof -
  have through: "through_group (s\<lparr>calls := n\<rparr>) u = through_group s u" for n
    by (rule ext) (simp add: through_group_def split: option.split)
  have own: "\<exists>n. has_any_grants None app s = (Inr (grants_on None app (resource_grants s) \<noteq> []), s\<lparr>calls := n\<rparr>)"
    using calm_query[OF assms, of None app] by (auto simp: has_any_grants_def prog_defs)
  have closed: "\<exists>n. has_any_grants p a (s\<lparr>calls := m\<rparr>) = (Inr (grants_on p a (resource_grants s) \<noteq> []), s\<lparr>calls := n\<rparr>)" for p a m
    using calm_query[of "s\<lparr>calls := m\<rparr>" p a] assms by (auto simp: has_any_grants_def prog_defs)
  have direct: "\<exists>n. get_user_permission u p a (s\<lparr>calls := m\<rparr>) =
      (Inr (map_option gr_permission (find (\<lambda>g. gr_user_id g = Some u) (grants_on p a (resource_grants s)))), s\<lparr>calls := n\<rparr>)" for p a m
    using calm_query[of "s\<lparr>calls := m\<rparr>" p a] assms by (auto simp: get_user_permission_def prog_defs)
  have group: "fst (get_user_group_permission u p a (s\<lparr>calls := m\<rparr>)) =
      Inr (let ps = map gr_permission (filter (through_group s u) (grants_on p a (resource_grants s)))
           in if PermissionWrite \<in> set ps then Some PermissionWrite else case ps of [] \<Rightarrow> None | p # _ \<Rightarrow> Some p)" for p a m
    using calm_query[of "s\<lparr>calls := m\<rparr>" p a] assms
    by (auto simp: get_user_group_permission_def prog_defs Let_def through)
  have rest: "fst (andThen (wrapped (GrantWrap ''checking resource grants'') (has_any_grants p a)) (\<lambda>closed.
          if \<not> closed then ret (Some PermissionWrite)
          else andThen (wrapped (GrantWrap ''checking user permission'') (get_user_permission u p a)) (\<lambda>direct.
               if direct \<noteq> None then ret direct
               else wrapped (GrantWrap ''checking group permission'') (get_user_group_permission u p a))) (s\<lparr>calls := m\<rparr>)) =
      Inr (let rows = grants_on p a (resource_grants s);
          mine = filter (\<lambda>g. gr_user_id g = Some u) rows;
          ours = map gr_permission (filter (through_group s u) rows)
      in if rows = [] then Some PermissionWrite
         else if mine \<noteq> [] then Some (gr_permission (hd mine))
         else if PermissionWrite \<in> set ours then Some PermissionWrite
         else if ours \<noteq> [] then Some (hd ours)
         else None)" for p a m
  proof -
    obtain n where n: "has_any_grants p a (s\<lparr>calls := m\<rparr>) = (Inr (grants_on p a (resource_grants s) \<noteq> []), s\<lparr>calls := n\<rparr>)"
      using closed by blast
    obtain k where k: "get_user_permission u p a (s\<lparr>calls := n\<rparr>) =
      (Inr (map_option gr_permission (find (\<lambda>g. gr_user_id g = Some u) (grants_on p a (resource_grants s)))), s\<lparr>calls := k\<rparr>)"
      using direct by blast
    obtain r t where r: "get_user_group_permission u p a (s\<lparr>calls := k\<rparr>) = (r, t)" by fastforce
    show ?thesis
      using group[of p a k] by (auto simp: prog_defs n k r find_hd Let_def split: list.splits)
  qed
  show ?thesis
  proof (cases "role = ''owner''")
    case True
    then show ?thesis by (simp add: resolve_access_def access_of_def prog_defs)
  next
    case False
    show ?thesis
    proof (cases app)
      case None
      then show ?thesis
        using False rest[of project None "calls s"]
        by (simp add: resolve_access_def access_of_def effective_grants_def grants_on_def[of None None])
    next
      case (Some a)
      obtain n where n: "has_any_grants None (Some a) s = (Inr (grants_on None app (resource_grants s) \<noteq> []), s\<lparr>calls := n\<rparr>)"
        using own Some by auto
      then have pick: "andThen (wrapped (GrantWrap ''checking app grants'') (has_any_grants None (Some a)))
          (\<lambda>own. ret (if own then (None, Some a) else (project, None))) s =
        (Inr (if grants_on None app (resource_grants s) \<noteq> [] then (None, Some a) else (project, None)), s\<lparr>calls := n\<rparr>)"
        by (simp add: prog_defs)
      show ?thesis
      proof (cases "grants_on None app (resource_grants s) = []")
        case True
        with pick have picked: "andThen (wrapped (GrantWrap ''checking app grants'') (has_any_grants None (Some a)))
          (\<lambda>own. ret (if own then (None, Some a) else (project, None))) s = (Inr (project, None), s\<lparr>calls := n\<rparr>)" by simp
        from True False Some rest[of project None n] show ?thesis
          by (simp add: resolve_access_def access_of_def effective_grants_def andThen_run(1)[where m = "andThen _ _", OF picked])
      next
        case own: False
        with pick have picked: "andThen (wrapped (GrantWrap ''checking app grants'') (has_any_grants None (Some a)))
          (\<lambda>own. ret (if own then (None, Some a) else (project, None))) s = (Inr (None, Some a), s\<lparr>calls := n\<rparr>)" by simp
        from own False Some rest[of None "Some a" n] show ?thesis
          by (simp add: resolve_access_def access_of_def effective_grants_def andThen_run(1)[where m = "andThen _ _", OF picked])
      qed
    qed
  qed
qed

section \<open>The invariant of the tables\<close>

definition group_there :: "user_group list \<Rightarrow> uuid \<Rightarrow> bool" where
  "group_there gs i \<longleftrightarrow> i \<in> ug_id ` set gs"

definition tables_ok :: "user_group list \<Rightarrow> group_member list \<Rightarrow> resource_grant list \<Rightarrow> bool" where
  "tables_ok gs ms rs \<longleftrightarrow>
     distinct (map ug_id gs) \<and> distinct (map (\<lambda>g. (ug_org_id g, ug_slug g)) gs) \<and>
     distinct (map (\<lambda>m. (gm_group_id m, gm_user_id m)) ms) \<and>
     (\<forall>m \<in> set ms. group_there gs (gm_group_id m)) \<and>
     sorted_wrt (\<lambda>g h. \<not> same_grant g h) rs \<and>
     (\<forall>g \<in> set rs. grant_checks g \<and> (\<forall>i. gr_group_id g = Some i \<longrightarrow> group_there gs i))"

definition grants_ok :: "grants_world \<Rightarrow> bool" where
  "grants_ok w \<longleftrightarrow> tables_ok (user_groups w) (group_members w) (resource_grants w)"

definition grants_step :: "grants_world \<Rightarrow> grants_world \<Rightarrow> bool" where
  "grants_step s t \<longleftrightarrow> (grants_ok s \<longrightarrow> grants_ok t)"

interpretation grants_steps: frame grants_step
  by unfold_locales (auto simp: grants_step_def)

lemma grants_env:
  "keeps grants_step (ext_call e)" "keeps grants_step time_now" "keeps grants_step uuid_new"
  by (auto simp: keeps_def prog_defs grants_step_def grants_ok_def)

lemmas grants_prims = grants_steps.keeps_rules grants_env

text \<open>The writes, each under the condition its operation has checked.\<close>

lemma tables_ok_new_group:
  assumes "tables_ok gs ms rs" "row_of ug_id (ug_id g) gs = None"
    "\<not> list_ex (\<lambda>h. ug_org_id h = ug_org_id g \<and> ug_slug h = ug_slug g) gs"
  shows "tables_ok (gs @ [g]) ms rs"
  using assms by (auto simp: tables_ok_def group_there_def row_of_None list_ex_iff)

lemma same_group_ids: "ug_id ` set (update_row ug_id i (write_group g now) gs) = ug_id ` set gs"
proof -
  have "map ug_id (update_row ug_id i (write_group g now) gs) = map ug_id gs"
    by (rule keys_update) (simp add: write_group_def)
  from arg_cong[OF this, of set] show ?thesis by simp
qed

lemma distinct_slugs_update:
  assumes "distinct (map ug_id gs)" "distinct (map (\<lambda>g. (ug_org_id g, ug_slug g)) gs)"
    and "\<And>row. row \<in> set gs \<Longrightarrow> ug_id row = i \<Longrightarrow>
      \<forall>h \<in> set gs. ug_id h \<noteq> i \<longrightarrow> (ug_org_id h, ug_slug h) \<noteq> (ug_org_id row, ug_slug g)"
  shows "distinct (map (\<lambda>g. (ug_org_id g, ug_slug g)) (update_row ug_id i (write_group g now) gs))"
  using assms
proof (induction gs)
  case (Cons r gs)
  have IH: "distinct (map (\<lambda>g. (ug_org_id g, ug_slug g)) (update_row ug_id i (write_group g now) gs))"
    by (rule Cons.IH) (use Cons.prems in auto)
  show ?case
  proof (cases "ug_id r = i")
    case True
    with Cons.prems(1) have "update_row ug_id i (write_group g now) gs = gs"
      by (auto simp: update_row_def intro!: map_idI) (metis imageI)
    moreover have "(ug_org_id r, ug_slug g) \<notin> (\<lambda>g. (ug_org_id g, ug_slug g)) ` set gs"
    proof
      assume "(ug_org_id r, ug_slug g) \<in> (\<lambda>g. (ug_org_id g, ug_slug g)) ` set gs"
      then obtain h where h: "h \<in> set gs" "(ug_org_id r, ug_slug g) = (ug_org_id h, ug_slug h)" by auto
      have "ug_id h \<in> ug_id ` set gs" using h(1) by (rule imageI)
      moreover have "i \<notin> ug_id ` set gs" using Cons.prems(1) True by simp
      ultimately have "ug_id h \<noteq> i" by metis
      with Cons.prems(3)[of r] True h show False by (simp, blast)
    qed
    moreover have "update_row ug_id i (write_group g now) (r # gs) = write_group g now r # update_row ug_id i (write_group g now) gs"
      using True by (simp add: update_row_def)
    moreover have "ug_org_id (write_group g now r) = ug_org_id r" "ug_slug (write_group g now r) = ug_slug g"
      by (simp_all add: write_group_def)
    ultimately show ?thesis using Cons.prems(2) by simp
  next
    case False
    have "(ug_org_id r, ug_slug r) \<notin> (\<lambda>g. (ug_org_id g, ug_slug g)) ` set (update_row ug_id i (write_group g now) gs)"
      using Cons.prems(2) Cons.prems(3) False by (fastforce simp: update_row_def write_group_def split: if_splits)
    moreover have "update_row ug_id i (write_group g now) (r # gs) = r # update_row ug_id i (write_group g now) gs"
      using False by (simp add: update_row_def)
    ultimately show ?thesis using IH by simp
  qed
qed (simp add: update_row_def)

lemma tables_ok_group_row:
  assumes "tables_ok gs ms rs" "row_of ug_id (ug_id g) gs = Some row"
    "\<not> list_ex (\<lambda>h. ug_id h \<noteq> ug_id g \<and> ug_org_id h = ug_org_id row \<and> ug_slug h = ug_slug g) gs"
  shows "tables_ok (update_row ug_id (ug_id g) (write_group g now) gs) ms rs"
proof -
  have row: "row \<in> set gs" "ug_id row = ug_id g" using row_of_Some[OF assms(2)] by auto
  have one: "r = row" if "r \<in> set gs" "ug_id r = ug_id g" for r
    using that row assms(1) by (auto simp: tables_ok_def distinct_map inj_on_def)
  have "distinct (map (\<lambda>g. (ug_org_id g, ug_slug g)) (update_row ug_id (ug_id g) (write_group g now) gs))"
    by (rule distinct_slugs_update) (use assms one in \<open>auto simp: tables_ok_def list_ex_iff\<close>)
  moreover have "map ug_id (update_row ug_id (ug_id g) (write_group g now) gs) = map ug_id gs"
    by (rule keys_update) (simp add: write_group_def)
  ultimately show ?thesis
    using assms(1) by (auto simp: tables_ok_def group_there_def same_group_ids)
qed

lemma other_ids: "ug_id ` {x \<in> S. ug_id x \<noteq> i} = ug_id ` S - {i}"
  by auto

lemma tables_ok_drop_group:
  assumes "tables_ok gs ms rs"
  shows "tables_ok (filter (\<lambda>g. ug_id g \<noteq> i) gs) (filter (\<lambda>m. gm_group_id m \<noteq> i) ms) (filter (\<lambda>r. gr_group_id r \<noteq> Some i) rs)"
  using assms by (auto simp: tables_ok_def group_there_def distinct_map_filter sorted_wrt_filter other_ids)

lemma tables_ok_new_member:
  assumes "tables_ok gs ms rs" "\<not> list_ex (is_member g u) ms" "row_of ug_id g gs \<noteq> None"
  shows "tables_ok gs (ms @ [\<lparr>gm_group_id = g, gm_user_id = u, gm_created_at = now\<rparr>]) rs"
  using assms by (auto simp: tables_ok_def group_there_def row_of_None list_ex_iff is_member_def)

lemma tables_ok_drop_member:
  "tables_ok gs ms rs \<Longrightarrow> tables_ok gs (filter P ms) rs"
  by (auto simp: tables_ok_def group_there_def distinct_map_filter)

lemma both_some_sym: "both_some x y = both_some y x"
  by (auto simp: both_some_def)

lemma same_grant_sym: "same_grant g h = same_grant h g"
  by (simp add: same_grant_def both_some_sym)

lemma same_grant_stamped: "same_grant (g\<lparr>gr_id := j, gr_created_at := now\<rparr>) h = same_grant g h"
  by (simp add: same_grant_def)

lemma tables_ok_new_grant:
  assumes ok: "tables_ok gs ms rs" and checks: "grant_checks g" and new: "\<not> list_ex (same_grant g) rs"
    and there: "\<And>i. gr_group_id g = Some i \<Longrightarrow> row_of ug_id i gs \<noteq> None"
  shows "tables_ok gs ms (rs @ [g\<lparr>gr_id := j, gr_created_at := now\<rparr>])"
proof -
  let ?g = "g\<lparr>gr_id := j, gr_created_at := now\<rparr>"
  have "sorted_wrt (\<lambda>g h. \<not> same_grant g h) (rs @ [?g])"
    using ok new by (simp add: tables_ok_def sorted_wrt_append list_ex_iff same_grant_sym[of _ ?g] same_grant_stamped)
  moreover have "grant_checks ?g" using checks by (simp add: grant_checks_def)
  moreover have "\<forall>i. gr_group_id ?g = Some i \<longrightarrow> group_there gs i"
    using there by (auto simp: group_there_def row_of_None)
  ultimately show ?thesis using ok by (simp add: tables_ok_def group_there_def)
qed

lemma tables_ok_drop_grant:
  "tables_ok gs ms rs \<Longrightarrow> tables_ok gs ms (filter P rs)"
  by (auto simp: tables_ok_def group_there_def sorted_wrt_filter)

lemma grants_repository:
  "keeps grants_step (get_group_by_slug org slug)" "keeps grants_step (create_group g)"
  "keeps grants_step (update_group g)" "keeps grants_step (delete_group i)"
  "keeps grants_step (add_group_member i u)" "keeps grants_step (remove_group_member i u)"
  "keeps grants_step (create_grant r)" "keeps grants_step (delete_grant i)"
proof -
  show "keeps grants_step (get_group_by_slug org slug)"
    unfolding get_group_by_slug_def by (intro grants_prims)
  show "keeps grants_step (create_group g)"
    by (auto simp: create_group_def keeps_def grants_step_def grants_ok_def prog_defs Let_def intro!: tables_ok_new_group
        split: if_splits)
  show "keeps grants_step (update_group g)"
    by (auto simp: update_group_def keeps_def grants_step_def grants_ok_def prog_defs intro!: tables_ok_group_row
        split: option.split if_splits)
  show "keeps grants_step (delete_group i)"
    by (auto simp: delete_group_def keeps_def grants_step_def grants_ok_def prog_defs intro!: tables_ok_drop_group)
  show "keeps grants_step (add_group_member i u)"
    by (auto simp: add_group_member_def keeps_def grants_step_def grants_ok_def prog_defs intro!: tables_ok_new_member)
  show "keeps grants_step (remove_group_member i u)"
    by (auto simp: remove_group_member_def keeps_def grants_step_def grants_ok_def prog_defs intro!: tables_ok_drop_member)
  have [simp]: "grant_checks (g\<lparr>gr_id := j\<rparr>) = grant_checks g" "same_grant (g\<lparr>gr_id := j\<rparr>) = same_grant g" for g j
    by (auto simp: grant_checks_def same_grant_def fun_eq_iff)
  have stamped: "tables_ok gs ms (rs @ [g\<lparr>gr_created_at := now\<rparr>])"
    if "tables_ok gs ms rs" "grant_checks g" "\<not> list_ex (same_grant g) rs"
      "\<And>i. gr_group_id g = Some i \<Longrightarrow> row_of ug_id i gs \<noteq> None" for gs ms rs g now
    using tables_ok_new_grant[OF that, where j = "gr_id g" and now = now] by simp
  show "keeps grants_step (create_grant r)"
    by (auto simp: create_grant_def keeps_def grants_step_def grants_ok_def prog_defs Let_def intro!: tables_ok_new_grant stamped
        split: if_splits option.splits)
  show "keeps grants_step (delete_grant i)"
    by (auto simp: delete_grant_def keeps_def grants_step_def grants_ok_def prog_defs intro!: tables_ok_drop_grant)
qed

lemma grants_services:
  "keeps grants_step (svc_create_grant r)" "keeps grants_step (svc_delete_grant i)"
  "keeps grants_step (svc_get_group org slug)" "keeps grants_step (svc_create_group org name descr u)"
  "keeps grants_step (svc_update_group org slug name descr)" "keeps grants_step (svc_delete_group org slug)"
  "keeps grants_step (svc_add_group_member org slug u)" "keeps grants_step (svc_remove_group_member org slug u)"
  unfolding svc_create_grant_def svc_delete_grant_def svc_get_group_def svc_create_group_def svc_update_group_def
    svc_delete_group_def svc_add_group_member_def svc_remove_group_member_def deref_group_def slug_exists_def Let_def
  by (intro grants_prims grants_repository)+

lemma grants_requests:
  "keeps grants_step (create_grant_request u org p a b)" "keeps grants_step (delete_grant_request i)"
  "keeps grants_step (create_group_request u org' b')" "keeps grants_step (update_group_request org' slug b')"
  "keeps grants_step (delete_group_request org' slug)" "keeps grants_step (add_group_member_request org' slug v)"
  "keeps grants_step (remove_group_member_request org' slug i)"
  unfolding create_grant_request_def delete_grant_request_def create_group_request_def update_group_request_def
    delete_group_request_def add_group_member_request_def remove_group_member_request_def
  by (auto intro!: grants_prims grants_services split: option.split prod.split)

text \<open>
  C32. Over any history of requests, slugs stay unique within an organization, members and grants
  belong to groups that exist, every grant has one resource, one grantee and a known permission,
  and no two grants give the same grantee the same resource.
\<close>

theorem grants_history:
  assumes "grants_ok s"
  shows "grants_ok (fold exec_grant_op xs s)"
  using assms
proof (induction xs arbitrary: s)
  case (Cons x xs)
  have "grants_step s (exec_grant_op x s)"
    using grants_requests[unfolded keeps_def] by (cases x) simp_all
  with Cons show ?case by (simp add: grants_step_def)
qed simp

section \<open>Deleting a group\<close>

text \<open>
  C21. The grants of a group go with it. A project that only this group could reach is left without
  grants, which makes it open to every member of the organization.
\<close>

theorem deleting_group_opens:
  assumes "calm s" and "find (\<lambda>g. ug_org_id g = org \<and> ug_slug g = slug) (user_groups s) = Some g"
    and only: "\<And>r. r \<in> set (resource_grants s) \<Longrightarrow> gr_project_id r = Some p \<Longrightarrow> gr_group_id r = Some (ug_id g)"
  shows "fst (delete_group_request (Some org) slug s) = Inr () \<and>
    access_of (snd (delete_group_request (Some org) slug s)) u role (Some p) None = Some PermissionWrite"
proof -
  have "g \<in> set (user_groups s)" using assms(2) by (auto simp: find_Some_iff)
  then have there: "row_of ug_id (ug_id g) (user_groups s) \<noteq> None" by (auto simp: row_of_None)
  have run: "delete_group_request (Some org) slug s = (Inr (), s\<lparr>calls := Suc (Suc (calls s)),
      user_groups := filter (\<lambda>h. ug_id h \<noteq> ug_id g) (user_groups s),
      group_members := filter (\<lambda>m. gm_group_id m \<noteq> ug_id g) (group_members s),
      resource_grants := filter (\<lambda>r. gr_group_id r \<noteq> Some (ug_id g)) (resource_grants s)\<rparr>)"
    using assms(1,2) there
    by (auto simp: delete_group_request_def svc_delete_group_def svc_get_group_def deref_group_def get_group_by_slug_def
        delete_group_def prog_defs)
  have "filter (\<lambda>r. gr_project_id r = Some p) (filter (\<lambda>r. gr_group_id r \<noteq> Some (ug_id g)) (resource_grants s)) = []"
    using only by (auto simp: filter_empty_conv)
  with run show ?thesis
    by (simp_all add: access_of_def effective_grants_def grants_on_def)
qed

section \<open>Errors\<close>

text \<open>A request that names an unknown group panics, and showing it succeeds with nothing.\<close>

theorem unknown_group_panics:
  assumes "calm s" and "find (\<lambda>g. ug_org_id g = org \<and> ug_slug g = slug) (user_groups s) = None"
  shows "fst (get_group_request (Some org) slug s) = Inr None"
    and "fst (delete_group_request (Some org) slug s) = Inl 500"
    and "name \<noteq> [] \<Longrightarrow> fst (update_group_request (Some org) slug (Some (name, descr)) s) = Inl 500"
    and "fst (add_group_member_request (Some org) slug (Some (Some u)) s) = Inl 500"
  using assms
  by (simp_all add: get_group_request_def delete_group_request_def update_group_request_def add_group_member_request_def
      svc_delete_group_def svc_update_group_def svc_add_group_member_def svc_get_group_def deref_group_def
      get_group_by_slug_def prog_defs group_status_def)

lemma create_grant_errors: "create_grant g s = (Inl e, t) \<Longrightarrow> e = GrantConflict \<or> e = GrantDriver ''insert resource_grants''"
  by (auto simp: create_grant_def prog_defs Let_def split: if_splits)

lemma svc_create_grant_errors: "svc_create_grant g s = (Inl e, t) \<Longrightarrow> e \<noteq> GrantDuplicate"
proof -
  have "\<not> contains ''conflict'' ''duplicate key''" "\<not> contains ''conflict'' ''23505''"
    "\<not> contains ''insert resource_grants'' ''duplicate key''" "\<not> contains ''insert resource_grants'' ''23505''"
    by (simp_all add: contains_def)
  then show "svc_create_grant g s = (Inl e, t) \<Longrightarrow> e \<noteq> GrantDuplicate"
    by (auto simp: svc_create_grant_def andThen_Inl wrapped_Inl uuid_new_def time_now_def fail_def
        split: option.splits dest!: create_grant_errors)
qed

text \<open>A second grant for the same grantee and resource is answered 400, never 409.\<close>

theorem duplicate_grant_status: "fst (create_grant_request u org p a b s) \<noteq> Inl 409"
proof
  assume "fst (create_grant_request u org p a b s) = Inl 409"
  then obtain t where "create_grant_request u org p a b s = (Inl 409, t)" by (metis prod.collapse)
  then show False
    by (auto simp: create_grant_request_def wrapped_Inl fail_def dest: svc_create_grant_errors
        split: option.splits if_splits)
qed

text \<open>Renaming a group to a name without letters and digits takes its slug away.\<close>

lemma renamed_without_slug:
  assumes "calm s" "find (\<lambda>g. ug_org_id g = org \<and> ug_slug g = slug) (user_groups s) = Some g" "ug_slug g \<noteq> []"
    "generate_slug name = []" "\<And>h. h \<in> set (user_groups s) \<Longrightarrow> ug_org_id h = org \<Longrightarrow> ug_slug h \<noteq> []"
    "svc_update_group org slug name descr s = (r, t)" "distinct (map ug_id (user_groups s))"
  shows "\<exists>h. r = Inr h \<and> ug_slug h = []"
proof -
  have g: "g \<in> set (user_groups s)" "ug_org_id g = org" using assms(2) by (auto simp: find_Some_iff)
  have row: "row_of ug_id (ug_id g) (user_groups s) = Some g" using row_of_distinct[OF assms(7) g(1)] by simp
  have "find (\<lambda>h. ug_org_id h = org \<and> ug_slug h = []) (user_groups s) = None" using assms(5) by (auto simp: find_None_iff)
  then have free: "slug_exists org [] (s\<lparr>calls := Suc (calls s)\<rparr>) = (Inr False, s\<lparr>calls := Suc (Suc (calls s))\<rparr>)"
    using assms(1) by (simp add: slug_exists_def get_group_by_slug_def prog_defs)
  have found: "svc_get_group org slug s = (Inr (Some g), s\<lparr>calls := Suc (calls s)\<rparr>)"
    using assms(1,2) by (simp add: svc_get_group_def get_group_by_slug_def prog_defs)
  have "\<not> list_ex (\<lambda>h. ug_id h \<noteq> ug_id g \<and> ug_org_id h = ug_org_id g \<and> ug_slug h = []) (user_groups s)"
    using assms(5) g by (auto simp: list_ex_iff)
  then show ?thesis
    using assms(1,3,4,6) row
    by (auto simp: svc_update_group_def found free deref_group_def update_group_def prog_defs Let_def)
qed

section \<open>Samples\<close>

definition sample_group :: user_group where
  "sample_group = \<lparr>ug_id = 3, ug_org_id = 2, ug_name = ''Release Team'', ug_slug = ''release-team'', ug_description = [],
     ug_created_by = None, ug_created_at = 0, ug_updated_at = 0\<rparr>"

definition group_grant :: resource_grant where
  "group_grant = \<lparr>gr_id = 4, gr_org_id = 2, gr_project_id = Some 1, gr_application_id = None, gr_user_id = None,
     gr_group_id = Some 3, gr_permission = PermissionWrite, gr_granted_by = None, gr_created_at = 0\<rparr>"

text \<open>A project that only the members of one group can reach; user 7 is one, user 8 is not.\<close>

definition grants_sample :: grants_world where
  "grants_sample = \<lparr>fault = (\<lambda>_. False), calls = 0, clock = int, reads = 0, fresh = (\<lambda>n. of_nat n + 100), minted = 0,
     ctxdone = (\<lambda>_. False), polls = 0, user_groups = [sample_group],
     group_members = [\<lparr>gm_group_id = 3, gm_user_id = 7, gm_created_at = 0\<rparr>], resource_grants = [group_grant],
     known = (\<lambda>_. True)\<rparr>"

lemma grants_sample_calm: "calm grants_sample"
  by (simp add: calm_def grants_sample_def)

theorem generate_slug_stable_witness:
  "hd (generate_slug ''Release Team!'') \<noteq> CHR ''-'' \<and> last (generate_slug ''Release Team!'') \<noteq> CHR ''-''"
  by (rule generate_slug_stable(3)) code_simp

theorem access_resolved_witness:
  "fst (resolve_access 7 ''member'' (Some 1) None grants_sample) = Inr (Some PermissionWrite) \<and>
   fst (resolve_access 8 ''member'' (Some 1) None grants_sample) = Inr None"
proof -
  have "access_of grants_sample 7 ''member'' (Some 1) None = Some PermissionWrite" "access_of grants_sample 8 ''member'' (Some 1) None = None"
    by code_simp+
  with access_resolved[OF grants_sample_calm, of 7 "''member''" "Some 1" None]
    access_resolved[OF grants_sample_calm, of 8 "''member''" "Some 1" None] show ?thesis by simp
qed

theorem grants_history_witness:
  "grants_ok (fold exec_grant_op [OpCreateGroup (Some 7) (Some 2) (Some (''Release team'', [])), OpDeleteGroup (Some 2) ''release-team''] grants_sample)"
proof (rule grants_history)
  show "grants_ok grants_sample"
    by (simp add: grants_ok_def tables_ok_def group_there_def grants_sample_def sample_group_def group_grant_def grant_checks_def)
qed

theorem deleting_group_opens_witness:
  "access_of grants_sample 8 ''member'' (Some 1) None = None \<and>
   access_of (snd (delete_group_request (Some 2) ''release-team'' grants_sample)) 8 ''member'' (Some 1) None = Some PermissionWrite"
proof
  show "access_of grants_sample 8 ''member'' (Some 1) None = None" by code_simp
  show "access_of (snd (delete_group_request (Some 2) ''release-team'' grants_sample)) 8 ''member'' (Some 1) None = Some PermissionWrite"
    by (rule deleting_group_opens[OF grants_sample_calm, where g = sample_group, THEN conjunct2])
      (auto simp: grants_sample_def sample_group_def group_grant_def)
qed

theorem unknown_group_panics_witness:
  "fst (get_group_request (Some 2) ''ops'' grants_sample) = Inr None \<and>
   fst (delete_group_request (Some 2) ''ops'' grants_sample) = Inl 500 \<and>
   fst (update_group_request (Some 2) ''ops'' (Some (''Ops'', [])) grants_sample) = Inl 500"
proof -
  have none: "find (\<lambda>g. ug_org_id g = 2 \<and> ug_slug g = ''ops'') (user_groups grants_sample) = None"
    by (simp add: grants_sample_def sample_group_def)
  show ?thesis
    using unknown_group_panics(1,2)[OF grants_sample_calm none]
      unknown_group_panics(3)[OF grants_sample_calm none, of "''Ops''" "[]"] by simp
qed

end
