(* ===== verification/EntityLaws.thy ===== *)
theory EntityLaws
  imports Entities GrantLaws
begin

text \<open>
  What the requests on projects and applications do: who sees and who reaches them, the invariant
  of all histories of requests, when rows disappear, and what is left when a creation fails halfway.
\<close>

section \<open>Visibility\<close>

abbreviation grants_part :: "entities_world \<Rightarrow> grants_world" where
  "grants_part w \<equiv> grants_world.truncate w"

lemma grants_part_simps [simp]:
  "resource_grants (grants_part w) = resource_grants w" "group_members (grants_part w) = group_members w"
  "calm (grants_part w) = calm w"
  by (simp_all add: grants_world.truncate_def cong: calm_cong)

lemma on_grants_value: "fst (on_grants m w) = map_sum EntityGrants id (fst (m (grants_part w)))"
  by (simp add: on_grants_def split: prod.split)

lemma granted_some:
  "list_ex (granted w u) gs \<longleftrightarrow>
     filter (\<lambda>g. gr_user_id g = Some u) gs \<noteq> [] \<or> filter (through_group (grants_part w) u) gs \<noteq> []"
proof -
  have "granted w u = (\<lambda>g. gr_user_id g = Some u \<or> through_group (grants_part w) u g)"
    by (simp add: granted_def through_group_def fun_eq_iff split: option.split)
  then show ?thesis by (auto simp: list_ex_iff filter_empty_conv)
qed

lemma access_some:
  "access_of (grants_part w) u role p a \<noteq> None \<longleftrightarrow> role = ''owner'' \<or> effective_grants p a (resource_grants w) = [] \<or>
     list_ex (granted w u) (effective_grants p a (resource_grants w))"
  unfolding access_of_def Let_def granted_some by (auto simp: filter_empty_conv)

lemma sees_project_access:
  "sees_project w u role p \<longleftrightarrow> access_of (grants_part w) u role (Some (pj_id p)) None \<noteq> None"
  unfolding access_some
  by (auto simp: sees_project_def on_project_def effective_grants_def grants_on_def granted_def list_ex_iff)

lemma sees_app_access:
  "sees_app w u role a \<longleftrightarrow> access_of (grants_part w) u role (Some (ap_project_id a)) (Some (ap_id a)) \<noteq> None"
  unfolding access_some
  by (auto simp: sees_app_def on_app_def on_project_def effective_grants_def grants_on_def list_ex_iff filter_empty_conv)

lemma check_access_value:
  assumes "calm w"
  shows "fst (check_access c p a w) =
    (if access_of (grants_part w) (ek_user c) (ek_role c) (Some p) a = None then Inl 404 else Inr ())"
  using access_resolved[of "grants_part w" "ek_user c" "ek_role c" "Some p" a] assms
    on_grants_value[of "resolve_access (ek_user c) (ek_role c) (Some p) a" w]
  by (auto simp: check_access_def prog_defs split: prod.splits)

lemma check_access_sees:
  assumes "calm w"
  shows "fst (check_access c (pj_id p) None w) = Inr () \<longleftrightarrow> sees_project w (ek_user c) (ek_role c) p"
    and "fst (check_access c (ap_project_id a) (Some (ap_id a)) w) = Inr () \<longleftrightarrow> sees_app w (ek_user c) (ek_role c) a"
  using assms by (simp_all add: check_access_value sees_project_access sees_app_access)

lemma sees_after_call:
  "sees_project (w\<lparr>calls := n\<rparr>) u r p = sees_project w u r p" "sees_app (w\<lparr>calls := n\<rparr>) u r a = sees_app w u r a"
proof -
  have "granted (w\<lparr>calls := n\<rparr>) u = granted w u" by (simp add: granted_def fun_eq_iff split: option.split)
  then show "sees_project (w\<lparr>calls := n\<rparr>) u r p = sees_project w u r p" "sees_app (w\<lparr>calls := n\<rparr>) u r a = sees_app w u r a"
    by (simp_all add: sees_project_def sees_app_def on_project_def on_app_def)
qed

text \<open>
  C19. The listings filter in SQL, the other requests ask the grants service. Both agree: a project or an
  application is listed exactly when the check of the other requests lets the caller through.
\<close>

theorem listings_match_checks:
  assumes "calm w"
  shows "fst (list_projects_by_org org deleted (ek_user c) (ek_role c) w) =
      Inr (filter (\<lambda>p. pj_org_id p = org \<and> (deleted \<or> pj_deleted_at p = None) \<and>
        fst (check_access c (pj_id p) None w) = Inr ()) (projects w)) \<and>
    fst (list_apps_by_project project deleted (ek_user c) (ek_role c) w) =
      Inr (filter (\<lambda>a. ap_project_id a = project \<and> (deleted \<or> ap_deleted_at a = None) \<and>
        fst (check_access c (ap_project_id a) (Some (ap_id a)) w) = Inr ()) (applications w))"
  using assms
  by (simp add: list_projects_by_org_def list_apps_by_project_def query_def prog_defs sees_after_call check_access_sees)

section \<open>The invariant of the tables\<close>

text \<open>No two rows of a table share a key: the identifier, and the slug within its parent.\<close>

definition keys_ok :: "('r \<Rightarrow> 'i) \<Rightarrow> ('r \<Rightarrow> 'k) \<Rightarrow> 'r list \<Rightarrow> bool" where
  "keys_ok key key' rs \<longleftrightarrow> distinct (map key rs) \<and> distinct (map key' rs)"

lemma keys_ok_append:
  "keys_ok key key' rs \<Longrightarrow> \<not> list_ex (\<lambda>h. key h = key r \<or> key' h = key' r) rs \<Longrightarrow> keys_ok key key' (rs @ [r])"
  by (auto simp: keys_ok_def list_ex_iff)

lemma keys_ok_map:
  "keys_ok key key' rs \<Longrightarrow> (\<And>r. key (f r) = key r \<and> key' (f r) = key' r) \<Longrightarrow> keys_ok key key' (map f rs)"
  by (simp add: keys_ok_def o_def)

lemma keys_ok_update:
  "keys_ok key key' rs \<Longrightarrow> (\<And>r. key (f r) = key r \<and> key' (f r) = key' r) \<Longrightarrow> keys_ok key key' (update_row key i f rs)"
  unfolding update_row_def by (rule keys_ok_map) auto

lemma keys_ok_filter: "keys_ok key key' rs \<Longrightarrow> keys_ok key key' (filter P rs)"
  by (simp add: keys_ok_def distinct_map_filter)

lemma keys_ok_move:
  assumes "keys_ok key key' rs" and "\<And>r. key (f r) = key r"
    and "\<And>r x. r \<in> set rs \<Longrightarrow> key r = i \<Longrightarrow> x \<in> set rs \<Longrightarrow> key x \<noteq> i \<Longrightarrow> key' x \<noteq> key' (f r)"
  shows "keys_ok key key' (update_row key i f rs)"
proof -
  let ?g = "\<lambda>r. if key r = i then f r else r"
  have rows: "distinct rs" "inj_on key (set rs)" "inj_on key' (set rs)"
    using assms(1) by (simp_all add: keys_ok_def distinct_map)
  have "inj_on (\<lambda>r. key' (?g r)) (set rs)"
  proof (rule inj_onI)
    fix x y
    assume xy: "x \<in> set rs" "y \<in> set rs" and same: "key' (?g x) = key' (?g y)"
    show "x = y"
    proof (cases "key x = i"; cases "key y = i")
      assume "key x = i" "key y = i"
      with rows(2) xy show ?thesis by (auto dest: inj_onD)
    next
      assume "key x = i" "key y \<noteq> i"
      with assms(3)[OF xy(1) _ xy(2)] same show ?thesis by simp
    next
      assume "key x \<noteq> i" "key y = i"
      with assms(3)[OF xy(2) _ xy(1)] same show ?thesis by simp
    next
      assume "key x \<noteq> i" "key y \<noteq> i"
      with rows(3) xy same show ?thesis by (auto dest: inj_onD)
    qed
  qed
  with rows(1) have "distinct (map key' (update_row key i f rs))"
    by (simp add: update_row_def o_def distinct_map)
  then show ?thesis
    using assms(1) keys_update[of key f i rs] assms(2) by (simp add: keys_ok_def)
qed

definition entities_ok :: "entities_world \<Rightarrow> bool" where
  "entities_ok w \<longleftrightarrow>
     keys_ok og_id og_slug (organizations w) \<and>
     distinct (map (\<lambda>(g, u, _). (g, u)) (org_members w)) \<and>
     keys_ok pj_id (\<lambda>p. (pj_org_id p, pj_slug p)) (projects w) \<and>
     keys_ok ap_id (\<lambda>a. (ap_project_id a, ap_slug a)) (applications w) \<and>
     keys_ok ev_id (\<lambda>e. (ev_org_id e, ev_slug e)) (environments w)"

section \<open>How a project disappears\<close>

text \<open>
  \<open>kept s t\<close>: every project of \<open>s\<close> is still there in \<open>t\<close>, with its mark of deletion, none or one
  set since, or a mark it had or got since was a week old at a later reading of the clock.
\<close>

definition marked :: "entities_world \<Rightarrow> entities_world \<Rightarrow> project \<Rightarrow> time \<Rightarrow> nat \<Rightarrow> bool" where
  "marked s t p d m \<longleftrightarrow> pj_deleted_at p = Some d \<or> (\<exists>n. reads s \<le> n \<and> n < m \<and> d = clock s n)"

definition kept :: "entities_world \<Rightarrow> entities_world \<Rightarrow> bool" where
  "kept s t \<longleftrightarrow> clock t = clock s \<and> reads s \<le> reads t \<and>
     (\<forall>p \<in> set (projects s).
        (\<exists>q \<in> set (projects t). pj_id q = pj_id p \<and> (\<forall>d. pj_deleted_at q = Some d \<longrightarrow> marked s t p d (reads t))) \<or>
        (\<exists>d m. marked s t p d m \<and> reads s \<le> m \<and> m < reads t \<and> d \<le> clock s m - a_week))"

lemma kept_same: "projects t = projects s \<Longrightarrow> clock t = clock s \<Longrightarrow> reads s \<le> reads t \<Longrightarrow> kept s t"
  by (auto simp: kept_def marked_def)

lemma kept_trans:
  assumes "kept s t" "kept t u"
  shows "kept s u"
proof -
  have clocks: "clock t = clock s" "clock u = clock s" "reads s \<le> reads t" "reads t \<le> reads u"
    using assms by (auto simp: kept_def)
  have later: "marked s u p d m" if "marked t u q d m" "\<And>d. pj_deleted_at q = Some d \<Longrightarrow> marked s t p d (reads t)" "reads t \<le> m"
    for p q d m
    using that clocks by (force simp: marked_def)
  have "(\<exists>q \<in> set (projects u). pj_id q = pj_id p \<and> (\<forall>d. pj_deleted_at q = Some d \<longrightarrow> marked s u p d (reads u))) \<or>
        (\<exists>d m. marked s u p d m \<and> reads s \<le> m \<and> m < reads u \<and> d \<le> clock s m - a_week)"
    if p: "p \<in> set (projects s)" for p
  proof (cases "\<exists>q \<in> set (projects t). pj_id q = pj_id p \<and> (\<forall>d. pj_deleted_at q = Some d \<longrightarrow> marked s t p d (reads t))")
    case True
    then obtain q where q: "q \<in> set (projects t)" "pj_id q = pj_id p" "\<And>d. pj_deleted_at q = Some d \<Longrightarrow> marked s t p d (reads t)"
      by blast
    then consider
        (there) r where "r \<in> set (projects u)" "pj_id r = pj_id q" "\<And>d. pj_deleted_at r = Some d \<Longrightarrow> marked t u q d (reads u)"
      | (gone) d m where "marked t u q d m" "reads t \<le> m" "m < reads u" "d \<le> clock t m - a_week"
      using assms(2) by (fastforce simp: kept_def)
    then show ?thesis
    proof cases
      case there
      then show ?thesis using later q clocks by (metis (no_types))
    next
      case gone
      then show ?thesis using later[OF gone(1) q(3) gone(2)] clocks by auto
    qed
  next
    case False
    with assms(1) p obtain d m where "marked s t p d m" "reads s \<le> m" "m < reads t" "d \<le> clock s m - a_week"
      unfolding kept_def by blast
    moreover from this have "marked s u p d m" by (simp add: marked_def)
    ultimately show ?thesis using clocks by (metis order_less_le_trans)
  qed
  with clocks show ?thesis by (auto simp: kept_def)
qed

definition entities_step :: "entities_world \<Rightarrow> entities_world \<Rightarrow> bool" where
  "entities_step s t \<longleftrightarrow> (entities_ok s \<longrightarrow> entities_ok t) \<and> kept s t"

interpretation entities_steps: frame entities_step
  by unfold_locales (auto simp: entities_step_def intro: kept_same kept_trans)

text \<open>Calls outside, readings of the clock and new identifiers touch no table.\<close>

definition env_only :: "entities_world \<Rightarrow> entities_world \<Rightarrow> bool" where
  "env_only s t \<longleftrightarrow> (\<exists>c r m. r \<ge> reads s \<and> t = s\<lparr>calls := c, reads := r, minted := m\<rparr>)"

lemma env_only_step: "env_only s t \<Longrightarrow> entities_step s t"
  by (auto simp: env_only_def entities_step_def entities_ok_def intro!: kept_same)

interpretation entities_env: frame env_only
proof
  show "env_only s s" for s unfolding env_only_def by (rule exI[of _ "calls s"], rule exI[of _ "reads s"], rule exI[of _ "minted s"]) simp
  show "env_only s u" if "env_only s t" "env_only t u" for s t u
  proof -
    from that obtain c r m c' r' m' where "reads s \<le> r" "t = s\<lparr>calls := c, reads := r, minted := m\<rparr>"
      "reads t \<le> r'" "u = t\<lparr>calls := c', reads := r', minted := m'\<rparr>"
      unfolding env_only_def by blast
    then have "reads s \<le> r' \<and> u = s\<lparr>calls := c', reads := r', minted := m'\<rparr>" by simp
    then show ?thesis unfolding env_only_def by blast
  qed
qed

lemma env_calls:
  "keeps env_only (query what)" "keeps env_only time_now" "keeps env_only uuid_new"
proof -
  have [intro]: "env_only s (s\<lparr>calls := c\<rparr>)" "env_only s (s\<lparr>minted := c\<rparr>)" for s :: entities_world and c
    unfolding env_only_def
    by (rule exI[of _ c], rule exI[of _ "reads s"], rule exI[of _ "minted s"], simp)
      (rule exI[of _ "calls s"], rule exI[of _ "reads s"], rule exI[of _ c], simp)
  have [intro]: "env_only s (s\<lparr>reads := Suc (reads s)\<rparr>)" for s :: entities_world
    unfolding env_only_def by (rule exI[of _ "calls s"], rule exI[of _ "Suc (reads s)"], rule exI[of _ "minted s"]) simp
  show "keeps env_only (query what)" "keeps env_only time_now" "keeps env_only uuid_new"
    by (auto simp: keeps_def query_def prog_defs)
qed

lemmas env_prims = entities_env.keeps_rules env_calls

text \<open>The grants service reads rows only.\<close>

definition reads_grants :: "grants_world \<Rightarrow> grants_world \<Rightarrow> bool" where
  "reads_grants s t \<longleftrightarrow> (\<exists>c. t = s\<lparr>calls := c\<rparr>)"

interpretation grants_reads: frame reads_grants
proof
  show "reads_grants s s" for s unfolding reads_grants_def by (rule exI[of _ "calls s"]) simp
  show "reads_grants s u" if "reads_grants s t" "reads_grants t u" for s t u
    using that unfolding reads_grants_def by fastforce
qed

lemma resolve_access_reads: "keeps reads_grants (resolve_access u role p a)"
proof -
  have [intro]: "keeps reads_grants (query_grants p a)" for p a
  proof -
    have "keeps reads_grants (ext_call e)" for e :: grant_error
      unfolding keeps_def reads_grants_def by (auto simp: prog_defs)
    then show ?thesis unfolding query_grants_def by (intro grants_reads.keeps_rules)
  qed
  show ?thesis
    unfolding resolve_access_def has_any_grants_def get_user_permission_def get_user_group_permission_def Let_def
    by (auto intro!: grants_reads.keeps_rules split: option.split prod.split)
qed

lemma on_grants_reads: "keeps reads_grants m \<Longrightarrow> keeps env_only (on_grants m)"
proof -
  assume "keeps reads_grants m"
  then have m: "\<exists>c. snd (m (grants_part s)) = (grants_part s)\<lparr>calls := c\<rparr>" for s
    by (simp add: keeps_def reads_grants_def)
  have "env_only s (s\<lparr>calls := c\<rparr>)" for s :: entities_world and c
    unfolding env_only_def by (rule exI[of _ c], rule exI[of _ "reads s"], rule exI[of _ "minted s"]) simp
  moreover have "grants_world.extend ((grants_part s)\<lparr>calls := c\<rparr>) (grants_world.more s) = s\<lparr>calls := c\<rparr>" for s c
    by (cases s) (simp add: grants_world.defs)
  ultimately show ?thesis
    unfolding keeps_def on_grants_def case_prod_beta using m by (metis snd_conv)
qed

lemma entities_reads:
  "keeps env_only (get_org_by_slug slug)" "keeps env_only (get_org_by_id i)" "keeps env_only (list_orgs_by_user u)"
  "keeps env_only (get_project_by_slug org slug)" "keeps env_only (get_app_by_slug p slug)"
  "keeps env_only (count_flags_by_project p)" "keeps env_only (count_flags_by_app i)"
  "keeps env_only (has_recent_flag_activity p x since)" "keeps env_only (env_get_by_slug org slug)"
  "keeps env_only (check_access c p x)" "keeps env_only (svc_get_org_by_slug slug)"
  unfolding get_org_by_slug_def get_org_by_id_def list_orgs_by_user_def get_project_by_slug_def get_app_by_slug_def
    count_flags_by_project_def count_flags_by_app_def has_recent_flag_activity_def env_get_by_slug_def
    check_access_def svc_get_org_by_slug_def
  by (intro env_prims on_grants_reads resolve_access_reads)+

lemma entities_routes:
  "keeps env_only (routed_org org)" "keeps env_only (routed_project org slug)" "keeps env_only (reach_project c org slug)"
  "keeps env_only (reach_app c org slug slug')"
proof -
  have or_404: "keeps env_only m \<Longrightarrow> keeps env_only (or_404 m)" for m :: "'a option entity_prog"
    unfolding or_404_def by (intro env_prims)
  show "keeps env_only (routed_org org)" "keeps env_only (routed_project org slug)" "keeps env_only (reach_project c org slug)"
    unfolding routed_org_def routed_project_def reach_project_def by (intro env_prims or_404 entities_reads)+
  show "keeps env_only (reach_app c org slug slug')"
    unfolding reach_app_def routed_app_def routed_project_def routed_org_def
    by (auto intro!: env_prims or_404 entities_reads split: prod.split)
qed

section \<open>The writes\<close>

lemma keeps_env: "keeps env_only m \<Longrightarrow> keeps entities_step m"
  unfolding keeps_def by (blast intro: env_only_step)

lemmas entities_prims = entities_steps.keeps_rules env_calls[THEN keeps_env] entities_reads[THEN keeps_env]
  entities_routes[THEN keeps_env]

lemma kept_projects:
  assumes "clock t = clock s" and "reads s \<le> reads t"
    and "\<And>p. p \<in> set (projects s) \<Longrightarrow>
      \<exists>q \<in> set (projects t). pj_id q = pj_id p \<and> (\<forall>d. pj_deleted_at q = Some d \<longrightarrow> pj_deleted_at p = Some d)"
  shows "kept s t"
proof -
  have "\<exists>q \<in> set (projects t). pj_id q = pj_id p \<and> (\<forall>d. pj_deleted_at q = Some d \<longrightarrow> marked s t p d (reads t))"
    if "p \<in> set (projects s)" for p
    using assms(3)[OF that] by (auto simp: marked_def)
  then show ?thesis using assms(1,2) by (simp add: kept_def)
qed

lemma kept_map:
  assumes "projects t = map f (projects s)" and "clock t = clock s" and "reads s \<le> reads t"
    and "\<And>p. pj_id (f p) = pj_id p" and "\<And>p d. pj_deleted_at (f p) = Some d \<Longrightarrow> marked s t p d (reads t)"
  shows "kept s t"
proof -
  have "\<exists>q \<in> set (projects t). pj_id q = pj_id p \<and> (\<forall>d. pj_deleted_at q = Some d \<longrightarrow> marked s t p d (reads t))"
    if "p \<in> set (projects s)" for p
    using that assms(1,4,5) by (intro bexI[of _ "f p"]) auto
  then show ?thesis using assms(2,3) by (simp add: kept_def)
qed

lemma step_parts: "(entities_ok s \<Longrightarrow> entities_ok t) \<Longrightarrow> kept s t \<Longrightarrow> entities_step s t"
  by (simp add: entities_step_def)

lemma organization_writes:
  "keeps entities_step (create_org g)" "keeps entities_step (update_org g)" "keeps entities_step (add_org_member org u role)"
proof -
  show "keeps entities_step (create_org g)"
    by (auto simp: create_org_def query_def keeps_def prog_defs entities_ok_def
        intro!: step_parts kept_same keys_ok_append)
  show "keeps entities_step (update_org g)"
    by (auto simp: update_org_def query_def keeps_def prog_defs entities_ok_def
        intro!: step_parts kept_same keys_ok_update)
  show "keeps entities_step (add_org_member org u role)"
    by (auto simp: add_org_member_def query_def keeps_def prog_defs entities_ok_def list_ex_iff
        intro!: step_parts kept_same)
qed

lemma application_writes:
  "keeps entities_step (create_app a)" "keeps entities_step (update_app a)" "keeps entities_step (update_app_links i ls)"
  "keeps entities_step (soft_delete_app i)" "keeps entities_step (restore_app i)" "keeps entities_step (hard_delete_app i)"
proof -
  have writes: "keeps entities_step (write_apps what i ok f)"
    if "\<And>a. ap_id (f a) = ap_id a \<and> ap_project_id (f a) = ap_project_id a \<and> ap_slug (f a) = ap_slug a" for what i ok f
    using that by (auto simp: write_apps_def query_def keeps_def prog_defs entities_ok_def
        intro!: step_parts kept_same keys_ok_map)
  show "keeps entities_step (create_app a)"
    by (auto simp: create_app_def query_def keeps_def prog_defs entities_ok_def
        intro!: step_parts kept_same keys_ok_append)
  show "keeps entities_step (update_app a)"
    unfolding update_app_def by (rule writes) simp
  show "keeps entities_step (update_app_links i ls)" "keeps entities_step (soft_delete_app i)"
    "keeps entities_step (restore_app i)"
    unfolding update_app_links_def soft_delete_app_def restore_app_def by (intro entities_prims writes; simp)+
  show "keeps entities_step (hard_delete_app i)"
    by (auto simp: hard_delete_app_def query_def keeps_def prog_defs entities_ok_def
        intro!: step_parts kept_same keys_ok_filter)
qed

lemma environment_writes:
  "keeps entities_step (env_create e)" "keeps entities_step (env_update e)" "keeps entities_step (env_delete i)"
proof -
  show "keeps entities_step (env_create e)"
    by (auto simp: env_create_def query_def keeps_def prog_defs entities_ok_def Let_def duplicate_key_def list_ex_iff
        intro!: step_parts kept_same keys_ok_append)
  have same: "r = q" if "row_of ev_id i es = Some q" "keys_ok ev_id k es" "r \<in> set es" "ev_id r = i"
    for r q i es and k :: "org_environment \<Rightarrow> uuid \<times> string"
    using that row_of_distinct[of ev_id es r] by (simp add: keys_ok_def)
  show "keeps entities_step (env_update e)"
    by (auto simp: env_update_def query_def keeps_def prog_defs entities_ok_def Let_def duplicate_key_def
        intro!: step_parts kept_same keys_ok_move split: option.split) (auto simp: list_ex_iff dest: same)
  show "keeps entities_step (env_delete i)"
    by (auto simp: env_delete_def query_def keeps_def prog_defs entities_ok_def
        intro!: step_parts kept_same keys_ok_filter)
qed

lemma project_writes:
  "keeps entities_step (create_project p)" "keeps entities_step (update_project p)" "keeps entities_step (soft_delete_project i)"
  "keeps entities_step (restore_project i)" "keeps entities_step (hard_delete_project i)"
proof -
  have writes: "keeps entities_step (write_projects what i ok f)"
    if same: "\<And>p. pj_id (f p) = pj_id p \<and> pj_org_id (f p) = pj_org_id p \<and> pj_slug (f p) = pj_slug p"
      and mark: "\<And>p. pj_deleted_at (f p) = None \<or> pj_deleted_at (f p) = pj_deleted_at p" for what i ok f
  proof -
    have "kept s (s\<lparr>calls := c, projects := map (\<lambda>p. if pj_id p = i \<and> ok p then f p else p) (projects s)\<rparr>)" for s c
      by (rule kept_map[where f = "\<lambda>p. if pj_id p = i \<and> ok p then f p else p"]) (use same mark in \<open>auto simp: marked_def split: if_splits, metis option.distinct(1)\<close>)
    moreover have "kept s (s\<lparr>calls := c\<rparr>)" for s c
      by (rule kept_same) simp_all
    ultimately show ?thesis using same
      by (auto simp: write_projects_def query_def keeps_def prog_defs entities_ok_def intro!: step_parts keys_ok_map)
  qed
  show "keeps entities_step (create_project p)"
    by (auto simp: create_project_def query_def keeps_def prog_defs entities_ok_def
        intro!: step_parts kept_projects keys_ok_append)
  show "keeps entities_step (update_project p)" "keeps entities_step (restore_project i)"
    unfolding update_project_def restore_project_def by (rule writes; simp)+
  have "kept s (s\<lparr>reads := Suc (reads s), calls := c, projects := map (\<lambda>p. if pj_id p = i \<and> pj_deleted_at p = None
      then p\<lparr>pj_deleted_at := Some (clock s (reads s))\<rparr> else p) (projects s)\<rparr>)" for s c
    by (rule kept_map[where f = "\<lambda>p. if pj_id p = i \<and> pj_deleted_at p = None then p\<lparr>pj_deleted_at := Some (clock s (reads s))\<rparr> else p"])
      (auto simp: marked_def split: if_splits)
  moreover have "kept s (s\<lparr>reads := Suc (reads s), calls := c\<rparr>)" for s c
    by (rule kept_same) simp_all
  ultimately show "keeps entities_step (soft_delete_project i)"
    by (auto simp: soft_delete_project_def write_projects_def query_def keeps_def prog_defs entities_ok_def
        intro!: step_parts keys_ok_map)
  show "keeps entities_step (hard_delete_project i)"
    by (auto simp: hard_delete_project_def query_def keeps_def prog_defs entities_ok_def
        intro!: step_parts keys_ok_filter) (auto simp: kept_def marked_def deleted_for_a_week_def split: option.splits)
qed

section \<open>Histories\<close>

lemmas entities_writes = organization_writes project_writes application_writes environment_writes

lemma entities_services:
  "keeps entities_step (svc_create_org g u)" "keeps entities_step (svc_update_org g)" "keeps entities_step (svc_create_project p)"
  "keeps entities_step (svc_update_project p)" "keeps entities_step (svc_delete_project org slug)"
  "keeps entities_step (svc_hard_delete_project org slug)" "keeps entities_step (svc_restore_project org slug)"
  "keeps entities_step (svc_create_app a)" "keeps entities_step (svc_update_app a)"
  "keeps entities_step (svc_update_app_links parse i ls)" "keeps entities_step (svc_delete_app i slug)"
  "keeps entities_step (svc_hard_delete_app i slug)" "keeps entities_step (svc_restore_app i slug)"
  unfolding svc_create_org_def svc_update_org_def svc_create_project_def svc_update_project_def svc_delete_project_def
    svc_hard_delete_project_def svc_restore_project_def svc_create_app_def svc_update_app_def svc_update_app_links_def
    svc_delete_app_def svc_hard_delete_app_def svc_restore_app_def found_or_def Let_def
  by (intro entities_prims entities_writes)+

lemma entities_requests:
  "keeps entities_step (create_org_request c b)" "keeps entities_step (update_org_request g b)"
  "keeps entities_step (create_project_request g b1)" "keeps entities_step (update_project_request c g p b1)"
  "keeps entities_step (delete_project_request c g p)" "keeps entities_step (hard_delete_project_request c g p)"
  "keeps entities_step (restore_project_request c g p)" "keeps entities_step (create_app_request c g p b1)"
  "keeps entities_step (update_app_request c g p a b1)" "keeps entities_step (update_app_links_request parse c g p a ls)"
  "keeps entities_step (delete_app_request c g p a)" "keeps entities_step (hard_delete_app_request c g p a)"
  "keeps entities_step (restore_app_request c g p a)" "keeps entities_step (create_environment_request g b2)"
  "keeps entities_step (update_environment_request g e b3)" "keeps entities_step (delete_environment_request g e)"
proof -
  have or_404: "keeps entities_step m \<Longrightarrow> keeps entities_step (or_404 m)" for m :: "'a option entity_prog"
    unfolding or_404_def by (intro entities_prims)
  have answer: "keeps entities_step (answer_delete r)" for r
    unfolding answer_delete_def by (cases r) (auto intro!: entities_prims)
  note rules = entities_prims entities_services environment_writes or_404 answer
  show "keeps entities_step (create_org_request c b)" "keeps entities_step (update_org_request g b)"
    "keeps entities_step (create_environment_request g b2)" "keeps entities_step (update_environment_request g e b3)"
    unfolding create_org_request_def update_org_request_def create_environment_request_def update_environment_request_def
    by (auto intro!: rules split: option.split prod.split)
  show "keeps entities_step (create_project_request g b1)" "keeps entities_step (update_project_request c g p b1)"
    "keeps entities_step (create_app_request c g p b1)" "keeps entities_step (delete_project_request c g p)"
    "keeps entities_step (hard_delete_project_request c g p)" "keeps entities_step (restore_project_request c g p)"
    "keeps entities_step (delete_environment_request g e)"
    unfolding create_project_request_def update_project_request_def create_app_request_def delete_project_request_def
      hard_delete_project_request_def restore_project_request_def delete_environment_request_def
    by (intro rules)+
  show "keeps entities_step (update_app_request c g p a b1)" "keeps entities_step (update_app_links_request parse c g p a ls)"
    "keeps entities_step (delete_app_request c g p a)" "keeps entities_step (hard_delete_app_request c g p a)"
    "keeps entities_step (restore_app_request c g p a)"
    unfolding update_app_request_def update_app_links_request_def delete_app_request_def hard_delete_app_request_def
      restore_app_request_def
    by (auto intro!: rules split: option.split prod.split)
qed

lemma entities_history_step: "entities_step s (fold (exec_entity_op parse) xs s)"
proof (induction xs arbitrary: s)
  case Nil
  show ?case by (simp add: entities_steps.R_refl)
next
  case (Cons x xs)
  have "entities_step s (exec_entity_op parse x s)"
    using entities_requests[unfolded keeps_def] by (cases "(parse, x, s)" rule: exec_entity_op.cases) simp_all
  with Cons.IH show ?case by (auto intro: entities_steps.R_trans)
qed

text \<open>
  C31. Over any history of requests by any callers, no two organizations share a slug, no two projects of an
  organization, applications of a project or environments of an organization, and nobody is twice
  a member of an organization.
\<close>

theorem entities_history:
  assumes "entities_ok s"
  shows "entities_ok (fold (exec_entity_op parse) xs s)"
  using assms entities_history_step by (simp add: entities_step_def)

text \<open>
  C18. A live project disappears in no history unless the clock has moved on by a week between two of its
  readings: it is marked first, and its row goes a week later at the earliest.
\<close>

theorem project_survives_a_week:
  assumes "p \<in> set (projects s)" and "pj_deleted_at p = None"
    and gone: "pj_id p \<notin> pj_id ` set (projects (fold (exec_entity_op parse) xs s))"
  shows "\<exists>n m. reads s \<le> n \<and> n < m \<and> m < reads (fold (exec_entity_op parse) xs s) \<and> clock s n + a_week \<le> clock s m"
proof -
  let ?t = "fold (exec_entity_op parse) xs s"
  have "kept s ?t" using entities_history_step by (simp add: entities_step_def)
  with assms(1) gone obtain d m where d: "marked s ?t p d m" "m < reads ?t" "d \<le> clock s m - a_week"
    unfolding kept_def by (metis image_eqI)
  then obtain n where "reads s \<le> n" "n < m" "d = clock s n" using assms(2) by (auto simp: marked_def)
  with d have "reads s \<le> n \<and> n < m \<and> m < reads ?t \<and> clock s n + a_week \<le> clock s m" by simp
  then show ?thesis by blast
qed

section \<open>Deleting\<close>

lemma env_only_rows:
  "env_only s t \<Longrightarrow> projects t = projects s \<and> applications t = applications s \<and> flag_homes t = flag_homes s \<and>
     organizations t = organizations s \<and> org_members t = org_members s \<and> clock t = clock s \<and> calm t = calm s"
  by (auto simp: env_only_def)

lemma or_404_Inr: "or_404 m s = (Inr v, t) \<longleftrightarrow> m s = (Inr (Some v), t)"
  by (auto simp: or_404_def prog_defs split: prod.splits sum.splits option.splits)

lemma get_project_Inr: "get_project_by_slug org slug s = (Inr p, t) \<Longrightarrow> p = find (\<lambda>p. pj_org_id p = org \<and> pj_slug p = slug) (projects s)"
  by (auto simp: get_project_by_slug_def query_def prog_defs split: if_splits)

lemma get_app_Inr: "get_app_by_slug project slug s = (Inr a, t) \<Longrightarrow> a = find (\<lambda>a. ap_project_id a = project \<and> ap_slug a = slug) (applications s)"
  by (auto simp: get_app_by_slug_def query_def prog_defs split: if_splits)

text \<open>The row a request reaches is the one its delete looks up again.\<close>

lemma reach_project_found:
  assumes "reach_project c org slug s = (Inr p, t)"
  shows "env_only s t \<and> find (\<lambda>q. pj_org_id q = pj_org_id p \<and> pj_slug q = slug) (projects t) = Some p"
proof -
  from assms obtain g s1 s2 where route: "routed_org org s = (Inr g, s1)" "get_project_by_slug (og_id g) slug s1 = (Inr (Some p), s2)"
    and check: "check_access c (pj_id p) None s2 = (Inr (), t)"
    by (auto simp: reach_project_def routed_project_def andThen_Inr or_404_Inr ret_def)
  have "env_only s s1" "env_only s1 s2" "env_only s2 t"
    using keepsD[OF entities_routes(1) route(1)] keepsD[OF entities_reads(4) route(2)] keepsD[OF entities_reads(10) check] .
  then have all: "env_only s t" and rows: "projects t = projects s1" using entities_env.R_trans env_only_rows by metis+
  have f: "find (\<lambda>p. pj_org_id p = og_id g \<and> pj_slug p = slug) (projects s1) = Some p"
    using get_project_Inr[OF route(2)] by simp
  then have "pj_org_id p = og_id g" by (auto simp: find_Some_iff)
  with all rows f show ?thesis by simp
qed

lemma reach_app_found:
  assumes "reach_app c org pslug slug s = (Inr (p, a), t)"
  shows "env_only s t \<and> find (\<lambda>b. ap_project_id b = pj_id p \<and> ap_slug b = slug) (applications t) = Some a"
proof -
  from assms obtain s1 s2 where route: "routed_project org pslug s = (Inr p, s1)" "get_app_by_slug (pj_id p) slug s1 = (Inr (Some a), s2)"
    and check: "check_access c (pj_id p) (Some (ap_id a)) s2 = (Inr (), t)"
    by (auto simp: reach_app_def routed_app_def andThen_Inr or_404_Inr ret_def)
  have "env_only s s1" "env_only s1 s2" "env_only s2 t"
    using keepsD[OF entities_routes(2) route(1)] keepsD[OF entities_reads(5) route(2)] keepsD[OF entities_reads(10) check] .
  then have "env_only s t" and "applications t = applications s1" using entities_env.R_trans env_only_rows by metis+
  then show ?thesis using get_app_Inr[OF route(2)] by simp
qed


text \<open>
  C25. Nothing keeps a live application: without a flag stored for it, which no request of the flag
  API stores, one request removes the row at once, and no request brings it back.
\<close>

theorem application_gone_at_once:
  assumes "calm s" and route: "reach_app c org pslug slug s = (Inr (p, a), t)" and live: "ap_deleted_at a = None"
    and flags: "\<And>f. f \<in> set (flag_homes s) \<Longrightarrow> fh_application_id f \<noteq> Some (ap_id a)"
  shows "fst (delete_app_request c org pslug slug s) = Inr DeletedPermanent \<and>
    applications (snd (delete_app_request c org pslug slug s)) = filter (\<lambda>b. ap_id b \<noteq> ap_id a) (applications s)"
proof -
  let ?m = "andThen (wrapped (\<lambda>_. 500) (svc_delete_app (pj_id p) slug)) answer_delete"
  have t: "env_only s t" and a: "find (\<lambda>b. ap_project_id b = pj_id p \<and> ap_slug b = slug) (applications t) = Some a"
    using reach_app_found[OF route] by simp_all
  have rows: "applications t = applications s" "flag_homes t = flag_homes s" "calm t"
    using env_only_rows[OF t] assms(1) by simp_all
  have "a \<in> set (applications s)" using a rows by (auto simp: find_Some_iff)
  then have "row_of ap_id (ap_id a) (applications s) \<noteq> None" by (auto simp: row_of_None)
  moreover have "filter (\<lambda>f. fh_application_id f = Some (ap_id a)) (flag_homes s) = []" using flags by (auto simp: filter_empty_conv)
  ultimately have "fst (?m t) = Inr DeletedPermanent \<and> applications (snd (?m t)) = filter (\<lambda>b. ap_id b \<noteq> ap_id a) (applications s)"
    using rows a live
    by (simp add: svc_delete_app_def found_or_def get_app_by_slug_def count_flags_by_app_def hard_delete_app_def
        answer_delete_def query_def prog_defs)
  with route show ?thesis by (simp add: delete_app_request_def andThen_run)
qed

text \<open>
  A delete for good that comes before its time answers 500. The handler looks for \<open>eligible at\<close> in
  the error to answer 409, the error says \<open>cannot be hard-deleted until\<close>.
\<close>

theorem early_hard_delete_answers_500:
  assumes "calm s" and route: "reach_project c org slug s = (Inr p, t)" and mark: "pj_deleted_at p = Some d"
    and early: "clock s (reads t) < d + a_week"
  shows "fst (hard_delete_project_request c org slug s) = Inl 500"
proof -
  have t: "env_only s t" and p: "find (\<lambda>q. pj_org_id q = pj_org_id p \<and> pj_slug q = slug) (projects t) = Some p"
    using reach_project_found[OF route] by simp_all
  have "calm t" "clock t = clock s" using env_only_rows[OF t] assms(1) by simp_all
  moreover have "hard_delete_status (EntityText ''project cannot be hard-deleted until'') = 500" by code_simp
  ultimately have "fst (wrapped hard_delete_status (svc_hard_delete_project (pj_org_id p) slug) t) = Inl 500"
    using p mark early
    by (simp add: svc_hard_delete_project_def found_or_def get_project_by_slug_def query_def prog_defs)
  with route show ?thesis by (simp add: hard_delete_project_request_def andThen_run)
qed

section \<open>Changing\<close>

text \<open>
  The checks of these requests do not tell reading from writing: whoever the grants let read a
  project renames it.
\<close>

theorem reader_renames_project:
  assumes "calm s" and g: "find (\<lambda>g. og_slug g = org) (organizations s) = Some g" "org \<noteq> []"
    and p: "find (\<lambda>p. pj_org_id p = og_id g \<and> pj_slug p = slug) (projects s) = Some p" "pj_deleted_at p = None"
    and reader: "access_of (grants_part s) (ek_user c) (ek_role c) (Some (pj_id p)) None = Some PermissionRead"
    and name: "eb_name b \<noteq> []"
  shows "\<exists>q. fst (update_project_request c org slug (Some b) s) = Inr q \<and> pj_id q = pj_id p \<and> pj_name q = eb_name b \<and>
    (\<exists>r \<in> set (projects (snd (update_project_request c org slug (Some b) s))). pj_id r = pj_id p \<and> pj_name r = eb_name b)"
proof -
  obtain n where "routed_project org slug s = (Inr p, s\<lparr>calls := n\<rparr>)"
    using assms(1) g p
    by (auto simp: routed_project_def routed_org_def or_404_def svc_get_org_by_slug_def get_org_by_slug_def
        get_project_by_slug_def query_def prog_defs)
  then obtain s1 where route: "routed_project org slug s = (Inr p, s1)" and s1: "s1 = s\<lparr>calls := n\<rparr>" by simp
  obtain r t where check: "check_access c (pj_id p) None s1 = (r, t)" by fastforce
  have access: "access_of (grants_part s1) u k (Some i) None = access_of (grants_part s) u k (Some i) None" for u k i
  proof -
    have "through_group (grants_part s1) = through_group (grants_part s)"
      unfolding s1 by (simp add: fun_eq_iff through_group_def split: option.split)
    then show ?thesis unfolding s1 by (simp add: access_of_def)
  qed
  have calm: "calm s1" unfolding s1 using assms(1) by simp
  have "r = Inr ()" using check_access_value[OF calm, of c "pj_id p" None] check reader access by simp
  moreover have t: "env_only s1 t" using keepsD[OF entities_reads(10) check] .
  ultimately have reach: "reach_project c org slug s = (Inr p, t)"
    using route check by (simp add: reach_project_def andThen_run ret_def)
  have rows: "projects t = projects s" "calm t" using env_only_rows[OF t] calm s1 by simp_all
  have "p \<in> set (projects s)" using p by (auto simp: find_Some_iff)
  then have "\<exists>r \<in> set (projects t). pj_id r = pj_id p \<and> pj_deleted_at r = None" using rows(1) p(2) by auto
  then have run: "svc_update_project q t = (Inr (q\<lparr>pj_updated_at := clock t (reads t)\<rparr>), t\<lparr>reads := Suc (reads t), calls := Suc (calls t),
      projects := map (\<lambda>r. if pj_id r = pj_id q \<and> pj_deleted_at r = None then r\<lparr>pj_name := pj_name q,
        pj_description := pj_description q, pj_repo_url := pj_repo_url q, pj_updated_at := clock t (reads t)\<rparr> else r) (projects t)\<rparr>)"
    if "pj_id q = pj_id p" for q
    using that rows(2)
    by (simp add: svc_update_project_def update_project_def write_projects_def query_def prog_defs list_ex_iff Let_def)
  obtain q where q: "pj_id q = pj_id p" "pj_name q = eb_name b"
    and answer: "update_project_request c org slug (Some b) s = wrapped (\<lambda>_. 422) (svc_update_project q) t"
  proof
    let ?q = "p\<lparr>pj_name := or_kept (eb_name b) (pj_name p), pj_description := or_kept (eb_description b) (pj_description p),
      pj_repo_url := or_kept (eb_repo_url b) (pj_repo_url p)\<rparr>"
    show "update_project_request c org slug (Some b) s = wrapped (\<lambda>_. 422) (svc_update_project ?q) t"
      using reach by (simp add: update_project_request_def andThen_run)
  qed (use name in \<open>simp_all add: or_kept_def\<close>)
  let ?f = "\<lambda>r. if pj_id r = pj_id q \<and> pj_deleted_at r = None then r\<lparr>pj_name := pj_name q,
    pj_description := pj_description q, pj_repo_url := pj_repo_url q, pj_updated_at := clock t (reads t)\<rparr> else r"
  have "?f p \<in> set (map ?f (projects t))" using \<open>p \<in> set (projects s)\<close> rows(1) by simp
  moreover have "pj_id (?f p) = pj_id p" "pj_name (?f p) = eb_name b" using q p(2) by simp_all
  ultimately have "\<exists>r \<in> set (map ?f (projects t)). pj_id r = pj_id p \<and> pj_name r = eb_name b" by blast
  then show ?thesis using run[OF q(1)] answer q by (simp add: wrapped_def)
qed

section \<open>Creating\<close>

text \<open>
  Creating an organization is two statements without a transaction: when the second fails, the
  organization stays, its slug taken, without any member.
\<close>

theorem creation_leaves_orphan:
  assumes "\<not> fault s (calls s)" and "fault s (Suc (calls s))" and "name \<noteq> []" "length name \<le> 100" "slug \<noteq> []" "length slug \<le> 60"
    and "ek_user c \<noteq> uuid_nil" and "\<not> list_ex (\<lambda>h. og_id h = fresh s (minted s) \<or> og_slug h = slug) (organizations s)"
  shows "(\<exists>e. fst (create_org_request c (Some (name, slug)) s) = Inl e) \<and>
    (\<exists>g. organizations (snd (create_org_request c (Some (name, slug)) s)) = organizations s @ [g] \<and> og_slug g = slug) \<and>
    org_members (snd (create_org_request c (Some (name, slug)) s)) = org_members s"
  using assms by (simp add: create_org_request_def svc_create_org_def validate_org_def create_org_def add_org_member_def
      query_def prog_defs Let_def)

text \<open>
  The answer 409 for a slug that is taken never comes for organizations, projects and
  applications: the repository's error has a text of its own, which the handler does not look for.
\<close>

theorem conflicts_answered_422:
  assumes "list_ex (\<lambda>q. pj_org_id q = og_id g \<and> pj_slug q = eb_slug b) (projects s)"
    and "calm s" and g: "find (\<lambda>g. og_slug g = org) (organizations s) = Some g" "org \<noteq> []"
  shows "fst (create_project_request org (Some b) s) \<in> {Inl 400, Inl 422}"
proof -
  have texts: "create_status EntityConflict = 422" "create_status (EntityText ''org_id is required'') = 422"
    "create_status (EntityText ''project name is required'') = 422"
    "create_status (EntityText ''project name must be 100 characters or fewer'') = 422"
    "create_status (EntityText ''project slug is required'') = 422"
    by code_simp+
  show ?thesis
    using assms texts
    by (auto simp: create_project_request_def routed_org_def or_404_def svc_get_org_by_slug_def get_org_by_slug_def
        svc_create_project_def validate_project_def create_project_def query_def prog_defs Let_def list_ex_iff)
qed

section \<open>Witnesses\<close>

text \<open>
  An organization with a project that has a flag and an application; user 7 may read the project.
  Between two readings of the clock a week passes.
\<close>

definition sample_project :: project where
  "sample_project = \<lparr>pj_id = 1, pj_org_id = 2, pj_name = ''Web'', pj_slug = ''web'', pj_description = [], pj_repo_url = [],
     pj_created_at = 0, pj_updated_at = 0, pj_deleted_at = None\<rparr>"

definition sample_app :: application where
  "sample_app = \<lparr>ap_id = 5, ap_project_id = 1, ap_name = ''API'', ap_slug = ''api'', ap_description = [], ap_repo_url = [],
     ap_links = [], ap_created_by = None, ap_created_at = 0, ap_updated_at = 0, ap_deleted_at = None\<rparr>"

definition read_grant :: resource_grant where
  "read_grant = group_grant\<lparr>gr_id := 30, gr_user_id := Some 7, gr_group_id := None, gr_permission := PermissionRead\<rparr>"

definition entities_sample :: entities_world where
  "entities_sample = \<lparr>fault = (\<lambda>_. False), calls = 0, clock = (\<lambda>n. int n * a_week), reads = 0, fresh = (\<lambda>n. of_nat n + 100),
     minted = 0, ctxdone = (\<lambda>_. False), polls = 0, user_groups = [], group_members = [], resource_grants = [read_grant],
     known = (\<lambda>_. True),
     organizations = [\<lparr>og_id = 2, og_name = ''Acme'', og_slug = ''acme'', og_owner_id = 9, og_plan = ''free'', og_created_at = 0, og_updated_at = 0\<rparr>],
     org_members = [(2, 9, ''owner''), (2, 7, ''member'')], projects = [sample_project], applications = [sample_app],
     environments = [], flag_homes = [\<lparr>fh_id = 6, fh_key = ''dark'', fh_name = ''Dark'', fh_project_id = 1, fh_application_id = None\<rparr>],
     evaluations = []\<rparr>"

definition member_seven :: entity_caller where
  "member_seven = \<lparr>ek_user = 7, ek_role = ''member''\<rparr>"

lemma entities_sample_calm: "calm entities_sample"
  by (simp add: calm_def entities_sample_def)

lemma entities_sample_ok: "entities_ok entities_sample"
  by (simp add: entities_ok_def keys_ok_def entities_sample_def)

definition removal :: "(entity_caller \<times> entity_op) list" where
  "removal = [(member_seven, OpDeleteProject ''acme'' ''web''), (member_seven, OpHardDeleteProject ''acme'' ''web'')]"

theorem listings_match_checks_witness:
  "fst (list_projects_by_org 2 False 7 ''member'' entities_sample) = Inr [sample_project] \<and>
   fst (check_access member_seven 1 None entities_sample) = Inr ()"
proof -
  have "fst (check_access member_seven 1 None entities_sample) = Inr ()" by code_simp
  with listings_match_checks[OF entities_sample_calm, of 2 False member_seven 1] show ?thesis
    by (simp add: member_seven_def entities_sample_def sample_project_def)
qed

theorem entities_history_witness: "entities_ok (fold (exec_entity_op (\<lambda>_. None)) removal entities_sample)"
  by (rule entities_history[OF entities_sample_ok])

theorem project_survives_a_week_witness:
  "projects (fold (exec_entity_op (\<lambda>_. None)) removal entities_sample) = [] \<and>
   (\<exists>n m. n < m \<and> clock entities_sample n + a_week \<le> clock entities_sample m)"
proof -
  have gone: "projects (fold (exec_entity_op (\<lambda>_. None)) removal entities_sample) = []" by code_simp
  have "sample_project \<in> set (projects entities_sample)" "pj_deleted_at sample_project = None"
    by (simp_all add: entities_sample_def sample_project_def)
  from project_survives_a_week[OF this, of "\<lambda>_. None" removal] gone show ?thesis by auto
qed


theorem early_hard_delete_answers_500_witness:
  "fst (hard_delete_project_request member_seven ''acme'' ''web''
     (entities_sample\<lparr>projects := [sample_project\<lparr>pj_deleted_at := Some 10\<rparr>]\<rparr>)) = Inl 500"
proof -
  let ?s = "entities_sample\<lparr>projects := [sample_project\<lparr>pj_deleted_at := Some 10\<rparr>]\<rparr>"
  have "fst (reach_project member_seven ''acme'' ''web'' ?s) = Inr (sample_project\<lparr>pj_deleted_at := Some 10\<rparr>) \<and>
    reads (snd (reach_project member_seven ''acme'' ''web'' ?s)) = 0" by code_simp
  then obtain t where route: "reach_project member_seven ''acme'' ''web'' ?s = (Inr (sample_project\<lparr>pj_deleted_at := Some 10\<rparr>), t)" "reads t = 0"
    by (metis prod.collapse)
  show ?thesis
    by (rule early_hard_delete_answers_500[OF _ route(1), where d = 10])
      (use entities_sample_calm route(2) in \<open>simp_all add: calm_def entities_sample_def\<close>)
qed

theorem application_gone_at_once_witness:
  "applications (snd (delete_app_request member_seven ''acme'' ''web'' ''api'' entities_sample)) = []"
proof -
  have "fst (reach_app member_seven ''acme'' ''web'' ''api'' entities_sample) = Inr (sample_project, sample_app)" by code_simp
  then obtain t where route: "reach_app member_seven ''acme'' ''web'' ''api'' entities_sample = (Inr (sample_project, sample_app), t)"
    by (metis prod.collapse)
  have "ap_deleted_at sample_app = None" "f \<in> set (flag_homes entities_sample) \<Longrightarrow> fh_application_id f \<noteq> Some (ap_id sample_app)" for f
    by (auto simp: sample_app_def entities_sample_def)
  from application_gone_at_once[OF entities_sample_calm route this] show ?thesis
    by (simp add: entities_sample_def sample_app_def)
qed

theorem reader_renames_project_witness:
  "\<exists>q. fst (update_project_request member_seven ''acme'' ''web'' (Some \<lparr>eb_name = ''Mine'', eb_slug = [], eb_description = [], eb_repo_url = []\<rparr>)
     entities_sample) = Inr q \<and> pj_name q = ''Mine''"
proof -
  let ?g = "\<lparr>og_id = 2, og_name = ''Acme'', og_slug = ''acme'', og_owner_id = 9, og_plan = ''free'', og_created_at = 0, og_updated_at = 0\<rparr>"
  have "access_of (grants_part entities_sample) (ek_user member_seven) (ek_role member_seven) (Some (pj_id sample_project)) None = Some PermissionRead"
    by code_simp
  moreover have "find (\<lambda>g. og_slug g = ''acme'') (organizations entities_sample) = Some ?g"
    "find (\<lambda>p. pj_org_id p = og_id ?g \<and> pj_slug p = ''web'') (projects entities_sample) = Some sample_project"
    "pj_deleted_at sample_project = None"
    by (simp_all add: entities_sample_def sample_project_def)
  ultimately show ?thesis
    using reader_renames_project[OF entities_sample_calm, of "''acme''" ?g "''web''" sample_project member_seven
        "\<lparr>eb_name = ''Mine'', eb_slug = [], eb_description = [], eb_repo_url = []\<rparr>"] by auto
qed

theorem creation_leaves_orphan_witness:
  "(\<exists>e. fst (create_org_request member_seven (Some (''New'', ''new'')) (entities_sample\<lparr>fault := (\<lambda>n. n = 1)\<rparr>)) = Inl e) \<and>
   length (organizations (snd (create_org_request member_seven (Some (''New'', ''new'')) (entities_sample\<lparr>fault := (\<lambda>n. n = 1)\<rparr>)))) = 2"
  using creation_leaves_orphan[of "entities_sample\<lparr>fault := (\<lambda>n. n = 1)\<rparr>" "''New''" "''new''" member_seven]
  by (auto simp: entities_sample_def member_seven_def)

theorem conflicts_answered_422_witness:
  "fst (create_project_request ''acme'' (Some \<lparr>eb_name = ''Web'', eb_slug = ''web'', eb_description = [], eb_repo_url = []\<rparr>) entities_sample)
     \<in> {Inl 400, Inl 422}"
  by (rule conflicts_answered_422[OF _ entities_sample_calm,
        where g = "\<lparr>og_id = 2, og_name = ''Acme'', og_slug = ''acme'', og_owner_id = 9, og_plan = ''free'', og_created_at = 0, og_updated_at = 0\<rparr>"])
    (simp_all add: entities_sample_def sample_project_def)

end
