(* ===== verification/Spec2Isabelle.thy ===== *)
theory Spec2Isabelle
  imports SqlBuilder DeployEngine RollbackController RollbackStrategies RolloutDrive FlagEvaluator ApiKeys
    StrategyCatalog RolloutGroups RolloutAttach FlagRequestLaws WebhookLaws EntityLaws FlagReverts
begin

text \<open>
  DeploySentry is a control plane for deployments and feature flags: a Go server
  (\<open>cmd/api\<close>) over PostgreSQL, a Redis cache and NATS messages. This development models the
  parts of \<open>internal/\<close> that decide something: which traffic a deployment gets, when a rollout
  moves on or is rolled back, what a flag evaluates to, who may do what, and how pending
  changes are committed.

  The style of the model. A Go function that can fail is a state-passing function
  (\<open>prog\<close>, theory Prelude): it takes the store and returns an error or a value together with
  the store it leaves, so that a write made before an error stays visible. The store is a
  record of tables, a table is a list of rows, one repository method is one SQL statement with
  the constraints of the migrations. Everything outside the process is part of the state: whether
  the n-th outside call fails (\<open>fault\<close>), the n-th reading of the clock (\<open>clock\<close>), the n-th fresh
  identifier (\<open>fresh\<close>), whether the context is done (\<open>ctxdone\<close>). A theorem without a hypothesis
  on them holds whatever fails; \<open>calm\<close> says that nothing fails. Errors are datatypes with one
  constructor per sentinel error and a \<open>Wrap\<close> constructor for \<open>fmt.Errorf\<close> with \<open>%w\<close>; a panic is
  an error of its own that no error check catches. \<open>float64\<close> values are rationals with the
  infinities and NaN, rounded by \<open>round64\<close> (theory Float64); identifiers are 128-bit words;
  timestamps are nanoseconds since the zero \<open>time.Time\<close>; strings are lists of bytes.

  Deployments. \<open>Deployment\<close>: statuses, the transition table and \<open>TransitionTo\<close>
  (\<open>internal/models/deployment.go\<close>). \<open>DeployRepo\<close>: the three tables
  (\<open>internal/platform/database/postgres/deploy.go\<close>), the upsert of recorded builds included. \<open>DeployService\<close>: creation and the five
  controls, with the abstract table they refine and the invariant of all histories of calls
  (\<open>internal/deploy/service.go\<close>). \<open>SqlBuilder\<close>: the text and the placeholders of the listing
  queries. \<open>DeployStrategies\<close>: canary, blue-green and rolling execution
  (\<open>internal/deploy/strategies\<close>); the batch loop of the rolling strategy is a partial function
  that is proved to return. \<open>Health\<close>: scores and monitoring rounds (\<open>internal/health\<close>).
  \<open>DeployEngine\<close>: the phase engine that drives a canary deployment
  (\<open>internal/deploy/engine/engine.go\<close>). \<open>RollbackController\<close> and \<open>RollbackStrategies\<close>: the
  automatic and manual rollbacks (\<open>internal/rollback\<close>).

  Progressive rollouts. \<open>RolloutModel\<close>: strategies, their validation and the snapshot of an
  attachment. \<open>RolloutResolver\<close>: inheritance along organization, project and application.
  \<open>RolloutRepo\<close>, \<open>Applicators\<close>, \<open>RolloutService\<close>: the tables, the way a rollout reaches a
  deployment or a targeting rule, attachment and the six runtime controls.
  \<open>RolloutControls\<close>: their contract and the invariant of all histories. \<open>RolloutEngine\<close>: gates,
  poll loop, phases and the drive; the poll loop is a partial function (option), so not
  returning is the value None. \<open>RolloutDrive\<close>: the loop is a scan of its readings, when it
  ends, when it does not, and what status a drive leaves. \<open>StrategyStore\<close> and
  \<open>StrategyCatalog\<close>: templates, defaults and policies with their services, and the invariant
  of all histories. \<open>RolloutAttach\<close>: how a template is resolved and a mandate enforced.
  \<open>RolloutGroups\<close>: groups and the coordinator of sibling rollouts.

  Feature flags. \<open>FlagModel\<close>, \<open>FlagStore\<close>, \<open>FlagService\<close>: flags, rules, segments, their tables,
  the Redis cache in front of them and the service. \<open>FlagTargeting\<close>: the rules as functions,
  with SHA-256, \<open>strconv.ParseFloat\<close> and the string functions of the standard library written
  out. \<open>FlagEvaluator\<close>: evaluation through the cache, refined against the tables.

  Access. \<open>Access\<close>: roles, permissions, the resolution of a request, and the members of an
  organization with the guard for the last owner. \<open>ApiKeys\<close>: keys, hashing (Argon2 is a
  parameter), validation and rotation.

  Life of a flag. \<open>FlagLifecycle\<close>: test results, scheduled removal, queued deletion, the
  scheduler and the retention job (\<open>internal/flags/lifecycle_scheduler.go\<close>,
  \<open>retention_sweep.go\<close> and the service). \<open>FlagReverts\<close>: undoing an audited change
  (\<open>internal/auth/revert_registry.go\<close>, \<open>internal/flags/revert.go\<close>). \<open>AuditLog\<close>: the rows of the
  audit log and its foreign keys.

  Staging. \<open>Json\<close>: documents, decoding into \<open>any\<close> and into structs, RFC 3339 timestamps;
  \<open>FlagJson\<close>: the documents of flags and rules. \<open>Staging\<close>: pending changes, provisional
  identifiers, planning and the resolver (\<open>internal/staging\<close>); parsing and printing identifiers
  are parameters. \<open>StagingCommit\<close>: the registries and the service, with the locale
  \<open>commit_registry\<close> that says what a registry promises and the theorems every such registry
  has. \<open>StagingHandlers\<close>: the handlers of the flag, rollout, settings and members families and the registry of the
  process. \<open>StagingRegistry\<close>: this registry keeps the contract (the interpretation
  \<open>process_commits\<close>), and what a commit does with it.

  \<open>StagingOverlay\<close>: lists and details with pending changes applied, and when the preview is what
  a commit gives.

  Requests. \<open>FlagRequests\<close>: the handlers of the flag API (\<open>internal/flags/handler.go\<close>,
  \<open>lifecycle_handler.go\<close>) as programs over bodies already parsed into documents: status codes, audit
  entries, events to the connected clients and notes to the webhooks. \<open>FlagFrame\<close>: what the service
  calls leave alone; \<open>FlagRequestLaws\<close>: what holds of any history of requests.

  Groups and grants. \<open>Grants\<close>: user groups and grants on projects and applications
  (\<open>internal/groups\<close>, \<open>internal/grants\<close>); \<open>GrantLaws\<close>: the access a user has in terms of the tables,
  slugs, and the invariant of all histories.

  Entities. \<open>Entities\<close>: organizations, projects, applications and environments
  (\<open>internal/entities\<close>, \<open>postgres/entities.go\<close>) on top of the grants; \<open>EntityLaws\<close>: who sees and
  reaches them, when a row disappears, the invariant of all histories of requests, and what the
  error paths leave.

  Webhooks. \<open>Webhooks\<close>: endpoints, deliveries, signatures, retries, the check of an address and the
  requests (\<open>internal/webhooks\<close>), with the redirects that the HTTP client follows; \<open>WebhookLaws\<close>:
  what goes out over any history, where a redirect takes a delivery, and who may change an endpoint.

  Settings. \<open>Settings\<close>: hierarchical settings, their table, their resolution from the
  environment up to the organization, and the service (\<open>internal/settings\<close>).


  How the theories are connected. A deployment or flag call inside a rollout runs on its part
  of the larger store (\<open>on_deploy\<close>, \<open>on_flags\<close>, \<open>on_rollouts\<close>). The locale \<open>frame\<close> (Prelude) is the
  interface through which a component learns what another one leaves alone: it is
  interpreted on every frame relation of the development (\<open>kept\<close>, \<open>ledger\<close>, \<open>catalog\<close> and
  others), and its rules carry the relation through the combinators. \<open>spec\<close> is the Hoare triple
  used where the intermediate assertions matter.

  Bounds and fuel. Loops over lists are structural. The poll loop and the rolling loop are
  partial functions with proofs of when they return. The decimal digits of a float64 are
  searched up to seventeen, which always suffice to read it back. Everything else is total.

  Not modelled: the HTTP layer (\<open>handler.go\<close> files other than those of the flags, the
  webhooks, the groups, the grants and the entities, middleware, CORS, request logging), the
  wiring of \<open>cmd/\<close> except the adapters the rollouts use, the command line client, the SDKs,
  the web and mobile front ends, the notification channels, the analytics and reporting
  queries, and third-party integrations: they format, transport or query, and what they
  decide is decided by the services above. The component list of the manifest names each of
  them. Listings are left out where they only order rows by the collation of the database.
\<close>

end
